(* ===== verification/Prelude.thy ===== *)
theory Prelude
  imports Main "HOL-Library.AList"
begin

text \<open>
  Shared ground of the development: JavaScript text, ordered maps, the generic contracts
  (locales) of state machines, of streaming converters and of keyed stores, and the lemma
  collections the component theories fill.

  Text is a list of UTF-16 code units (\<open>jstr\<close>), as JavaScript counts \<open>length\<close> and slices;
  \<open>js ''abc''\<close> is a literal. JavaScript's \<open>Map\<close> is an association list in insertion order:
  \<open>AList.update\<close> overwrites in place or appends, \<open>AList.delete\<close> removes, \<open>map_of\<close> reads.
\<close>

named_theorems text_simps \<open>evaluation of text operations\<close>
named_theorems inv_intros \<open>preservation of component invariants, one rule per operation\<close>

section \<open>Text\<close>

type_synonym jstr = "nat list"

definition js :: "string \<Rightarrow> jstr" where
  "js s = map of_char s"

lemma js_Nil [simp]: "js [] = []"
  by (simp add: js_def)

lemma js_eq_iff [simp]: "js a = js b \<longleftrightarrow> a = b"
  by (simp add: js_def inj_map_eq_map inj_on_def of_char_eq_iff)

lemma js_eq_Nil [simp]: "js a = [] \<longleftrightarrow> a = []"
  by (simp add: js_def)

lemma length_js [simp]: "length (js s) = length s"
  by (simp add: js_def)

text \<open>The code units \<open>String.prototype.trim\<close> and \<open>\s\<close> treat as white space.\<close>

definition js_space :: "nat \<Rightarrow> bool" where
  "js_space c \<longleftrightarrow> c \<in> {9, 10, 11, 12, 13, 32, 160, 5760, 8232, 8233, 8239, 8287, 12288, 65279}
     \<or> (8192 \<le> c \<and> c \<le> 8202)"

definition trim_start :: "jstr \<Rightarrow> jstr" where
  "trim_start s = dropWhile js_space s"

definition trim_end :: "jstr \<Rightarrow> jstr" where
  "trim_end s = rev (dropWhile js_space (rev s))"

definition trim :: "jstr \<Rightarrow> jstr" where
  "trim s = trim_end (trim_start s)"

definition starts_with :: "jstr \<Rightarrow> jstr \<Rightarrow> bool" where
  "starts_with p s \<longleftrightarrow> take (length p) s = p"

definition ends_with :: "jstr \<Rightarrow> jstr \<Rightarrow> bool" where
  "ends_with p s \<longleftrightarrow> length p \<le> length s \<and> drop (length s - length p) s = p"

fun join :: "jstr \<Rightarrow> jstr list \<Rightarrow> jstr" where
  "join sep [] = []"
| "join sep [x] = x"
| "join sep (x # y # xs) = x @ sep @ join sep (y # xs)"

text \<open>\<open>s.split(sep)\<close> for a one-unit separator.\<close>

fun split_on :: "nat \<Rightarrow> jstr \<Rightarrow> jstr list" where
  "split_on sep [] = [[]]"
| "split_on sep (c # cs) =
     (if c = sep then [] # split_on sep cs
      else (case split_on sep cs of [] \<Rightarrow> [[c]] | w # ws \<Rightarrow> (c # w) # ws))"

text \<open>Decimal text of integers, as template strings print them.\<close>

fun dec_nat :: "nat \<Rightarrow> jstr" where
  "dec_nat n = (if n < 10 then [48 + n] else dec_nat (n div 10) @ [48 + n mod 10])"

declare dec_nat.simps [simp del]

definition dec_int :: "int \<Rightarrow> jstr" where
  "dec_int i = (if i < 0 then 45 # dec_nat (nat (- i)) else dec_nat (nat i))"

definition is_digit :: "nat \<Rightarrow> bool" where
  "is_digit c \<longleftrightarrow> 48 \<le> c \<and> c \<le> 57"

definition is_lower :: "nat \<Rightarrow> bool" where
  "is_lower c \<longleftrightarrow> 97 \<le> c \<and> c \<le> 122"

definition is_upper :: "nat \<Rightarrow> bool" where
  "is_upper c \<longleftrightarrow> 65 \<le> c \<and> c \<le> 90"

text \<open>E.164 as both packages test it: \<open>/^\+[1-9]\d{6,14}$/\<close>.\<close>

definition e164 :: "jstr \<Rightarrow> bool" where
  "e164 s = (case s of
     p # d # ds \<Rightarrow> p = 43 \<and> 49 \<le> d \<and> d \<le> 57 \<and> list_all is_digit ds
       \<and> 6 \<le> length ds \<and> length ds \<le> 14
   | _ \<Rightarrow> False)"

text \<open>\<open>String(x)\<close> of an optional string, and \<open>x ?? ""\<close>.\<close>

definition undef_text :: "jstr option \<Rightarrow> jstr" where
  "undef_text x = (case x of None \<Rightarrow> js ''undefined'' | Some s \<Rightarrow> s)"

definition or_empty :: "jstr option \<Rightarrow> jstr" where
  "or_empty x = (case x of None \<Rightarrow> [] | Some s \<Rightarrow> s)"

text \<open>ASCII lower case, \<open>includes\<close>, and a literal searched without regard to case (\<open>/lit/i\<close>).\<close>

definition to_lower :: "jstr \<Rightarrow> jstr" where
  "to_lower s = map (\<lambda>c. if is_upper c then c + 32 else c) s"

fun js_includes :: "jstr \<Rightarrow> jstr \<Rightarrow> bool" where
  "js_includes p [] \<longleftrightarrow> p = []"
| "js_includes p (c # cs) \<longleftrightarrow> starts_with p (c # cs) \<or> js_includes p cs"

definition includes_ci :: "jstr \<Rightarrow> jstr \<Rightarrow> bool" where
  "includes_ci p s = js_includes (to_lower p) (to_lower s)"

lemma trim_end_Nil [simp]: "trim_end [] = []"
  by (simp add: trim_end_def)

lemma trim_Nil [simp]: "trim [] = []"
  by (simp add: trim_def trim_start_def)

lemma length_trim_start: "length (trim_start s) \<le> length s"
  by (simp add: trim_start_def length_dropWhile_le)

lemma length_trim_end: "length (trim_end s) \<le> length s"
  using length_dropWhile_le [of js_space "rev s"] by (simp add: trim_end_def)

lemma length_trim: "length (trim s) \<le> length s"
  using length_trim_end [of "trim_start s"] length_trim_start [of s] by (simp add: trim_def)

lemma length_join:
  "length (join sep xs) = sum_list (map length xs) + length sep * (length xs - 1)"
  by (induction sep xs rule: join.induct) auto

lemma dec_nat_nonempty [simp]: "dec_nat n \<noteq> []"
  by (subst dec_nat.simps) simp

lemma dec_nat_digits: "list_all is_digit (dec_nat n)"
proof (induction n rule: dec_nat.induct)
  case (1 n)
  show ?case
  proof (cases "n < 10")
    case True
    then show ?thesis by (subst dec_nat.simps) (simp add: is_digit_def)
  next
    case False
    have "n mod 10 < 10" by simp
    then have "is_digit (48 + n mod 10)" by (simp add: is_digit_def)
    moreover have "list_all is_digit (dec_nat (n div 10))" using 1 False by blast
    ultimately show ?thesis using False by (subst dec_nat.simps) simp
  qed
qed

text \<open>Reading the digits back gives the number, so decimal texts of different numbers differ.\<close>

definition digits_value :: "jstr \<Rightarrow> nat" where
  "digits_value s = foldl (\<lambda>a c. 10 * a + (c - 48)) 0 s"

lemma dec_nat_value: "digits_value (dec_nat n) = n"
proof (induction n rule: dec_nat.induct)
  case (1 n)
  show ?case
  proof (cases "n < 10")
    case True
    then show ?thesis by (subst dec_nat.simps) (simp add: digits_value_def)
  next
    case False
    then have "digits_value (dec_nat (n div 10)) = n div 10" using 1 by blast
    then show ?thesis using False by (subst dec_nat.simps) (simp add: digits_value_def)
  qed
qed

lemma dec_nat_inj [simp]: "dec_nat a = dec_nat b \<longleftrightarrow> a = b"
  by (metis dec_nat_value)

end
