(* ===== verification/Contracts.thy ===== *)
theory Contracts
  imports Prelude "HOL-Library.Multiset"
begin

text \<open>
  The contracts the components rely on, as locales: a machine driven by events with an
  invariant (\<open>event_machine\<close>), a streaming converter whose output does not depend on how its
  input is cut into chunks (\<open>stream_converter\<close>), and a keyed store (\<open>keyed_store\<close>, the
  behaviour of JavaScript's \<open>Map\<close> and of files addressed by path). Each is interpreted, in the
  theory of the component that provides it, on the component's own operations.
\<close>

section \<open>Event machines\<close>

locale event_machine =
  fixes step :: "'s \<Rightarrow> 'e \<Rightarrow> 's"
    and inv :: "'s \<Rightarrow> bool"
  assumes step_inv: "inv s \<Longrightarrow> inv (step s e)"
begin

lemma run_inv: "inv s \<Longrightarrow> inv (foldl step s es)"
  by (induction es arbitrary: s) (auto intro: step_inv)

lemma run_inv_take: "inv s \<Longrightarrow> inv (foldl step s (take n es))"
  by (rule run_inv)

end

section \<open>Streaming converters\<close>

text \<open>Feed a list of chunks one after the other, collecting what each yields.\<close>

fun feed_all :: "('s \<Rightarrow> 'a list \<Rightarrow> 's \<times> 'b list) \<Rightarrow> 's \<Rightarrow> 'a list list \<Rightarrow> 's \<times> 'b list" where
  "feed_all feed s [] = (s, [])"
| "feed_all feed s (c # cs) =
     (let (s1, out1) = feed s c; (s2, out2) = feed_all feed s1 cs in (s2, out1 @ out2))"

locale stream_converter =
  fixes feed :: "'s \<Rightarrow> 'a list \<Rightarrow> 's \<times> 'b list"
  assumes feed_Nil: "feed s [] = (s, [])"
    and feed_append: "feed s (xs @ ys) =
      (let (s1, out1) = feed s xs; (s2, out2) = feed s1 ys in (s2, out1 @ out2))"
begin

lemma feed_all_concat: "feed_all feed s cs = feed s (concat cs)"
proof (induction cs arbitrary: s)
  case Nil
  show ?case by (simp add: feed_Nil)
next
  case (Cons c cs)
  show ?case by (simp add: Cons feed_append)
qed

lemma chunking_irrelevant:
  assumes "concat cs = concat ds"
  shows "feed_all feed s cs = feed_all feed s ds"
  by (simp add: feed_all_concat assms)

end

section \<open>Keyed stores\<close>

locale keyed_store =
  fixes get :: "'m \<Rightarrow> 'k \<Rightarrow> 'v option"
    and put :: "'k \<Rightarrow> 'v \<Rightarrow> 'm \<Rightarrow> 'm"
    and del :: "'k \<Rightarrow> 'm \<Rightarrow> 'm"
  assumes get_put: "get (put k v m) k' = (if k' = k then Some v else get m k')"
    and get_del: "get (del k m) k' = (if k' = k then None else get m k')"
begin

lemma get_put_same [simp]: "get (put k v m) k = Some v"
  by (simp add: get_put)

lemma get_del_same [simp]: "get (del k m) k = None"
  by (simp add: get_del)

lemma get_put_other: "k' \<noteq> k \<Longrightarrow> get (put k v m) k' = get m k'"
  by (simp add: get_put)

lemma get_del_other: "k' \<noteq> k \<Longrightarrow> get (del k m) k' = get m k'"
  by (simp add: get_del)

lemma get_put_all:
  "get (fold (\<lambda>(k, v). put k v) kvs m) k =
     (case map_of (rev kvs) k of Some v \<Rightarrow> Some v | None \<Rightarrow> get m k)"
proof (induction kvs arbitrary: m)
  case Nil
  show ?case by simp
next
  case (Cons kv kvs)
  obtain k' v where "kv = (k', v)" by (cases kv)
  then show ?case
    by (simp add: Cons map_add_def get_put split: option.splits)
qed

end

text \<open>JavaScript's \<open>Map\<close> (insertion-ordered association list) is a keyed store.\<close>

definition jm_get :: "('k \<times> 'v) list \<Rightarrow> 'k \<Rightarrow> 'v option" where
  "jm_get m k = map_of m k"

definition jm_set :: "'k \<Rightarrow> 'v \<Rightarrow> ('k \<times> 'v) list \<Rightarrow> ('k \<times> 'v) list" where
  "jm_set k v m = AList.update k v m"

definition jm_delete :: "'k \<Rightarrow> ('k \<times> 'v) list \<Rightarrow> ('k \<times> 'v) list" where
  "jm_delete k m = AList.delete k m"

interpretation jmap: keyed_store jm_get jm_set jm_delete
  by unfold_locales (auto simp: jm_get_def jm_set_def jm_delete_def update_conv' delete_conv')

lemma jm_delete_fresh: "k \<notin> fst ` set m \<Longrightarrow> jm_delete k m = m"
  by (induction m) (auto simp: jm_delete_def)

lemma set_jm_delete: "set (jm_delete k m) = {p \<in> set m. fst p \<noteq> k}"
  by (induction m) (auto simp: jm_delete_def)

lemma distinct_jm_delete: "distinct (map fst m) \<Longrightarrow> distinct (map fst (jm_delete k m))"
  by (simp add: jm_delete_def distinct_delete)

lemma distinct_jm_set: "distinct (map fst m) \<Longrightarrow> distinct (map fst (jm_set k v m))"
  by (simp add: jm_set_def distinct_update)

lemma jm_set_fresh: "k \<notin> fst ` set m \<Longrightarrow> jm_set k v m = m @ [(k, v)]"
  by (induction m) (auto simp: jm_set_def)

lemma keys_jm_set: "fst ` set (jm_set k v m) = insert k (fst ` set m)"
  by (simp add: jm_set_def dom_update)

lemma keys_jm_delete: "fst ` set (jm_delete k m) = fst ` set m - {k}"
  by (auto simp: set_jm_delete image_iff)

lemma delete_key_mset:
  "distinct (map fst m) \<Longrightarrow> jm_get m k = Some v \<Longrightarrow>
     mset m = {#(k, v)#} + mset (jm_delete k m)"
proof (induction m)
  case (Cons p m)
  show ?case
  proof (cases "fst p = k")
    case True
    then have "k \<notin> fst ` set m" using Cons.prems by auto
    then have "jm_delete k m = m" by (rule jm_delete_fresh)
    then show ?thesis using True Cons.prems by (cases p) (auto simp: jm_delete_def jm_get_def)
  next
    case False
    then show ?thesis using Cons by (auto simp: jm_delete_def jm_get_def)
  qed
qed (simp add: jm_get_def)

end
