(* ===== verification/Bytes.thy ===== *)
theory Bytes
  imports Prelude Complex_Main "HOL-Library.Word"
begin

text \<open>
  Byte buffers of PCM audio: \<open>Buffer\<close> as a list of bytes, signed little-endian 16-bit samples
  (\<open>readInt16LE\<close>, \<open>writeInt16LE\<close>), the clamp to the 16-bit range and JavaScript's
  \<open>Math.round\<close>. The converters, the mixer and the speech gate of the calls use these.
\<close>

type_synonym byte = "8 word"

definition le16 :: "byte \<Rightarrow> byte \<Rightarrow> int" where
  "le16 lo hi = (let v = uint lo + 256 * uint hi in if v < 32768 then v else v - 65536)"

definition bytes16 :: "int \<Rightarrow> byte list" where
  "bytes16 s = [word_of_int s, word_of_int (s div 256)]"

definition int16 :: "int \<Rightarrow> bool" where
  "int16 s \<longleftrightarrow> - 32768 \<le> s \<and> s \<le> 32767"

text \<open>The samples of a buffer: \<open>length >> 1\<close> of them, an odd last byte is not read.\<close>

fun samples :: "byte list \<Rightarrow> int list" where
  "samples (lo # hi # bs) = le16 lo hi # samples bs"
| "samples _ = []"

definition pcm_bytes :: "int list \<Rightarrow> byte list" where
  "pcm_bytes xs = concat (map bytes16 xs)"

definition js_round :: "real \<Rightarrow> int" where
  "js_round x = \<lfloor>x + 1 / 2\<rfloor>"

definition clamp16 :: "int \<Rightarrow> int" where
  "clamp16 x = max (- 32768) (min 32767 x)"

lemma uint_byte: "0 \<le> uint (b :: byte)" "uint (b :: byte) < 256"
  using uint_bounded [of b] by simp_all

lemma int16_wrap: "0 \<le> v \<Longrightarrow> v < 65536 \<Longrightarrow> int16 (if v < 32768 then v else v - 65536)"
  by (simp add: int16_def)

lemma le16_int16: "int16 (le16 lo hi)"
  unfolding le16_def Let_def
  using uint_byte [of lo] uint_byte [of hi] by (intro int16_wrap) linarith+

lemma clamp16_int16 [simp]: "int16 (clamp16 x)"
  by (simp add: int16_def clamp16_def)

lemma clamp16_id: "int16 x \<Longrightarrow> clamp16 x = x"
  by (simp add: int16_def clamp16_def)

lemma length_samples: "length (samples bs) = length bs div 2"
  by (induction bs rule: samples.induct) auto

lemma samples_int16: "x \<in> set (samples bs) \<Longrightarrow> int16 x"
  by (induction bs rule: samples.induct) (auto simp: le16_int16)

lemma length_bytes16 [simp]: "length (bytes16 s) = 2"
  by (simp add: bytes16_def)

lemma length_pcm_bytes [simp]: "length (pcm_bytes xs) = 2 * length xs"
  by (induction xs) (auto simp: pcm_bytes_def)

lemma even_length_pcm_bytes: "even (length (pcm_bytes xs))"
  by simp

lemma uint_word_of_int_byte: "uint (word_of_int s :: byte) = s mod 256"
  by (simp add: uint_word_of_int)

lemma le16_bytes16:
  assumes "int16 s"
  shows "le16 (word_of_int s) (word_of_int (s div 256)) = s"
proof -
  have "s mod 256 + 256 * (s div 256 mod 256) = s mod 65536"
    using mod_mult2_eq' [of s 256 256] by simp
  moreover have "s mod 65536 = (if 0 \<le> s then s else s + 65536)"
    using assms mod_pos_neg_trivial [of s 65536] mod_pos_pos_trivial [of s 65536]
      mod_add_self2 [of s 65536] mod_pos_pos_trivial [of "s + 65536" 65536]
    by (auto simp: int16_def)
  ultimately show ?thesis
    using assms unfolding le16_def Let_def uint_word_of_int_byte int16_def by auto
qed

lemma samples_pcm_bytes: "list_all int16 xs \<Longrightarrow> samples (pcm_bytes xs) = xs"
  by (induction xs) (auto simp: pcm_bytes_def bytes16_def le16_bytes16)

lemma samples_append:
  "even (length xs) \<Longrightarrow> samples (xs @ ys) = samples xs @ samples ys"
  by (induction xs rule: samples.induct) auto

lemma pcm_bytes_append [simp]: "pcm_bytes (xs @ ys) = pcm_bytes xs @ pcm_bytes ys"
  by (simp add: pcm_bytes_def)

end
