(* ===== verification/Mix.thy ===== *)
theory Mix
  imports Bytes Contracts
begin

text \<open>
  \<open>src/openclaw-voice/src/mix.ts\<close>: \<open>CallMix\<close>, what a listener hears. The voice model's audio
  queues in whole chunks; each chunk of the line takes as many bytes from the queue and is
  mixed with them. The abstract view of the mixer is one byte stream (\<open>mix_stream\<close>); the lemmas
  show that queueing appends to it, that taking takes its front, and that mixing is the clamped
  sum of the two sides. Reading a 16-bit sample across the end of the taken bytes throws
  (\<open>RangeError\<close>); it is the \<open>None\<close> of \<open>mix_line\<close>.
\<close>

record call_mix =
  queue :: "byte list list"
  queued :: nat

definition MAX_QUEUED_BYTES :: nat where
  "MAX_QUEUED_BYTES = 30000 * 32"

definition new_mix :: call_mix where
  "new_mix = \<lparr>queue = [], queued = 0\<rparr>"

text \<open>\<open>while (queued > MAX && queue.length > 1) queued -= queue.shift().length\<close>\<close>

fun drop_old :: "byte list list \<Rightarrow> nat \<Rightarrow> byte list list \<times> nat" where
  "drop_old (c # d # cs) n =
     (if n > MAX_QUEUED_BYTES then drop_old (d # cs) (n - length c) else (c # d # cs, n))"
| "drop_old q n = (q, n)"

definition mix_model :: "call_mix \<Rightarrow> byte list \<Rightarrow> call_mix" where
  "mix_model m pcm =
     (if pcm = [] then m
      else (let (q, n) = drop_old (queue m @ [pcm]) (queued m + length pcm)
            in m\<lparr>queue := q, queued := n\<rparr>))"

definition mix_clear :: "call_mix \<Rightarrow> call_mix" where
  "mix_clear m = m\<lparr>queue := [], queued := 0\<rparr>"

text \<open>The loop of \<open>take\<close>: what it has taken and the queue that stays.\<close>

fun take_loop :: "nat \<Rightarrow> byte list list \<Rightarrow> byte list \<times> byte list list" where
  "take_loop n [] = ([], [])"
| "take_loop n (h # q) =
     (if n = 0 then ([], h # q)
      else if length h \<le> n then (let (got, q') = take_loop (n - length h) q in (h @ got, q'))
      else (take n h, drop n h # q))"

definition mix_take :: "call_mix \<Rightarrow> nat \<Rightarrow> call_mix \<times> byte list" where
  "mix_take m n = (let (got, q) = take_loop n (queue m)
     in (m\<lparr>queue := q, queued := queued m - length got\<rparr>, got))"

text \<open>
  The loop of \<open>line\<close> over the samples: \<open>i < model.length ? model.readInt16LE(i) : 0\<close>. With one
  byte of the model's audio left, the read is out of range and throws.
\<close>

fun mix_samples :: "byte list \<Rightarrow> byte list \<Rightarrow> byte list option" where
  "mix_samples (a # b # pcm) (x # y # model) =
     map_option (\<lambda>r. bytes16 (clamp16 (le16 a b + le16 x y)) @ r) (mix_samples pcm model)"
| "mix_samples (a # b # pcm) [x] = None"
| "mix_samples (a # b # pcm) [] =
     map_option (\<lambda>r. bytes16 (clamp16 (le16 a b)) @ r) (mix_samples pcm [])"
| "mix_samples _ _ = Some []"

definition mix_line :: "call_mix \<Rightarrow> byte list \<Rightarrow> call_mix \<times> byte list option" where
  "mix_line m pcm =
     (let n = length pcm - length pcm mod 2; (m', model) = mix_take m n
      in (m', mix_samples pcm model))"

section \<open>The mixer as one byte stream\<close>

definition mix_stream :: "call_mix \<Rightarrow> byte list" where
  "mix_stream m = concat (queue m)"

definition mix_ok :: "call_mix \<Rightarrow> bool" where
  "mix_ok m \<longleftrightarrow> queued m = length (concat (queue m))
     \<and> (queued m \<le> MAX_QUEUED_BYTES \<or> length (queue m) \<le> 1)
     \<and> list_all (\<lambda>c. c \<noteq> []) (queue m)"

definition mix_even :: "call_mix \<Rightarrow> bool" where
  "mix_even m \<longleftrightarrow> list_all (\<lambda>c. even (length c)) (queue m)"

lemma drop_old_length:
  "n = length (concat q) \<Longrightarrow> drop_old q n = (q', n') \<Longrightarrow> n' = length (concat q')"
  by (induction q n arbitrary: q' n' rule: drop_old.induct) (auto split: if_splits)

lemma drop_old_bound:
  "drop_old q n = (q', n') \<Longrightarrow> n' \<le> MAX_QUEUED_BYTES \<or> length q' \<le> 1"
  by (induction q n arbitrary: q' n' rule: drop_old.induct) (auto split: if_splits)

lemma drop_old_suffix:
  "drop_old q n = (q', n') \<Longrightarrow> \<exists>p. q = p @ q'"
proof (induction q n arbitrary: q' n' rule: drop_old.induct)
  case (1 c d cs n)
  show ?case
  proof (cases "n > MAX_QUEUED_BYTES")
    case True
    then obtain p where "d # cs = p @ q'" using 1 by fastforce
    then have "c # d # cs = (c # p) @ q'" by simp
    then show ?thesis by blast
  next
    case False
    then show ?thesis using 1 by simp
  qed
qed auto

lemma take_loop_spec:
  "take_loop n q = (got, q') \<Longrightarrow> got = take n (concat q) \<and> concat q' = drop n (concat q)"
  by (induction n q arbitrary: got q' rule: take_loop.induct)
     (auto split: if_splits prod.splits)

lemma take_loop_nonempty:
  "list_all (\<lambda>c. c \<noteq> []) q \<Longrightarrow> take_loop n q = (got, q') \<Longrightarrow> list_all (\<lambda>c. c \<noteq> []) q'"
  by (induction n q arbitrary: got q' rule: take_loop.induct)
     (auto split: if_splits prod.splits)

lemma take_loop_even:
  "list_all (\<lambda>c. even (length c)) q \<Longrightarrow> even n \<Longrightarrow> take_loop n q = (got, q') \<Longrightarrow>
     even (length got) \<and> list_all (\<lambda>c. even (length c)) q'"
  by (induction n q arbitrary: got q' rule: take_loop.induct)
     (auto split: if_splits prod.splits)

lemma take_loop_shorter: "take_loop n q = (got, q') \<Longrightarrow> length q' \<le> length q"
  by (induction n q arbitrary: got q' rule: take_loop.induct)
     (auto split: if_splits prod.splits simp: le_Suc_eq)

lemma mix_take_stream:
  "mix_take m n = (m', got) \<Longrightarrow> got = take n (mix_stream m) \<and> mix_stream m' = drop n (mix_stream m)"
  by (auto simp: mix_take_def mix_stream_def dest: take_loop_spec split: prod.splits)

text \<open>What the mixed samples are, when every read is in range.\<close>

fun add_samples :: "int list \<Rightarrow> int list \<Rightarrow> int list" where
  "add_samples (a # as) (x # xs) = clamp16 (a + x) # add_samples as xs"
| "add_samples (a # as) [] = clamp16 a # add_samples as []"
| "add_samples [] _ = []"

lemma mix_samples_spec:
  "even (length model) \<Longrightarrow>
     mix_samples pcm model = Some (pcm_bytes (add_samples (samples pcm) (samples model)))"
  by (induction pcm model rule: mix_samples.induct) (auto simp: pcm_bytes_def)

lemma length_add_samples [simp]: "length (add_samples as xs) = length as"
  by (induction as xs rule: add_samples.induct) auto

lemma add_samples_int16: "list_all int16 (add_samples as xs)"
  by (induction as xs rule: add_samples.induct) auto

section \<open>Invariant\<close>

lemma new_mix_ok [inv_intros]: "mix_ok new_mix"
  by (simp add: mix_ok_def new_mix_def)

lemma mix_clear_ok [inv_intros]: "mix_ok (mix_clear m)"
  by (simp add: mix_ok_def mix_clear_def)

lemma drop_old_nonempty:
  "list_all P q \<Longrightarrow> drop_old q n = (q', n') \<Longrightarrow> list_all P q'"
  by (induction q n arbitrary: q' n' rule: drop_old.induct) (auto split: if_splits)

lemma mix_model_ok [inv_intros]:
  assumes "mix_ok m"
  shows "mix_ok (mix_model m pcm)"
proof (cases "pcm = []")
  case True
  then show ?thesis using assms by (simp add: mix_model_def)
next
  case False
  obtain q n where d: "drop_old (queue m @ [pcm]) (queued m + length pcm) = (q, n)"
    by (cases "drop_old (queue m @ [pcm]) (queued m + length pcm)")
  have "queued m + length pcm = length (concat (queue m @ [pcm]))"
    using assms by (simp add: mix_ok_def)
  then have "n = length (concat q)" using d by (rule drop_old_length)
  moreover have "list_all (\<lambda>c. c \<noteq> []) q"
    using assms False by (intro drop_old_nonempty [OF _ d]) (simp add: mix_ok_def)
  ultimately show ?thesis
    using False d drop_old_bound [OF d] by (simp add: mix_model_def mix_ok_def)
qed

lemma mix_take_ok:
  assumes "mix_ok m" and "mix_take m n = (m', got)"
  shows "mix_ok m'"
proof -
  obtain q where l: "take_loop n (queue m) = (got, q)" and m': "m' = m\<lparr>queue := q, queued := queued m - length got\<rparr>"
    using assms(2) by (auto simp: mix_take_def split: prod.splits)
  have "length (concat q) = queued m - length got"
    using take_loop_spec [OF l] assms(1) by (simp add: mix_ok_def)
  moreover have "list_all (\<lambda>c. c \<noteq> []) q"
    using assms(1) l by (auto simp: mix_ok_def dest: take_loop_nonempty)
  ultimately show ?thesis
    using assms(1) take_loop_shorter [OF l] by (auto simp: m' mix_ok_def)
qed

lemma mix_line_ok [inv_intros]: "mix_ok m \<Longrightarrow> mix_ok (fst (mix_line m pcm))"
  by (auto simp: mix_line_def Let_def dest: mix_take_ok split: prod.splits)

lemma mix_model_stream_short:
  assumes "mix_ok m" and "queued m + length pcm \<le> MAX_QUEUED_BYTES"
  shows "mix_stream (mix_model m pcm) = mix_stream m @ pcm"
proof -
  have "drop_old q n = (q, n)" if "n \<le> MAX_QUEUED_BYTES" for q n
    using that by (induction q n rule: drop_old.induct) auto
  then show ?thesis using assms by (simp add: mix_model_def mix_stream_def)
qed

lemma mix_model_even:
  "mix_even m \<Longrightarrow> even (length pcm) \<Longrightarrow> mix_even (mix_model m pcm)"
  using drop_old_nonempty [of "\<lambda>c. even (length c)" "queue m @ [pcm]" "queued m + length pcm"]
  by (auto simp: mix_even_def mix_model_def split: prod.splits)

datatype mix_event = Mix_model "byte list" | Mix_line "byte list" | Mix_clear

fun mix_step :: "call_mix \<Rightarrow> mix_event \<Rightarrow> call_mix" where
  "mix_step m (Mix_model pcm) = mix_model m pcm"
| "mix_step m (Mix_line pcm) = fst (mix_line m pcm)"
| "mix_step m Mix_clear = mix_clear m"

interpretation mixer: event_machine mix_step mix_ok
proof
  fix s e assume "mix_ok s"
  then show "mix_ok (mix_step s e)" by (cases e) (auto intro: inv_intros)
qed

section \<open>Properties\<close>

text \<open>
  A listener hears the clamped sum of both sides, sample by sample, and mixing consumes
  exactly that stretch of the voice model's audio: for whole-sample model audio no read is out
  of range, the output is as long as the line's chunk (less an odd last byte), and what is left
  of the queue is the rest of its byte stream, whatever the chunks were.
\<close>

lemma mix_line_mixes:
  assumes "mix_even m"
  shows "snd (mix_line m pcm) =
      Some (pcm_bytes (add_samples (samples pcm) (samples (take (length pcm - length pcm mod 2) (mix_stream m)))))
    \<and> mix_stream (fst (mix_line m pcm)) = drop (length pcm - length pcm mod 2) (mix_stream m)
    \<and> mix_even (fst (mix_line m pcm))"
proof -
  let ?n = "length pcm - length pcm mod 2"
  obtain q got where l: "take_loop ?n (queue m) = (got, q)"
    by (cases "take_loop ?n (queue m)")
  have "even ?n" by simp
  then have ev: "even (length got)" "list_all (\<lambda>c. even (length c)) q"
    using take_loop_even [OF _ _ l] assms by (auto simp: mix_even_def)
  have "got = take ?n (mix_stream m)" "concat q = drop ?n (mix_stream m)"
    using take_loop_spec [OF l] by (auto simp: mix_stream_def)
  then show ?thesis
    using ev l by (simp add: mix_line_def mix_take_def mix_samples_spec mix_stream_def mix_even_def)
qed

lemma mix_line_mixes_witness:
  "mix_even (mix_model new_mix (pcm_bytes [30000, 5]))
   \<and> snd (mix_line (mix_model new_mix (pcm_bytes [30000, 5])) (pcm_bytes [10000]))
       = Some (pcm_bytes [32767])"
proof -
  have e: "mix_even (mix_model new_mix (pcm_bytes [30000, 5]))"
    by (rule mix_model_even) (auto simp: mix_even_def new_mix_def)
  have s: "mix_stream (mix_model new_mix (pcm_bytes [30000, 5])) = pcm_bytes [30000, 5]"
    by (subst mix_model_stream_short) (auto simp: mix_ok_def new_mix_def mix_stream_def MAX_QUEUED_BYTES_def)
  have t: "take 2 (pcm_bytes [30000, 5]) = pcm_bytes [30000]"
    by (simp add: pcm_bytes_def bytes16_def)
  have "samples (pcm_bytes [30000]) = [30000]" "samples (pcm_bytes [10000]) = [10000]"
    by (simp_all add: samples_pcm_bytes int16_def)
  then show ?thesis
    using e mix_line_mixes [OF e, of "pcm_bytes [10000]"] by (simp add: s t clamp16_def)
qed

text \<open>
  The mixer's bookkeeping over any run of events: the byte count is the length of what is
  queued, and the queue never holds more than 30 seconds of the voice model's audio unless that
  is a single chunk.
\<close>

lemma mixer_queue_bounded:
  "queued (foldl mix_step new_mix es) = length (mix_stream (foldl mix_step new_mix es))
   \<and> (queued (foldl mix_step new_mix es) \<le> MAX_QUEUED_BYTES
      \<or> length (queue (foldl mix_step new_mix es)) \<le> 1)"
  using mixer.run_inv [OF new_mix_ok, of es] by (auto simp: mix_ok_def mix_stream_def)

end
