(* ===== verification/G711.thy ===== *)
theory G711
  imports Bytes Contracts
begin

unbundle bit_operations_syntax

text \<open>
  \<open>src/openclaw-voice/src/g711.ts\<close>: the G.711 mu-law codec and the 2x resamplers of the
  Twilio lines. \<open>muLawDecode\<close> and \<open>muLawEncode\<close> use the source's bit operations (on
  integers: every intermediate value is below \<open>2^16\<close>, so JavaScript's 32-bit truncation never
  applies); filter samples are doubles in the source and reals here. The lemmas give the round
  trip on bytes, the quantisation error, the ring buffer of \<open>Fir\<close> as a sliding window, and that
  both converters are streaming (their output does not depend on how the audio is chunked).
\<close>

section \<open>The codec\<close>

definition BIAS :: int where
  "BIAS = 132"

definition CLIP :: int where
  "CLIP = 32635"

definition muLawDecode :: "int \<Rightarrow> int" where
  "muLawDecode byte =
     (let v = NOT byte AND 255;
          t = push_bit (nat (drop_bit 4 (v AND 112))) (push_bit 3 (v AND 15) + BIAS)
      in if v AND 128 \<noteq> 0 then BIAS - t else t - BIAS)"

text \<open>\<open>for (mask = 0x4000; (s & mask) === 0 && exponent > 0; mask >>= 1) exponent--\<close>\<close>

fun find_exponent :: "int \<Rightarrow> int \<Rightarrow> nat \<Rightarrow> nat" where
  "find_exponent s mk 0 = 0"
| "find_exponent s mk (Suc e) =
     (if s AND mk = 0 then find_exponent s (drop_bit 1 mk) e else Suc e)"

definition muLawEncode_rounded :: "int \<Rightarrow> int" where
  "muLawEncode_rounded r =
     (let s0 = max (- 32768) (min 32767 r);
          sign = (if s0 < 0 then 128 else 0);
          s1 = (if s0 < 0 then - s0 else s0);
          s2 = (if s1 > CLIP then CLIP else s1);
          s = s2 + BIAS;
          ex = find_exponent s 16384 7;
          mantissa = drop_bit (ex + 3) s AND 15
      in NOT (sign OR push_bit 4 (int ex) OR mantissa) AND 255)"

definition muLawEncode :: "real \<Rightarrow> int" where
  "muLawEncode sample = muLawEncode_rounded (js_round sample)"

definition DECODE :: "int list" where
  "DECODE = map muLawDecode [0..255]"

lemma js_round_int [simp]: "js_round (of_int i) = i"
  by (simp add: js_round_def)

lemma DECODE_nth: "b < 256 \<Longrightarrow> DECODE ! b = muLawDecode (int b)"
  by (simp add: DECODE_def)

lemma codec_table:
  "list_all (\<lambda>b. int16 (muLawDecode b)
      \<and> muLawEncode_rounded (muLawDecode b) = (if b = 127 then 255 else b)) [0..255]"
  by code_simp

lemma codec_byte:
  assumes "0 \<le> b" "b < 256"
  shows "int16 (muLawDecode b)"
    and "muLawEncode_rounded (muLawDecode b) = (if b = 127 then 255 else b)"
  using codec_table assms by (auto simp: list_all_iff)

section \<open>Quantisation\<close>

text \<open>
  The exponent loop finds the position of the highest set bit: for a biased magnitude in
  \<open>[132, 32768)\<close> it is the \<open>e\<close> with \<open>2^(e+7) \<le> s < 2^(e+8)\<close>.
\<close>

lemma mask_bit: "s AND 2 ^ n = 0 \<longleftrightarrow> even (s div 2 ^ n)" for s :: int
  by (metis and_exp_eq_0_iff_not_bit bit_iff_odd)

lemma find_exponent_le: "find_exponent s mk e \<le> e"
  by (induction s mk e rule: find_exponent.induct) (auto simp: le_Suc_eq)

lemma power_halve: "(2::int) ^ Suc n div 2 = 2 ^ n"
  by simp

lemma find_exponent_spec:
  assumes "0 \<le> s" "s < 2 ^ (e + 8)"
  shows "s < 2 ^ (find_exponent s (2 ^ (e + 7)) e + 8)
    \<and> (find_exponent s (2 ^ (e + 7)) e > 0 \<longrightarrow> 2 ^ (find_exponent s (2 ^ (e + 7)) e + 7) \<le> s)"
  using assms
proof (induction e)
  case 0
  then show ?case by simp
next
  case (Suc e)
  have mask: "drop_bit 1 (2 ^ (Suc e + 7) :: int) = 2 ^ (e + 7)"
    using power_halve [of "e + 7"] by (simp add: drop_bit_eq_div)
  show ?case
  proof (cases "s < 2 ^ (Suc e + 7)")
    case True
    then have "s div 2 ^ (Suc e + 7) = 0" using Suc.prems by (simp add: div_pos_pos_trivial)
    then have "s AND 2 ^ (Suc e + 7) = 0" by (simp only: mask_bit) simp
    then have "find_exponent s (2 ^ (Suc e + 7)) (Suc e) = find_exponent s (2 ^ (e + 7)) e"
      using mask by simp
    moreover have "s < 2 ^ (e + 8)" using True by (simp add: ac_simps)
    ultimately show ?thesis using Suc.IH Suc.prems(1) by presburger
  next
    case False
    have "s div 2 ^ (Suc e + 7) = 1"
      using False Suc.prems by (intro int_div_pos_eq [where r = "s - 2 ^ (Suc e + 7)"]) (simp_all add: power_add)
    then have "s AND 2 ^ (Suc e + 7) \<noteq> 0" by (simp only: mask_bit) simp
    then show ?thesis using False Suc.prems by simp
  qed
qed

lemma pack_unpack_table:
  "list_all (\<lambda>e. list_all (\<lambda>m. list_all (\<lambda>sg.
      (let v = NOT (NOT (sg OR push_bit 4 e OR m) AND 255) AND 255
       in v AND 15 = m \<and> drop_bit 4 (v AND 112) = e \<and> v AND 128 = sg))
     [0, 128]) [0..15]) [0..7 :: int]"
  by code_simp

lemma unpack:
  assumes "(NOT byte AND 255) AND 15 = m" "drop_bit 4 ((NOT byte AND 255) AND 112) = int e"
    "(NOT byte AND 255) AND 128 = sg" "sg = 0 \<or> sg = 128"
  shows "muLawDecode byte =
    (let t = 2 ^ e * (8 * m + BIAS) in if sg = 128 then BIAS - t else t - BIAS)"
  unfolding muLawDecode_def Let_def assms(1-3) using assms(4)
  by (auto simp: push_bit_eq_mult ac_simps)

lemma pack_unpack:
  assumes "e \<le> 7" "0 \<le> m" "m < 16" "sg = 0 \<or> sg = 128"
  shows "muLawDecode (NOT (sg OR push_bit 4 (int e) OR m) AND 255) =
    (let t = 2 ^ e * (8 * m + BIAS) in if sg = 128 then BIAS - t else t - BIAS)"
proof (rule unpack)
  have m: "m \<in> set [0..15]" and e: "int e \<in> set [0..7]" and g: "sg \<in> set [0, 128]"
    using assms by auto
  note t = pack_unpack_table [unfolded list_all_iff Let_def, rule_format, OF e m g]
  let ?v = "NOT (NOT (sg OR push_bit 4 (int e) OR m) AND 255) AND 255"
  show "?v AND 15 = m" "drop_bit 4 (?v AND 112) = int e" "?v AND 128 = sg"
    using t by blast+
qed (rule assms(4))

lemma and15: "x AND 15 = x mod 16" for x :: int
  using take_bit_eq_mask [of 4 x] by (simp add: take_bit_eq_mod mask_eq_exp_minus_1)

text \<open>The mantissa and the reconstructed magnitude of a biased magnitude \<open>s\<close>.\<close>

lemma magnitude_error:
  fixes s :: int
  assumes s: "132 \<le> s" "s < 32768"
  defines "e \<equiv> find_exponent s 16384 7"
  defines "m \<equiv> drop_bit (e + 3) s AND 15"
  shows "0 \<le> m" "m < 16" "32 * \<bar>2 ^ e * (8 * m + BIAS) - s\<bar> \<le> s"
proof -
  let ?q = "s div 2 ^ (e + 3)" and ?r = "s mod 2 ^ (e + 3)"
  have e: "s < 2 ^ (e + 8)" "0 < e \<longrightarrow> 2 ^ (e + 7) \<le> s"
    using find_exponent_spec [of s 7] s by (auto simp: e_def)
  have lo: "2 ^ (e + 7) \<le> s" using e(2) s by (cases "e = 0") auto
  have m: "m = ?q mod 16"
    by (simp add: m_def drop_bit_eq_div and15)
  show "0 \<le> m" "m < 16" by (simp_all add: m)
  have p: "(2::int) ^ (e + 7) = 16 * 2 ^ (e + 3)" "(2::int) ^ (e + 8) = 32 * 2 ^ (e + 3)"
    "(2::int) ^ (e + 3) = 8 * 2 ^ e"
    by (simp_all add: power_add)
  let ?P = "(2::int) ^ (e + 3)"
  have sr: "s = ?P * ?q + ?r" by simp
  have r: "0 \<le> ?r" "?r < ?P" by simp_all
  have "?P * 16 < ?P * (?q + 1)" using lo p r sr by (simp only: distrib_left)
  then have "16 \<le> ?q" by (simp only: mult_less_cancel_left_pos zero_less_power zero_less_numeral)
  moreover have "?P * ?q < ?P * 32" using e(1) p r sr by linarith
  then have "?q < 32" by (simp only: mult_less_cancel_left_pos zero_less_power zero_less_numeral)
  ultimately have mq: "m = ?q - 16"
    using m mod_pos_pos_trivial [of "?q - 16" 16] mod_add_self2 [of "?q - 16" 16] by simp
  have "2 ^ e * (8 * m + BIAS) = 2 ^ (e + 3) * ?q + 4 * 2 ^ e"
    by (simp add: mq BIAS_def p(3) algebra_simps)
  then have "\<bar>2 ^ e * (8 * m + BIAS) - s\<bar> \<le> 4 * 2 ^ e"
    using sr r p(3) by linarith
  then have "32 * \<bar>2 ^ e * (8 * m + BIAS) - s\<bar> \<le> 32 * (4 * 2 ^ e)"
    by simp
  also have "\<dots> \<le> s" using lo by (simp add: power_add)
  finally show "32 * \<bar>2 ^ e * (8 * m + BIAS) - s\<bar> \<le> s" .
qed

lemma encode_decode_error:
  assumes "\<bar>r\<bar> \<le> CLIP"
  shows "32 * \<bar>muLawDecode (muLawEncode_rounded r) - r\<bar> \<le> \<bar>r\<bar> + BIAS"
proof -
  let ?s = "\<bar>r\<bar> + BIAS" and ?sg = "if r < 0 then 128 else (0::int)"
  let ?e = "find_exponent ?s 16384 7" and ?m = "drop_bit (find_exponent ?s 16384 7 + 3) ?s AND 15"
  have b: "132 \<le> ?s" "?s < 32768" using assms by (auto simp: BIAS_def CLIP_def)
  have enc: "muLawEncode_rounded r = NOT (?sg OR push_bit 4 (int ?e) OR ?m) AND 255"
    using assms by (auto simp: muLawEncode_rounded_def Let_def CLIP_def)
  have "muLawDecode (muLawEncode_rounded r) =
      (let t = 2 ^ ?e * (8 * ?m + BIAS) in if ?sg = 128 then BIAS - t else t - BIAS)"
    unfolding enc using magnitude_error(1,2) [OF b] find_exponent_le [of ?s 16384 7]
    by (intro pack_unpack) auto
  moreover define t where "t = 2 ^ ?e * (8 * ?m + BIAS)"
  ultimately have dec: "muLawDecode (muLawEncode_rounded r) = (if r < 0 then BIAS - t else t - BIAS)"
    by (simp add: Let_def)
  have "32 * \<bar>t - ?s\<bar> \<le> ?s" using magnitude_error(3) [OF b] by (simp add: t_def)
  then show ?thesis unfolding dec by (auto simp: abs_if split: if_splits)
qed

section \<open>The low-pass filter\<close>

definition TAPS :: "real list" where
  "TAPS = (let n = 31; fc = 3400 / 16000;
       h = map (\<lambda>i. let m = real i - (real n - 1) / 2;
                       sinc = (if m = 0 then 2 * fc else sin (2 * pi * fc * m) / (pi * m));
                       hamming = 54 / 100 - 46 / 100 * cos (2 * pi * real i / (real n - 1))
                   in sinc * hamming) [0..<n];
       sum = foldl (+) 0 h
     in map (\<lambda>x. x / sum) h)"

record fir =
  hist :: "real list"
  pos :: nat

definition new_fir :: fir where
  "new_fir = \<lparr>hist = replicate (length TAPS) 0, pos = 0\<rparr>"

fun fir_acc :: "nat \<Rightarrow> real list \<Rightarrow> real list \<Rightarrow> nat \<Rightarrow> real \<Rightarrow> real" where
  "fir_acc n [] h k acc = acc"
| "fir_acc n (c # cs) h k acc = fir_acc n cs h (if k = 0 then n - 1 else k - 1) (acc + c * h ! k)"

definition fir_push :: "fir \<Rightarrow> real \<Rightarrow> fir \<times> real" where
  "fir_push f x =
     (let h = (hist f)[pos f := x]; acc = fir_acc (length TAPS) TAPS h (pos f) 0
      in (\<lparr>hist = h, pos = (pos f + 1) mod length TAPS\<rparr>, acc))"

lemma length_TAPS [simp]: "length TAPS = 31"
  by (simp add: TAPS_def Let_def)

definition fir_ok :: "fir \<Rightarrow> bool" where
  "fir_ok f \<longleftrightarrow> length (hist f) = length TAPS \<and> pos f < length TAPS"

text \<open>The last samples, newest first: what the ring buffer stands for.\<close>

definition fir_window :: "fir \<Rightarrow> real list" where
  "fir_window f = map (\<lambda>i. hist f ! ((pos f + length TAPS - 1 - i) mod length TAPS)) [0..<length TAPS]"

lemma new_fir_ok: "fir_ok new_fir"
  by (simp add: fir_ok_def new_fir_def)

lemma fir_push_ok: "fir_ok f \<Longrightarrow> fir_ok (fst (fir_push f x))"
  by (simp add: fir_ok_def fir_push_def Let_def)

lemma fir_acc_sum:
  assumes "k < n"
  shows "length cs \<le> n \<Longrightarrow>
    fir_acc n cs h k acc = acc + (\<Sum>i<length cs. cs ! i * h ! ((k + n - i) mod n))"
  using assms
proof (induction cs arbitrary: k acc)
  case Nil
  then show ?case by simp
next
  case (Cons c cs)
  let ?k = "if k = 0 then n - 1 else k - 1"
  have k: "?k < n" using Cons.prems by auto
  have step: "(?k + n - i) mod n = (k + n - Suc i) mod n" if "i < length cs" for i
  proof (cases "k = 0")
    case True
    then have "?k + n - i = (n - Suc i) + n" using that Cons.prems by simp
    then show ?thesis using True by simp
  qed simp
  have "fir_acc n (c # cs) h k acc = (acc + c * h ! k) + (\<Sum>i<length cs. cs ! i * h ! ((?k + n - i) mod n))"
    using Cons.IH [OF _ k] Cons.prems by simp
  also have "(\<Sum>i<length cs. cs ! i * h ! ((?k + n - i) mod n)) = (\<Sum>i<length cs. cs ! i * h ! ((k + n - Suc i) mod n))"
    using step by (intro sum.cong) auto
  finally show ?case
    using Cons.prems by (simp add: sum.lessThan_Suc_shift del: sum.lessThan_Suc)
qed

text \<open>Where the \<open>i\<close>-th newest sample stands, before and after the position moves.\<close>

lemma ring_index:
  fixes p i :: nat
  assumes "p < 31" "i < 31"
  shows "((p + 1) mod 31 + 30 - i) mod 31 = (p + 31 - i) mod 31"
    and "(p + 31 - i) mod 31 = (if i \<le> p then p - i else p + 31 - i)"
proof -
  have a: "(p + 31 - i) mod 31 = (if i \<le> p then p - i else p + 31 - i)" if "p < 31" "i < 31" for p i :: nat
  proof (cases "i \<le> p")
    case True
    then have "(p + 31 - i) mod 31 = ((p - i) + 31) mod 31" by simp
    also have "\<dots> = p - i" using that unfolding mod_add_self2 by simp
    finally show ?thesis using True by simp
  next
    case False
    then show ?thesis using that by simp
  qed
  show "(p + 31 - i) mod 31 = (if i \<le> p then p - i else p + 31 - i)"
    by (rule a [OF assms])
  show "((p + 1) mod 31 + 30 - i) mod 31 = (p + 31 - i) mod 31"
  proof (cases "p + 1 = 31")
    case True
    then have "p = 30" by simp
    then show ?thesis using a [OF assms] assms by simp
  next
    case False
    then have "(p + 1) mod 31 = p + 1" using assms by simp
    then show ?thesis by (simp add: ac_simps)
  qed
qed

lemma fir_window_push:
  assumes "fir_ok f" "i < 31"
  shows "fir_window (fst (fir_push f x)) ! i = (hist f)[pos f := x] ! ((pos f + 31 - i) mod 31)"
  using ring_index(1) [OF _ assms(2), of "pos f"] assms
  by (simp add: fir_window_def fir_push_def Let_def fir_ok_def ac_simps)

lemma fir_push_window:
  assumes "fir_ok f"
  shows "fir_window (fst (fir_push f x)) = x # butlast (fir_window f)"
proof (rule nth_equalityI)
  show "length (fir_window (fst (fir_push f x))) = length (x # butlast (fir_window f))"
    by (simp add: fir_window_def)
next
  fix i assume "i < length (fir_window (fst (fir_push f x)))"
  then have i: "i < 31" by (simp add: fir_window_def)
  let ?p = "pos f"
  have p: "?p < 31" "length (hist f) = 31" using assms by (auto simp: fir_ok_def)
  show "fir_window (fst (fir_push f x)) ! i = (x # butlast (fir_window f)) ! i"
  proof (cases i)
    case 0
    then show ?thesis using fir_window_push [OF assms i] p by simp
  next
    case (Suc j)
    then have "(?p + 31 - i) mod 31 \<noteq> ?p"
      using i p(1) ring_index(2) [OF p(1) i] by (auto split: if_splits)
    moreover have "(?p + 31 - i) mod 31 = (30 + ?p - j) mod 31" using Suc by (simp add: ac_simps)
    ultimately show ?thesis
      using fir_window_push [OF assms i, of x] Suc i p by (simp add: nth_butlast fir_window_def)
  qed
qed

lemma fir_push_value:
  assumes "fir_ok f"
  shows "snd (fir_push f x) = (\<Sum>i<length TAPS. TAPS ! i * fir_window (fst (fir_push f x)) ! i)"
proof -
  have p: "pos f < 31" using assms by (simp add: fir_ok_def)
  have "snd (fir_push f x) = 0 + (\<Sum>i<length TAPS. TAPS ! i * (hist f)[pos f := x] ! ((pos f + 31 - i) mod 31))"
    using fir_acc_sum [OF p, of TAPS "(hist f)[pos f := x]" 0] by (simp add: fir_push_def Let_def)
  then show ?thesis using fir_window_push [OF assms] by simp
qed

section \<open>The converters\<close>

text \<open>\<open>MuLawToPcm16k\<close>: one byte in, two samples out (zero-stuffed, low-passed with gain 2).\<close>

definition fir_clamp :: "real \<Rightarrow> int" where
  "fir_clamp x = clamp16 (js_round x)"

definition mulaw_byte :: "fir \<Rightarrow> byte \<Rightarrow> fir \<times> byte list" where
  "mulaw_byte f b =
     (let (f1, y1) = fir_push f (of_int (DECODE ! unat b));
          (f2, y2) = fir_push f1 0
      in (f2, bytes16 (fir_clamp (2 * y1)) @ bytes16 (fir_clamp (2 * y2))))"

fun mulaw_to_pcm :: "fir \<Rightarrow> byte list \<Rightarrow> fir \<times> byte list" where
  "mulaw_to_pcm f [] = (f, [])"
| "mulaw_to_pcm f (b # bs) =
     (let (f1, out1) = mulaw_byte f b; (f2, out2) = mulaw_to_pcm f1 bs in (f2, out1 @ out2))"

record pcm_to_mulaw =
  pm_fir :: fir
  pm_odd :: bool

definition new_pcm_to_mulaw :: pcm_to_mulaw where
  "new_pcm_to_mulaw = \<lparr>pm_fir = new_fir, pm_odd = False\<rparr>"

text \<open>\<open>Pcm16kToMuLaw\<close>: every sample is filtered, every second one is kept.\<close>

fun pcm_to_mulaw_samples :: "pcm_to_mulaw \<Rightarrow> int list \<Rightarrow> pcm_to_mulaw \<times> byte list" where
  "pcm_to_mulaw_samples c [] = (c, [])"
| "pcm_to_mulaw_samples c (x # xs) =
     (let (f, y) = fir_push (pm_fir c) (of_int x);
          (c', out) = pcm_to_mulaw_samples \<lparr>pm_fir = f, pm_odd = \<not> pm_odd c\<rparr> xs
      in (c', (if pm_odd c then [] else [word_of_int (muLawEncode y)]) @ out))"

definition pcm_to_mulaw_process :: "pcm_to_mulaw \<Rightarrow> byte list \<Rightarrow> pcm_to_mulaw \<times> byte list" where
  "pcm_to_mulaw_process c pcm = pcm_to_mulaw_samples c (samples pcm)"

interpretation mulaw_in: stream_converter mulaw_to_pcm
proof
  fix f xs ys
  show "mulaw_to_pcm f [] = (f, [])" by simp
  show "mulaw_to_pcm f (xs @ ys) =
      (let (s1, out1) = mulaw_to_pcm f xs; (s2, out2) = mulaw_to_pcm s1 ys in (s2, out1 @ out2))"
    by (induction xs arbitrary: f) (auto simp: Let_def split: prod.splits)
qed

interpretation mulaw_out: stream_converter pcm_to_mulaw_samples
proof
  fix c xs ys
  show "pcm_to_mulaw_samples c [] = (c, [])" by simp
  show "pcm_to_mulaw_samples c (xs @ ys) =
      (let (s1, out1) = pcm_to_mulaw_samples c xs; (s2, out2) = pcm_to_mulaw_samples s1 ys in (s2, out1 @ out2))"
    by (induction xs arbitrary: c) (auto simp: Let_def split: prod.splits)
qed

lemma feed_all_process:
  "list_all (\<lambda>c. even (length c)) cs \<Longrightarrow>
     feed_all pcm_to_mulaw_process c cs = feed_all pcm_to_mulaw_samples c (map samples cs)"
  by (induction cs arbitrary: c) (auto simp: pcm_to_mulaw_process_def split: prod.splits)

lemma samples_concat:
  "list_all (\<lambda>c. even (length c)) cs \<Longrightarrow> samples (concat cs) = concat (map samples cs)"
  by (induction cs) (auto simp: samples_append)

lemma length_mulaw_byte: "length (snd (mulaw_byte f b)) = 4"
  by (simp add: mulaw_byte_def Let_def split: prod.splits)

lemma length_mulaw_to_pcm: "length (snd (mulaw_to_pcm f bs)) = 4 * length bs"
proof (induction bs arbitrary: f)
  case (Cons b bs)
  then show ?case
    using length_mulaw_byte [of f b] by (simp add: case_prod_beta Let_def)
qed simp

lemma length_pcm_to_mulaw:
  "length (snd (pcm_to_mulaw_samples c xs)) = (length xs + (if pm_odd c then 0 else 1)) div 2
   \<and> pm_odd (fst (pcm_to_mulaw_samples c xs)) = (pm_odd c \<noteq> odd (length xs))"
proof (induction xs arbitrary: c)
  case (Cons x xs)
  let ?c = "\<lparr>pm_fir = fst (fir_push (pm_fir c) (of_int x)), pm_odd = \<not> pm_odd c\<rparr>"
  have "length (snd (pcm_to_mulaw_samples ?c xs)) = (length xs + (if pm_odd c then 1 else 0)) div 2"
    "pm_odd (fst (pcm_to_mulaw_samples ?c xs)) = ((\<not> pm_odd c) \<noteq> odd (length xs))"
    using Cons [of ?c] by auto
  then show ?case by (auto simp: case_prod_beta Let_def)
qed simp

section \<open>Properties\<close>

text \<open>
  Every mu-law byte decodes to a 16-bit sample, and encoding that sample gives the byte
  back, except that the two encodings of zero (127 and 255) become 255.
\<close>

lemma mulaw_byte_roundtrip:
  "int16 (DECODE ! unat (b :: byte))
   \<and> muLawEncode (of_int (DECODE ! unat b)) = (if b = 127 then 255 else uint b)"
proof -
  have "unat b < 256" using unsigned_less [of b, where ?'a = nat] by simp
  moreover have "b = 127 \<longleftrightarrow> uint b = 127" by (simp add: word_uint_eq_iff)
  ultimately show ?thesis
    using codec_byte [of "uint b"] uint_byte [of b]
    by (simp add: DECODE_nth muLawEncode_def)
qed

text \<open>
  Encoding a sample and decoding it again is off by at most a 32nd of its biased magnitude
  (the G.711 quantisation step), for every magnitude up to the clipping level.
\<close>

lemma mulaw_quantisation:
  assumes "\<bar>r\<bar> \<le> CLIP"
  shows "32 * \<bar>muLawDecode (muLawEncode (of_int r)) - r\<bar> \<le> \<bar>r\<bar> + BIAS"
  using encode_decode_error [OF assms] by (simp add: muLawEncode_def)

lemma mulaw_quantisation_witness:
  "32 * \<bar>muLawDecode (muLawEncode (of_int (- 1000))) - (- 1000)\<bar> \<le> 1132"
  using mulaw_quantisation [of "- 1000"] by (simp add: CLIP_def BIAS_def)

text \<open>
  The filter's ring buffer is a sliding window: pushing a sample shifts it in as the newest
  and drops the oldest, and the value returned is the convolution of the window with the taps.
\<close>

lemma fir_is_sliding_convolution:
  assumes "fir_ok f"
  shows "fir_ok (fst (fir_push f x))
    \<and> fir_window (fst (fir_push f x)) = x # butlast (fir_window f)
    \<and> snd (fir_push f x) = (\<Sum>i<length TAPS. TAPS ! i * (x # butlast (fir_window f)) ! i)"
  using fir_push_ok [OF assms] fir_push_window [OF assms] fir_push_value [OF assms] by simp

lemma fir_is_sliding_convolution_witness:
  "fir_window (fst (fir_push new_fir 7)) = 7 # butlast (fir_window new_fir)"
  using fir_is_sliding_convolution [OF new_fir_ok, of 7] by simp

text \<open>
  The converters are streaming: audio cut into chunks converts to the same bytes as in one
  piece (chunks of whole samples on the way out), at four bytes of PCM for each mu-law byte and
  one mu-law byte for each pair of samples.
\<close>

lemma converters_chunking_irrelevant:
  "feed_all mulaw_to_pcm f cs = mulaw_to_pcm f (concat cs)
   \<and> length (snd (feed_all mulaw_to_pcm f cs)) = 4 * length (concat cs)
   \<and> (list_all (\<lambda>c. even (length c)) ds \<longrightarrow>
       feed_all pcm_to_mulaw_process new_pcm_to_mulaw ds = pcm_to_mulaw_process new_pcm_to_mulaw (concat ds)
       \<and> length (snd (feed_all pcm_to_mulaw_process new_pcm_to_mulaw ds)) = (length (concat ds) div 2 + 1) div 2)"
proof -
  have "feed_all pcm_to_mulaw_process c ds = pcm_to_mulaw_process c (concat ds)"
    if "list_all (\<lambda>c. even (length c)) ds" for c
    using that by (simp add: feed_all_process mulaw_out.feed_all_concat pcm_to_mulaw_process_def samples_concat)
  then show ?thesis
    by (simp add: mulaw_in.feed_all_concat length_mulaw_to_pcm length_pcm_to_mulaw
        pcm_to_mulaw_process_def length_samples new_pcm_to_mulaw_def)
qed

lemma converters_chunking_irrelevant_witness:
  "feed_all pcm_to_mulaw_process new_pcm_to_mulaw [pcm_bytes [1], pcm_bytes [2, 3]]
     = pcm_to_mulaw_process new_pcm_to_mulaw (pcm_bytes [1, 2, 3])"
  using converters_chunking_irrelevant [of new_fir "[]" "[pcm_bytes [1], pcm_bytes [2, 3]]"]
  by (simp add: pcm_bytes_def)

end
