(* ===== verification/LineSound.thy ===== *)
theory LineSound
  imports Prelude Contracts Complex_Main
begin

text \<open>
  \<open>src/openclaw-voice/src/linesound.ts\<close>: \<open>LineSound\<close>, what the line plays second by second.
  31 detector windows make a second; seconds make runs (a run of less than two seconds between
  two of the same sound is folded into them); a stretch of music or silence of five seconds puts
  the call on hold. Seconds of the call are integers here, the clock (\<open>nowSeconds\<close>) is an
  argument of the operation that reads it, probabilities and loudness are reals. The lemmas show
  that the runs tile the time of the call and that a hold, once found, stays where it began.
\<close>

datatype sound = Speech | Music | Silence

record sound_run =
  run_sound :: sound
  run_from :: int
  run_to :: int

definition WINDOWS_PER_SECOND :: nat where "WINDOWS_PER_SECOND = 31"
definition SPEECH_SHARE :: real where "SPEECH_SHARE = 3 / 10"
definition SILENCE_RMS :: real where "SILENCE_RMS = 3 / 1000"
definition HOLD_AFTER_SECONDS :: int where "HOLD_AFTER_SECONDS = 5"
definition BLIP_SECONDS :: int where "BLIP_SECONDS = 2"
definition RECENT_RUNS :: nat where "RECENT_RUNS = 12"

record line_sound =
  secs :: "sound list"
  start :: int
  windows :: nat
  speechWindows :: nat
  squares :: real

definition new_line_sound :: line_sound where
  "new_line_sound = \<lparr>secs = [], start = 0, windows = 0, speechWindows = 0, squares = 0\<rparr>"

definition sound_window :: "real \<Rightarrow> line_sound \<Rightarrow> real \<Rightarrow> real \<Rightarrow> line_sound \<times> sound option" where
  "sound_window nowSeconds l prob rms =
     (let l1 = l\<lparr>windows := windows l + 1,
                 speechWindows := speechWindows l + (if prob > 1 / 2 then 1 else 0),
                 squares := squares l + rms * rms\<rparr>
      in if windows l1 < WINDOWS_PER_SECOND then (l1, None)
         else (let snd1 = (if real (speechWindows l1) / real (windows l1) \<ge> SPEECH_SHARE then Speech
                           else if sqrt (squares l1 / real (windows l1)) \<ge> SILENCE_RMS then Music
                           else Silence);
                   l2 = l1\<lparr>windows := 0, speechWindows := 0, squares := 0\<rparr>;
                   l3 = (if secs l2 = [] then l2\<lparr>start := max 0 (\<lfloor>nowSeconds + 1 / 2\<rfloor> - 1)\<rparr> else l2)
               in (l3\<lparr>secs := secs l3 @ [snd1]\<rparr>, Some snd1)))"

text \<open>One round of the \<open>forEach\<close> of \<open>runs()\<close>; the runs so far are kept newest first.\<close>

fun add_run :: "sound \<Rightarrow> int \<Rightarrow> sound_run list \<Rightarrow> sound_run list" where
  "add_run s t [] = [\<lparr>run_sound = s, run_from = t, run_to = t + 1\<rparr>]"
| "add_run s t [l] =
     (if run_sound l = s then [l\<lparr>run_to := t + 1\<rparr>]
      else [\<lparr>run_sound = s, run_from = t, run_to = t + 1\<rparr>, l])"
| "add_run s t (l # before # rs) =
     (if run_sound l = s then l\<lparr>run_to := t + 1\<rparr> # before # rs
      else if run_sound before = s \<and> run_to l - run_from l < BLIP_SECONDS
      then before\<lparr>run_to := t + 1\<rparr> # rs
      else \<lparr>run_sound = s, run_from = t, run_to = t + 1\<rparr> # l # before # rs)"

fun runs_from :: "int \<Rightarrow> sound list \<Rightarrow> sound_run list \<Rightarrow> sound_run list" where
  "runs_from t [] rs = rs"
| "runs_from t (s # ss) rs = runs_from (t + 1) ss (add_run s t rs)"

definition sound_runs :: "line_sound \<Rightarrow> sound_run list" where
  "sound_runs l = rev (runs_from (start l) (secs l) [])"

text \<open>The backward loop of \<open>quietSince\<close>, over the runs newest first.\<close>

fun quiet_loop :: "sound_run list \<Rightarrow> int option \<Rightarrow> int option" where
  "quiet_loop [] q = q"
| "quiet_loop (r # rs) q = (if run_sound r = Speech then q else quiet_loop rs (Some (run_from r)))"

definition quiet_since :: "line_sound \<Rightarrow> int option" where
  "quiet_since l =
     (let runs = sound_runs l in
      case quiet_loop (rev runs) None of
        None \<Rightarrow> None
      | Some f \<Rightarrow> if run_to (last runs) - f \<ge> HOLD_AFTER_SECONDS then Some f else None)"

text \<open>
  The loop of \<open>summary\<close>; \<open>None\<close> for \<open>after\<close> is \<open>-Infinity\<close> (no key pressed yet). A run that
  is not over at the last press counts from the press.
\<close>

definition ended_by :: "real option \<Rightarrow> sound_run \<Rightarrow> bool" where
  "ended_by after r = (case after of None \<Rightarrow> False | Some a \<Rightarrow> of_int (run_to r) \<le> a)"

definition quiet_start :: "real option \<Rightarrow> sound_run \<Rightarrow> real" where
  "quiet_start after r = (case after of None \<Rightarrow> of_int (run_from r) | Some a \<Rightarrow> max (of_int (run_from r)) a)"

fun hold_loop :: "real option \<Rightarrow> real option \<Rightarrow> sound_run list \<Rightarrow> real option" where
  "hold_loop after q [] = None"
| "hold_loop after q (r # rs) =
     (if ended_by after r \<or> run_sound r = Speech then hold_loop after None rs
      else (let f = (case q of Some f \<Rightarrow> f | None \<Rightarrow> quiet_start after r)
            in if of_int (run_to r) - f \<ge> of_int HOLD_AFTER_SECONDS then Some f
               else hold_loop after (Some f) rs))"

record sound_summary =
  ss_now :: sound
  for_seconds :: int
  seconds_on_hold :: int
  recent :: "sound_run list"

definition sound_summary :: "line_sound \<Rightarrow> real option \<Rightarrow> sound_summary option" where
  "sound_summary l lastPressAt =
     (let runs = sound_runs l in
      if runs = [] then None
      else (let now = last runs; hold = hold_loop lastPressAt None runs
            in Some \<lparr>ss_now = run_sound now,
                  for_seconds = run_to now - run_from now,
                  seconds_on_hold = (case hold of None \<Rightarrow> 0
                     | Some h \<Rightarrow> \<lfloor>of_int (run_to now) - h + 1 / 2\<rfloor>),
                  recent = drop (length runs - RECENT_RUNS) runs\<rparr>))"

section \<open>The runs tile the call\<close>

text \<open>
  Newest-first runs over \<open>[a, t)\<close>: each run is nonempty and begins where the older one ends,
  and neighbours differ.
\<close>

fun tiled :: "int \<Rightarrow> int \<Rightarrow> sound_run list \<Rightarrow> bool" where
  "tiled a t [] \<longleftrightarrow> t = a"
| "tiled a t (r # rs) \<longleftrightarrow> run_to r = t \<and> run_from r < t \<and> tiled a (run_from r) rs
     \<and> (case rs of [] \<Rightarrow> True | r' # _ \<Rightarrow> run_sound r' \<noteq> run_sound r)"

lemma tiled_grow: "tiled a t (r # rs) \<Longrightarrow> tiled a (t + 1) (r\<lparr>run_to := t + 1\<rparr> # rs)"
  by (auto split: list.splits)

lemma tiled_new:
  "tiled a t (r # rs) \<Longrightarrow> run_sound r \<noteq> s \<Longrightarrow>
     tiled a (t + 1) (\<lparr>run_sound = s, run_from = t, run_to = t + 1\<rparr> # r # rs)"
  by auto

lemma tiled_fold: "tiled a t (l # b # rs) \<Longrightarrow> tiled a (t + 1) (b\<lparr>run_to := t + 1\<rparr> # rs)"
  by (auto split: list.splits)

lemma add_run_tiled: "tiled a t rs \<Longrightarrow> tiled a (t + 1) (add_run s t rs)"
proof (cases "(s, t, rs)" rule: add_run.cases)
  case (2 s' t' l)
  assume "tiled a t rs"
  then show ?thesis
    using 2 tiled_grow [of a t l "[]"] tiled_new [of a t l "[]" s] by (simp del: tiled.simps)
next
  case (3 s' t' l b qs)
  assume "tiled a t rs"
  then show ?thesis
    using 3 tiled_grow [of a t l "b # qs"] tiled_new [of a t l "b # qs" s] tiled_fold [of a t l b qs]
    by (simp del: tiled.simps)
qed simp

lemma add_run_now: "hd (add_run s t rs) = hd (add_run s t rs) \<and> add_run s t rs \<noteq> []"
  by (cases "(s, t, rs)" rule: add_run.cases) auto

lemma add_run_head: "run_sound (hd (add_run s t rs)) = s"
  by (cases "(s, t, rs)" rule: add_run.cases) auto

lemma runs_from_append: "runs_from t (xs @ ys) rs = runs_from (t + int (length xs)) ys (runs_from t xs rs)"
  by (induction t xs rs rule: runs_from.induct) (auto simp: ac_simps)

lemma runs_from_tiled: "tiled a t rs \<Longrightarrow> tiled a (t + int (length ss)) (runs_from t ss rs)"
proof (induction ss arbitrary: t rs)
  case (Cons s ss)
  show ?case using Cons.IH [OF add_run_tiled [OF Cons.prems, of s]] by (simp add: ac_simps)
qed simp

lemma runs_from_Nil_iff: "runs_from t ss [] = [] \<longleftrightarrow> ss = []"
proof (cases ss rule: rev_cases)
  case (snoc xs x)
  then show ?thesis using add_run_now [of x "t + int (length xs)" "runs_from t xs []"]
    by (simp add: runs_from_append)
qed simp

lemma runs_from_now: "ss \<noteq> [] \<Longrightarrow> run_sound (hd (runs_from t ss [])) = last ss"
  by (cases ss rule: rev_cases) (simp_all add: runs_from_append add_run_head)

section \<open>Quiet stretches\<close>

lemma quiet_loop_spec:
  "quiet_loop rs q = (case takeWhile (\<lambda>r. run_sound r \<noteq> Speech) rs of
      [] \<Rightarrow> q | r # qs \<Rightarrow> Some (run_from (last (r # qs))))"
proof (induction rs arbitrary: q)
  case (Cons r rs)
  then show ?case by (auto split: list.splits)
qed simp

text \<open>What the hold loop knows after a prefix of the runs: the hold, or the quiet start so far.\<close>

fun hold_state :: "real option \<Rightarrow> real option \<Rightarrow> sound_run list \<Rightarrow> real + real option" where
  "hold_state after q [] = Inr q"
| "hold_state after q (r # rs) =
     (if ended_by after r \<or> run_sound r = Speech then hold_state after None rs
      else (let f = (case q of Some f \<Rightarrow> f | None \<Rightarrow> quiet_start after r)
            in if of_int (run_to r) - f \<ge> of_int HOLD_AFTER_SECONDS then Inl f
               else hold_state after (Some f) rs))"

lemma hold_loop_append:
  "hold_loop after q (xs @ ys) =
     (case hold_state after q xs of Inl h \<Rightarrow> Some h | Inr q' \<Rightarrow> hold_loop after q' ys)"
  by (induction after q xs rule: hold_state.induct) (auto simp: Let_def)

lemma hold_loop_head:
  assumes "tiled a t (l # rs)" "hold_loop after q [l] = Some h"
  shows "hold_loop after q [l\<lparr>run_to := t + 1\<rparr>] = Some h"
  using assms by (auto simp: ended_by_def quiet_start_def Let_def split: option.splits if_splits)

lemma short_run_no_hold:
  assumes "run_to l - run_from l < BLIP_SECONDS"
  shows "hold_loop after None [l] = None"
  using assms by (auto simp: quiet_start_def Let_def BLIP_SECONDS_def HOLD_AFTER_SECONDS_def split: option.splits)

lemma hold_loop_fold:
  assumes t: "tiled a t (l # b # rs)" and blip: "run_to l - run_from l < BLIP_SECONDS"
    and h: "hold_loop after q [b, l] = Some h"
  shows "hold_loop after q [b\<lparr>run_to := t + 1\<rparr>] = Some h"
proof -
  have b: "run_to b = run_from l" "run_to l = t" "run_from l < t" using t by auto
  have no: "\<not> ended_by after b" "run_sound b \<noteq> Speech"
    using h short_run_no_hold [OF blip, of after] by (auto split: if_splits)
  show ?thesis
    using h no b short_run_no_hold [OF blip, of after]
    by (auto simp: Let_def ended_by_def quiet_start_def split: option.splits if_splits)
qed

lemma hold_loop_prefix:
  assumes "\<And>q. hold_loop after q ys = Some h \<Longrightarrow> hold_loop after q ys' = Some h"
    and "hold_loop after q (xs @ ys) = Some h"
  shows "hold_loop after q (xs @ ys') = Some h"
  using assms by (simp add: hold_loop_append split: sum.splits)

lemma hold_loop_more: "hold_loop after q ys = Some h \<Longrightarrow> hold_loop after q (ys @ zs) = Some h"
  using hold_loop_prefix [of after "[]" h zs q ys] by simp

lemma hold_loop_add_run:
  assumes t: "tiled a t rs" and h: "hold_loop after None (rev rs) = Some h"
  shows "hold_loop after None (rev (add_run s t rs)) = Some h"
proof (cases "(s, t, rs)" rule: add_run.cases)
  case (1 s' t')
  then show ?thesis using h by simp
next
  case (2 s' t' l)
  have "hold_loop after None [l] = Some h" using h 2 by (simp only: prod.inject rev.simps append_Nil)
  then show ?thesis
    using hold_loop_head [of a t l "[]" after None h] hold_loop_more [of after None "[l]" h] t 2
    by (simp del: hold_loop.simps)
next
  case (3 s' t' l b qs)
  then have rs: "rs = l # b # qs" by simp
  have more: "hold_loop after None ((rev qs @ [b, l]) @ zs) = Some h" for zs
    using hold_loop_more [of after None "rev qs @ [b, l]" h zs] h by (simp add: rs del: hold_loop.simps)
  have grow: "hold_loop after None ((rev qs @ [b]) @ [l\<lparr>run_to := t + 1\<rparr>]) = Some h"
    using h t by (intro hold_loop_prefix [of after "[l]" h "[l\<lparr>run_to := t + 1\<rparr>]"] hold_loop_head [of a t l "b # qs"])
      (simp_all only: rs rev.simps append_assoc)
  have folded: "hold_loop after None (rev qs @ [b\<lparr>run_to := t + 1\<rparr>]) = Some h"
    if "run_to l - run_from l < BLIP_SECONDS"
    using h t that by (intro hold_loop_prefix [of after "[b, l]" h "[b\<lparr>run_to := t + 1\<rparr>]"] hold_loop_fold [of a t l b qs])
      (simp_all add: rs del: hold_loop.simps tiled.simps)
  show ?thesis
    using more grow folded by (simp add: rs del: hold_loop.simps)
qed

lemma hold_loop_runs:
  assumes "tiled a t rs" "hold_loop after None (rev rs) = Some h"
  shows "hold_loop after None (rev (runs_from t ss rs)) = Some h"
  using assms
proof (induction ss arbitrary: t rs)
  case (Cons s ss)
  show ?case
    using Cons.IH [OF add_run_tiled [OF Cons.prems(1), of s] hold_loop_add_run [OF Cons.prems, of s]] by simp
qed simp

section \<open>Running the detector\<close>

text \<open>A window as it arrives: the clock, the speech probability and the loudness.\<close>

definition sound_feed :: "line_sound \<Rightarrow> real \<times> real \<times> real \<Rightarrow> line_sound" where
  "sound_feed l w = (case w of (now, prob, rms) \<Rightarrow> fst (sound_window now l prob rms))"

definition sound_ok :: "line_sound \<Rightarrow> bool" where
  "sound_ok l \<longleftrightarrow> windows l < WINDOWS_PER_SECOND \<and> speechWindows l \<le> windows l"

lemma sound_feed_ok: "sound_ok l \<Longrightarrow> sound_ok (sound_feed l w)"
  by (auto simp: sound_ok_def sound_feed_def sound_window_def Let_def WINDOWS_PER_SECOND_def split: prod.splits)

interpretation sound_machine: event_machine sound_feed sound_ok
  by unfold_locales (rule sound_feed_ok)

lemma new_line_sound_ok: "sound_ok new_line_sound"
  by (simp add: sound_ok_def new_line_sound_def WINDOWS_PER_SECOND_def)

lemma sound_feed_secs:
  "\<exists>more. secs (sound_feed l w) = secs l @ more
     \<and> (secs l \<noteq> [] \<longrightarrow> start (sound_feed l w) = start l)"
  by (auto simp: sound_feed_def sound_window_def Let_def split: prod.splits)

lemma sound_run_secs:
  "\<exists>more. secs (foldl sound_feed l ws) = secs l @ more
     \<and> (secs l \<noteq> [] \<longrightarrow> start (foldl sound_feed l ws) = start l)"
proof (induction ws arbitrary: l)
  case (Cons w ws)
  then show ?case
    using Cons [of "sound_feed l w"] sound_feed_secs [of l w] by fastforce
qed simp

lemma sound_feed_count:
  "sound_ok l \<Longrightarrow> 31 * length (secs (sound_feed l w)) + windows (sound_feed l w)
      = 31 * length (secs l) + windows l + 1"
  by (auto simp: sound_ok_def sound_feed_def sound_window_def Let_def WINDOWS_PER_SECOND_def split: prod.splits)

lemma sound_run_count:
  "sound_ok l \<Longrightarrow> 31 * length (secs (foldl sound_feed l ws)) + windows (foldl sound_feed l ws)
      = 31 * length (secs l) + windows l + length ws"
proof (induction ws arbitrary: l)
  case (Cons w ws)
  then show ?case
    using Cons.IH [of "sound_feed l w"] sound_feed_count [of l w] by (simp add: sound_feed_ok)
qed simp

lemma sound_runs_tiled: "tiled (start l) (start l + int (length (secs l))) (rev (sound_runs l))"
  using runs_from_tiled [of "start l" "start l" "[]" "secs l"] by (simp add: sound_runs_def)

lemma last_sound_runs: "secs l \<noteq> [] \<Longrightarrow> run_sound (last (sound_runs l)) = last (secs l)"
  using runs_from_now [of "secs l" "start l"] runs_from_Nil_iff [of "start l" "secs l"]
  by (simp add: sound_runs_def last_rev)

lemma sound_runs_Nil: "sound_runs l = [] \<longleftrightarrow> secs l = []"
  by (simp add: sound_runs_def runs_from_Nil_iff)

lemma split_takeWhile:
  "(\<exists>pre suf. rs = pre @ suf \<and> suf \<noteq> [] \<and> list_all P suf \<and> (pre = [] \<or> \<not> P (last pre)) \<and> f = g (hd suf))
    \<longleftrightarrow> (takeWhile P (rev rs) \<noteq> [] \<and> f = g (last (takeWhile P (rev rs))))"
  (is "?l \<longleftrightarrow> ?r")
proof
  assume ?l
  then obtain pre suf where d: "rs = pre @ suf" "suf \<noteq> []" "list_all P suf" "pre = [] \<or> \<not> P (last pre)"
    "f = g (hd suf)" by blast
  have t: "takeWhile P (rev suf) = rev suf"
    using d(3) by (simp add: takeWhile_eq_all_conv list_all_iff)
  have "takeWhile P (rev pre) = []"
    using d(4) by (cases pre rule: rev_cases) auto
  then have "takeWhile P (rev rs) = rev suf"
    using d(1,3) t by (simp add: takeWhile_append list_all_iff)
  then show ?r using d by (simp add: last_rev)
next
  assume r: ?r
  let ?suf = "rev (takeWhile P (rev rs))" and ?pre = "rev (dropWhile P (rev rs))"
  have "rs = ?pre @ ?suf"
    by (metis rev_append rev_rev_ident takeWhile_dropWhile_id)
  moreover have "list_all P ?suf" by (auto simp: list_all_iff dest: set_takeWhileD)
  moreover have "?pre = [] \<or> \<not> P (last ?pre)"
    using hd_dropWhile [of P "rev rs"] by (auto simp: last_rev)
  moreover have "f = g (hd ?suf)" using r by (simp add: hd_rev)
  moreover have "?suf \<noteq> []" using r by simp
  ultimately show ?l by blast
qed

section \<open>Properties\<close>

text \<open>
  Every 31 detector windows make exactly one second of the call's sound record, whatever
  the detector reports.
\<close>

lemma seconds_counted:
  "length (secs (foldl sound_feed new_line_sound ws)) = length ws div 31
   \<and> windows (foldl sound_feed new_line_sound ws) = length ws mod 31"
proof -
  let ?l = "foldl sound_feed new_line_sound ws"
  have "31 * length (secs ?l) + windows ?l = length ws"
    using sound_run_count [OF new_line_sound_ok, of ws] by (simp add: new_line_sound_def)
  moreover have "windows ?l < 31"
    using sound_machine.run_inv [OF new_line_sound_ok, of ws] by (simp add: sound_ok_def WINDOWS_PER_SECOND_def)
  ultimately show ?thesis by (metis add.commute div_mult_self4 div_less mod_less mod_mult_self4 add.right_neutral zero_neq_numeral)
qed

text \<open>
  The runs tile the time of the call: the newest ends at the last second, each begins where
  the one before it ends, the oldest begins at the first second, neighbouring runs differ, and
  the newest run has the sound of the last second.
\<close>

lemma sound_runs_tile_the_call:
  "tiled (start l) (start l + int (length (secs l))) (rev (sound_runs l))
   \<and> (sound_runs l = [] \<longleftrightarrow> secs l = [])
   \<and> (secs l = [] \<or> run_sound (last (sound_runs l)) = last (secs l))"
  using sound_runs_tiled sound_runs_Nil last_sound_runs by blast

text \<open>
  The \<open>quietSince\<close> is the start of the stretch of music and silence the call ends with, bounded
  by speech or the start of the call, and only when it has lasted five seconds.
\<close>

lemma quiet_since_spec:
  "quiet_since l = Some f \<longleftrightarrow>
     f + HOLD_AFTER_SECONDS \<le> run_to (last (sound_runs l))
     \<and> (\<exists>pre suf. sound_runs l = pre @ suf \<and> suf \<noteq> []
          \<and> list_all (\<lambda>r. run_sound r \<noteq> Speech) suf
          \<and> (pre = [] \<or> run_sound (last pre) = Speech) \<and> f = run_from (hd suf))"
  unfolding split_takeWhile [where P = "\<lambda>r. run_sound r \<noteq> Speech", unfolded not_not]
  by (auto simp: quiet_since_def quiet_loop_spec Let_def split: list.splits option.splits if_splits)

text \<open>
  Once a call is on hold it stays on hold from the same moment: whatever the line plays
  afterwards (recorded messages included), the hold the summary reports began where it began,
  until the next key press.
\<close>

lemma hold_is_sticky:
  assumes "hold_loop after None (sound_runs l) = Some h"
  shows "hold_loop after None (sound_runs (foldl sound_feed l ws)) = Some h"
proof -
  have "secs l \<noteq> []" using assms sound_runs_Nil [of l] by auto
  then obtain more where m: "secs (foldl sound_feed l ws) = secs l @ more"
    "start (foldl sound_feed l ws) = start l"
    using sound_run_secs [of l ws] by blast
  have "hold_loop after None (rev (runs_from (start l + int (length (secs l))) more (rev (sound_runs l)))) = Some h"
    using hold_loop_runs [OF sound_runs_tiled [of l]] assms by simp
  then show ?thesis using m by (simp add: sound_runs_def runs_from_append)
qed

lemma hold_is_sticky_witness:
  "hold_loop None None (sound_runs (foldl sound_feed (new_line_sound\<lparr>secs := replicate 6 Music, start := 3\<rparr>)
     [(9, 1, 1 / 2)])) = Some 3"
  by (rule hold_is_sticky)
     (simp add: sound_runs_def new_line_sound_def numeral_eq_Suc ended_by_def quiet_start_def HOLD_AFTER_SECONDS_def)

end
