(* ===== verification/Vad.thy ===== *)
theory Vad
  imports Bytes Contracts
begin

text \<open>
  \<open>src/openclaw-voice/src/vad.ts\<close>: \<open>SpeechDetector\<close>. Audio is cut into windows of 512 samples;
  each window, with the 64 samples before it, goes through the speech model, one after the
  other (the promise chain of the source is the list \<open>todo\<close>). The model itself
  (\<open>onnxruntime\<close>'s \<open>session.run\<close>) is a parameter: from its state and an input it gives its next
  state and a probability, or fails (\<open>None\<close>). The lemmas show that however the audio is
  chunked, and however slowly the model keeps up, the windows it sees are the consecutive ones.
\<close>

definition WINDOW :: nat where "WINDOW = 512"
definition CONTEXT :: nat where "CONTEXT = 64"

record 'st detector =
  vad_state :: 'st
  ctx :: "real list"
  pending :: "real list"
  todo :: "real list list"

definition vad_reset :: "'st \<Rightarrow> real list list \<Rightarrow> 'st detector" where
  "vad_reset st0 chain = \<lparr>vad_state = st0, ctx = replicate CONTEXT 0, pending = [], todo = chain\<rparr>"

text \<open>The loop of \<open>push\<close>: the full windows of a buffer, and what stays pending.\<close>

function cut_windows :: "real list \<Rightarrow> real list list \<times> real list" where
  "cut_windows f =
     (if WINDOW \<le> length f
      then (let (ws, rest) = cut_windows (drop WINDOW f) in (take WINDOW f # ws, rest))
      else ([], f))"
  by pat_completeness auto
termination by (relation "measure length") (auto simp: WINDOW_def)

declare cut_windows.simps [simp del]

definition vad_samples :: "byte list \<Rightarrow> real list" where
  "vad_samples pcm = map (\<lambda>s. of_int s / 32768) (samples pcm)"

definition vad_push :: "byte list \<Rightarrow> 'st detector \<Rightarrow> 'st detector" where
  "vad_push pcm16 d =
     (let (ws, rest) = cut_windows (pending d @ vad_samples pcm16)
      in d\<lparr>pending := rest, todo := todo d @ ws\<rparr>)"

definition window_rms :: "real list \<Rightarrow> real" where
  "window_rms w = sqrt (foldl (\<lambda>acc x. acc + x * x) 0 w / real WINDOW)"

text \<open>One turn of the chain: the oldest queued window runs, and reports its probability and loudness.\<close>

definition vad_run_one ::
    "('st \<Rightarrow> real list \<Rightarrow> ('st \<times> real) option) \<Rightarrow> 'st detector \<Rightarrow> 'st detector \<times> (real \<times> real) option" where
  "vad_run_one session d =
     (case todo d of
        [] \<Rightarrow> (d, None)
      | w # ws \<Rightarrow>
          (let inp = ctx d @ w; d1 = d\<lparr>ctx := drop (WINDOW - CONTEXT) w, todo := ws\<rparr>
           in case session (vad_state d) inp of
                Some (st, prob) \<Rightarrow> (d1\<lparr>vad_state := st\<rparr>, Some (prob, window_rms w))
              | None \<Rightarrow> (d1, Some (0, window_rms w))))"

datatype vad_event = Vad_push "byte list" | Vad_turn

text \<open>A run of the detector: its state and the reports so far.\<close>

fun vad_step ::
    "('st \<Rightarrow> real list \<Rightarrow> ('st \<times> real) option) \<Rightarrow> 'st detector \<times> (real \<times> real) list \<Rightarrow> vad_event
      \<Rightarrow> 'st detector \<times> (real \<times> real) list" where
  "vad_step session (d, out) (Vad_push pcm) = (vad_push pcm d, out)"
| "vad_step session (d, out) Vad_turn =
     (let (d', r) = vad_run_one session d
      in (d', out @ (case r of None \<Rightarrow> [] | Some x \<Rightarrow> [x])))"

section \<open>Reference: all the audio at once\<close>

fun vad_all :: "('st \<Rightarrow> real list \<Rightarrow> ('st \<times> real) option) \<Rightarrow> 'st \<Rightarrow> real list \<Rightarrow> real list list
    \<Rightarrow> (real \<times> real) list" where
  "vad_all session st c [] = []"
| "vad_all session st c (w # ws) =
     (case session st (c @ w) of
        Some (st', prob) \<Rightarrow> (prob, window_rms w) # vad_all session st' (drop (WINDOW - CONTEXT) w) ws
      | None \<Rightarrow> (0, window_rms w) # vad_all session st (drop (WINDOW - CONTEXT) w) ws)"

lemma cut_short: "length f < WINDOW \<Longrightarrow> cut_windows f = ([], f)"
  by (subst cut_windows.simps) simp

lemma cut_windows_spec:
  "cut_windows f = (ws, rest) \<Longrightarrow>
     f = concat ws @ rest \<and> length rest < WINDOW \<and> list_all (\<lambda>w. length w = WINDOW) ws"
proof (induction f arbitrary: ws rest rule: cut_windows.induct)
  case (1 f)
  show ?case
  proof (cases "WINDOW \<le> length f")
    case True
    obtain ws' where c: "cut_windows (drop WINDOW f) = (ws', rest)" "ws = take WINDOW f # ws'"
      using 1(2) True by (subst (asm) cut_windows.simps) (auto split: prod.splits)
    have "drop WINDOW f = concat ws' @ rest" "length rest < WINDOW" "list_all (\<lambda>w. length w = WINDOW) ws'"
      using 1(1) [OF True c(1)] by auto
    then show ?thesis using c(2) True by (simp add: append_assoc [symmetric] del: append_assoc)
        (metis append_assoc append_take_drop_id)
  next
    case False
    then show ?thesis using 1(2) by (auto simp: cut_short)
  qed
qed

lemma cut_windows_append:
  "cut_windows f = (ws, rest) \<Longrightarrow>
     cut_windows (f @ g) = (let (vs, rest') = cut_windows (rest @ g) in (ws @ vs, rest'))"
proof (induction f arbitrary: ws rest rule: cut_windows.induct)
  case (1 f)
  show ?case
  proof (cases "WINDOW \<le> length f")
    case True
    obtain ws' where c: "cut_windows (drop WINDOW f) = (ws', rest)" "ws = take WINDOW f # ws'"
      using 1(2) True by (subst (asm) cut_windows.simps) (auto split: prod.splits)
    have "cut_windows (drop WINDOW f @ g) = (let (vs, rest') = cut_windows (rest @ g) in (ws' @ vs, rest'))"
      using 1(1) [OF True c(1)] .
    then show ?thesis
      using True c(2) by (subst cut_windows.simps) (simp add: case_prod_beta)
  next
    case False
    then have "ws = []" "rest = f" using 1(2) by (auto simp: cut_short)
    then show ?thesis by (simp add: case_prod_beta)
  qed
qed

text \<open>Cutting is a streaming conversion: the pending samples are its state.\<close>

definition cut_feed :: "real list \<Rightarrow> real list \<Rightarrow> real list \<times> real list list" where
  "cut_feed p xs = (if xs = [] then (p, []) else (snd (cut_windows (p @ xs)), fst (cut_windows (p @ xs))))"

interpretation vad_cut: stream_converter cut_feed
proof
  fix p xs ys
  show "cut_feed p [] = (p, [])" by (simp add: cut_feed_def)
  show "cut_feed p (xs @ ys) =
      (let (s1, out1) = cut_feed p xs; (s2, out2) = cut_feed s1 ys in (s2, out1 @ out2))"
  proof (cases "xs = [] \<or> ys = []")
    case True
    then show ?thesis by (auto simp: cut_feed_def)
  next
    case False
    obtain ws rest where c: "cut_windows (p @ xs) = (ws, rest)" by (cases "cut_windows (p @ xs)")
    show ?thesis
      using False cut_windows_append [OF c, of ys] by (simp add: cut_feed_def c case_prod_beta)
  qed
qed

lemma cut_feed_start: "cut_feed [] xs = (snd (cut_windows xs), fst (cut_windows xs))"
  using cut_short [of "[]"] by (auto simp: cut_feed_def WINDOW_def)

lemma vad_push_cut:
  assumes "length (pending d) < WINDOW"
  shows "vad_push pcm d = (let (p, ws) = cut_feed (pending d) (vad_samples pcm)
     in d\<lparr>pending := p, todo := todo d @ ws\<rparr>)"
  using cut_short [OF assms] by (auto simp: vad_push_def cut_feed_def case_prod_beta)

fun pushed :: "vad_event list \<Rightarrow> byte list list" where
  "pushed [] = []"
| "pushed (Vad_push pcm # es) = pcm # pushed es"
| "pushed (Vad_turn # es) = pushed es"

lemma vad_all_step:
  "todo d = w # ws \<Longrightarrow>
     (case vad_run_one session d of (d', r) \<Rightarrow>
        todo d' = ws \<and> pending d' = pending d
        \<and> vad_all session (vad_state d) (ctx d) (todo d @ vs)
          = the r # vad_all session (vad_state d') (ctx d') (todo d' @ vs) \<and> r \<noteq> None)"
  by (auto simp: vad_run_one_def Let_def split: option.splits prod.splits)

lemma vad_run_spec:
  assumes "length (pending d) < WINDOW"
    and "foldl (vad_step session) (d, out) es = (d', out')"
  shows "\<exists>p ws. cut_feed (pending d) (concat (map vad_samples (pushed es))) = (p, ws)
     \<and> pending d' = p
     \<and> out @ vad_all session (vad_state d) (ctx d) (todo d @ ws)
       = out' @ vad_all session (vad_state d') (ctx d') (todo d')"
  using assms
proof (induction es arbitrary: d out)
  case Nil
  then show ?case by (simp add: cut_feed_def)
next
  case (Cons e es)
  show ?case
  proof (cases e)
    case (Vad_push pcm)
    obtain p1 ws1 where c1: "cut_feed (pending d) (vad_samples pcm) = (p1, ws1)"
      by (cases "cut_feed (pending d) (vad_samples pcm)")
    let ?d1 = "d\<lparr>pending := p1, todo := todo d @ ws1\<rparr>"
    have push: "vad_push pcm d = ?d1" using vad_push_cut [OF Cons.prems(1)] c1 by simp
    have "length p1 < WINDOW"
      using c1 Cons.prems(1) cut_windows_spec [of "pending d @ vad_samples pcm" ws1 p1]
      by (auto simp: cut_feed_def split: if_splits)
    moreover have "foldl (vad_step session) (?d1, out) es = (d', out')"
      using Cons.prems(2) push Vad_push by simp
    ultimately obtain p ws where ih:
      "cut_feed p1 (concat (map vad_samples (pushed es))) = (p, ws)" "pending d' = p"
      "out @ vad_all session (vad_state d) (ctx d) ((todo d @ ws1) @ ws)
        = out' @ vad_all session (vad_state d') (ctx d') (todo d')"
      using Cons.IH [of ?d1 out] by auto
    have "cut_feed (pending d) (concat (map vad_samples (pushed (e # es)))) = (p, ws1 @ ws)"
      using vad_cut.feed_append [of "pending d" "vad_samples pcm"] c1 ih(1) Vad_push by simp
    then show ?thesis using ih by auto
  next
    case Vad_turn
    show ?thesis
    proof (cases "todo d")
      case Nil
      then have "vad_step session (d, out) e = (d, out)"
        by (simp add: Vad_turn vad_run_one_def)
      then show ?thesis using Cons Vad_turn by simp
    next
      case (Cons w ws')
      obtain d1 r where r: "vad_run_one session d = (d1, r)" by (cases "vad_run_one session d")
      note st = vad_all_step [OF Cons, of session, unfolded r prod.case]
      have "foldl (vad_step session) (d1, out @ [the r]) es = (d', out')"
        using Cons.prems(2) r st [of "[]"] Vad_turn by auto
      then show ?thesis
        using Cons.IH [of d1 "out @ [the r]"] Cons.prems(1) st Vad_turn by fastforce
    qed
  qed
qed

section \<open>Properties\<close>

text \<open>
  However the audio is chunked and however the model's turns interleave with it, once the
  model has caught up its reports are those of the call's whole audio cut into consecutive
  512-sample windows, each seen after the 64 samples before it; less than a window is pending.
\<close>

lemma vad_sees_consecutive_windows:
  assumes "foldl (vad_step session) (vad_reset st0 [], []) es = (d, out)" and "todo d = []"
  shows "out = vad_all session st0 (replicate CONTEXT 0)
           (fst (cut_windows (concat (map vad_samples (pushed es)))))
    \<and> length (pending d) < WINDOW
    \<and> concat (map vad_samples (pushed es))
        = concat (fst (cut_windows (concat (map vad_samples (pushed es))))) @ pending d"
proof -
  let ?d0 = "vad_reset st0 []" and ?all = "concat (map vad_samples (pushed es))"
  have z: "length (pending ?d0) < WINDOW" by (simp add: vad_reset_def WINDOW_def)
  obtain p ws where f: "cut_feed [] ?all = (p, ws)" "pending d = p"
    "vad_all session st0 (replicate CONTEXT 0) ws = out @ vad_all session (vad_state d) (ctx d) []"
    using vad_run_spec [OF z assms(1)] assms(2) by (auto simp: vad_reset_def)
  have c: "cut_windows ?all = (ws, p)"
    using f(1) by (auto simp: cut_feed_start)
  then show ?thesis using cut_windows_spec [OF c] f by simp
qed

lemma vad_sees_consecutive_windows_witness:
  "length (pending (fst (foldl (vad_step (\<lambda>st inp. None :: (nat \<times> real) option)) (vad_reset 0 [], [])
     [Vad_push (pcm_bytes [1, 2]), Vad_turn]))) < WINDOW"
proof -
  let ?s = "\<lambda>st inp. None :: (nat \<times> real) option"
  have c: "cut_windows (vad_samples (pcm_bytes [1, 2])) = ([], vad_samples (pcm_bytes [1, 2]))"
    by (rule cut_short) (simp add: vad_samples_def length_samples WINDOW_def)
  obtain d out where r: "foldl (vad_step ?s) (vad_reset 0 [], []) [Vad_push (pcm_bytes [1, 2]), Vad_turn] = (d, out)"
    by (meson surj_pair)
  have "todo d = []"
    using r by (auto simp: vad_push_def vad_reset_def vad_run_one_def c)
  then show ?thesis using vad_sees_consecutive_windows [OF r] r by simp
qed

end
