(* ===== verification/Json.thy ===== *)
theory Json
  imports Prelude Contracts
begin

text \<open>
  JSON values as the program reads them from sockets, files and HTTP bodies. An object is an
  association list in key order of appearance; \<open>json_get\<close> is the property read \<open>v?.k\<close> with
  \<open>None\<close> for \<open>undefined\<close>. Numbers are integers: no modelled code computes with the fraction of
  a number that comes from JSON.
\<close>

datatype json =
    JNull
  | JBool bool
  | JNum int
  | JStr jstr
  | JArr "json list"
  | JObj "(jstr \<times> json) list"

fun json_get :: "json \<Rightarrow> jstr \<Rightarrow> json option" where
  "json_get (JObj kvs) k = jm_get kvs k"
| "json_get _ k = None"

text \<open>JavaScript's truth of a value, of an absent one too.\<close>

fun truthy :: "json option \<Rightarrow> bool" where
  "truthy None = False"
| "truthy (Some JNull) = False"
| "truthy (Some (JBool b)) = b"
| "truthy (Some (JNum n)) = (n \<noteq> 0)"
| "truthy (Some (JStr s)) = (s \<noteq> [])"
| "truthy (Some (JArr _)) = True"
| "truthy (Some (JObj _)) = True"

text \<open>\<open>a ?? b\<close>\<close>

fun nullish_or :: "json option \<Rightarrow> json option \<Rightarrow> json option" where
  "nullish_or None b = b"
| "nullish_or (Some JNull) b = b"
| "nullish_or (Some v) b = Some v"

text \<open>\<open>String(v)\<close>; arrays join their elements with commas, nullish ones as nothing.\<close>

fun js_string :: "json \<Rightarrow> jstr" where
  "js_string JNull = js ''null''"
| "js_string (JBool b) = (if b then js ''true'' else js ''false'')"
| "js_string (JNum n) = dec_int n"
| "js_string (JStr s) = s"
| "js_string (JArr vs) = join (js '','') (map (\<lambda>v. if v = JNull then [] else js_string v) vs)"
| "js_string (JObj _) = js ''[object Object]''"

definition js_string_opt :: "json option \<Rightarrow> jstr" where
  "js_string_opt v = (case v of None \<Rightarrow> js ''undefined'' | Some j \<Rightarrow> js_string j)"

definition json_str :: "json option \<Rightarrow> jstr option" where
  "json_str v = (case v of Some (JStr s) \<Rightarrow> Some s | _ \<Rightarrow> None)"

definition json_is_array :: "json option \<Rightarrow> bool" where
  "json_is_array v = (case v of Some (JArr _) \<Rightarrow> True | _ \<Rightarrow> False)"

text \<open>\<open>String(v ?? "")\<close> and \<open>Number(v)\<close> (\<open>None\<close> is \<open>NaN\<close>; strings as plain digits).\<close>

definition msg_str :: "json option \<Rightarrow> jstr" where
  "msg_str v = (case v of None \<Rightarrow> [] | Some JNull \<Rightarrow> [] | Some j \<Rightarrow> js_string j)"

definition js_number :: "json option \<Rightarrow> int option" where
  "js_number v = (case v of
      Some (JNum n) \<Rightarrow> Some n
    | Some (JBool b) \<Rightarrow> Some (if b then 1 else 0)
    | Some JNull \<Rightarrow> Some 0
    | Some (JStr s) \<Rightarrow> if trim s = [] then Some 0 else if list_all is_digit (trim s) then Some (int (digits_value (trim s))) else None
    | _ \<Rightarrow> None)"

text \<open>\<open>JSON.stringify\<close>, without white space.\<close>

definition hex_digit :: "nat \<Rightarrow> nat" where
  "hex_digit n = (if n < 10 then 48 + n else 87 + n)"

definition json_char :: "nat \<Rightarrow> jstr" where
  "json_char c =
     (if c = 34 then [92, 34] else if c = 92 then [92, 92]
      else if c = 8 then [92, 98] else if c = 12 then [92, 102] else if c = 10 then [92, 110]
      else if c = 13 then [92, 114] else if c = 9 then [92, 116]
      else if c < 32 then [92, 117, 48, 48, hex_digit (c div 16), hex_digit (c mod 16)]
      else [c])"

definition json_quote :: "jstr \<Rightarrow> jstr" where
  "json_quote s = [34] @ concat (map json_char s) @ [34]"

fun json_stringify :: "json \<Rightarrow> jstr" where
  "json_stringify JNull = js ''null''"
| "json_stringify (JBool b) = (if b then js ''true'' else js ''false'')"
| "json_stringify (JNum n) = dec_int n"
| "json_stringify (JStr s) = json_quote s"
| "json_stringify (JArr vs) = js ''['' @ join (js '','') (map json_stringify vs) @ js '']''"
| "json_stringify (JObj kvs) =
     js ''{'' @ join (js '','') (map (\<lambda>kv. json_quote (fst kv) @ js '':'' @ json_stringify (snd kv)) kvs) @ js ''}''"

lemma truthy_Some: "truthy v \<Longrightarrow> v \<noteq> None"
  by (cases v) auto

lemma json_get_JObj_set:
  "json_get (JObj (jm_set k v kvs)) k' = (if k' = k then Some v else json_get (JObj kvs) k')"
  by (simp add: jmap.get_put)

end
