(* ===== verification/Navigator.thy ===== *)
theory Navigator
  imports LineSound Json
begin

text \<open>
  \<open>src/openclaw-voice/src/navigator.ts\<close>: \<open>MenuNavigator\<close>. The asynchronous \<open>check\<close> is cut at its
  two awaits: the decision request (\<open>Deciding\<close>) and the key press (\<open>Pressing\<close>, with the index of
  the press in \<open>presses\<close> and the identity of its transcript entry, which the source compares by
  reference). The decision model's answer, the outcome of a press and the clock (milliseconds
  since the call was answered) come with the events. What the navigator does is a list of effects.
\<close>

datatype who = Who_line | Who_assistant | Who_keypad

record transcript_entry =
  te_id :: nat
  te_t :: int
  te_who :: who
  te_text :: jstr

datatype presser = By_navigator | By_assistant

record key_press =
  kp_t :: int
  kp_by :: presser
  kp_keys :: jstr

text \<open>The answers of one decision request: for each question its choice and probabilities.\<close>

type_synonym answers = "(jstr \<times> (jstr \<times> (jstr \<times> real) list)) list"

datatype hangup_reason = Goal_done | No_way | Hold_limit

definition KEYS :: "jstr list" where
  "KEYS = map js [''0'', ''1'', ''2'', ''3'', ''4'', ''5'', ''6'', ''7'', ''8'', ''9'', ''*'', ''#'']"

text \<open>The questions of each check, word for word.\<close>

record choice_question =
  cq_instructions :: jstr
  cq_criteria :: "(jstr \<times> jstr) list"

definition QUESTIONS :: "(jstr \<times> choice_question) list" where
  "QUESTIONS =
    [(js ''action'', \<lparr>cq_instructions = js ''You navigate automated phone menus for an assistant making this call; the assistant talks to people and types in or says any information. The transcript is the call in order: what the line said, what the assistant said, and keypad entries for keys pressed (by you or the assistant). line_audio is what the line has been playing: speech (a person or a recording), music, or silence; seconds_on_hold counts from when it went to music or silence after the last key press. Act as soon as you can. What should you do right now?'',
       cq_criteria =
         [(js ''wait'', js ''Nothing to do yet: the line is still talking and hasn't offered an option that fits the goal, or you need to hear more of it before you can decide; or the line has only greeted, welcomed or given information so far; or the call is on hold (hold music, silence, or a recorded hold message) for no longer than hold_limit_seconds; or the line asks for information to be typed in (the assistant does that).''),
          (js ''press'', js ''An automated menu has offered an option that fits the goal, and the transcript shows no key pressed since that option was offered. Press it right away, without waiting for the rest of the menu.''),
          (js ''hand_off'', js ''The line is waiting for the assistant to speak: it asks a question or wants a spoken answer (\"How can I help you?\", \"Who am I speaking with?\", \"Please tell me the reason for your call\"), or someone just says \"Hello?\" and nothing else follows, or it answers what the assistant said. Be certain. A welcome or greeting (\"Thanks for calling '' @ [8230] @ js ''\"), information, or options to press a key don't count, even when they sound like a person.''),
          (js ''hang_up'', js ''No person is on the line, only an automated system, a recording, hold music or silence, and either what it said already achieves the goal; or the goal clearly can't be achieved on this call: the menu keeps repeating with no option that fits, the business is closed, or the number is not in service; or the call has been on hold for longer than hold_limit_seconds (seconds_on_hold is more).'')]\<rparr>),
     (js ''key'', \<lparr>cq_instructions = js ''If a menu option should be pressed now, which key is it?'',
       cq_criteria = map (\<lambda>k. (k, js ''the key '' @ k)) KEYS @ [(js ''none'', js ''no key should be pressed'')]\<rparr>),
     (js ''hang_up_reason'', \<lparr>cq_instructions = js ''If the call should end now, why?'',
       cq_criteria =
         [(js ''goal_done'', js ''What the line said already achieves the goal.''),
          (js ''no_way'', js ''The goal can't be reached on this call (the menu loops with no fitting option, closed, not in service).''),
          (js ''hold_limit'', js ''The call has been on hold for longer than hold_limit_seconds.''),
          (js ''neither'', js ''The call shouldn't end.'')]\<rparr>)]"

text \<open>
  \<open>openRouterDecisions(...).decide\<close>: the request it sends, and what it makes of the response:
  \<open>ok\<close>, the status and the body (\<open>None\<close> when it isn't JSON). The left of the result is the message
  of the error thrown.
\<close>

definition DECISIONS_URL :: jstr where
  "DECISIONS_URL = js ''https://openrouter.ai/api/v1/systemone''"

record http_request =
  req_url :: jstr
  req_headers :: "(jstr \<times> jstr) list"
  req_body :: json
  req_timeout :: int

definition question_json :: "choice_question \<Rightarrow> json" where
  "question_json q = JObj [(js ''type'', JStr (js ''choice'')), (js ''instructions'', JStr (cq_instructions q)),
     (js ''criteria'', JObj (map (\<lambda>(k, v). (k, JStr v)) (cq_criteria q)))]"

definition decide_request :: "jstr \<Rightarrow> jstr \<Rightarrow> int option \<Rightarrow> json \<Rightarrow> (jstr \<times> choice_question) list \<Rightarrow> http_request" where
  "decide_request apiKey model timeoutMs state questions =
     \<lparr>req_url = DECISIONS_URL,
      req_headers = [(js ''Authorization'', js ''Bearer '' @ apiKey), (js ''Content-Type'', js ''application/json'')],
      req_body = JObj [(js ''model'', JStr model),
        (js ''provider'', JObj [(js ''data_collection'', JStr (js ''deny''))]),
        (js ''state'', state),
        (js ''questions'', JObj (map (\<lambda>(k, q). (k, question_json q)) questions))],
      req_timeout = (case timeoutMs of None \<Rightarrow> 5000 | Some t \<Rightarrow> t)\<rparr>"

definition decide_response :: "bool \<Rightarrow> int \<Rightarrow> json option \<Rightarrow> jstr + json" where
  "decide_response ok status payload =
     (let get = (\<lambda>v k. Option.bind v (\<lambda>j. json_get j k));
          answers = get payload (js ''answers''); err = get payload (js ''error'')
      in case (if \<not> ok \<or> \<not> truthy answers \<or> truthy err then None else answers) of
           None \<Rightarrow> Inl (js ''decisions api: '' @ take 200
             (js_string_opt (nullish_or (get err (js ''message'')) (nullish_or err (Some (JStr (js ''HTTP '' @ dec_int status)))))))
         | Some a \<Rightarrow> Inr a)"

record navigator_options =
  nav_goal :: jstr
  checkEverySeconds :: int
  holdLimitSeconds :: int
  threshold :: real

definition MAX_TRANSCRIPT_CHARS :: nat where "MAX_TRANSCRIPT_CHARS = 4000"
definition QUIET_CHECK_MS :: int where "QUIET_CHECK_MS = 15000"

text \<open>Where the running \<open>check\<close> waits; \<open>inFlight\<close> of the source is \<open>nav_phase \<noteq> Idle\<close>.\<close>

datatype nav_phase = Idle | Deciding | Pressing nat nat

record navigator =
  entries :: "transcript_entry list"
  next_entry :: nat
  partial :: jstr
  partialAt :: int
  presses :: "key_press list"
  nav_sound :: line_sound
  nav_phase :: nav_phase
  lastAction :: "jstr option"
  seenChars :: int
  pressedAtChars :: int
  totalChars :: int
  checkedQuietSince :: "int option"
  lastCheckAt :: int
  stopped :: bool

definition new_navigator :: navigator where
  "new_navigator = \<lparr>entries = [], next_entry = 0, partial = [], partialAt = 0, presses = [],
     nav_sound = new_line_sound, nav_phase = Idle, lastAction = None, seenChars = 0,
     pressedAtChars = - 1, totalChars = 0, checkedQuietSince = None, lastCheckAt = 0, stopped = False\<rparr>"

text \<open>\<open>t()\<close>, in tenths of a second (\<open>Math.round(now / 100) / 10\<close> seconds).\<close>

definition nav_t :: "int \<Rightarrow> int" where
  "nav_t now = (now + 50) div 100"

definition nav_stop :: "navigator \<Rightarrow> navigator" where
  "nav_stop n = n\<lparr>stopped := True\<rparr>"

definition push_entry :: "int \<Rightarrow> who \<Rightarrow> jstr \<Rightarrow> navigator \<Rightarrow> navigator" where
  "push_entry t w x n = n\<lparr>
     entries := entries n @ [\<lparr>te_id = next_entry n, te_t = t, te_who = w, te_text = x\<rparr>],
     next_entry := next_entry n + 1\<rparr>"

text \<open>
  \<open>match(/^([\s\S]*[.!?])\s+([\s\S]*)$/)\<close>: the groups before and after the white space that
  follows the last \<open>.\<close>, \<open>!\<close> or \<open>?\<close> with white space after it.
\<close>

fun sentence_break :: "jstr \<Rightarrow> (jstr \<times> jstr) option" where
  "sentence_break [] = None"
| "sentence_break (c # cs) =
     (case sentence_break cs of
        Some (a, b) \<Rightarrow> Some (c # a, b)
      | None \<Rightarrow> if c \<in> {46, 33, 63} \<and> cs \<noteq> [] \<and> js_space (hd cs)
               then Some ([c], trim_start cs) else None)"

definition line_text :: "int \<Rightarrow> jstr \<Rightarrow> navigator \<Rightarrow> navigator" where
  "line_text now delta n =
     (if stopped n \<or> delta = [] then n
      else (let n1 = (if partial n = [] then n\<lparr>partialAt := nav_t now\<rparr> else n);
                n2 = n1\<lparr>partial := partial n1 @ delta, totalChars := totalChars n1 + int (length delta)\<rparr>
            in case sentence_break (partial n2) of
                 Some (m1, m2) \<Rightarrow>
                   if trim m1 \<noteq> []
                   then (push_entry (partialAt n2) Who_line (trim m1) n2)\<lparr>partial := m2, partialAt := nav_t now\<rparr>
                   else n2
               | None \<Rightarrow> n2))"

definition flush_partial :: "navigator \<Rightarrow> navigator" where
  "flush_partial n =
     (if trim (partial n) \<noteq> [] then push_entry (partialAt n) Who_line (trim (partial n)) n else n)
       \<lparr>partial := []\<rparr>"

definition assistant_said :: "int \<Rightarrow> jstr \<Rightarrow> navigator \<Rightarrow> navigator" where
  "assistant_said now x n =
     (if stopped n \<or> trim x = [] then n
      else (let n1 = push_entry (nav_t now) Who_assistant (trim x) (flush_partial n)
            in n1\<lparr>totalChars := totalChars n1 + int (length x)\<rparr>))"

definition keypad_text :: "presser \<Rightarrow> jstr \<Rightarrow> jstr" where
  "keypad_text presser keys = js ''pressed '' @ keys @ js '' (''
     @ (if presser = By_navigator then js ''you'' else js ''the assistant'') @ js '')''"

definition nav_pressed :: "int \<Rightarrow> presser \<Rightarrow> jstr \<Rightarrow> navigator \<Rightarrow> navigator" where
  "nav_pressed now presser keys n =
     (if stopped n then n
      else (let n1 = n\<lparr>presses := presses n @ [\<lparr>kp_t = nav_t now, kp_by = presser, kp_keys = keys\<rparr>]\<rparr>;
                n2 = push_entry (nav_t now) Who_keypad (keypad_text presser keys) (flush_partial n1)
            in if presser = By_navigator then n2\<lparr>pressedAtChars := totalChars n2\<rparr> else n2))"

definition nav_line_sound :: "int \<Rightarrow> real \<Rightarrow> real \<Rightarrow> navigator \<Rightarrow> navigator \<times> sound option" where
  "nav_line_sound now prob rms n =
     (if stopped n then (n, None)
      else (let (l, r) = sound_window (of_int now / 1000) (nav_sound n) prob rms
            in (n\<lparr>nav_sound := l\<rparr>, r)))"

section \<open>The state sent with each check\<close>

definition all_entries :: "navigator \<Rightarrow> transcript_entry list" where
  "all_entries n = entries n @
     (if trim (partial n) \<noteq> []
      then [\<lparr>te_id = next_entry n, te_t = partialAt n, te_who = Who_line, te_text = trim (partial n)\<rparr>]
      else [])"

text \<open>The backward loop: entries newest first, while fewer than the maximum is used.\<close>

fun recent_entries :: "nat \<Rightarrow> transcript_entry list \<Rightarrow> transcript_entry list \<Rightarrow> transcript_entry list" where
  "recent_entries used [] acc = acc"
| "recent_entries used (e # es) acc =
     (if used < MAX_TRANSCRIPT_CHARS then recent_entries (used + length (te_text e)) es (e # acc) else acc)"

record nav_view =
  view_goal :: jstr
  seconds_into_call :: int
  view_transcript :: "transcript_entry list"
  line_audio :: "sound_summary option"
  hold_limit_seconds :: int

definition nav_state :: "navigator_options \<Rightarrow> int \<Rightarrow> navigator \<Rightarrow> nav_view" where
  "nav_state opts now n =
     \<lparr>view_goal = nav_goal opts,
      seconds_into_call = nav_t now,
      view_transcript = recent_entries 0 (rev (all_entries n)) [],
      line_audio = sound_summary (nav_sound n)
        (if presses n = [] then None else Some (of_int (kp_t (last (presses n))) / 10)),
      hold_limit_seconds = holdLimitSeconds opts\<rparr>"

section \<open>A check\<close>

datatype nav_effect =
    Nav_decide nav_view
  | Nav_log jstr
  | Nav_press jstr
  | Nav_hang_up hangup_reason
  | Nav_hand_off

definition nav_check :: "navigator_options \<Rightarrow> int \<Rightarrow> navigator \<Rightarrow> navigator \<times> nav_effect list" where
  "nav_check opts now n =
     (if stopped n \<or> nav_phase n \<noteq> Idle then (n, [])
      else (let said = (totalChars n \<noteq> seenChars n \<and> totalChars n \<noteq> pressedAtChars n);
                quiet = quiet_since (nav_sound n);
                holding = (quiet \<noteq> None \<and> (quiet \<noteq> checkedQuietSince n \<or> now - lastCheckAt n \<ge> QUIET_CHECK_MS))
            in if \<not> said \<and> \<not> holding then (n, [])
               else (n\<lparr>seenChars := totalChars n, checkedQuietSince := quiet, lastCheckAt := now,
                       nav_phase := Deciding\<rparr>,
                     [Nav_decide (nav_state opts now n)])))"

definition choice_of :: "answers \<Rightarrow> jstr \<Rightarrow> jstr option" where
  "choice_of a q = map_option fst (jm_get a q)"

definition prob_of :: "answers \<Rightarrow> jstr \<Rightarrow> jstr \<Rightarrow> real" where
  "prob_of a q c = (case jm_get a q of
      None \<Rightarrow> 0
    | Some (_, ps) \<Rightarrow> (case jm_get ps c of None \<Rightarrow> 0 | Some x \<Rightarrow> x))"

text \<open>\<open>toFixed(2)\<close> of a probability, and \<open>${this.t()}\<close>.\<close>

definition two_digits :: "nat \<Rightarrow> jstr" where
  "two_digits k = [48 + k div 10, 48 + k mod 10]"

definition to_fixed2 :: "real \<Rightarrow> jstr" where
  "to_fixed2 x = (let k = nat \<lfloor>\<bar>x\<bar> * 100 + 1 / 2\<rfloor>
     in (if x < 0 then js ''-'' else []) @ dec_nat (k div 100) @ js ''.'' @ two_digits (k mod 100))"

definition tenths_text :: "int \<Rightarrow> jstr" where
  "tenths_text t = (if t < 0 then js ''-'' else []) @ dec_int (\<bar>t\<bar> div 10) @
     (if \<bar>t\<bar> mod 10 = 0 then [] else js ''.'' @ dec_int (\<bar>t\<bar> mod 10))"

definition reason_text :: "hangup_reason \<Rightarrow> jstr" where
  "reason_text r = (case r of Goal_done \<Rightarrow> js ''goal_done'' | No_way \<Rightarrow> js ''no_way''
     | Hold_limit \<Rightarrow> js ''hold_limit'')"

text \<open>\<open>reasons.reduce((a, b) => p(b) > p(a) ? b : a)\<close>: the first of the likeliest reasons.\<close>

definition best_reason :: "answers \<Rightarrow> hangup_reason" where
  "best_reason a = foldl
     (\<lambda>x y. if prob_of a (js ''hang_up_reason'') (reason_text y) > prob_of a (js ''hang_up_reason'') (reason_text x)
            then y else x) Goal_done [No_way, Hold_limit]"

text \<open>The line logged when the action differs from the last one.\<close>

definition action_log :: "int \<Rightarrow> answers \<Rightarrow> jstr" where
  "action_log now a =
     (let action = choice_of a (js ''action''); key = choice_of a (js ''key'')
      in js ''navigator: '' @ undef_text action @ js '' (''
         @ to_fixed2 (prob_of a (js ''action'') (or_empty action)) @ js '', key '' @ undef_text key @ js '' ''
         @ to_fixed2 (prob_of a (js ''key'') (or_empty key)) @ js '') at '' @ tenths_text (nav_t now) @ js ''s'')"

definition nav_catch :: "jstr \<Rightarrow> navigator \<Rightarrow> navigator \<times> nav_effect list" where
  "nav_catch message n =
     (n\<lparr>seenChars := - 1, checkedQuietSince := None, nav_phase := Idle\<rparr>,
      [Nav_log (js ''navigator: check failed: '' @ message)])"

text \<open>The three conditions of the answered \<open>check\<close>, in the order it tests them.\<close>

datatype verdict = V_hand_off | V_hang_up | V_press jstr | V_nothing

definition wants :: "navigator_options \<Rightarrow> answers \<Rightarrow> jstr \<Rightarrow> bool" where
  "wants opts a c \<longleftrightarrow> choice_of a (js ''action'') = Some c \<and> prob_of a (js ''action'') c \<ge> threshold opts"

definition nav_verdict :: "navigator_options \<Rightarrow> answers \<Rightarrow> verdict" where
  "nav_verdict opts a =
     (if wants opts a (js ''hand_off'') then V_hand_off
      else if wants opts a (js ''hang_up'') then V_hang_up
      else (case choice_of a (js ''key'') of
          Some key \<Rightarrow>
            if wants opts a (js ''press'') \<and> key \<in> set KEYS \<and> prob_of a (js ''key'') key \<ge> threshold opts
            then V_press key else V_nothing
        | None \<Rightarrow> V_nothing))"

definition verdict_log :: "answers \<Rightarrow> verdict \<Rightarrow> jstr" where
  "verdict_log a v =
     (let pa = (\<lambda>c. to_fixed2 (prob_of a (js ''action'') c)) in
      case v of
        V_hand_off \<Rightarrow> js ''navigator: a person is speaking ('' @ pa (js ''hand_off'') @ js ''); handing off''
      | V_hang_up \<Rightarrow> js ''navigator: hanging up, '' @ reason_text (best_reason a) @ js '' ('' @ pa (js ''hang_up'') @ js '')''
      | V_press key \<Rightarrow> js ''navigator: pressing '' @ key @ js '' ('' @ pa (js ''press'') @ js ''/''
            @ to_fixed2 (prob_of a (js ''key'') key) @ js '')''
      | V_nothing \<Rightarrow> [])"

text \<open>The rest of \<open>check\<close> once the decision request has resolved, up to the awaited press.\<close>

definition nav_answer :: "navigator_options \<Rightarrow> int \<Rightarrow> answers \<Rightarrow> navigator \<Rightarrow> navigator \<times> nav_effect list" where
  "nav_answer opts now a n =
     (if stopped n then (n\<lparr>nav_phase := Idle\<rparr>, [])
      else
        (let action = choice_of a (js ''action'');
             log1 = (if action \<noteq> lastAction n then [Nav_log (action_log now a)] else []);
             n1 = n\<lparr>lastAction := action\<rparr>;
             v = nav_verdict opts a
         in case v of
              V_hand_off \<Rightarrow> ((nav_stop n1)\<lparr>nav_phase := Idle\<rparr>, log1 @ [Nav_log (verdict_log a v), Nav_hand_off])
            | V_hang_up \<Rightarrow> ((nav_stop n1)\<lparr>nav_phase := Idle\<rparr>,
                  log1 @ [Nav_log (verdict_log a v), Nav_hang_up (best_reason a)])
            | V_press key \<Rightarrow>
                (let n2 = nav_pressed now By_navigator key n1
                 in (n2\<lparr>nav_phase := Pressing (length (presses n1)) (te_id (last (entries n2)))\<rparr>,
                     log1 @ [Nav_log (verdict_log a v), Nav_press key]))
            | V_nothing \<Rightarrow> (n1\<lparr>nav_phase := Idle\<rparr>, log1)))"

text \<open>\<open>presses.splice(at, 1)\<close> and the rest of a failed press.\<close>

definition nav_press_done :: "bool \<Rightarrow> navigator \<Rightarrow> navigator" where
  "nav_press_done ok n =
     (case nav_phase n of
        Pressing i entry \<Rightarrow>
          (if ok then n
           else n\<lparr>presses := take i (presses n) @ drop (i + 1) (presses n),
                  entries := filter (\<lambda>e. te_id e \<noteq> entry) (entries n),
                  pressedAtChars := - 1, seenChars := - 1\<rparr>)\<lparr>nav_phase := Idle\<rparr>
      | _ \<Rightarrow> n)"

datatype nav_event =
    Nav_tick int
  | Nav_answers int answers
  | Nav_failed jstr
  | Nav_press_result bool
  | Nav_line_text int jstr
  | Nav_said int jstr
  | Nav_keys int jstr
  | Nav_window int real real
  | Nav_stop

fun nav_step :: "navigator_options \<Rightarrow> navigator \<Rightarrow> nav_event \<Rightarrow> navigator \<times> nav_effect list" where
  "nav_step opts n (Nav_tick now) = nav_check opts now n"
| "nav_step opts n (Nav_answers now a) =
     (if nav_phase n = Deciding then nav_answer opts now a n else (n, []))"
| "nav_step opts n (Nav_failed message) =
     (if nav_phase n \<noteq> Idle then nav_catch message n else (n, []))"
| "nav_step opts n (Nav_press_result ok) = (nav_press_done ok n, [])"
| "nav_step opts n (Nav_line_text now d) = (line_text now d n, [])"
| "nav_step opts n (Nav_said now x) = (assistant_said now x n, [])"
| "nav_step opts n (Nav_keys now keys) = (nav_pressed now By_assistant keys n, [])"
| "nav_step opts n (Nav_window now prob rms) = (fst (nav_line_sound now prob rms n), [])"
| "nav_step opts n Nav_stop = (nav_stop n, [])"

fun nav_run :: "navigator_options \<Rightarrow> navigator \<Rightarrow> nav_event list \<Rightarrow> navigator \<times> nav_effect list" where
  "nav_run opts n [] = (n, [])"
| "nav_run opts n (e # es) =
     (let (n1, f1) = nav_step opts n e; (n2, f2) = nav_run opts n1 es in (n2, f1 @ f2))"

section \<open>The transcript window\<close>

lemma recent_entries_spec:
  "\<exists>k. recent_entries used es acc = rev (take k es) @ acc \<and> k \<le> length es
     \<and> (k = length es \<or> MAX_TRANSCRIPT_CHARS \<le> used + sum_list (map (length \<circ> te_text) (take k es)))
     \<and> (k = 0 \<or> used + sum_list (map (length \<circ> te_text) (take (k - 1) es)) < MAX_TRANSCRIPT_CHARS)"
proof (induction es arbitrary: used acc)
  case (Cons e es)
  show ?case
  proof (cases "used < MAX_TRANSCRIPT_CHARS")
    case True
    obtain k where k: "recent_entries (used + length (te_text e)) es (e # acc) = rev (take k es) @ e # acc"
      "k \<le> length es"
      "k = length es \<or> MAX_TRANSCRIPT_CHARS \<le> used + length (te_text e) + sum_list (map (length \<circ> te_text) (take k es))"
      "k = 0 \<or> used + length (te_text e) + sum_list (map (length \<circ> te_text) (take (k - 1) es)) < MAX_TRANSCRIPT_CHARS"
      using Cons [of "used + length (te_text e)" "e # acc"] by blast
    show ?thesis
      using True k by (intro exI [of _ "Suc k"]) (cases k, auto simp: o_def ac_simps)
  next
    case False
    then show ?thesis by (intro exI [of _ 0]) simp
  qed
qed simp

section \<open>What the line said is kept\<close>

definition visible :: "jstr \<Rightarrow> jstr" where
  "visible s = filter (\<lambda>c. \<not> js_space c) s"

lemma visible_Nil [simp]: "visible [] = []"
  by (simp add: visible_def)

lemma visible_append [simp]: "visible (a @ b) = visible a @ visible b"
  by (simp add: visible_def)

lemma visible_dropWhile: "visible (dropWhile js_space s) = visible s"
  by (induction s) (auto simp: visible_def)

lemma visible_rev: "visible (rev s) = rev (visible s)"
  by (simp add: visible_def rev_filter)

lemma visible_trim [simp]: "visible (trim s) = visible s"
  by (simp add: trim_def trim_start_def trim_end_def visible_rev visible_dropWhile)

lemma visible_trim_start [simp]: "visible (trim_start s) = visible s"
  by (simp add: trim_start_def visible_dropWhile)

lemma visible_Cons: "visible (c # s) = (if js_space c then visible s else c # visible s)"
  by (simp add: visible_def)

lemma sentence_break_visible:
  "sentence_break s = Some (a, b) \<Longrightarrow> visible s = visible a @ visible b"
proof (induction s arbitrary: a b)
  case (Cons c cs)
  show ?case
  proof (cases "sentence_break cs")
    case None
    then have "a = [c]" "b = trim_start cs"
      using Cons.prems by (auto split: if_splits)
    then show ?thesis using visible_append [of "[c]" cs] by simp
  next
    case (Some ab)
    then obtain a' where "a = c # a'" "sentence_break cs = Some (a', b)"
      using Cons.prems by (cases ab) auto
    then show ?thesis using Cons.IH by (simp add: visible_Cons)
  qed
qed simp

definition heard :: "navigator \<Rightarrow> jstr" where
  "heard n = visible (concat (map te_text (filter (\<lambda>e. te_who e = Who_line) (entries n))) @ partial n)"

lemma visible_Nil_iff: "trim s = [] \<Longrightarrow> visible s = []"
  using visible_trim [of s] by (simp add: visible_def)

lemma heard_cut:
  assumes "sentence_break (partial m) = Some (a, b)"
  shows "heard ((push_entry t Who_line (trim a) m)\<lparr>partial := b, partialAt := pa\<rparr>) = heard m"
  using sentence_break_visible [OF assms] by (simp add: heard_def push_entry_def)

lemma heard_line_text:
  assumes "\<not> stopped n"
  shows "heard (line_text now d n) = heard n @ visible d"
proof (cases "d = []")
  case True
  then show ?thesis by (simp add: line_text_def visible_def)
next
  case False
  let ?n1 = "if partial n = [] then n\<lparr>partialAt := nav_t now\<rparr> else n"
  let ?n2 = "?n1\<lparr>partial := partial ?n1 @ d, totalChars := totalChars ?n1 + int (length d)\<rparr>"
  have h: "heard ?n2 = heard n @ visible d" by (simp add: heard_def)
  have "line_text now d n = (case sentence_break (partial ?n2) of
      Some (m1, m2) \<Rightarrow> if trim m1 \<noteq> []
         then (push_entry (partialAt ?n2) Who_line (trim m1) ?n2)\<lparr>partial := m2, partialAt := nav_t now\<rparr>
         else ?n2
    | None \<Rightarrow> ?n2)"
    using False assms by (simp add: line_text_def Let_def)
  then show ?thesis
    using heard_cut [of ?n2] h by (auto split: option.splits)
qed

lemma heard_flush [simp]: "heard (flush_partial n) = heard n"
  by (auto simp: flush_partial_def heard_def push_entry_def visible_Nil_iff )

lemma heard_push_other: "w \<noteq> Who_line \<Longrightarrow> heard (push_entry t w x n) = heard n"
  by (simp add: heard_def push_entry_def)

lemma heard_assistant_said: "heard (assistant_said now x n) = heard n"
proof -
  have "heard (m\<lparr>totalChars := c\<rparr>) = heard m" for m c by (simp add: heard_def)
  then show ?thesis by (simp add: assistant_said_def heard_push_other Let_def)
qed

lemma heard_pressed: "heard (nav_pressed now b k n) = heard n"
proof -
  have "heard (m\<lparr>pressedAtChars := c\<rparr>) = heard m" "heard (m\<lparr>presses := q\<rparr>) = heard m" for m c q
    by (simp_all add: heard_def)
  then show ?thesis by (simp add: nav_pressed_def heard_push_other Let_def)
qed

section \<open>Invariant\<close>

definition nav_ok :: "navigator \<Rightarrow> bool" where
  "nav_ok n \<longleftrightarrow> distinct (map te_id (entries n)) \<and> (\<forall>e\<in>set (entries n). te_id e < next_entry n)
     \<and> 0 \<le> totalChars n
     \<and> (case nav_phase n of
          Pressing i e \<Rightarrow> i < length (presses n) \<and> kp_by (presses n ! i) = By_navigator
            \<and> (\<exists>x\<in>set (entries n). te_id x = e \<and> te_who x = Who_keypad)
        | _ \<Rightarrow> True)"

text \<open>An operation that only appends to the transcript and to the presses.\<close>

definition nav_extends :: "navigator \<Rightarrow> navigator \<Rightarrow> bool" where
  "nav_extends n n' \<longleftrightarrow> (\<exists>le lp. entries n' = entries n @ le \<and> presses n' = presses n @ lp
       \<and> distinct (map te_id le) \<and> (\<forall>e\<in>set le. next_entry n \<le> te_id e \<and> te_id e < next_entry n'))
     \<and> next_entry n \<le> next_entry n' \<and> nav_phase n' = nav_phase n \<and> totalChars n \<le> totalChars n'"

lemma nav_extends_refl: "nav_extends n n"
  by (simp add: nav_extends_def)

lemma nav_extends_trans:
  assumes "nav_extends a b" "nav_extends b c"
  shows "nav_extends a c"
proof -
  obtain le1 lp1 where 1: "entries b = entries a @ le1" "presses b = presses a @ lp1"
    "distinct (map te_id le1)" "\<forall>e\<in>set le1. next_entry a \<le> te_id e \<and> te_id e < next_entry b"
    using assms(1) by (auto simp: nav_extends_def)
  obtain le2 lp2 where 2: "entries c = entries b @ le2" "presses c = presses b @ lp2"
    "distinct (map te_id le2)" "\<forall>e\<in>set le2. next_entry b \<le> te_id e \<and> te_id e < next_entry c"
    using assms(2) by (auto simp: nav_extends_def)
  have n: "next_entry a \<le> next_entry b" "next_entry b \<le> next_entry c" "nav_phase c = nav_phase a"
    "totalChars a \<le> totalChars c"
    using assms by (auto simp: nav_extends_def)
  have "set (map te_id le1) \<inter> set (map te_id le2) = {}" using 1(4) 2(4) by fastforce
  then have d: "distinct (map te_id (le1 @ le2))" using 1(3) 2(3) by auto
  have b: "\<forall>e\<in>set (le1 @ le2). next_entry a \<le> te_id e \<and> te_id e < next_entry c"
    using 1(4) 2(4) n by fastforce
  show ?thesis unfolding nav_extends_def
    using 1(1,2) 2(1,2) d b n by (intro conjI exI [of _ "le1 @ le2"] exI [of _ "lp1 @ lp2"]) auto
qed

lemma nav_extends_ok: "nav_extends n n' \<Longrightarrow> nav_ok n \<Longrightarrow> nav_ok n'"
  by (fastforce simp: nav_extends_def nav_ok_def nth_append split: nav_phase.splits)

lemma push_extends: "nav_extends n (push_entry t w x n)"
  by (auto simp: nav_extends_def push_entry_def)

lemma flush_extends: "nav_extends n (flush_partial n)"
  by (auto simp: nav_extends_def push_entry_def flush_partial_def)

lemma line_text_extends: "nav_extends n (line_text now d n)"
  by (auto simp: nav_extends_def push_entry_def line_text_def Let_def split: option.splits)

lemma assistant_said_extends: "nav_extends n (assistant_said now x n)"
proof (cases "stopped n \<or> trim x = []")
  case True
  then show ?thesis by (auto simp: assistant_said_def nav_extends_refl)
next
  case False
  let ?m = "push_entry (nav_t now) Who_assistant (trim x) (flush_partial n)"
  have "nav_extends ?m (?m\<lparr>totalChars := totalChars ?m + int (length x)\<rparr>)"
    by (simp add: nav_extends_def)
  then show ?thesis
    using False nav_extends_trans [OF nav_extends_trans [OF flush_extends push_extends]]
    by (simp add: assistant_said_def Let_def)
qed

lemma pressed_extends: "nav_extends n (nav_pressed now b k n)"
proof (cases "stopped n")
  case True
  then show ?thesis by (simp add: nav_pressed_def nav_extends_refl)
next
  case False
  let ?n1 = "n\<lparr>presses := presses n @ [\<lparr>kp_t = nav_t now, kp_by = b, kp_keys = k\<rparr>]\<rparr>"
  let ?m = "push_entry (nav_t now) Who_keypad (keypad_text b k) (flush_partial ?n1)"
  have "nav_extends ?m (?m\<lparr>pressedAtChars := c\<rparr>)" for c by (simp add: nav_extends_def)
  moreover have "nav_extends n ?n1" by (simp add: nav_extends_def)
  ultimately have "nav_extends n (?m\<lparr>pressedAtChars := c\<rparr>)" "nav_extends n ?m" for c
    by (meson nav_extends_trans flush_extends push_extends)+
  then show ?thesis using False by (cases b) (simp_all add: nav_pressed_def Let_def)
qed

lemma nav_pressed_navigator:
  assumes "\<not> stopped n"
  shows "presses (nav_pressed now By_navigator k n)
      = presses n @ [\<lparr>kp_t = nav_t now, kp_by = By_navigator, kp_keys = k\<rparr>]"
    and "entries (nav_pressed now By_navigator k n) = entries (flush_partial n)
      @ [\<lparr>te_id = next_entry (flush_partial n), te_t = nav_t now, te_who = Who_keypad,
         te_text = keypad_text By_navigator k\<rparr>]"
  using assms by (auto simp: nav_pressed_def Let_def push_entry_def flush_partial_def)

lemma nav_check_shape:
  "(\<exists>c q t. fst (nav_check opts now n) = n\<lparr>seenChars := c, checkedQuietSince := q, lastCheckAt := t, nav_phase := Deciding\<rparr>)
   \<or> fst (nav_check opts now n) = n"
  by (auto simp: nav_check_def Let_def)

text \<open>
  What an answer does to the state: the check ends (perhaps stopped), or the navigator's own
  press is recorded and awaited.
\<close>

lemma nav_answer_cases:
  obtains (ended) la st where "fst (nav_answer opts now a n) = n\<lparr>lastAction := la, stopped := st, nav_phase := Idle\<rparr>"
  | (press) k m where "\<not> stopped n" "nav_verdict opts a = V_press k"
      "m = nav_pressed now By_navigator k (n\<lparr>lastAction := choice_of a (js ''action'')\<rparr>)"
      "fst (nav_answer opts now a n) = m\<lparr>nav_phase := Pressing (length (presses n)) (te_id (last (entries m)))\<rparr>"
proof (cases "stopped n")
  case True
  then show ?thesis by (intro ended [where la = "lastAction n" and st = True]) (auto simp: nav_answer_def)
next
  case False
  let ?la = "choice_of a (js ''action'')"
  show ?thesis
  proof (cases "nav_verdict opts a")
    case V_hand_off
    then show ?thesis using False ended [where la = ?la and st = True] by (simp add: nav_answer_def nav_stop_def Let_def)
  next
    case V_hang_up
    then show ?thesis using False ended [where la = ?la and st = True] by (simp add: nav_answer_def nav_stop_def Let_def)
  next
    case (V_press k)
    then show ?thesis using False press by (simp add: nav_answer_def Let_def)
  next
    case V_nothing
    then show ?thesis using False ended [where la = ?la and st = False] by (simp add: nav_answer_def Let_def)
  qed
qed

lemma nav_answer_ok: "nav_ok n \<Longrightarrow> nav_ok (fst (nav_answer opts now a n))"
proof (cases rule: nav_answer_cases [of opts now a n])
  case (press k m)
  assume ok: "nav_ok n"
  let ?n1 = "n\<lparr>lastAction := choice_of a (js ''action'')\<rparr>"
  have st: "\<not> stopped ?n1" using press(1) by simp
  have "nav_ok ?n1" using ok by (simp add: nav_ok_def split: nav_phase.splits)
  then have "nav_ok m" using nav_extends_ok [OF pressed_extends] press(3) by blast
  then show ?thesis
    unfolding press(4) using nav_pressed_navigator [OF st, of now k] press(3)
    by (auto simp: nav_ok_def nth_append)
qed (auto simp: nav_ok_def)

lemma nav_press_done_ok: "nav_ok n \<Longrightarrow> nav_ok (nav_press_done ok n)"
  by (auto simp: nav_ok_def nav_press_done_def distinct_map_filter split: nav_phase.splits)

lemma nav_step_ok: "nav_ok n \<Longrightarrow> nav_ok (fst (nav_step opts n e))"
proof (cases e)
  case (Nav_tick now)
  assume "nav_ok n"
  moreover have "nav_ok n \<Longrightarrow>
      nav_ok (n\<lparr>seenChars := c, checkedQuietSince := q, lastCheckAt := t, nav_phase := Deciding\<rparr>)" for c q t
    by (simp add: nav_ok_def)
  ultimately show ?thesis using nav_check_shape [of opts now n] Nav_tick by auto
next
  case (Nav_answers now a)
  then show "nav_ok n \<Longrightarrow> ?thesis" by (simp add: nav_answer_ok)
next
  case (Nav_window now prob rms)
  then show "nav_ok n \<Longrightarrow> ?thesis"
    by (auto simp: nav_ok_def nav_line_sound_def split: prod.splits nav_phase.splits)
next
  case Nav_stop
  then show "nav_ok n \<Longrightarrow> ?thesis" by (simp add: nav_ok_def nav_stop_def split: nav_phase.splits)
next
  case (Nav_failed m)
  then show "nav_ok n \<Longrightarrow> ?thesis" by (simp add: nav_ok_def nav_catch_def split: nav_phase.splits)
qed (auto intro: nav_extends_ok [OF line_text_extends] nav_extends_ok [OF assistant_said_extends]
      nav_extends_ok [OF pressed_extends] nav_press_done_ok)

definition nav_step_state :: "navigator_options \<Rightarrow> navigator \<Rightarrow> nav_event \<Rightarrow> navigator" where
  "nav_step_state opts n e = fst (nav_step opts n e)"

interpretation nav: event_machine "nav_step_state opts" nav_ok for opts
  by unfold_locales (simp add: nav_step_state_def nav_step_ok)

lemma nav_run_foldl: "fst (nav_run opts n es) = foldl (nav_step_state opts) n es"
  by (induction es arbitrary: n) (simp_all add: nav_step_state_def case_prod_beta Let_def)

lemma nav_run_ok: "nav_ok n \<Longrightarrow> nav_ok (fst (nav_run opts n es))"
  by (simp add: nav_run_foldl nav.run_inv)

lemma new_navigator_ok: "nav_ok new_navigator"
  by (simp add: nav_ok_def new_navigator_def)

section \<open>Stopping\<close>

lemma stopped_stays: "stopped n \<Longrightarrow> stopped (fst (nav_step opts n e))"
  by (cases e) (auto simp: nav_check_def nav_answer_def nav_catch_def nav_press_done_def line_text_def
      assistant_said_def nav_pressed_def nav_line_sound_def nav_stop_def Let_def split: nav_phase.splits)

fun nav_acts :: "nav_effect \<Rightarrow> bool" where
  "nav_acts (Nav_log _) = False"
| "nav_acts _ = True"

lemma stopped_silent: "stopped n \<Longrightarrow> filter nav_acts (snd (nav_step opts n e)) = []"
  by (cases e) (auto simp: nav_check_def nav_answer_def nav_catch_def)

lemma stopped_run_silent: "stopped n \<Longrightarrow> filter nav_acts (snd (nav_run opts n es)) = []"
proof (induction es arbitrary: n)
  case (Cons e es)
  show ?case
    using Cons.IH [OF stopped_stays [OF Cons.prems]] stopped_silent [OF Cons.prems, of opts e]
    by (simp add: case_prod_beta Let_def)
qed simp

fun nav_final :: "nav_effect \<Rightarrow> bool" where
  "nav_final (Nav_hang_up _) = True"
| "nav_final Nav_hand_off = True"
| "nav_final _ = False"

text \<open>The navigator's actions of one step: none, a decision request, a press, or its last word.\<close>

lemma nav_step_acts:
  "\<exists>fs. filter nav_acts (snd (nav_step opts n e)) = fs \<and> length fs \<le> 1
     \<and> (list_ex nav_final fs \<longrightarrow> stopped (fst (nav_step opts n e)))"
  by (cases e) (auto simp: nav_check_def nav_answer_def nav_catch_def nav_stop_def Let_def split: verdict.splits)

lemma nav_run_final:
  "\<exists>pre post. filter nav_acts (snd (nav_run opts n es)) = pre @ post \<and> list_all (\<lambda>f. \<not> nav_final f) pre
     \<and> length post \<le> 1"
proof (induction es arbitrary: n)
  case (Cons e es)
  let ?fs = "filter nav_acts (snd (nav_step opts n e))" and ?n1 = "fst (nav_step opts n e)"
  have run: "filter nav_acts (snd (nav_run opts n (e # es))) = ?fs @ filter nav_acts (snd (nav_run opts ?n1 es))"
    by (simp add: case_prod_beta Let_def)
  show ?case
  proof (cases "list_ex nav_final ?fs")
    case True
    then have "stopped ?n1" "length ?fs \<le> 1" using nav_step_acts [of opts n e] by auto
    then show ?thesis unfolding run using stopped_run_silent by (intro exI [of _ "[]"] exI [of _ ?fs]) simp
  next
    case False
    obtain pre post where "filter nav_acts (snd (nav_run opts ?n1 es)) = pre @ post"
      "list_all (\<lambda>f. \<not> nav_final f) pre" "length post \<le> 1" using Cons by blast
    then show ?thesis unfolding run using False
      by (intro exI [of _ "?fs @ pre"] exI [of _ post]) (auto simp: list_all_iff list_ex_iff)
  qed
qed (simp add: exI [of _ "[]"])

section \<open>What is heard over a run\<close>

fun line_deltas :: "nav_event list \<Rightarrow> jstr" where
  "line_deltas [] = []"
| "line_deltas (Nav_line_text now d # es) = d @ line_deltas es"
| "line_deltas (e # es) = line_deltas es"

lemma heard_press_done:
  assumes "nav_ok n"
  shows "heard (nav_press_done ok n) = heard n"
proof (cases "nav_phase n")
  case (Pressing i e)
  then obtain x where x: "x \<in> set (entries n)" "te_id x = e" "te_who x = Who_keypad"
    using assms by (auto simp: nav_ok_def)
  have "filter (\<lambda>y. te_who y = Who_line \<and> te_id y \<noteq> e) (entries n) = filter (\<lambda>y. te_who y = Who_line) (entries n)"
  proof (rule filter_cong [OF refl])
    fix y assume "y \<in> set (entries n)"
    then have "te_id y = e \<Longrightarrow> y = x"
      using assms x by (auto simp: nav_ok_def distinct_map inj_on_def)
    then show "(te_who y = Who_line \<and> te_id y \<noteq> e) = (te_who y = Who_line)" using x(3) by auto
  qed
  then show ?thesis using Pressing by (simp add: heard_def nav_press_done_def conj_commute)
qed (simp_all add: nav_press_done_def)

lemma heard_answer: "heard (fst (nav_answer opts now a n)) = heard n"
proof (cases rule: nav_answer_cases [of opts now a n])
  case (press k m)
  have "heard (m\<lparr>nav_phase := p\<rparr>) = heard m" "heard (n\<lparr>lastAction := l\<rparr>) = heard n" for p l
    by (simp_all add: heard_def)
  then show ?thesis using press(3,4) heard_pressed by simp
qed (auto simp: heard_def)

lemma heard_step:
  assumes "nav_ok n" "\<not> stopped n"
  shows "heard (fst (nav_step opts n e)) = heard n @ visible (line_deltas [e])"
proof (cases e)
  case (Nav_tick now)
  then show ?thesis using nav_check_shape [of opts now n] by (auto simp: heard_def)
next
  case (Nav_failed m)
  then show ?thesis by (simp add: heard_def nav_catch_def)
next
  case (Nav_window now prob rms)
  then show ?thesis by (auto simp: heard_def nav_line_sound_def split: prod.splits)
next
  case Nav_stop
  then show ?thesis by (simp add: heard_def nav_stop_def)
qed (use assms in \<open>auto simp: heard_answer heard_press_done heard_line_text heard_assistant_said heard_pressed \<close>)

lemma line_deltas_Cons: "line_deltas (e # es) = line_deltas [e] @ line_deltas es"
  by (cases e) auto

lemma heard_run:
  "nav_ok n \<Longrightarrow> \<not> stopped (fst (nav_run opts n es)) \<Longrightarrow>
     heard (fst (nav_run opts n es)) = heard n @ visible (line_deltas es)"
proof (induction es arbitrary: n)
  case Nil
  then show ?case by (simp add: visible_def)
next
  case (Cons e es)
  have stays: "stopped m \<Longrightarrow> stopped (fst (nav_run opts m xs))" for m xs
    by (induction xs arbitrary: m) (auto simp: case_prod_beta Let_def stopped_stays)
  have run: "fst (nav_run opts n (e # es)) = fst (nav_run opts (fst (nav_step opts n e)) es)"
    by (simp add: case_prod_beta Let_def)
  have ns: "\<not> stopped n" "\<not> stopped (fst (nav_run opts (fst (nav_step opts n e)) es))"
    using Cons.prems(2) stays [of "fst (nav_step opts n e)" es] stopped_stays unfolding run by blast+
  show ?case
    unfolding run line_deltas_Cons [of e es]
    using Cons.IH [OF nav_step_ok [OF Cons.prems(1)] ns(2)] heard_step [OF Cons.prems(1) ns(1)] by simp
qed

section \<open>A failed press\<close>

fun no_reply :: "nav_event \<Rightarrow> bool" where
  "no_reply (Nav_answers _ _) = False"
| "no_reply (Nav_failed _) = False"
| "no_reply (Nav_press_result _) = False"
| "no_reply _ = True"

lemma pressing_step_extends:
  assumes "nav_phase n = Pressing i e" "no_reply ev"
  shows "nav_extends n (fst (nav_step opts n ev))"
proof (cases ev)
  case (Nav_window now prob rms)
  then show ?thesis by (auto simp: nav_extends_def nav_line_sound_def split: prod.splits)
next
  case Nav_stop
  then show ?thesis by (simp add: nav_extends_def nav_stop_def)
qed (use assms in \<open>auto simp: nav_check_def nav_extends_refl line_text_extends assistant_said_extends pressed_extends\<close>)

lemma pressing_run_extends:
  "nav_phase n = Pressing i e \<Longrightarrow> list_all no_reply es \<Longrightarrow> nav_extends n (fst (nav_run opts n es))"
proof (induction es arbitrary: n)
  case Nil
  then show ?case by (simp add: nav_extends_refl)
next
  case (Cons ev es)
  have x: "nav_extends n (fst (nav_step opts n ev))"
    using pressing_step_extends [OF Cons.prems(1)] Cons.prems(2) by simp
  then have "nav_phase (fst (nav_step opts n ev)) = Pressing i e"
    using Cons.prems(1) by (simp add: nav_extends_def)
  then show ?case
    using nav_extends_trans [OF x] Cons.IH Cons.prems(2) by (simp add: case_prod_beta Let_def)
qed

lemma splice_last:
  "i = length xs \<Longrightarrow> take i (xs @ x # ys) @ drop (i + 1) (xs @ x # ys) = xs @ ys"
  by simp

lemma flush_keeps: "presses (flush_partial n) = presses n" "next_entry n \<le> next_entry (flush_partial n)"
  by (auto simp: flush_partial_def push_entry_def)

lemma flush_ids: "nav_ok n \<Longrightarrow> e \<in> set (entries (flush_partial n)) \<Longrightarrow> te_id e < next_entry (flush_partial n)"
  using nav_extends_ok [OF flush_extends, of n] by (auto simp: nav_ok_def)

section \<open>Properties\<close>

text \<open>
  The navigator acts on the call only on an answer that is sure enough: a key is pressed
  only if the action and the key both reach the threshold and the key is on the keypad; it hangs
  up or hands off only if that action reaches it; and never once it is stopped.
\<close>

lemma nav_acts_on_sure_answers:
  assumes "f \<in> set (snd (nav_step opts n e))" and "nav_acts f" and "\<forall>v. f \<noteq> Nav_decide v"
  shows "\<exists>now a. e = Nav_answers now a \<and> \<not> stopped n \<and>
    (case f of
       Nav_press k \<Rightarrow> k \<in> set KEYS \<and> wants opts a (js ''press'') \<and> prob_of a (js ''key'') k \<ge> threshold opts
         \<and> choice_of a (js ''key'') = Some k
     | Nav_hang_up r \<Rightarrow> wants opts a (js ''hang_up'') \<and> r = best_reason a
     | _ \<Rightarrow> wants opts a (js ''hand_off''))"
proof (cases e)
  case (Nav_tick now)
  then show ?thesis using assms by (auto simp: nav_check_def Let_def split: if_splits)
next
  case (Nav_failed m)
  then show ?thesis using assms by (auto simp: nav_catch_def split: if_splits)
next
  case (Nav_answers now a)
  then have f: "f \<in> set (snd (nav_answer opts now a n))" using assms(1) by (auto split: if_splits)
  then have st: "\<not> stopped n" by (auto simp: nav_answer_def)
  have "case f of
       Nav_press k \<Rightarrow> nav_verdict opts a = V_press k
     | Nav_hang_up r \<Rightarrow> nav_verdict opts a = V_hang_up \<and> r = best_reason a
     | _ \<Rightarrow> nav_verdict opts a = V_hand_off"
    using f st assms(2,3) by (auto simp: nav_answer_def Let_def split: verdict.splits if_splits)
  then show ?thesis using Nav_answers st
    by (auto simp: nav_verdict_def split: nav_effect.splits if_splits option.splits)
qed (use assms in auto)

lemma nav_acts_on_sure_answers_witness:
  "js ''1'' \<in> set KEYS \<and>
   (\<exists>now a. Nav_answers 5 [(js ''action'', js ''press'', [(js ''press'', 1)]), (js ''key'', js ''1'', [(js ''1'', 1)])]
      = Nav_answers now a \<and> choice_of a (js ''key'') = Some (js ''1''))"
proof -
  let ?a = "[(js ''action'', js ''press'', [(js ''press'', 1)]), (js ''key'', js ''1'', [(js ''1'', 1)])]"
  let ?o = "\<lparr>nav_goal = [], checkEverySeconds = 2, holdLimitSeconds = 60, threshold = 1 / 2\<rparr>"
  let ?n = "new_navigator\<lparr>nav_phase := Deciding\<rparr>"
  have "nav_verdict ?o ?a = V_press (js ''1'')"
    by (simp add: nav_verdict_def wants_def choice_of_def prob_of_def jm_get_def KEYS_def)
  then have "Nav_press (js ''1'') \<in> set (snd (nav_step ?o ?n (Nav_answers 5 ?a)))"
    by (simp add: nav_answer_def Let_def new_navigator_def)
  from nav_acts_on_sure_answers [OF this] show ?thesis by auto
qed

text \<open>
  The navigator has one last word: over any run of events it hangs up or hands off at most
  once, and after that it requests no decision and presses no key.
\<close>

lemma nav_last_word:
  "\<exists>pre post. filter nav_acts (snd (nav_run opts n es)) = pre @ post
     \<and> list_all (\<lambda>f. \<not> nav_final f) pre \<and> length post \<le> 1"
  by (rule nav_run_final)

text \<open>
  A failed key press leaves no trace: whatever happened while it was awaited (the line, the
  assistant's own presses), afterwards the presses and the transcript are those of the call
  without it, no check is in flight, and the next check looks at the call again even if the line
  has said nothing new.
\<close>

lemma failed_press_leaves_no_trace:
  fixes now now' :: int
  assumes "nav_ok n" and "\<not> stopped n" and "nav_verdict opts a = V_press k"
    and "list_all no_reply es"
  defines "n1 \<equiv> fst (nav_answer opts now a n)"
  defines "n2 \<equiv> fst (nav_run opts n1 es)"
  defines "n3 \<equiv> nav_press_done False n2"
  shows "\<exists>le lp. entries n2 = entries n1 @ le \<and> presses n2 = presses n1 @ lp
     \<and> entries n3 = entries (flush_partial n) @ le \<and> presses n3 = presses n @ lp
     \<and> nav_phase n3 = Idle \<and> (stopped n3 \<or> snd (nav_check opts now' n3) \<noteq> [])"
proof -
  let ?n0 = "n\<lparr>lastAction := choice_of a (js ''action'')\<rparr>"
  let ?m = "nav_pressed now By_navigator k ?n0"
  let ?p = "\<lparr>kp_t = nav_t now, kp_by = By_navigator, kp_keys = k\<rparr>"
  let ?x = "\<lparr>te_id = next_entry (flush_partial ?n0), te_t = nav_t now, te_who = Who_keypad,
         te_text = keypad_text By_navigator k\<rparr>"
  have f0: "entries (flush_partial ?n0) = entries (flush_partial n)" "next_entry (flush_partial ?n0) = next_entry (flush_partial n)"
    by (simp_all add: flush_partial_def push_entry_def)
  have n1: "n1 = ?m\<lparr>nav_phase := Pressing (length (presses n)) (te_id (last (entries ?m)))\<rparr>"
    using assms(2,3) by (simp add: n1_def nav_answer_def Let_def)
  have e1: "entries n1 = entries (flush_partial n) @ [?x]" "presses n1 = presses n @ [?p]"
    and ph: "nav_phase n1 = Pressing (length (presses n)) (next_entry (flush_partial n))"
    using nav_pressed_navigator [of ?n0 now k] assms(2) by (simp_all add: n1 f0)
  have ok1: "nav_ok n1" unfolding n1_def by (rule nav_answer_ok [OF assms(1)])
  have x: "nav_extends n1 n2" unfolding n2_def by (rule pressing_run_extends [OF ph assms(4)])
  then obtain le lp where 2: "entries n2 = entries n1 @ le" "presses n2 = presses n1 @ lp"
    "\<forall>e\<in>set le. next_entry n1 \<le> te_id e" by (auto simp: nav_extends_def)
  have ph2: "nav_phase n2 = nav_phase n1" "0 \<le> totalChars n2"
    using x ok1 by (auto simp: nav_extends_def nav_ok_def)
  have lt: "next_entry (flush_partial n) < next_entry n1"
    using ok1 e1(1) by (auto simp: nav_ok_def f0)
  have keep: "filter (\<lambda>e. te_id e \<noteq> next_entry (flush_partial n)) (entries n2) = entries (flush_partial n) @ le"
  proof -
    have "filter (\<lambda>e. te_id e \<noteq> next_entry (flush_partial n)) (entries (flush_partial n)) = entries (flush_partial n)"
      using flush_ids [OF assms(1)] by (intro filter_True) fastforce
    moreover have "filter (\<lambda>e. te_id e \<noteq> next_entry (flush_partial n)) le = le"
      using 2(3) lt by (intro filter_True) fastforce
    ultimately show ?thesis using 2(1) e1(1) by (simp add: f0)
  qed
  have n3: "entries n3 = entries (flush_partial n) @ le" "presses n3 = presses n @ lp" "nav_phase n3 = Idle"
    "seenChars n3 = - 1" "pressedAtChars n3 = - 1" "totalChars n3 = totalChars n2"
    using keep 2(2) e1(2) by (simp_all add: n3_def nav_press_done_def ph2 ph splice_last)
  have "stopped n3 \<or> snd (nav_check opts now' n3) \<noteq> []"
    using n3(3-6) ph2(2) by (simp add: nav_check_def Let_def)
  then show ?thesis using 2(1,2) n3(1-3) by blast
qed

lemma failed_press_leaves_no_trace_witness:
  "\<exists>lp. presses (nav_press_done False (fst (nav_run \<lparr>nav_goal = [], checkEverySeconds = 2, holdLimitSeconds = 60, threshold = 1 / 2\<rparr>
     (fst (nav_answer \<lparr>nav_goal = [], checkEverySeconds = 2, holdLimitSeconds = 60, threshold = 1 / 2\<rparr> 5
        [(js ''action'', js ''press'', [(js ''press'', 1)]), (js ''key'', js ''1'', [(js ''1'', 1)])] new_navigator))
     [Nav_line_text 9 (js ''Hello. ''), Nav_keys 10 (js ''7'')]))) = presses new_navigator @ lp"
proof -
  let ?a = "[(js ''action'', js ''press'', [(js ''press'', 1)]), (js ''key'', js ''1'', [(js ''1'', 1)])]"
  let ?o = "\<lparr>nav_goal = [], checkEverySeconds = 2, holdLimitSeconds = 60, threshold = 1 / 2\<rparr>"
  have v: "nav_verdict ?o ?a = V_press (js ''1'')"
    by (simp add: nav_verdict_def wants_def choice_of_def prob_of_def jm_get_def KEYS_def)
  show ?thesis
    using failed_press_leaves_no_trace [OF new_navigator_ok _ v, of "[Nav_line_text 9 (js ''Hello. ''), Nav_keys 10 (js ''7'')]" 5]
    by (auto simp: new_navigator_def)
qed

text \<open>
  Nothing the line said is lost or doubled: as long as the navigator runs, the visible
  text of its line entries and the unfinished sentence is exactly the visible text of the
  transcriber's deltas, in order, through sentence cuts, the assistant's speech, key presses,
  failed presses and checks.
\<close>

lemma nav_hears_everything:
  "stopped (fst (nav_run opts new_navigator es))
   \<or> heard (fst (nav_run opts new_navigator es)) = visible (line_deltas es)"
proof -
  have "heard new_navigator = []" by (simp add: heard_def new_navigator_def)
  then show ?thesis using heard_run [OF new_navigator_ok, of opts es] by auto
qed

text \<open>
  The transcript sent with a check is the end of the call's transcript, whole entries: all
  of it, or at least 4000 characters of which the oldest entry is needed to reach them.
\<close>

lemma nav_transcript_bounded:
  "\<exists>older. all_entries n = older @ view_transcript (nav_state opts now n)
     \<and> (older = [] \<or> MAX_TRANSCRIPT_CHARS \<le> sum_list (map (length \<circ> te_text) (view_transcript (nav_state opts now n))))
     \<and> (view_transcript (nav_state opts now n) = []
        \<or> sum_list (map (length \<circ> te_text) (tl (view_transcript (nav_state opts now n)))) < MAX_TRANSCRIPT_CHARS)"
proof -
  let ?all = "all_entries n" and ?v = "view_transcript (nav_state opts now n)"
  obtain k where k: "?v = rev (take k (rev ?all))" "k \<le> length ?all"
    "k = length ?all \<or> MAX_TRANSCRIPT_CHARS \<le> sum_list (map (length \<circ> te_text) (take k (rev ?all)))"
    "k = 0 \<or> sum_list (map (length \<circ> te_text) (take (k - 1) (rev ?all))) < MAX_TRANSCRIPT_CHARS"
    using recent_entries_spec [of 0 "rev ?all" "[]"] by (auto simp: nav_state_def)
  have v: "?v = drop (length ?all - k) ?all" using k(1,2) by (simp add: rev_take)
  have sums: "sum_list (map (length \<circ> te_text) (rev xs)) = sum_list (map (length \<circ> te_text) xs)" for xs
    by (simp add: rev_map [symmetric] sum_list_rev)
  have tl: "tl ?v = rev (take (k - 1) (rev ?all))"
    using k(1,2) butlast_rev [of "rev (take k (rev ?all))"] by (simp add: butlast_take)
  have "sum_list (map (length \<circ> te_text) ?v) = sum_list (map (length \<circ> te_text) (take k (rev ?all)))"
    unfolding k(1) by (rule sums)
  moreover have "sum_list (map (length \<circ> te_text) (tl ?v)) = sum_list (map (length \<circ> te_text) (take (k - 1) (rev ?all)))"
    unfolding tl by (rule sums)
  moreover have "?all = take (length ?all - k) ?all @ ?v" unfolding v by simp
  moreover have "k = length ?all \<Longrightarrow> take (length ?all - k) ?all = []" "k = 0 \<Longrightarrow> ?v = []"
    unfolding v by simp_all
  ultimately show ?thesis using k(3,4) by metis
qed

end
