(* ===== verification/Base64.thy ===== *)
theory Base64
  imports Bytes
begin

text \<open>
  The byte encodings of Node's \<open>Buffer\<close> that the lines use: base64 (\<open>toString("base64")\<close>, and the
  lenient \<open>Buffer.from(s, "base64")\<close>, which skips foreign characters and stops at padding) and
  UTF-8 of a string of UTF-16 code units.
\<close>

section \<open>Sextets\<close>

definition sextet_char :: "nat \<Rightarrow> nat" where
  "sextet_char v = (if v < 26 then 65 + v else if v < 52 then 71 + v else if v < 62 then v - 4
     else if v = 62 then 43 else 47)"

text \<open>The value of a character, of the URL alphabet too; \<open>None\<close> for characters that are skipped.\<close>

definition char_sextet :: "nat \<Rightarrow> nat option" where
  "char_sextet c =
     (if is_upper c then Some (c - 65)
      else if is_lower c then Some (c - 71)
      else if is_digit c then Some (c + 4)
      else if c = 43 \<or> c = 45 then Some 62
      else if c = 47 \<or> c = 95 then Some 63
      else None)"

fun base64_encode :: "byte list \<Rightarrow> jstr" where
  "base64_encode (a # b # c # bs) =
     (let n = unat a * 65536 + unat b * 256 + unat c
      in [sextet_char (n div 262144), sextet_char (n div 4096 mod 64),
          sextet_char (n div 64 mod 64), sextet_char (n mod 64)] @ base64_encode bs)"
| "base64_encode [a, b] =
     (let n = unat a * 256 + unat b
      in [sextet_char (n div 1024), sextet_char (n div 16 mod 64), sextet_char (n mod 16 * 4), 61])"
| "base64_encode [a] = [sextet_char (unat a div 4), sextet_char (unat a mod 4 * 16), 61, 61]"
| "base64_encode [] = []"

fun sextets_bytes :: "nat list \<Rightarrow> byte list" where
  "sextets_bytes (w # x # y # z # vs) =
     [word_of_nat (w * 4 + x div 16), word_of_nat (x mod 16 * 16 + y div 4), word_of_nat (y mod 4 * 64 + z)]
       @ sextets_bytes vs"
| "sextets_bytes [w, x, y] = [word_of_nat (w * 4 + x div 16), word_of_nat (x mod 16 * 16 + y div 4)]"
| "sextets_bytes [w, x] = [word_of_nat (w * 4 + x div 16)]"
| "sextets_bytes _ = []"

definition base64_decode :: "jstr \<Rightarrow> byte list" where
  "base64_decode s = sextets_bytes (List.map_filter char_sextet (takeWhile (\<lambda>c. c \<noteq> 61) s))"

lemma char_sextet_char: "v < 64 \<Longrightarrow> char_sextet (sextet_char v) = Some v"
  by (auto simp: sextet_char_def char_sextet_def is_upper_def is_lower_def is_digit_def)

lemma sextet_char_pad: "v < 64 \<Longrightarrow> sextet_char v \<noteq> 61"
  by (auto simp: sextet_char_def)

lemma decode_sextets:
  "list_all (\<lambda>v. v < 64) vs \<Longrightarrow> rest = [] \<or> hd rest = 61 \<Longrightarrow>
     base64_decode (map sextet_char vs @ rest) = sextets_bytes vs"
proof -
  assume a: "list_all (\<lambda>v. v < 64) vs" "rest = [] \<or> hd rest = 61"
  have "takeWhile (\<lambda>c. c \<noteq> 61) (map sextet_char vs @ rest) = map sextet_char vs"
    using a by (cases rest) (auto simp: takeWhile_append list_all_iff sextet_char_pad)
  moreover have "List.map_filter char_sextet (map sextet_char vs) = vs"
    using a(1) by (induction vs) (auto simp: map_filter_simps char_sextet_char)
  ultimately show ?thesis by (simp add: base64_decode_def)
qed

lemma unat_byte: "unat (b :: byte) < 256"
  using unsigned_less [of b, where ?'a = nat] by simp

lemma byte_of_unat: "word_of_nat (unat b) = (b :: byte)"
  by simp

text \<open>The sextets of a byte list, as the encoder cuts it, without padding.\<close>

fun byte_sextets :: "byte list \<Rightarrow> nat list" where
  "byte_sextets (a # b # c # bs) =
     (let n = unat a * 65536 + unat b * 256 + unat c
      in [n div 262144, n div 4096 mod 64, n div 64 mod 64, n mod 64] @ byte_sextets bs)"
| "byte_sextets [a, b] = (let n = unat a * 256 + unat b in [n div 1024, n div 16 mod 64, n mod 16 * 4])"
| "byte_sextets [a] = [unat a div 4, unat a mod 4 * 16]"
| "byte_sextets [] = []"

lemma encode_byte_sextets:
  "\<exists>pad. base64_encode bs = map sextet_char (byte_sextets bs) @ pad \<and> (pad = [] \<or> hd pad = 61)"
proof (induction bs rule: base64_encode.induct)
  case (1 a b c bs)
  then show ?case by (auto simp: Let_def)
next
  case (2 a b)
  show ?case by (intro exI [of _ "[61]"]) (simp add: Let_def)
next
  case (3 a)
  show ?case by (intro exI [of _ "[61, 61]"]) simp
qed simp

lemma euclid:
  fixes x q n r :: nat
  assumes "x = q * n + r" "r < n"
  shows "x div n = q" "x mod n = r"
  using assms by auto

text \<open>The quarters, sixteenths and sixty-fourths of three bytes.\<close>

lemma byte_parts:
  fixes a b c :: nat
  assumes "a < 256" "b < 256" "c < 256"
  shows "a = a div 4 * 4 + a mod 4" "a div 4 < 64" "a mod 4 < 4"
    "b = b div 16 * 16 + b mod 16" "b div 16 < 16" "b mod 16 < 16"
    "c = c div 64 * 64 + c mod 64" "c div 64 < 4" "c mod 64 < 64"
  using assms by simp_all

lemma sextet_range3:
  assumes "a < (256::nat)" "b < 256" "c < 256"
  shows "(a * 65536 + b * 256 + c) div 262144 = a div 4"
    "(a * 65536 + b * 256 + c) div 4096 mod 64 = a mod 4 * 16 + b div 16"
    "(a * 65536 + b * 256 + c) div 64 mod 64 = b mod 16 * 4 + c div 64"
    "(a * 65536 + b * 256 + c) mod 64 = c mod 64"
proof -
  define a1 a0 b1 b0 c1 c0 where d: "a1 = a div 4" "a0 = a mod 4" "b1 = b div 16" "b0 = b mod 16"
    "c1 = c div 64" "c0 = c mod 64"
  note p = byte_parts [OF assms, folded d]
  let ?x = "a * 65536 + b * 256 + c"
  have "?x = a1 * 262144 + (a0 * 65536 + b * 256 + c)" "a0 * 65536 + b * 256 + c < 262144"
    using p assms by linarith+
  then show "?x div 262144 = a div 4" unfolding d(1) [symmetric] by (rule euclid)
  have "?x = (a1 * 64 + (a0 * 16 + b1)) * 4096 + (b0 * 256 + c)"
    using p(1,4) by (simp add: distrib_right)
  moreover have "b0 * 256 + c < 4096" using p assms by linarith
  ultimately have "?x div 4096 = a1 * 64 + (a0 * 16 + b1)" by (rule euclid)
  moreover have "(a1 * 64 + (a0 * 16 + b1)) mod 64 = a0 * 16 + b1"
    using p by (intro euclid(2) [OF refl]) linarith
  ultimately show "?x div 4096 mod 64 = a mod 4 * 16 + b div 16" by (simp add: d)
  have x64: "?x = (a1 * 4096 + a0 * 1024 + b1 * 64 + (b0 * 4 + c1)) * 64 + c0" "c0 < 64"
    using p(1,4,7) p(9) by (simp_all add: distrib_right)
  then have "?x div 64 = a1 * 4096 + a0 * 1024 + b1 * 64 + (b0 * 4 + c1)" by (rule euclid)
  moreover have "(a1 * 4096 + a0 * 1024 + b1 * 64 + (b0 * 4 + c1)) mod 64 = b0 * 4 + c1"
  proof (rule euclid(2))
    show "a1 * 4096 + a0 * 1024 + b1 * 64 + (b0 * 4 + c1) = (a1 * 64 + a0 * 16 + b1) * 64 + (b0 * 4 + c1)"
      by (simp add: distrib_right)
    show "b0 * 4 + c1 < 64" using p by linarith
  qed
  ultimately show "?x div 64 mod 64 = b mod 16 * 4 + c div 64" by (simp add: d)
  show "?x mod 64 = c mod 64" using euclid(2) [OF x64] by (simp add: d)
qed

lemma sextet_range2:
  assumes "a < (256::nat)" "b < 256"
  shows "(a * 256 + b) div 1024 = a div 4" "(a * 256 + b) div 16 mod 64 = a mod 4 * 16 + b div 16"
    "(a * 256 + b) mod 16 * 4 = b mod 16 * 4"
proof -
  define a1 a0 b1 b0 where d: "a1 = a div 4" "a0 = a mod 4" "b1 = b div 16" "b0 = b mod 16"
  note p = byte_parts [OF assms, of 0, folded d, simplified]
  let ?x = "a * 256 + b"
  have "?x = a1 * 1024 + (a0 * 256 + b)" "a0 * 256 + b < 1024" using p assms by linarith+
  then show "?x div 1024 = a div 4" unfolding d(1) [symmetric] by (rule euclid)
  have x: "?x = (a1 * 64 + (a0 * 16 + b1)) * 16 + b0" "b0 < 16"
    using p(1,4) p(6) by (simp_all add: distrib_right)
  then have "?x div 16 = a1 * 64 + (a0 * 16 + b1)" by (rule euclid)
  moreover have "(a1 * 64 + (a0 * 16 + b1)) mod 64 = a0 * 16 + b1"
    using p by (intro euclid(2) [OF refl]) linarith
  ultimately show "?x div 16 mod 64 = a mod 4 * 16 + b div 16" by (simp add: d)
  show "?x mod 16 * 4 = b mod 16 * 4" using euclid(2) [OF x] by (simp add: d)
qed

lemma byte_join:
  fixes a b c :: nat
  assumes "a < 256" "b < 256" "c < 256"
  shows "a div 4 * 4 + (a mod 4 * 16 + b div 16) div 16 = a"
    and "(a mod 4 * 16 + b div 16) mod 16 * 16 + (b mod 16 * 4 + c div 64) div 4 = b"
    and "(b mod 16 * 4 + c div 64) mod 4 * 64 + c mod 64 = c"
proof -
  note p = byte_parts [OF assms]
  have 1: "(a mod 4 * 16 + b div 16) div 16 = a mod 4" "(a mod 4 * 16 + b div 16) mod 16 = b div 16"
    using euclid [OF refl p(5), of "a mod 4"] by simp_all
  have 2: "(b mod 16 * 4 + c div 64) div 4 = b mod 16" "(b mod 16 * 4 + c div 64) mod 4 = c div 64"
    using euclid [OF refl p(8), of "b mod 16"] by simp_all
  show "a div 4 * 4 + (a mod 4 * 16 + b div 16) div 16 = a"
    and "(a mod 4 * 16 + b div 16) mod 16 * 16 + (b mod 16 * 4 + c div 64) div 4 = b"
    and "(b mod 16 * 4 + c div 64) mod 4 * 64 + c mod 64 = c"
    unfolding 1 2 using p by linarith+
qed

lemma byte_sextets_range: "list_all (\<lambda>v. v < 64) (byte_sextets bs)"
proof (induction bs rule: byte_sextets.induct)
  case (1 a b c bs)
  note p = byte_parts [OF unat_byte [of a] unat_byte [of b] unat_byte [of c]]
  have "unat a mod 4 * 16 + unat b div 16 < 64" "unat b mod 16 * 4 + unat c div 64 < 64"
    using p by linarith+
  then show ?case using 1 p(2) sextet_range3 [OF unat_byte unat_byte unat_byte, of a b c] by (simp add: Let_def)
next
  case (2 a b)
  note p = byte_parts [OF unat_byte [of a] unat_byte [of b] unat_byte [of b]]
  have "unat a mod 4 * 16 + unat b div 16 < 64" "unat b mod 16 * 4 < 64"
    using p by linarith+
  then show ?case using p(2) sextet_range2 [OF unat_byte unat_byte, of a b] by (simp add: Let_def)
next
  case (3 a)
  note p = byte_parts [OF unat_byte [of a] unat_byte [of a] unat_byte [of a]]
  have "unat a mod 4 * 16 < 64" using p by linarith
  then show ?case using p(2) by simp
qed simp

lemma sextets_bytes_sextets: "sextets_bytes (byte_sextets bs) = bs"
proof (induction bs rule: byte_sextets.induct)
  case (1 a b c bs)
  show ?case
    using 1 unfolding byte_sextets.simps Let_def sextet_range3 [OF unat_byte unat_byte unat_byte]
    by (simp only: append.simps sextets_bytes.simps byte_join [OF unat_byte unat_byte unat_byte] byte_of_unat)
next
  case (2 a b)
  have b: "(unat a mod 4 * 16 + unat b div 16) mod 16 * 16 + unat b mod 16 * 4 div 4 = unat b"
    using byte_join(2) [OF unat_byte [of a] unat_byte [of b], of 0] by simp
  show ?case
    unfolding byte_sextets.simps Let_def sextet_range2 [OF unat_byte unat_byte]
    by (simp only: sextets_bytes.simps byte_join(1) [OF unat_byte unat_byte unat_byte] b byte_of_unat)
next
  case (3 a)
  show ?case using byte_join(1) [OF unat_byte [of a], of 0 0] by simp
qed simp

lemma base64_roundtrip [simp]: "base64_decode (base64_encode bs) = bs"
proof -
  obtain pad where "base64_encode bs = map sextet_char (byte_sextets bs) @ pad" "pad = [] \<or> hd pad = 61"
    using encode_byte_sextets by blast
  then show ?thesis using decode_sextets [OF byte_sextets_range] by (simp add: sextets_bytes_sextets)
qed

lemma base64_encode_inj: "base64_encode a = base64_encode b \<longleftrightarrow> a = b"
  by (metis base64_roundtrip)

section \<open>UTF-8\<close>

definition utf8_point :: "nat \<Rightarrow> byte list" where
  "utf8_point p = map word_of_nat
     (if p < 128 then [p]
      else if p < 2048 then [192 + p div 64, 128 + p mod 64]
      else if p < 65536 then [224 + p div 4096, 128 + p div 64 mod 64, 128 + p mod 64]
      else [240 + p div 262144, 128 + p div 4096 mod 64, 128 + p div 64 mod 64, 128 + p mod 64])"

text \<open>A surrogate pair is one code point; a lone surrogate is written as U+FFFD.\<close>

fun utf8_bytes :: "jstr \<Rightarrow> byte list" where
  "utf8_bytes [] = []"
| "utf8_bytes [c] = utf8_point (if 55296 \<le> c \<and> c < 57344 then 65533 else c)"
| "utf8_bytes (c # d # cs) =
     (if 55296 \<le> c \<and> c < 56320 \<and> 56320 \<le> d \<and> d < 57344
      then utf8_point (65536 + (c - 55296) * 1024 + (d - 56320)) @ utf8_bytes cs
      else utf8_point (if 55296 \<le> c \<and> c < 57344 then 65533 else c) @ utf8_bytes (d # cs))"

end
