(* ===== verification/Line.thy ===== *)
theory Line
  imports Prelude Contracts
begin

text \<open>
  \<open>src/openclaw-voice/src/line.ts\<close>: what every phone line shares: the calls it keeps
  (\<open>LineCall\<close>), the errors of its commands (\<open>LineError\<close>, here its code and message), the events it
  emits, and \<open>LineBase.waitFor\<close>. The locale \<open>call_switch\<close> is the contract of hold, resume and swap
  that a line with several calls keeps: no call is lost by switching, and at most one is active.
\<close>

datatype call_state = Dialing | Alerting | Incoming | Active | Held | Ended

datatype call_direction = Outgoing_call | Incoming_call

record line_call =
  lc_id :: jstr
  lc_number :: "jstr option"
  direction :: call_direction
  lc_state :: call_state
  conference :: bool
  startedAt :: int
  answeredAt :: "int option"

record line_error =
  err_code :: jstr
  err_message :: jstr

definition LineError :: "string \<Rightarrow> jstr \<Rightarrow> line_error" where
  "LineError code message = \<lparr>err_code = js code, err_message = message\<rparr>"

text \<open>The text of the error: \<open>super(`${code}: ${message}`)\<close>.\<close>

definition error_text :: "line_error \<Rightarrow> jstr" where
  "error_text e = err_code e @ js '': '' @ err_message e"

text \<open>
  Anything a promise is rejected with: a \<open>LineError\<close>, or another error by its name and message.
  \<open>err_string\<close> is \<open>String(err)\<close>, \<open>err_msg\<close> its \<open>message\<close>.
\<close>

datatype js_error = Line_error line_error | Other_error jstr jstr

fun err_string :: "js_error \<Rightarrow> jstr" where
  "err_string (Line_error e) = js ''Error: '' @ error_text e"
| "err_string (Other_error name message) = name @ js '': '' @ message"

fun err_msg :: "js_error \<Rightarrow> jstr" where
  "err_msg (Line_error e) = error_text e"
| "err_msg (Other_error name message) = message"

text \<open>\<open>err instanceof LineError ? err.message : String(err)\<close>\<close>

fun line_err_msg :: "js_error \<Rightarrow> jstr" where
  "line_err_msg (Line_error e) = error_text e"
| "line_err_msg e = err_string e"

text \<open>The \<open>"call"\<close> event of a line.\<close>

datatype call_msg =
    Msg_incoming line_call
  | Msg_state line_call
  | Msg_ended line_call jstr

fun msg_call :: "call_msg \<Rightarrow> line_call" where
  "msg_call (Msg_incoming c) = c"
| "msg_call (Msg_state c) = c"
| "msg_call (Msg_ended c r) = c"

section \<open>waitFor\<close>

text \<open>
  \<open>waitFor\<close> resolves at once when the call is in one of the states; otherwise the call events
  that follow, or the timer, settle it. \<open>wait_msg\<close> is its listener (\<open>Some\<close>: resolved with that),
  \<open>wait_run\<close> what it resolves with over the events until the timer.
\<close>

definition wait_now :: "(jstr \<times> line_call) list \<Rightarrow> jstr \<Rightarrow> call_state list \<Rightarrow> line_call option" where
  "wait_now calls callId states =
     (case jm_get calls callId of
        Some c \<Rightarrow> if lc_state c \<in> set states then Some c else None
      | None \<Rightarrow> None)"

definition wait_msg :: "jstr \<Rightarrow> call_state list \<Rightarrow> call_msg \<Rightarrow> line_call option" where
  "wait_msg callId states msg =
     (if lc_id (msg_call msg) \<noteq> callId then None
      else (case msg of
          Msg_ended c r \<Rightarrow> Some (c\<lparr>lc_state := Ended\<rparr>)
        | _ \<Rightarrow> if lc_state (msg_call msg) \<in> set states then Some (msg_call msg) else None))"

fun wait_run :: "jstr \<Rightarrow> call_state list \<Rightarrow> call_msg list \<Rightarrow> (jstr \<times> line_call) list \<Rightarrow> line_call option" where
  "wait_run callId states [] calls = jm_get calls callId"
| "wait_run callId states (m # ms) calls =
     (case wait_msg callId states m of Some c \<Rightarrow> Some c | None \<Rightarrow> wait_run callId states ms calls)"

definition wait_for ::
    "(jstr \<times> line_call) list \<Rightarrow> jstr \<Rightarrow> call_state list \<Rightarrow> call_msg list \<Rightarrow> (jstr \<times> line_call) list \<Rightarrow> line_call option" where
  "wait_for calls callId states msgs later =
     (case wait_now calls callId states of Some c \<Rightarrow> Some c | None \<Rightarrow> wait_run callId states msgs later)"

lemma wait_msg_state:
  "wait_msg callId states m = Some c \<Longrightarrow> lc_id c = callId \<and> (lc_state c \<in> set states \<or> lc_state c = Ended)"
  by (cases m) (auto simp: wait_msg_def split: if_splits)

section \<open>Switching between calls\<close>

locale call_switch =
  fixes act :: "'s \<Rightarrow> 'c option"
    and on_hold :: "'s \<Rightarrow> 'c set"
    and lines :: "'s \<Rightarrow> 'c set"
    and switch :: "'s \<Rightarrow> 'op \<Rightarrow> 's"
    and inv :: "'s \<Rightarrow> bool"
  assumes switch_inv: "inv s \<Longrightarrow> inv (switch s op)"
    and apart: "inv s \<Longrightarrow> act s = Some c \<Longrightarrow> c \<in> lines s - on_hold s"
    and switch_lines: "inv s \<Longrightarrow> lines (switch s op) = lines s"
begin

lemma switches_keep_lines:
  "inv s \<Longrightarrow> inv (foldl switch s ops) \<and> lines (foldl switch s ops) = lines s"
proof (induction ops arbitrary: s)
  case (Cons op ops)
  show ?case using Cons.IH [OF switch_inv [OF Cons.prems]] switch_lines [OF Cons.prems] by simp
qed simp

lemma active_is_a_line:
  "inv s \<Longrightarrow> act (foldl switch s ops) = Some c \<Longrightarrow> c \<in> lines s \<and> c \<notin> on_hold (foldl switch s ops)"
  using switches_keep_lines apart by blast

end

end
