(* ===== verification/Twilio.thy ===== *)
theory Twilio
  imports Line G711 Base64 Json "HOL-Library.List_Lexorder"
begin

text \<open>
  \<open>src/openclaw-voice/src/twilio.ts\<close>: \<open>TwilioLine\<close>. A call of the line is a leg; legs are shared by
  reference (by the map \<open>legs\<close>, by stream handlers and by the code that waits for a REST answer),
  so they live in a store \<open>leg\<close> under numbers that are never reused, and \<open>legs\<close> maps call SIDs to
  these numbers in insertion order. What the code awaits (a REST answer, a media stream) is a
  pending task; the answer, the timeout, the webhooks and the stream's messages are events. The
  requests, socket sends, emitted line events and settled promises are effects. Handlers of the
  emitted events run after the operation that emits them.

  The random values (stream token, conference room), the clock and HMAC-SHA1 (\<open>node:crypto\<close>) are
  arguments. Sockets are numbers; JSON and form bodies arrive parsed.
\<close>

record twilio_options =
  line_id :: jstr
  accountSid :: jstr
  authToken :: jstr
  fromNumber :: jstr
  publicUrl :: jstr
  ringTimeoutSeconds :: int

record twilio_leg =
  leg_call :: line_call
  leg_ws :: "nat option"
  streamSid :: "jstr option"
  held :: bool
  hungUp :: bool
  redirecting :: bool
  marks :: "(jstr \<times> nat) list"
  onStream :: "nat list"
  up :: fir
  down :: pcm_to_mulaw

record listen_leg =
  ll_sid :: jstr
  ll_ws :: "nat option"
  ll_streamSid :: "jstr option"
  ll_down :: pcm_to_mulaw
  ll_ended :: bool

text \<open>\<open>STATUS\<close> and \<open>END_REASON\<close>\<close>

definition STATUS :: "(jstr \<times> call_state) list" where
  "STATUS = [(js ''queued'', Dialing), (js ''initiated'', Dialing), (js ''ringing'', Alerting),
     (js ''in-progress'', Active)]"

definition END_REASON :: "(jstr \<times> jstr) list" where
  "END_REASON = [(js ''busy'', js ''busy''), (js ''no-answer'', js ''no_answer''),
     (js ''failed'', js ''failed''), (js ''canceled'', js ''canceled'')]"

text \<open>\<open>xml\<close>: the five markup characters as numeric references.\<close>

definition xml :: "jstr \<Rightarrow> jstr" where
  "xml s = concat (map (\<lambda>c. if c \<in> {60, 62, 38, 34, 39} then js ''&#'' @ dec_nat c @ js '';'' else [c]) s)"

text \<open>What a pending REST request or stream wait goes on with.\<close>

datatype tw_task =
    Task_check
  | Task_dial nat jstr
  | Task_hangup nat
  | Task_dtmf nat nat jstr
  | Task_merge nat "nat list" jstr nat
  | Task_listen nat
  | Task_listen_hangup nat nat

datatype tw_wait =
    Wait_answer nat nat
  | Wait_dtmf nat jstr

text \<open>What a command resolves with.\<close>

datatype tw_result =
    Res_call line_call
  | Res_digits jstr
  | Res_none
  | Res_listener nat

record twilio =
  tw_open :: bool
  tw_stopped :: bool
  calls :: "(jstr \<times> line_call) list"
  leg :: "nat \<Rightarrow> twilio_leg"
  legs :: "(jstr \<times> nat) list"
  listener :: "nat \<Rightarrow> listen_leg"
  listenLegs :: "(jstr \<times> nat) list"
  next_obj :: nat
  nextMark :: nat
  streamToken :: jstr
  socket_leg :: "(nat \<times> nat) list"
  socket_listener :: "(nat \<times> nat) list"
  tasks :: "(nat \<times> tw_task) list"
  waits :: "(nat \<times> tw_wait) list"
  next_task :: nat

datatype tw_effect =
    Tw_api nat jstr jstr "(jstr \<times> jstr) list"
  | Tw_emit call_msg
  | Tw_audio "byte list"
  | Tw_send nat json
  | Tw_close nat
  | Tw_resolve nat tw_result
  | Tw_reject nat js_error
  | Tw_marked nat bool
  | Tw_cleared nat int
  | Tw_wait nat int
  | Tw_retry int
  | Tw_log jstr
  | Tw_reply nat int jstr
  | Tw_listener_ended nat jstr

definition blank_leg :: "line_call \<Rightarrow> twilio_leg" where
  "blank_leg c = \<lparr>leg_call = c, leg_ws = None, streamSid = None, held = False, hungUp = False,
     redirecting = False, marks = [], onStream = [], up = new_fir, down = new_pcm_to_mulaw\<rparr>"

definition blank_call :: line_call where
  "blank_call = \<lparr>lc_id = [], lc_number = None, direction = Outgoing_call, lc_state = Ended,
     conference = False, startedAt = 0, answeredAt = None\<rparr>"

definition new_twilio :: "jstr \<Rightarrow> twilio" where
  "new_twilio token = \<lparr>tw_open = False, tw_stopped = False, calls = [],
     leg = (\<lambda>_. blank_leg blank_call), legs = [],
     listener = (\<lambda>_. \<lparr>ll_sid = [], ll_ws = None, ll_streamSid = None, ll_down = new_pcm_to_mulaw, ll_ended = True\<rparr>),
     listenLegs = [], next_obj = 0, nextMark = 0, streamToken = token, socket_leg = [], socket_listener = [],
     tasks = [], waits = [], next_task = 0\<rparr>"

definition tw_label :: "twilio_options \<Rightarrow> jstr" where
  "tw_label opts = line_id opts @ js '' ('' @ fromNumber opts @ js '')''"

definition set_leg :: "nat \<Rightarrow> (twilio_leg \<Rightarrow> twilio_leg) \<Rightarrow> twilio \<Rightarrow> twilio" where
  "set_leg i f s = s\<lparr>leg := (leg s)(i := f (leg s i))\<rparr>"

section \<open>REST\<close>

definition basic_auth :: "twilio_options \<Rightarrow> jstr" where
  "basic_auth opts = js ''Basic '' @ base64_encode (utf8_bytes (accountSid opts @ js '':'' @ authToken opts))"

text \<open>A form value is one string or a list; a list is appended once per element.\<close>

definition form_pairs :: "(jstr \<times> jstr list) list \<Rightarrow> (jstr \<times> jstr) list" where
  "form_pairs form = concat (map (\<lambda>(k, vs). map (\<lambda>v. (k, v)) vs) form)"

definition tw_api :: "jstr \<Rightarrow> jstr \<Rightarrow> (jstr \<times> jstr list) list \<Rightarrow> tw_task \<Rightarrow> twilio \<Rightarrow> twilio \<times> tw_effect list" where
  "tw_api method path form task s =
     (s\<lparr>tasks := tasks s @ [(next_task s, task)], next_task := next_task s + 1\<rparr>,
      [Tw_api (next_task s) method (js ''https://api.twilio.com/2010-04-01'' @ path) (form_pairs form)])"

text \<open>The answer of a request: the body when it is fine, the error the source throws otherwise.\<close>

definition api_result :: "bool \<Rightarrow> int \<Rightarrow> json \<Rightarrow> line_error + json" where
  "api_result ok status payload =
     (if ok then Inr payload
      else Inl (LineError ''twilio''
        (js_string_opt (nullish_or (json_get payload (js ''message'')) (Some (JStr (js ''HTTP '' @ dec_int status))))
         @ js '' ('' @ js_string_opt (nullish_or (json_get payload (js ''code'')) (Some (JNum status))) @ js '')'')))"

definition callUrl :: "twilio_options \<Rightarrow> jstr \<Rightarrow> jstr" where
  "callUrl opts sid = js ''/Accounts/'' @ accountSid opts @ js ''/Calls/'' @ sid @ js ''.json''"

text \<open>\<open>s.replace(/^http/, "ws")\<close>\<close>

definition http_to_ws :: "jstr \<Rightarrow> jstr" where
  "http_to_ws s = (if starts_with (js ''http'') s then js ''ws'' @ drop 4 s else s)"

definition streamTwiml :: "twilio_options \<Rightarrow> twilio \<Rightarrow> jstr \<Rightarrow> jstr" where
  "streamTwiml opts s prefix =
     (let url = http_to_ws (publicUrl opts) @ js ''/stream''
      in js ''<Response>'' @ prefix @ js ''<Connect><Stream url=\"'' @ xml url
         @ js ''\"><Parameter name=\"token\" value=\"'' @ streamToken s
         @ js ''\"/></Stream></Connect></Response>'')"

section \<open>Legs\<close>

definition newLeg :: "line_call \<Rightarrow> twilio \<Rightarrow> twilio \<times> nat" where
  "newLeg c s =
     (let i = next_obj s
      in (s\<lparr>leg := (leg s)(i := blank_leg c), next_obj := i + 1,
            legs := jm_set (lc_id c) i (legs s), calls := jm_set (lc_id c) c (calls s)\<rparr>, i))"

definition setState :: "int \<Rightarrow> nat \<Rightarrow> call_state \<Rightarrow> twilio \<Rightarrow> twilio \<times> tw_effect list" where
  "setState now i st s =
     (let c = leg_call (leg s i)
      in if lc_state c = st \<or> lc_state c = Ended then (s, [])
         else (let c' = c\<lparr>lc_state := st,
                  answeredAt := (if st = Active \<and> answeredAt c = None then Some now else answeredAt c)\<rparr>
               in ((set_leg i (\<lambda>l. l\<lparr>leg_call := c'\<rparr>) s)\<lparr>calls := jm_set (lc_id c') c' (calls s)\<rparr>,
                   [Tw_emit (Msg_state c')])))"

definition dropMarks :: "nat \<Rightarrow> twilio \<Rightarrow> twilio \<times> tw_effect list" where
  "dropMarks i s = (set_leg i (\<lambda>l. l\<lparr>marks := []\<rparr>) s, map (\<lambda>(n, p). Tw_marked p True) (marks (leg s i)))"

definition close_ws :: "nat option \<Rightarrow> tw_effect list" where
  "close_ws w = (case w of None \<Rightarrow> [] | Some x \<Rightarrow> [Tw_close x])"

definition tw_ended :: "nat \<Rightarrow> jstr \<Rightarrow> twilio \<Rightarrow> twilio \<times> tw_effect list" where
  "tw_ended i reason s =
     (let l = leg s i; c = leg_call l
      in if lc_state c = Ended then (s, [])
         else (let c' = c\<lparr>lc_state := Ended\<rparr>;
                   s1 = (set_leg i (\<lambda>l. l\<lparr>leg_call := c'\<rparr>) s)
                     \<lparr>calls := jm_delete (lc_id c) (calls s), legs := jm_delete (lc_id c) (legs s)\<rparr>;
                   (s2, f2) = dropMarks i s1
               in (s2, f2 @ close_ws (leg_ws l)
                     @ [Tw_emit (Msg_ended c' (if hungUp l then js ''local'' else reason))])))"

text \<open>The call that gets the audio: the newest live one that isn't held.\<close>

definition tw_active :: "twilio \<Rightarrow> nat option" where
  "tw_active s =
     (case filter (\<lambda>i. \<not> held (leg s i) \<and> lc_state (leg_call (leg s i)) \<noteq> Ended) (map snd (legs s)) of
        [] \<Rightarrow> None | ls \<Rightarrow> Some (last ls))"

definition held_legs :: "twilio \<Rightarrow> nat list" where
  "held_legs s = filter (\<lambda>i. held (leg s i)) (map snd (legs s))"

section \<open>Commands\<close>

definition reject :: "nat \<Rightarrow> string \<Rightarrow> jstr \<Rightarrow> tw_effect list" where
  "reject rid code message = [Tw_reject rid (Line_error (LineError code message))]"

text \<open>\<open>this.leg(id)\<close>: the leg of a call id, or \<open>no_call\<close>.\<close>

definition find_leg :: "jstr option \<Rightarrow> twilio \<Rightarrow> nat option" where
  "find_leg call s = jm_get (legs s) (or_empty call)"

definition no_call_text :: "jstr option \<Rightarrow> jstr" where
  "no_call_text call = js ''no call '' @ undef_text call"

text \<open>
  \<open>waitStream\<close>: \<open>None\<close> when the stream is up already, otherwise the registered wait, which the
  stream's start or the timeout ends.
\<close>

definition stream_up :: "twilio_leg \<Rightarrow> bool" where
  "stream_up l \<longleftrightarrow> leg_ws l \<noteq> None \<and> or_empty (streamSid l) \<noteq> [] \<and> \<not> redirecting l"

definition waitStream :: "nat \<Rightarrow> int \<Rightarrow> tw_wait \<Rightarrow> twilio \<Rightarrow> twilio \<times> tw_effect list" where
  "waitStream i timeoutMs w s =
     ((set_leg i (\<lambda>l. l\<lparr>onStream := onStream l @ [next_task s]\<rparr>) s)
        \<lparr>waits := waits s @ [(next_task s, w)], next_task := next_task s + 1\<rparr>,
      [Tw_wait (next_task s) timeoutMs])"

text \<open>Point a call at new TwiML (its stream, if any, ends).\<close>

definition redirect :: "twilio_options \<Rightarrow> nat \<Rightarrow> jstr \<Rightarrow> tw_task \<Rightarrow> twilio \<Rightarrow> twilio \<times> tw_effect list" where
  "redirect opts i twiml task s =
     (let s1 = set_leg i (\<lambda>l. l\<lparr>redirecting := True\<rparr>) s;
          (s2, f2) = dropMarks i s1;
          (s3, f3) = tw_api (js ''POST'') (callUrl opts (lc_id (leg_call (leg s i)))) [(js ''Twiml'', [twiml])] task s2
      in (s3, f2 @ f3))"

definition dtmf_char :: "nat \<Rightarrow> bool" where
  "dtmf_char c \<longleftrightarrow> is_digit c \<or> c \<in> {42, 35, 119, 87}"

text \<open>\<open>/^[0-9*#wW]+$/\<close>\<close>

definition dtmf_ok :: "jstr \<Rightarrow> bool" where
  "dtmf_ok digits \<longleftrightarrow> digits \<noteq> [] \<and> list_all dtmf_char digits"

definition conference_twiml :: "jstr \<Rightarrow> jstr" where
  "conference_twiml room = js ''<Response><Dial><Conference beep=\"false\" startConferenceOnEnter=\"true\" endConferenceOnExit=\"true\">''
     @ room @ js ''</Conference></Dial></Response>''"

datatype tw_cmd =
    Cmd_dial jstr
  | Cmd_answer "jstr option"
  | Cmd_hangup "jstr option"
  | Cmd_dtmf jstr
  | Cmd_hold
  | Cmd_resume
  | Cmd_swap
  | Cmd_merge jstr
  | Cmd_other jstr

definition dial_form :: "twilio_options \<Rightarrow> jstr \<Rightarrow> jstr \<Rightarrow> string list \<Rightarrow> (jstr \<times> jstr list) list" where
  "dial_form opts to twiml events =
     [(js ''To'', [to]), (js ''From'', [fromNumber opts]), (js ''Twiml'', [twiml]),
      (js ''Timeout'', [dec_int (ringTimeoutSeconds opts + 5)]),
      (js ''StatusCallback'', [publicUrl opts @ js ''/status'']),
      (js ''StatusCallbackMethod'', [js ''POST'']),
      (js ''StatusCallbackEvent'', map js events)]"

definition calls_path :: "twilio_options \<Rightarrow> jstr" where
  "calls_path opts = js ''/Accounts/'' @ accountSid opts @ js ''/Calls.json''"

definition tw_dial :: "twilio_options \<Rightarrow> nat \<Rightarrow> jstr \<Rightarrow> twilio \<Rightarrow> twilio \<times> tw_effect list" where
  "tw_dial opts rid to s =
     tw_api (js ''POST'') (calls_path opts)
       (dial_form opts to (streamTwiml opts s []) [''initiated'', ''ringing'', ''answered'', ''completed''])
       (Task_dial rid to) s"

definition tw_answer :: "nat \<Rightarrow> jstr option \<Rightarrow> twilio \<Rightarrow> twilio \<times> tw_effect list" where
  "tw_answer rid call s =
     (case find_leg call s of
        None \<Rightarrow> (s, reject rid ''no_call'' (no_call_text call))
      | Some i \<Rightarrow> if stream_up (leg s i) then (s, [Tw_resolve rid (Res_call (leg_call (leg s i)))])
                 else waitStream i 15000 (Wait_answer rid i) s)"

definition tw_hangup :: "twilio_options \<Rightarrow> nat \<Rightarrow> jstr option \<Rightarrow> twilio \<Rightarrow> twilio \<times> tw_effect list" where
  "tw_hangup opts rid call s =
     (case find_leg call s of
        None \<Rightarrow> (s, reject rid ''no_call'' (no_call_text call))
      | Some i \<Rightarrow> tw_api (js ''POST'') (callUrl opts (lc_id (leg_call (leg s i))))
            [(js ''Status'', [js ''completed''])] (Task_hangup rid) (set_leg i (\<lambda>l. l\<lparr>hungUp := True\<rparr>) s))"

definition tw_dtmf :: "twilio_options \<Rightarrow> nat \<Rightarrow> jstr \<Rightarrow> twilio \<Rightarrow> twilio \<times> tw_effect list" where
  "tw_dtmf opts rid digits s =
     (if \<not> dtmf_ok digits then (s, reject rid ''bad_digits'' (js ''can't press \"'' @ digits @ js ''\"''))
      else (case tw_active s of
          None \<Rightarrow> (s, reject rid ''no_call'' (js ''no active call''))
        | Some i \<Rightarrow> redirect opts i
            (streamTwiml opts s (js ''<Play digits=\"'' @ to_lower digits @ js ''\"/>''))
            (Task_dtmf rid i digits) s))"

definition tw_hold :: "int \<Rightarrow> nat \<Rightarrow> twilio \<Rightarrow> twilio \<times> tw_effect list" where
  "tw_hold now rid s =
     (case tw_active s of
        None \<Rightarrow> (s, reject rid ''no_call'' (js ''no active call''))
      | Some i \<Rightarrow>
          (let (s1, f1) = dropMarks i s;
               (s2, f2) = setState now i Held (set_leg i (\<lambda>l. l\<lparr>held := True\<rparr>) s1)
           in (s2, f1 @ f2 @ [Tw_resolve rid Res_none])))"

definition tw_resume :: "int \<Rightarrow> nat \<Rightarrow> twilio \<Rightarrow> twilio \<times> tw_effect list" where
  "tw_resume now rid s =
     (if held_legs s = [] then (s, reject rid ''no_call'' (js ''no call on hold''))
      else if tw_active s \<noteq> None then (s, reject rid ''busy'' (js ''another call is active; swap instead''))
      else (let i = last (held_legs s);
                (s1, f1) = setState now i Active (set_leg i (\<lambda>l. l\<lparr>held := False\<rparr>) s)
            in (s1, f1 @ [Tw_resolve rid Res_none])))"

definition tw_swap :: "int \<Rightarrow> nat \<Rightarrow> twilio \<Rightarrow> twilio \<times> tw_effect list" where
  "tw_swap now rid s =
     (case tw_active s of
        None \<Rightarrow> (s, reject rid ''no_call'' (js ''swap needs an active and a held call''))
      | Some a \<Rightarrow>
          if held_legs s = [] then (s, reject rid ''no_call'' (js ''swap needs an active and a held call''))
          else (let h = last (held_legs s);
                    (s1, f1) = dropMarks a s;
                    s2 = set_leg h (\<lambda>l. l\<lparr>held := False\<rparr>) (set_leg a (\<lambda>l. l\<lparr>held := True\<rparr>) s1);
                    hid = lc_id (leg_call (leg s2 h));
                    s3 = s2\<lparr>legs := jm_set hid h (jm_delete hid (legs s2))\<rparr>;
                    (s4, f4) = setState now a Held s3;
                    (s5, f5) = setState now h Active s4
                in (s5, f1 @ f4 @ f5 @ [Tw_resolve rid Res_none])))"

definition live_legs :: "twilio \<Rightarrow> nat list" where
  "live_legs s = filter (\<lambda>i. lc_state (leg_call (leg s i)) \<noteq> Ended) (map snd (legs s))"

text \<open>The loop of \<open>merge\<close>, at the redirect of its next leg (or done).\<close>

fun merge_next :: "twilio_options \<Rightarrow> nat \<Rightarrow> nat list \<Rightarrow> jstr \<Rightarrow> twilio \<Rightarrow> twilio \<times> tw_effect list" where
  "merge_next opts rid [] twiml s = (s, [Tw_resolve rid Res_none])"
| "merge_next opts rid (i # ls) twiml s = redirect opts i twiml (Task_merge rid ls twiml i) s"

definition merge_joined :: "nat \<Rightarrow> twilio \<Rightarrow> twilio \<times> tw_effect list" where
  "merge_joined i s =
     (let c = (leg_call (leg s i))\<lparr>conference := True, lc_state := Active\<rparr>
      in ((set_leg i (\<lambda>l. l\<lparr>held := False, leg_call := c\<rparr>) s)\<lparr>calls := jm_set (lc_id c) c (calls s)\<rparr>,
          [Tw_emit (Msg_state c)]))"

definition tw_merge :: "twilio_options \<Rightarrow> nat \<Rightarrow> jstr \<Rightarrow> twilio \<Rightarrow> twilio \<times> tw_effect list" where
  "tw_merge opts rid hex s =
     (if length (live_legs s) \<noteq> 2 then (s, reject rid ''bad_state'' (js ''merge needs two calls''))
      else merge_next opts rid (live_legs s) (conference_twiml (js ''otacon-'' @ hex)) s)"

text \<open>\<open>cmd\<close>\<close>

fun tw_command :: "twilio_options \<Rightarrow> int \<Rightarrow> nat \<Rightarrow> tw_cmd \<Rightarrow> twilio \<Rightarrow> twilio \<times> tw_effect list" where
  "tw_command opts now rid (Cmd_dial to) s = tw_dial opts rid to s"
| "tw_command opts now rid (Cmd_answer call) s = tw_answer rid call s"
| "tw_command opts now rid (Cmd_hangup call) s = tw_hangup opts rid call s"
| "tw_command opts now rid (Cmd_dtmf digits) s = tw_dtmf opts rid digits s"
| "tw_command opts now rid Cmd_hold s = tw_hold now rid s"
| "tw_command opts now rid Cmd_resume s = tw_resume now rid s"
| "tw_command opts now rid Cmd_swap s = tw_swap now rid s"
| "tw_command opts now rid (Cmd_merge hex) s = tw_merge opts rid hex s"
| "tw_command opts now rid (Cmd_other type) s =
     (s, reject rid ''unsupported'' (type @ js '' isn't supported on Twilio''))"

definition tw_cmd :: "twilio_options \<Rightarrow> int \<Rightarrow> nat \<Rightarrow> tw_cmd \<Rightarrow> twilio \<Rightarrow> twilio \<times> tw_effect list" where
  "tw_cmd opts now rid c s =
     (if \<not> tw_open s then (s, reject rid ''disconnected'' (js ''Twilio line '' @ line_id opts @ js '' isn't ready''))
      else tw_command opts now rid c s)"

section \<open>Listen-in\<close>

definition tw_listen :: "twilio_options \<Rightarrow> nat \<Rightarrow> jstr \<Rightarrow> jstr \<Rightarrow> twilio \<Rightarrow> twilio \<times> tw_effect list" where
  "tw_listen opts rid to greeting s =
     (if \<not> tw_open s then (s, reject rid ''disconnected'' (js ''Twilio line '' @ line_id opts @ js '' isn't ready''))
      else tw_api (js ''POST'') (calls_path opts)
        (dial_form opts to (streamTwiml opts s (js ''<Say>'' @ xml greeting @ js ''</Say>'')) [''completed''])
        (Task_listen rid) s)"

definition set_listener :: "nat \<Rightarrow> (listen_leg \<Rightarrow> listen_leg) \<Rightarrow> twilio \<Rightarrow> twilio" where
  "set_listener i f s = s\<lparr>listener := (listener s)(i := f (listener s i))\<rparr>"

definition listenerEnded :: "nat \<Rightarrow> jstr \<Rightarrow> twilio \<Rightarrow> twilio \<times> tw_effect list" where
  "listenerEnded i reason s =
     (let l = listener s i
      in if ll_ended l then (s, [])
         else ((set_listener i (\<lambda>l. l\<lparr>ll_ended := True\<rparr>) s)\<lparr>listenLegs := jm_delete (ll_sid l) (listenLegs s)\<rparr>,
               close_ws (ll_ws l) @ [Tw_listener_ended i reason]))"

definition media_msg :: "jstr \<Rightarrow> byte list \<Rightarrow> json" where
  "media_msg sid payload = JObj [(js ''event'', JStr (js ''media'')), (js ''streamSid'', JStr sid),
     (js ''media'', JObj [(js ''payload'', JStr (base64_encode payload))])]"

text \<open>The listener's \<open>send\<close> and \<open>hangUp\<close>.\<close>

definition listener_send :: "nat \<Rightarrow> byte list \<Rightarrow> twilio \<Rightarrow> twilio \<times> tw_effect list" where
  "listener_send i pcm s =
     (let l = listener s i in
      case ll_ws l of
        None \<Rightarrow> (s, [])
      | Some ws \<Rightarrow>
          if ll_ended l \<or> or_empty (ll_streamSid l) = [] \<or> pcm = [] then (s, [])
          else (let (d, payload) = pcm_to_mulaw_process (ll_down l) pcm
                in (set_listener i (\<lambda>l. l\<lparr>ll_down := d\<rparr>) s,
                    if payload = [] then [] else [Tw_send ws (media_msg (or_empty (ll_streamSid l)) payload)])))"

definition listener_hangup :: "twilio_options \<Rightarrow> nat \<Rightarrow> nat \<Rightarrow> twilio \<Rightarrow> twilio \<times> tw_effect list" where
  "listener_hangup opts rid i s =
     (if ll_ended (listener s i) then (s, [Tw_resolve rid Res_none])
      else tw_api (js ''POST'') (callUrl opts (ll_sid (listener s i))) [(js ''Status'', [js ''completed''])]
        (Task_listen_hangup rid i) s)"

section \<open>Audio\<close>

definition tw_sendAudio :: "byte list \<Rightarrow> twilio \<Rightarrow> twilio \<times> tw_effect list" where
  "tw_sendAudio pcm s =
     (case tw_active s of
        None \<Rightarrow> (s, [])
      | Some i \<Rightarrow>
          (case leg_ws (leg s i) of
             None \<Rightarrow> (s, [])
           | Some ws \<Rightarrow>
               if \<not> stream_up (leg s i) \<or> pcm = [] then (s, [])
               else (let (d, payload) = pcm_to_mulaw_process (down (leg s i)) pcm
                     in (set_leg i (\<lambda>l. l\<lparr>down := d\<rparr>) s,
                         if payload = [] then [] else [Tw_send ws (media_msg (or_empty (streamSid (leg s i))) payload)]))))"

definition tw_mark :: "nat \<Rightarrow> twilio \<Rightarrow> twilio \<times> tw_effect list" where
  "tw_mark rid s =
     (case tw_active s of
        None \<Rightarrow> (s, [Tw_marked rid True])
      | Some i \<Rightarrow>
          (case leg_ws (leg s i) of
             None \<Rightarrow> (s, [Tw_marked rid True])
           | Some ws \<Rightarrow>
               if \<not> stream_up (leg s i) then (s, [Tw_marked rid True])
               else (let name = js ''m'' @ dec_nat (nextMark s + 1)
                     in ((set_leg i (\<lambda>l. l\<lparr>marks := jm_set name rid (marks l)\<rparr>) s)\<lparr>nextMark := nextMark s + 1\<rparr>,
                         [Tw_send ws (JObj [(js ''event'', JStr (js ''mark'')),
                            (js ''streamSid'', JStr (or_empty (streamSid (leg s i)))),
                            (js ''mark'', JObj [(js ''name'', JStr name)])])]))))"

definition tw_clear :: "nat \<Rightarrow> twilio \<Rightarrow> twilio \<times> tw_effect list" where
  "tw_clear rid s =
     (case tw_active s of
        None \<Rightarrow> (s, [Tw_cleared rid 0])
      | Some i \<Rightarrow>
          (let (s1, f1) = dropMarks i s
           in (s1, (case leg_ws (leg s i) of
                 Some ws \<Rightarrow> if or_empty (streamSid (leg s i)) \<noteq> []
                   then [Tw_send ws (JObj [(js ''event'', JStr (js ''clear'')),
                     (js ''streamSid'', JStr (or_empty (streamSid (leg s i))))])] else []
               | None \<Rightarrow> []) @ f1 @ [Tw_cleared rid 0])))"

section \<open>What the pending requests and waits go on with\<close>

definition api_error_end :: "js_error \<Rightarrow> bool" where
  "api_error_end err \<longleftrightarrow> includes_ci (js ''not in-progress'') (err_string err) \<or> includes_ci (js ''completed'') (err_string err)"

fun task_goes_on :: "twilio_options \<Rightarrow> int \<Rightarrow> tw_task \<Rightarrow> js_error + json \<Rightarrow> twilio \<Rightarrow> twilio \<times> tw_effect list" where
  "task_goes_on opts now Task_check (Inr payload) s =
     (s\<lparr>tw_open := True\<rparr>, [Tw_log (js ''[otacon-voice] Twilio line '' @ tw_label opts @ js '' ready'')])"
| "task_goes_on opts now Task_check (Inl err) s =
     (s, Tw_log (js ''[otacon-voice] Twilio line '' @ line_id opts @ js '': '' @ take 200 (err_string err) @ js ''; retrying in 60 s'')
           # (if tw_stopped s then [] else [Tw_retry 60000]))"
| "task_goes_on opts now (Task_dial rid to) (Inr payload) s =
     (let c = \<lparr>lc_id = js_string_opt (json_get payload (js ''sid'')), lc_number = Some to, direction = Outgoing_call,
               lc_state = Dialing, conference = False, startedAt = now, answeredAt = None\<rparr>;
          (s1, i) = newLeg c s
      in (s1, [Tw_emit (Msg_state c), Tw_resolve rid (Res_call c)]))"
| "task_goes_on opts now (Task_dial rid to) (Inl err) s = (s, [Tw_reject rid err])"
| "task_goes_on opts now (Task_hangup rid) (Inr payload) s = (s, [Tw_resolve rid Res_none])"
| "task_goes_on opts now (Task_hangup rid) (Inl err) s =
     (s, [if api_error_end err then Tw_resolve rid Res_none else Tw_reject rid err])"
| "task_goes_on opts now (Task_dtmf rid i digits) (Inr payload) s =
     (if stream_up (leg s i) then (s, [Tw_resolve rid (Res_digits digits)])
      else waitStream i (10000 + int (length digits) * 1000) (Wait_dtmf rid digits) s)"
| "task_goes_on opts now (Task_dtmf rid i digits) (Inl err) s =
     (set_leg i (\<lambda>l. l\<lparr>redirecting := False\<rparr>) s, [Tw_reject rid err])"
| "task_goes_on opts now (Task_merge rid rest twiml i) (Inr payload) s =
     (let (s1, f1) = merge_joined i s; (s2, f2) = merge_next opts rid rest twiml s1 in (s2, f1 @ f2))"
| "task_goes_on opts now (Task_merge rid rest twiml i) (Inl err) s =
     (set_leg i (\<lambda>l. l\<lparr>redirecting := False\<rparr>) s, [Tw_reject rid err])"
| "task_goes_on opts now (Task_listen rid) (Inr payload) s =
     (let sid = js_string_opt (json_get payload (js ''sid'')); i = next_obj s
      in (s\<lparr>listener := (listener s)(i := \<lparr>ll_sid = sid, ll_ws = None, ll_streamSid = None,
              ll_down = new_pcm_to_mulaw, ll_ended = False\<rparr>),
            next_obj := i + 1, listenLegs := jm_set sid i (listenLegs s)\<rparr>,
          [Tw_resolve rid (Res_listener i)]))"
| "task_goes_on opts now (Task_listen rid) (Inl err) s = (s, [Tw_reject rid err])"
| "task_goes_on opts now (Task_listen_hangup rid i) _ s =
     (let (s1, f1) = listenerEnded i (js ''local'') s in (s1, f1 @ [Tw_resolve rid Res_none]))"

definition tw_api_result :: "twilio_options \<Rightarrow> int \<Rightarrow> nat \<Rightarrow> js_error + json \<Rightarrow> twilio \<Rightarrow> twilio \<times> tw_effect list" where
  "tw_api_result opts now t r s =
     (case jm_get (tasks s) t of
        None \<Rightarrow> (s, [])
      | Some task \<Rightarrow> task_goes_on opts now task r (s\<lparr>tasks := jm_delete t (tasks s)\<rparr>))"

text \<open>A stream wait ends: \<open>up\<close> when the stream started, not when it timed out.\<close>

definition wait_effect :: "tw_wait \<Rightarrow> bool \<Rightarrow> twilio \<Rightarrow> tw_effect list" where
  "wait_effect w started s =
     (case w of
        Wait_answer rid i \<Rightarrow>
          if started then [Tw_resolve rid (Res_call (leg_call (leg s i)))]
          else reject rid ''timeout'' (js ''the call's audio stream didn't start'')
      | Wait_dtmf rid digits \<Rightarrow> [Tw_resolve rid (Res_digits digits)])"

definition wait_ends :: "nat \<Rightarrow> bool \<Rightarrow> twilio \<Rightarrow> twilio \<times> tw_effect list" where
  "wait_ends w started s =
     (case jm_get (waits s) w of
        None \<Rightarrow> (s, [])
      | Some x \<Rightarrow> (s\<lparr>waits := jm_delete w (waits s)\<rparr>, wait_effect x started s))"

fun waits_end :: "nat list \<Rightarrow> twilio \<Rightarrow> twilio \<times> tw_effect list" where
  "waits_end [] s = (s, [])"
| "waits_end (w # ws) s = (let (s1, f1) = wait_ends w True s; (s2, f2) = waits_end ws s1 in (s2, f1 @ f2))"

section \<open>Routes\<close>

type_synonym params = "(jstr \<times> jstr) list"

text \<open>\<open>signed\<close>; \<open>hmac key data\<close> is the HMAC-SHA1 digest.\<close>

definition signed_data :: "twilio_options \<Rightarrow> jstr \<Rightarrow> jstr \<Rightarrow> params \<Rightarrow> jstr" where
  "signed_data opts path query ps =
     publicUrl opts @ js ''/'' @ path @ query
       @ concat (map (\<lambda>k. concat (map (\<lambda>(k', v). k @ v) (filter (\<lambda>(k', v). k' = k) ps)))
           (sort (remdups (map fst ps))))"

definition signed :: "(jstr \<Rightarrow> jstr \<Rightarrow> byte list) \<Rightarrow> twilio_options \<Rightarrow> jstr \<Rightarrow> jstr \<Rightarrow> params \<Rightarrow> jstr option \<Rightarrow> bool" where
  "signed hmac opts path query ps signature =
     (case signature of
        None \<Rightarrow> False
      | Some sg \<Rightarrow> sg \<noteq> [] \<and> base64_decode sg = hmac (authToken opts) (signed_data opts path query ps))"

definition param :: "params \<Rightarrow> string \<Rightarrow> jstr" where
  "param ps k = or_empty (jm_get ps (js k))"

definition onIncoming ::
    "twilio_options \<Rightarrow> (jstr option \<Rightarrow> bool) option \<Rightarrow> int \<Rightarrow> nat \<Rightarrow> params \<Rightarrow> twilio \<Rightarrow> twilio \<times> tw_effect list" where
  "onIncoming opts screen now rid ps s =
     (let sid = param ps ''CallSid'';
          caller = (if param ps ''From'' = [] then None else Some (param ps ''From''));
          reply = (\<lambda>twiml. Tw_reply rid 200 (js ''<?xml version=\"1.0\" encoding=\"UTF-8\"?>'' @ twiml))
      in if \<not> tw_open s \<or> sid = [] \<or> (case screen of None \<Rightarrow> True | Some f \<Rightarrow> \<not> f caller)
         then (s, [Tw_log (js ''[otacon-voice] Twilio line '' @ line_id opts @ js '': rejecting a call from ''
                     @ (case caller of None \<Rightarrow> js ''an unknown number'' | Some n \<Rightarrow> n)),
                   reply (js ''<Response><Reject/></Response>'')])
         else (let c = \<lparr>lc_id = sid, lc_number = caller, direction = Incoming_call, lc_state = Incoming,
                        conference = False, startedAt = now, answeredAt = None\<rparr>;
                   (s1, i) = newLeg c s
               in (s1, [reply (streamTwiml opts s []), Tw_emit (Msg_incoming c)])))"

definition onStatus :: "int \<Rightarrow> params \<Rightarrow> twilio \<Rightarrow> twilio \<times> tw_effect list" where
  "onStatus now ps s =
     (let status = param ps ''CallStatus''; sid = param ps ''CallSid'' in
      case jm_get (listenLegs s) sid of
        Some li \<Rightarrow>
          (if status = js ''completed'' then listenerEnded li (js ''remote'') s
           else (case jm_get END_REASON status of Some r \<Rightarrow> listenerEnded li r s | None \<Rightarrow> (s, [])))
      | None \<Rightarrow>
          (case jm_get (legs s) sid of
             None \<Rightarrow> (s, [])
           | Some i \<Rightarrow>
               if status = js ''completed'' then tw_ended i (js ''remote'') s
               else (case jm_get END_REASON status of
                   Some r \<Rightarrow> tw_ended i r s
                 | None \<Rightarrow>
                     (case jm_get STATUS status of
                        None \<Rightarrow> (s, [])
                      | Some st \<Rightarrow> if st = Active \<and> held (leg s i) then (s, []) else setState now i st s))))"

definition handleHttp ::
    "twilio_options \<Rightarrow> (jstr \<Rightarrow> jstr \<Rightarrow> byte list) \<Rightarrow> (jstr option \<Rightarrow> bool) option \<Rightarrow> int \<Rightarrow> nat
      \<Rightarrow> jstr \<Rightarrow> jstr \<Rightarrow> jstr \<Rightarrow> params \<Rightarrow> jstr option \<Rightarrow> twilio \<Rightarrow> twilio \<times> tw_effect list" where
  "handleHttp opts hmac screen now rid method path query ps signature s =
     (if method \<noteq> js ''POST'' \<or> \<not> signed hmac opts path query ps signature
      then (s, [Tw_log (js ''[otacon-voice] Twilio line '' @ line_id opts @ js '': refused an unsigned '' @ method @ js '' '' @ path),
                Tw_reply rid 403 []])
      else if path = js ''answer'' then onIncoming opts screen now rid ps s
      else if path = js ''status'' then (let (s1, f1) = onStatus now ps s in (s1, f1 @ [Tw_reply rid 204 []]))
      else (s, [Tw_reply rid 404 []]))"

section \<open>Media streams\<close>

definition sub :: "json \<Rightarrow> string \<Rightarrow> string \<Rightarrow> json option" where
  "sub msg a b = (case json_get msg (js a) of None \<Rightarrow> None | Some v \<Rightarrow> json_get v (js b))"

definition start_token :: "json \<Rightarrow> jstr" where
  "start_token msg = msg_str (case sub msg ''start'' ''customParameters'' of
      None \<Rightarrow> None | Some v \<Rightarrow> json_get v (js ''token''))"

definition start_sid :: "json \<Rightarrow> jstr" where
  "start_sid msg = msg_str (nullish_or (json_get msg (js ''streamSid'')) (sub msg ''start'' ''streamSid''))"

text \<open>The leg's side of a stream's start, once the token is right.\<close>

definition attach_stream :: "int \<Rightarrow> nat \<Rightarrow> jstr \<Rightarrow> nat \<Rightarrow> twilio \<Rightarrow> twilio \<times> tw_effect list" where
  "attach_stream now ws sid i s =
     (let old = leg_ws (leg s i);
          s1 = set_leg i (\<lambda>l. l\<lparr>leg_ws := Some ws, streamSid := Some sid, redirecting := False,
                 up := new_fir, down := new_pcm_to_mulaw\<rparr>) s;
          f1 = (case old of Some w \<Rightarrow> if w \<noteq> ws then [Tw_close w] else [] | None \<Rightarrow> []);
          (s2, f2) = (if \<not> held (leg s1 i) \<and> lc_state (leg_call (leg s1 i)) \<noteq> Active then setState now i Active s1 else (s1, []));
          (s3, f3) = waits_end (onStream (leg s2 i)) (set_leg i (\<lambda>l. l\<lparr>onStream := []\<rparr>) s2)
      in (s3, f1 @ f2 @ f3))"

definition stream_start :: "twilio_options \<Rightarrow> int \<Rightarrow> nat \<Rightarrow> json \<Rightarrow> twilio \<Rightarrow> twilio \<times> tw_effect list" where
  "stream_start opts now ws msg s =
     (let callSid = msg_str (sub msg ''start'' ''callSid''); right = (start_token msg = streamToken s);
          refuse = (s\<lparr>socket_leg := jm_delete ws (socket_leg s)\<rparr>,
            [Tw_log (js ''[otacon-voice] Twilio line '' @ line_id opts @ js '': closing a stream it didn't ask for''), Tw_close ws])
      in case (if right then jm_get (listenLegs s) callSid else None) of
           Some li \<Rightarrow>
             ((set_listener li (\<lambda>l. l\<lparr>ll_ws := Some ws, ll_streamSid := Some (start_sid msg)\<rparr>) s)
                \<lparr>socket_listener := (ws, li) # socket_listener s\<rparr>, [])
         | None \<Rightarrow>
             (case jm_get (legs s) callSid of
                None \<Rightarrow> refuse
              | Some i \<Rightarrow>
                  if \<not> right then refuse
                  else attach_stream now ws (start_sid msg) i (s\<lparr>socket_leg := jm_set ws i (socket_leg s)\<rparr>)))"

definition stream_media :: "nat \<Rightarrow> json \<Rightarrow> twilio \<Rightarrow> twilio \<times> tw_effect list" where
  "stream_media ws msg s =
     (case jm_get (socket_leg s) ws of
        None \<Rightarrow> (s, [])
      | Some i \<Rightarrow>
          if leg_ws (leg s i) \<noteq> Some ws \<or> held (leg s i) \<or> tw_active s \<noteq> Some i
             \<or> sub msg ''media'' ''track'' = Some (JStr (js ''outbound''))
          then (s, [])
          else (let (f, pcm) = mulaw_to_pcm (up (leg s i)) (base64_decode (msg_str (sub msg ''media'' ''payload'')))
                in (set_leg i (\<lambda>l. l\<lparr>up := f\<rparr>) s, [Tw_audio pcm])))"

definition stream_mark :: "nat \<Rightarrow> json \<Rightarrow> twilio \<Rightarrow> twilio \<times> tw_effect list" where
  "stream_mark ws msg s =
     (case jm_get (socket_leg s) ws of
        None \<Rightarrow> (s, [])
      | Some i \<Rightarrow>
          (let name = msg_str (sub msg ''mark'' ''name'') in
           case jm_get (marks (leg s i)) name of
             None \<Rightarrow> (s, [])
           | Some rid \<Rightarrow> (set_leg i (\<lambda>l. l\<lparr>marks := jm_delete name (marks l)\<rparr>) s, [Tw_marked rid False])))"

definition stream_stop :: "nat \<Rightarrow> twilio \<Rightarrow> twilio \<times> tw_effect list" where
  "stream_stop ws s =
     (case jm_get (socket_leg s) ws of
        None \<Rightarrow> (s, [])
      | Some i \<Rightarrow>
          if leg_ws (leg s i) = Some ws \<and> \<not> redirecting (leg s i) \<and> \<not> conference (leg_call (leg s i))
          then tw_ended i (js ''remote'') s else (s, []))"

definition stream_message :: "twilio_options \<Rightarrow> int \<Rightarrow> nat \<Rightarrow> json \<Rightarrow> twilio \<Rightarrow> twilio \<times> tw_effect list" where
  "stream_message opts now ws msg s =
     (let ev = json_get msg (js ''event'')
      in if ev = Some (JStr (js ''start'')) then stream_start opts now ws msg s
         else if ev = Some (JStr (js ''media'')) then stream_media ws msg s
         else if ev = Some (JStr (js ''mark'')) then stream_mark ws msg s
         else if ev = Some (JStr (js ''stop'')) then stream_stop ws s
         else (s, []))"

text \<open>The socket closed: its listeners end, and a leg it still carries loses it.\<close>

fun listeners_end :: "nat list \<Rightarrow> twilio \<Rightarrow> twilio \<times> tw_effect list" where
  "listeners_end [] s = (s, [])"
| "listeners_end (i # ls) s =
     (let (s1, f1) = listenerEnded i (js ''remote'') s; (s2, f2) = listeners_end ls s1 in (s2, f1 @ f2))"

definition stream_closed :: "nat \<Rightarrow> twilio \<Rightarrow> twilio \<times> tw_effect list" where
  "stream_closed ws s =
     (let s1 = (case jm_get (socket_leg s) ws of
            Some i \<Rightarrow> if leg_ws (leg s i) = Some ws then set_leg i (\<lambda>l. l\<lparr>leg_ws := None, streamSid := None\<rparr>) s else s
          | None \<Rightarrow> s)
      in listeners_end (map snd (filter (\<lambda>p. fst p = ws) (rev (socket_listener s1)))) s1)"

section \<open>The line as a machine\<close>

definition tw_start :: "twilio_options \<Rightarrow> twilio \<Rightarrow> twilio \<times> tw_effect list" where
  "tw_start opts s =
     tw_api (js ''GET'') (js ''/Accounts/'' @ accountSid opts @ js ''.json'') [] Task_check (s\<lparr>tw_stopped := False\<rparr>)"

definition tw_stop :: "twilio \<Rightarrow> twilio \<times> tw_effect list" where
  "tw_stop s =
     (s\<lparr>tw_stopped := True, tw_open := False\<rparr>,
      concat (map (\<lambda>(k, i). close_ws (leg_ws (leg s i))) (legs s))
      @ concat (map (\<lambda>(k, i). close_ws (ll_ws (listener s i))) (listenLegs s)))"

datatype tw_event =
    Ev_start
  | Ev_stop
  | Ev_retry
  | Ev_cmd int nat tw_cmd
  | Ev_listen nat jstr jstr
  | Ev_listener_send nat "byte list"
  | Ev_listener_hangup nat nat
  | Ev_audio "byte list"
  | Ev_mark nat
  | Ev_clear nat
  | Ev_api int nat "js_error + json"
  | Ev_wait_timeout nat
  | Ev_http int nat jstr jstr jstr params "jstr option"
  | Ev_ws_message int nat json
  | Ev_ws_close nat

fun tw_step ::
    "twilio_options \<Rightarrow> (jstr \<Rightarrow> jstr \<Rightarrow> byte list) \<Rightarrow> (jstr option \<Rightarrow> bool) option \<Rightarrow> twilio \<Rightarrow> tw_event
      \<Rightarrow> twilio \<times> tw_effect list" where
  "tw_step opts hmac screen s Ev_start = tw_start opts s"
| "tw_step opts hmac screen s Ev_stop = tw_stop s"
| "tw_step opts hmac screen s Ev_retry =
     tw_api (js ''GET'') (js ''/Accounts/'' @ accountSid opts @ js ''.json'') [] Task_check s"
| "tw_step opts hmac screen s (Ev_cmd now rid c) = tw_cmd opts now rid c s"
| "tw_step opts hmac screen s (Ev_listen rid to greeting) = tw_listen opts rid to greeting s"
| "tw_step opts hmac screen s (Ev_listener_send i pcm) = listener_send i pcm s"
| "tw_step opts hmac screen s (Ev_listener_hangup rid i) = listener_hangup opts rid i s"
| "tw_step opts hmac screen s (Ev_audio pcm) = tw_sendAudio pcm s"
| "tw_step opts hmac screen s (Ev_mark rid) = tw_mark rid s"
| "tw_step opts hmac screen s (Ev_clear rid) = tw_clear rid s"
| "tw_step opts hmac screen s (Ev_api now t r) = tw_api_result opts now t r s"
| "tw_step opts hmac screen s (Ev_wait_timeout w) = wait_ends w False s"
| "tw_step opts hmac screen s (Ev_http now rid method path query ps sg) =
     handleHttp opts hmac screen now rid method path query ps sg s"
| "tw_step opts hmac screen s (Ev_ws_message now ws msg) = stream_message opts now ws msg s"
| "tw_step opts hmac screen s (Ev_ws_close ws) = stream_closed ws s"

fun tw_run ::
    "twilio_options \<Rightarrow> (jstr \<Rightarrow> jstr \<Rightarrow> byte list) \<Rightarrow> (jstr option \<Rightarrow> bool) option \<Rightarrow> twilio \<Rightarrow> tw_event list
      \<Rightarrow> twilio \<times> tw_effect list" where
  "tw_run opts hmac screen s [] = (s, [])"
| "tw_run opts hmac screen s (e # es) =
     (let (s1, f1) = tw_step opts hmac screen s e; (s2, f2) = tw_run opts hmac screen s1 es in (s2, f1 @ f2))"

end
