(* ===== verification/TwilioFacts.thy ===== *)
theory TwilioFacts
  imports Twilio
begin

text \<open>
  Facts about the Twilio line (theory \<open>Twilio\<close>): its invariant, and two ledgers. Every command
  and every playback mark is a promise the caller holds; the ledgers count, per caller, what was
  requested, what is settled and what is still pending, so a promise can neither be settled twice
  nor be lost. \<open>good\<close> says all this of one operation, and operations compose by \<open>good_seq\<close>.
\<close>

section \<open>Pending and settled promises\<close>

fun task_rids :: "tw_task \<Rightarrow> nat list" where
  "task_rids Task_check = []"
| "task_rids (Task_dial rid to) = [rid]"
| "task_rids (Task_hangup rid) = [rid]"
| "task_rids (Task_dtmf rid i d) = [rid]"
| "task_rids (Task_merge rid ls t i) = [rid]"
| "task_rids (Task_listen rid) = [rid]"
| "task_rids (Task_listen_hangup rid i) = [rid]"

fun wait_rid :: "tw_wait \<Rightarrow> nat" where
  "wait_rid (Wait_answer rid i) = rid"
| "wait_rid (Wait_dtmf rid d) = rid"

fun settles :: "tw_effect \<Rightarrow> nat list" where
  "settles (Tw_resolve rid x) = [rid]"
| "settles (Tw_reject rid e) = [rid]"
| "settles _ = []"

fun marked :: "tw_effect \<Rightarrow> nat list" where
  "marked (Tw_marked rid c) = [rid]"
| "marked _ = []"

definition settled :: "tw_effect list \<Rightarrow> nat multiset" where
  "settled fs = mset (concat (map settles fs))"

definition marks_done :: "tw_effect list \<Rightarrow> nat multiset" where
  "marks_done fs = mset (concat (map marked fs))"

definition pend :: "twilio \<Rightarrow> nat multiset" where
  "pend s = mset (concat (map (\<lambda>p. task_rids (snd p)) (tasks s))) + mset (map (\<lambda>p. wait_rid (snd p)) (waits s))"

definition marks_pend :: "twilio \<Rightarrow> nat multiset" where
  "marks_pend s = (\<Sum>i<next_obj s. mset (map snd (marks (leg s i))))"

lemma settled_simps [simp]:
  "settled [] = {#}" "settled (a @ b) = settled a + settled b" "settled (x # a) = mset (settles x) + settled a"
  by (simp_all add: settled_def)

lemma marks_done_simps [simp]:
  "marks_done [] = {#}" "marks_done (a @ b) = marks_done a + marks_done b"
  "marks_done (x # a) = mset (marked x) + marks_done a"
  by (simp_all add: marks_done_def)

lemma quiet_close [simp]: "settled (close_ws w) = {#}" "marks_done (close_ws w) = {#}"
  by (simp_all add: close_ws_def split: option.split)

lemma settled_marks [simp]: "settled (map (\<lambda>(n, p). Tw_marked p c) ms) = {#}"
  by (induction ms) auto

lemma marks_done_marks [simp]: "marks_done (map (\<lambda>(n, p). Tw_marked p c) ms) = mset (map snd ms)"
  by (induction ms) auto

section \<open>Invariant\<close>

definition mark_name :: "nat \<Rightarrow> jstr" where
  "mark_name k = js ''m'' @ dec_nat k"

definition leg_entry_ok :: "twilio \<Rightarrow> jstr \<times> nat \<Rightarrow> bool" where
  "leg_entry_ok s p \<longleftrightarrow> snd p < next_obj s \<and> lc_id (leg_call (leg s (snd p))) = fst p
     \<and> lc_state (leg_call (leg s (snd p))) \<noteq> Ended"

definition call_entry_ok :: "twilio \<Rightarrow> jstr \<times> line_call \<Rightarrow> bool" where
  "call_entry_ok s p \<longleftrightarrow> lc_id (snd p) = fst p \<and> (fst p \<in> fst ` set (legs s) \<or> conference (snd p))"

definition marks_ok :: "twilio \<Rightarrow> nat \<Rightarrow> bool" where
  "marks_ok s i \<longleftrightarrow> distinct (map fst (marks (leg s i)))
     \<and> (\<forall>n\<in>fst ` set (marks (leg s i)). \<exists>k. n = mark_name k \<and> k \<le> nextMark s)
     \<and> (next_obj s \<le> i \<longrightarrow> marks (leg s i) = [])"

definition tw_ok :: "twilio \<Rightarrow> bool" where
  "tw_ok s \<longleftrightarrow> distinct (map fst (legs s)) \<and> distinct (map fst (calls s))
     \<and> (\<forall>p\<in>set (legs s). leg_entry_ok s p)
     \<and> (\<forall>p\<in>set (calls s). call_entry_ok s p)
     \<and> fst ` set (legs s) \<subseteq> fst ` set (calls s)
     \<and> (\<forall>i. marks_ok s i)
     \<and> distinct (map fst (tasks s)) \<and> (\<forall>t\<in>fst ` set (tasks s). t < next_task s)
     \<and> distinct (map fst (waits s)) \<and> (\<forall>w\<in>fst ` set (waits s). w < next_task s)"

definition good :: "twilio \<Rightarrow> nat multiset \<Rightarrow> nat multiset \<Rightarrow> twilio \<times> tw_effect list \<Rightarrow> bool" where
  "good s R M x \<longleftrightarrow> tw_ok (fst x) \<and> settled (snd x) + pend (fst x) = pend s + R
     \<and> marks_done (snd x) + marks_pend (fst x) = marks_pend s + M"

lemma good_ret: "tw_ok s \<Longrightarrow> R = settled f \<Longrightarrow> M = marks_done f \<Longrightarrow> good s R M (s, f)"
  by (simp add: good_def)

lemma good_seq:
  assumes "good s R1 M1 (s1, f1)" "good s1 R2 M2 (s2, f2)"
  shows "good s (R1 + R2) (M1 + M2) (s2, f1 @ f2)"
  using assms by (simp add: good_def add.assoc)

lemma good_then:
  assumes "good s R1 M1 (s1, f1)" "settled f2 = R2" "marks_done f2 = M2"
  shows "good s (R1 + R2) (M1 + M2) (s1, f1 @ f2)"
proof -
  have "tw_ok s1" using assms(1) by (simp add: good_def)
  then have "good s1 R2 M2 (s1, f2)" using assms by (intro good_ret) auto
  then show ?thesis by (rule good_seq [OF assms(1)])
qed

lemma good_from:
  assumes "good s' R M x" "pend s' = pend s" "marks_pend s' = marks_pend s"
  shows "good s R M x"
  using assms by (simp add: good_def)

section \<open>Primitive operations\<close>

lemma set_leg_fields [simp]:
  "leg (set_leg i f s) = (leg s)(i := f (leg s i))" "legs (set_leg i f s) = legs s"
  "calls (set_leg i f s) = calls s" "next_obj (set_leg i f s) = next_obj s"
  "nextMark (set_leg i f s) = nextMark s" "tasks (set_leg i f s) = tasks s"
  "waits (set_leg i f s) = waits s" "next_task (set_leg i f s) = next_task s"
  "tw_open (set_leg i f s) = tw_open s" "streamToken (set_leg i f s) = streamToken s"
  "listener (set_leg i f s) = listener s" "listenLegs (set_leg i f s) = listenLegs s"
  "socket_leg (set_leg i f s) = socket_leg s" "socket_listener (set_leg i f s) = socket_listener s"
  by (simp_all add: set_leg_def)

lemma sum_upd:
  fixes F :: "'b \<Rightarrow> 'c::comm_monoid_add"
  assumes "i < (n::nat)"
  shows "(\<Sum>j<n. F ((g(i := x)) j)) + F (g i) = (\<Sum>j<n. F (g j)) + F x"
proof -
  have s: "(\<Sum>j<n. H j) = H i + (\<Sum>j\<in>{..<n} - {i}. H j)" for H :: "nat \<Rightarrow> 'c"
    using assms by (intro sum.remove) auto
  have "(\<Sum>j\<in>{..<n} - {i}. F ((g(i := x)) j)) = (\<Sum>j\<in>{..<n} - {i}. F (g j))"
    by (intro sum.cong) auto
  then show ?thesis unfolding s [of "\<lambda>j. F ((g(i := x)) j)"] s [of "\<lambda>j. F (g j)"]
    by (simp add: ac_simps)
qed

lemma set_leg_marks_pend:
  assumes "tw_ok s" "i < next_obj s \<or> marks (f (leg s i)) = marks (leg s i)"
  shows "marks_pend (set_leg i f s) + mset (map snd (marks (leg s i)))
    = marks_pend s + mset (map snd (marks (f (leg s i))))"
proof (cases "i < next_obj s")
  case True
  then show ?thesis using sum_upd [OF True, of "\<lambda>l. mset (map snd (marks l))" "leg s" "f (leg s i)"]
    by (simp add: marks_pend_def)
next
  case False
  then have "(\<Sum>j<next_obj s. mset (map snd (marks (((leg s)(i := f (leg s i))) j)))) = marks_pend s"
    by (auto simp: marks_pend_def intro: sum.cong)
  then show ?thesis using False assms by (simp add: marks_pend_def)
qed

lemma pend_set_leg [simp]: "pend (set_leg i f s) = pend s"
  by (simp add: pend_def)

text \<open>An update of a leg that keeps its call and its marks.\<close>

lemma set_leg_quiet:
  assumes "tw_ok s" "\<And>l. leg_call (f l) = leg_call l" "\<And>l. marks (f l) = marks l"
  shows "tw_ok (set_leg i f s)" "marks_pend (set_leg i f s) = marks_pend s"
proof -
  show "marks_pend (set_leg i f s) = marks_pend s"
    using set_leg_marks_pend [where s = s and i = i and f = f] assms by simp
  have "leg_entry_ok (set_leg i f s) = leg_entry_ok s"
    using assms(2) by (auto simp: leg_entry_ok_def fun_eq_iff)
  moreover have "call_entry_ok (set_leg i f s) = call_entry_ok s"
    by (auto simp: call_entry_ok_def fun_eq_iff)
  moreover have "marks_ok (set_leg i f s) = marks_ok s"
    using assms(3) by (auto simp: marks_ok_def fun_eq_iff)
  ultimately show "tw_ok (set_leg i f s)" using assms(1) by (simp add: tw_ok_def)
qed

lemma good_set_leg:
  assumes "good (set_leg i f s) R M x" "tw_ok s" "\<And>l. leg_call (f l) = leg_call l" "\<And>l. marks (f l) = marks l"
  shows "good s R M x"
  using good_from [OF assms(1)] set_leg_quiet(2) [OF assms(2-4)] by simp

lemma pend_new_task:
  "pend (s\<lparr>tasks := tasks s @ [(t, x)], next_task := n\<rparr>) = pend s + mset (task_rids x)"
  by (simp add: pend_def)

lemma pend_new_wait:
  "pend (s\<lparr>waits := waits s @ [(t, x)], next_task := n\<rparr>) = pend s + {#wait_rid x#}"
  by (simp add: pend_def)

lemma tw_ok_new_task:
  "tw_ok s \<Longrightarrow> tw_ok (s\<lparr>tasks := tasks s @ [(next_task s, x)], next_task := next_task s + 1\<rparr>)"
  by (fastforce simp: tw_ok_def leg_entry_ok_def call_entry_ok_def marks_ok_def)

lemma tw_ok_new_wait:
  "tw_ok s \<Longrightarrow> tw_ok (s\<lparr>waits := waits s @ [(next_task s, x)], next_task := next_task s + 1\<rparr>)"
  by (fastforce simp: tw_ok_def leg_entry_ok_def call_entry_ok_def marks_ok_def)

lemma tw_api_good:
  assumes "tw_ok s"
  shows "good s (mset (task_rids task)) {#} (tw_api m p form task s)"
  using tw_ok_new_task [OF assms] pend_new_task [where s = s and t = "next_task s" and x = task and n = "next_task s + 1"]
  by (simp add: good_def tw_api_def marks_pend_def)

lemma waitStream_good:
  assumes "tw_ok s"
  shows "good s {#wait_rid w#} {#} (waitStream i ms w s)"
proof -
  let ?s = "set_leg i (\<lambda>l. l\<lparr>onStream := onStream l @ [next_task s]\<rparr>) s"
  have ok: "tw_ok ?s" "marks_pend ?s = marks_pend s" by (rule set_leg_quiet [OF assms]; simp)+
  have "good ?s {#wait_rid w#} {#} (waitStream i ms w s)"
    using tw_ok_new_wait [OF ok(1), of w] pend_new_wait [where s = ?s and t = "next_task ?s" and x = w and n = "next_task ?s + 1"]
    by (simp add: good_def waitStream_def marks_pend_def)
  then show ?thesis using good_from ok(2) by simp
qed

lemma dropMarks_good:
  assumes "tw_ok s"
  shows "good s {#} {#} (dropMarks i s)"
proof -
  let ?s = "set_leg i (\<lambda>l. l\<lparr>marks := []\<rparr>) s"
  have "next_obj s \<le> i \<Longrightarrow> marks (leg s i) = []" using assms by (simp add: tw_ok_def marks_ok_def)
  then have "marks_pend ?s + mset (map snd (marks (leg s i))) = marks_pend s"
    using set_leg_marks_pend [OF assms, where i = i and f = "\<lambda>l. l\<lparr>marks := []\<rparr>"] by (cases "i < next_obj s") auto
  moreover have "tw_ok ?s"
    using assms by (auto simp: tw_ok_def leg_entry_ok_def call_entry_ok_def marks_ok_def)
  ultimately show ?thesis by (simp add: good_def dropMarks_def ac_simps)
qed

section \<open>Calls and legs\<close>

lemma marks_okD: "tw_ok s \<Longrightarrow> marks_ok s i"
  by (simp add: tw_ok_def)

lemma leg_entryD:
  assumes "tw_ok s" "(k, i) \<in> set (legs s)"
  shows "i < next_obj s" "lc_id (leg_call (leg s i)) = k" "lc_state (leg_call (leg s i)) \<noteq> Ended"
  using assms by (auto simp: tw_ok_def leg_entry_ok_def)

lemma legs_get: "tw_ok s \<Longrightarrow> jm_get (legs s) k = Some i \<longleftrightarrow> (k, i) \<in> set (legs s)"
  by (simp add: tw_ok_def jm_get_def)

text \<open>
  An operation that only rewrites the call of one leg and the two maps is good when the new
  maps and calls satisfy the invariant: the ledgers do not look at them.
\<close>

lemma good_calls:
  assumes ok: "tw_ok s"
    and s': "s' = (set_leg i (\<lambda>l. l\<lparr>leg_call := c\<rparr>) s)\<lparr>calls := cs, legs := ls\<rparr>"
    and "distinct (map fst ls)" "distinct (map fst cs)"
    and "\<And>p. p \<in> set ls \<Longrightarrow> leg_entry_ok s' p" "\<And>p. p \<in> set cs \<Longrightarrow> call_entry_ok s' p"
    and "fst ` set ls \<subseteq> fst ` set cs"
    and "settled f = {#}" "marks_done f = {#}"
  shows "good s {#} {#} (s', f)"
proof -
  have "marks_ok s' = marks_ok s" by (auto simp: s' marks_ok_def fun_eq_iff)
  moreover have "tasks s' = tasks s" "waits s' = waits s" "next_task s' = next_task s"
    "legs s' = ls" "calls s' = cs" by (simp_all add: s')
  ultimately have "tw_ok s'" using assms unfolding tw_ok_def by auto
  moreover have "pend s' = pend s" by (simp add: s' pend_def)
  moreover have "marks_pend s' = marks_pend s"
    by (auto simp: s' marks_pend_def intro: sum.cong)
  ultimately show ?thesis using assms by (simp add: good_def)
qed

lemma set_jm_set:
  "distinct (map fst m) \<Longrightarrow> set (jm_set k v m) = insert (k, v) {p \<in> set m. fst p \<noteq> k}"
  unfolding jm_set_def by (induction m) (auto simp: image_iff)

lemma setState_fields:
  "legs (fst (setState now i st s)) = legs s" "next_obj (fst (setState now i st s)) = next_obj s"
  "marks (leg (fst (setState now i st s)) j) = marks (leg s j)"
  "held (leg (fst (setState now i st s)) j) = held (leg s j)"
  "onStream (leg (fst (setState now i st s)) j) = onStream (leg s j)"
  by (simp_all add: setState_def Let_def)

lemma setState_good:
  assumes ok: "tw_ok s" and i: "i \<in> snd ` set (legs s)" and st: "st \<noteq> Ended"
  shows "good s {#} {#} (setState now i st s)"
proof (cases "lc_state (leg_call (leg s i)) = st \<or> lc_state (leg_call (leg s i)) = Ended")
  case True
  then show ?thesis using ok by (auto simp: setState_def Let_def intro: good_ret)
next
  case False
  let ?c = "leg_call (leg s i)"
  let ?c' = "?c\<lparr>lc_state := st, answeredAt := (if st = Active \<and> answeredAt ?c = None then Some now else answeredAt ?c)\<rparr>"
  let ?s' = "(set_leg i (\<lambda>l. l\<lparr>leg_call := ?c'\<rparr>) s)\<lparr>calls := jm_set (lc_id ?c') ?c' (calls s), legs := legs s\<rparr>"
  obtain k where k: "(k, i) \<in> set (legs s)" using i by force
  then have "lc_id ?c = k" using leg_entryD [OF ok] by auto
  then have key: "lc_id ?c \<in> fst ` set (legs s)" using k by force
  have d: "distinct (map fst (calls s))" "distinct (map fst (legs s))" using ok by (auto simp: tw_ok_def)
  have "good s {#} {#} (?s', [Tw_emit (Msg_state ?c')])"
  proof (rule good_calls [OF ok refl])
    show "distinct (map fst (jm_set (lc_id ?c') ?c' (calls s)))" using d by (simp add: distinct_jm_set)
    show "leg_entry_ok ?s' p" if "p \<in> set (legs s)" for p
      using ok that st by (auto simp: tw_ok_def leg_entry_ok_def)
    show "call_entry_ok ?s' p" if "p \<in> set (jm_set (lc_id ?c') ?c' (calls s))" for p
    proof (cases "p = (lc_id ?c', ?c')")
      case True
      then show ?thesis using key by (simp add: call_entry_ok_def)
    next
      case False
      then have "p \<in> set (calls s)" using that unfolding set_jm_set [OF d(1)] by blast
      then have "call_entry_ok s p" using ok by (simp add: tw_ok_def)
      then show ?thesis by (simp add: call_entry_ok_def)
    qed
    show "fst ` set (legs s) \<subseteq> fst ` set (jm_set (lc_id ?c') ?c' (calls s))"
      using ok by (auto simp: keys_jm_set tw_ok_def)
  qed (use d in simp_all)
  moreover have "setState now i st s = (?s', [Tw_emit (Msg_state ?c')])"
    using False by (simp add: setState_def Let_def set_leg_def)
  ultimately show ?thesis by (simp only:)
qed

lemma tw_ended_good:
  assumes ok: "tw_ok s"
  shows "good s {#} {#} (tw_ended i reason s)"
proof (cases "lc_state (leg_call (leg s i)) = Ended")
  case True
  then show ?thesis using ok by (auto simp: tw_ended_def Let_def intro: good_ret)
next
  case False
  let ?c = "leg_call (leg s i)"
  let ?c' = "?c\<lparr>lc_state := Ended\<rparr>"
  let ?s1 = "(set_leg i (\<lambda>l. l\<lparr>leg_call := ?c'\<rparr>) s)\<lparr>calls := jm_delete (lc_id ?c) (calls s), legs := jm_delete (lc_id ?c) (legs s)\<rparr>"
  have d: "distinct (map fst (calls s))" "distinct (map fst (legs s))" using ok by (auto simp: tw_ok_def)
  have "good s {#} {#} (?s1, [])"
  proof (rule good_calls [OF ok refl])
    show "leg_entry_ok ?s1 p" if "p \<in> set (jm_delete (lc_id ?c) (legs s))" for p
      using ok that by (auto simp: tw_ok_def leg_entry_ok_def set_jm_delete)
    show "call_entry_ok ?s1 p" if "p \<in> set (jm_delete (lc_id ?c) (calls s))" for p
      using ok that by (force simp: tw_ok_def call_entry_ok_def set_jm_delete)
    show "fst ` set (jm_delete (lc_id ?c) (legs s)) \<subseteq> fst ` set (jm_delete (lc_id ?c) (calls s))"
      using ok by (auto simp: keys_jm_delete tw_ok_def)
  qed (use d in \<open>simp_all add: distinct_jm_delete\<close>)
  then have s1: "good s {#} {#} (?s1, [])" "tw_ok ?s1" by (auto simp: good_def)
  obtain s2 f2 where m: "dropMarks i ?s1 = (s2, f2)" by (cases "dropMarks i ?s1")
  have "good s {#} {#} (s2, f2)"
    using good_seq [OF s1(1) dropMarks_good [OF s1(2), of i, unfolded m]] by simp
  then have "good s {#} {#} (s2, f2 @ close_ws (leg_ws (leg s i)) @ [Tw_emit (Msg_ended ?c' (if hungUp (leg s i) then js ''local'' else reason))])"
    using good_then [of s "{#}" "{#}" s2 f2 "close_ws (leg_ws (leg s i)) @ [Tw_emit (Msg_ended ?c' (if hungUp (leg s i) then js ''local'' else reason))]" "{#}" "{#}"]
    by simp
  then show ?thesis using False m by (simp add: tw_ended_def Let_def)
qed

lemma merge_joined_good:
  assumes ok: "tw_ok s"
  shows "good s {#} {#} (merge_joined i s)"
proof -
  let ?c = "(leg_call (leg s i))\<lparr>conference := True, lc_state := Active\<rparr>"
  let ?s0 = "set_leg i (\<lambda>l. l\<lparr>held := False\<rparr>) s"
  let ?s' = "(set_leg i (\<lambda>l. l\<lparr>leg_call := ?c\<rparr>) ?s0)\<lparr>calls := jm_set (lc_id ?c) ?c (calls ?s0), legs := legs ?s0\<rparr>"
  have ok0: "tw_ok ?s0" by (rule set_leg_quiet [OF ok]; simp)
  have d: "distinct (map fst (calls s))" "distinct (map fst (legs s))" using ok by (auto simp: tw_ok_def)
  have "good ?s0 {#} {#} (?s', [Tw_emit (Msg_state ?c)])"
  proof (rule good_calls [OF ok0 refl])
    show "distinct (map fst (jm_set (lc_id ?c) ?c (calls ?s0)))" using d by (simp add: distinct_jm_set)
    show "leg_entry_ok ?s' p" if "p \<in> set (legs ?s0)" for p
      using ok that by (auto simp: tw_ok_def leg_entry_ok_def)
    show "call_entry_ok ?s' p" if "p \<in> set (jm_set (lc_id ?c) ?c (calls ?s0))" for p
    proof (cases "p = (lc_id ?c, ?c)")
      case True
      then show ?thesis by (simp add: call_entry_ok_def)
    next
      case False
      then have "p \<in> set (calls s)" using that unfolding set_leg_fields set_jm_set [OF d(1)] by blast
      then have "call_entry_ok s p" using ok by (simp add: tw_ok_def)
      then show ?thesis by (simp add: call_entry_ok_def)
    qed
    show "fst ` set (legs ?s0) \<subseteq> fst ` set (jm_set (lc_id ?c) ?c (calls ?s0))"
      using ok by (auto simp: keys_jm_set tw_ok_def)
  qed (use d in simp_all)
  then have "good s {#} {#} (?s', [Tw_emit (Msg_state ?c)])"
    by (rule good_set_leg [OF _ ok]) simp_all
  moreover have "merge_joined i s = (?s', [Tw_emit (Msg_state ?c)])"
    by (simp add: merge_joined_def Let_def set_leg_def)
  ultimately show ?thesis by simp
qed

lemma newLeg_good:
  assumes ok: "tw_ok s" and st: "lc_state c \<noteq> Ended" and f: "settled f = {#}" "marks_done f = {#}"
  shows "good s {#} {#} (fst (newLeg c s), f)"
proof -
  let ?i = "next_obj s"
  let ?s' = "fst (newLeg c s)"
  have d: "distinct (map fst (calls s))" "distinct (map fst (legs s))" using ok by (auto simp: tw_ok_def)
  have none: "marks (leg s ?i) = []" using marks_okD [OF ok, of ?i] by (simp add: marks_ok_def)
  have flds: "legs ?s' = jm_set (lc_id c) ?i (legs s)" "calls ?s' = jm_set (lc_id c) c (calls s)"
    "next_obj ?s' = ?i + 1" "leg ?s' = (leg s)(?i := blank_leg c)" "nextMark ?s' = nextMark s"
    "tasks ?s' = tasks s" "waits ?s' = waits s" "next_task ?s' = next_task s"
    by (simp_all add: newLeg_def Let_def)
  have "leg_entry_ok ?s' p" if "p \<in> set (jm_set (lc_id c) ?i (legs s))" for p
    using that ok st unfolding set_jm_set [OF d(2)] by (fastforce simp: tw_ok_def leg_entry_ok_def flds blank_leg_def)
  moreover have "call_entry_ok ?s' p" if "p \<in> set (jm_set (lc_id c) c (calls s))" for p
    using that ok unfolding set_jm_set [OF d(1)] by (fastforce simp: tw_ok_def call_entry_ok_def flds keys_jm_set)
  moreover have "marks_ok ?s' j" for j
    using marks_okD [OF ok, of j] none by (auto simp: marks_ok_def flds blank_leg_def)
  ultimately have "tw_ok ?s'"
    using ok d by (auto simp: tw_ok_def flds keys_jm_set distinct_jm_set)
  moreover have "marks_pend ?s' = marks_pend s"
    by (auto simp: marks_pend_def flds blank_leg_def intro: sum.cong)
  ultimately show ?thesis using f by (simp add: good_def pend_def flds)
qed

section \<open>Commands\<close>

lemma list_last_in: "filter P xs \<noteq> [] \<Longrightarrow> last (filter P xs) \<in> set xs \<and> P (last (filter P xs))"
  using last_in_set [of "filter P xs"] by auto

lemma active_leg:
  assumes "tw_active s = Some i"
  shows "i \<in> snd ` set (legs s)" "\<not> held (leg s i)" "lc_state (leg_call (leg s i)) \<noteq> Ended"
proof -
  let ?P = "\<lambda>i. \<not> held (leg s i) \<and> lc_state (leg_call (leg s i)) \<noteq> Ended"
  have "filter ?P (map snd (legs s)) \<noteq> [] \<and> i = last (filter ?P (map snd (legs s)))"
    using assms by (auto simp: tw_active_def split: list.splits if_splits)
  then have "i \<in> set (map snd (legs s)) \<and> ?P i" using list_last_in [of ?P "map snd (legs s)"] by simp
  then show "i \<in> snd ` set (legs s)" "\<not> held (leg s i)" "lc_state (leg_call (leg s i)) \<noteq> Ended" by auto
qed

lemma held_leg:
  assumes "held_legs s \<noteq> []"
  shows "last (held_legs s) \<in> snd ` set (legs s)" "held (leg s (last (held_legs s)))"
  using list_last_in [of "\<lambda>i. held (leg s i)" "map snd (legs s)"] assms by (auto simp: held_legs_def)

lemma settled_reject [simp]: "settled (reject rid code m) = {#rid#}" "marks_done (reject rid code m) = {#}"
  by (simp_all add: reject_def)

lemma good_reject: "tw_ok s \<Longrightarrow> good s {#rid#} {#} (s, reject rid code m)"
  by (rule good_ret) simp_all

lemma goodE: "good s R M (s', f) \<Longrightarrow> tw_ok s'"
  by (simp add: good_def)

lemma redirect_good:
  assumes ok: "tw_ok s"
  shows "good s (mset (task_rids task)) {#} (redirect opts i twiml task s)"
proof -
  let ?s1 = "set_leg i (\<lambda>l. l\<lparr>redirecting := True\<rparr>) s"
  have ok1: "tw_ok ?s1" by (rule set_leg_quiet [OF ok]; simp)
  obtain s2 f2 where d: "dropMarks i ?s1 = (s2, f2)" by (cases "dropMarks i ?s1")
  have g2: "good ?s1 {#} {#} (s2, f2)" using dropMarks_good [OF ok1, of i] d by simp
  let ?call = "tw_api (js ''POST'') (callUrl opts (lc_id (leg_call (leg s i)))) [(js ''Twiml'', [twiml])] task s2"
  obtain s3 f3 where a: "?call = (s3, f3)" by (cases ?call)
  have "good s2 (mset (task_rids task)) {#} (s3, f3)" using tw_api_good [OF goodE [OF g2]] a by metis
  then have "good ?s1 (mset (task_rids task)) {#} (s3, f2 @ f3)" using good_seq [OF g2] by fastforce
  then have "good s (mset (task_rids task)) {#} (s3, f2 @ f3)" by (rule good_set_leg [OF _ ok]) simp_all
  then show ?thesis using d a by (simp add: redirect_def)
qed

lemma tw_hold_good:
  assumes ok: "tw_ok s"
  shows "good s {#rid#} {#} (tw_hold now rid s)"
proof (cases "tw_active s")
  case None
  then show ?thesis using ok by (simp add: tw_hold_def good_reject)
next
  case (Some i)
  obtain s1 f1 where d: "dropMarks i s = (s1, f1)" by (cases "dropMarks i s")
  have g1: "good s {#} {#} (s1, f1)" using dropMarks_good [OF ok, of i] d by simp
  let ?h = "set_leg i (\<lambda>l. l\<lparr>held := True\<rparr>) s1"
  have okh: "tw_ok ?h" by (rule set_leg_quiet [OF goodE [OF g1]]; simp)
  obtain s2 f2 where t: "setState now i Held ?h = (s2, f2)" by (cases "setState now i Held ?h")
  have "legs s1 = legs s" using d by (auto simp: dropMarks_def)
  then have "good ?h {#} {#} (s2, f2)"
    using setState_good [OF okh, of i Held now] active_leg(1) [OF Some] t by simp
  then have "good s1 {#} {#} (s2, f2)" by (rule good_set_leg [OF _ goodE [OF g1]]) simp_all
  then have "good s {#} {#} (s2, f1 @ f2)" using good_seq [OF g1] by fastforce
  then have "good s {#rid#} {#} (s2, (f1 @ f2) @ [Tw_resolve rid Res_none])"
    using good_then [of s "{#}" "{#}" s2 "f1 @ f2" "[Tw_resolve rid Res_none]" "{#rid#}" "{#}"] by simp
  then show ?thesis using Some d t by (simp add: tw_hold_def)
qed

lemma tw_resume_good:
  assumes ok: "tw_ok s"
  shows "good s {#rid#} {#} (tw_resume now rid s)"
proof (cases "held_legs s = [] \<or> tw_active s \<noteq> None")
  case True
  then show ?thesis using ok by (auto simp: tw_resume_def intro: good_reject)
next
  case False
  let ?i = "last (held_legs s)"
  let ?h = "set_leg ?i (\<lambda>l. l\<lparr>held := False\<rparr>) s"
  have okh: "tw_ok ?h" by (rule set_leg_quiet [OF ok]; simp)
  obtain s2 f2 where t: "setState now ?i Active ?h = (s2, f2)" by (cases "setState now ?i Active ?h")
  have "good ?h {#} {#} (s2, f2)"
    using setState_good [OF okh, of ?i Active now] held_leg(1) False t by simp
  then have "good s {#} {#} (s2, f2)" by (rule good_set_leg [OF _ ok]) simp_all
  then have "good s {#rid#} {#} (s2, f2 @ [Tw_resolve rid Res_none])"
    using good_then [of s "{#}" "{#}" s2 f2 "[Tw_resolve rid Res_none]" "{#rid#}" "{#}"] by simp
  then show ?thesis using False t by (simp add: tw_resume_def)
qed

text \<open>Moving a leg to the end of the map keeps everything the invariant and the ledgers see.\<close>

lemma move_last_good:
  assumes ok: "tw_ok s" and h: "(k, h) \<in> set (legs s)" and g: "good (s\<lparr>legs := jm_set k h (jm_delete k (legs s))\<rparr>) R M x"
  shows "good s R M x"
  using good_from [OF g] by (simp add: pend_def marks_pend_def)

lemma move_last_set:
  assumes ok: "tw_ok s" and h: "(k, h) \<in> set (legs s)"
  shows "set (jm_set k h (jm_delete k (legs s))) = set (legs s)"
proof -
  have d: "distinct (map fst (legs s))" using ok by (simp add: tw_ok_def)
  have "(k, v) \<in> set (legs s) \<longleftrightarrow> v = h" for v
    using d h by (metis eq_key_imp_eq_value)
  then show ?thesis
    using distinct_jm_delete [OF d] by (auto simp: set_jm_set set_jm_delete)
qed

lemma move_last_ok:
  assumes ok: "tw_ok s" and h: "(k, h) \<in> set (legs s)"
  shows "tw_ok (s\<lparr>legs := jm_set k h (jm_delete k (legs s))\<rparr>)"
proof -
  let ?s = "s\<lparr>legs := jm_set k h (jm_delete k (legs s))\<rparr>"
  have "leg_entry_ok ?s = leg_entry_ok s" "call_entry_ok ?s = call_entry_ok s" "marks_ok ?s = marks_ok s"
    by (auto simp: leg_entry_ok_def call_entry_ok_def marks_ok_def fun_eq_iff move_last_set [OF assms])
  then show ?thesis
    using ok by (simp add: tw_ok_def move_last_set [OF assms] distinct_jm_set distinct_jm_delete)
qed

end
