(* ===== verification/TwilioRun.thy ===== *)
theory TwilioRun
  imports TwilioFacts
begin

text \<open>
  Every event of the Twilio line keeps its invariant and its ledgers (\<open>tw_step_good\<close>), the line
  is an event machine and its hold, resume and swap are a call switch; and the properties of
  the line: what it reports, what settles, what switching does, who may attach a stream.
\<close>

section \<open>Every event is good\<close>

lemma tw_swap_good:
  assumes ok: "tw_ok s"
  shows "good s {#rid#} {#} (tw_swap now rid s)"
proof (cases "tw_active s")
  case None
  then show ?thesis using ok by (simp add: tw_swap_def good_reject)
next
  case (Some a)
  show ?thesis
  proof (cases "held_legs s = []")
    case True
    then show ?thesis using ok Some by (simp add: tw_swap_def good_reject)
  next
    case False
    let ?h = "last (held_legs s)"
    obtain s1 f1 where d: "dropMarks a s = (s1, f1)" by (cases "dropMarks a s")
    have g1: "good s {#} {#} (s1, f1)" using dropMarks_good [OF ok, of a] d by simp
    have l1: "legs s1 = legs s" using d by (auto simp: dropMarks_def)
    let ?s2a = "set_leg a (\<lambda>l. l\<lparr>held := True\<rparr>) s1"
    let ?s2 = "set_leg ?h (\<lambda>l. l\<lparr>held := False\<rparr>) ?s2a"
    have ok2a: "tw_ok ?s2a" by (rule set_leg_quiet [OF goodE [OF g1]]; simp)
    have ok2: "tw_ok ?s2" by (rule set_leg_quiet [OF ok2a]; simp)
    let ?k = "lc_id (leg_call (leg ?s2 ?h))"
    let ?s3 = "?s2\<lparr>legs := jm_set ?k ?h (jm_delete ?k (legs ?s2))\<rparr>"
    have "?h \<in> snd ` set (legs ?s2)" using held_leg(1) [OF False] l1 by simp
    then have kh: "(?k, ?h) \<in> set (legs ?s2)" using leg_entryD(2) [OF ok2] by force
    have ok3: "tw_ok ?s3" by (rule move_last_ok [OF ok2 kh])
    have in3: "a \<in> snd ` set (legs ?s3)" "?h \<in> snd ` set (legs ?s3)"
      using active_leg(1) [OF Some] held_leg(1) [OF False] l1 move_last_set [OF ok2 kh] by simp_all
    obtain s4 f4 where t4: "setState now a Held ?s3 = (s4, f4)" by (cases "setState now a Held ?s3")
    have g4: "good ?s3 {#} {#} (s4, f4)" using setState_good [OF ok3 in3(1), of Held now] t4 by simp
    have "legs s4 = legs ?s3" using setState_fields(1) [of now a Held ?s3] t4 by simp
    then have in4: "?h \<in> snd ` set (legs s4)" using in3(2) by simp
    obtain s5 f5 where t5: "setState now ?h Active s4 = (s5, f5)" by (cases "setState now ?h Active s4")
    have g5: "good s4 {#} {#} (s5, f5)" using setState_good [OF goodE [OF g4] in4, of Active now] t5 by simp
    have "good ?s3 {#} {#} (s5, f4 @ f5)" using good_seq [OF g4 g5] by simp
    then have "good ?s2 {#} {#} (s5, f4 @ f5)" by (rule move_last_good [OF ok2 kh])
    then have "good ?s2a {#} {#} (s5, f4 @ f5)" by (rule good_set_leg [OF _ ok2a]) simp_all
    then have "good s1 {#} {#} (s5, f4 @ f5)" by (rule good_set_leg [OF _ goodE [OF g1]]) simp_all
    then have "good s {#} {#} (s5, f1 @ f4 @ f5)" using good_seq [OF g1] by fastforce
    then have "good s {#rid#} {#} (s5, (f1 @ f4 @ f5) @ [Tw_resolve rid Res_none])"
      using good_then [of s "{#}" "{#}" s5 "f1 @ f4 @ f5" "[Tw_resolve rid Res_none]" "{#rid#}" "{#}"] by simp
    then show ?thesis using Some False d t4 t5 by (simp add: tw_swap_def Let_def)
  qed
qed

lemma merge_next_good: "tw_ok s \<Longrightarrow> good s {#rid#} {#} (merge_next opts rid ls twiml s)"
proof (cases ls)
  case Nil
  assume "tw_ok s"
  then show ?thesis using Nil by (auto intro: good_ret)
next
  case (Cons i rest)
  assume "tw_ok s"
  then show ?thesis using Cons redirect_good [of s "Task_merge rid rest twiml i"] by simp
qed

lemma tw_command_good:
  assumes ok: "tw_ok s"
  shows "good s {#rid#} {#} (tw_command opts now rid c s)"
proof (cases c)
  case (Cmd_dial to)
  then show ?thesis using tw_api_good [OF ok, of "Task_dial rid to"] by (simp add: tw_dial_def)
next
  case (Cmd_answer call)
  show ?thesis
  proof (cases "find_leg call s")
    case None
    then show ?thesis using ok Cmd_answer by (simp add: tw_answer_def good_reject)
  next
    case (Some i)
    then show ?thesis using ok Cmd_answer waitStream_good [OF ok, of "Wait_answer rid i"]
      by (auto simp: tw_answer_def intro: good_ret)
  qed
next
  case (Cmd_hangup call)
  show ?thesis
  proof (cases "find_leg call s")
    case None
    then show ?thesis using ok Cmd_hangup by (simp add: tw_hangup_def good_reject)
  next
    case (Some i)
    let ?s = "set_leg i (\<lambda>l. l\<lparr>hungUp := True\<rparr>) s"
    have ok1: "tw_ok ?s" by (rule set_leg_quiet [OF ok]; simp)
    have "good ?s {#rid#} {#} (tw_api (js ''POST'') (callUrl opts (lc_id (leg_call (leg s i))))
        [(js ''Status'', [js ''completed''])] (Task_hangup rid) ?s)"
      using tw_api_good [OF ok1, of "Task_hangup rid"] by simp
    then have "good s {#rid#} {#} (tw_api (js ''POST'') (callUrl opts (lc_id (leg_call (leg s i))))
        [(js ''Status'', [js ''completed''])] (Task_hangup rid) ?s)"
      by (rule good_set_leg [OF _ ok]) simp_all
    then show ?thesis using Cmd_hangup Some by (simp add: tw_hangup_def)
  qed
next
  case (Cmd_dtmf digits)
  then show ?thesis
    using ok redirect_good [OF ok, of "Task_dtmf rid i digits" for i]
    by (auto simp: tw_dtmf_def intro: good_reject split: option.splits)
next
  case Cmd_hold
  then show ?thesis using tw_hold_good [OF ok] by simp
next
  case Cmd_resume
  then show ?thesis using tw_resume_good [OF ok] by simp
next
  case Cmd_swap
  then show ?thesis using tw_swap_good [OF ok] by simp
next
  case (Cmd_merge hex)
  then show ?thesis using ok merge_next_good [OF ok] by (auto simp: tw_merge_def intro: good_reject)
next
  case (Cmd_other type)
  then show ?thesis using ok by (simp add: good_reject)
qed

lemma tw_cmd_good: "tw_ok s \<Longrightarrow> good s {#rid#} {#} (tw_cmd opts now rid c s)"
  by (simp add: tw_cmd_def good_reject tw_command_good)

text \<open>Changes of what the invariant and the ledgers do not look at.\<close>

lemma same_view:
  assumes "legs s' = legs s" "calls s' = calls s" "leg s' = leg s" "next_obj s' = next_obj s"
    "nextMark s' = nextMark s" "tasks s' = tasks s" "waits s' = waits s" "next_task s' = next_task s"
  shows "tw_ok s' = tw_ok s" "pend s' = pend s" "marks_pend s' = marks_pend s"
proof -
  have "leg_entry_ok s' = leg_entry_ok s" "call_entry_ok s' = call_entry_ok s" "marks_ok s' = marks_ok s"
    using assms by (auto simp: leg_entry_ok_def call_entry_ok_def marks_ok_def fun_eq_iff)
  then show "tw_ok s' = tw_ok s" using assms by (simp add: tw_ok_def)
  show "pend s' = pend s" "marks_pend s' = marks_pend s" using assms by (simp_all add: pend_def marks_pend_def)
qed

lemma good_same_view:
  assumes "tw_ok s" "legs s' = legs s" "calls s' = calls s" "leg s' = leg s" "next_obj s' = next_obj s"
    "nextMark s' = nextMark s" "tasks s' = tasks s" "waits s' = waits s" "next_task s' = next_task s"
    "settled f = R" "marks_done f = M"
  shows "good s R M (s', f)"
  using same_view [OF assms(2-9)] assms by (simp add: good_def)

lemma listenerEnded_good: "tw_ok s \<Longrightarrow> good s {#} {#} (listenerEnded i r s)"
  by (auto simp: listenerEnded_def Let_def set_listener_def intro: good_ret good_same_view)

lemma new_listener_ok:
  assumes "tw_ok s"
  shows "tw_ok (s\<lparr>listener := x, next_obj := next_obj s + 1, listenLegs := y\<rparr>)"
    and "marks_pend (s\<lparr>listener := x, next_obj := next_obj s + 1, listenLegs := y\<rparr>) = marks_pend s"
proof -
  have "marks (leg s (next_obj s)) = []" using marks_okD [OF assms, of "next_obj s"] by (simp add: marks_ok_def)
  then show "marks_pend (s\<lparr>listener := x, next_obj := next_obj s + 1, listenLegs := y\<rparr>) = marks_pend s"
    by (simp add: marks_pend_def)
  show "tw_ok (s\<lparr>listener := x, next_obj := next_obj s + 1, listenLegs := y\<rparr>)"
    using assms by (fastforce simp: tw_ok_def leg_entry_ok_def call_entry_ok_def marks_ok_def)
qed

lemma task_goes_on_good:
  assumes ok: "tw_ok s"
  shows "good s (mset (task_rids task)) {#} (task_goes_on opts now task r s)"
proof (cases "(opts, now, task, r, s)" rule: task_goes_on.cases)
  case (1 opts' now' payload s')
  then show ?thesis using ok by (auto intro: good_same_view)
next
  case (2 opts' now' err s')
  then show ?thesis using ok by (auto intro: good_ret)
next
  case (3 opts' now' rid to payload s')
  let ?c = "\<lparr>lc_id = js_string_opt (json_get payload (js ''sid'')), lc_number = Some to, direction = Outgoing_call,
               lc_state = Dialing, conference = False, startedAt = now, answeredAt = None\<rparr>"
  have "good s {#} {#} (fst (newLeg ?c s), [Tw_emit (Msg_state ?c)])"
    by (rule newLeg_good [OF ok]) simp_all
  then have "good s {#rid#} {#} (fst (newLeg ?c s), [Tw_emit (Msg_state ?c)] @ [Tw_resolve rid (Res_call ?c)])"
    using good_then [of s "{#}" "{#}" _ _ "[Tw_resolve rid (Res_call ?c)]" "{#rid#}" "{#}"] by fastforce
  then show ?thesis using 3 by (simp add: case_prod_beta Let_def)
next
  case (4 opts' now' rid to err s')
  then show ?thesis using ok by (auto intro: good_ret)
next
  case (5 opts' now' rid payload s')
  then show ?thesis using ok by (auto intro: good_ret)
next
  case (6 opts' now' rid err s')
  then show ?thesis using ok by (auto intro: good_ret)
next
  case (7 opts' now' rid i digits payload s')
  then show ?thesis using ok waitStream_good [OF ok, of "Wait_dtmf rid digits"] by (auto intro: good_ret)
next
  case (8 opts' now' rid i digits err s')
  have "tw_ok (set_leg i (\<lambda>l. l\<lparr>redirecting := False\<rparr>) s)" by (rule set_leg_quiet [OF ok]; simp)
  then have "good (set_leg i (\<lambda>l. l\<lparr>redirecting := False\<rparr>) s) {#rid#} {#}
      (set_leg i (\<lambda>l. l\<lparr>redirecting := False\<rparr>) s, [Tw_reject rid err])" by (rule good_ret) simp_all
  then show ?thesis using 8 good_set_leg [OF _ ok] by simp
next
  case (9 opts' now' rid rest twiml i payload s')
  obtain s1 f1 where m: "merge_joined i s = (s1, f1)" by (cases "merge_joined i s")
  have g1: "good s {#} {#} (s1, f1)" using merge_joined_good [OF ok, of i] m by simp
  obtain s2 f2 where n: "merge_next opts rid rest twiml s1 = (s2, f2)" by (cases "merge_next opts rid rest twiml s1")
  have "good s1 {#rid#} {#} (s2, f2)" using merge_next_good [OF goodE [OF g1], of rid opts rest twiml] n by simp
  then have "good s {#rid#} {#} (s2, f1 @ f2)" using good_seq [OF g1] by fastforce
  then show ?thesis using 9 m n by simp
next
  case (10 opts' now' rid rest twiml i err s')
  have "tw_ok (set_leg i (\<lambda>l. l\<lparr>redirecting := False\<rparr>) s)" by (rule set_leg_quiet [OF ok]; simp)
  then have "good (set_leg i (\<lambda>l. l\<lparr>redirecting := False\<rparr>) s) {#rid#} {#}
      (set_leg i (\<lambda>l. l\<lparr>redirecting := False\<rparr>) s, [Tw_reject rid err])" by (rule good_ret) simp_all
  then show ?thesis using 10 good_set_leg [OF _ ok] by simp
next
  case (11 opts' now' rid payload s')
  then show ?thesis using new_listener_ok [OF ok] by (auto simp: good_def Let_def pend_def)
next
  case (12 opts' now' rid err s')
  then show ?thesis using ok by (auto intro: good_ret)
next
  case (13 opts' now' rid i r' s')
  obtain s1 f1 where m: "listenerEnded i (js ''local'') s = (s1, f1)" by (cases "listenerEnded i (js ''local'') s")
  then have "good s {#} {#} (s1, f1)" using listenerEnded_good [OF ok, of i "js ''local''"] by simp
  then have "good s {#rid#} {#} (s1, f1 @ [Tw_resolve rid Res_none])"
    using good_then [of s "{#}" "{#}" s1 f1 "[Tw_resolve rid Res_none]" "{#rid#}" "{#}"] by simp
  then show ?thesis using 13 m by simp
qed

lemma mset_concat_image: "mset (concat (map f xs)) = (\<Sum>x\<in>#mset xs. mset (f x))"
  by (induction xs) auto

lemma pend_delete_task:
  assumes "tw_ok s" "jm_get (tasks s) t = Some task"
  shows "pend s = mset (task_rids task) + pend (s\<lparr>tasks := jm_delete t (tasks s)\<rparr>)"
proof -
  have "mset (tasks s) = {#(t, task)#} + mset (jm_delete t (tasks s))"
    using assms by (intro delete_key_mset) (auto simp: tw_ok_def)
  then show ?thesis unfolding pend_def mset_concat_image by simp
qed

lemma pend_delete_wait:
  assumes "tw_ok s" "jm_get (waits s) w = Some x"
  shows "pend s = {#wait_rid x#} + pend (s\<lparr>waits := jm_delete w (waits s)\<rparr>)"
proof -
  have "mset (waits s) = {#(w, x)#} + mset (jm_delete w (waits s))"
    using assms by (intro delete_key_mset) (auto simp: tw_ok_def)
  then show ?thesis unfolding pend_def by simp
qed

lemma delete_tasks_ok:
  "tw_ok s \<Longrightarrow> tw_ok (s\<lparr>tasks := jm_delete t (tasks s)\<rparr>)"
  "tw_ok s \<Longrightarrow> tw_ok (s\<lparr>waits := jm_delete t (waits s)\<rparr>)"
  by (auto simp: tw_ok_def leg_entry_ok_def call_entry_ok_def marks_ok_def distinct_jm_delete set_jm_delete)

lemma tw_api_result_good: "tw_ok s \<Longrightarrow> good s {#} {#} (tw_api_result opts now t r s)"
proof (cases "jm_get (tasks s) t")
  case None
  assume "tw_ok s"
  then show ?thesis using None by (auto simp: tw_api_result_def intro: good_ret)
next
  case (Some task)
  assume ok: "tw_ok s"
  let ?s = "s\<lparr>tasks := jm_delete t (tasks s)\<rparr>"
  have "good ?s (mset (task_rids task)) {#} (task_goes_on opts now task r ?s)"
    by (rule task_goes_on_good [OF delete_tasks_ok(1) [OF ok]])
  moreover have "marks_pend ?s = marks_pend s" by (simp add: marks_pend_def)
  ultimately show ?thesis
    using Some pend_delete_task [OF ok Some] by (simp add: tw_api_result_def good_def ac_simps)
qed

lemma wait_effect_counts [simp]:
  "settled (wait_effect x b s) = {#wait_rid x#}" "marks_done (wait_effect x b s) = {#}"
  by (cases x; simp add: wait_effect_def)+

lemma wait_ends_good: "tw_ok s \<Longrightarrow> good s {#} {#} (wait_ends w b s)"
proof (cases "jm_get (waits s) w")
  case None
  assume "tw_ok s"
  then show ?thesis using None by (auto simp: wait_ends_def intro: good_ret)
next
  case (Some x)
  assume ok: "tw_ok s"
  have "marks_pend (s\<lparr>waits := jm_delete w (waits s)\<rparr>) = marks_pend s" by (simp add: marks_pend_def)
  then show ?thesis
    using Some pend_delete_wait [OF ok Some] delete_tasks_ok(2) [OF ok] by (simp add: wait_ends_def good_def ac_simps)
qed

lemma waits_end_good: "tw_ok s \<Longrightarrow> good s {#} {#} (waits_end ws s)"
proof (induction ws arbitrary: s)
  case Nil
  then show ?case by (auto intro: good_ret)
next
  case (Cons w ws)
  obtain s1 f1 where w: "wait_ends w True s = (s1, f1)" by (cases "wait_ends w True s")
  have g1: "good s {#} {#} (s1, f1)" using wait_ends_good [OF Cons.prems, of w True] w by simp
  obtain s2 f2 where r: "waits_end ws s1 = (s2, f2)" by (cases "waits_end ws s1")
  have "good s1 {#} {#} (s2, f2)" using Cons.IH [OF goodE [OF g1]] r by simp
  then show ?case using good_seq [OF g1] w r by fastforce
qed

lemma setState_leg_ok:
  assumes "tw_ok s" "jm_get (legs s) k = Some i" "st \<noteq> Ended"
  shows "good s {#} {#} (setState now i st s)"
  using assms by (intro setState_good) (force simp: legs_get)+

lemma onIncoming_good: "tw_ok s \<Longrightarrow> good s {#} {#} (onIncoming opts screen now rid ps s)"
proof -
  assume ok: "tw_ok s"
  let ?c = "\<lparr>lc_id = param ps ''CallSid'', lc_number = (if param ps ''From'' = [] then None else Some (param ps ''From'')),
    direction = Incoming_call, lc_state = Incoming, conference = False, startedAt = now, answeredAt = None\<rparr>"
  have n: "good s {#} {#} (fst (newLeg ?c s), [Tw_reply rid 200 x, Tw_emit (Msg_incoming ?c)])" for x
    by (rule newLeg_good [OF ok]) simp_all
  have g: "good s {#} {#} (s, [Tw_log a, Tw_reply rid 200 b])" for a b using ok by (auto intro: good_ret)
  show ?thesis using n g by (simp add: onIncoming_def case_prod_beta Let_def)
qed

lemma onStatus_good: "tw_ok s \<Longrightarrow> good s {#} {#} (onStatus now ps s)"
  by (auto simp: onStatus_def Let_def STATUS_def jm_get_def
      intro: good_ret listenerEnded_good tw_ended_good setState_leg_ok [unfolded jm_get_def] split: option.splits if_splits)

lemma handleHttp_good: "tw_ok s \<Longrightarrow> good s {#} {#} (handleHttp opts hmac screen now rid method path query ps sg s)"
proof -
  assume ok: "tw_ok s"
  obtain s1 f1 where o1: "onStatus now ps s = (s1, f1)" by (cases "onStatus now ps s")
  have "good s {#} {#} (s1, f1 @ [Tw_reply rid 204 []])"
    using good_then [of s "{#}" "{#}" s1 f1 "[Tw_reply rid 204 []]" "{#}" "{#}"] onStatus_good [OF ok, of now ps] o1 by simp
  moreover have "good s {#} {#} (s, [Tw_log a, Tw_reply rid 403 []])" "good s {#} {#} (s, [Tw_reply rid 404 []])" for a
    using ok by (auto intro: good_ret)
  ultimately show ?thesis using o1 onIncoming_good [OF ok] by (simp add: handleHttp_def)
qed

lemma attach_stream_good:
  assumes ok: "tw_ok s" and i: "i \<in> snd ` set (legs s)"
  shows "good s {#} {#} (attach_stream now ws sid i s)"
proof -
  let ?s1 = "set_leg i (\<lambda>l. l\<lparr>leg_ws := Some ws, streamSid := Some sid, redirecting := False,
                 up := new_fir, down := new_pcm_to_mulaw\<rparr>) s"
  let ?f1 = "case leg_ws (leg s i) of Some w \<Rightarrow> if w \<noteq> ws then [Tw_close w] else [] | None \<Rightarrow> []"
  have ok1: "tw_ok ?s1" by (rule set_leg_quiet [OF ok]; simp)
  let ?x = "if \<not> held (leg ?s1 i) \<and> lc_state (leg_call (leg ?s1 i)) \<noteq> Active then setState now i Active ?s1 else (?s1, [])"
  obtain s2 f2 where x: "?x = (s2, f2)" by (cases ?x)
  have "good ?s1 {#} {#} ?x"
    using setState_good [OF ok1, of i Active now] i ok1 by (auto intro: good_ret)
  then have g2: "good ?s1 {#} {#} (s2, f2)" unfolding x .
  let ?s2 = "set_leg i (\<lambda>l. l\<lparr>onStream := []\<rparr>) s2"
  have ok2: "tw_ok ?s2" by (rule set_leg_quiet [OF goodE [OF g2]]; simp)
  obtain s3 f3 where w: "waits_end (onStream (leg s2 i)) ?s2 = (s3, f3)"
    by (cases "waits_end (onStream (leg s2 i)) ?s2")
  have "good ?s2 {#} {#} (s3, f3)" using waits_end_good [OF ok2, of "onStream (leg s2 i)"] w by simp
  then have "good s2 {#} {#} (s3, f3)" by (rule good_set_leg [OF _ goodE [OF g2]]) simp_all
  then have "good ?s1 {#} {#} (s3, f2 @ f3)" using good_seq [OF g2] by fastforce
  then have g3: "good s {#} {#} (s3, f2 @ f3)" by (rule good_set_leg [OF _ ok]) simp_all
  have "good s {#} {#} (s, ?f1)" using ok by (auto intro: good_ret split: option.splits)
  then have "good s {#} {#} (s3, ?f1 @ f2 @ f3)" using good_seq [OF _ g3] by fastforce
  then show ?thesis using x w by (simp add: attach_stream_def Let_def)
qed

lemma stream_start_good: "tw_ok s \<Longrightarrow> good s {#} {#} (stream_start opts now ws msg s)"
proof -
  assume ok: "tw_ok s"
  let ?sid = "msg_str (sub msg ''start'' ''callSid'')"
  have refuse: "good s {#} {#} (s\<lparr>socket_leg := jm_delete ws (socket_leg s)\<rparr>, [Tw_log a, Tw_close ws])" for a
    by (rule good_same_view [OF ok]) simp_all
  have lis: "good s {#} {#} ((set_listener li f s)\<lparr>socket_listener := x\<rparr>, [])" for li f x
    by (rule good_same_view [OF ok]) (simp_all add: set_listener_def)
  have att: "good s {#} {#} (attach_stream now ws d i (s\<lparr>socket_leg := jm_set ws i (socket_leg s)\<rparr>))"
    if "jm_get (legs s) ?sid = Some i" for d i
  proof -
    let ?s = "s\<lparr>socket_leg := jm_set ws i (socket_leg s)\<rparr>"
    have v: "tw_ok ?s = tw_ok s" "pend ?s = pend s" "marks_pend ?s = marks_pend s" by (rule same_view; simp)+
    have "i \<in> snd ` set (legs ?s)" using that legs_get [OF ok] by force
    then have "good ?s {#} {#} (attach_stream now ws d i ?s)" using v ok by (intro attach_stream_good) simp_all
    then show ?thesis using v(2,3) by (rule good_from)
  qed
  show ?thesis
    using refuse lis att by (auto simp: stream_start_def Let_def split: option.splits)
qed

lemma marks_delete_ok:
  assumes ok: "tw_ok s"
  shows "tw_ok (set_leg i (\<lambda>l. l\<lparr>marks := jm_delete n (marks l)\<rparr>) s)"
proof -
  let ?s = "set_leg i (\<lambda>l. l\<lparr>marks := jm_delete n (marks l)\<rparr>) s"
  have "marks_ok ?s j" for j
  proof (cases "j = i")
    case True
    have "marks (leg s i) = [] \<Longrightarrow> jm_delete n (marks (leg s i)) = []" by (simp add: jm_delete_fresh)
    then show ?thesis
      using marks_okD [OF ok, of i] True by (auto simp: marks_ok_def distinct_jm_delete keys_jm_delete)
  next
    case False
    then show ?thesis using marks_okD [OF ok, of j] by (simp add: marks_ok_def)
  qed
  then show ?thesis using ok by (auto simp: tw_ok_def leg_entry_ok_def call_entry_ok_def)
qed

lemma stream_mark_good:
  assumes ok: "tw_ok s"
  shows "good s {#} {#} (stream_mark ws msg s)"
proof (cases "jm_get (socket_leg s) ws")
  case None
  then show ?thesis using ok by (auto simp: stream_mark_def intro: good_ret)
next
  case (Some i)
  let ?n = "msg_str (sub msg ''mark'' ''name'')"
  show ?thesis
  proof (cases "jm_get (marks (leg s i)) ?n")
    case None
    then show ?thesis using ok Some by (auto simp: stream_mark_def Let_def intro: good_ret)
  next
    case (Some rid)
    let ?f = "\<lambda>l :: twilio_leg. l\<lparr>marks := jm_delete ?n (marks l)\<rparr>"
    have "distinct (map fst (marks (leg s i)))" using marks_okD [OF ok, of i] by (simp add: marks_ok_def)
    then have m: "mset (marks (leg s i)) = {#(?n, rid)#} + mset (jm_delete ?n (marks (leg s i)))"
      using Some by (rule delete_key_mset)
    have "i < next_obj s"
      using marks_okD [OF ok, of i] Some by (cases "i < next_obj s") (auto simp: marks_ok_def jm_get_def)
    then have "marks_pend (set_leg i ?f s) + mset (map snd (marks (leg s i)))
        = marks_pend s + mset (map snd (jm_delete ?n (marks (leg s i))))"
      using set_leg_marks_pend [OF ok, where i = i and f = ?f] by simp
    then have "{#rid#} + marks_pend (set_leg i ?f s) = marks_pend s"
      unfolding mset_map m by (simp add: add.commute add.left_commute)
    then show ?thesis
      using \<open>jm_get (socket_leg s) ws = Some i\<close> Some marks_delete_ok [OF ok, of i ?n]
      by (simp add: stream_mark_def good_def Let_def)
  qed
qed

lemma stream_message_good:
  assumes ok: "tw_ok s"
  shows "good s {#} {#} (stream_message opts now ws msg s)"
proof -
  have media: "good s {#} {#} (stream_media ws msg s)"
  proof -
    have q: "good s {#} {#} (set_leg i (\<lambda>l. l\<lparr>up := f\<rparr>) s, [Tw_audio p])" for i f p
    proof -
      have "tw_ok (set_leg i (\<lambda>l. l\<lparr>up := f\<rparr>) s)" by (rule set_leg_quiet [OF ok]; simp)
      then show ?thesis by (intro good_set_leg [OF good_ret ok]) simp_all
    qed
    have "good s {#} {#} (s, [])" using ok by (rule good_ret) simp_all
    then show ?thesis using q by (auto simp: stream_media_def split: option.splits prod.splits)
  qed
  have stop: "good s {#} {#} (stream_stop ws s)"
    using ok tw_ended_good [OF ok] by (auto simp: stream_stop_def intro: good_ret split: option.splits)
  have "good s {#} {#} (s, [])" using ok by (rule good_ret) simp_all
  then show ?thesis
    using media stop stream_mark_good [OF ok] stream_start_good [OF ok] by (simp add: stream_message_def Let_def)
qed

lemma listeners_end_good: "tw_ok s \<Longrightarrow> good s {#} {#} (listeners_end ls s)"
proof (induction ls arbitrary: s)
  case Nil
  then show ?case by (auto intro: good_ret)
next
  case (Cons i ls)
  obtain s1 f1 where w: "listenerEnded i (js ''remote'') s = (s1, f1)" by (cases "listenerEnded i (js ''remote'') s")
  have g1: "good s {#} {#} (s1, f1)" using listenerEnded_good [OF Cons.prems, of i "js ''remote''"] w by simp
  obtain s2 f2 where r: "listeners_end ls s1 = (s2, f2)" by (cases "listeners_end ls s1")
  have "good s1 {#} {#} (s2, f2)" using Cons.IH [OF goodE [OF g1]] r by simp
  then show ?case using good_seq [OF g1] w r by fastforce
qed

lemma stream_closed_good:
  assumes ok: "tw_ok s"
  shows "good s {#} {#} (stream_closed ws s)"
proof -
  let ?l = "\<lambda>t. map snd (filter (\<lambda>p. fst p = ws) (rev (socket_listener t)))"
  have a: "good s {#} {#} (listeners_end (?l s) s)" by (rule listeners_end_good [OF ok])
  have b: "good s {#} {#} (listeners_end (?l s) (set_leg i (\<lambda>l. l\<lparr>leg_ws := None, streamSid := None\<rparr>) s))" for i
  proof -
    let ?s = "set_leg i (\<lambda>l. l\<lparr>leg_ws := None, streamSid := None\<rparr>) s"
    have "tw_ok ?s" by (rule set_leg_quiet [OF ok]; simp)
    then show ?thesis by (intro good_set_leg [OF listeners_end_good ok]) simp_all
  qed
  show ?thesis using a b by (auto simp: stream_closed_def Let_def split: option.splits)
qed

lemma tw_sendAudio_good:
  assumes ok: "tw_ok s"
  shows "good s {#} {#} (tw_sendAudio pcm s)"
proof -
  have q: "good s {#} {#} (set_leg i (\<lambda>l. l\<lparr>down := d\<rparr>) s, if b then [] else [Tw_send w m])" for i d b w m
  proof -
    have "tw_ok (set_leg i (\<lambda>l. l\<lparr>down := d\<rparr>) s)" by (rule set_leg_quiet [OF ok]; simp)
    then show ?thesis by (intro good_set_leg [OF good_ret ok]) simp_all
  qed
  have "good s {#} {#} (s, [])" using ok by (rule good_ret) simp_all
  then show ?thesis using q by (simp add: tw_sendAudio_def split: option.splits prod.splits)
qed

lemma listener_send_good: "tw_ok s \<Longrightarrow> good s {#} {#} (listener_send i pcm s)"
  by (auto simp: listener_send_def Let_def set_listener_def intro!: good_same_view good_ret split: option.splits prod.splits)

lemma tw_clear_good:
  assumes ok: "tw_ok s"
  shows "good s {#} {#} (tw_clear rid s)"
proof (cases "tw_active s")
  case None
  then show ?thesis using ok by (auto simp: tw_clear_def intro: good_ret)
next
  case (Some i)
  obtain s1 f1 where d: "dropMarks i s = (s1, f1)" by (cases "dropMarks i s")
  let ?f0 = "case leg_ws (leg s i) of
                 Some ws \<Rightarrow> if or_empty (streamSid (leg s i)) \<noteq> []
                   then [Tw_send ws (JObj [(js ''event'', JStr (js ''clear'')),
                     (js ''streamSid'', JStr (or_empty (streamSid (leg s i))))])] else []
               | None \<Rightarrow> []"
  have g0: "good s {#} {#} (s, ?f0)" using ok by (auto intro: good_ret split: option.splits)
  have "good s {#} {#} (s1, f1)" using dropMarks_good [OF ok, of i] d by simp
  then have "good s {#} {#} (s1, ?f0 @ f1)" using good_seq [OF g0] by fastforce
  then have "good s {#} {#} (s1, (?f0 @ f1) @ [Tw_cleared rid 0])"
    using good_then [of s "{#}" "{#}" s1 "?f0 @ f1" "[Tw_cleared rid 0]" "{#}" "{#}"] by simp
  then show ?thesis using Some d by (simp add: tw_clear_def)
qed

lemma tw_mark_good:
  assumes ok: "tw_ok s"
  shows "good s {#} {#rid#} (tw_mark rid s)"
proof -
  have now: "good s {#} {#rid#} (s, [Tw_marked rid True])" using ok by (auto intro: good_ret)
  have sent: "good s {#} {#rid#} ((set_leg i (\<lambda>l. l\<lparr>marks := jm_set (mark_name (nextMark s + 1)) rid (marks l)\<rparr>) s)
      \<lparr>nextMark := nextMark s + 1\<rparr>, [Tw_send ws m])"
    if act: "tw_active s = Some i" for i ws m
  proof -
    let ?n = "mark_name (nextMark s + 1)"
    let ?f = "\<lambda>l :: twilio_leg. l\<lparr>marks := jm_set ?n rid (marks l)\<rparr>"
    let ?s = "(set_leg i ?f s)\<lparr>nextMark := nextMark s + 1\<rparr>"
    have fresh: "?n \<notin> fst ` set (marks (leg s i))"
      using marks_okD [OF ok, of i] by (fastforce simp: marks_ok_def mark_name_def)
    have app: "jm_set (mark_name (Suc (nextMark s))) rid (marks (leg s i)) = marks (leg s i) @ [(mark_name (Suc (nextMark s)), rid)]"
      using jm_set_fresh [OF fresh] by simp
    have i: "i < next_obj s" using active_leg(1) [OF act] leg_entryD(1) [OF ok] by force
    have "marks_ok ?s j" for j
    proof (cases "j = i")
      case True
      have "\<exists>k. mark_name (Suc (nextMark s)) = mark_name k \<and> k \<le> Suc (nextMark s)" by blast
      then show ?thesis
        using marks_okD [OF ok, of i] True i
        by (simp add: marks_ok_def distinct_jm_set keys_jm_set) (meson le_SucI)
    next
      case False
      then show ?thesis using marks_okD [OF ok, of j] by (simp add: marks_ok_def) (meson le_SucI)
    qed
    then have "tw_ok ?s"
      using ok by (auto simp: tw_ok_def leg_entry_ok_def call_entry_ok_def)
    moreover have "marks_pend ?s = marks_pend (set_leg i ?f s)" by (simp add: marks_pend_def)
    moreover have "marks_pend (set_leg i ?f s) = marks_pend s + {#rid#}"
      using set_leg_marks_pend [OF ok, where i = i and f = ?f] i by (simp add: app)
    moreover have "pend ?s = pend s" by (simp add: pend_def)
    ultimately show ?thesis by (simp add: good_def)
  qed
  show ?thesis
    using now sent by (simp add: tw_mark_def mark_name_def Let_def split: option.splits)
qed

section \<open>The line over a run\<close>

fun requested :: "tw_event \<Rightarrow> nat list" where
  "requested (Ev_cmd now rid c) = [rid]"
| "requested (Ev_listen rid to g) = [rid]"
| "requested (Ev_listener_hangup rid i) = [rid]"
| "requested _ = []"

fun mark_requested :: "tw_event \<Rightarrow> nat list" where
  "mark_requested (Ev_mark rid) = [rid]"
| "mark_requested _ = []"

lemma tw_start_good: "tw_ok s \<Longrightarrow> good s {#} {#} (tw_start opts s)"
proof -
  assume ok: "tw_ok s"
  let ?s = "s\<lparr>tw_stopped := False\<rparr>"
  have v: "tw_ok ?s = tw_ok s" "pend ?s = pend s" "marks_pend ?s = marks_pend s" by (rule same_view; simp)+
  have "good ?s {#} {#} (tw_start opts s)"
    using tw_api_good [of ?s Task_check] v ok by (simp add: tw_start_def)
  then show ?thesis using v(2,3) by (rule good_from)
qed

lemma tw_stop_good: "tw_ok s \<Longrightarrow> good s {#} {#} (tw_stop s)"
proof -
  assume ok: "tw_ok s"
  have z: "settled (concat (map (\<lambda>(k, i). close_ws (h i)) xs)) = {#}"
    "marks_done (concat (map (\<lambda>(k, i). close_ws (h i)) xs)) = {#}" for h and xs :: "(jstr \<times> nat) list"
    by (induction xs) auto
  show ?thesis unfolding tw_stop_def by (rule good_same_view [OF ok]) (simp_all add: z)
qed

lemma tw_step_good:
  assumes ok: "tw_ok s"
  shows "good s (mset (requested e)) (mset (mark_requested e)) (tw_step opts hmac screen s e)"
proof (cases e)
  case (Ev_listen rid to g)
  then show ?thesis
    using ok tw_api_good [OF ok, of "Task_listen rid"] by (simp add: tw_listen_def good_reject)
next
  case (Ev_listener_hangup rid i)
  then show ?thesis
    using ok tw_api_good [OF ok, of "Task_listen_hangup rid i"] by (auto simp: listener_hangup_def intro: good_ret)
next
  case Ev_retry
  then show ?thesis using tw_api_good [OF ok, of Task_check] by simp
qed (use ok in \<open>simp_all add: tw_start_good tw_stop_good tw_cmd_good listener_send_good tw_sendAudio_good tw_mark_good
    tw_clear_good tw_api_result_good wait_ends_good handleHttp_good stream_message_good stream_closed_good\<close>)

definition tw_next ::
    "twilio_options \<Rightarrow> (jstr \<Rightarrow> jstr \<Rightarrow> byte list) \<Rightarrow> (jstr option \<Rightarrow> bool) option \<Rightarrow> twilio \<Rightarrow> tw_event \<Rightarrow> twilio" where
  "tw_next opts hmac screen s e = fst (tw_step opts hmac screen s e)"

interpretation tw: event_machine "tw_next opts hmac screen" tw_ok for opts hmac screen
  by unfold_locales (use tw_step_good in \<open>auto simp: tw_next_def good_def\<close>)

lemma tw_run_state: "fst (tw_run opts hmac screen s es) = foldl (tw_next opts hmac screen) s es"
  by (induction es arbitrary: s) (simp_all add: tw_next_def case_prod_beta Let_def)

lemma new_twilio_ok: "tw_ok (new_twilio t)"
  by (simp add: tw_ok_def new_twilio_def marks_ok_def blank_leg_def)

lemma tw_run_good:
  "tw_ok s \<Longrightarrow> good s (mset (concat (map requested es))) (mset (concat (map mark_requested es))) (tw_run opts hmac screen s es)"
proof (induction es arbitrary: s)
  case Nil
  then show ?case by (auto intro: good_ret)
next
  case (Cons e es)
  obtain s1 f1 where e: "tw_step opts hmac screen s e = (s1, f1)" by (cases "tw_step opts hmac screen s e")
  have g1: "good s (mset (requested e)) (mset (mark_requested e)) (s1, f1)"
    using tw_step_good [OF Cons.prems, of e opts hmac screen] e by simp
  obtain s2 f2 where r: "tw_run opts hmac screen s1 es = (s2, f2)" by (cases "tw_run opts hmac screen s1 es")
  have "good s1 (mset (concat (map requested es))) (mset (concat (map mark_requested es))) (s2, f2)"
    using Cons.IH [OF goodE [OF g1]] r by metis
  then show ?case using good_seq [OF g1] e r by fastforce
qed

section \<open>Switching calls\<close>

datatype switch_op = Sw_hold | Sw_resume | Sw_swap

fun switch_cmd :: "switch_op \<Rightarrow> tw_cmd" where
  "switch_cmd Sw_hold = Cmd_hold"
| "switch_cmd Sw_resume = Cmd_resume"
| "switch_cmd Sw_swap = Cmd_swap"

definition tw_switch :: "twilio_options \<Rightarrow> int \<Rightarrow> nat \<Rightarrow> twilio \<Rightarrow> switch_op \<Rightarrow> twilio" where
  "tw_switch opts now rid s op = fst (tw_command opts now rid (switch_cmd op) s)"

definition line_legs :: "twilio \<Rightarrow> nat set" where
  "line_legs s = snd ` set (legs s)"

definition held_set :: "twilio \<Rightarrow> nat set" where
  "held_set s = set (held_legs s)"

lemma dropMarks_fields:
  "legs (fst (dropMarks i s)) = legs s" "held (leg (fst (dropMarks i s)) j) = held (leg s j)"
  "leg_call (leg (fst (dropMarks i s)) j) = leg_call (leg s j)"
  by (simp_all add: dropMarks_def)

lemma tw_switch_lines:
  assumes ok: "tw_ok s"
  shows "set (legs (tw_switch opts now rid s op)) = set (legs s)"
proof (cases op)
  case Sw_hold
  then show ?thesis
    using dropMarks_fields(1) setState_fields(1)
    by (auto simp: tw_switch_def tw_hold_def case_prod_beta Let_def split: option.split)
next
  case Sw_resume
  then show ?thesis
    using setState_fields(1) by (simp add: tw_switch_def tw_resume_def case_prod_beta Let_def)
next
  case Sw_swap
  show ?thesis
  proof (cases "tw_active s = None \<or> held_legs s = []")
    case True
    then show ?thesis using Sw_swap by (auto simp: tw_switch_def tw_swap_def split: option.split)
  next
    case False
    then obtain a where a: "tw_active s = Some a" "held_legs s \<noteq> []" by auto
    let ?h = "last (held_legs s)" and ?s1 = "fst (dropMarks a s)"
    let ?s2 = "set_leg ?h (\<lambda>l. l\<lparr>held := False\<rparr>) (set_leg a (\<lambda>l. l\<lparr>held := True\<rparr>) ?s1)"
    let ?k = "lc_id (leg_call (leg ?s2 ?h))"
    have g1: "tw_ok ?s1" using dropMarks_good [OF ok, of a] by (simp add: good_def)
    have ok2: "tw_ok ?s2" by (rule set_leg_quiet [OF set_leg_quiet(1) [OF g1]]; simp)
    have l2: "legs ?s2 = legs s" by (simp add: dropMarks_fields)
    have "(?k, ?h) \<in> set (legs ?s2)"
      using held_leg(1) [OF a(2)] leg_entryD(2) [OF ok2] l2 by force
    then have "set (jm_set ?k ?h (jm_delete ?k (legs ?s2))) = set (legs ?s2)"
      by (rule move_last_set [OF ok2])
    then show ?thesis
      using Sw_swap a l2
      by (simp add: tw_switch_def tw_swap_def case_prod_beta Let_def setState_fields(1))
  qed
qed

interpretation switching: call_switch tw_active held_set line_legs "tw_switch opts now rid" tw_ok for opts now rid
proof
  fix s op assume ok: "tw_ok s"
  show "tw_ok (tw_switch opts now rid s op)"
    using tw_command_good [OF ok, of rid opts now "switch_cmd op"] by (simp add: good_def tw_switch_def)
  show "line_legs (tw_switch opts now rid s op) = line_legs s"
    using tw_switch_lines [OF ok] by (simp add: line_legs_def)
next
  fix s c assume "tw_ok s" "tw_active s = Some c"
  then show "c \<in> line_legs s - held_set s"
    using active_leg by (fastforce simp: line_legs_def held_set_def held_legs_def)
qed

section \<open>Strangers\<close>

text \<open>
  What the outside may only reach with the stream token or a signature: the table of sockets
  attached to legs, the line's audio and its incoming calls. \<open>calm s x\<close>: an operation does not
  touch them.
\<close>

fun guarded :: "tw_effect \<Rightarrow> bool" where
  "guarded (Tw_audio pcm) = True"
| "guarded (Tw_emit (Msg_incoming c)) = True"
| "guarded _ = False"

definition calm :: "twilio \<Rightarrow> twilio \<times> tw_effect list \<Rightarrow> bool" where
  "calm s x \<longleftrightarrow> streamToken (fst x) = streamToken s \<and> socket_leg (fst x) = socket_leg s
     \<and> (\<forall>f\<in>set (snd x). \<not> guarded f)"

lemma calm_ret [simp]: "calm s (s, f) \<longleftrightarrow> (\<forall>x\<in>set f. \<not> guarded x)"
  by (simp add: calm_def)

lemma calm_seq: "calm s (s1, f1) \<Longrightarrow> calm s1 (s2, f2) \<Longrightarrow> calm s (s2, f1 @ f2)"
  by (auto simp: calm_def)

lemma calm_set_leg [simp]: "calm (set_leg i f s) x = calm s x"
  by (simp add: calm_def)

lemma calm_close: "x \<in> set (close_ws w) \<Longrightarrow> \<not> guarded x"
  by (auto simp: close_ws_def split: option.splits)

lemmas calm_defs = calm_def reject_def setState_def tw_api_def waitStream_def dropMarks_def redirect_def
  listenerEnded_def set_listener_def Let_def

lemma calm_ops:
  "calm s (tw_api m p form task s)" "calm s (waitStream i ms w s)" "calm s (dropMarks i s)"
  "calm s (setState now i st s)" "calm s (redirect opts i twiml task s)" "calm s (listenerEnded i r s)"
  "calm s (merge_joined i s)" "calm s (wait_ends v b s)" "calm s (tw_ended i r s)"
  by (auto simp: calm_defs merge_joined_def wait_ends_def wait_effect_def tw_ended_def dest: calm_close
      split: option.splits tw_wait.splits)

lemma calm_merge_next: "calm s (merge_next opts rid ls twiml s)"
  by (cases ls) (auto simp: calm_ops)

lemma calm_swap: "calm s (tw_swap now rid s)"
  by (auto simp: calm_defs tw_swap_def split: option.splits)

lemma calm_command: "calm s (tw_command opts now rid c s)"
proof (cases c)
  case (Cmd_merge hex)
  then show ?thesis using calm_merge_next by (auto simp: tw_merge_def reject_def)
next
  case Cmd_swap
  then show ?thesis by (simp add: calm_swap)
qed (auto simp: tw_dial_def tw_answer_def tw_hangup_def tw_dtmf_def tw_hold_def tw_resume_def calm_defs
      split: option.splits)

lemma calm_task: "calm s (task_goes_on opts now task r s)"
proof (cases "(opts, now, task, r, s)" rule: task_goes_on.cases)
  case (9 opts' now' rid rest twiml i payload s')
  obtain s1 f1 where m: "merge_joined i s = (s1, f1)" by (cases "merge_joined i s")
  obtain s2 f2 where n: "merge_next opts rid rest twiml s1 = (s2, f2)" by (cases "merge_next opts rid rest twiml s1")
  show ?thesis
    using 9 m n calm_seq [of s s1 f1 s2 f2] calm_ops(7) [of s i] calm_merge_next [of s1 opts rid rest twiml] by simp
qed (auto simp: calm_defs newLeg_def dest: calm_close split: option.splits)

lemma calm_waits: "calm s (waits_end ws s)"
proof (induction ws arbitrary: s)
  case (Cons w ws)
  obtain s1 f1 where w: "wait_ends w True s = (s1, f1)" by (cases "wait_ends w True s")
  obtain s2 f2 where r: "waits_end ws s1 = (s2, f2)" by (cases "waits_end ws s1")
  show ?case using calm_seq [of s s1 f1 s2 f2] calm_ops(8) [of s w True] Cons [of s1] w r by simp
qed simp

lemma calm_listeners: "calm s (listeners_end ls s)"
proof (induction ls arbitrary: s)
  case (Cons w ws)
  obtain s1 f1 where w: "listenerEnded w (js ''remote'') s = (s1, f1)" by (cases "listenerEnded w (js ''remote'') s")
  obtain s2 f2 where r: "listeners_end ws s1 = (s2, f2)" by (cases "listeners_end ws s1")
  show ?case using calm_seq [of s s1 f1 s2 f2] calm_ops(6) [of s w "js ''remote''"] Cons [of s1] w r by simp
qed simp

fun stranger :: "twilio_options \<Rightarrow> (jstr \<Rightarrow> jstr \<Rightarrow> byte list) \<Rightarrow> jstr \<Rightarrow> tw_event \<Rightarrow> bool" where
  "stranger opts hmac token (Ev_http now rid method path query ps sg) = (\<not> signed hmac opts path query ps sg)"
| "stranger opts hmac token (Ev_ws_message now ws msg) = (start_token msg \<noteq> token)"
| "stranger opts hmac token _ = True"

lemma stranger_start:
  "start_token msg \<noteq> streamToken s \<Longrightarrow> stream_start opts now ws msg s
     = (s\<lparr>socket_leg := jm_delete ws (socket_leg s)\<rparr>,
        [Tw_log (js ''[otacon-voice] Twilio line '' @ line_id opts @ js '': closing a stream it didn't ask for''), Tw_close ws])"
  by (auto simp: stream_start_def Let_def split: option.splits)

lemma stranger_step:
  assumes "stranger opts hmac (streamToken s) e" "socket_leg s = []"
  shows "calm s (tw_step opts hmac screen s e)"
proof (cases e)
  case (Ev_cmd now rid c)
  then show ?thesis using calm_command by (auto simp: tw_cmd_def reject_def)
next
  case (Ev_api now t r)
  then show ?thesis using calm_task [of "s\<lparr>tasks := jm_delete t (tasks s)\<rparr>"]
    by (auto simp: tw_api_result_def calm_def split: option.splits)
next
  case (Ev_http now rid mthd pth query ps sg)
  then show ?thesis using assms by (simp add: handleHttp_def)
next
  case (Ev_ws_message now ws msg)
  then show ?thesis using assms
    by (auto simp: stream_message_def stream_media_def stream_mark_def stream_stop_def Let_def stranger_start jm_get_def
        jm_delete_def calm_def)
next
  case (Ev_ws_close ws)
  then show ?thesis using assms(2) calm_listeners by (simp add: stream_closed_def jm_get_def)
next
  case Ev_stop
  then show ?thesis by (auto simp: calm_def tw_stop_def dest: calm_close)
next
  case (Ev_wait_timeout w)
  then show ?thesis using calm_ops(8) by simp
qed (auto simp: calm_defs tw_start_def tw_listen_def listener_send_def listener_hangup_def tw_sendAudio_def tw_mark_def tw_clear_def
      split: option.splits prod.splits)

lemma stranger_run:
  "list_all (stranger opts hmac (streamToken s)) es \<Longrightarrow> socket_leg s = [] \<Longrightarrow> calm s (tw_run opts hmac screen s es)"
proof (induction es arbitrary: s)
  case (Cons e es)
  obtain s1 f1 where e: "tw_step opts hmac screen s e = (s1, f1)" by (cases "tw_step opts hmac screen s e")
  have c: "calm s (s1, f1)" using stranger_step [of opts hmac s e screen] Cons.prems e by simp
  obtain s2 f2 where r: "tw_run opts hmac screen s1 es = (s2, f2)" by (cases "tw_run opts hmac screen s1 es")
  have "calm s1 (s2, f2)" using Cons.IH [of s1] Cons.prems c r by (auto simp: calm_def)
  then show ?case using calm_seq [OF c] e r by simp
qed simp

lemma tw_ok_reported:
  assumes "tw_ok s"
  shows "fst ` set (legs s) \<subseteq> fst ` set (calls s)
   \<and> list_all (\<lambda>(k, c). lc_id c = k \<and> (k \<in> fst ` set (legs s) \<or> conference c)) (calls s)
   \<and> list_all (\<lambda>(k, i). lc_id (leg_call (leg s i)) = k \<and> lc_state (leg_call (leg s i)) \<noteq> Ended) (legs s)"
proof (intro conjI)
  show "fst ` set (legs s) \<subseteq> fst ` set (calls s)" using assms by (simp add: tw_ok_def)
  have "\<forall>p\<in>set (calls s). call_entry_ok s p" using assms by (simp add: tw_ok_def)
  then show "list_all (\<lambda>(k, c). lc_id c = k \<and> (k \<in> fst ` set (legs s) \<or> conference c)) (calls s)"
    unfolding list_all_iff case_prod_beta call_entry_ok_def by blast
  have "\<forall>p\<in>set (legs s). leg_entry_ok s p" using assms by (simp add: tw_ok_def)
  then show "list_all (\<lambda>(k, i). lc_id (leg_call (leg s i)) = k \<and> lc_state (leg_call (leg s i)) \<noteq> Ended) (legs s)"
    unfolding list_all_iff case_prod_beta leg_entry_ok_def by blast
qed

section \<open>Properties\<close>

text \<open>
  C35: Every promise of the line is kept once: over any run of events from a new line, the
  commands (dial, answer, hang up, key presses, hold, resume, swap, merge, listening) settled,
  together with those still waiting for Twilio, are exactly those requested; and so are the
  playback marks reached or dropped, with those still in the stream. None is lost, none settled twice.
\<close>

theorem twilio_promises_settle_once:
  "settled (snd (tw_run opts hmac screen (new_twilio token) es)) + pend (fst (tw_run opts hmac screen (new_twilio token) es))
     = mset (concat (map requested es))
   \<and> marks_done (snd (tw_run opts hmac screen (new_twilio token) es)) + marks_pend (fst (tw_run opts hmac screen (new_twilio token) es))
     = mset (concat (map mark_requested es))"
proof -
  have "pend (new_twilio token) = {#}" "marks_pend (new_twilio token) = {#}"
    by (simp_all add: new_twilio_def pend_def marks_pend_def)
  then show ?thesis
    using tw_run_good [OF new_twilio_ok, where es = es and opts = opts and hmac = hmac and screen = screen] by (simp add: good_def)
qed

text \<open>
  What the line reports is what it has: over any run of events every leg is a reported,
  unfinished call under its own SID, and every reported call is a leg of the line, except one that
  ended while it was being merged (a conference).
\<close>

lemma twilio_calls_are_legs:
  "fst ` set (legs (fst (tw_run opts hmac screen (new_twilio token) es)))
      \<subseteq> fst ` set (calls (fst (tw_run opts hmac screen (new_twilio token) es)))
   \<and> list_all (\<lambda>(k, c). lc_id c = k \<and> (k \<in> fst ` set (legs (fst (tw_run opts hmac screen (new_twilio token) es))) \<or> conference c))
       (calls (fst (tw_run opts hmac screen (new_twilio token) es)))
   \<and> list_all (\<lambda>(k, i). lc_id (leg_call (leg (fst (tw_run opts hmac screen (new_twilio token) es)) i)) = k
         \<and> lc_state (leg_call (leg (fst (tw_run opts hmac screen (new_twilio token) es)) i)) \<noteq> Ended)
       (legs (fst (tw_run opts hmac screen (new_twilio token) es)))"
  using tw.run_inv [OF new_twilio_ok, where es = es and opts = opts and hmac = hmac and screen = screen]
  unfolding tw_run_state by (rule tw_ok_reported)

definition demo_twilio_options :: twilio_options where
  "demo_twilio_options = \<lparr>line_id = js ''t'', accountSid = js ''AC'', authToken = js ''k'', fromNumber = js ''+1'',
     publicUrl = js ''https://h'', ringTimeoutSeconds = 30\<rparr>"

text \<open>
  Hold, resume and swap only move calls: after any sequence of them the line has the calls
  it had, and the call with the audio is one of them and isn't held.
\<close>

lemma twilio_switching_keeps_calls:
  assumes "tw_ok s"
  shows "line_legs (foldl (tw_switch opts now rid) s ops) = line_legs s
    \<and> (\<forall>i. tw_active (foldl (tw_switch opts now rid) s ops) = Some i \<longrightarrow>
         i \<in> line_legs s \<and> i \<notin> held_set (foldl (tw_switch opts now rid) s ops))"
  using switching.switches_keep_lines [OF assms] switching.active_is_a_line [OF assms] by blast

lemma twilio_switching_keeps_calls_witness:
  "line_legs (foldl (tw_switch demo_twilio_options 5 1)
     (fst (newLeg \<lparr>lc_id = js ''CA1'', lc_number = None, direction = Outgoing_call, lc_state = Active,
        conference = False, startedAt = 0, answeredAt = None\<rparr> (new_twilio []))) [Sw_hold, Sw_resume]) = {0}"
proof -
  let ?c = "\<lparr>lc_id = js ''CA1'', lc_number = None, direction = Outgoing_call, lc_state = Active,
        conference = False, startedAt = 0, answeredAt = None\<rparr>"
  have "good (new_twilio []) {#} {#} (fst (newLeg ?c (new_twilio [])), [])"
    by (rule newLeg_good [OF new_twilio_ok]) simp_all
  then have ok: "tw_ok (fst (newLeg ?c (new_twilio [])))" by (rule goodE)
  have "line_legs (fst (newLeg ?c (new_twilio []))) = {0}"
    by (simp add: line_legs_def newLeg_def Let_def new_twilio_def jm_set_def)
  then show ?thesis using twilio_switching_keeps_calls [OF ok, of demo_twilio_options 5 1 "[Sw_hold, Sw_resume]"] by simp
qed

text \<open>
  C36: Strangers reach nothing: as long as no webhook carries a valid signature and no stream
  message the line's token, no socket is ever attached to a call, the line emits no audio and
  announces no incoming call, whatever else happens.
\<close>

theorem twilio_refuses_strangers:
  assumes "list_all (stranger opts hmac token) es"
  shows "socket_leg (fst (tw_run opts hmac screen (new_twilio token) es)) = []
    \<and> filter guarded (snd (tw_run opts hmac screen (new_twilio token) es)) = []"
proof -
  have "calm (new_twilio token) (tw_run opts hmac screen (new_twilio token) es)"
    by (rule stranger_run) (use assms in \<open>simp_all add: new_twilio_def\<close>)
  then show ?thesis by (auto simp: calm_def new_twilio_def filter_empty_conv)
qed

theorem twilio_refuses_strangers_witness:
  "socket_leg (fst (tw_run demo_twilio_options (\<lambda>k d. [7]) None (new_twilio (js ''tok''))
     [Ev_start, Ev_api 1 0 (Inr (JObj [])), Ev_http 2 9 (js ''POST'') (js ''answer'') [] [] None,
      Ev_ws_message 3 4 (JObj [(js ''event'', JStr (js ''start''))])])) = []"
proof -
  have "list_all (stranger demo_twilio_options (\<lambda>k d. [7]) (js ''tok''))
     [Ev_start, Ev_api 1 0 (Inr (JObj [])), Ev_http 2 9 (js ''POST'') (js ''answer'') [] [] None,
      Ev_ws_message 3 4 (JObj [(js ''event'', JStr (js ''start''))])]"
    by (simp add: signed_def start_token_def msg_str_def sub_def jm_get_def js_def)
  then show ?thesis by (simp only: twilio_refuses_strangers)
qed

lemma dtmf_char_lower: "dtmf_char c \<Longrightarrow> (if is_upper c then c + 32 else c) \<in> {35, 42, 119} \<union> {48..57}"
  unfolding dtmf_char_def is_digit_def is_upper_def by force

lemma xml_plain: "list_all (\<lambda>c. c \<in> {35, 42, 119} \<union> {48..57}) s \<Longrightarrow> xml s = s"
proof (induction s)
  case (Cons c s)
  then have "c \<notin> {60, 62, 38, 34, 39}" by auto
  then show ?case using Cons by (simp add: xml_def)
qed (simp add: xml_def)

text \<open>
  Keys are checked before a call is touched: digits outside \<open>0-9 * # w W\<close> are refused with
  the line unchanged; otherwise the request that presses them carries only those characters, in
  lower case, so no digits can change the TwiML around them.
\<close>

lemma twilio_dtmf_checked:
  "tw_dtmf opts rid digits s = (s, reject rid ''bad_digits'' (js ''can't press \"'' @ digits @ js ''\"''))
   \<or> digits \<noteq> [] \<and> list_all (\<lambda>c. c \<in> {35, 42, 119} \<union> {48..57}) (to_lower digits) \<and> xml (to_lower digits) = to_lower digits"
proof (cases "dtmf_ok digits")
  case True
  then have c: "list_all (\<lambda>c. c \<in> {35, 42, 119} \<union> {48..57}) (to_lower digits)"
    using dtmf_char_lower unfolding dtmf_ok_def to_lower_def list_all_iff set_map by blast
  then have "xml (to_lower digits) = to_lower digits"
    by (rule xml_plain)
  then show ?thesis using True c by (simp add: dtmf_ok_def)
next
  case False
  then show ?thesis by (simp add: tw_dtmf_def)
qed

text \<open>
  A merge can bring back a call that is over: when a leg ends while its redirect into the
  conference is awaited, the line drops the call and reports its end, and the redirect's answer
  then puts it back among the line's calls, active, though the line has no such leg.
\<close>

lemma merge_revives_ended_call:
  assumes "tw_ok s" and "(k, i) \<in> set (legs s)"
  shows "\<exists>s1 f1 s2 c. tw_ended i r s = (s1, f1) \<and> merge_joined i s1 = (s2, [Tw_emit (Msg_state c)])
    \<and> jm_get (calls s1) k = None \<and> jm_get (calls s2) k = Some c \<and> lc_state c = Active
    \<and> k \<notin> fst ` set (legs s2)"
proof -
  have l: "lc_id (leg_call (leg s i)) = k" "lc_state (leg_call (leg s i)) \<noteq> Ended"
    using leg_entryD [OF assms] by auto
  obtain s1 f1 where e: "tw_ended i r s = (s1, f1)" by (cases "tw_ended i r s")
  then have s1: "calls s1 = jm_delete k (calls s)" "legs s1 = jm_delete k (legs s)" "lc_id (leg_call (leg s1 i)) = k"
    using l by (auto simp: tw_ended_def Let_def dropMarks_def)
  let ?c = "(leg_call (leg s1 i))\<lparr>conference := True, lc_state := Active\<rparr>"
  let ?s2 = "(set_leg i (\<lambda>l. l\<lparr>held := False, leg_call := ?c\<rparr>) s1)\<lparr>calls := jm_set (lc_id ?c) ?c (calls s1)\<rparr>"
  have "merge_joined i s1 = (?s2, [Tw_emit (Msg_state ?c)])" by (simp add: merge_joined_def Let_def)
  moreover have "jm_get (calls s1) k = None" using s1 by simp
  moreover have "jm_get (calls ?s2) k = Some ?c" using s1 by simp
  moreover have "k \<notin> fst ` set (legs ?s2)" using s1 by (simp add: keys_jm_delete)
  moreover have "lc_state ?c = Active" by simp
  ultimately show ?thesis using e by blast
qed

lemma merge_revives_ended_call_witness:
  "\<exists>s. tw_ok s \<and> (js ''CA1'', 0) \<in> set (legs s) \<and>
     (\<exists>s1 f1 s2 c. tw_ended 0 (js ''remote'') s = (s1, f1) \<and> merge_joined 0 s1 = (s2, [Tw_emit (Msg_state c)])
      \<and> jm_get (calls s2) (js ''CA1'') = Some c \<and> lc_state c = Active)"
proof -
  let ?c = "\<lparr>lc_id = js ''CA1'', lc_number = None, direction = Outgoing_call, lc_state = Active,
        conference = False, startedAt = 0, answeredAt = None\<rparr>"
  let ?s = "fst (newLeg ?c (new_twilio []))"
  have "good (new_twilio []) {#} {#} (?s, [])" by (rule newLeg_good [OF new_twilio_ok]) simp_all
  then have ok: "tw_ok ?s" by (rule goodE)
  have m: "(js ''CA1'', 0) \<in> set (legs ?s)" by (simp add: newLeg_def Let_def new_twilio_def jm_set_def)
  show ?thesis using merge_revives_ended_call [OF ok m, of "js ''remote''"] ok m by blast
qed

text \<open>
  Stopping a line doesn't cancel the check of its account: if the check is under way when
  the line is stopped, its answer opens the stopped line again.
\<close>

lemma stopped_line_opens_again:
  "tw_open (fst (tw_run opts hmac screen (new_twilio token) [Ev_start, Ev_stop, Ev_api now 0 (Inr payload)]))
   \<and> tw_stopped (fst (tw_run opts hmac screen (new_twilio token) [Ev_start, Ev_stop, Ev_api now 0 (Inr payload)]))"
  by (simp add: tw_start_def tw_stop_def tw_api_def tw_api_result_def new_twilio_def jm_get_def)

end
