(* ===== verification/Steps.thy ===== *)
theory Steps
  imports Prelude
begin

text \<open>
  Handlers of an event-driven component: from a state to the next state and the effects it has
  on the outside, in order. \<open>steps\<close> runs statements one after the other, \<open>upd\<close> assigns, \<open>emit\<close>
  has an effect, \<open>whenever\<close> is an \<open>if\<close> without \<open>else\<close>, and \<open>reads\<close> lets what follows look at the state
  at that point. \<open>keeps\<close> says a handler preserves an invariant and has only effects of a kind;
  its rules prove a handler statement by statement.
\<close>

type_synonym ('s, 'e) handler = "'s \<Rightarrow> 's \<times> 'e list"

definition skip :: "('s, 'e) handler" where
  "skip s = (s, [])"

definition upd :: "('s \<Rightarrow> 's) \<Rightarrow> ('s, 'e) handler" where
  "upd f s = (f s, [])"

definition emit :: "'e \<Rightarrow> ('s, 'e) handler" where
  "emit e s = (s, [e])"

definition emits :: "'e list \<Rightarrow> ('s, 'e) handler" where
  "emits es s = (s, es)"

definition reads :: "('s \<Rightarrow> ('s, 'e) handler) \<Rightarrow> ('s, 'e) handler" where
  "reads f s = f s s"

definition whenever :: "bool \<Rightarrow> ('s, 'e) handler \<Rightarrow> ('s, 'e) handler" where
  "whenever b f = (if b then f else skip)"

fun steps :: "('s, 'e) handler list \<Rightarrow> ('s, 'e) handler" where
  "steps [] s = (s, [])"
| "steps (f # fs) s = (let (s1, e1) = f s; (s2, e2) = steps fs s1 in (s2, e1 @ e2))"

named_theorems step_simps \<open>evaluation of handlers\<close>

lemmas [step_simps] = skip_def upd_def emit_def emits_def reads_def whenever_def

section \<open>What a handler keeps\<close>

definition keeps :: "('s \<Rightarrow> bool) \<Rightarrow> ('e \<Rightarrow> bool) \<Rightarrow> ('s, 'e) handler \<Rightarrow> bool" where
  "keeps P Q f \<longleftrightarrow> (\<forall>s. P s \<longrightarrow> P (fst (f s)) \<and> (\<forall>e\<in>set (snd (f s)). Q e))"

named_theorems keeps_intros \<open>rules that prove keeps statement by statement\<close>

lemma keepsD: "keeps P Q f \<Longrightarrow> P s \<Longrightarrow> P (fst (f s))"
  "keeps P Q f \<Longrightarrow> P s \<Longrightarrow> e \<in> set (snd (f s)) \<Longrightarrow> Q e"
  by (auto simp: keeps_def)

lemma keeps_skip [keeps_intros]: "keeps P Q skip"
  by (simp add: keeps_def skip_def)

lemma keeps_upd [keeps_intros]: "(\<And>s. P s \<Longrightarrow> P (f s)) \<Longrightarrow> keeps P Q (upd f)"
  by (simp add: keeps_def upd_def)

lemma keeps_emit [keeps_intros]: "Q e \<Longrightarrow> keeps P Q (emit e)"
  by (simp add: keeps_def emit_def)

lemma keeps_emits [keeps_intros]: "list_all Q es \<Longrightarrow> keeps P Q (emits es)"
  by (simp add: keeps_def emits_def list_all_iff)

lemma keeps_reads [keeps_intros]: "(\<And>s. P s \<Longrightarrow> keeps P Q (f s)) \<Longrightarrow> keeps P Q (reads f)"
  by (auto simp: keeps_def reads_def)

lemma keeps_whenever [keeps_intros]: "(b \<Longrightarrow> keeps P Q f) \<Longrightarrow> keeps P Q (whenever b f)"
  by (simp add: whenever_def keeps_skip)

lemma keeps_if [keeps_intros]: "(b \<Longrightarrow> keeps P Q f) \<Longrightarrow> (\<not> b \<Longrightarrow> keeps P Q g) \<Longrightarrow> keeps P Q (if b then f else g)"
  by simp

lemma keeps_steps_Nil [keeps_intros]: "keeps P Q (steps [])"
  by (simp add: keeps_def)

lemma keeps_steps_Cons [keeps_intros]:
  "keeps P Q f \<Longrightarrow> keeps P Q (steps fs) \<Longrightarrow> keeps P Q (steps (f # fs))"
  by (fastforce simp: keeps_def case_prod_beta Let_def)

lemma keeps_steps_map [keeps_intros]:
  "(\<And>x. x \<in> set xs \<Longrightarrow> keeps P Q (f x)) \<Longrightarrow> keeps P Q (steps (map f xs))"
  by (induction xs) (auto intro: keeps_intros)

lemma keeps_mono: "keeps P Q f \<Longrightarrow> (\<And>e. Q e \<Longrightarrow> Q' e) \<Longrightarrow> keeps P Q' f"
  by (auto simp: keeps_def)

section \<open>Running a list of events\<close>

fun run_events :: "('ev \<Rightarrow> ('s, 'e) handler) \<Rightarrow> 'ev list \<Rightarrow> ('s, 'e) handler" where
  "run_events h [] s = (s, [])"
| "run_events h (ev # evs) s = (let (s1, e1) = h ev s; (s2, e2) = run_events h evs s1 in (s2, e1 @ e2))"

lemma keeps_run: "(\<And>ev. ev \<in> set evs \<Longrightarrow> keeps P Q (h ev)) \<Longrightarrow> keeps P Q (run_events h evs)"
proof (induction evs)
  case Nil
  then show ?case by (simp add: keeps_def)
next
  case (Cons ev evs)
  have "keeps P Q (h ev)" "keeps P Q (run_events h evs)" using Cons by auto
  then show ?case by (fastforce simp: keeps_def case_prod_beta Let_def)
qed

lemma run_events_append:
  "run_events h (xs @ ys) s =
     (let (s1, e1) = run_events h xs s; (s2, e2) = run_events h ys s1 in (s2, e1 @ e2))"
  by (induction xs arbitrary: s) (simp_all add: case_prod_beta Let_def)

end
