(* ===== verification/Mission.thy ===== *)
theory Mission
  imports Line Mix Navigator Steps
begin

text \<open>
  \<open>src/openclaw-voice/src/call.ts\<close>: \<open>CallMission\<close>, one call. Each asynchronous method is cut at
  its awaits: what it goes on with is a task of the state, started with the effect that asks for
  the awaited result (\<open>E_cmd\<close>, \<open>E_wait\<close>, \<open>E_mark\<close>, ...) under a number that is never reused; the
  event \<open>Ev_done\<close> brings the result, and \<open>mission_step\<close> is the whole machine. The phone-menu
  navigator (theory \<open>Navigator\<close>) is part of the state. The line, the realtime session, the agent,
  the resamplers and the clock are outside: effects go to them, events come from them. A resampler
  is a function of the bytes it has processed since it was made and the next chunk.
\<close>

section \<open>Data\<close>

datatype outcome = Completed | No_answer | Failed | Hold_cap | Max_duration | Handed_off | Ended_by_agent | Mission_error

datatype party_role = Primary | Contact

record party =
  party_name :: jstr
  party_number :: jstr
  party_role :: party_role

record mission_line =
  ln_n :: nat
  ln_callId :: jstr
  ln_party :: party
  ln_state :: call_state

datatype log_kind = Say | Hear | Event

record log_entry =
  le_t :: int
  le_line :: "nat option"
  le_kind :: log_kind
  le_who :: jstr
  le_text :: jstr

record contact =
  ct_id :: jstr
  ct_name :: jstr
  ct_number :: jstr
  ct_description :: "jstr option"

record mission_report =
  rp_missionId :: jstr
  rp_outbound :: bool
  rp_party :: party
  rp_brief :: "jstr option"
  rp_outcome :: outcome
  rp_summary :: "jstr option"
  rp_log :: "log_entry list"
  rp_startedAt :: int
  rp_endedAt :: int
  rp_requesterSessionKey :: "jstr option"
  rp_sessionKey :: jstr
  rp_agentId :: jstr
  rp_line :: "(jstr \<times> jstr option) option"

record mission_options =
  mo_outbound :: bool
  mo_party :: party
  mo_inboundCallId :: "jstr option"
  mo_brief :: "jstr option"
  mo_contacts :: "contact list"
  mo_agentId :: jstr
  mo_requesterSessionKey :: "jstr option"
  mo_line :: "(jstr \<times> jstr option) option"
  mo_menu :: bool
  mo_holdLimitSeconds :: "int option"
  mo_hasDetector :: bool
  mo_maxCallSeconds :: int
  mo_ringTimeoutSeconds :: int
  mo_holdCapSeconds :: int
  mo_checkEverySeconds :: int
  mo_threshold :: real
  mo_inboundGreeting :: "jstr option"
  mo_toolPolicy :: jstr
  mo_consultToolName :: jstr
  mo_providerId :: jstr
  mo_handlesAgentConsult :: bool
  mo_supportsToolCalls :: bool
  mo_takesNotes :: bool
  mo_continues :: bool
  mo_upResample :: "byte list \<Rightarrow> byte list \<Rightarrow> byte list"
  mo_downResample :: "byte list \<Rightarrow> byte list \<Rightarrow> byte list"

definition MODEL_RATE :: nat where "MODEL_RATE = 24000"
definition MUTE_AFTER_SECONDS :: nat where "MUTE_AFTER_SECONDS = 10"
definition PREROLL_MS :: nat where "PREROLL_MS = 2000"
definition LAST_WORDS_MS :: int where "LAST_WORDS_MS = 10000"
definition SPEECH_PEAK :: int where "SPEECH_PEAK = 64"
definition LIVE_TARGET_LEAD_MS :: real where "LIVE_TARGET_LEAD_MS = 250"

section \<open>Continuations, effects, state\<close>

text \<open>Who gets the result of a line action: the voice model (a tool call) or the agent (\<open>otacon_line\<close>).\<close>

datatype asker = Ask_tool jstr jstr | Ask_action nat jstr

datatype task =
    T_dialed
  | T_dial_wait jstr
  | T_no_answer_hangup
  | T_answered
  | T_context
  | T_connect
  | T_finish_hangup outcome bool "jstr list"
  | T_last_words outcome
  | T_finish_close outcome
  | T_resume_after jstr
  | T_keys asker jstr
  | T_end_mark
  | T_action_mark
  | T_consult_working jstr json
  | T_consult jstr "jstr option"
  | T_party_hold asker contact jstr nat
  | T_party_dial asker contact jstr nat
  | T_party_wait asker contact nat nat jstr
  | T_party_hangup asker contact nat nat
  | T_party_resume asker contact nat
  | T_switch asker nat
  | T_drop asker nat
  | T_drop_resume asker nat
  | T_swap asker nat nat
  | T_merge_mark nat nat
  | T_merge_cmd nat nat
  | T_merge_close nat nat
  | T_nav_press jstr

datatype after_answer = After_end | After_merge nat nat

datatype mission_timer = Tm_max | Tm_poll int int after_answer

datatype line_cmd =
    C_dial jstr
  | C_answer "jstr option"
  | C_hangup jstr
  | C_dtmf jstr
  | C_hold
  | C_resume
  | C_swap
  | C_merge

datatype mission_effect =
    E_cmd nat line_cmd
  | E_wait nat jstr int
  | E_mark nat
  | E_mark_or nat int
  | E_context nat
  | E_session_create "jstr option" "jstr option"
  | E_session_connect nat
  | E_session_close nat
  | E_heard_or nat int
  | E_consult nat json "(bool \<times> jstr) list"
  | E_submit_working nat jstr json
  | E_model_audio "byte list"
  | E_line_audio "byte list"
  | E_line_clear
  | E_say jstr
  | E_silent_note jstr
  | E_tool_result jstr json bool
  | E_action_result nat json
  | E_listener_send jstr "byte list"
  | E_listener_hangup jstr
  | E_transcriber_open
  | E_transcriber_send "byte list"
  | E_transcriber_close
  | E_detector "byte list"
  | E_detector_reset
  | E_decide nav_view
  | E_timer nat int
  | E_nav_interval int
  | E_log jstr
  | E_report mission_report

record playing =
  pl_item :: jstr
  pl_firstAt :: int
  pl_sentMs :: real

record mission =
  m_id :: jstr
  m_startedAt :: int
  m_sessionKey :: jstr
  m_lines :: "mission_line list"
  m_active :: "nat option"
  m_session :: bool
  m_ended :: bool
  m_outcome :: outcome
  m_summary :: "jstr option"
  m_log :: "log_entry list"
  m_timers :: "(nat \<times> mission_timer) list"
  m_attached :: bool
  m_up :: "byte list"
  m_down :: "byte list"
  m_upNav :: "byte list"
  m_playing :: "playing option"
  m_muted :: bool
  m_quietSeconds :: nat
  m_preroll :: "byte list list"
  m_prerollBytes :: nat
  m_detached :: bool
  m_nav_on :: bool
  m_nav :: navigator
  m_transcriber :: bool
  m_answeredAt :: int
  m_notesUnavailable :: bool
  m_flushing :: bool
  m_listeners :: "(jstr \<times> jstr) list"
  m_mix :: call_mix
  m_endNotes :: "(jstr \<times> nat) list option"
  m_onHeard :: "nat option"
  m_pendingMerge :: "(nat \<times> nat) option"
  m_live :: bool
  m_speechAt :: int
  m_afterAnswer :: bool
  m_consultContext :: "jstr option"
  m_tasks :: "(nat \<times> task) list"
  m_next :: nat

definition new_mission :: "jstr \<Rightarrow> int \<Rightarrow> jstr \<Rightarrow> mission" where
  "new_mission mid now sessionKey = \<lparr>m_id = mid, m_startedAt = now, m_sessionKey = sessionKey, m_lines = [],
     m_active = None, m_session = False, m_ended = False, m_outcome = Completed, m_summary = None,
     m_log = [], m_timers = [], m_attached = False, m_up = [], m_down = [], m_upNav = [], m_playing = None,
     m_muted = False, m_quietSeconds = 0, m_preroll = [], m_prerollBytes = 0, m_detached = False,
     m_nav_on = False, m_nav = new_navigator, m_transcriber = False, m_answeredAt = 0,
     m_notesUnavailable = False, m_flushing = False, m_listeners = [], m_mix = new_mix, m_endNotes = None,
     m_onHeard = None, m_pendingMerge = None, m_live = False, m_speechAt = 0, m_afterAnswer = False,
     m_consultContext = None, m_tasks = [], m_next = 1\<rparr>"

type_synonym mh = "(mission, mission_effect) handler"

text \<open>Ask for something and go on with \<open>t\<close> when it is there.\<close>

definition await :: "(nat \<Rightarrow> mission_effect) \<Rightarrow> task \<Rightarrow> mh" where
  "await mk t = reads (\<lambda>s. steps
     [upd (\<lambda>s. s\<lparr>m_tasks := m_tasks s @ [(m_next s, t)], m_next := m_next s + 1\<rparr>), emit (mk (m_next s))])"

definition cmd :: "line_cmd \<Rightarrow> task \<Rightarrow> mh" where
  "cmd c t = await (\<lambda>i. E_cmd i c) t"

definition set_timer :: "int \<Rightarrow> mission_timer \<Rightarrow> mh" where
  "set_timer ms t = reads (\<lambda>s. steps
     [upd (\<lambda>s. s\<lparr>m_timers := m_timers s @ [(m_next s, t)], m_next := m_next s + 1\<rparr>), emit (E_timer (m_next s) ms)])"

section \<open>Small parts\<close>

definition state_text :: "call_state \<Rightarrow> jstr" where
  "state_text st = js (case st of Dialing \<Rightarrow> ''dialing'' | Alerting \<Rightarrow> ''alerting'' | Incoming \<Rightarrow> ''incoming''
     | Active \<Rightarrow> ''active'' | Held \<Rightarrow> ''held'' | Ended \<Rightarrow> ''ended'')"

definition debug :: "jstr \<Rightarrow> mh" where
  "debug msg = reads (\<lambda>s. emit (E_log (js ''[otacon-voice] '' @ m_id s @ js '' '' @ msg)))"

definition note_on :: "int \<Rightarrow> jstr \<Rightarrow> nat option \<Rightarrow> mh" where
  "note_on now text line = upd (\<lambda>s. s\<lparr>m_log := m_log s @
     [\<lparr>le_t = now - m_startedAt s, le_line = line, le_kind = Event, le_who = [], le_text = text\<rparr>]\<rparr>)"

definition log_note :: "int \<Rightarrow> jstr \<Rightarrow> mh" where
  "log_note now text = reads (\<lambda>s. note_on now text (m_active s))"

text \<open>\<open>report()\<close>; \<open>status\<close>'s lines and listeners.\<close>

definition report_of :: "mission_options \<Rightarrow> int \<Rightarrow> mission \<Rightarrow> mission_report" where
  "report_of o1 now s =
     \<lparr>rp_missionId = m_id s, rp_outbound = mo_outbound o1, rp_party = mo_party o1, rp_brief = mo_brief o1,
      rp_outcome = m_outcome s, rp_summary = m_summary s, rp_log = m_log s, rp_startedAt = m_startedAt s,
      rp_endedAt = now, rp_requesterSessionKey = mo_requesterSessionKey o1, rp_sessionKey = m_sessionKey s,
      rp_agentId = mo_agentId o1, rp_line = mo_line o1\<rparr>"

record mission_status =
  st_ended :: bool
  st_outcome :: "outcome option"
  st_lines :: "(nat \<times> jstr \<times> jstr \<times> call_state) list"
  st_activeLine :: "nat option"
  st_listening :: "jstr list"
  st_seconds :: int

definition status :: "int \<Rightarrow> mission \<Rightarrow> mission_status" where
  "status now s =
     \<lparr>st_ended = m_ended s, st_outcome = (if m_ended s then Some (m_outcome s) else None),
      st_lines = map (\<lambda>l. (ln_n l, party_name (ln_party l), party_number (ln_party l), ln_state l)) (m_lines s),
      st_activeLine = m_active s, st_listening = map snd (m_listeners s),
      st_seconds = (now - m_startedAt s + 500) div 1000\<rparr>"

definition addLine :: "line_call \<Rightarrow> party \<Rightarrow> mh" where
  "addLine c p = upd (\<lambda>s. s\<lparr>m_lines := m_lines s @
     [\<lparr>ln_n = length (m_lines s) + 1, ln_callId = lc_id c, ln_party = p, ln_state = lc_state c\<rparr>]\<rparr>)"

definition set_line_state :: "nat \<Rightarrow> call_state \<Rightarrow> mh" where
  "set_line_state n st = upd (\<lambda>s. s\<lparr>m_lines :=
     map (\<lambda>l. if ln_n l = n then l\<lparr>ln_state := st\<rparr> else l) (m_lines s)\<rparr>)"

definition live_lines :: "mission \<Rightarrow> mission_line list" where
  "live_lines s = filter (\<lambda>l. ln_state l \<noteq> Ended) (m_lines s)"

definition line_n :: "mission \<Rightarrow> nat \<Rightarrow> mission_line option" where
  "line_n s n = find (\<lambda>l. ln_n l = n) (m_lines s)"

definition live_line :: "mission \<Rightarrow> int option \<Rightarrow> mission_line option" where
  "live_line s n = (case n of None \<Rightarrow> None
     | Some k \<Rightarrow> find (\<lambda>l. int (ln_n l) = k \<and> ln_state l \<noteq> Ended) (m_lines s))"

definition line_name :: "mission \<Rightarrow> nat \<Rightarrow> jstr" where
  "line_name s n = (case line_n s n of None \<Rightarrow> [] | Some l \<Rightarrow> party_name (ln_party l))"

definition current_line :: "mission \<Rightarrow> mission_line option" where
  "current_line s = (case m_active s of None \<Rightarrow> None | Some n \<Rightarrow> line_n s n)"

definition say :: "jstr \<Rightarrow> mh" where
  "say text = reads (\<lambda>s. whenever (m_session s) (emit (E_say text)))"

definition silentNote :: "mission_options \<Rightarrow> jstr \<Rightarrow> mh" where
  "silentNote o1 text = reads (\<lambda>s.
     if m_session s \<and> mo_takesNotes o1 then emit (E_silent_note text)
     else whenever (\<not> m_notesUnavailable s) (steps
       [upd (\<lambda>s. s\<lparr>m_notesUnavailable := True\<rparr>),
        debug (js ''this realtime session takes no notes; the voice model won't see the navigator's actions'')]))"

text \<open>\<open>this.session?.sendAudio(this.up.process(pcm))\<close>\<close>

definition to_model :: "mission_options \<Rightarrow> byte list \<Rightarrow> mh" where
  "to_model o1 pcm = reads (\<lambda>s. whenever (m_session s) (steps
     [emit (E_model_audio (mo_upResample o1 (m_up s) pcm)), upd (\<lambda>s. s\<lparr>m_up := m_up s @ pcm\<rparr>)]))"

section \<open>Hold music\<close>

fun drop_preroll :: "byte list list \<Rightarrow> nat \<Rightarrow> byte list list \<times> nat" where
  "drop_preroll (c # d # cs) n =
     (if n > PREROLL_MS * 32 then drop_preroll (d # cs) (n - length c) else (c # d # cs, n))"
| "drop_preroll q n = (q, n)"

definition keepPreroll :: "byte list \<Rightarrow> mh" where
  "keepPreroll pcm = upd (\<lambda>s.
     (let (q, n) = drop_preroll (m_preroll s @ [pcm]) (m_prerollBytes s + length pcm)
      in s\<lparr>m_preroll := q, m_prerollBytes := n\<rparr>))"

definition clear_preroll :: mh where
  "clear_preroll = upd (\<lambda>s. s\<lparr>m_preroll := [], m_prerollBytes := 0\<rparr>)"

definition unmute :: "mission_options \<Rightarrow> jstr \<Rightarrow> mh" where
  "unmute o1 why = reads (\<lambda>s. whenever (m_muted s) (steps
     [upd (\<lambda>s. s\<lparr>m_muted := False\<rparr>),
      debug (why @ js '': the voice model hears the line again''),
      whenever (\<not> m_detached s) (steps
        (upd (\<lambda>s. s\<lparr>m_up := []\<rparr>) # map (to_model o1) (m_preroll s))),
      clear_preroll]))"

definition stopNavigator :: "mission_options \<Rightarrow> mh" where
  "stopNavigator o1 = steps
     [unmute o1 (js ''the navigator stopped''),
      upd (\<lambda>s. if m_nav_on s then s\<lparr>m_nav := nav_stop (m_nav s)\<rparr> else s),
      reads (\<lambda>s. whenever (m_transcriber s) (emit E_transcriber_close)),
      upd (\<lambda>s. s\<lparr>m_nav_on := False, m_transcriber := False\<rparr>)]"

section \<open>Listen-in\<close>

definition stopListeners :: mh where
  "stopListeners = reads (\<lambda>s. emits (map (\<lambda>l. E_listener_hangup (fst l)) (m_listeners s)))"

definition addListener :: "int \<Rightarrow> jstr \<Rightarrow> jstr \<Rightarrow> mh" where
  "addListener now lid who = reads (\<lambda>s.
     if m_ended s \<or> m_detached s then emit (E_listener_hangup lid)
     else steps
       [whenever (m_listeners s = []) (upd (\<lambda>s. s\<lparr>m_mix := mix_clear (m_mix s)\<rparr>)),
        upd (\<lambda>s. s\<lparr>m_listeners := jm_set lid who (m_listeners s)\<rparr>),
        log_note now (who @ js '' started listening''),
        debug (who @ js '' is listening ('' @ lid @ js '')'')])"

definition listener_over :: "int \<Rightarrow> jstr \<Rightarrow> mh" where
  "listener_over now lid = reads (\<lambda>s.
     case jm_get (m_listeners s) lid of
       None \<Rightarrow> skip
     | Some who \<Rightarrow> steps
         [upd (\<lambda>s. s\<lparr>m_listeners := jm_delete lid (m_listeners s)\<rparr>),
          whenever (\<not> m_ended s) (log_note now (who @ js '' stopped listening'')),
          debug (who @ js '' stopped listening'')])"

section \<open>The end of a mission\<close>

definition outcome_text :: "outcome \<Rightarrow> jstr" where
  "outcome_text x = js (case x of Completed \<Rightarrow> ''completed'' | No_answer \<Rightarrow> ''no_answer'' | Failed \<Rightarrow> ''failed''
     | Hold_cap \<Rightarrow> ''hold_cap'' | Max_duration \<Rightarrow> ''max_duration'' | Handed_off \<Rightarrow> ''handed_off''
     | Ended_by_agent \<Rightarrow> ''ended_by_agent'' | Mission_error \<Rightarrow> ''error'')"

definition finish_end :: "mission_options \<Rightarrow> int \<Rightarrow> outcome \<Rightarrow> mh" where
  "finish_end o1 now x = steps
     [whenever (x \<noteq> Handed_off) (upd (\<lambda>s. s\<lparr>m_attached := False\<rparr>)),
      debug (js ''finished: '' @ outcome_text x),
      reads (\<lambda>s. emit (E_report (report_of o1 now s)))]"

text \<open>After the last words: the end notes, then the session closes.\<close>

definition finish_notes :: "mission_options \<Rightarrow> int \<Rightarrow> outcome \<Rightarrow> mh" where
  "finish_notes o1 now x = reads (\<lambda>s. steps
     [steps (map (\<lambda>n. note_on now (fst n) (Some (snd n))) (case m_endNotes s of None \<Rightarrow> [] | Some ns \<Rightarrow> ns)),
      upd (\<lambda>s. s\<lparr>m_endNotes := None\<rparr>),
      if m_session s then await E_session_close (T_finish_close x) else finish_end o1 now x])"

definition silence_1s :: "byte list" where
  "silence_1s = replicate (16000 * 2) 0"

definition lastWords :: "mission_options \<Rightarrow> int \<Rightarrow> outcome \<Rightarrow> mh" where
  "lastWords o1 now x = reads (\<lambda>s.
     if \<not> m_session s then finish_notes o1 now x
     else steps
       [upd (\<lambda>s. s\<lparr>m_flushing := True\<rparr>),
        silentNote o1 (js ''[The call has ended: the line hung up and nobody can hear you. Don't say anything.]''),
        reads (\<lambda>s. upd (\<lambda>s'. s'\<lparr>m_onHeard := Some (m_next s)\<rparr>)),
        await (\<lambda>i. E_heard_or i LAST_WORDS_MS) (T_last_words x),
        to_model o1 silence_1s])"

definition heard_words :: "mission_options \<Rightarrow> int \<Rightarrow> outcome \<Rightarrow> mh" where
  "heard_words o1 now x = steps
     [upd (\<lambda>s. s\<lparr>m_onHeard := None, m_flushing := False\<rparr>), finish_notes o1 now x]"

fun finish_hangups :: "mission_options \<Rightarrow> int \<Rightarrow> outcome \<Rightarrow> bool \<Rightarrow> jstr list \<Rightarrow> mh" where
  "finish_hangups o1 now x words [] = (if words then lastWords o1 now x else finish_notes o1 now x)"
| "finish_hangups o1 now x words (c # cs) = cmd (C_hangup c) (T_finish_hangup x words cs)"

definition or_summary :: "jstr option \<Rightarrow> jstr option \<Rightarrow> jstr option" where
  "or_summary new old = (case new of None \<Rightarrow> old | Some t \<Rightarrow> if t = [] then old else Some t)"

definition finish ::
    "mission_options \<Rightarrow> int \<Rightarrow> outcome \<Rightarrow> jstr option \<Rightarrow> bool \<Rightarrow> (jstr \<times> nat) option \<Rightarrow> mh" where
  "finish o1 now x summary words endNote = reads (\<lambda>s.
     if m_ended s \<or> m_detached s then
       (case endNote of
          None \<Rightarrow> skip
        | Some n \<Rightarrow> (case m_endNotes s of
            Some ns \<Rightarrow> upd (\<lambda>s. s\<lparr>m_endNotes := Some (ns @ [n])\<rparr>)
          | None \<Rightarrow> note_on now (fst n) (Some (snd n))))
     else steps
       [upd (\<lambda>s. s\<lparr>m_ended := True, m_outcome := x, m_summary := or_summary summary (m_summary s), m_timers := []\<rparr>),
        stopNavigator o1,
        stopListeners,
        upd (\<lambda>s. s\<lparr>m_endNotes := Some (case endNote of None \<Rightarrow> [] | Some n \<Rightarrow> [n])\<rparr>),
        finish_hangups o1 now x words
          (if x = Handed_off then [] else rev (map ln_callId (live_lines s)))])"

section \<open>After a merge\<close>

definition checkMergedCall :: "nat \<Rightarrow> mh" where
  "checkMergedCall conf = reads (\<lambda>s.
     whenever ((length (live_lines s) \<le> 1 \<or> conf \<le> 1) \<and> \<not> m_ended s) (steps
       [upd (\<lambda>s. s\<lparr>m_ended := True, m_timers := []\<rparr>),
        emits (map (\<lambda>l. E_cmd 0 (C_hangup (ln_callId l))) (live_lines s)),
        upd (\<lambda>s. s\<lparr>m_attached := False\<rparr>),
        debug (js ''merged call finished'')]))"

section \<open>Call events\<close>

definition onLineEnded :: "mission_options \<Rightarrow> int \<Rightarrow> nat \<Rightarrow> mission_line \<Rightarrow> jstr \<Rightarrow> jstr \<Rightarrow> mh" where
  "onLineEnded o1 now conf line reason text = reads (\<lambda>s.
     if m_active s \<noteq> None \<and> \<not> m_detached s \<and> live_lines s = [] then
       finish o1 now (if m_outcome s = Ended_by_agent then Ended_by_agent else Completed) None True (Some (text, ln_n line))
     else steps
       [note_on now text (Some (ln_n line)),
        (if m_active s = None then skip
         else if m_detached s then checkMergedCall conf
         else if m_active s = Some (ln_n line) then
           (case live_lines s of
              [] \<Rightarrow> skip
            | other # _ \<Rightarrow> steps
                [upd (\<lambda>s. s\<lparr>m_active := Some (ln_n other)\<rparr>),
                 cmd C_resume (T_resume_after (js ''['' @ party_name (ln_party line) @ js '' on line '' @ dec_nat (ln_n line)
                   @ js '' hung up ('' @ reason @ js ''). You're back on line '' @ dec_nat (ln_n other) @ js '' with ''
                   @ party_name (ln_party other) @ js '', who was on hold. Pick the conversation back up with them.]''))])
         else skip)])"

text \<open>\<open>conf\<close> is how many of the line's calls are in a conference now (\<open>checkMergedCall\<close> counts them).\<close>

definition onCallEvent :: "mission_options \<Rightarrow> int \<Rightarrow> nat \<Rightarrow> call_msg \<Rightarrow> mh" where
  "onCallEvent o1 now conf msg = reads (\<lambda>s.
     case find (\<lambda>l. ln_callId l = lc_id (msg_call msg)) (m_lines s) of
       None \<Rightarrow> skip
     | Some line \<Rightarrow>
         (case msg of
            Msg_ended c reason \<Rightarrow> steps
              [set_line_state (ln_n line) Ended,
               debug (js ''line '' @ dec_nat (ln_n line) @ js '' ('' @ party_name (ln_party line) @ js '') ended: '' @ reason),
               onLineEnded o1 now conf line reason
                 (if reason = js ''local'' then js ''line '' @ dec_nat (ln_n line) @ js '' hung up''
                  else party_name (ln_party line) @ js '' hung up ('' @ reason @ js '')'')]
          | _ \<Rightarrow> steps
              [set_line_state (ln_n line) (lc_state (msg_call msg)),
               whenever (m_detached s) (checkMergedCall conf)]))"

section \<open>Starting\<close>

definition start :: "mission_options \<Rightarrow> int \<Rightarrow> mh" where
  "start o1 now = steps
     [upd (\<lambda>s. s\<lparr>m_attached := True\<rparr>),
      set_timer (mo_maxCallSeconds o1 * 1000) Tm_max,
      (if mo_outbound o1 then steps
         [note_on now (js ''dialing '' @ party_number (mo_party o1)) (Some 1),
          cmd (C_dial (party_number (mo_party o1))) T_dialed]
       else steps
         [note_on now (js ''answering a call from '' @ party_number (mo_party o1)) (Some 1),
          cmd (C_answer (mo_inboundCallId o1)) T_answered])]"

definition start_failed :: "mission_options \<Rightarrow> int \<Rightarrow> js_error \<Rightarrow> mh" where
  "start_failed o1 now err = steps
     [debug (js ''start failed: '' @ err_string err),
      upd (\<lambda>s. s\<lparr>m_summary := Some (js ''Could not place the call: '' @ err_msg err)\<rparr>),
      finish o1 now Failed None False None]"

text \<open>\<open>startModel\<close> up to its first await: the provider decides whether the session is GPT-Live.\<close>

definition startModel :: "mission_options \<Rightarrow> mh" where
  "startModel o1 = steps
     [upd (\<lambda>s. s\<lparr>m_live := mo_handlesAgentConsult o1 \<and> \<not> mo_supportsToolCalls o1\<rparr>),
      await E_context T_context]"

definition call_is_up :: "mission_options \<Rightarrow> int \<Rightarrow> mh" where
  "call_is_up o1 now = steps
     [upd (\<lambda>s. s\<lparr>m_active := Some 1\<rparr>),
      upd (\<lambda>s. s\<lparr>m_lines := (case m_lines s of [] \<Rightarrow> [] | l # ls \<Rightarrow> l\<lparr>ln_state := Active\<rparr> # ls)\<rparr>),
      upd (\<lambda>s. s\<lparr>m_answeredAt := now\<rparr>),
      startModel o1]"

definition dial_waited :: "mission_options \<Rightarrow> int \<Rightarrow> jstr \<Rightarrow> line_call option \<Rightarrow> mh" where
  "dial_waited o1 now callId c =
     (if (case c of None \<Rightarrow> True | Some x \<Rightarrow> lc_state x \<noteq> Active) then steps
        [debug (js ''no answer ('' @ (case c of None \<Rightarrow> js ''timeout'' | Some x \<Rightarrow> state_text (lc_state x)) @ js '')''),
         note_on now (if map_option lc_state c = Some Ended then js ''the call ended before it was answered''
            else js ''no answer after '' @ dec_int (mo_ringTimeoutSeconds o1) @ js ''s'') (Some 1),
         (if c \<noteq> None \<and> map_option lc_state c \<noteq> Some Ended then cmd (C_hangup callId) T_no_answer_hangup
          else finish o1 now No_answer None False None)]
      else steps [note_on now (js ''answered'') (Some 1), call_is_up o1 now])"

definition startNavigator :: "mission_options \<Rightarrow> int \<Rightarrow> mh" where
  "startNavigator o1 now = steps
     [upd (\<lambda>s. s\<lparr>m_nav_on := True, m_nav := new_navigator, m_transcriber := True\<rparr>),
      emit E_transcriber_open,
      (if mo_hasDetector o1 then emit E_detector_reset
       else debug (js ''no speech detector: the navigator can't tell hold music from speech, so it won't time holds'')),
      emit (E_nav_interval (mo_checkEverySeconds o1 * 1000)),
      log_note now (js ''the phone-menu navigator is listening'')]"

definition context_ready :: "mission_options \<Rightarrow> jstr option \<Rightarrow> jstr option \<Rightarrow> jstr option \<Rightarrow> mh" where
  "context_ready o1 agentContext voice consultText = steps
     [upd (\<lambda>s. s\<lparr>m_consultContext := consultText, m_session := True\<rparr>),
      emit (E_session_create agentContext voice),
      await E_session_connect T_connect]"

definition connected :: "mission_options \<Rightarrow> int \<Rightarrow> mh" where
  "connected o1 now = reads (\<lambda>s. steps
     [debug (js ''realtime session up ('' @ mo_providerId o1 @ (if m_live s then js '', live: actions go through the agent'' else []) @ js '')''),
      whenever (mo_menu o1 \<and> mo_outbound o1) (startNavigator o1 now),
      (case mo_inboundGreeting o1 of
         None \<Rightarrow> skip
       | Some g \<Rightarrow> whenever (\<not> mo_outbound o1 \<and> g \<noteq> [])
           (say (js ''[You just answered the phone. Start the call by greeting the caller naturally. Include this greeting in your first spoken reply: \"''
             @ g @ js ''\"]'')))])"

section \<open>The navigator's acts\<close>

definition holdLimit :: "mission_options \<Rightarrow> int" where
  "holdLimit o1 = (case mo_holdLimitSeconds o1 of Some n \<Rightarrow> n | None \<Rightarrow> mo_holdCapSeconds o1)"

definition nav_options :: "mission_options \<Rightarrow> navigator_options" where
  "nav_options o1 = \<lparr>nav_goal = or_empty (mo_brief o1), checkEverySeconds = mo_checkEverySeconds o1,
     holdLimitSeconds = holdLimit o1, threshold = mo_threshold o1\<rparr>"

definition navigatorPress :: "jstr \<Rightarrow> mh" where
  "navigatorPress keys = cmd (C_dtmf keys) (T_nav_press keys)"

definition nav_pressed_ok :: "mission_options \<Rightarrow> int \<Rightarrow> jstr \<Rightarrow> jstr option \<Rightarrow> mh" where
  "nav_pressed_ok o1 now keys digits = steps
     [log_note now (js ''the navigator pressed '' @ (case digits of None \<Rightarrow> keys | Some d \<Rightarrow> d)),
      silentNote o1 (js ''[The phone-menu navigator pressed '' @ keys @ js '' on your behalf. Don't press it again.]''),
      upd (\<lambda>s. s\<lparr>m_nav := nav_press_done True (m_nav s)\<rparr>)]"

definition nav_pressed_failed :: "js_error \<Rightarrow> mh" where
  "nav_pressed_failed err = steps
     [debug (js ''navigator press failed: '' @ err_msg err),
      upd (\<lambda>s. s\<lparr>m_nav := nav_press_done False (m_nav s)\<rparr>)]"

definition limit_text :: "int \<Rightarrow> jstr" where
  "limit_text cap = (if cap mod 60 \<noteq> 0 then dec_int cap @ js '' s'' else dec_int (cap div 60) @ js '' min'')"

definition hangup_why :: "mission_options \<Rightarrow> hangup_reason \<Rightarrow> jstr" where
  "hangup_why o1 r = (case r of
      Goal_done \<Rightarrow> js ''what the line said achieved the goal''
    | No_way \<Rightarrow> js ''the goal couldn't be reached on this call''
    | Hold_limit \<Rightarrow> js ''on hold for longer than '' @ limit_text (holdLimit o1))"

definition hangup_outcome :: "hangup_reason \<Rightarrow> outcome" where
  "hangup_outcome r = (case r of Goal_done \<Rightarrow> Completed | Hold_limit \<Rightarrow> Hold_cap | No_way \<Rightarrow> Failed)"

definition navigatorHangUp :: "mission_options \<Rightarrow> int \<Rightarrow> hangup_reason \<Rightarrow> mh" where
  "navigatorHangUp o1 now r = steps
     [log_note now (js ''the navigator hung up: '' @ hangup_why o1 r),
      finish o1 now (hangup_outcome r)
        (Some (js ''The phone-menu navigator hung up: '' @ hangup_why o1 r @ js ''.'')) True None]"

definition navigatorHandOff :: "mission_options \<Rightarrow> int \<Rightarrow> mh" where
  "navigatorHandOff o1 now = steps
     [stopNavigator o1,
      log_note now (js ''the navigator handed the call to the assistant: a person is speaking''),
      silentNote o1 (js ''[The phone-menu navigator has stopped: a person is on the line. The call is yours now; it won't press anything else.]'')]"

fun nav_effect_act :: "mission_options \<Rightarrow> int \<Rightarrow> nav_effect \<Rightarrow> mh" where
  "nav_effect_act o1 now (Nav_decide view) = emit (E_decide view)"
| "nav_effect_act o1 now (Nav_log m) = debug m"
| "nav_effect_act o1 now (Nav_press keys) = navigatorPress keys"
| "nav_effect_act o1 now (Nav_hang_up r) = navigatorHangUp o1 now r"
| "nav_effect_act o1 now Nav_hand_off = navigatorHandOff o1 now"

text \<open>The navigator's clock starts when the call is answered.\<close>

definition nav_does :: "mission_options \<Rightarrow> int \<Rightarrow> (int \<Rightarrow> nav_event) \<Rightarrow> mh" where
  "nav_does o1 now ev = reads (\<lambda>s.
     (let (n, fs) = nav_step (nav_options o1) (m_nav s) (ev (now - m_answeredAt s))
      in steps (upd (\<lambda>s. s\<lparr>m_nav := n\<rparr>) # map (nav_effect_act o1 now) fs)))"

text \<open>\<open>this.navigator?.\<close>\<close>

definition nav_if_on :: "mission_options \<Rightarrow> int \<Rightarrow> (int \<Rightarrow> nav_event) \<Rightarrow> mh" where
  "nav_if_on o1 now ev = reads (\<lambda>s. whenever (m_nav_on s) (nav_does o1 now ev))"

definition transcriber_failed :: "mission_options \<Rightarrow> int \<Rightarrow> jstr \<Rightarrow> mh" where
  "transcriber_failed o1 now message = reads (\<lambda>s. whenever (m_nav_on s) (steps
     [debug (js ''navigator transcript failed ('' @ message @ js ''); the voice model handles the menu''),
      log_note now (js ''the phone-menu navigator stopped (no transcript)''),
      stopNavigator o1,
      silentNote o1 (js ''[The phone-menu navigator stopped. Handle any phone menu yourself.]'')]))"

section \<open>Audio\<close>

definition downlink_rest :: "mission_options \<Rightarrow> byte list \<Rightarrow> mh" where
  "downlink_rest o1 pcm = reads (\<lambda>s. steps
     [(if m_muted s then keepPreroll pcm else to_model o1 pcm),
      whenever (m_nav_on s) (steps
        [whenever (m_transcriber s) (steps
           [emit (E_transcriber_send (mo_upResample o1 (m_upNav s) pcm)),
            upd (\<lambda>s. s\<lparr>m_upNav := m_upNav s @ pcm\<rparr>)]),
         whenever (mo_hasDetector o1) (emit (E_detector pcm))])])"

text \<open>A read past the end of the voice model's audio throws (\<open>None\<close>): the rest doesn't run.\<close>

definition onDownlink :: "mission_options \<Rightarrow> byte list \<Rightarrow> mh" where
  "onDownlink o1 pcm = reads (\<lambda>s. whenever (\<not> m_ended s \<and> \<not> m_detached s \<and> m_active s \<noteq> None)
     (if m_listeners s = [] then downlink_rest o1 pcm
      else (case mix_line (m_mix s) pcm of
          (m, None) \<Rightarrow> upd (\<lambda>s. s\<lparr>m_mix := m\<rparr>)
        | (m, Some mixed) \<Rightarrow> steps
            [upd (\<lambda>s. s\<lparr>m_mix := m\<rparr>),
             emits (map (\<lambda>l. E_listener_send (fst l) mixed) (m_listeners s)),
             downlink_rest o1 pcm])))"

definition onLineSound :: "mission_options \<Rightarrow> int \<Rightarrow> real \<Rightarrow> real \<Rightarrow> mh" where
  "onLineSound o1 now prob rms = reads (\<lambda>s.
     if \<not> m_nav_on s then skip
     else (case nav_line_sound (now - m_answeredAt s) prob rms (m_nav s) of
         (n, None) \<Rightarrow> upd (\<lambda>s. s\<lparr>m_nav := n\<rparr>)
       | (n, Some x) \<Rightarrow> steps
           [upd (\<lambda>s. s\<lparr>m_nav := n\<rparr>),
            (if x = Speech then steps [upd (\<lambda>s. s\<lparr>m_quietSeconds := 0\<rparr>), unmute o1 (js ''speech on the line'')]
             else steps
               [upd (\<lambda>s. s\<lparr>m_quietSeconds := m_quietSeconds s + 1\<rparr>),
                reads (\<lambda>s. whenever (m_quietSeconds s \<ge> MUTE_AFTER_SECONDS \<and> \<not> m_muted s) (steps
                  [upd (\<lambda>s. s\<lparr>m_muted := True\<rparr>),
                   clear_preroll,
                   debug (js ''no speech for '' @ dec_nat MUTE_AFTER_SECONDS
                     @ js ''s (hold music?): the voice model stops hearing the line until someone speaks'')]))])]))"

definition hasSpeech :: "byte list \<Rightarrow> bool" where
  "hasSpeech pcm \<longleftrightarrow> list_ex (\<lambda>x. \<bar>x\<bar> > SPEECH_PEAK) (samples pcm)"

definition lead_ms :: "int \<Rightarrow> playing \<Rightarrow> real" where
  "lead_ms now p = pl_sentMs p - of_int (now - pl_firstAt p)"

definition onModelAudio :: "mission_options \<Rightarrow> int \<Rightarrow> byte list \<Rightarrow> jstr option \<Rightarrow> mh" where
  "onModelAudio o1 now audio itemId = reads (\<lambda>s. whenever (\<not> m_detached s \<and> \<not> m_ended s)
     (let iid = (case itemId of None \<Rightarrow> js ''item'' | Some x \<Rightarrow> x); speech = hasSpeech audio;
          same = (case m_playing s of Some p \<Rightarrow> pl_item p = iid | None \<Rightarrow> False);
          behind = (case m_playing s of Some p \<Rightarrow> lead_ms now p > LIVE_TARGET_LEAD_MS | None \<Rightarrow> False);
          pcm = mo_downResample o1 (m_down s) audio
      in steps
        [whenever speech (upd (\<lambda>s. s\<lparr>m_speechAt := now\<rparr>)),
         whenever (\<not> (m_live s \<and> \<not> speech \<and> same \<and> behind)) (steps
           [upd (\<lambda>s. s\<lparr>m_down := m_down s @ audio\<rparr>),
            whenever (\<not> same) (upd (\<lambda>s. s\<lparr>m_playing := Some \<lparr>pl_item = iid, pl_firstAt = now, pl_sentMs = 0\<rparr>\<rparr>)),
            upd (\<lambda>s. s\<lparr>m_playing := map_option (\<lambda>p. p\<lparr>pl_sentMs := pl_sentMs p
                + real (length audio) / 2 / real MODEL_RATE * 1000\<rparr>) (m_playing s)\<rparr>),
            emit (E_line_audio pcm),
            whenever (m_listeners s \<noteq> []) (upd (\<lambda>s. s\<lparr>m_mix := mix_model (m_mix s) pcm\<rparr>))])]))"

definition onClearAudio :: mh where
  "onClearAudio = steps
     [upd (\<lambda>s. s\<lparr>m_playing := None, m_mix := mix_clear (m_mix s), m_down := []\<rparr>), emit E_line_clear]"

text \<open>\<open>getPlaybackState\<close> and \<open>audioSink.isOpen\<close>\<close>

definition playbackState :: "int \<Rightarrow> mission \<Rightarrow> (jstr \<times> real) option" where
  "playbackState now s = map_option (\<lambda>p. (pl_item p, min (pl_sentMs p) (of_int (now - pl_firstAt p)))) (m_playing s)"

definition sink_open :: "mission \<Rightarrow> bool" where
  "sink_open s \<longleftrightarrow> \<not> m_ended s \<and> \<not> m_detached s"

definition onTranscript :: "mission_options \<Rightarrow> int \<Rightarrow> bool \<Rightarrow> jstr \<Rightarrow> bool \<Rightarrow> mh" where
  "onTranscript o1 now assistant text isFinal = reads (\<lambda>s.
     if \<not> isFinal \<or> trim text = [] \<or> assistant \<and> m_flushing s then skip
     else steps
       [whenever assistant (nav_if_on o1 now (\<lambda>t. Nav_said t text)),
        upd (\<lambda>s. s\<lparr>m_log := m_log s @ [\<lparr>le_t = now - m_startedAt s,
          le_line = map_option ln_n (current_line s), le_kind = (if assistant then Say else Hear),
          le_who = (if assistant then js ''assistant'' else (case current_line s of Some l \<Rightarrow> party_name (ln_party l) | None \<Rightarrow> js ''caller'')),
          le_text = trim text\<rparr>]\<rparr>),
        whenever (\<not> assistant) (reads (\<lambda>s.
          case m_onHeard s of
            None \<Rightarrow> skip
          | Some t \<Rightarrow> (case jm_get (m_tasks s) t of
              Some (T_last_words x) \<Rightarrow> steps
                [upd (\<lambda>s. s\<lparr>m_tasks := jm_delete t (m_tasks s)\<rparr>), heard_words o1 now x]
            | _ \<Rightarrow> skip)))])"

section \<open>Answers to tools and line actions\<close>

definition answer :: "asker \<Rightarrow> json \<Rightarrow> bool \<Rightarrow> mh" where
  "answer a result quiet = (case a of
      Ask_tool callId name \<Rightarrow> emit (E_tool_result callId result quiet)
    | Ask_action rid action \<Rightarrow> emit (E_action_result rid result))"

definition err_json :: "jstr \<Rightarrow> json" where
  "err_json m = JObj [(js ''error'', JStr m)]"

definition run_merge :: "nat \<Rightarrow> nat \<Rightarrow> mh" where
  "run_merge other current = await E_mark (T_merge_mark other current)"

text \<open>
  \<open>afterSpokenAnswer\<close>: what waits on the agent's answer runs once the model has spoken it and been
  silent for 1.2 s, or after 15 s. \<open>poll\<close> looks every 200 ms.
\<close>

definition after_action :: "after_answer \<Rightarrow> mh" where
  "after_action x = (case x of
      After_end \<Rightarrow> await (\<lambda>i. E_mark_or i 8000) T_action_mark
    | After_merge other current \<Rightarrow> run_merge other current)"

definition poll :: "int \<Rightarrow> int \<Rightarrow> int \<Rightarrow> after_answer \<Rightarrow> mh" where
  "poll now since deadline x = reads (\<lambda>s.
     if m_ended s \<or> m_detached s then skip
     else if (m_speechAt s > since \<and> now - m_speechAt s > 1200) \<or> now > deadline then after_action x
     else set_timer 200 (Tm_poll since deadline x))"

definition afterSpokenAnswer :: "int \<Rightarrow> mh" where
  "afterSpokenAnswer now = reads (\<lambda>s.
     let action = (if m_afterAnswer s then Some After_end
                   else map_option (\<lambda>(a, b). After_merge a b) (m_pendingMerge s))
     in steps
       [upd (\<lambda>s. s\<lparr>m_afterAnswer := False, m_pendingMerge := None\<rparr>),
        (case action of None \<Rightarrow> skip | Some x \<Rightarrow> poll now now (now + 15000) x)])"

definition asker_failed :: "mission_options \<Rightarrow> int \<Rightarrow> asker \<Rightarrow> js_error \<Rightarrow> mh" where
  "asker_failed o1 now a err = (case a of
      Ask_tool callId name \<Rightarrow> reads (\<lambda>s. steps
        [debug (js ''tool '' @ name @ js '' failed: '' @ line_err_msg err),
         emit (E_tool_result callId (err_json (line_err_msg err)) False),
         whenever (m_live s \<and> name = mo_consultToolName o1) (afterSpokenAnswer now)])
    | Ask_action rid action \<Rightarrow> steps
        [debug (js ''line action '' @ action @ js '' failed: '' @ line_err_msg err),
         emit (E_action_result rid (err_json (line_err_msg err)))])"

section \<open>Keys and the end of the call\<close>

definition pressKeys :: "asker \<Rightarrow> jstr \<Rightarrow> mh" where
  "pressKeys a digits = cmd (C_dtmf digits) (T_keys a digits)"

definition keys_pressed :: "mission_options \<Rightarrow> int \<Rightarrow> asker \<Rightarrow> jstr \<Rightarrow> jstr option \<Rightarrow> mh" where
  "keys_pressed o1 now a digits got =
     (let keys = (case got of None \<Rightarrow> digits | Some d \<Rightarrow> d);
          pressed = (case got of None \<Rightarrow> [] | Some d \<Rightarrow> [(js ''pressed'', JStr d)])
      in steps
       [log_note now (js ''pressed '' @ keys),
        nav_if_on o1 now (\<lambda>t. Nav_keys t keys),
        (case a of
           Ask_tool callId name \<Rightarrow> answer a (JObj (pressed @
             [(js ''note'', JStr (js ''Pressed. Stay quiet and listen to what the system says next.''))])) True
         | Ask_action rid action \<Rightarrow> answer a (JObj (pressed @ [(js ''note'', JStr (js ''Pressed.''))])) False)])"

definition setEnding :: "int \<Rightarrow> json option \<Rightarrow> json option \<Rightarrow> mh" where
  "setEnding now x summary = steps
     [upd (\<lambda>s. s\<lparr>m_summary := Some (msg_str summary)\<rparr>),
      log_note now (js ''the assistant ended the call ('' @ js_string_opt x @ js '')''),
      upd (\<lambda>s. s\<lparr>m_outcome := (if x = Some (JStr (js ''done'')) \<or> x = Some (JStr (js ''voicemail'')) then Completed else Failed)\<rparr>)]"

section \<open>Lines\<close>

definition find_contact :: "mission_options \<Rightarrow> jstr \<Rightarrow> contact option" where
  "find_contact o1 cid = find (\<lambda>c. ct_id c = cid) (mo_contacts o1)"

definition paren :: "jstr \<Rightarrow> jstr" where
  "paren reason = (if reason = [] then [] else js '' ('' @ reason @ js '')'')"

definition callParty :: "mission_options \<Rightarrow> asker \<Rightarrow> jstr \<Rightarrow> jstr \<Rightarrow> mh" where
  "callParty o1 a contactId reason = reads (\<lambda>s.
     case find_contact o1 contactId of
       None \<Rightarrow> answer a (err_json (js ''not an allowed contact: '' @ contactId)) False
     | Some c \<Rightarrow>
         (case current_line s of
            None \<Rightarrow> answer a (err_json (js ''already on two lines'')) False
          | Some first \<Rightarrow>
              if length (live_lines s) > 1 then answer a (err_json (js ''already on two lines'')) False
              else cmd C_hold (T_party_hold a c reason (ln_n first))))"

definition party_dialed :: "mission_options \<Rightarrow> int \<Rightarrow> asker \<Rightarrow> contact \<Rightarrow> jstr \<Rightarrow> nat \<Rightarrow> line_call \<Rightarrow> mh" where
  "party_dialed o1 now a c reason first call = reads (\<lambda>s.
     let n = length (m_lines s) + 1 in steps
       [addLine call \<lparr>party_name = ct_name c, party_number = ct_number c, party_role = Contact\<rparr>,
        upd (\<lambda>s. s\<lparr>m_active := Some n\<rparr>),
        debug (js ''calling '' @ ct_name c @ js '' on line '' @ dec_nat n @ paren reason),
        note_on now (js ''put '' @ line_name s first @ js '' on hold; calling '' @ ct_name c @ js '' on line '' @ dec_nat n @ paren reason) (Some n),
        await (\<lambda>i. E_wait i (lc_id call) (mo_ringTimeoutSeconds o1 * 1000)) (T_party_wait a c n first (lc_id call))])"

definition party_back :: "int \<Rightarrow> asker \<Rightarrow> contact \<Rightarrow> nat \<Rightarrow> nat \<Rightarrow> mh" where
  "party_back now a c n first = reads (\<lambda>s. steps
     [set_line_state n Ended,
      upd (\<lambda>s. s\<lparr>m_active := Some first\<rparr>),
      note_on now (ct_name c @ js '' didn't answer; back to '' @ line_name s first) (Some first),
      cmd C_resume (T_party_resume a c first)])"

definition party_waited :: "int \<Rightarrow> asker \<Rightarrow> contact \<Rightarrow> nat \<Rightarrow> nat \<Rightarrow> jstr \<Rightarrow> line_call option \<Rightarrow> mh" where
  "party_waited now a c n first callId call = reads (\<lambda>s.
     if map_option lc_state call = Some Active then steps
       [note_on now (ct_name c @ js '' answered'') (Some n),
        answer a (JObj [(js ''status'', JStr (js ''connected'')), (js ''line'', JNum (int n)),
          (js ''note'', JStr (ct_name c @ js '' answered on line '' @ dec_nat n @ js ''. '' @ line_name s first
             @ js '' is on hold on line '' @ dec_nat first @ js ''. Explain why you're calling and ask what you need.''))]) False]
     else if call \<noteq> None \<and> map_option lc_state call \<noteq> Some Ended then cmd (C_hangup callId) (T_party_hangup a c n first)
     else party_back now a c n first)"

definition party_resumed :: "asker \<Rightarrow> contact \<Rightarrow> nat \<Rightarrow> mh" where
  "party_resumed a c first = reads (\<lambda>s. answer a (JObj [(js ''status'', JStr (js ''no_answer'')), (js ''line'', JNum (int first)),
     (js ''note'', JStr (ct_name c @ js '' didn't answer. You're back on line '' @ dec_nat first @ js '' with '' @ line_name s first
       @ js '': tell them and ask how they'd like to proceed.''))]) False)"

definition no_line :: "json option \<Rightarrow> json" where
  "no_line n = err_json (js ''no line '' @ (case js_number n of None \<Rightarrow> js ''NaN'' | Some k \<Rightarrow> dec_int k))"

definition switchLine :: "asker \<Rightarrow> json option \<Rightarrow> mh" where
  "switchLine a n = reads (\<lambda>s.
     case live_line s (js_number n) of
       None \<Rightarrow> answer a (no_line n) False
     | Some target \<Rightarrow>
         if m_active s = Some (ln_n target) then
           answer a (JObj [(js ''status'', JStr (js ''already_active'')), (js ''line'', JNum (int (ln_n target)))]) False
         else cmd (if list_ex (\<lambda>l. ln_state l = Active) (m_lines s) then C_swap else C_resume) (T_switch a (ln_n target)))"

definition switched :: "int \<Rightarrow> asker \<Rightarrow> nat \<Rightarrow> mh" where
  "switched now a n = reads (\<lambda>s. steps
     [upd (\<lambda>s. s\<lparr>m_active := Some n\<rparr>),
      note_on now (js ''switched to '' @ line_name s n) (Some n),
      answer a (JObj [(js ''status'', JStr (js ''switched'')), (js ''line'', JNum (int n)),
        (js ''note'', JStr (js ''You're now talking to '' @ line_name s n @ js '' on line '' @ dec_nat n @ js ''.''))]) False])"

definition dropLine :: "asker \<Rightarrow> json option \<Rightarrow> mh" where
  "dropLine a n = reads (\<lambda>s.
     case live_line s (js_number n) of
       None \<Rightarrow> answer a (no_line n) False
     | Some target \<Rightarrow> cmd (C_hangup (ln_callId target)) (T_drop a (ln_n target)))"

definition drop_done :: "asker \<Rightarrow> nat \<Rightarrow> mh" where
  "drop_done a other = reads (\<lambda>s. answer a (JObj [(js ''status'', JStr (js ''dropped'')), (js ''activeLine'', JNum (int other)),
     (js ''note'', JStr (js ''You're talking to '' @ line_name s other @ js '' on line '' @ dec_nat other @ js ''.''))]) False)"

definition dropped :: "mission_options \<Rightarrow> int \<Rightarrow> asker \<Rightarrow> nat \<Rightarrow> mh" where
  "dropped o1 now a n = reads (\<lambda>s. steps
     [set_line_state n Ended,
      note_on now (js ''hung up on '' @ line_name s n) (Some n),
      reads (\<lambda>s. case live_lines s of
          [] \<Rightarrow> steps [finish o1 now Completed None True None, answer a (JObj [(js ''status'', JStr (js ''dropped''))]) False]
        | other # _ \<Rightarrow>
            if m_active s = Some n then cmd C_resume (T_drop_resume a (ln_n other))
            else drop_done a (ln_n other))])"

text \<open>With two live lines both \<open>other\<close> and \<open>current\<close> are there: lines have different numbers and one is active.\<close>

definition connectLines :: "asker \<Rightarrow> mh" where
  "connectLines a = reads (\<lambda>s.
     if length (live_lines s) \<noteq> 2 then answer a (err_json (js ''connect_lines needs two lines'')) False
     else (case (find (\<lambda>l. m_active s \<noteq> Some (ln_n l)) (live_lines s), current_line s) of
         (Some other, Some current) \<Rightarrow> cmd C_swap (T_swap a (ln_n other) (ln_n current))
       | _ \<Rightarrow> skip))"

definition swapped :: "asker \<Rightarrow> nat \<Rightarrow> nat \<Rightarrow> mh" where
  "swapped a other current = reads (\<lambda>s. steps
     [upd (\<lambda>s. s\<lparr>m_active := Some other, m_pendingMerge := Some (other, current)\<rparr>),
      answer a (JObj [(js ''status'', JStr (js ''announce'')), (js ''line'', JNum (int other)),
        (js ''note'', JStr (js ''You're back on line '' @ dec_nat other @ js '' with '' @ line_name s other @ js ''. Tell them ''
          @ line_name s current @ js '' is joining now; the lines are joined as soon as you finish speaking, and you leave the call.''))]) False])"

definition merge_report :: "mission_options \<Rightarrow> int \<Rightarrow> mh" where
  "merge_report o1 now = steps
     [reads (\<lambda>s. emit (E_report ((report_of o1 now s)\<lparr>rp_outcome := Handed_off\<rparr>))),
      upd (\<lambda>s. s\<lparr>m_outcome := Handed_off\<rparr>)]"

definition merged :: "mission_options \<Rightarrow> int \<Rightarrow> nat \<Rightarrow> nat \<Rightarrow> mh" where
  "merged o1 now other current = reads (\<lambda>s. steps
     [debug (js ''lines merged; leaving the call''),
      log_note now (js ''joined '' @ line_name s other @ js '' and '' @ line_name s current @ js '' into one call; the assistant left''),
      upd (\<lambda>s. s\<lparr>m_detached := True\<rparr>),
      stopListeners,
      upd (\<lambda>s. s\<lparr>m_timers := [],
        m_summary := (case m_summary s of None \<Rightarrow> Some (js ''Connected '' @ line_name s other @ js '' with '' @ line_name s current @ js ''.'') | x \<Rightarrow> x)\<rparr>),
      (if m_session s then await E_session_close (T_merge_close other current) else merge_report o1 now)])"

definition merge_failed :: "nat \<Rightarrow> js_error \<Rightarrow> mh" where
  "merge_failed other err = reads (\<lambda>s. steps
     [debug (js ''merge failed: '' @ err_string err),
      say (js ''[The lines could not be joined ('' @ err_string err @ js ''). You're on line '' @ dec_nat other @ js '' with '' @ line_name s other @ js ''.]'')])"

section \<open>Consults\<close>

text \<open>
  \<open>consult\<close>: the arguments with the owner's latest messages added to their context, and the last
  twelve things said, each with whether the assistant said it.
\<close>

definition consult_args :: "json \<Rightarrow> jstr option \<Rightarrow> json" where
  "consult_args args extra = (case extra of
      None \<Rightarrow> args
    | Some x \<Rightarrow> if x = [] then args else
        (let given = (case json_get args (js ''context'') of Some (JStr c) \<Rightarrow> [c] | _ \<Rightarrow> []);
             kvs = (case args of JObj kvs \<Rightarrow> kvs | _ \<Rightarrow> [])
         in JObj (jm_set (js ''context'') (JStr (join [10, 10] (filter (\<lambda>c. c \<noteq> []) (given @ [x])))) kvs)))"

definition last_n :: "nat \<Rightarrow> 'a list \<Rightarrow> 'a list" where
  "last_n n xs = drop (length xs - n) xs"

definition consult_transcript :: "log_entry list \<Rightarrow> (bool \<times> jstr) list" where
  "consult_transcript es = map (\<lambda>e. (le_kind e = Say, le_text e)) (last_n 12 (filter (\<lambda>e. le_kind e \<noteq> Event) es))"

definition consult :: "jstr \<Rightarrow> json \<Rightarrow> mh" where
  "consult callId args = reads (\<lambda>s. await
     (\<lambda>i. E_consult i (consult_args args (m_consultContext s)) (consult_transcript (m_log s)))
     (T_consult callId (m_consultContext s)))"

definition consulted :: "mission_options \<Rightarrow> int \<Rightarrow> jstr \<Rightarrow> jstr option \<Rightarrow> jstr \<Rightarrow> mh" where
  "consulted o1 now callId extra text = steps
     [upd (\<lambda>s. if or_empty extra \<noteq> [] \<and> m_consultContext s = extra then s\<lparr>m_consultContext := None\<rparr> else s),
      log_note now (js ''the agent answered: '' @ take 500 text),
      emit (E_tool_result callId (JObj [(js ''text'', JStr text)]) False),
      reads (\<lambda>s. whenever (m_live s) (afterSpokenAnswer now))]"

definition consultWorking :: "mission_options \<Rightarrow> mission \<Rightarrow> json option" where
  "consultWorking o1 s =
     (if m_session s \<and> mo_continues o1 then
        Some (JObj [(js ''status'', JStr (js ''working'')), (js ''tool'', JStr (mo_consultToolName o1)),
          (js ''message'', JStr (js ''The agent is still working on this; its answer comes next, as this call's result. If they talk before it arrives, tell them briefly you're still checking.''))])
      else None)"

definition ask_agent :: "mission_options \<Rightarrow> int \<Rightarrow> jstr \<Rightarrow> json \<Rightarrow> mh" where
  "ask_agent o1 now callId args = steps
     [log_note now (js ''asked the agent: '' @ take 300 (msg_str (json_get args (js ''question'')))),
      reads (\<lambda>s. case consultWorking o1 s of
          Some w \<Rightarrow> await (\<lambda>i. E_submit_working i callId w) (T_consult_working callId args)
        | None \<Rightarrow> consult callId args)]"

section \<open>Tool calls and line actions\<close>

definition onToolCall :: "mission_options \<Rightarrow> int \<Rightarrow> jstr \<Rightarrow> jstr \<Rightarrow> json \<Rightarrow> mh" where
  "onToolCall o1 now callId name args = steps
     [debug (js ''tool '' @ name @ js '' '' @ take 200 (json_stringify args)),
      (let a = Ask_tool callId name; arg = (\<lambda>k. json_get args (js k)) in
       if name = js ''send_dtmf'' then pressKeys a (msg_str (arg ''digits''))
       else if name = js ''end_call'' then steps
         [setEnding now (arg ''outcome'') (arg ''summary''),
          answer a (JObj [(js ''status'', JStr (js ''ending''))]) True,
          await (\<lambda>i. E_mark_or i 8000) T_end_mark]
       else if name = mo_consultToolName o1 then ask_agent o1 now callId args
       else if name = js ''call_party'' then callParty o1 a (msg_str (arg ''contact'')) (msg_str (arg ''reason''))
       else if name = js ''switch_line'' then switchLine a (arg ''line'')
       else if name = js ''connect_lines'' then connectLines a
       else if name = js ''drop_line'' then dropLine a (arg ''line'')
       else answer a (err_json (js ''unknown tool '' @ name)) False)]"

definition lineAction :: "mission_options \<Rightarrow> int \<Rightarrow> nat \<Rightarrow> jstr \<Rightarrow> json \<Rightarrow> mh" where
  "lineAction o1 now rid action args = reads (\<lambda>s.
     if m_ended s \<or> m_detached s then emit (E_action_result rid (err_json (js ''the call has ended'')))
     else steps
       [debug (js ''line action '' @ action @ js '' '' @ take 200 (json_stringify args)),
        (let a = Ask_action rid action; arg = (\<lambda>k. json_get args (js k)) in
         if action = js ''send_dtmf'' then pressKeys a (msg_str (arg ''digits''))
         else if action = js ''end_call'' then steps
           [setEnding now (arg ''outcome'') (arg ''summary''),
            upd (\<lambda>s. s\<lparr>m_afterAnswer := True\<rparr>),
            answer a (JObj [(js ''status'', JStr (js ''ending'')),
              (js ''note'', JStr (js ''The call ends once the assistant has said your reply. Reply with a short goodbye for it to say.''))]) False]
         else if action = js ''call_party'' then callParty o1 a (msg_str (arg ''contact'')) (msg_str (arg ''reason''))
         else if action = js ''switch_line'' then switchLine a (arg ''line'')
         else if action = js ''connect_lines'' then connectLines a
         else if action = js ''drop_line'' then dropLine a (arg ''line'')
         else answer a (err_json (js ''unknown action '' @ action)) False)])"

definition onResponseDone :: mh where
  "onResponseDone = reads (\<lambda>s. case m_pendingMerge s of
      None \<Rightarrow> skip
    | Some (other, current) \<Rightarrow> steps [upd (\<lambda>s. s\<lparr>m_pendingMerge := None\<rparr>), run_merge other current])"

definition session_closed :: "mission_options \<Rightarrow> int \<Rightarrow> jstr \<Rightarrow> mh" where
  "session_closed o1 now reason = reads (\<lambda>s. whenever (\<not> m_ended s \<and> \<not> m_detached s) (steps
     [debug (js ''realtime session closed ('' @ reason @ js '')''),
      finish o1 now Mission_error (Some (js ''The voice model connection closed unexpectedly.'')) False None]))"

section \<open>What the awaited results go on with\<close>

datatype m_value =
    V_call line_call
  | V_wait "line_call option"
  | V_digits "jstr option"
  | V_context "jstr option" "jstr option" "jstr option"
  | V_text jstr
  | V_none

definition wait_value :: "m_value \<Rightarrow> line_call option" where
  "wait_value v = (case v of V_wait c \<Rightarrow> c | _ \<Rightarrow> None)"

definition digits_value_of :: "m_value \<Rightarrow> jstr option" where
  "digits_value_of v = (case v of V_digits d \<Rightarrow> d | _ \<Rightarrow> None)"

definition call_value :: "m_value \<Rightarrow> (line_call \<Rightarrow> mh) \<Rightarrow> mh" where
  "call_value v f = (case v of V_call c \<Rightarrow> f c | _ \<Rightarrow> skip)"

fun goes_on :: "mission_options \<Rightarrow> int \<Rightarrow> task \<Rightarrow> m_value \<Rightarrow> mh" where
  "goes_on o1 now T_dialed v = call_value v (\<lambda>c. steps
     [addLine c (mo_party o1),
      await (\<lambda>i. E_wait i (lc_id c) (mo_ringTimeoutSeconds o1 * 1000)) (T_dial_wait (lc_id c))])"
| "goes_on o1 now (T_dial_wait callId) v = dial_waited o1 now callId (wait_value v)"
| "goes_on o1 now T_no_answer_hangup v = finish o1 now No_answer None False None"
| "goes_on o1 now T_answered v = call_value v (\<lambda>c. steps [addLine c (mo_party o1), call_is_up o1 now])"
| "goes_on o1 now T_context v = (case v of V_context ac voice cons \<Rightarrow> context_ready o1 ac voice cons | _ \<Rightarrow> skip)"
| "goes_on o1 now T_connect v = connected o1 now"
| "goes_on o1 now (T_finish_hangup x words cs) v = finish_hangups o1 now x words cs"
| "goes_on o1 now (T_last_words x) v = heard_words o1 now x"
| "goes_on o1 now (T_finish_close x) v = finish_end o1 now x"
| "goes_on o1 now (T_resume_after text) v = say text"
| "goes_on o1 now (T_keys a digits) v = keys_pressed o1 now a digits (digits_value_of v)"
| "goes_on o1 now T_end_mark v = reads (\<lambda>s. finish o1 now (m_outcome s) (m_summary s) True None)"
| "goes_on o1 now T_action_mark v =
     reads (\<lambda>s. whenever (\<not> m_ended s) (finish o1 now (m_outcome s) (m_summary s) True None))"
| "goes_on o1 now (T_consult_working callId args) v = consult callId args"
| "goes_on o1 now (T_consult callId extra) v =
     (case v of V_text t \<Rightarrow> consulted o1 now callId extra t | _ \<Rightarrow> skip)"
| "goes_on o1 now (T_party_hold a c reason first) v = cmd (C_dial (ct_number c)) (T_party_dial a c reason first)"
| "goes_on o1 now (T_party_dial a c reason first) v = call_value v (party_dialed o1 now a c reason first)"
| "goes_on o1 now (T_party_wait a c n first callId) v = party_waited now a c n first callId (wait_value v)"
| "goes_on o1 now (T_party_hangup a c n first) v = party_back now a c n first"
| "goes_on o1 now (T_party_resume a c first) v = party_resumed a c first"
| "goes_on o1 now (T_switch a n) v = switched now a n"
| "goes_on o1 now (T_drop a n) v = dropped o1 now a n"
| "goes_on o1 now (T_drop_resume a other) v =
     steps [upd (\<lambda>s. s\<lparr>m_active := Some other\<rparr>), drop_done a other]"
| "goes_on o1 now (T_swap a other current) v = swapped a other current"
| "goes_on o1 now (T_merge_mark other current) v = cmd C_merge (T_merge_cmd other current)"
| "goes_on o1 now (T_merge_cmd other current) v = merged o1 now other current"
| "goes_on o1 now (T_merge_close other current) v = merge_report o1 now"
| "goes_on o1 now (T_nav_press keys) v = nav_pressed_ok o1 now keys (digits_value_of v)"

text \<open>
  A rejected await: \<open>start\<close> fails the mission, \<open>.catch(() => undefined)\<close> goes on, a tool or an
  action answers with the error, the merge is reported to the voice model.
\<close>

fun goes_wrong :: "mission_options \<Rightarrow> int \<Rightarrow> task \<Rightarrow> js_error \<Rightarrow> mh" where
  "goes_wrong o1 now T_dialed err = start_failed o1 now err"
| "goes_wrong o1 now (T_dial_wait callId) err = start_failed o1 now err"
| "goes_wrong o1 now T_answered err = start_failed o1 now err"
| "goes_wrong o1 now T_context err = start_failed o1 now err"
| "goes_wrong o1 now T_connect err = start_failed o1 now err"
| "goes_wrong o1 now (T_keys a digits) err = asker_failed o1 now a err"
| "goes_wrong o1 now T_end_mark err = asker_failed o1 now (Ask_tool [] (js ''end_call'')) err"
| "goes_wrong o1 now T_action_mark err = skip"
| "goes_wrong o1 now (T_consult_working callId args) err = asker_failed o1 now (Ask_tool callId (mo_consultToolName o1)) err"
| "goes_wrong o1 now (T_consult callId extra) err = asker_failed o1 now (Ask_tool callId (mo_consultToolName o1)) err"
| "goes_wrong o1 now (T_party_hold a c reason first) err = asker_failed o1 now a err"
| "goes_wrong o1 now (T_party_dial a c reason first) err = asker_failed o1 now a err"
| "goes_wrong o1 now (T_party_wait a c n first callId) err = asker_failed o1 now a err"
| "goes_wrong o1 now (T_switch a n) err = asker_failed o1 now a err"
| "goes_wrong o1 now (T_drop a n) err = asker_failed o1 now a err"
| "goes_wrong o1 now (T_swap a other current) err = asker_failed o1 now a err"
| "goes_wrong o1 now (T_merge_mark other current) err = merge_failed other err"
| "goes_wrong o1 now (T_merge_cmd other current) err = merge_failed other err"
| "goes_wrong o1 now (T_merge_close other current) err = merge_failed other err"
| "goes_wrong o1 now (T_nav_press keys) err = nav_pressed_failed err"
| "goes_wrong o1 now t err = goes_on o1 now t V_none"

fun timer_fires :: "mission_options \<Rightarrow> int \<Rightarrow> mission_timer \<Rightarrow> mh" where
  "timer_fires o1 now Tm_max = finish o1 now Max_duration None True None"
| "timer_fires o1 now (Tm_poll since deadline x) = poll now since deadline x"

section \<open>The machine\<close>

datatype mission_event =
    Ev_start int
  | Ev_done int nat "js_error + m_value"
  | Ev_timer int nat
  | Ev_call int nat call_msg
  | Ev_downlink "byte list"
  | Ev_link_closed
  | Ev_window int real real
  | Ev_transcript_text int jstr
  | Ev_transcriber_error int jstr
  | Ev_nav_check int
  | Ev_decision int "jstr + answers"
  | Ev_model_audio int "byte list" "jstr option"
  | Ev_clear_audio
  | Ev_said int bool jstr bool
  | Ev_tool int jstr jstr json
  | Ev_action int nat jstr json
  | Ev_response_done
  | Ev_session_closed int jstr
  | Ev_session_error jstr
  | Ev_listen int jstr jstr
  | Ev_listener_over int jstr
  | Ev_stop_listeners
  | Ev_finish int outcome "jstr option" bool

fun mission_step :: "mission_options \<Rightarrow> mission_event \<Rightarrow> mh" where
  "mission_step o1 (Ev_start now) = start o1 now"
| "mission_step o1 (Ev_done now t r) = reads (\<lambda>s.
     case jm_get (m_tasks s) t of
       None \<Rightarrow> skip
     | Some task \<Rightarrow> steps
         [upd (\<lambda>s. s\<lparr>m_tasks := jm_delete t (m_tasks s)\<rparr>),
          (case r of Inr v \<Rightarrow> goes_on o1 now task v | Inl err \<Rightarrow> goes_wrong o1 now task err)])"
| "mission_step o1 (Ev_timer now t) = reads (\<lambda>s.
     case jm_get (m_timers s) t of
       None \<Rightarrow> skip
     | Some x \<Rightarrow> steps [upd (\<lambda>s. s\<lparr>m_timers := jm_delete t (m_timers s)\<rparr>), timer_fires o1 now x])"
| "mission_step o1 (Ev_call now conf msg) = reads (\<lambda>s. whenever (m_attached s) (onCallEvent o1 now conf msg))"
| "mission_step o1 (Ev_downlink pcm) = reads (\<lambda>s. whenever (m_attached s) (onDownlink o1 pcm))"
| "mission_step o1 Ev_link_closed = reads (\<lambda>s. whenever (m_attached s \<and> \<not> m_ended s)
     (debug (js ''otacon socket closed during the call'')))"
| "mission_step o1 (Ev_window now prob rms) = onLineSound o1 now prob rms"
| "mission_step o1 (Ev_transcript_text now delta) = nav_if_on o1 now (\<lambda>t. Nav_line_text t delta)"
| "mission_step o1 (Ev_transcriber_error now message) = transcriber_failed o1 now message"
| "mission_step o1 (Ev_nav_check now) = nav_if_on o1 now Nav_tick"
| "mission_step o1 (Ev_decision now r) = nav_does o1 now (\<lambda>t. case r of Inr a \<Rightarrow> Nav_answers t a | Inl m \<Rightarrow> Nav_failed m)"
| "mission_step o1 (Ev_model_audio now audio itemId) = onModelAudio o1 now audio itemId"
| "mission_step o1 Ev_clear_audio = onClearAudio"
| "mission_step o1 (Ev_said now assistant text isFinal) = onTranscript o1 now assistant text isFinal"
| "mission_step o1 (Ev_tool now callId name args) = onToolCall o1 now callId name args"
| "mission_step o1 (Ev_action now rid action args) = lineAction o1 now rid action args"
| "mission_step o1 Ev_response_done = onResponseDone"
| "mission_step o1 (Ev_session_closed now reason) = session_closed o1 now reason"
| "mission_step o1 (Ev_session_error message) = debug (js ''realtime error: '' @ message)"
| "mission_step o1 (Ev_listen now lid who) = addListener now lid who"
| "mission_step o1 (Ev_listener_over now lid) = listener_over now lid"
| "mission_step o1 Ev_stop_listeners = stopListeners"
| "mission_step o1 (Ev_finish now x summary words) = finish o1 now x summary words None"

definition mission_run :: "mission_options \<Rightarrow> mission_event list \<Rightarrow> mh" where
  "mission_run o1 = run_events (mission_step o1)"

end
