(* ===== verification/MissionFacts.thy ===== *)
theory MissionFacts
  imports Mission Contracts "HOL-Library.Sublist"
begin

text \<open>
  What holds of a mission between two events (\<open>mission_ok\<close>) and what an event may do to it and to
  the outside (\<open>later\<close>, \<open>effect_ok\<close>). \<open>safe o1 s0\<close> collects the three for a handler that
  starts at or after state \<open>s0\<close>; its rules go through a handler statement by statement, and every
  handler of theory \<open>Mission\<close> is proved safe with them.
\<close>

section \<open>The invariant\<close>

text \<open>A line number that exists.\<close>

definition line_in :: "nat \<Rightarrow> nat \<Rightarrow> bool" where
  "line_in k n \<longleftrightarrow> 1 \<le> n \<and> n \<le> k"

fun task_ok :: "mission_options \<Rightarrow> nat \<Rightarrow> bool \<Rightarrow> task \<Rightarrow> bool" where
  "task_ok o1 k d (T_dial_wait c) = (0 < k)"
| "task_ok o1 k d (T_party_hold a c r first) = (c \<in> set (mo_contacts o1) \<and> line_in k first)"
| "task_ok o1 k d (T_party_dial a c r first) = line_in k first"
| "task_ok o1 k d (T_party_wait a c n first i) = (line_in k n \<and> line_in k first)"
| "task_ok o1 k d (T_party_hangup a c n first) = (line_in k n \<and> line_in k first)"
| "task_ok o1 k d (T_switch a n) = line_in k n"
| "task_ok o1 k d (T_drop a n) = line_in k n"
| "task_ok o1 k d (T_drop_resume a n) = line_in k n"
| "task_ok o1 k d (T_swap a n m) = (line_in k n \<and> line_in k m)"
| "task_ok o1 k d (T_merge_close n m) = d"
| "task_ok o1 k d t = True"

definition tasks_ok :: "mission_options \<Rightarrow> mission \<Rightarrow> bool" where
  "tasks_ok o1 s \<longleftrightarrow> distinct (map fst (m_tasks s)) \<and> list_all (\<lambda>(i, t). 0 < i \<and> i < m_next s
     \<and> task_ok o1 (length (m_lines s)) (m_detached s) t) (m_tasks s) \<and> 0 < m_next s"

definition lines_ok :: "mission \<Rightarrow> bool" where
  "lines_ok s \<longleftrightarrow> map ln_n (m_lines s) = [1 ..< length (m_lines s) + 1]
     \<and> (case m_active s of None \<Rightarrow> True | Some n \<Rightarrow> line_in (length (m_lines s)) n)"

definition preroll_ok :: "mission \<Rightarrow> bool" where
  "preroll_ok s \<longleftrightarrow> m_prerollBytes s = length (concat (m_preroll s))
     \<and> (m_prerollBytes s \<le> PREROLL_MS * 32 \<or> length (m_preroll s) \<le> 1)"

definition mission_ok :: "mission_options \<Rightarrow> mission \<Rightarrow> bool" where
  "mission_ok o1 s \<longleftrightarrow> tasks_ok o1 s \<and> lines_ok s \<and> preroll_ok s \<and> (m_muted s \<longrightarrow> m_nav_on s)"

text \<open>What never goes back.\<close>

definition later :: "mission \<Rightarrow> mission \<Rightarrow> bool" where
  "later s0 s \<longleftrightarrow> (m_ended s0 \<longrightarrow> m_ended s) \<and> (m_detached s0 \<longrightarrow> m_detached s)
     \<and> length (m_lines s0) \<le> length (m_lines s) \<and> prefix (m_log s0) (m_log s)
     \<and> m_startedAt s = m_startedAt s0"

definition open_line :: "mission \<Rightarrow> bool" where
  "open_line s \<longleftrightarrow> \<not> m_ended s \<and> \<not> m_detached s"

definition numbers :: "mission_options \<Rightarrow> jstr set" where
  "numbers o1 = insert (party_number (mo_party o1)) (ct_number ` set (mo_contacts o1))"

fun effect_ok :: "mission_options \<Rightarrow> mission \<Rightarrow> mission_effect \<Rightarrow> bool" where
  "effect_ok o1 s0 (E_cmd i (C_dial n)) = (n \<in> numbers o1)"
| "effect_ok o1 s0 (E_line_audio pcm) = open_line s0"
| "effect_ok o1 s0 (E_listener_send l pcm) = open_line s0"
| "effect_ok o1 s0 (E_transcriber_send pcm) = open_line s0"
| "effect_ok o1 s0 (E_detector pcm) = open_line s0"
| "effect_ok o1 s0 (E_report r) = (prefix (m_log s0) (rp_log r) \<and> rp_startedAt r = m_startedAt s0)"
| "effect_ok o1 s0 e = True"

definition from_ok :: "mission_options \<Rightarrow> mission \<Rightarrow> mission \<Rightarrow> bool" where
  "from_ok o1 s0 s \<longleftrightarrow> mission_ok o1 s \<and> later s0 s"

definition safe :: "mission_options \<Rightarrow> mission \<Rightarrow> mh \<Rightarrow> bool" where
  "safe o1 s0 f \<longleftrightarrow> keeps (from_ok o1 s0) (effect_ok o1 s0) f"

lemma later_refl [simp]: "later s s"
  by (simp add: later_def)

lemma later_trans: "later r s \<Longrightarrow> later s t \<Longrightarrow> later r t"
  by (auto simp: later_def elim: prefix_order.order_trans)

lemma from_okD: "from_ok o1 s0 s \<Longrightarrow> mission_ok o1 s" "from_ok o1 s0 s \<Longrightarrow> later s0 s"
  by (simp_all add: from_ok_def)

lemma from_ok_self: "from_ok o1 s s \<longleftrightarrow> mission_ok o1 s"
  by (simp add: from_ok_def)

lemma line_in_mono: "line_in k n \<Longrightarrow> k \<le> k' \<Longrightarrow> line_in k' n"
  by (simp add: line_in_def)

lemma task_ok_mono: "task_ok o1 k d t \<Longrightarrow> k \<le> k' \<Longrightarrow> (d \<longrightarrow> d') \<Longrightarrow> task_ok o1 k' d' t"
  by (cases "(o1, k, d, t)" rule: task_ok.cases) (auto intro: line_in_mono)

lemma effect_ok_later: "effect_ok o1 s e \<Longrightarrow> later s0 s \<Longrightarrow> effect_ok o1 s0 e"
  by (cases "(o1, s, e)" rule: effect_ok.cases)
     (auto simp: later_def open_line_def elim: prefix_order.order_trans)

section \<open>Rules\<close>

text \<open>A statement after which more is known, and invariants together.\<close>

lemma keeps_after:
  assumes "\<And>s. P s \<Longrightarrow> P' (fst (f s)) \<and> (\<forall>e\<in>set (snd (f s)). Q e)"
    and "\<And>s. P' s \<Longrightarrow> P (fst (steps fs s)) \<and> (\<forall>e\<in>set (snd (steps fs s)). Q e)"
  shows "keeps P Q (steps (f # fs))"
  using assms unfolding keeps_def by (auto simp: Let_def case_prod_beta)

lemma keeps_both: "keeps P Q f \<Longrightarrow> keeps P' Q' f \<Longrightarrow> keeps (\<lambda>s. P s \<and> P' s) Q f"
  unfolding keeps_def by blast

named_theorems safe_intros \<open>rules that prove a handler safe\<close>

lemma safe_skip [safe_intros]: "safe o1 s0 skip"
  by (simp add: safe_def keeps_skip)

lemma safe_emit [safe_intros]: "effect_ok o1 s0 e \<Longrightarrow> safe o1 s0 (emit e)"
  by (simp add: safe_def keeps_emit)

lemma safe_emits [safe_intros]: "list_all (effect_ok o1 s0) es \<Longrightarrow> safe o1 s0 (emits es)"
  by (simp add: safe_def keeps_emits)

lemma safe_whenever [safe_intros]: "(b \<Longrightarrow> safe o1 s0 f) \<Longrightarrow> safe o1 s0 (whenever b f)"
  by (simp add: safe_def keeps_whenever)

lemma safe_if [safe_intros]: "(b \<Longrightarrow> safe o1 s0 f) \<Longrightarrow> (\<not> b \<Longrightarrow> safe o1 s0 g) \<Longrightarrow> safe o1 s0 (if b then f else g)"
  by simp

lemma safe_Nil [safe_intros]: "safe o1 s0 (steps [])"
  by (simp add: safe_def keeps_steps_Nil)

lemma safe_Cons [safe_intros]: "safe o1 s0 f \<Longrightarrow> safe o1 s0 (steps fs) \<Longrightarrow> safe o1 s0 (steps (f # fs))"
  by (simp add: safe_def keeps_steps_Cons)

lemma safe_map [safe_intros]: "(\<And>x. x \<in> set xs \<Longrightarrow> safe o1 s0 (f x)) \<Longrightarrow> safe o1 s0 (steps (map f xs))"
  by (simp add: safe_def keeps_steps_map)

lemma safe_reads [safe_intros]:
  assumes "\<And>s. mission_ok o1 s \<Longrightarrow> later s0 s \<Longrightarrow> safe o1 s (f s)"
  shows "safe o1 s0 (reads f)"
  unfolding safe_def keeps_def reads_def
proof (intro allI impI)
  fix s assume ok: "from_ok o1 s0 s"
  then have "safe o1 s (f s)" "from_ok o1 s s" "later s0 s" using assms by (auto dest: from_okD simp: from_ok_self)
  then show "from_ok o1 s0 (fst (f s s)) \<and> (\<forall>e\<in>set (snd (f s s)). effect_ok o1 s0 e)"
    using ok unfolding safe_def keeps_def from_ok_def by (meson later_trans effect_ok_later)
qed

text \<open>The same, the state looked at still counting from \<open>s0\<close>.\<close>

lemma safe_reads_from:
  "(\<And>s. mission_ok o1 s \<Longrightarrow> later s0 s \<Longrightarrow> safe o1 s0 (f s)) \<Longrightarrow> safe o1 s0 (reads f)"
  unfolding safe_def by (rule keeps_reads) (simp add: from_ok_def)

text \<open>An assignment, after which more may be known.\<close>

lemma safe_upd:
  "(\<And>s. mission_ok o1 s \<Longrightarrow> later s0 s \<Longrightarrow> mission_ok o1 (f s) \<and> later s (f s)) \<Longrightarrow> safe o1 s0 (upd f)"
  by (auto simp: safe_def keeps_def upd_def from_ok_def intro: later_trans)

text \<open>At one state.\<close>

definition safe_at :: "mission_options \<Rightarrow> mission \<Rightarrow> mh \<Rightarrow> bool" where
  "safe_at o1 s f \<longleftrightarrow> (mission_ok o1 s \<longrightarrow> from_ok o1 s (fst (f s)) \<and> (\<forall>e\<in>set (snd (f s)). effect_ok o1 s e))"

lemma safe_safe_at: "safe o1 s f \<Longrightarrow> safe_at o1 s f"
  unfolding safe_def safe_at_def keeps_def by (metis from_ok_self)

lemma safe_at_upd:
  "(mission_ok o1 s \<Longrightarrow> mission_ok o1 (f s) \<and> later s (f s)) \<Longrightarrow> safe_at o1 (f s) (steps fs) \<Longrightarrow> safe_at o1 s (steps (upd f # fs))"
  unfolding safe_at_def from_ok_def
  by (simp add: upd_def Let_def case_prod_beta) (meson later_trans effect_ok_later)

lemma safe_reads_at:
  "(\<And>s. mission_ok o1 s \<Longrightarrow> later s0 s \<Longrightarrow> safe_at o1 s (f s)) \<Longrightarrow> safe o1 s0 (reads f)"
  unfolding safe_def keeps_def reads_def safe_at_def from_ok_def
  by (meson later_trans effect_ok_later)

section \<open>Assignments the invariant does not see\<close>

text \<open>The fields the invariant reads.\<close>

definition same_core :: "mission \<Rightarrow> mission \<Rightarrow> bool" where
  "same_core s s' \<longleftrightarrow> m_tasks s' = m_tasks s \<and> m_next s' = m_next s \<and> m_lines s' = m_lines s \<and> m_active s' = m_active s
     \<and> m_preroll s' = m_preroll s \<and> m_prerollBytes s' = m_prerollBytes s
     \<and> m_muted s' = m_muted s \<and> m_nav_on s' = m_nav_on s \<and> m_detached s' = m_detached s
     \<and> m_log s' = m_log s \<and> m_startedAt s' = m_startedAt s \<and> (m_ended s \<longrightarrow> m_ended s')"

lemma lines_ok_numbers:
  assumes "map ln_n (m_lines s') = map ln_n (m_lines s)" "m_active s' = m_active s"
  shows "lines_ok s' = lines_ok s"
proof -
  have len: "length (m_lines s') = length (m_lines s)" by (rule map_eq_imp_length_eq [OF assms(1)])
  show ?thesis unfolding lines_ok_def assms len by (rule refl)
qed

lemma lines_ok_cong: "m_lines s' = m_lines s \<Longrightarrow> m_active s' = m_active s \<Longrightarrow> lines_ok s' = lines_ok s"
  by (rule lines_ok_numbers) simp_all

lemma preroll_ok_cong:
  "m_preroll s' = m_preroll s \<Longrightarrow> m_prerollBytes s' = m_prerollBytes s \<Longrightarrow> preroll_ok s' = preroll_ok s"
  by (simp only: preroll_ok_def)

lemma tasks_ok_cong:
  "m_tasks s' = m_tasks s \<Longrightarrow> m_next s' = m_next s \<Longrightarrow> length (m_lines s') = length (m_lines s) \<Longrightarrow>
   m_detached s' = m_detached s \<Longrightarrow> tasks_ok o1 s' = tasks_ok o1 s"
  by (simp only: tasks_ok_def)

lemmas ok_congs = lines_ok_cong preroll_ok_cong tasks_ok_cong

lemma same_core_ok:
  assumes "same_core s s'" "mission_ok o1 s"
  shows "mission_ok o1 s' \<and> later s s'"
  using assms lines_ok_cong [of s' s] preroll_ok_cong [of s' s] tasks_ok_cong [of s' s o1]
  unfolding same_core_def mission_ok_def later_def by simp

lemma safe_same [safe_intros]: "(\<And>s. same_core s (f s)) \<Longrightarrow> safe o1 s0 (upd f)"
  by (rule safe_upd) (rule same_core_ok)

lemmas [simp] = same_core_def

section \<open>Small parts\<close>

lemma tasks_okI:
  "tasks_ok o1 s \<Longrightarrow> task_ok o1 (length (m_lines s)) (m_detached s) t \<Longrightarrow>
   tasks_ok o1 (s\<lparr>m_tasks := m_tasks s @ [(m_next s, t)], m_next := m_next s + 1\<rparr>)"
  by (fastforce simp: tasks_ok_def list_all_iff less_Suc_eq)

lemma await_ok:
  assumes "mission_ok o1 s" "task_ok o1 (length (m_lines s)) (m_detached s) t"
  defines "s' \<equiv> s\<lparr>m_tasks := m_tasks s @ [(m_next s, t)], m_next := m_next s + 1\<rparr>"
  shows "mission_ok o1 s'" "later s s'"
  using assms tasks_okI [of o1 s t] lines_ok_cong [of s' s] preroll_ok_cong [of s' s]
  by (simp_all add: mission_ok_def later_def)

lemma safe_await [safe_intros]:
  assumes "task_ok o1 (length (m_lines s0)) (m_detached s0) t" and "\<And>i s. effect_ok o1 s (mk i)"
  shows "safe o1 s0 (await mk t)"
  unfolding await_def
proof (rule safe_reads_at)
  fix s assume s: "mission_ok o1 s" "later s0 s"
  have t: "task_ok o1 (length (m_lines s)) (m_detached s) t"
    by (rule task_ok_mono [OF assms(1)]) (use s(2) in \<open>simp_all add: later_def\<close>)
  show "safe_at o1 s (steps [upd (\<lambda>s. s\<lparr>m_tasks := m_tasks s @ [(m_next s, t)], m_next := m_next s + 1\<rparr>), emit (mk (m_next s))])"
    using await_ok [OF s(1) t] s assms(2)
    by (simp add: safe_at_def from_ok_def upd_def emit_def)
qed

lemma later_log [simp]: "later s (s\<lparr>m_log := m_log s @ xs\<rparr>)"
  by (simp add: later_def)

lemma mission_ok_log [simp]: "mission_ok o1 (s\<lparr>m_log := xs\<rparr>) = mission_ok o1 s"
  using lines_ok_cong [of "s\<lparr>m_log := xs\<rparr>" s] preroll_ok_cong [of "s\<lparr>m_log := xs\<rparr>" s]
    tasks_ok_cong [of "s\<lparr>m_log := xs\<rparr>" s o1] by (simp add: mission_ok_def)

lemma safe_note_on [safe_intros]: "safe o1 s0 (note_on now text l)"
  unfolding note_on_def
  by (rule safe_upd) simp

lemma safe_debug [safe_intros]: "safe o1 s0 (debug m)"
  unfolding debug_def by (intro safe_intros) simp

lemma safe_log_note [safe_intros]: "safe o1 s0 (log_note now text)"
  unfolding log_note_def by (intro safe_intros)

lemma safe_cmd [safe_intros]:
  "task_ok o1 (length (m_lines s0)) (m_detached s0) t \<Longrightarrow> (\<And>n. c = C_dial n \<Longrightarrow> n \<in> numbers o1) \<Longrightarrow> safe o1 s0 (cmd c t)"
  unfolding cmd_def by (rule safe_await) (cases c; simp)+

lemma safe_set_timer [safe_intros]: "safe o1 s0 (set_timer ms t)"
  unfolding set_timer_def
proof (rule safe_reads_at)
  fix s assume s: "mission_ok o1 s"
  let ?s' = "s\<lparr>m_timers := m_timers s @ [(m_next s, t)], m_next := m_next s + 1\<rparr>"
  have "tasks_ok o1 ?s'" using s by (auto simp: mission_ok_def tasks_ok_def list_all_iff)
  then have "mission_ok o1 ?s'"
    using s lines_ok_cong [of ?s' s] preroll_ok_cong [of ?s' s] by (simp add: mission_ok_def)
  then show "safe_at o1 s (steps [upd (\<lambda>s. s\<lparr>m_timers := m_timers s @ [(m_next s, t)], m_next := m_next s + 1\<rparr>), emit (E_timer (m_next s) ms)])"
    by (simp add: safe_at_def from_ok_def upd_def emit_def later_def)
qed

lemma safe_set_line_state [safe_intros]: "safe o1 s0 (set_line_state n st)"
  unfolding set_line_state_def
proof (rule safe_upd)
  fix s assume s: "mission_ok o1 s"
  let ?s' = "s\<lparr>m_lines := map (\<lambda>l. if ln_n l = n then l\<lparr>ln_state := st\<rparr> else l) (m_lines s)\<rparr>"
  have "lines_ok ?s' = lines_ok s" by (rule lines_ok_numbers) simp_all
  then show "mission_ok o1 ?s' \<and> later s ?s'"
    using s tasks_ok_cong [of ?s' s o1] preroll_ok_cong [of ?s' s] by (simp add: mission_ok_def later_def)
qed

lemma safe_say [safe_intros]: "safe o1 s0 (say t)"
  unfolding say_def by (intro safe_intros) simp

lemma safe_silentNote [safe_intros]: "safe o1 s0 (silentNote o1 t)"
  unfolding silentNote_def by (intro safe_intros) simp_all

lemma safe_to_model [safe_intros]: "safe o1 s0 (to_model o1 pcm)"
  unfolding to_model_def by (intro safe_intros) simp_all

lemma safe_answer [safe_intros]: "safe o1 s0 (answer a r q)"
  unfolding answer_def by (cases a) (simp_all add: safe_intros)

section \<open>Hold music and the navigator's end\<close>

lemma drop_preroll_ok:
  "drop_preroll q (length (concat q)) = (q', n) \<Longrightarrow> n = length (concat q') \<and> (n \<le> PREROLL_MS * 32 \<or> length q' \<le> 1)"
  by (induction q rule: induct_list012) (auto split: if_splits)

lemma safe_keepPreroll [safe_intros]: "safe o1 s0 (keepPreroll pcm)"
  unfolding keepPreroll_def
proof (rule safe_upd)
  fix s assume s: "mission_ok o1 s"
  obtain q n where q: "drop_preroll (m_preroll s @ [pcm]) (m_prerollBytes s + length pcm) = (q, n)" by (rule prod.exhaust)
  have "drop_preroll (m_preroll s @ [pcm]) (length (concat (m_preroll s @ [pcm]))) = (q, n)"
    using q s by (simp add: mission_ok_def preroll_ok_def)
  from drop_preroll_ok [OF this] have "preroll_ok (s\<lparr>m_preroll := q, m_prerollBytes := n\<rparr>)"
    by (auto simp: preroll_ok_def)
  then have "mission_ok o1 (s\<lparr>m_preroll := q, m_prerollBytes := n\<rparr>)"
    using s lines_ok_cong [of "s\<lparr>m_preroll := q, m_prerollBytes := n\<rparr>" s]
      tasks_ok_cong [of "s\<lparr>m_preroll := q, m_prerollBytes := n\<rparr>" s o1]
    by (simp add: mission_ok_def)
  then show "mission_ok o1 (let (q, n) = drop_preroll (m_preroll s @ [pcm]) (m_prerollBytes s + length pcm)
      in s\<lparr>m_preroll := q, m_prerollBytes := n\<rparr>) \<and> later s (let (q, n) = drop_preroll (m_preroll s @ [pcm]) (m_prerollBytes s + length pcm)
      in s\<lparr>m_preroll := q, m_prerollBytes := n\<rparr>)"
    by (simp add: q later_def)
qed

lemma safe_clear_preroll [safe_intros]: "safe o1 s0 clear_preroll"
  unfolding clear_preroll_def
proof (rule safe_upd)
  fix s assume s: "mission_ok o1 s"
  then show "mission_ok o1 (s\<lparr>m_preroll := [], m_prerollBytes := 0\<rparr>) \<and> later s (s\<lparr>m_preroll := [], m_prerollBytes := 0\<rparr>)"
    using lines_ok_cong [of "s\<lparr>m_preroll := [], m_prerollBytes := 0\<rparr>" s]
      tasks_ok_cong [of "s\<lparr>m_preroll := [], m_prerollBytes := 0\<rparr>" s o1]
    by (simp add: mission_ok_def preroll_ok_def later_def)
qed

lemma mission_ok_mute:
  assumes "mission_ok o1 s" "m \<longrightarrow> n"
  shows "mission_ok o1 (s\<lparr>m_muted := m, m_nav_on := n\<rparr>)"
  using assms lines_ok_cong [of "s\<lparr>m_muted := m, m_nav_on := n\<rparr>" s] preroll_ok_cong [of "s\<lparr>m_muted := m, m_nav_on := n\<rparr>" s]
    tasks_ok_cong [of "s\<lparr>m_muted := m, m_nav_on := n\<rparr>" s o1] by (simp add: mission_ok_def)

lemma mission_ok_nav:
  assumes "mission_ok o1 s" "m_muted s \<longrightarrow> n"
  shows "mission_ok o1 (s\<lparr>m_nav_on := n, m_transcriber := t\<rparr>)"
  using assms lines_ok_cong [of "s\<lparr>m_nav_on := n, m_transcriber := t\<rparr>" s]
    preroll_ok_cong [of "s\<lparr>m_nav_on := n, m_transcriber := t\<rparr>" s]
    tasks_ok_cong [of "s\<lparr>m_nav_on := n, m_transcriber := t\<rparr>" s o1] by (simp add: mission_ok_def)

lemma safe_unmuted [safe_intros]: "safe o1 s0 (upd (m_muted_update (\<lambda>_. False)))"
proof (rule safe_upd)
  fix s assume "mission_ok o1 s"
  then show "mission_ok o1 (s\<lparr>m_muted := False\<rparr>) \<and> later s (s\<lparr>m_muted := False\<rparr>)"
    using mission_ok_mute [of o1 s False "m_nav_on s"] by (simp add: later_def)
qed

lemma safe_unmute [safe_intros]: "safe o1 s0 (unmute o1 why)"
  unfolding unmute_def
  by (intro safe_intros safe_map [where f = "to_model o1"]) (simp_all add: safe_intros)

lemma not_muted_unmute: "\<not> m_muted (fst (unmute o1 why s))"
proof (cases "m_muted s")
  case True
  let ?rest = "[debug (why @ js '': the voice model hears the line again''),
      whenever (\<not> m_detached s) (steps (upd (\<lambda>s. s\<lparr>m_up := []\<rparr>) # map (to_model o1) (m_preroll s))), clear_preroll]"
  have "keeps (\<lambda>s. \<not> m_muted s) (\<lambda>_. True) (steps ?rest)"
    unfolding debug_def clear_preroll_def
    by (intro keeps_intros) (simp_all add: to_model_def keeps_intros)
  then have "\<not> m_muted (fst (steps ?rest (s\<lparr>m_muted := False\<rparr>)))" by (rule keepsD(1)) simp
  with True show ?thesis
    by (simp add: unmute_def reads_def whenever_def upd_def case_prod_beta Let_def)
qed (simp add: unmute_def reads_def whenever_def skip_def)

lemma safe_stopNavigator [safe_intros]: "safe o1 s0 (stopNavigator o1)"
proof -
  let ?P = "\<lambda>s. from_ok o1 s0 s \<and> \<not> m_muted s"
  let ?rest = "[upd (\<lambda>s. if m_nav_on s then s\<lparr>m_nav := nav_stop (m_nav s)\<rparr> else s),
      reads (\<lambda>s. whenever (m_transcriber s) (emit E_transcriber_close)),
      upd (\<lambda>s. s\<lparr>m_nav_on := False, m_transcriber := False\<rparr>)]"
  have same: "?P s \<Longrightarrow> same_core s t \<Longrightarrow> ?P t" for s t
    using same_core_ok [of s t o1] by (auto simp: from_ok_def intro: later_trans)
  have last: "?P s \<Longrightarrow> ?P (s\<lparr>m_nav_on := False, m_transcriber := False\<rparr>)" for s
    using mission_ok_nav [of o1 s False False] by (simp add: from_ok_def later_def)
  have nav: "?P s \<Longrightarrow> ?P (if m_nav_on s then s\<lparr>m_nav := nav_stop (m_nav s)\<rparr> else s)" for s
    by (cases "m_nav_on s") (auto intro: same [of s, THEN conjunct1])
  have "keeps ?P (effect_ok o1 s0) (steps ?rest)"
    by (intro keeps_intros) (erule nav | erule last | simp)+
  then have "?P s \<Longrightarrow> from_ok o1 s0 (fst (steps ?rest s)) \<and> (\<forall>e\<in>set (snd (steps ?rest s)). effect_ok o1 s0 e)" for s
    unfolding keeps_def by blast
  moreover have "from_ok o1 s0 s \<Longrightarrow> ?P (fst (unmute o1 w s)) \<and> (\<forall>e\<in>set (snd (unmute o1 w s)). effect_ok o1 s0 e)" for s w
    using safe_unmute [of o1 s0 w] not_muted_unmute [of o1 w s] by (simp add: safe_def keeps_def)
  ultimately show ?thesis
    unfolding stopNavigator_def safe_def by (intro keeps_after [where P' = ?P]) blast+
qed

section \<open>Listeners and the end\<close>

lemma safe_stopListeners [safe_intros]: "safe o1 s0 stopListeners"
  unfolding stopListeners_def by (intro safe_intros) (simp add: list_all_iff)

lemma safe_addListener [safe_intros]: "safe o1 s0 (addListener now l who)"
  unfolding addListener_def by (intro safe_intros) simp_all

lemma safe_listener_over [safe_intros]: "safe o1 s0 (listener_over now l)"
  unfolding listener_over_def by (intro safe_intros) (simp add: safe_intros split: option.split)

lemma safe_finish_end [safe_intros]: "safe o1 s0 (finish_end o1 now x)"
  unfolding finish_end_def by (intro safe_intros) (simp_all add: report_of_def)

lemma safe_finish_notes [safe_intros]: "safe o1 s0 (finish_notes o1 now x)"
  unfolding finish_notes_def by (intro safe_intros) simp_all

lemma safe_lastWords [safe_intros]: "safe o1 s0 (lastWords o1 now x)"
  unfolding lastWords_def by (intro safe_intros) simp_all

lemma safe_heard_words [safe_intros]: "safe o1 s0 (heard_words o1 now x)"
  unfolding heard_words_def by (intro safe_intros) simp_all

lemma safe_finish_hangups [safe_intros]: "safe o1 s0 (finish_hangups o1 now x w cs)"
  by (cases cs) (auto intro!: safe_intros)

lemma safe_finish [safe_intros]: "safe o1 s0 (finish o1 now x summary w en)"
  unfolding finish_def
  by (intro safe_intros) (simp_all add: safe_intros split: option.split)

lemma safe_checkMergedCall [safe_intros]: "safe o1 s0 (checkMergedCall conf)"
  unfolding checkMergedCall_def by (intro safe_intros) (simp_all add: list_all_iff)

section \<open>Lines\<close>

lemma lines_okD: "lines_ok s \<Longrightarrow> l \<in> set (m_lines s) \<Longrightarrow> line_in (length (m_lines s)) (ln_n l)"
proof -
  assume "lines_ok s" "l \<in> set (m_lines s)"
  then have "ln_n l \<in> set [1 ..< length (m_lines s) + 1]"
    unfolding lines_ok_def by (metis image_eqI image_set)
  then show ?thesis by (auto simp: line_in_def)
qed

lemma live_line_in: "lines_ok s \<Longrightarrow> l \<in> set (live_lines s) \<Longrightarrow> line_in (length (m_lines s)) (ln_n l)"
  by (rule lines_okD) (simp_all add: live_lines_def)

lemma find_in: "find P xs = Some x \<Longrightarrow> x \<in> set xs"
  by (auto simp: find_Some_iff)

lemma find_line_in: "lines_ok s \<Longrightarrow> find P (m_lines s) = Some l \<Longrightarrow> line_in (length (m_lines s)) (ln_n l)"
  by (blast intro: lines_okD find_in)

lemma live_line_some: "lines_ok s \<Longrightarrow> live_line s n = Some l \<Longrightarrow> line_in (length (m_lines s)) (ln_n l)"
  by (auto simp: live_line_def split: option.splits intro: find_line_in)

lemma live_find_in: "lines_ok s \<Longrightarrow> find P (live_lines s) = Some l \<Longrightarrow> line_in (length (m_lines s)) (ln_n l)"
  by (blast intro: live_line_in find_in)

lemma current_line_some: "lines_ok s \<Longrightarrow> current_line s = Some l \<Longrightarrow> line_in (length (m_lines s)) (ln_n l)"
  by (auto simp: current_line_def line_n_def split: option.splits intro: find_line_in)

lemma mission_ok_lines: "mission_ok o1 s \<Longrightarrow> lines_ok s"
  by (simp add: mission_ok_def)

lemma mission_ok_active:
  assumes "mission_ok o1 s" "line_in (length (m_lines s)) n"
  shows "mission_ok o1 (s\<lparr>m_active := Some n\<rparr>)" "later s (s\<lparr>m_active := Some n\<rparr>)"
  using assms preroll_ok_cong [of "s\<lparr>m_active := Some n\<rparr>" s] tasks_ok_cong [of "s\<lparr>m_active := Some n\<rparr>" s o1]
  by (auto simp add: mission_ok_def later_def lines_ok_def)

lemma safe_set_active:
  assumes "line_in (length (m_lines s0)) n"
  shows "safe o1 s0 (upd (\<lambda>s. s\<lparr>m_active := Some n\<rparr>))"
proof (rule safe_upd)
  fix s assume s: "mission_ok o1 s" "later s0 s"
  have "line_in (length (m_lines s)) n" by (rule line_in_mono [OF assms]) (use s in \<open>simp add: later_def\<close>)
  then show "mission_ok o1 (s\<lparr>m_active := Some n\<rparr>) \<and> later s (s\<lparr>m_active := Some n\<rparr>)"
    using mission_ok_active s by blast
qed

lemma mission_ok_addLine:
  assumes "mission_ok o1 s"
  shows "mission_ok o1 (fst (addLine c p s))" "later s (fst (addLine c p s))"
    "length (m_lines (fst (addLine c p s))) = length (m_lines s) + 1" "snd (addLine c p s) = []"
proof -
  let ?s' = "fst (addLine c p s)"
  show len: "length (m_lines ?s') = length (m_lines s) + 1" by (simp add: addLine_def upd_def)
  have "task_ok o1 k d t \<Longrightarrow> task_ok o1 (Suc k) d t" for k d t by (erule task_ok_mono) simp_all
  then have "tasks_ok o1 ?s'" using assms unfolding mission_ok_def tasks_ok_def len
    by (auto simp: addLine_def upd_def list_all_iff)
  moreover have "lines_ok ?s'"
    using assms by (auto simp: mission_ok_def lines_ok_def addLine_def upd_def line_in_def split: option.splits)
  moreover have "preroll_ok ?s' = preroll_ok s" by (rule preroll_ok_cong) (simp_all add: addLine_def upd_def)
  ultimately show "mission_ok o1 ?s'" using assms by (simp add: mission_ok_def addLine_def upd_def)
  show "later s ?s'" "snd (addLine c p s) = []" by (simp_all add: later_def addLine_def upd_def)
qed

text \<open>After a line is added, it is there.\<close>

lemma safe_addLine:
  assumes "\<And>s. mission_ok o1 s \<Longrightarrow> later s0 s \<Longrightarrow> length (m_lines s0) < length (m_lines s) \<Longrightarrow> safe o1 s (steps fs)"
  shows "safe o1 s0 (steps (addLine c p # fs))"
  unfolding safe_def keeps_def
proof (intro allI impI)
  fix s assume s: "from_ok o1 s0 s"
  let ?t = "fst (addLine c p s)"
  have t: "mission_ok o1 ?t" "later s ?t" "length (m_lines ?t) = length (m_lines s) + 1" "snd (addLine c p s) = []"
    using mission_ok_addLine [of o1 s] s by (simp_all add: from_ok_def)
  have l: "later s0 ?t" using s t(2) by (auto simp: from_ok_def intro: later_trans)
  have "safe o1 ?t (steps fs)"
    by (rule assms [OF t(1) l]) (use s t(3) in \<open>simp add: from_ok_def later_def\<close>)
  then have "safe_at o1 ?t (steps fs)" by (rule safe_safe_at)
  then show "from_ok o1 s0 (fst (steps (addLine c p # fs) s)) \<and>
      (\<forall>e\<in>set (snd (steps (addLine c p # fs) s)). effect_ok o1 s0 e)"
    using t(1,4) l unfolding safe_at_def from_ok_def
    by (simp add: Let_def case_prod_beta) (meson later_trans effect_ok_later)
qed

section \<open>Call events and starting\<close>

lemma safe_onLineEnded [safe_intros]:
  "line_in (length (m_lines s0)) (ln_n l) \<Longrightarrow> safe o1 s0 (onLineEnded o1 now conf l reason text)"
  unfolding onLineEnded_def
  by (intro safe_intros)
     (auto intro!: safe_intros safe_set_active live_line_in mission_ok_lines split: list.split)

lemma safe_onCallEvent [safe_intros]: "safe o1 s0 (onCallEvent o1 now conf msg)"
  unfolding onCallEvent_def
  by (intro safe_intros) (auto intro!: safe_intros find_line_in mission_ok_lines split: option.split call_msg.split)

lemma safe_start [safe_intros]: "safe o1 s0 (start o1 now)"
  unfolding start_def by (intro safe_intros) (auto simp: numbers_def)

lemma safe_start_failed [safe_intros]: "safe o1 s0 (start_failed o1 now err)"
  unfolding start_failed_def by (intro safe_intros) simp

lemma safe_startModel [safe_intros]: "safe o1 s0 (startModel o1)"
  unfolding startModel_def by (intro safe_intros) simp_all

lemma mission_ok_first_active:
  assumes "mission_ok o1 s"
  defines "s' \<equiv> s\<lparr>m_lines := (case m_lines s of [] \<Rightarrow> [] | l # ls \<Rightarrow> l\<lparr>ln_state := Active\<rparr> # ls)\<rparr>"
  shows "mission_ok o1 s' \<and> later s s'"
proof -
  have "lines_ok s' = lines_ok s" by (rule lines_ok_numbers) (auto simp: s'_def split: list.split)
  moreover have "tasks_ok o1 s' = tasks_ok o1 s" by (rule tasks_ok_cong) (auto simp: s'_def split: list.split)
  moreover have "preroll_ok s' = preroll_ok s" by (rule preroll_ok_cong) (auto simp: s'_def)
  ultimately show ?thesis using assms(1) by (auto simp: mission_ok_def later_def s'_def split: list.split)
qed

lemma safe_call_is_up: "0 < length (m_lines s0) \<Longrightarrow> safe o1 s0 (call_is_up o1 now)"
  unfolding call_is_up_def
  by (intro safe_intros safe_set_active safe_upd [OF mission_ok_first_active]) (simp_all add: line_in_def Suc_leI)

lemma safe_dial_waited [safe_intros]: "0 < length (m_lines s0) \<Longrightarrow> safe o1 s0 (dial_waited o1 now cid c)"
  unfolding dial_waited_def by (intro safe_intros safe_call_is_up) auto

lemma safe_startNavigator [safe_intros]: "safe o1 s0 (startNavigator o1 now)"
proof -
  have "mission_ok o1 s \<Longrightarrow> mission_ok o1 (s\<lparr>m_nav_on := True, m_nav := new_navigator, m_transcriber := True\<rparr>)" for s
    using mission_ok_nav [of o1 s True True]
      same_core_ok [of "s\<lparr>m_nav_on := True, m_transcriber := True\<rparr>" "s\<lparr>m_nav_on := True, m_nav := new_navigator, m_transcriber := True\<rparr>" o1]
    by simp
  then have "safe o1 s0 (upd (\<lambda>s. s\<lparr>m_nav_on := True, m_nav := new_navigator, m_transcriber := True\<rparr>))"
    by (intro safe_upd) (simp add: later_def)
  then show ?thesis
    unfolding startNavigator_def
    by (intro safe_Cons safe_Nil safe_emit safe_if safe_debug safe_log_note) simp_all
qed

lemma safe_context_ready [safe_intros]: "safe o1 s0 (context_ready o1 a v c)"
  unfolding context_ready_def by (intro safe_intros) simp_all

lemma safe_connected [safe_intros]: "safe o1 s0 (connected o1 now)"
  unfolding connected_def by (intro safe_intros) (simp add: safe_intros split: option.split)

section \<open>The navigator's acts and audio\<close>

lemma safe_nav_pressed [safe_intros]:
  "safe o1 s0 (nav_pressed_ok o1 now keys d)" "safe o1 s0 (nav_pressed_failed err)"
  unfolding nav_pressed_ok_def nav_pressed_failed_def by (intro safe_intros; simp)+

lemma safe_nav_effect [safe_intros]: "safe o1 s0 (nav_effect_act o1 now e)"
  by (cases e)
    (auto intro!: safe_intros simp: navigatorPress_def navigatorHangUp_def navigatorHandOff_def)

lemma safe_nav_does [safe_intros]: "safe o1 s0 (nav_does o1 now ev)"
  unfolding nav_does_def
  by (intro safe_intros) (auto intro!: safe_intros simp: case_prod_beta Let_def)

lemma safe_nav_if_on [safe_intros]: "safe o1 s0 (nav_if_on o1 now ev)"
  unfolding nav_if_on_def by (intro safe_intros)

lemma safe_transcriber_failed [safe_intros]: "safe o1 s0 (transcriber_failed o1 now m)"
  unfolding transcriber_failed_def by (intro safe_intros)

lemma safe_transcriber_up [safe_intros]:
  "safe o1 s0 (upd (\<lambda>s. s\<lparr>m_upNav := m_upNav s @ pcm\<rparr>))"
  by (rule safe_same) simp

lemma safe_downlink_rest: "open_line s0 \<Longrightarrow> safe o1 s0 (downlink_rest o1 pcm)"
  unfolding downlink_rest_def
  by (rule safe_reads_from) (intro safe_intros, simp_all)

lemma safe_onDownlink [safe_intros]: "safe o1 s0 (onDownlink o1 pcm)"
  unfolding onDownlink_def
  by (intro safe_intros safe_downlink_rest)
    (auto intro!: safe_intros safe_downlink_rest simp: open_line_def list_all_iff split: prod.split option.split)

text \<open>Muting, where the navigator is on: nothing between the check and the assignment stops it.\<close>

lemma mission_ok_muted: "mission_ok o1 s \<Longrightarrow> m_nav_on s \<Longrightarrow> mission_ok o1 (s\<lparr>m_muted := True\<rparr>)"
  using mission_ok_mute [of o1 s True True] by (cases s) simp

lemma unmute_keeps_nav: "keeps m_nav_on (\<lambda>_. True) (unmute o1 why)"
  unfolding unmute_def debug_def clear_preroll_def
  by (intro keeps_intros) (simp_all add: to_model_def keeps_intros)

definition nav_from :: "mission_options \<Rightarrow> mission \<Rightarrow> mission \<Rightarrow> bool" where
  "nav_from o1 s0 s \<longleftrightarrow> from_ok o1 s0 s \<and> m_nav_on s"

lemma nav_from_unmute: "keeps (nav_from o1 s0) (effect_ok o1 s0) (unmute o1 why)"
  unfolding nav_from_def by (rule keeps_both [OF _ unmute_keeps_nav]) (use safe_unmute in \<open>simp add: safe_def\<close>)

lemma nav_from_upd:
  assumes "\<And>s. same_core s (f s)"
  shows "keeps (nav_from o1 s0) (effect_ok o1 s0) (upd f)"
proof (rule keeps_upd)
  fix s assume s: "nav_from o1 s0 s"
  then show "nav_from o1 s0 (f s)"
    using same_core_ok [OF assms, of o1 s] assms [of s] later_trans by (auto simp: nav_from_def from_ok_def)
qed

lemma nav_from_mute: "keeps (nav_from o1 s0) (effect_ok o1 s0) (upd (\<lambda>s. s\<lparr>m_muted := True\<rparr>))"
  by (rule keeps_upd) (auto simp: nav_from_def from_ok_def later_def intro: mission_ok_muted)

lemma nav_from_rest:
  "keeps (nav_from o1 s0) (effect_ok o1 s0) clear_preroll"
  "keeps (nav_from o1 s0) (effect_ok o1 s0) (debug m)"
proof -
  have "keeps m_nav_on (\<lambda>_. True) clear_preroll" "keeps m_nav_on (\<lambda>_. True) (debug m)"
    unfolding clear_preroll_def debug_def by (intro keeps_intros; simp)+
  then show "keeps (nav_from o1 s0) (effect_ok o1 s0) clear_preroll" "keeps (nav_from o1 s0) (effect_ok o1 s0) (debug m)"
    using keeps_both safe_clear_preroll safe_debug unfolding nav_from_def safe_def by blast+
qed

lemma nav_from_at: "keeps (nav_from o1 s) (effect_ok o1 s) f \<Longrightarrow> m_nav_on s \<Longrightarrow> safe_at o1 s f"
  unfolding keeps_def safe_at_def nav_from_def by (metis from_ok_self)

lemma safe_onLineSound [safe_intros]: "safe o1 s0 (onLineSound o1 now prob rms)"
proof -
  have "safe_at o1 s
    (if \<not> m_nav_on s then skip
     else (case nav_line_sound (now - m_answeredAt s) prob rms (m_nav s) of
         (n, None) \<Rightarrow> upd (\<lambda>s. s\<lparr>m_nav := n\<rparr>)
       | (n, Some x) \<Rightarrow> steps
           [upd (\<lambda>s. s\<lparr>m_nav := n\<rparr>),
            (if x = Speech then steps [upd (\<lambda>s. s\<lparr>m_quietSeconds := 0\<rparr>), unmute o1 (js ''speech on the line'')]
             else steps
               [upd (\<lambda>s. s\<lparr>m_quietSeconds := m_quietSeconds s + 1\<rparr>),
                reads (\<lambda>s. whenever (m_quietSeconds s \<ge> MUTE_AFTER_SECONDS \<and> \<not> m_muted s) (steps
                  [upd (\<lambda>s. s\<lparr>m_muted := True\<rparr>),
                   clear_preroll,
                   debug (js ''no speech for '' @ dec_nat MUTE_AFTER_SECONDS
                     @ js ''s (hold music?): the voice model stops hearing the line until someone speaks'')]))])]))"
    (is "safe_at o1 s (if \<not> m_nav_on s then skip else ?f)") for s
  proof (cases "m_nav_on s")
    case True
    have "keeps (nav_from o1 s) (effect_ok o1 s) ?f"
      by (auto intro!: keeps_intros nav_from_upd nav_from_mute nav_from_rest nav_from_unmute split: prod.split option.split)
    from nav_from_at [OF this True] show ?thesis using True by simp
  qed (simp add: safe_at_def skip_def from_ok_self)
  then show ?thesis unfolding onLineSound_def by (rule safe_reads_at)
qed

lemma safe_onModelAudio [safe_intros]: "safe o1 s0 (onModelAudio o1 now audio iid)"
  unfolding onModelAudio_def Let_def
  by (rule safe_reads) (auto intro!: safe_intros simp: open_line_def)

lemma safe_onClearAudio [safe_intros]: "safe o1 s0 onClearAudio"
  unfolding onClearAudio_def by (intro safe_intros) simp_all

text \<open>Tasks and timers leave.\<close>

lemma mission_ok_drop_task:
  assumes "mission_ok o1 s"
  shows "mission_ok o1 (s\<lparr>m_tasks := jm_delete t (m_tasks s)\<rparr>)" "later s (s\<lparr>m_tasks := jm_delete t (m_tasks s)\<rparr>)"
proof -
  let ?s' = "s\<lparr>m_tasks := jm_delete t (m_tasks s)\<rparr>"
  have "tasks_ok o1 ?s'" using assms
    by (auto simp: mission_ok_def tasks_ok_def list_all_iff set_jm_delete distinct_jm_delete)
  then show "mission_ok o1 ?s'" "later s ?s'"
    using assms lines_ok_cong [of ?s' s] preroll_ok_cong [of ?s' s] by (simp_all add: mission_ok_def later_def)
qed

lemma safe_drop_task [safe_intros]: "safe o1 s0 (upd (\<lambda>s. s\<lparr>m_tasks := jm_delete t (m_tasks s)\<rparr>))"
  by (rule safe_upd) (blast intro: mission_ok_drop_task)

lemma safe_onTranscript [safe_intros]: "safe o1 s0 (onTranscript o1 now a text f)"
  unfolding onTranscript_def
  by (intro safe_intros safe_upd) (auto intro!: safe_intros split: option.split task.split)

section \<open>Tools and actions\<close>

lemma safe_after_action [safe_intros]: "safe o1 s0 (after_action x)"
  unfolding after_action_def run_merge_def by (auto intro!: safe_intros split: after_answer.split)

lemma safe_poll [safe_intros]: "safe o1 s0 (poll now a b x)"
  unfolding poll_def by (intro safe_intros)

lemma safe_afterSpokenAnswer [safe_intros]: "safe o1 s0 (afterSpokenAnswer now)"
  unfolding afterSpokenAnswer_def Let_def
  by (rule safe_reads) (auto intro!: safe_intros split: option.split)

lemma safe_asker_failed [safe_intros]: "safe o1 s0 (asker_failed o1 now a err)"
  unfolding asker_failed_def by (cases a) (auto intro!: safe_intros)

lemma safe_keys [safe_intros]: "safe o1 s0 (pressKeys a d)" "safe o1 s0 (keys_pressed o1 now a d g)"
  unfolding pressKeys_def keys_pressed_def by (auto intro!: safe_intros split: asker.split simp: Let_def)

lemma safe_setEnding [safe_intros]: "safe o1 s0 (setEnding now x y)"
  unfolding setEnding_def by (intro safe_intros) simp_all

lemma safe_callParty [safe_intros]: "safe o1 s0 (callParty o1 a cid reason)"
  unfolding callParty_def find_contact_def
  by (rule safe_reads)
    (auto intro!: safe_intros current_line_some mission_ok_lines dest: find_in split: option.split)

lemma safe_party_dialed: "line_in (length (m_lines s0)) first \<Longrightarrow> safe o1 s0 (party_dialed o1 now a c r first call)"
  unfolding party_dialed_def Let_def
proof (rule safe_reads, rule safe_addLine)
  fix s s' assume s: "line_in (length (m_lines s0)) first" "later s0 s" "later s s'" "length (m_lines s) < length (m_lines s')"
  then have l: "line_in (length (m_lines s')) first" "line_in (length (m_lines s')) (length (m_lines s) + 1)"
    by (auto simp: later_def line_in_def)
  show "safe o1 s' (steps [upd (\<lambda>sa. sa\<lparr>m_active := Some (length (m_lines s) + 1)\<rparr>),
     debug (js ''calling '' @ ct_name c @ js '' on line '' @ dec_nat (length (m_lines s) + 1) @ paren r),
     note_on now (js ''put '' @ line_name s first @ js '' on hold; calling '' @ ct_name c @ js '' on line '' @ dec_nat (length (m_lines s) + 1) @ paren r) (Some (length (m_lines s) + 1)),
     await (\<lambda>i. E_wait i (lc_id call) (mo_ringTimeoutSeconds o1 * 1000)) (T_party_wait a c (length (m_lines s) + 1) first (lc_id call))])"
    using l by (intro safe_intros safe_set_active) simp_all
qed

lemma safe_party_back: "line_in (length (m_lines s0)) first \<Longrightarrow> safe o1 s0 (party_back now a c n first)"
  unfolding party_back_def
  by (rule safe_reads_from) (intro safe_intros safe_set_active; simp)

lemma safe_party_waited:
  "line_in (length (m_lines s0)) n \<Longrightarrow> line_in (length (m_lines s0)) first \<Longrightarrow> safe o1 s0 (party_waited now a c n first i call)"
  unfolding party_waited_def
  by (rule safe_reads_from) (auto intro!: safe_intros safe_party_back)

lemma safe_party_resumed [safe_intros]: "safe o1 s0 (party_resumed a c first)"
  unfolding party_resumed_def by (intro safe_intros)

lemma safe_switchLine [safe_intros]: "safe o1 s0 (switchLine a n)"
  unfolding switchLine_def
  by (rule safe_reads) (auto intro!: safe_intros live_line_some mission_ok_lines split: option.split)

lemma safe_switched: "line_in (length (m_lines s0)) n \<Longrightarrow> safe o1 s0 (switched now a n)"
  unfolding switched_def by (rule safe_reads_from) (intro safe_intros safe_set_active)

lemma safe_dropLine [safe_intros]: "safe o1 s0 (dropLine a n)"
  unfolding dropLine_def
  by (rule safe_reads) (auto intro!: safe_intros live_line_some mission_ok_lines split: option.split)

lemma safe_drop_done [safe_intros]: "safe o1 s0 (drop_done a n)"
  unfolding drop_done_def by (intro safe_intros)

lemma safe_dropped [safe_intros]: "safe o1 s0 (dropped o1 now a n)"
  unfolding dropped_def
  by (intro safe_intros) (auto intro!: safe_intros live_line_in mission_ok_lines split: list.split)

lemma safe_connectLines [safe_intros]: "safe o1 s0 (connectLines a)"
  unfolding connectLines_def
  by (rule safe_reads)
    (auto intro!: safe_intros split: option.split prod.split; meson current_line_some live_find_in mission_ok_lines)

lemma mission_ok_swap: "mission_ok o1 s \<Longrightarrow> mission_ok o1 (s\<lparr>m_pendingMerge := x\<rparr>) \<and> later s (s\<lparr>m_pendingMerge := x\<rparr>)"
  by (rule same_core_ok) simp_all

lemma safe_swapped: "line_in (length (m_lines s0)) n \<Longrightarrow> safe o1 s0 (swapped a n m)"
  unfolding swapped_def
proof (rule safe_reads_from)
  fix s assume n: "line_in (length (m_lines s0)) n"
  have "safe o1 s0 (upd (\<lambda>s. s\<lparr>m_active := Some n, m_pendingMerge := Some (n, m)\<rparr>))"
  proof (rule safe_upd)
    fix t assume t: "mission_ok o1 t" "later s0 t"
    have "line_in (length (m_lines t)) n" by (rule line_in_mono [OF n]) (use t in \<open>simp add: later_def\<close>)
    then show "mission_ok o1 (t\<lparr>m_active := Some n, m_pendingMerge := Some (n, m)\<rparr>) \<and>
        later t (t\<lparr>m_active := Some n, m_pendingMerge := Some (n, m)\<rparr>)"
      using mission_ok_active [OF t(1)] mission_ok_swap [of o1 "t\<lparr>m_active := Some n\<rparr>" "Some (n, m)"] by (simp add: later_def)
  qed
  then show "safe o1 s0 (steps [upd (\<lambda>s. s\<lparr>m_active := Some n, m_pendingMerge := Some (n, m)\<rparr>),
      answer a (JObj [(js ''status'', JStr (js ''announce'')), (js ''line'', JNum (int n)),
        (js ''note'', JStr (js ''You're back on line '' @ dec_nat n @ js '' with '' @ line_name s n @ js ''. Tell them ''
          @ line_name s m @ js '' is joining now; the lines are joined as soon as you finish speaking, and you leave the call.''))]) False])"
    by (intro safe_Cons safe_Nil safe_answer)
qed

lemma safe_merge_report [safe_intros]: "safe o1 s0 (merge_report o1 now)"
  unfolding merge_report_def by (intro safe_intros) (simp_all add: report_of_def)

lemma mission_ok_detached: "mission_ok o1 s \<Longrightarrow> mission_ok o1 (s\<lparr>m_detached := True\<rparr>) \<and> later s (s\<lparr>m_detached := True\<rparr>)"
proof -
  assume s: "mission_ok o1 s"
  have "task_ok o1 k d t \<Longrightarrow> task_ok o1 k True t" for k d t by (erule task_ok_mono) simp_all
  then have "tasks_ok o1 (s\<lparr>m_detached := True\<rparr>)"
    using s by (auto simp: mission_ok_def tasks_ok_def list_all_iff)
  then show ?thesis
    using s lines_ok_cong [of "s\<lparr>m_detached := True\<rparr>" s] preroll_ok_cong [of "s\<lparr>m_detached := True\<rparr>" s]
    by (simp add: mission_ok_def later_def)
qed

text \<open>The rest of a handler, once the mission is detached.\<close>

lemma safe_detached:
  assumes "\<And>s. mission_ok o1 s \<Longrightarrow> m_detached s \<Longrightarrow> safe o1 s (steps fs)"
  shows "safe o1 s0 (steps (upd (\<lambda>s. s\<lparr>m_detached := True\<rparr>) # fs))"
  unfolding safe_def keeps_def
proof (intro allI impI)
  fix s assume s: "from_ok o1 s0 s"
  let ?t = "s\<lparr>m_detached := True\<rparr>"
  have t: "mission_ok o1 ?t" "later s0 ?t" using mission_ok_detached [of o1 s] s later_trans by (auto simp: from_ok_def)
  have "safe_at o1 ?t (steps fs)" by (rule safe_safe_at, rule assms [OF t(1)]) simp
  then show "from_ok o1 s0 (fst (steps (upd (\<lambda>s. s\<lparr>m_detached := True\<rparr>) # fs) s)) \<and>
      (\<forall>e\<in>set (snd (steps (upd (\<lambda>s. s\<lparr>m_detached := True\<rparr>) # fs) s)). effect_ok o1 s0 e)"
    using t unfolding safe_at_def from_ok_def
    by (simp add: Let_def case_prod_beta upd_def) (meson later_trans effect_ok_later)
qed

lemma safe_merged [safe_intros]: "safe o1 s0 (merged o1 now other current)"
  unfolding merged_def
  by (intro safe_reads_from safe_Cons [OF safe_debug] safe_Cons [OF safe_log_note] safe_detached)
     (intro safe_Cons safe_stopListeners safe_same safe_Nil safe_if safe_await safe_merge_report; simp)

lemma safe_merge_failed [safe_intros]: "safe o1 s0 (merge_failed n err)"
  unfolding merge_failed_def by (intro safe_intros)

lemma safe_consult [safe_intros]: "safe o1 s0 (consult cid args)"
  unfolding consult_def by (intro safe_intros) simp_all

lemma safe_consulted [safe_intros]: "safe o1 s0 (consulted o1 now cid e t)"
  unfolding consulted_def by (intro safe_intros) simp_all

lemma safe_ask_agent [safe_intros]: "safe o1 s0 (ask_agent o1 now cid args)"
  unfolding ask_agent_def by (intro safe_intros) (auto intro!: safe_intros split: option.split)

lemma safe_onToolCall [safe_intros]: "safe o1 s0 (onToolCall o1 now cid name args)"
  unfolding onToolCall_def Let_def by (intro safe_intros) simp_all

lemma safe_lineAction [safe_intros]: "safe o1 s0 (lineAction o1 now rid act args)"
  unfolding lineAction_def Let_def by (intro safe_intros) simp_all

lemma safe_onResponseDone [safe_intros]: "safe o1 s0 onResponseDone"
  unfolding onResponseDone_def run_merge_def
  by (intro safe_intros) (auto intro!: safe_intros split: option.split)

lemma safe_session_closed [safe_intros]: "safe o1 s0 (session_closed o1 now r)"
  unfolding session_closed_def by (intro safe_intros)

section \<open>Every event\<close>

lemma safe_call_value [safe_intros]: "(\<And>c. safe o1 s0 (f c)) \<Longrightarrow> safe o1 s0 (call_value v f)"
  by (auto simp: call_value_def intro: safe_intros split: m_value.split)

lemma safe_goes_on:
  "task_ok o1 (length (m_lines s0)) (m_detached s0) t \<Longrightarrow> safe o1 s0 (goes_on o1 now t v)"
  by (cases t)
    (auto intro!: safe_intros safe_addLine safe_call_is_up safe_party_dialed safe_party_waited safe_party_back
        safe_switched safe_swapped safe_set_active simp: numbers_def split: m_value.split)

lemma safe_goes_wrong:
  "task_ok o1 (length (m_lines s0)) (m_detached s0) t \<Longrightarrow> safe o1 s0 (goes_wrong o1 now t err)"
  using safe_goes_on [of o1 s0 t now V_none] by (cases t) (auto intro!: safe_intros)

lemma safe_timer_fires [safe_intros]: "safe o1 s0 (timer_fires o1 now x)"
  by (cases x) (auto intro!: safe_intros)

lemma task_found_ok:
  "mission_ok o1 s \<Longrightarrow> jm_get (m_tasks s) i = Some t \<Longrightarrow> task_ok o1 (length (m_lines s)) (m_detached s) t"
  by (auto simp: mission_ok_def tasks_ok_def list_all_iff jm_get_def dest: map_of_SomeD)

lemma safe_mission_step: "safe o1 s0 (mission_step o1 ev)"
proof (cases ev)
  case (Ev_done now t r)
  then show ?thesis
    by (auto intro!: safe_reads safe_intros safe_goes_on safe_goes_wrong dest: task_found_ok
        simp del: goes_on.simps goes_wrong.simps split: option.split sum.split)
qed (auto intro!: safe_intros split: option.split)

lemma safe_mission_run: "safe o1 s0 (mission_run o1 evs)"
  unfolding safe_def mission_run_def
  by (rule keeps_run) (use safe_mission_step in \<open>simp add: safe_def\<close>)

lemma mission_ok_new: "mission_ok o1 (new_mission mid now key)"
  by (simp add: mission_ok_def tasks_ok_def lines_ok_def preroll_ok_def new_mission_def)

end
