(* ===== verification/MissionRun.thy ===== *)
theory MissionRun
  imports MissionFacts
begin

text \<open>
  Whole runs of a mission: the properties of \<open>CallMission\<close>. The first half counts reports:
  \<open>gives d f\<close> says that handler \<open>f\<close> changes the sum of the reports made and the reports owed (by a
  \<open>finish\<close> that waits for a hang-up, the last words or the closing session), less the mission's
  end, by \<open>d\<close>, as long as the mission has not left a merged call.
\<close>

section \<open>Counting reports\<close>

definition owed :: "task \<Rightarrow> int" where
  "owed t = (case t of T_finish_hangup _ _ _ \<Rightarrow> 1 | T_last_words _ \<Rightarrow> 1 | T_finish_close _ \<Rightarrow> 1 | _ \<Rightarrow> 0)"

definition owes :: "mission \<Rightarrow> int" where
  "owes s = sum_list (map (owed \<circ> snd) (m_tasks s))"

fun is_report :: "mission_effect \<Rightarrow> bool" where
  "is_report (E_report r) = True"
| "is_report e = False"

definition reports :: "mission_effect list \<Rightarrow> int" where
  "reports es = int (length (filter is_report es))"

definition standing :: "mission \<Rightarrow> int" where
  "standing s = owes s - of_bool (m_ended s)"

definition gives_at :: "int \<Rightarrow> mh \<Rightarrow> mission \<Rightarrow> bool" where
  "gives_at d f s \<longleftrightarrow> (m_detached s \<longrightarrow> m_detached (fst (f s))) \<and>
     (m_detached (fst (f s)) \<or> reports (snd (f s)) + standing (fst (f s)) = standing s + d)"

definition gives :: "int \<Rightarrow> mh \<Rightarrow> bool" where
  "gives d f \<longleftrightarrow> (\<forall>s. gives_at d f s)"

named_theorems gives_intros \<open>rules that count the reports of a handler\<close>

lemma reports_simps [simp]: "reports [] = 0" "reports (e # es) = of_bool (is_report e) + reports es"
  "reports (es @ fs) = reports es + reports fs"
  by (simp_all add: reports_def)

lemma givesD: "gives d f \<Longrightarrow> gives_at d f s"
  by (simp add: gives_def)

lemma gives_at_Cons:
  "gives_at d f s \<Longrightarrow> gives_at e (steps fs) (fst (f s)) \<Longrightarrow> gives_at (d + e) (steps (f # fs)) s"
  by (auto simp: gives_at_def case_prod_beta Let_def)

lemma gives_Cons: "gives d f \<Longrightarrow> gives e (steps fs) \<Longrightarrow> gives (d + e) (steps (f # fs))"
  unfolding gives_def by (blast intro: gives_at_Cons)

lemma gives_Cons0 [gives_intros]: "gives 0 f \<Longrightarrow> gives d (steps fs) \<Longrightarrow> gives d (steps (f # fs))"
  using gives_Cons [of 0 f d fs] by simp

lemma gives_last: "gives d f \<Longrightarrow> gives d (steps [f])"
  using gives_Cons [of d f 0 "[]"] by (simp add: gives_def gives_at_def)

lemma gives_Nil [gives_intros]: "gives 0 (steps [])"
  by (simp add: gives_def gives_at_def)

lemma gives_skip [gives_intros]: "gives 0 skip"
  by (simp add: gives_def gives_at_def skip_def)

lemma gives_emit [gives_intros]: "\<not> is_report e \<Longrightarrow> gives 0 (emit e)"
  by (simp add: gives_def gives_at_def emit_def)

lemma gives_report: "gives 1 (reads (\<lambda>s. emit (E_report (f s))))"
  by (simp add: gives_def gives_at_def emit_def reads_def)

lemma gives_emits [gives_intros]: "list_all (\<lambda>e. \<not> is_report e) es \<Longrightarrow> gives 0 (emits es)"
  by (simp add: gives_def gives_at_def emits_def reports_def list_all_iff filter_empty_conv)

lemma gives_reads [gives_intros]: "(\<And>s. gives d (f s)) \<Longrightarrow> gives d (reads f)"
  by (simp add: gives_def gives_at_def reads_def)

lemma gives_whenever [gives_intros]: "(b \<Longrightarrow> gives 0 f) \<Longrightarrow> gives 0 (whenever b f)"
  by (simp add: whenever_def gives_skip)

lemma gives_if [gives_intros]: "(b \<Longrightarrow> gives d f) \<Longrightarrow> (\<not> b \<Longrightarrow> gives d g) \<Longrightarrow> gives d (if b then f else g)"
  by simp

lemma gives_option [gives_intros]:
  "(x = None \<Longrightarrow> gives d f) \<Longrightarrow> (\<And>y. x = Some y \<Longrightarrow> gives d (g y)) \<Longrightarrow> gives d (case x of None \<Rightarrow> f | Some y \<Rightarrow> g y)"
  by (cases x) simp_all

lemma gives_prod [gives_intros]:
  "(\<And>a b. p = (a, b) \<Longrightarrow> gives d (g a b)) \<Longrightarrow> gives d (case p of (a, b) \<Rightarrow> g a b)"
  by (cases p) simp_all

lemma gives_list [gives_intros]:
  "(xs = [] \<Longrightarrow> gives d f) \<Longrightarrow> (\<And>y ys. xs = y # ys \<Longrightarrow> gives d (g y ys)) \<Longrightarrow> gives d (case xs of [] \<Rightarrow> f | y # ys \<Rightarrow> g y ys)"
  by (cases xs) simp_all

lemma gives_map [gives_intros]: "(\<And>x. x \<in> set xs \<Longrightarrow> gives 0 (f x)) \<Longrightarrow> gives 0 (steps (map f xs))"
  by (induction xs) (auto intro: gives_intros)

lemma gives_upd [gives_intros]:
  "(\<And>s. m_tasks (f s) = m_tasks s \<and> m_ended (f s) = m_ended s \<and> m_detached (f s) = m_detached s) \<Longrightarrow> gives 0 (upd f)"
  by (simp add: gives_def gives_at_def upd_def standing_def owes_def)

lemma gives_await: "(\<And>i. \<not> is_report (mk i)) \<Longrightarrow> gives (owed t) (await mk t)"
  by (simp add: gives_def gives_at_def await_def reads_def upd_def emit_def standing_def owes_def)

lemma gives_await0 [gives_intros]: "(\<And>i. \<not> is_report (mk i)) \<Longrightarrow> owed t = 0 \<Longrightarrow> gives 0 (await mk t)"
  using gives_await [of mk t] by simp

lemma gives_cmd0 [gives_intros]: "owed t = 0 \<Longrightarrow> gives 0 (cmd c t)"
  unfolding cmd_def by (intro gives_intros) simp_all

section \<open>Handlers that neither end the mission nor report\<close>

lemma gives_parts [gives_intros]:
  "gives 0 (debug m)" "gives 0 (note_on now text l)" "gives 0 (log_note now text)" "gives 0 (set_timer ms x)"
  "gives 0 (addLine c p)" "gives 0 (set_line_state n st)" "gives 0 (say text)" "gives 0 (silentNote o1 text)"
  "gives 0 (to_model o1 pcm)" "gives 0 clear_preroll" "gives 0 stopListeners" "gives 0 (answer a r q)"
  by (auto intro!: gives_intros simp: debug_def note_on_def log_note_def set_timer_def addLine_def set_line_state_def
    say_def silentNote_def to_model_def clear_preroll_def stopListeners_def answer_def list_all_iff split: asker.split)

lemma gives_navigator [gives_intros]:
  "gives 0 (keepPreroll pcm)" "gives 0 (unmute o1 why)" "gives 0 (stopNavigator o1)" "gives 0 (startNavigator o1 now)"
  "gives 0 (nav_pressed_ok o1 now keys d)" "gives 0 (nav_pressed_failed err)"
  "gives 0 (navigatorHandOff o1 now)" "gives 0 (navigatorPress keys)"
  by (auto intro!: gives_intros gives_map [where f = "to_model o1"] simp: keepPreroll_def unmute_def stopNavigator_def
    startNavigator_def nav_pressed_ok_def nav_pressed_failed_def navigatorHandOff_def navigatorPress_def owed_def Let_def case_prod_beta
    split: if_split_asm)

section \<open>The end: one report\<close>

lemma gives_finish_end: "gives 1 (finish_end o1 now x)"
  unfolding finish_end_def
  by (rule gives_Cons0, intro gives_intros, simp, rule gives_Cons0, rule gives_parts, rule gives_last, rule gives_report)

lemma gives_finish_notes: "gives 1 (finish_notes o1 now x)"
  unfolding finish_notes_def
proof (rule gives_reads, rule gives_Cons0)
  fix s
  show "gives 0 (steps (map (\<lambda>n. note_on now (fst n) (Some (snd n))) (case m_endNotes s of None \<Rightarrow> [] | Some ns \<Rightarrow> ns)))"
    by (intro gives_intros)
  have "gives 1 (if m_session s then await E_session_close (T_finish_close x) else finish_end o1 now x)"
    using gives_await [of E_session_close "T_finish_close x"] gives_finish_end by (simp add: owed_def)
  then show "gives 1 (steps [upd (\<lambda>s. s\<lparr>m_endNotes := None\<rparr>),
      if m_session s then await E_session_close (T_finish_close x) else finish_end o1 now x])"
    by (intro gives_Cons0 [OF gives_upd] gives_last) simp_all
qed

lemma gives_lastWords: "gives 1 (lastWords o1 now x)"
  unfolding lastWords_def
proof (intro gives_reads gives_if gives_finish_notes)
  let ?w = "await (\<lambda>i. E_heard_or i LAST_WORDS_MS) (T_last_words x)"
  have "gives 1 ?w"
    using gives_await [of "\<lambda>i. E_heard_or i LAST_WORDS_MS" "T_last_words x"] by (simp add: owed_def)
  then have "gives (1 + 0) (steps [?w, to_model o1 silence_1s])"
    by (intro gives_Cons gives_intros)
  then show "gives 1 (steps [upd (\<lambda>s. s\<lparr>m_flushing := True\<rparr>),
        silentNote o1 (js ''[The call has ended: the line hung up and nobody can hear you. Don't say anything.]''),
        reads (\<lambda>s. upd (\<lambda>s'. s'\<lparr>m_onHeard := Some (m_next s)\<rparr>)), ?w, to_model o1 silence_1s])"
    by (intro gives_Cons0 [OF gives_upd] gives_Cons0 [OF gives_parts(8)] gives_Cons0 [OF gives_reads [OF gives_upd]]) simp_all
qed

lemma gives_heard_words: "gives 1 (heard_words o1 now x)"
  unfolding heard_words_def
  by (rule gives_Cons0, rule gives_upd, simp, rule gives_last, rule gives_finish_notes)

lemma gives_finish_hangups: "gives 1 (finish_hangups o1 now x words cs)"
proof (cases cs)
  case (Cons c cs')
  then show ?thesis
    using gives_await [of "\<lambda>i. E_cmd i (C_hangup c)" "T_finish_hangup x words cs'"] by (simp add: cmd_def owed_def)
qed (simp add: gives_lastWords gives_finish_notes)

lemma gives_finish [gives_intros]: "gives 0 (finish o1 now x summary words en)"
proof -
  have "gives_at 0 (finish o1 now x summary words en) s" for s
  proof (cases "m_ended s \<or> m_detached s")
    case True
    have "gives 0 (case en of None \<Rightarrow> skip
        | Some n \<Rightarrow> (case m_endNotes s of
            Some ns \<Rightarrow> upd (\<lambda>s. s\<lparr>m_endNotes := Some (ns @ [n])\<rparr>)
          | None \<Rightarrow> note_on now (fst n) (Some (snd n))))"
      by (auto intro!: gives_intros split: option.split)
    from givesD [OF this, of s] True show ?thesis by (simp add: finish_def reads_def gives_at_def)
  next
    case False
    let ?f = "\<lambda>s. s\<lparr>m_ended := True, m_outcome := x, m_summary := or_summary summary (m_summary s), m_timers := []\<rparr>"
    let ?rest = "[stopNavigator o1, stopListeners,
        upd (\<lambda>s. s\<lparr>m_endNotes := Some (case en of None \<Rightarrow> [] | Some n \<Rightarrow> [n])\<rparr>),
        finish_hangups o1 now x words (if x = Handed_off then [] else rev (map ln_callId (live_lines s)))]"
    have "gives_at (-1) (upd ?f) s"
      using False by (simp add: gives_at_def upd_def standing_def owes_def)
    note ended = this
    have "gives 1 (steps ?rest)"
      by (rule gives_Cons0, rule gives_navigator, rule gives_Cons0, rule gives_parts, rule gives_Cons0,
          rule gives_upd, simp, rule gives_last, rule gives_finish_hangups)
    from gives_at_Cons [OF ended givesD [OF this]] False show ?thesis by (simp add: finish_def reads_def gives_at_def)
  qed
  then show ?thesis by (simp add: gives_def)
qed

text \<open>A detached mission counts nothing more.\<close>

definition stays :: "mh \<Rightarrow> bool" where
  "stays f \<longleftrightarrow> keeps m_detached (\<lambda>_. True) f"

lemma gives_stays: "gives d f \<Longrightarrow> stays f"
  by (simp add: gives_def gives_at_def stays_def keeps_def)

lemma stays_at: "stays f \<Longrightarrow> m_detached s \<Longrightarrow> gives_at d f s"
  by (simp add: stays_def keeps_def gives_at_def)

lemma stays_checkMergedCall: "stays (checkMergedCall conf)"
  unfolding stays_def checkMergedCall_def debug_def by (intro keeps_intros) (simp_all add: list_all_iff)

lemma gives_detached:
  assumes "\<And>s. m_detached s \<Longrightarrow> stays (f s)" "\<And>s. \<not> m_detached s \<Longrightarrow> gives d (f s)"
  shows "gives d (reads f)"
  unfolding gives_def
proof
  fix s
  have "gives_at d (f s) s"
    by (cases "m_detached s") (use assms in \<open>auto intro: stays_at givesD\<close>)
  then show "gives_at d (reads f) s" by (simp add: gives_at_def reads_def)
qed

lemma gives_onLineEnded [gives_intros]: "gives 0 (onLineEnded o1 now conf l reason text)"
  unfolding onLineEnded_def
proof (rule gives_detached, goal_cases)
  case (1 s)
  have "stays (note_on now text (Some (ln_n l)))" by (rule gives_stays) (rule gives_parts)
  with 1 stays_checkMergedCall [of conf] show ?case
    by (auto simp: stays_def intro!: keeps_intros)
next
  case (2 s)
  then show ?case by (auto intro!: gives_intros simp: owed_def split: list.split)
qed

lemma gives_onCallEvent [gives_intros]: "gives 0 (onCallEvent o1 now conf msg)"
  unfolding onCallEvent_def
proof (rule gives_detached, goal_cases)
  case (1 s)
  have "stays (set_line_state n st)" "stays (debug m)" "stays (onLineEnded o1 now conf l r t)" for n st m l r t
    by (rule gives_stays, rule gives_parts gives_onLineEnded)+
  with stays_checkMergedCall [of conf] show ?case
    by (auto simp: stays_def intro!: keeps_intros split: option.split call_msg.split)
next
  case (2 s)
  then show ?case by (auto intro!: gives_intros simp: whenever_def split: option.split call_msg.split)
qed

section \<open>The other handlers\<close>

lemma gives_starting [gives_intros]:
  "gives 0 (start o1 now)" "gives 0 (start_failed o1 now err)" "gives 0 (call_is_up o1 now)"
  "gives 0 (dial_waited o1 now cid c)" "gives 0 (context_ready o1 a v t)" "gives 0 (connected o1 now)"
  by (auto intro!: gives_intros simp: start_def start_failed_def call_is_up_def startModel_def dial_waited_def
    context_ready_def connected_def owed_def split: option.split)

lemma gives_nav_effect [gives_intros]: "gives 0 (nav_effect_act o1 now e)"
  by (cases e) (auto intro!: gives_intros simp: navigatorHangUp_def)

lemma gives_nav [gives_intros]:
  "gives 0 (nav_does o1 now ev)" "gives 0 (nav_if_on o1 now ev)" "gives 0 (transcriber_failed o1 now m)"
  by (auto intro!: gives_intros gives_map [where f = "nav_effect_act o1 now"]
    simp: nav_does_def nav_if_on_def transcriber_failed_def Let_def case_prod_beta)

lemma gives_audio [gives_intros]:
  "gives 0 (onDownlink o1 pcm)" "gives 0 (onLineSound o1 now prob rms)" "gives 0 (onModelAudio o1 now audio iid)"
  "gives 0 onClearAudio"
  by (auto intro!: gives_intros simp: onDownlink_def downlink_rest_def onLineSound_def onModelAudio_def onClearAudio_def
    Let_def list_all_iff split: prod.split option.split)

lemma gives_listeners [gives_intros]: "gives 0 (addListener now l who)" "gives 0 (listener_over now l)"
  by (auto intro!: gives_intros simp: addListener_def listener_over_def split: option.split)

lemma gives_poll [gives_intros]:
  "gives 0 (run_merge a b)" "gives 0 (after_action x)" "gives 0 (poll now t1 t2 x)" "gives 0 (afterSpokenAnswer now)"
  by (auto intro!: gives_intros simp: run_merge_def after_action_def poll_def afterSpokenAnswer_def Let_def owed_def
    split: after_answer.split option.split)

lemma gives_failed [gives_intros]: "gives 0 (asker_failed o1 now a err)" "gives 0 (merge_failed n err)"
  by (auto intro!: gives_intros simp: asker_failed_def merge_failed_def split: asker.split)

lemma gives_lines [gives_intros]:
  "gives 0 (pressKeys a d)" "gives 0 (keys_pressed o1 now a d g)" "gives 0 (setEnding now x y)"
  "gives 0 (callParty o1 a cid reason)" "gives 0 (party_dialed o1 now a c r n call)" "gives 0 (party_back now a c n m)"
  "gives 0 (party_waited now a c n m i call')" "gives 0 (party_resumed a c n)" "gives 0 (switchLine a js1)"
  "gives 0 (switched now a n)" "gives 0 (dropLine a js1)" "gives 0 (drop_done a n)" "gives 0 (dropped o1 now a n)"
  "gives 0 (connectLines a)" "gives 0 (swapped a n m)"
  by (auto intro!: gives_intros simp: pressKeys_def keys_pressed_def setEnding_def callParty_def party_dialed_def
    party_back_def party_waited_def party_resumed_def switchLine_def switched_def dropLine_def drop_done_def dropped_def
    connectLines_def swapped_def owed_def Let_def split: option.split asker.split list.split prod.split)

lemma gives_consults [gives_intros]:
  "gives 0 (consult cid args)" "gives 0 (consulted o1 now cid e t)" "gives 0 (ask_agent o1 now cid args)"
  by (auto intro!: gives_intros simp: consult_def consulted_def ask_agent_def owed_def split: option.split if_split_asm)


lemma gives_end_mark [gives_intros]:
  "gives 0 (await (\<lambda>i. E_mark_or i ms) T_end_mark)" "gives 0 (await (\<lambda>i. E_mark_or i ms) T_action_mark)"
  by (rule gives_await0; simp add: owed_def)+

lemma gives_tools [gives_intros]:
  "gives 0 (onToolCall o1 now cid name args)" "gives 0 (lineAction o1 now rid act args)"
  unfolding onToolCall_def lineAction_def Let_def by (intro gives_intros; simp)+

lemma gives_session [gives_intros]: "gives 0 onResponseDone" "gives 0 (session_closed o1 now why)"
  unfolding onResponseDone_def session_closed_def by (intro gives_intros; simp)+

text \<open>A merge detaches the mission: nothing is counted after it.\<close>

lemma stays_parts:
  "stays stopListeners" "stays (merge_report o1 now)" "stays (await E_session_close t)"
  "(\<And>s. m_detached (f s) = m_detached s) \<Longrightarrow> stays (upd f)"
  by (auto simp: stays_def stopListeners_def merge_report_def await_def list_all_iff intro!: keeps_intros)

lemma gives_detach:
  assumes "stays (steps fs)"
  shows "gives d (steps (upd (\<lambda>s. s\<lparr>m_detached := True\<rparr>) # fs))"
proof -
  have "m_detached (fst (steps fs (s\<lparr>m_detached := True\<rparr>)))" for s
    using assms by (simp add: stays_def keeps_def)
  then show ?thesis by (simp add: gives_def gives_at_def upd_def Let_def case_prod_beta)
qed

lemma gives_merged [gives_intros]: "gives 0 (merged o1 now a b)"
  unfolding merged_def
proof (intro gives_reads gives_Cons0 [OF gives_parts(1)] gives_Cons0 [OF gives_parts(3)])
  fix s
  let ?rest = "[stopListeners,
      upd (\<lambda>s. s\<lparr>m_timers := [],
        m_summary := (case m_summary s of None \<Rightarrow> Some (js ''Connected '' @ line_name s a @ js '' with '' @ line_name s b @ js ''.'') | x \<Rightarrow> x)\<rparr>),
      if m_session s then await E_session_close (T_merge_close a b) else merge_report o1 now]"
  have "stays (if m_session s then await E_session_close (T_merge_close a b) else merge_report o1 now)"
    using stays_parts by simp
  moreover have "stays (upd (\<lambda>s. s\<lparr>m_timers := [],
        m_summary := (case m_summary s of None \<Rightarrow> Some (js ''Connected '' @ line_name s a @ js '' with '' @ line_name s b @ js ''.'') | x \<Rightarrow> x)\<rparr>))"
    by (rule stays_parts(4)) simp
  ultimately have "stays (steps ?rest)"
    using stays_parts(1) unfolding stays_def by (intro keeps_steps_Cons keeps_steps_Nil)
  then show "gives 0 (steps (upd (\<lambda>s. s\<lparr>m_detached := True\<rparr>) # ?rest))" by (rule gives_detach)
qed

section \<open>Events and runs\<close>

lemma gives_call_value: "(\<And>c. gives 0 (f c)) \<Longrightarrow> gives 0 (call_value v f)"
  by (auto simp: call_value_def intro: gives_intros split: m_value.split)

lemma gives_goes_on: "(\<And>a b. t \<noteq> T_merge_close a b) \<Longrightarrow> gives (owed t) (goes_on o1 now t v)"
  by (cases t; simp add: owed_def del: steps.simps)
     (auto intro!: gives_intros gives_call_value gives_finish_hangups gives_heard_words gives_finish_end
        simp: owed_def simp del: steps.simps split: m_value.split)

lemma gives_goes_wrong: "(\<And>a b. t \<noteq> T_merge_close a b) \<Longrightarrow> gives (owed t) (goes_wrong o1 now t err)"
  using gives_goes_on [of t o1 now V_none]
  by (cases t; simp add: owed_def del: steps.simps) (auto intro!: gives_intros)

lemma gives_timer [gives_intros]: "gives 0 (timer_fires o1 now x)"
  by (cases x) (auto intro!: gives_intros)

lemma owes_delete:
  assumes "distinct (map fst ts)" "jm_get ts i = Some t"
  shows "sum_list (map (owed \<circ> snd) (jm_delete i ts)) = sum_list (map (owed \<circ> snd) ts) - owed t"
  using assms
proof (induction ts)
  case (Cons p ts)
  then show ?case
    by (cases p; cases "fst p = i") (auto simp: jm_get_def jm_delete_def jm_delete_fresh [unfolded jm_delete_def])
qed (simp add: jm_get_def)

lemma gives_done:
  assumes "distinct (map fst (m_tasks s))" "jm_get (m_tasks s) i = Some t" "gives (owed t) f"
  shows "gives_at 0 (steps [upd (\<lambda>s. s\<lparr>m_tasks := jm_delete i (m_tasks s)\<rparr>), f]) s"
proof -
  have "gives_at (- owed t) (upd (\<lambda>s. s\<lparr>m_tasks := jm_delete i (m_tasks s)\<rparr>)) s"
    using owes_delete [OF assms(1,2)] by (simp add: gives_at_def upd_def standing_def owes_def)
  from gives_at_Cons [OF this givesD [OF gives_last [OF assms(3)]]] show ?thesis by simp
qed

text \<open>The user's last words are a task of the mission that the transcript finishes.\<close>

lemma safe_ok: "safe o1 s f \<Longrightarrow> mission_ok o1 s \<Longrightarrow> mission_ok o1 (fst (f s))"
  by (auto simp: safe_def keeps_def from_ok_self from_ok_def)

definition last_heard :: "mission_options \<Rightarrow> int \<Rightarrow> mh" where
  "last_heard o1 now = reads (\<lambda>s.
          case m_onHeard s of
            None \<Rightarrow> skip
          | Some t \<Rightarrow> (case jm_get (m_tasks s) t of
              Some (T_last_words x) \<Rightarrow> steps
                [upd (\<lambda>s. s\<lparr>m_tasks := jm_delete t (m_tasks s)\<rparr>), heard_words o1 now x]
            | _ \<Rightarrow> skip))"

lemma gives_at_cong: "f s = g s \<Longrightarrow> gives_at d f s = gives_at d g s"
  by (simp only: gives_at_def)

lemma gives_last_heard:
  assumes "mission_ok o1 s"
  shows "gives_at 0 (last_heard o1 now) s"
proof (cases "\<exists>t x. m_onHeard s = Some t \<and> jm_get (m_tasks s) t = Some (T_last_words x)")
  case True
  then obtain t x where t: "m_onHeard s = Some t" "jm_get (m_tasks s) t = Some (T_last_words x)" by auto
  have here: "gives_at 0 (steps [upd (\<lambda>s. s\<lparr>m_tasks := jm_delete t (m_tasks s)\<rparr>), heard_words o1 now x]) s"
    by (rule gives_done [OF _ t(2)])
       (use assms gives_heard_words in \<open>auto simp: mission_ok_def tasks_ok_def owed_def\<close>)
  have eq: "last_heard o1 now s = steps [upd (\<lambda>s. s\<lparr>m_tasks := jm_delete t (m_tasks s)\<rparr>), heard_words o1 now x] s"
    by (simp only: last_heard_def reads_def t option.case task.case)
  show ?thesis by (rule iffD2 [OF gives_at_cong here], rule eq)
next
  case False
  then have "last_heard o1 now s = skip s"
    by (auto simp: last_heard_def reads_def split: option.split task.split)
  then show ?thesis using givesD [OF gives_skip, of s] by (simp add: gives_at_def)
qed

lemma gives_onTranscript:
  assumes "mission_ok o1 s"
  shows "gives_at 0 (onTranscript o1 now a text f) s"
proof -
  let ?up = "upd (\<lambda>s. s\<lparr>m_log := m_log s @ [\<lparr>le_t = now - m_startedAt s,
          le_line = map_option ln_n (current_line s), le_kind = (if a then Say else Hear),
          le_who = (if a then js ''assistant'' else (case current_line s of Some l \<Rightarrow> party_name (ln_party l) | None \<Rightarrow> js ''caller'')),
          le_text = trim text\<rparr>]\<rparr>)"
  let ?nav = "whenever a (nav_if_on o1 now (\<lambda>t. Nav_said t text))"
  let ?stop = "whenever (\<not> a) (last_heard o1 now)"
  have ok: "mission_ok o1 (fst (?up (fst (?nav s))))"
    using safe_ok [OF safe_whenever [OF safe_nav_if_on] assms] by (simp add: upd_def)
  have last: "gives_at 0 (steps [?stop]) t" if "mission_ok o1 t" for t
  proof (cases a)
    case True
    then show ?thesis by (simp add: whenever_def givesD gives_last gives_skip del: steps.simps)
  next
    case False
    have "gives_at (0 + 0) (steps [last_heard o1 now]) t"
      by (rule gives_at_Cons [OF gives_last_heard [OF that] givesD [OF gives_Nil]])
    then show ?thesis using False by (simp add: whenever_def del: steps.simps)
  qed
  have nav: "gives_at 0 ?nav s" by (rule givesD [OF gives_whenever [OF gives_nav(2)]])
  have up: "gives_at 0 ?up (fst (?nav s))" by (rule givesD [OF gives_upd]) simp
  from gives_at_Cons [OF nav gives_at_Cons [OF up last [OF ok]]]
  have "gives_at 0 (steps [?nav, ?up, ?stop]) s" by (simp only: add_0)
  moreover have "onTranscript o1 now a text f s = (if \<not> f \<or> trim text = [] \<or> a \<and> m_flushing s then skip else steps [?nav, ?up, ?stop]) s"
    by (simp only: onTranscript_def last_heard_def reads_def)
  ultimately show ?thesis
    using givesD [OF gives_skip, of s] by (auto simp: gives_at_def)
qed

lemma gives_at_later: "mission_ok o1 s \<Longrightarrow> m_detached s \<Longrightarrow> gives_at d (mission_step o1 ev) s"
  using safe_mission_step [of o1 s ev] by (auto simp: safe_def keeps_def from_ok_self from_ok_def later_def gives_at_def)

lemma gives_step:
  assumes "mission_ok o1 s"
  shows "gives_at 0 (mission_step o1 ev) s"
proof (cases ev)
  case (Ev_said now a said f)
  then show ?thesis using gives_onTranscript [OF assms] by simp
next
  case (Ev_done now i r)
  show ?thesis
  proof (cases "jm_get (m_tasks s) i")
    case None
    then show ?thesis using Ev_done givesD [OF gives_skip, of s] by (simp add: gives_at_def reads_def)
  next
    case (Some t)
    let ?go = "case r of Inr v \<Rightarrow> goes_on o1 now t v | Inl err \<Rightarrow> goes_wrong o1 now t err"
    have d: "distinct (map fst (m_tasks s))" using assms by (simp add: mission_ok_def tasks_ok_def)
    show ?thesis
    proof (cases "\<exists>a b. t = T_merge_close a b")
      case True
      then have "m_detached s" using task_found_ok [OF assms Some] by auto
      then show ?thesis by (rule gives_at_later [OF assms])
    next
      case False
      then have "gives (owed t) ?go" by (cases r) (auto intro: gives_goes_on gives_goes_wrong)
      from gives_done [OF d Some this] show ?thesis using Ev_done Some by (simp add: gives_at_def reads_def)
    qed
  qed
qed (auto intro!: givesD gives_intros split: option.split)

lemma gives_run:
  assumes "mission_ok o1 s"
  shows "gives_at 0 (mission_run o1 evs) s"
  using assms
proof (induction evs arbitrary: s)
  case Nil
  then show ?case by (simp add: mission_run_def gives_at_def)
next
  case (Cons ev evs)
  have "mission_ok o1 (fst (mission_step o1 ev s))" using Cons.prems safe_ok safe_mission_step by blast
  from Cons.IH [OF this] gives_step [OF Cons.prems, of ev] show ?case
    by (auto simp: mission_run_def gives_at_def Let_def case_prod_beta)
qed

section \<open>Interpretations\<close>

interpretation mission_machine: event_machine "\<lambda>s ev. fst (mission_step o1 ev s)" "mission_ok o1" for o1
  by unfold_locales (blast intro: safe_ok safe_mission_step)

text \<open>The log only grows, from any state whatever.\<close>

lemma later_step: "mission_ok o1 s \<Longrightarrow> later s (fst (mission_step o1 ev s))"
  using safe_mission_step [of o1 s ev] by (auto simp: safe_def keeps_def from_ok_self from_ok_def)

lemma mission_run_foldl: "fst (mission_run o1 evs s) = foldl (\<lambda>s ev. fst (mission_step o1 ev s)) s evs"
  by (induction evs arbitrary: s) (simp_all add: mission_run_def Let_def case_prod_beta)

lemma mission_run_ok: "mission_ok o1 (fst (mission_run o1 evs (new_mission mid now key)))"
  unfolding mission_run_foldl by (rule mission_machine.run_inv) (rule mission_ok_new)

lemma mission_run_from:
  assumes "mission_ok o1 s"
  shows "mission_ok o1 (fst (mission_run o1 evs s))" "later s (fst (mission_run o1 evs s))"
    "e \<in> set (snd (mission_run o1 evs s)) \<Longrightarrow> effect_ok o1 s e"
  using safe_mission_run [of o1 s evs] assms unfolding safe_def keeps_def from_ok_def by auto

section \<open>Properties\<close>

text \<open>
  C2: one report. In every run of a mission, whatever the line, the voice model, the agent and the
  navigator do, as long as the assistant has not left a merged call: the reports made plus the
  reports owed by a finish that is still hanging up, hearing the last words or closing the session
  are one if the mission has ended and none if it has not.
\<close>

theorem mission_reports_once:
  "m_detached (fst (mission_run o1 evs (new_mission mid now key))) \<or>
   reports (snd (mission_run o1 evs (new_mission mid now key))) + owes (fst (mission_run o1 evs (new_mission mid now key)))
     = (if m_ended (fst (mission_run o1 evs (new_mission mid now key))) then 1 else 0)"
  using gives_run [OF mission_ok_new [of o1 mid now key], of evs]
  by (auto simp: gives_at_def standing_def owes_def new_mission_def)

text \<open>A line and options for the examples.\<close>

definition demo_options :: mission_options where
  "demo_options = \<lparr>mo_outbound = True, mo_party = \<lparr>party_name = js ''Shop'', party_number = js ''+49301'', party_role = Primary\<rparr>,
     mo_inboundCallId = None, mo_brief = None,
     mo_contacts = [\<lparr>ct_id = js ''ann'', ct_name = js ''Ann'', ct_number = js ''+49302'', ct_description = None\<rparr>],
     mo_agentId = js ''main'', mo_requesterSessionKey = None, mo_line = None, mo_menu = False, mo_holdLimitSeconds = None,
     mo_hasDetector = False, mo_maxCallSeconds = 600, mo_ringTimeoutSeconds = 30, mo_holdCapSeconds = 600,
     mo_checkEverySeconds = 5, mo_threshold = 0, mo_inboundGreeting = None, mo_toolPolicy = js ''none'',
     mo_consultToolName = js ''consult'', mo_providerId = [], mo_handlesAgentConsult = False, mo_supportsToolCalls = True,
     mo_takesNotes = True, mo_continues = False, mo_upResample = (\<lambda>_ c. c), mo_downResample = (\<lambda>_ c. c)\<rparr>"

definition demo_call :: "jstr \<Rightarrow> call_state \<Rightarrow> line_call" where
  "demo_call i st = \<lparr>lc_id = i, lc_number = None, direction = Outgoing_call, lc_state = st, conference = False,
     startedAt = 0, answeredAt = None\<rparr>"

text \<open>Two lines, joined when the assistant's response is over.\<close>

definition demo_joining :: "mission_event list" where
  "demo_joining =
     [Ev_start 0, Ev_done 1 2 (Inr (V_call (demo_call [1] Dialing))), Ev_done 2 3 (Inr (V_wait (Some (demo_call [1] Active)))),
      Ev_done 3 4 (Inr (V_context None None None)), Ev_done 4 5 (Inr V_none),
      Ev_tool 5 [9] (js ''call_party'') (JObj [(js ''contact'', JStr (js ''ann''))]),
      Ev_done 6 6 (Inr V_none), Ev_done 7 7 (Inr (V_call (demo_call [2] Dialing))),
      Ev_done 8 8 (Inr (V_wait (Some (demo_call [2] Active)))),
      Ev_call 9 0 (Msg_state (demo_call [2] Active)),
      Ev_tool 10 [9] (js ''connect_lines'') (JObj []), Ev_done 11 9 (Inr V_none), Ev_response_done]"

lemmas mission_eval = mission_run_def step_simps new_mission_def demo_options_def demo_call_def
  await_def cmd_def set_timer_def debug_def note_on_def log_note_def addLine_def set_line_state_def
  live_lines_def line_n_def live_line_def line_name_def current_line_def say_def silentNote_def to_model_def
  start_def startModel_def call_is_up_def dial_waited_def context_ready_def connected_def callParty_def find_contact_def
  party_dialed_def party_waited_def onToolCall_def connectLines_def answer_def swapped_def onResponseDone_def run_merge_def
  call_value_def onCallEvent_def jm_get_def jm_delete_def js_def wait_value_def Let_def
  finish_def finish_hangups.simps lastWords_def finish_notes_def finish_end_def
  stopNavigator_def unmute_def stopListeners_def merged_def merge_report_def report_of_def msg_str_def

definition commands :: "mission_effect list \<Rightarrow> line_cmd list" where
  "commands es = concat (map (\<lambda>e. case e of E_cmd i c \<Rightarrow> [c] | _ \<Rightarrow> []) es)"

text \<open>The hang-ups come back one after the other, each with what the line made of it.\<close>

fun hangups_done :: "nat \<Rightarrow> int \<Rightarrow> (js_error + m_value) list \<Rightarrow> mission_event list" where
  "hangups_done i now [] = []"
| "hangups_done i now (r # rs) = Ev_done now i r # hangups_done (i + 1) now rs"

lemma commands_simps [simp]: "commands [] = []" "commands (es @ fs) = commands es @ commands fs"
  "commands (E_cmd i c # es) = c # commands es"
  by (simp_all add: commands_def)

lemma goes_wrong_hangup: "goes_wrong o1 now (T_finish_hangup x w cs) err = goes_on o1 now (T_finish_hangup x w cs) v"
  by simp

text \<open>The states of a finish: \<open>hanging\<close>, with the hang-ups still to come.\<close>

definition hanging :: "nat \<Rightarrow> outcome \<Rightarrow> jstr list \<Rightarrow> bool \<Rightarrow> mission \<Rightarrow> bool" where
  "hanging i x cs sess s \<longleftrightarrow> m_tasks s = [(i, T_finish_hangup x False cs)] \<and> m_next s = i + 1 \<and> m_ended s \<and> m_session s = sess"

lemma hangup_step:
  assumes "hanging i x (c # cs) sess s"
  shows "hanging (i + 1) x cs sess (fst (mission_step o1 (Ev_done now i r) s))"
    and "snd (mission_step o1 (Ev_done now i r) s) = [E_cmd (i + 1) (C_hangup c)]"
  using assms by (cases r; simp add: hanging_def step_simps cmd_def await_def jm_get_def jm_delete_def)+

definition closed_by :: "bool \<Rightarrow> mission_effect list \<Rightarrow> mission \<Rightarrow> bool" where
  "closed_by sess es s \<longleftrightarrow> commands es = [] \<and> (if sess then reports es = 0 \<and> owes s = 1 else reports es = 1 \<and> owes s = 0)"

lemma notes_steps:
  "steps (map (\<lambda>n. note_on now (fst n) (Some (snd n))) ns) s
   = (s\<lparr>m_log := m_log s @ map (\<lambda>n. \<lparr>le_t = now - m_startedAt s, le_line = Some (snd n), le_kind = Event, le_who = [], le_text = fst n\<rparr>) ns\<rparr>, [])"
  by (induction ns arbitrary: s) (simp_all add: note_on_def upd_def)

lemma hangup_last:
  assumes "hanging i x [] sess s"
  shows "closed_by sess (snd (mission_step o1 (Ev_done now i r) s)) (fst (mission_step o1 (Ev_done now i r) s))"
  using assms
  by (cases r; simp add: hanging_def step_simps finish_notes_def finish_end_def await_def jm_get_def jm_delete_def
        closed_by_def notes_steps owes_def owed_def debug_def commands_def)

lemma hangups_run:
  assumes "hanging i x cs sess s" "length rs = length cs + 1"
  shows "commands (snd (mission_run o1 (hangups_done i now rs) s)) = map C_hangup cs
    \<and> reports (snd (mission_run o1 (hangups_done i now rs) s)) + owes (fst (mission_run o1 (hangups_done i now rs) s)) = 1"
  using assms
proof (induction cs arbitrary: i s rs)
  case Nil
  then obtain r where "rs = [r]" by (auto simp: length_Suc_conv)
  then show ?case using hangup_last [OF Nil(1), of o1 now r]
    by (simp add: mission_run_def closed_by_def case_prod_beta Let_def split: if_splits)
next
  case (Cons c cs)
  then obtain r rs' where rs: "rs = r # rs'" by (cases rs) auto
  have "commands (snd (mission_run o1 (hangups_done (i + 1) now rs') (fst (mission_step o1 (Ev_done now i r) s)))) = map C_hangup cs
    \<and> reports (snd (mission_run o1 (hangups_done (i + 1) now rs') (fst (mission_step o1 (Ev_done now i r) s))))
      + owes (fst (mission_run o1 (hangups_done (i + 1) now rs') (fst (mission_step o1 (Ev_done now i r) s)))) = 1"
    using Cons.prems(2) rs by (intro Cons.IH [OF hangup_step(1) [OF Cons.prems(1)]]) simp
  then show ?case using hangup_step(2) [OF Cons.prems(1), of o1 now r]
    by (simp add: rs mission_run_def Let_def case_prod_beta del: mission_step.simps)
qed

definition idle_from :: "mission \<Rightarrow> mission \<Rightarrow> bool" where
  "idle_from s0 s \<longleftrightarrow> m_tasks s = m_tasks s0 \<and> m_next s = m_next s0 \<and> m_ended s \<and> m_session s = m_session s0"

definition silent_effect :: "mission_effect \<Rightarrow> bool" where
  "silent_effect e \<longleftrightarrow> commands [e] = [] \<and> \<not> is_report e"

lemma commands_silent: "\<forall>e\<in>set es. silent_effect e \<Longrightarrow> commands es = [] \<and> reports es = 0"
  by (induction es) (auto simp: silent_effect_def commands_def split: mission_effect.splits)

lemma idle_debug: "keeps (idle_from s0) silent_effect (debug m)"
  unfolding debug_def by (intro keeps_intros) (simp add: silent_effect_def commands_def)

lemma idle_stopNavigator: "keeps (idle_from s0) silent_effect (stopNavigator o1)"
proof -
  have model: "keeps (idle_from s0) silent_effect (to_model o1 pcm)" for pcm
    unfolding to_model_def by (intro keeps_intros) (simp_all add: silent_effect_def commands_def idle_from_def)
  have "keeps (idle_from s0) silent_effect (unmute o1 why)" for why
    unfolding unmute_def clear_preroll_def
    by (intro keeps_reads keeps_whenever keeps_steps_Cons keeps_steps_Nil keeps_upd idle_debug keeps_steps_map model)
       (simp_all add: idle_from_def)
  then show ?thesis
    unfolding stopNavigator_def
    by (intro keeps_steps_Cons keeps_steps_Nil keeps_upd keeps_reads keeps_whenever keeps_emit)
       (simp_all add: idle_from_def silent_effect_def commands_def)
qed

lemma idle_stopListeners: "keeps (idle_from s0) silent_effect stopListeners"
  unfolding stopListeners_def by (intro keeps_intros) (simp add: list_all_iff silent_effect_def commands_def)

lemma finish_first:
  assumes "\<not> m_ended s" "\<not> m_detached s" "x \<noteq> Handed_off"
  shows "\<exists>t es. idle_from (s\<lparr>m_ended := True\<rparr>) t \<and> commands es = [] \<and> reports es = 0 \<and>
     finish o1 now x summary w None s =
       (fst (finish_hangups o1 now x w (rev (map ln_callId (live_lines s))) t),
        es @ snd (finish_hangups o1 now x w (rev (map ln_callId (live_lines s))) t))"
proof -
  let ?s1 = "s\<lparr>m_ended := True, m_outcome := x, m_summary := or_summary summary (m_summary s), m_timers := []\<rparr>"
  let ?pre = "[stopNavigator o1, stopListeners, upd (\<lambda>s. s\<lparr>m_endNotes := Some []\<rparr>)]"
  let ?t = "fst (steps ?pre ?s1)" and ?es = "snd (steps ?pre ?s1)"
  have "keeps (idle_from (s\<lparr>m_ended := True\<rparr>)) silent_effect (steps ?pre)"
    by (intro keeps_steps_Cons keeps_steps_Nil keeps_upd idle_stopNavigator idle_stopListeners) (simp add: idle_from_def)
  moreover have "idle_from (s\<lparr>m_ended := True\<rparr>) ?s1" by (simp add: idle_from_def)
  ultimately have "idle_from (s\<lparr>m_ended := True\<rparr>) ?t" "\<forall>e\<in>set ?es. silent_effect e"
    unfolding keeps_def by blast+
  moreover have "finish o1 now x summary w None s =
       (fst (finish_hangups o1 now x w (rev (map ln_callId (live_lines s))) ?t),
        ?es @ snd (finish_hangups o1 now x w (rev (map ln_callId (live_lines s))) ?t))"
    using assms by (simp add: finish_def reads_def upd_def Let_def case_prod_beta)
  ultimately show ?thesis using commands_silent by blast
qed


definition demo_two_lines :: mission where
  "demo_two_lines = (new_mission [] 0 [])\<lparr>m_lines :=
     [\<lparr>ln_n = 1, ln_callId = [1], ln_party = mo_party demo_options, ln_state = Held\<rparr>,
      \<lparr>ln_n = 2, ln_callId = [2], ln_party = mo_party demo_options, ln_state = Active\<rparr>]\<rparr>"


definition dialled :: "mission_effect \<Rightarrow> jstr option" where
  "dialled e = (case e of E_cmd i (C_dial n) \<Rightarrow> Some n | _ \<Rightarrow> None)"

text \<open>
  Only the mission's party and its contacts are ever called: every number dialled in a run is
  the party's or one of the contacts', whatever the voice model asks for.
\<close>

lemma mission_dials_known_numbers:
  "list_all (\<lambda>e. dialled e \<in> insert None (Some ` numbers o1)) (snd (mission_run o1 evs (new_mission mid now key)))"
proof -
  have "dialled e \<in> insert None (Some ` numbers o1)" if "effect_ok o1 s e" for s e
    using that by (cases "(o1, s, e)" rule: effect_ok.cases) (auto simp: dialled_def)
  then show ?thesis
    using mission_run_from(3) [OF mission_ok_new] by (fastforce simp: list_all_iff)
qed

text \<open>
  The lines of a mission are numbered from one in the order they were called, and the line the
  assistant is on is one of them.
\<close>

lemma mission_lines_numbered:
  "map ln_n (m_lines (fst (mission_run o1 evs (new_mission mid now key))))
     = [1 ..< length (m_lines (fst (mission_run o1 evs (new_mission mid now key)))) + 1]
   \<and> m_active (fst (mission_run o1 evs (new_mission mid now key)))
     \<in> insert None (Some ` ln_n ` set (m_lines (fst (mission_run o1 evs (new_mission mid now key)))))"
proof -
  let ?s = "fst (mission_run o1 evs (new_mission mid now key))"
  have ok: "lines_ok ?s" using mission_run_ok by (rule mission_ok_lines)
  then have n: "map ln_n (m_lines ?s) = [1 ..< length (m_lines ?s) + 1]" by (simp only: lines_ok_def)
  have "ln_n ` set (m_lines ?s) = set [1 ..< length (m_lines ?s) + 1]" by (simp only: n [symmetric] set_map)
  with ok n show ?thesis unfolding lines_ok_def line_in_def by (cases "m_active ?s") auto
qed

definition is_audio :: "mission_effect \<Rightarrow> bool" where
  "is_audio e = (case e of E_line_audio _ \<Rightarrow> True | E_listener_send _ _ \<Rightarrow> True | E_transcriber_send _ \<Rightarrow> True
     | E_detector _ \<Rightarrow> True | _ \<Rightarrow> False)"

text \<open>
  The end is final. Once a mission has ended or has left a merged call, no run of events brings
  it back, its log only grows, and no more audio reaches the line, a listener, the transcriber or
  the speech detector.
\<close>

lemma mission_end_is_final:
  assumes "s = fst (mission_run o1 evs (new_mission mid now key))" "m_ended s \<or> m_detached s"
  shows "(m_ended (fst (mission_run o1 rest s)) \<or> m_detached (fst (mission_run o1 rest s)))
    \<and> prefix (m_log s) (m_log (fst (mission_run o1 rest s)))
    \<and> filter is_audio (snd (mission_run o1 rest s)) = []"
proof -
  have ok: "mission_ok o1 s" unfolding assms(1) by (rule mission_run_ok)
  have "\<not> is_audio e" if "e \<in> set (snd (mission_run o1 rest s))" for e
    using mission_run_from(3) [OF ok that] assms(2)
    by (cases e) (auto simp: is_audio_def open_line_def)
  then have "filter is_audio (snd (mission_run o1 rest s)) = []" by (simp add: filter_empty_conv)
  then show ?thesis using mission_run_from(2) [OF ok, of rest] assms(2) by (auto simp: later_def)
qed

lemma mission_end_is_final_witness:
  "m_ended (fst (mission_run demo_options [] (fst (mission_run demo_options [Ev_finish 1 Failed None False] (new_mission [] 0 [])))))
   \<or> m_detached (fst (mission_run demo_options [] (fst (mission_run demo_options [Ev_finish 1 Failed None False] (new_mission [] 0 [])))))"
  using mission_end_is_final [OF refl, of demo_options "[Ev_finish 1 Failed None False]" "[]" 0 "[]" "[]"]
  by (simp add: mission_eval)

text \<open>
  Hold music. The voice model stops hearing the line only while the navigator is on (it is never
  left deaf), and what is kept for it meanwhile is at most two seconds of the line, or one chunk.
\<close>

lemma mission_hold_music:
  "(m_muted (fst (mission_run o1 evs (new_mission mid now key))) \<and> m_nav_on (fst (mission_run o1 evs (new_mission mid now key))))
     = m_muted (fst (mission_run o1 evs (new_mission mid now key)))
   \<and> (length (concat (m_preroll (fst (mission_run o1 evs (new_mission mid now key))))) \<le> PREROLL_MS * 32
      \<or> length (m_preroll (fst (mission_run o1 evs (new_mission mid now key)))) \<le> 1)"
  using mission_run_ok [of o1 evs mid now key] by (auto simp: mission_ok_def preroll_ok_def)

text \<open>
  What happens when the merge comes back after a finish. The continuation of \<open>connectLines\<close>
  never looks at \<open>ended\<close>: a call that hits its time limit while its lines are being merged is hung
  up, reported as timed out, and reported again as handed off.
\<close>

lemma merge_after_finish_reports_twice:
  "map rp_outcome (concat (map (\<lambda>e. case e of E_report r \<Rightarrow> [r] | _ \<Rightarrow> [])
     (snd (mission_run demo_options (demo_joining @
       [Ev_done 12 10 (Inr V_none), Ev_finish 12 Max_duration None False, Ev_done 13 11 (Inr V_none),
        Ev_done 14 12 (Inr V_none), Ev_done 15 14 (Inr V_none), Ev_done 16 15 (Inr V_none), Ev_done 17 13 (Inr V_none)])
       (new_mission [] 0 []))))) = [Max_duration, Handed_off]"
  unfolding demo_joining_def
  by (simp add: mission_eval)

text \<open>
  What happens when a finish comes while the call is being dialled. \<open>start\<close> never looks at
  \<open>ended\<close>: the mission reports, with no line to hang up yet; then the dial comes back, the other
  party answers, a voice-model session is opened, and nothing hangs up or closes any of it.
\<close>

lemma finish_while_dialling_leaves_the_call:
  "(let (s, es) = mission_run demo_options
      [Ev_start 0, Ev_finish 1 Ended_by_agent None True,
       Ev_done 2 2 (Inr (V_call (demo_call [1] Dialing))), Ev_done 3 3 (Inr (V_wait (Some (demo_call [1] Active)))),
       Ev_done 4 4 (Inr (V_context None None None)), Ev_done 5 5 (Inr V_none)] (new_mission [] 0 [])
    in (m_ended s, reports es, commands es, map ln_state (m_lines s), m_session s, m_timers s, m_tasks s))
   = (True, 1, [C_dial (js ''+49301'')], [Active], True, [], [])"
  by (simp add: mission_eval commands_def)

end
