(* ===== verification/Otacon.thy ===== *)
theory Otacon
  imports Line Json Bytes Contracts
begin

text \<open>
  \<open>src/openclaw-voice/src/otacon.ts\<close>: \<open>OtaconLink\<close>, the client of a phone's voice socket. Commands
  go out under an id and are answered by an \<open>ack\<close> or an \<open>error\<close>, marks by \<open>mark\<close>; a lost socket is
  opened again with a growing delay. Sockets are numbered: an event of a socket names it. A message
  arrives parsed (\<open>None\<close>: not JSON, ignored); the promises are settled by effects that name the
  command's id or the mark's name.
\<close>

record otacon_options =
  oo_url :: jstr
  oo_phoneId :: jstr
  oo_takeover :: bool

record otacon =
  ot_ws :: "nat option"
  ot_stopped :: bool
  ot_open :: bool
  ot_next :: nat
  ot_pending :: "(jstr \<times> jstr) list"
  ot_marks :: "(jstr \<times> unit) list"
  ot_retryMs :: nat
  ot_sampleRate :: "json option"
  ot_hfp :: bool
  ot_calls :: "(json option \<times> json) list"
  ot_sockets :: nat

definition new_otacon :: otacon where
  "new_otacon = \<lparr>ot_ws = None, ot_stopped = False, ot_open = False, ot_next = 0, ot_pending = [], ot_marks = [],
     ot_retryMs = 1000, ot_sampleRate = Some (JNum 16000), ot_hfp = False, ot_calls = [], ot_sockets = 0\<rparr>"

datatype otacon_effect =
    O_connect nat jstr
  | O_close nat
  | O_retry nat
  | O_send_cmd jstr json
  | O_send_mark jstr json
  | O_send_audio "byte list"
  | O_timer jstr nat
  | O_resolve jstr json
  | O_reject jstr line_error
  | O_played jstr bool
  | O_refused line_error
  | O_cleared_now
  | O_emit string "json option"
  | O_audio "byte list"
  | O_link bool
  | O_log jstr

section \<open>The socket\<close>

text \<open>\<open>url.replace(/^http/, "ws")\<close>\<close>

definition ws_base :: "jstr \<Rightarrow> jstr" where
  "ws_base url = (if take 4 url = js ''http'' then js ''ws'' @ drop 4 url else url)"

definition ot_url :: "otacon_options \<Rightarrow> jstr" where
  "ot_url o1 = ws_base (oo_url o1) @ js ''/phones/'' @ oo_phoneId o1 @ js ''/ws/voice/control''
     @ (if oo_takeover o1 then js ''?takeover=1'' else [])"

definition ot_connect :: "otacon_options \<Rightarrow> otacon \<Rightarrow> otacon \<times> otacon_effect list" where
  "ot_connect o1 s =
     (if ot_stopped s then (s, [])
      else (s\<lparr>ot_ws := Some (ot_sockets s), ot_sockets := ot_sockets s + 1\<rparr>, [O_connect (ot_sockets s) (ot_url o1)]))"

definition ot_start :: "otacon_options \<Rightarrow> otacon \<Rightarrow> otacon \<times> otacon_effect list" where
  "ot_start o1 s = ot_connect o1 (s\<lparr>ot_stopped := False\<rparr>)"

definition ot_stop :: "otacon \<Rightarrow> otacon \<times> otacon_effect list" where
  "ot_stop s = (s\<lparr>ot_stopped := True\<rparr>, case ot_ws s of None \<Rightarrow> [] | Some w \<Rightarrow> [O_close w])"

definition ot_onopen :: "otacon_options \<Rightarrow> otacon \<Rightarrow> otacon \<times> otacon_effect list" where
  "ot_onopen o1 s = (s\<lparr>ot_open := True, ot_retryMs := 1000\<rparr>,
     [O_log (js ''[otacon-voice] connected to '' @ oo_phoneId o1), O_emit ''open'' None])"

definition retry_delay :: "nat \<Rightarrow> otacon \<Rightarrow> nat" where
  "retry_delay code s = (if code = 4001 then 60000 else ot_retryMs s)"

definition ot_onclose :: "nat \<Rightarrow> otacon \<Rightarrow> otacon \<times> otacon_effect list" where
  "ot_onclose code s =
     (let settled = map (\<lambda>p. O_reject (fst p) (LineError ''disconnected'' (js ''the otacon socket closed''))) (ot_pending s)
            @ map (\<lambda>m. O_played (fst m) True) (ot_marks s)
            @ (if ot_open s then [O_emit ''close'' None] else []);
          s1 = s\<lparr>ot_open := False, ot_pending := [], ot_marks := []\<rparr>
      in if ot_stopped s then (s1, settled)
         else (s1\<lparr>ot_retryMs := min (ot_retryMs s * 2) 15000\<rparr>,
               settled @ (if code = 4001 then [O_log (js ''[otacon-voice] another client took control of the phone'')] else [])
               @ [O_retry (retry_delay code s)]))"

section \<open>Messages\<close>

definition ot_hello :: "json \<Rightarrow> otacon \<Rightarrow> otacon \<times> otacon_effect list" where
  "ot_hello msg s =
     (let rate = nullish_or (case json_get msg (js ''audio'') of None \<Rightarrow> None | Some a \<Rightarrow> json_get a (js ''sampleRate'')) (Some (JNum 16000));
          hfp = truthy (case json_get msg (js ''hfp'') of None \<Rightarrow> None | Some h \<Rightarrow> json_get h (js ''connected''));
          cs = (case json_get msg (js ''calls'') of Some (JArr cs) \<Rightarrow> cs | _ \<Rightarrow> [])
      in (s\<lparr>ot_sampleRate := rate, ot_hfp := hfp,
            ot_calls := fold (\<lambda>c. jm_set (json_get c (js ''id'')) c) cs []\<rparr>,
          [O_emit ''hello'' (Some msg)]))"

definition str_id :: "json option \<Rightarrow> jstr option" where
  "str_id v = (case v of Some (JStr i) \<Rightarrow> Some i | _ \<Rightarrow> None)"

definition found :: "('k \<times> 'v) list \<Rightarrow> 'k option \<Rightarrow> ('k \<times> 'v) option" where
  "found m k = (case k of None \<Rightarrow> None | Some i \<Rightarrow> map_option (Pair i) (jm_get m i))"

definition ot_reply :: "bool \<Rightarrow> json \<Rightarrow> otacon \<Rightarrow> otacon \<times> otacon_effect list" where
  "ot_reply ok msg s =
     (let code = js_string_opt (json_get msg (js ''code'')); message = js_string_opt (json_get msg (js ''message''))
      in (case found (ot_pending s) (str_id (json_get msg (js ''id''))) of
            None \<Rightarrow> (s, if ok then [] else [O_log (js ''[otacon-voice] otacon error: '' @ code @ js '' '' @ message)])
          | Some (i, t) \<Rightarrow>
              (s\<lparr>ot_pending := jm_delete i (ot_pending s)\<rparr>,
               [if ok then O_resolve i (the (nullish_or (json_get msg (js ''result'')) (Some (JObj []))))
                else O_reject i \<lparr>err_code = code, err_message = message\<rparr>])))"

definition ot_marked :: "json \<Rightarrow> otacon \<Rightarrow> otacon \<times> otacon_effect list" where
  "ot_marked msg s = (case found (ot_marks s) (str_id (json_get msg (js ''name''))) of
      None \<Rightarrow> (s, [])
    | Some (n, u) \<Rightarrow> (s\<lparr>ot_marks := jm_delete n (ot_marks s)\<rparr>, [O_played n (truthy (json_get msg (js ''cleared'')))]))"

text \<open>\<open>msg.call.id\<close> of a message without a call throws: nothing happens.\<close>

definition ot_call :: "bool \<Rightarrow> json \<Rightarrow> otacon \<Rightarrow> otacon \<times> otacon_effect list" where
  "ot_call over msg s = (case json_get msg (js ''call'') of
      None \<Rightarrow> (s, [])
    | Some JNull \<Rightarrow> (s, [])
    | Some c \<Rightarrow> (s\<lparr>ot_calls := (if over then jm_delete (json_get c (js ''id'')) (ot_calls s)
                    else jm_set (json_get c (js ''id'')) c (ot_calls s))\<rparr>,
          [O_emit ''call'' (Some msg)]))"

definition ot_onText :: "json option \<Rightarrow> otacon \<Rightarrow> otacon \<times> otacon_effect list" where
  "ot_onText raw s = (case raw of
      None \<Rightarrow> (s, [])
    | Some msg \<Rightarrow>
        (let t = json_get msg (js ''type''); kind = (\<lambda>k. t = Some (JStr (js k)))
         in if kind ''hello'' then ot_hello msg s
            else if kind ''ack'' then ot_reply True msg s
            else if kind ''error'' then ot_reply False msg s
            else if kind ''mark'' then ot_marked msg s
            else if kind ''call.incoming'' \<or> kind ''call.state'' then ot_call False msg s
            else if kind ''call.ended'' then ot_call True msg s
            else if kind ''hfp'' then (s\<lparr>ot_hfp := truthy (json_get msg (js ''connected''))\<rparr>, [])
            else if kind ''audio.link'' then (s, [O_link (truthy (json_get msg (js ''up'')))])
            else (s, [])))"

section \<open>Commands\<close>

definition ot_cmd :: "jstr \<Rightarrow> (jstr \<times> json) list \<Rightarrow> nat \<Rightarrow> otacon \<Rightarrow> otacon \<times> otacon_effect list" where
  "ot_cmd type flds timeoutMs s =
     (if ot_ws s = None \<or> \<not> ot_open s then (s, [O_refused (LineError ''disconnected'' (js ''not connected to otacon''))])
      else (let i = dec_nat (ot_next s + 1)
            in (s\<lparr>ot_next := ot_next s + 1, ot_pending := jm_set i type (ot_pending s)\<rparr>,
                [O_timer i timeoutMs, O_send_cmd i (JObj (jm_set (js ''id'') (JStr i) (jm_set (js ''type'') (JStr type) flds)))])))"

definition ot_timeout :: "jstr \<Rightarrow> otacon \<Rightarrow> otacon \<times> otacon_effect list" where
  "ot_timeout i s = (case jm_get (ot_pending s) i of
      None \<Rightarrow> (s, [])
    | Some type \<Rightarrow> (s\<lparr>ot_pending := jm_delete i (ot_pending s)\<rparr>,
        [O_reject i (LineError ''timeout'' (type @ js '': no reply from otacon''))]))"

definition ot_sendAudio :: "byte list \<Rightarrow> otacon \<Rightarrow> otacon \<times> otacon_effect list" where
  "ot_sendAudio pcm s = (s, if ot_open s \<and> pcm \<noteq> [] then [O_send_audio pcm] else [])"

definition ot_mark :: "otacon \<Rightarrow> otacon \<times> otacon_effect list" where
  "ot_mark s =
     (if \<not> ot_open s then (s, [O_cleared_now])
      else (let n = js ''m'' @ dec_nat (ot_next s + 1)
            in (s\<lparr>ot_next := ot_next s + 1, ot_marks := jm_set n () (ot_marks s)\<rparr>,
                [O_send_mark n (JObj [(js ''type'', JStr (js ''mark'')), (js ''name'', JStr n)])])))"

definition ot_clear :: "otacon \<Rightarrow> otacon \<times> otacon_effect list" where
  "ot_clear s = ot_cmd (js ''clear'') [] 5000 s"

definition clear_result :: "line_error + json \<Rightarrow> int" where
  "clear_result r = (case r of Inl e \<Rightarrow> 0
    | Inr v \<Rightarrow> (case js_number (json_get v (js ''droppedMs'')) of Some n \<Rightarrow> n | None \<Rightarrow> 0))"

section \<open>The machine\<close>

datatype otacon_event =
    OE_start
  | OE_stop
  | OE_open nat
  | OE_text nat "json option"
  | OE_binary nat "byte list"
  | OE_close nat nat
  | OE_retry
  | OE_cmd jstr "(jstr \<times> json) list" nat
  | OE_timeout jstr
  | OE_audio "byte list"
  | OE_mark
  | OE_clear

fun otacon_step :: "otacon_options \<Rightarrow> otacon_event \<Rightarrow> otacon \<Rightarrow> otacon \<times> otacon_effect list" where
  "otacon_step o1 OE_start s = ot_start o1 s"
| "otacon_step o1 OE_stop s = ot_stop s"
| "otacon_step o1 (OE_open w) s = ot_onopen o1 s"
| "otacon_step o1 (OE_text w raw) s = ot_onText raw s"
| "otacon_step o1 (OE_binary w pcm) s = (s, [O_audio pcm])"
| "otacon_step o1 (OE_close w code) s = ot_onclose code s"
| "otacon_step o1 OE_retry s = ot_connect o1 s"
| "otacon_step o1 (OE_cmd t flds ms) s = ot_cmd t flds ms s"
| "otacon_step o1 (OE_timeout i) s = ot_timeout i s"
| "otacon_step o1 (OE_audio pcm) s = ot_sendAudio pcm s"
| "otacon_step o1 OE_mark s = ot_mark s"
| "otacon_step o1 OE_clear s = ot_clear s"

fun otacon_run :: "otacon_options \<Rightarrow> otacon_event list \<Rightarrow> otacon \<Rightarrow> otacon \<times> otacon_effect list" where
  "otacon_run o1 [] s = (s, [])"
| "otacon_run o1 (e # es) s = (let (s1, f1) = otacon_step o1 e s; (s2, f2) = otacon_run o1 es s1 in (s2, f1 @ f2))"

section \<open>What is asked and what is settled\<close>

fun asks :: "otacon_effect \<Rightarrow> jstr multiset" where
  "asks (O_send_cmd i m) = {#i#}"
| "asks (O_send_mark n m) = {#n#}"
| "asks e = {#}"

fun settles :: "otacon_effect \<Rightarrow> jstr multiset" where
  "settles (O_resolve i v) = {#i#}"
| "settles (O_reject i e) = {#i#}"
| "settles (O_played n c) = {#n#}"
| "settles e = {#}"

definition asked :: "otacon_effect list \<Rightarrow> jstr multiset" where
  "asked es = sum_list (map asks es)"

definition settled :: "otacon_effect list \<Rightarrow> jstr multiset" where
  "settled es = sum_list (map settles es)"

definition key_bag :: "('k \<times> 'v) list \<Rightarrow> 'k multiset" where
  "key_bag m = mset (map fst m)"

definition waiting :: "otacon \<Rightarrow> jstr multiset" where
  "waiting s = key_bag (ot_pending s) + key_bag (ot_marks s)"

lemma ledger_simps [simp]:
  "asked [] = {#}" "settled [] = {#}" "asked (e # es) = asks e + asked es" "settled (e # es) = settles e + settled es"
  "asked (es @ fs) = asked es + asked fs" "settled (es @ fs) = settled es + settled fs"
  by (simp_all add: asked_def settled_def)

text \<open>The ids and the mark names handed out so far, and the retry delay's bounds.\<close>

definition otacon_ok :: "otacon \<Rightarrow> bool" where
  "otacon_ok s \<longleftrightarrow> distinct (map fst (ot_pending s)) \<and> distinct (map fst (ot_marks s))
     \<and> (\<forall>i\<in>fst ` set (ot_pending s). \<exists>k\<le>ot_next s. i = dec_nat k)
     \<and> (\<forall>n\<in>fst ` set (ot_marks s). \<exists>k\<le>ot_next s. n = js ''m'' @ dec_nat k)
     \<and> 1000 \<le> ot_retryMs s \<and> ot_retryMs s \<le> 15000"

definition balanced :: "otacon \<Rightarrow> otacon \<times> otacon_effect list \<Rightarrow> bool" where
  "balanced s r \<longleftrightarrow> waiting s + asked (snd r) = settled (snd r) + waiting (fst r)"

lemma key_bag_delete:
  "distinct (map fst m) \<Longrightarrow> jm_get m k = Some v \<Longrightarrow> key_bag m = add_mset k (key_bag (jm_delete k m))"
  by (simp add: key_bag_def delete_key_mset)

lemma key_bag_set: "k \<notin> fst ` set m \<Longrightarrow> key_bag (jm_set k v m) = add_mset k (key_bag m)"
  by (simp add: jm_set_fresh key_bag_def)

lemma fresh_id: "otacon_ok s \<Longrightarrow> dec_nat (Suc (ot_next s)) \<notin> fst ` set (ot_pending s)"
  by (force simp: otacon_ok_def)

lemma fresh_name: "otacon_ok s \<Longrightarrow> js ''m'' @ dec_nat (Suc (ot_next s)) \<notin> fst ` set (ot_marks s)"
  by (force simp: otacon_ok_def)

lemma found_some: "found m k = Some (i, v) \<longleftrightarrow> k = Some i \<and> jm_get m i = Some v"
  by (auto simp: found_def split: option.splits)

lemma ok_delete:
  "otacon_ok s \<Longrightarrow> otacon_ok (s\<lparr>ot_pending := jm_delete i (ot_pending s)\<rparr>)"
  "otacon_ok s \<Longrightarrow> otacon_ok (s\<lparr>ot_marks := jm_delete i (ot_marks s)\<rparr>)"
  by (auto simp: otacon_ok_def set_jm_delete distinct_jm_delete)

definition good_step :: "otacon \<Rightarrow> otacon \<times> otacon_effect list \<Rightarrow> bool" where
  "good_step s r \<longleftrightarrow> otacon_ok (fst r) \<and> balanced s r"

lemmas good_defs = good_step_def balanced_def waiting_def

lemma good_quiet: "otacon_ok s' \<Longrightarrow> ot_pending s' = ot_pending s \<Longrightarrow> ot_marks s' = ot_marks s \<Longrightarrow>
    asked es = {#} \<Longrightarrow> settled es = {#} \<Longrightarrow> good_step s (s', es)"
  by (simp add: good_defs)

lemma good_if: "(b \<Longrightarrow> good_step s x) \<Longrightarrow> (\<not> b \<Longrightarrow> good_step s y) \<Longrightarrow> good_step s (if b then x else y)"
  by simp

lemma otacon_okD: "otacon_ok s \<Longrightarrow> distinct (map fst (ot_pending s))" "otacon_ok s \<Longrightarrow> distinct (map fst (ot_marks s))"
  by (simp_all add: otacon_ok_def)

lemma good_reply: "otacon_ok s \<Longrightarrow> good_step s (ot_reply b m s)"
  by (auto simp: ot_reply_def good_defs Let_def found_some ok_delete key_bag_delete [OF otacon_okD(1)] split: option.split)

lemma good_timeout: "otacon_ok s \<Longrightarrow> good_step s (ot_timeout i s)"
  by (auto simp: ot_timeout_def good_defs ok_delete key_bag_delete [OF otacon_okD(1)] split: option.split)

lemma good_marked: "otacon_ok s \<Longrightarrow> good_step s (ot_marked m s)"
  by (auto simp: ot_marked_def good_defs found_some ok_delete key_bag_delete [OF otacon_okD(2)] split: option.split)

lemma ok_ask:
  assumes "otacon_ok s"
  shows "otacon_ok (s\<lparr>ot_next := Suc (ot_next s), ot_pending := jm_set (dec_nat (Suc (ot_next s))) t (ot_pending s)\<rparr>)"
    "otacon_ok (s\<lparr>ot_next := Suc (ot_next s), ot_marks := jm_set (js ''m'' @ dec_nat (Suc (ot_next s))) u (ot_marks s)\<rparr>)"
  using assms fresh_id [OF assms] fresh_name [OF assms]
  by (auto simp: otacon_ok_def jm_set_fresh intro: le_SucI)

lemma good_cmd: "otacon_ok s \<Longrightarrow> good_step s (ot_cmd t fs ms s)"
  using fresh_id [of s] ok_ask(1) [of s] by (auto simp: ot_cmd_def good_defs key_bag_set Let_def)

lemma good_mark: "otacon_ok s \<Longrightarrow> good_step s (ot_mark s)"
  using fresh_name [of s] ok_ask(2) [of s] by (auto simp: ot_mark_def good_defs key_bag_set Let_def)

lemma settled_close:
  "settled (map (\<lambda>p. O_reject (fst p) e) ps) = key_bag ps"
  "settled (map (\<lambda>p. O_played (fst p) b) qs) = key_bag qs"
  "asked (map (\<lambda>p. O_reject (fst p) e) ps) = {#}" "asked (map (\<lambda>p. O_played (fst p) b) qs) = {#}"
proof -
  show "settled (map (\<lambda>p. O_reject (fst p) e) ps) = key_bag ps" "asked (map (\<lambda>p. O_reject (fst p) e) ps) = {#}"
    by (induction ps) (simp_all add: key_bag_def)
  show "settled (map (\<lambda>p. O_played (fst p) b) qs) = key_bag qs" "asked (map (\<lambda>p. O_played (fst p) b) qs) = {#}"
    by (induction qs) (simp_all add: key_bag_def)
qed

lemma good_close: "otacon_ok s \<Longrightarrow> good_step s (ot_onclose code s)"
  by (auto simp: ot_onclose_def good_defs Let_def settled_close otacon_ok_def key_bag_def)

lemma otacon_ok_upd [simp]:
  "otacon_ok (s\<lparr>ot_hfp := h\<rparr>) = otacon_ok s" "otacon_ok (s\<lparr>ot_calls := c\<rparr>) = otacon_ok s"
  "otacon_ok (s\<lparr>ot_sampleRate := r\<rparr>) = otacon_ok s" "otacon_ok (s\<lparr>ot_stopped := b\<rparr>) = otacon_ok s"
  "otacon_ok (s\<lparr>ot_ws := w\<rparr>) = otacon_ok s" "otacon_ok (s\<lparr>ot_sockets := n\<rparr>) = otacon_ok s"
  "otacon_ok (s\<lparr>ot_open := b\<rparr>) = otacon_ok s" "otacon_ok s \<Longrightarrow> otacon_ok (s\<lparr>ot_retryMs := 1000\<rparr>)"
  by (simp_all add: otacon_ok_def)

lemma good_hello: "otacon_ok s \<Longrightarrow> good_step s (ot_hello m s)"
  unfolding ot_hello_def Let_def by (rule good_quiet) simp_all

lemma good_call: "otacon_ok s \<Longrightarrow> good_step s (ot_call b m s)"
  unfolding ot_call_def by (auto intro!: good_quiet split: option.split json.split)

lemma good_text: "otacon_ok s \<Longrightarrow> good_step s (ot_onText raw s)"
  unfolding ot_onText_def Let_def
  by (cases raw; simp only: option.case)
     (intro good_if good_hello good_reply good_marked good_call good_quiet; simp)+

lemma step_ok:
  assumes "otacon_ok s"
  shows "good_step s (otacon_step o1 e s)"
proof (cases e)
  case OE_start
  then show ?thesis using assms by (auto simp: ot_start_def ot_connect_def intro!: good_quiet)
next
  case OE_retry
  then show ?thesis using assms by (auto simp: ot_connect_def intro!: good_quiet)
next
  case OE_stop
  then show ?thesis using assms by (auto simp: ot_stop_def intro!: good_quiet split: option.split)
qed (use assms in \<open>auto simp: good_timeout good_cmd good_mark good_close good_text ot_clear_def ot_onopen_def
      ot_sendAudio_def intro!: good_quiet\<close>)

lemma run_ok:
  "otacon_ok s \<Longrightarrow> otacon_ok (fst (otacon_run o1 es s)) \<and>
     waiting s + asked (snd (otacon_run o1 es s)) = settled (snd (otacon_run o1 es s)) + waiting (fst (otacon_run o1 es s))"
proof (induction es arbitrary: s)
  case (Cons e es)
  have g: "otacon_ok (fst (otacon_step o1 e s))" "balanced s (otacon_step o1 e s)"
    using step_ok [OF Cons.prems, of o1 e] by (simp_all add: good_step_def)
  from Cons.IH [OF g(1)] g(2) show ?case
    by (simp add: balanced_def Let_def case_prod_beta) (metis add.assoc add.commute)
qed simp

lemma new_otacon_ok: "otacon_ok new_otacon" "waiting new_otacon = {#}"
  by (simp_all add: otacon_ok_def new_otacon_def waiting_def key_bag_def)

interpretation otacon_machine: event_machine "\<lambda>s e. fst (otacon_step o1 e s)" otacon_ok for o1
  using step_ok by unfold_locales (simp add: good_step_def)

section \<open>Properties\<close>

text \<open>
  C40: every command that was sent and every mark is settled exactly once or is still waiting, over any
  run of the link (replies, errors, marks, timeouts, lost and reopened sockets); nothing else is ever
  settled, and a lost socket settles all of them.
\<close>

theorem otacon_settles_once:
  "asked (snd (otacon_run o1 es new_otacon)) = settled (snd (otacon_run o1 es new_otacon)) + waiting (fst (otacon_run o1 es new_otacon))
   \<and> waiting (fst (otacon_step o1 (OE_close w code) (fst (otacon_run o1 es new_otacon)))) = {#}"
  using run_ok [OF new_otacon_ok(1), of o1 es] new_otacon_ok(2)
  by (simp add: ot_onclose_def Let_def waiting_def key_bag_def)

text \<open>
  Reconnecting. Over any run the delay before the link tries again is between one second and
  fifteen, and a minute when another client took the phone; each retry opens at most one socket.
\<close>

lemma otacon_retry_bounds:
  "retry_delay code (fst (otacon_run o1 es new_otacon)) \<in> {1000..15000} \<union> {60000}
   \<and> length (snd (otacon_step o1 OE_retry (fst (otacon_run o1 es new_otacon)))) \<le> 1"
  using run_ok [OF new_otacon_ok(1), of o1 es]
  by (auto simp: retry_delay_def otacon_ok_def ot_connect_def)

end
