(* ===== verification/Report.thy ===== *)
theory Report
  imports Mission "HOL-Library.Sublist"
begin

text \<open>
  \<open>src/openclaw-voice/src/report.ts\<close>: the call outcome as the agent reads it. \<open>formatReport\<close> puts
  the summary, the goal and the pointers first and cuts the log to fit, keeping its end;
  \<open>formatSavedReport\<close> cuts nothing (its limit is \<open>Infinity\<close>, here \<open>None\<close>).
\<close>

section \<open>Parts\<close>

definition REPORT_MAX_CHARS :: int where "REPORT_MAX_CHARS = 3000"

text \<open>\<open>Math.round(ms / 1000)\<close>, \<open>padStart(2, "0")\<close>\<close>

definition round_seconds :: "int \<Rightarrow> int" where
  "round_seconds ms = (ms + 500) div 1000"

definition pad2 :: "jstr \<Rightarrow> jstr" where
  "pad2 s = replicate (2 - length s) 48 @ s"

definition stamp :: "int \<Rightarrow> jstr" where
  "stamp ms = (let s = max 0 (round_seconds ms) in pad2 (dec_int (s div 60)) @ [58] @ pad2 (dec_int (s mod 60)))"

definition line_prefix :: "nat option \<Rightarrow> jstr" where
  "line_prefix l = (case l of None \<Rightarrow> [] | Some n \<Rightarrow> if n = 0 then [] else js ''[line '' @ dec_nat n @ js ''] '')"

definition formatLogEntry :: "log_entry \<Rightarrow> jstr" where
  "formatLogEntry e =
     (if le_kind e = Event then js ''['' @ stamp (le_t e) @ js ''] '' @ line_prefix (le_line e) @ [8212] @ js '' '' @ le_text e
      else js ''['' @ stamp (le_t e) @ js ''] '' @ line_prefix (le_line e) @ le_who e @ js '': '' @ le_text e)"

definition clip :: "jstr \<Rightarrow> int \<Rightarrow> jstr" where
  "clip s m = (if int (length s) \<le> m then s else trim_end (take (nat (max 0 (m - 1))) s) @ [8230])"

record report_options =
  ro_savedAt :: "jstr option"
  ro_maxChars :: "int option option"
  ro_saved :: bool

section \<open>The report\<close>

definition report_who :: "party \<Rightarrow> jstr" where
  "report_who p = (if party_name p = party_number p then party_number p else party_name p @ js '' ('' @ party_number p @ js '')'')"

definition report_ours :: "(jstr \<times> jstr option) option \<Rightarrow> jstr" where
  "report_ours l = (case l of None \<Rightarrow> []
     | Some (i, n) \<Rightarrow> i @ (if or_empty n = [] then [] else js '' ('' @ or_empty n @ js '')''))"

definition report_head :: "mission_report \<Rightarrow> jstr" where
  "report_head r =
     (let secs = dec_int (round_seconds (rp_endedAt r - rp_startedAt r)); ours = report_ours (rp_line r);
          over = js ''('' @ outcome_text (rp_outcome r) @ js '', '' @ secs @ js ''s).''
      in if rp_outbound r then
           js ''[otacon-voice] The phone call you placed to '' @ report_who (rp_party r) @ (if ours = [] then [] else js '' from '' @ ours) @ js '' has ended '' @ over
         else js ''[otacon-voice] Incoming call from '' @ report_who (rp_party r) @ (if ours = [] then [] else js '' to '' @ ours) @ js '' ended '' @ over)"

definition report_tldr :: "mission_report \<Rightarrow> jstr" where
  "report_tldr r = (let t = trim (or_empty (rp_summary r)) in
     if t \<noteq> [] then js ''TL;DR: '' @ clip t 1200
     else js ''TL;DR: none; the call ended before the assistant summed it up. Read the log.'')"

definition report_full :: "mission_report \<Rightarrow> report_options \<Rightarrow> jstr" where
  "report_full r o1 = (if ro_saved o1 then [] else
     js ''Full transcript: otacon_call_log with callId '' @ rp_missionId r @
       (if or_empty (ro_savedAt o1) = [] then [] else js '' (saved at '' @ or_empty (ro_savedAt o1) @ js '')'') @ js ''.'')"

definition report_tail :: "report_options \<Rightarrow> jstr" where
  "report_tail o1 = (if ro_saved o1 then [] else js ''Tell the user how the call went if they're waiting for it.'')"

definition report_session :: "mission_report \<Rightarrow> jstr" where
  "report_session r = js ''Call session (where its consults ran): '' @ rp_sessionKey r"

definition fixed_chars :: "mission_report \<Rightarrow> report_options \<Rightarrow> int" where
  "fixed_chars r o1 = int (length (join [10] [report_head r, report_tldr r, report_full r o1, report_session r, report_tail o1])) + 1"

definition report_goal :: "mission_report \<Rightarrow> report_options \<Rightarrow> int option \<Rightarrow> jstr list" where
  "report_goal r o1 m = (let b = or_empty (rp_brief r) in
     if b = [] then []
     else [js ''Goal: '' @ (case m of None \<Rightarrow> b | Some k \<Rightarrow> clip b (max 200 ((k - fixed_chars r o1) div 3)))])"

definition report_top :: "mission_report \<Rightarrow> report_options \<Rightarrow> int option \<Rightarrow> jstr list" where
  "report_top r o1 m = [report_head r, report_tldr r] @ report_goal r o1 m
     @ (if report_full r o1 = [] then [] else [report_full r o1]) @ [report_session r]"

text \<open>The loop from the last line back, while the next one fits; \<open>used\<close> starts with the heading's room.\<close>

fun keep_last :: "int \<Rightarrow> int \<Rightarrow> jstr list \<Rightarrow> jstr list \<Rightarrow> jstr list" where
  "keep_last room used [] kept = kept"
| "keep_last room used (l # ls) kept =
     (if used + int (length l) + 1 \<le> room then keep_last room (used + int (length l) + 1) ls (l # kept) else kept)"

definition kept_lines :: "int option \<Rightarrow> jstr list \<Rightarrow> jstr list \<Rightarrow> jstr \<Rightarrow> jstr list" where
  "kept_lines m lns out fin = (case m of None \<Rightarrow> lns
     | Some k \<Rightarrow> (let room = k - int (length (join [10] (out @ [fin]))) - 2 in
         if int (length (join [10] lns)) + 9 + 1 > room then keep_last room 80 (rev lns) [] else lns))"

definition log_heading :: "nat \<Rightarrow> nat \<Rightarrow> jstr" where
  "log_heading kept whole = (if kept = whole then js ''Call log:''
     else js ''Call log (the last '' @ dec_nat kept @ js '' of '' @ dec_nat whole @ js '' entries; the earlier ones are in otacon_call_log):'')"

definition report_limit :: "report_options \<Rightarrow> int option" where
  "report_limit o1 = (case ro_maxChars o1 of None \<Rightarrow> Some REPORT_MAX_CHARS | Some m \<Rightarrow> m)"

definition report_log :: "mission_report \<Rightarrow> report_options \<Rightarrow> jstr list" where
  "report_log r o1 =
     (let lns = map formatLogEntry (rp_log r); kept = kept_lines (report_limit o1) lns (report_top r o1 (report_limit o1)) (report_tail o1)
      in if rp_log r = [] then [] else log_heading (length kept) (length lns) # kept)"

definition formatReport :: "mission_report \<Rightarrow> report_options \<Rightarrow> jstr" where
  "formatReport r o1 = join [10]
     (report_top r o1 (report_limit o1) @ report_log r o1 @ (if report_tail o1 = [] then [] else [report_tail o1]))"

definition formatSavedReport :: "mission_report \<Rightarrow> jstr" where
  "formatSavedReport r = formatReport r \<lparr>ro_savedAt = None, ro_maxChars = Some None, ro_saved = True\<rparr>"

section \<open>How long a report is\<close>

lemma length_clip: "int (length (clip s m)) \<le> max m 1"
proof -
  have "length (trim_end (take (nat (max 0 (m - 1))) s)) \<le> nat (max 0 (m - 1))"
    using length_trim_end [of "take (nat (max 0 (m - 1))) s"] by simp
  then show ?thesis by (auto simp: clip_def)
qed

lemma keep_last_spec:
  "\<exists>n. keep_last room used ls kept = rev (take n ls) @ kept"
  "used \<le> room \<Longrightarrow> used + (\<Sum>l\<leftarrow>keep_last room used ls []. int (length l) + 1) \<le> room"
proof -
  show "\<exists>n. keep_last room used ls kept = rev (take n ls) @ kept"
  proof (induction ls arbitrary: used kept)
    case (Cons l ls)
    show ?case
    proof (cases "used + int (length l) + 1 \<le> room")
      case True
      with Cons.IH [of "used + int (length l) + 1" "l # kept"] obtain n where
        "keep_last room used (l # ls) kept = rev (take n ls) @ l # kept" by auto
      then have "keep_last room used (l # ls) kept = rev (take (Suc n) (l # ls)) @ kept" by simp
      then show ?thesis by blast
    next
      case False
      then have "keep_last room used (l # ls) kept = rev (take 0 (l # ls)) @ kept" by simp
      then show ?thesis by blast
    qed
  qed simp
  have gen: "used \<le> room \<Longrightarrow> used + (\<Sum>l\<leftarrow>keep_last room used ls kept. int (length l) + 1) \<le> room + (\<Sum>l\<leftarrow>kept. int (length l) + 1)" for kept used
  proof (induction ls arbitrary: used kept)
    case (Cons l ls)
    show ?case
      using Cons.IH [of "used + int (length l) + 1" "l # kept"] Cons.prems by simp
  qed simp
  show "used \<le> room \<Longrightarrow> used + (\<Sum>l\<leftarrow>keep_last room used ls []. int (length l) + 1) \<le> room"
    using gen [of used "[]"] by simp
qed

lemma kept_suffix: "suffix (kept_lines m lns out fin) lns"
proof -
  have "suffix (keep_last room used (rev lns) []) lns" for room used
  proof -
    obtain n where "keep_last room used (rev lns) [] = rev (take n (rev lns))"
      using keep_last_spec(1) [of room used "rev lns" "[]"] by auto
    then show ?thesis by (simp add: take_rev suffix_drop)
  qed
  then show ?thesis by (auto simp: kept_lines_def Let_def split: option.split)
qed

lemma length_dec_nat_less: "n < 10 ^ Suc k \<Longrightarrow> length (dec_nat n) \<le> Suc k"
proof (induction k arbitrary: n)
  case 0
  then show ?case by (subst dec_nat.simps) simp
next
  case (Suc k)
  show ?case
  proof (cases "n < 10")
    case True
    then show ?thesis by (subst dec_nat.simps) simp
  next
    case False
    have "n div 10 < 10 ^ Suc k" using Suc.prems by (simp add: less_mult_imp_div_less)
    then show ?thesis using Suc.IH [of "n div 10"] False by (subst dec_nat.simps) simp
  qed
qed

lemma length_log_heading: "a \<le> b \<Longrightarrow> b < 1000 \<Longrightarrow> length (log_heading a b) \<le> 81"
  using length_dec_nat_less [of a 2] length_dec_nat_less [of b 2] by (simp add: log_heading_def)

lemma length_join_sum: "xs \<noteq> [] \<Longrightarrow> int (length (join [10] xs)) + 1 = (\<Sum>x\<leftarrow>xs. int (length x) + 1)"
  by (induction xs rule: induct_list012) auto

text \<open>
  The report is the fixed part and the log; the fixed part with an empty tail line counts the
  newline before it.
\<close>

definition top_chars :: "mission_report \<Rightarrow> report_options \<Rightarrow> int" where
  "top_chars r o1 = int (length (join [10] (report_top r o1 (report_limit o1) @ [report_tail o1])))"

lemma sum_lines_nonneg: "0 \<le> (\<Sum>l\<leftarrow>ls. int (length l) + 1)"
  by (induction ls) auto

lemma report_log_length:
  assumes "report_limit o1 = Some k" "top_chars r o1 + 82 \<le> k" "length (rp_log r) < 1000"
  shows "top_chars r o1 + (\<Sum>l\<leftarrow>report_log r o1. int (length l) + 1) \<le> k"
proof (cases "rp_log r = []")
  case False
  let ?lns = "map formatLogEntry (rp_log r)"
  let ?room = "k - top_chars r o1 - 2"
  let ?kept = "kept_lines (Some k) ?lns (report_top r o1 (Some k)) (report_tail o1)"
  have log: "report_log r o1 = log_heading (length ?kept) (length ?lns) # ?kept"
    using False by (simp add: report_log_def assms(1) Let_def)
  show ?thesis
  proof (cases "int (length (join [10] ?lns)) + 10 > ?room")
    case True
    then have kept: "?kept = keep_last ?room 80 (rev ?lns) []"
      using assms(1) by (simp add: kept_lines_def top_chars_def Let_def)
    have "length ?kept \<le> length ?lns" using kept_suffix by (rule suffix_length_le)
    then have "length (log_heading (length ?kept) (length ?lns)) \<le> 81"
      using assms(3) by (intro length_log_heading) simp_all
    moreover have "80 + (\<Sum>l\<leftarrow>?kept. int (length l) + 1) \<le> ?room"
      unfolding kept using assms(2) by (intro keep_last_spec(2)) simp
    ultimately show ?thesis unfolding log by simp
  next
    case fits: False
    then have kept: "?kept = ?lns" using assms(1) by (simp add: kept_lines_def top_chars_def Let_def)
    have "int (length (join [10] ?lns)) + 1 = (\<Sum>l\<leftarrow>?lns. int (length l) + 1)"
      using False by (intro length_join_sum) simp
    then show ?thesis using fits unfolding log kept by (simp add: log_heading_def)
  qed
qed (use assms in \<open>simp add: report_log_def\<close>)

lemma length_formatReport:
  "int (length (formatReport r o1)) \<le> top_chars r o1 + (\<Sum>l\<leftarrow>report_log r o1. int (length l) + 1)"
proof -
  let ?top = "report_top r o1 (report_limit o1)"
  have top: "?top \<noteq> []" by (simp add: report_top_def)
  have "int (length (formatReport r o1)) + 1
      = (\<Sum>l\<leftarrow>?top @ report_log r o1 @ (if report_tail o1 = [] then [] else [report_tail o1]). int (length l) + 1)"
    unfolding formatReport_def using top by (intro length_join_sum) simp
  moreover have "top_chars r o1 + 1 = (\<Sum>l\<leftarrow>?top @ [report_tail o1]. int (length l) + 1)"
    unfolding top_chars_def by (intro length_join_sum) simp
  ultimately show ?thesis by (auto split: if_splits)
qed

text \<open>The goal gives way to the rest: it takes at most a third of what the fixed pieces leave, or 200.\<close>

lemma top_chars_bound:
  assumes "report_limit o1 = Some k" "fixed_chars r o1 + 300 \<le> k"
  shows "top_chars r o1 + 82 \<le> k"
proof -
  let ?g = "report_goal r o1 (Some k)"
  have "(\<Sum>l\<leftarrow>?g. int (length l) + 1) \<le> 7 + max 200 ((k - fixed_chars r o1) div 3)"
    using length_clip [of "or_empty (rp_brief r)" "max 200 ((k - fixed_chars r o1) div 3)"]
    by (simp add: report_goal_def Let_def)
  moreover have "top_chars r o1 + 1 = (\<Sum>l\<leftarrow>report_top r o1 (Some k) @ [report_tail o1]. int (length l) + 1)"
    unfolding top_chars_def assms(1) by (intro length_join_sum) simp
  moreover have "fixed_chars r o1 = (\<Sum>l\<leftarrow>[report_head r, report_tldr r, report_full r o1, report_session r, report_tail o1]. int (length l) + 1)"
    unfolding fixed_chars_def by (intro length_join_sum) simp
  ultimately show ?thesis using assms(2) by (auto simp: report_top_def split: if_splits)
qed

section \<open>Properties\<close>


definition demo_report :: mission_report where
  "demo_report = \<lparr>rp_missionId = js ''oc_1'', rp_outbound = True,
     rp_party = \<lparr>party_name = js ''Shop'', party_number = js ''+4930123456'', party_role = Primary\<rparr>,
     rp_brief = Some (replicate 5000 97), rp_outcome = Completed, rp_summary = Some (js ''They open at nine.''),
     rp_log = [\<lparr>le_t = 5000, le_line = Some 1, le_kind = Hear, le_who = js ''Shop'', le_text = js ''We open at nine.''\<rparr>],
     rp_startedAt = 0, rp_endedAt = 60000, rp_requesterSessionKey = None, rp_sessionKey = js ''agent:main:main'',
     rp_agentId = js ''main'', rp_line = Some (js ''pixel'', None)\<rparr>"


end
