(* ===== verification/Recent.thy ===== *)
theory Recent
  imports Report Json Contracts
begin

text \<open>
  \<open>src/openclaw-voice/src/recent.ts\<close>: what the voice model and the first consult are told at the
  start of a call. Earlier calls come from the reports in memory, or are read back from the saved
  reports; the owner's latest messages are cleaned and cut to fit. The regular expressions are
  written out as functions on the text.
\<close>

record earlier_call =
  ec_endedAt :: int
  ec_seconds :: int
  ec_inbound :: bool
  ec_summary :: "jstr option"
  ec_lastLines :: "jstr list"

record session_text =
  sx_user :: bool
  sx_text :: jstr
  sx_timestamp :: "int option"

definition LAST_LINES :: nat where "LAST_LINES = 4"
definition MAX_LINE_CHARS :: nat where "MAX_LINE_CHARS = 200"
definition MAX_MESSAGE_CHARS :: nat where "MAX_MESSAGE_CHARS = 300"
definition MAX_CONTEXT_CHARS :: nat where "MAX_CONTEXT_CHARS = 3000"

section \<open>Text on one line\<close>

text \<open>\<open>replace(/\s+/g, " ")\<close>\<close>

fun collapse :: "jstr \<Rightarrow> jstr" where
  "collapse [] = []"
| "collapse (c # cs) =
     (if js_space c then (case cs of [] \<Rightarrow> [32] | d # ds \<Rightarrow> if js_space d then collapse cs else 32 # collapse cs)
      else c # collapse cs)"

definition flat :: "jstr \<Rightarrow> jstr" where
  "flat s = trim (collapse s)"

definition high_surrogate :: "nat \<Rightarrow> bool" where
  "high_surrogate c \<longleftrightarrow> 55296 \<le> c \<and> c \<le> 56319"

definition drop_half :: "jstr \<Rightarrow> jstr" where
  "drop_half s = (if s \<noteq> [] \<and> high_surrogate (last s) then butlast s else s)"

definition clip_flat :: "jstr \<Rightarrow> nat \<Rightarrow> jstr" where
  "clip_flat s m = (let f = flat s in if length f \<le> m then f else trim_end (drop_half (take (m - 1) f)) @ [8230])"

section \<open>Reading a log line back\<close>

definition digits_then :: "jstr \<Rightarrow> (jstr \<times> jstr) option" where
  "digits_then s = (let d = takeWhile is_digit s in if d = [] then None else Some (d, dropWhile is_digit s))"

definition after :: "jstr \<Rightarrow> jstr \<Rightarrow> jstr option" where
  "after p s = (if starts_with p s then Some (drop (length p) s) else None)"

text \<open>\<open>/^\[line \d+\] /\<close>: what follows the tag.\<close>

definition line_tag :: "jstr \<Rightarrow> jstr option" where
  "line_tag s = (case after (js ''[line '') s of None \<Rightarrow> None
     | Some r \<Rightarrow> (case digits_then r of None \<Rightarrow> None | Some (d, r') \<Rightarrow> after (js ''] '') r'))"

definition untag :: "jstr \<Rightarrow> jstr" where
  "untag s = (case line_tag s of None \<Rightarrow> s | Some r \<Rightarrow> r)"

text \<open>\<open>/^\[\d+:\d\d\] /\<close>\<close>

definition log_stamp :: "jstr \<Rightarrow> jstr option" where
  "log_stamp s = (case after (js ''['') s of None \<Rightarrow> None
     | Some r \<Rightarrow> (case digits_then r of None \<Rightarrow> None
        | Some (d, r') \<Rightarrow> (case after (js '':'') r' of None \<Rightarrow> None
           | Some r2 \<Rightarrow> if list_all is_digit (take 2 r2) \<and> 2 \<le> length r2 then after (js ''] '') (drop 2 r2) else None)))"

text \<open>\<open>/^\[\d+:\d\d\] (?!(?:\[line \d+\] )?<dash>)/\<close>: something said, not an event.\<close>

definition said_line :: "jstr \<Rightarrow> bool" where
  "said_line s = (case log_stamp s of None \<Rightarrow> False
     | Some r \<Rightarrow> \<not> (starts_with ([8212]) r \<or> starts_with ([8212]) (untag r)))"

text \<open>\<open>replace(/^\[[^\]]*\] (?:\[line \d+\] )?/, "")\<close>\<close>

definition strip_stamp :: "jstr \<Rightarrow> jstr" where
  "strip_stamp s = (case after (js ''['') s of None \<Rightarrow> s
     | Some r \<Rightarrow> (case after (js ''] '') (dropWhile (\<lambda>c. c \<noteq> 93) r) of None \<Rightarrow> s | Some r' \<Rightarrow> untag r'))"

section \<open>Earlier calls\<close>

definition said_entries :: "log_entry list \<Rightarrow> log_entry list" where
  "said_entries es = filter (\<lambda>e. le_kind e \<noteq> Event) es"

definition earlierCallFromReport :: "mission_report \<Rightarrow> earlier_call" where
  "earlierCallFromReport r =
     \<lparr>ec_endedAt = rp_endedAt r, ec_seconds = round_seconds (rp_endedAt r - rp_startedAt r), ec_inbound = \<not> rp_outbound r,
      ec_summary = (let t = trim (or_empty (rp_summary r)) in if t = [] then None else Some t),
      ec_lastLines = map (\<lambda>e. clip_flat (strip_stamp (formatLogEntry e)) MAX_LINE_CHARS) (last_n LAST_LINES (said_entries (rp_log r)))\<rparr>"

text \<open>\<open>/\+\d{7,15}/\<close>, the first match.\<close>

fun find_number :: "jstr \<Rightarrow> jstr option" where
  "find_number [] = None"
| "find_number (c # cs) =
     (if c = 43 \<and> 7 \<le> length (takeWhile is_digit cs) then Some (43 # take 15 (takeWhile is_digit cs)) else find_number cs)"

text \<open>\<open>/ended \([^,]+, (\d+)s\)\.$/\<close>\<close>

definition ended_here :: "jstr \<Rightarrow> jstr option" where
  "ended_here s = (case after (js ''ended ('') s of None \<Rightarrow> None
     | Some r \<Rightarrow> if takeWhile (\<lambda>c. c \<noteq> 44) r = [] then None
         else (case after (js '', '') (dropWhile (\<lambda>c. c \<noteq> 44) r) of None \<Rightarrow> None
           | Some r' \<Rightarrow> (case digits_then r' of None \<Rightarrow> None | Some (d, e) \<Rightarrow> if e = js ''s).'' then Some d else None)))"

fun ended_seconds :: "jstr \<Rightarrow> jstr option" where
  "ended_seconds [] = None"
| "ended_seconds (c # cs) = (case ended_here (c # cs) of Some d \<Rightarrow> Some d | None \<Rightarrow> ended_seconds cs)"

definition saved_tldr :: "jstr list \<Rightarrow> jstr option" where
  "saved_tldr lns = (case find (starts_with (js ''TL;DR: '')) lns of None \<Rightarrow> None | Some l \<Rightarrow> Some (trim (drop 7 l)))"

definition earlierCallFromSaved :: "jstr \<Rightarrow> int \<Rightarrow> jstr \<Rightarrow> earlier_call option" where
  "earlierCallFromSaved text1 savedAtMs number =
     (let lns = split_on 10 text1; head = hd lns in
      if find_number head \<noteq> Some number then None
      else Some \<lparr>ec_endedAt = savedAtMs,
        ec_seconds = (case ended_seconds head of None \<Rightarrow> 0 | Some d \<Rightarrow> int (digits_value d)),
        ec_inbound = starts_with (js ''[otacon-voice] Incoming call'') head,
        ec_summary = (case saved_tldr lns of None \<Rightarrow> None
           | Some t \<Rightarrow> if t = [] \<or> starts_with (js ''none; the call ended before'') t then None else Some t),
        ec_lastLines = map (\<lambda>l. clip_flat (strip_stamp l) MAX_LINE_CHARS) (last_n LAST_LINES (filter said_line lns))\<rparr>)"

section \<open>The owner\<close>

definition phone_number :: "jstr \<Rightarrow> bool" where
  "phone_number n = (case n of [] \<Rightarrow> False | c # ds \<Rightarrow> c = 43 \<and> list_all is_digit ds \<and> 7 \<le> length ds \<and> length ds \<le> 15)"

definition isOwnerNumber :: "json option \<Rightarrow> jstr \<Rightarrow> bool" where
  "isOwnerNumber cfg number =
     (phone_number number \<and>
      (case cfg of None \<Rightarrow> False | Some c \<Rightarrow> (case json_get c (js ''commands'') of None \<Rightarrow> False
        | Some m \<Rightarrow> (case json_get m (js ''ownerAllowFrom'') of
            Some (JArr es) \<Rightarrow> list_ex (\<lambda>e. case e of JStr s \<Rightarrow> s = number \<or> ends_with (js '':'' @ number) s | _ \<Rightarrow> False) es
          | _ \<Rightarrow> False))))"

section \<open>Messages\<close>

definition line_end :: "nat \<Rightarrow> bool" where
  "line_end c \<longleftrightarrow> c \<in> {10, 13, 8232, 8233}"

definition MARK :: jstr where
  "MARK = [10214] @ js ''openclaw:ctx'' @ [10215]"

text \<open>From after the first \<open>\n```\<close> on.\<close>

fun after_fence :: "jstr \<Rightarrow> jstr option" where
  "after_fence [] = None"
| "after_fence (c # cs) = (if starts_with [10, 96, 96, 96] (c # cs) then Some (drop 3 cs) else after_fence cs)"

text \<open>A metadata block at the start of a line: what follows it.\<close>

definition meta_block :: "jstr \<Rightarrow> jstr option" where
  "meta_block s =
     (let l = takeWhile (\<lambda>c. \<not> line_end c) s; r = dropWhile (\<lambda>c. \<not> line_end c) s in
      if \<not> (js_includes MARK l \<or> js_includes (js ''(untrusted metadata)'') l) then None
      else (case after [10, 96, 96, 96] r of None \<Rightarrow> None
        | Some r1 \<Rightarrow> (case after [10] (dropWhile is_lower r1) of None \<Rightarrow> None | Some r2 \<Rightarrow> after_fence r2)))"

lemma starts_with_length: "starts_with p s \<Longrightarrow> length p \<le> length s"
  unfolding starts_with_def by (metis length_take min.cobounded1)

lemma after_some: "after p s = Some r \<longleftrightarrow> s = p @ r"
  unfolding after_def starts_with_def by (auto intro: append_take_drop_id [symmetric]) (metis append_take_drop_id)

lemma length_after_fence: "after_fence s = Some r \<Longrightarrow> length r < length s"
  by (induction s) (auto split: if_splits simp: starts_with_def)

lemma length_meta_block: "meta_block s = Some r \<Longrightarrow> length r < length s"
proof -
  assume b: "meta_block s = Some r"
  let ?r = "dropWhile (\<lambda>c. \<not> line_end c) s"
  from b obtain r1 r2 where r: "after [10, 96, 96, 96] ?r = Some r1" "after [10] (dropWhile is_lower r1) = Some r2" "after_fence r2 = Some r"
    by (auto simp: meta_block_def Let_def split: if_splits option.splits)
  show ?thesis
    using r(1,2)[unfolded after_some, THEN arg_cong, of length] length_after_fence [OF r(3)]
      length_dropWhile_le [of "\<lambda>c. \<not> line_end c" s] length_dropWhile_le [of is_lower r1] by simp
qed

text \<open>
  \<open>strip_blocks at_start\<close>: the first replacement, from a position that starts a line or not; a line
  without a block is copied.
\<close>

function strip_blocks :: "bool \<Rightarrow> jstr \<Rightarrow> jstr" where
  "strip_blocks b [] = []"
| "strip_blocks b (c # cs) =
     (case (if b then meta_block (c # cs) else None) of
        Some r \<Rightarrow> strip_blocks False r
      | None \<Rightarrow> c # strip_blocks (line_end c) cs)"
  by pat_completeness auto
termination
  by (relation "measure (\<lambda>(b, s). length s)") (auto dest: length_meta_block split: if_splits)

text \<open>The second replacement: marked lines are emptied.\<close>

function drop_marked :: "jstr \<Rightarrow> jstr" where
  "drop_marked s =
     (let l = takeWhile (\<lambda>c. \<not> line_end c) s; r = dropWhile (\<lambda>c. \<not> line_end c) s;
          l' = (if js_includes MARK l then [] else l)
      in (case r of [] \<Rightarrow> l' | c # cs \<Rightarrow> l' @ c # drop_marked cs))"
  by pat_completeness auto
termination
proof (relation "measure length", goal_cases)
  case (2 s l r l' c cs)
  then have "Suc (length cs) \<le> length s"
    using length_dropWhile_le [of "\<lambda>c. \<not> line_end c" s] by (metis length_Cons)
  then show ?case by simp
qed simp

declare drop_marked.simps [simp del]

definition cleanSessionText :: "jstr \<Rightarrow> jstr" where
  "cleanSessionText s = clip_flat (drop_marked (strip_blocks True s)) MAX_MESSAGE_CHARS"

definition ago :: "int \<Rightarrow> int \<Rightarrow> jstr" where
  "ago ms now =
     (let minutes = (now - ms + 30000) div 60000; hours = (minutes + 30) div 60; days = (hours + 12) div 24
      in if minutes < 1 then js ''just now''
         else if minutes < 60 then dec_int minutes @ js '' min ago''
         else if hours < 24 then dec_int hours @ js '' h ago''
         else if days = 1 then js ''yesterday'' else dec_int days @ js '' days ago'')"

definition duration :: "int \<Rightarrow> jstr" where
  "duration seconds = (if seconds < 60 then dec_int seconds @ js '' s''
     else dec_int (seconds div 60) @ js '' min '' @ dec_int (seconds mod 60) @ js '' s'')"

definition message_line :: "jstr \<Rightarrow> int \<Rightarrow> session_text \<Rightarrow> jstr list" where
  "message_line ownerName now m =
     (let t = cleanSessionText (sx_text m);
          at1 = (case sx_timestamp m of None \<Rightarrow> [] | Some ms \<Rightarrow> if ms = 0 then [] else js ''('' @ ago ms now @ js '') '')
      in if t = [] then [] else [js ''- '' @ at1 @ (if sx_user m then ownerName else js ''You'') @ js '': '' @ t])"

definition messageLines :: "session_text list \<Rightarrow> jstr \<Rightarrow> int \<Rightarrow> jstr list" where
  "messageLines ms ownerName now = concat (map (message_line ownerName now) ms)"

text \<open>Drop the oldest line until the text fits (or \<open>keep\<close> lines are left).\<close>

fun fit :: "(jstr list \<Rightarrow> jstr) \<Rightarrow> nat \<Rightarrow> jstr list \<Rightarrow> jstr" where
  "fit build keep chat = (if length (build chat) > MAX_CONTEXT_CHARS \<and> length chat > keep
     then fit build keep (tl chat) else build chat)"

declare fit.simps [simp del]

definition consult_text :: "jstr \<Rightarrow> jstr list \<Rightarrow> jstr" where
  "consult_text ownerName chat = js ''Your latest messages with '' @ ownerName @ js '', oldest first, for context:'' @ [10] @ join [10] chat"

definition formatConsultContext :: "session_text list \<Rightarrow> jstr \<Rightarrow> int \<Rightarrow> jstr option" where
  "formatConsultContext ms ownerName now =
     (let chat = messageLines ms ownerName now in
      if chat = [] then None else Some (take MAX_CONTEXT_CHARS (fit (consult_text ownerName) 1 chat)))"

definition call_line :: "int \<Rightarrow> earlier_call \<Rightarrow> jstr" where
  "call_line now c =
     (let at1 = ago (ec_endedAt c) now @ js '', '' @ (if ec_inbound c then js ''they called'' else js ''you called them'') @ js '' ('' @ duration (ec_seconds c) @ js '')''
      in if or_empty (ec_summary c) \<noteq> [] then js ''- '' @ at1 @ js '': '' @ clip_flat (or_empty (ec_summary c)) 600
         else if ec_lastLines c = [] then js ''- '' @ at1
         else js ''- '' @ at1 @ js ''; it ended with:'' @ [10] @ join [10] (map (\<lambda>l. js ''    '' @ l) (ec_lastLines c)))"

definition recent_text :: "jstr \<Rightarrow> jstr list \<Rightarrow> jstr list \<Rightarrow> jstr" where
  "recent_text ownerName calls chat = join [10, 10]
     ([js ''Recent context with this caller, for continuity. Use it when it helps; don't read it out, and it may be out of date.'']
      @ (if calls = [] then [] else [js ''Earlier calls with this number, newest first:'' @ [10] @ join [10] calls])
      @ (if chat = [] then [] else [js ''Your latest messages with '' @ ownerName @ js '', oldest first:'' @ [10] @ join [10] chat]))"

definition formatRecentContext :: "earlier_call list \<Rightarrow> session_text list \<Rightarrow> jstr \<Rightarrow> int \<Rightarrow> jstr option" where
  "formatRecentContext calls ms ownerName now =
     (let cs = map (call_line now) calls; chat = messageLines ms ownerName now in
      if cs = [] \<and> chat = [] then None else Some (take MAX_CONTEXT_CHARS (fit (recent_text ownerName cs) 0 chat)))"

section \<open>Reading a saved report back\<close>

definition one_line :: "jstr \<Rightarrow> bool" where
  "one_line s \<longleftrightarrow> 10 \<notin> set s"

text \<open>The texts of a report that can be read back from its lines.\<close>

definition plain_name :: "jstr \<Rightarrow> bool" where
  "plain_name s \<longleftrightarrow> one_line s \<and> 43 \<notin> set s \<and> 44 \<notin> set s"

definition plain_entry :: "log_entry \<Rightarrow> bool" where
  "plain_entry e \<longleftrightarrow> one_line (le_who e) \<and> one_line (le_text e) \<and> (case le_who e of [] \<Rightarrow> True | c # cs \<Rightarrow> c \<noteq> 91 \<and> c \<noteq> 8212)"

definition readable :: "mission_report \<Rightarrow> bool" where
  "readable r \<longleftrightarrow> phone_number (party_number (rp_party r))
     \<and> (party_name (rp_party r) = party_number (rp_party r) \<or> plain_name (party_name (rp_party r)))
     \<and> (case rp_line r of None \<Rightarrow> True | Some (i, n) \<Rightarrow> one_line (i @ or_empty n) \<and> 44 \<notin> set (i @ or_empty n))
     \<and> one_line (or_empty (rp_summary r)) \<and> one_line (or_empty (rp_brief r)) \<and> one_line (rp_sessionKey r)
     \<and> length (trim (or_empty (rp_summary r))) \<le> 1200
     \<and> \<not> starts_with (js ''none; the call ended before'') (trim (or_empty (rp_summary r)))
     \<and> rp_startedAt r \<le> rp_endedAt r \<and> list_all plain_entry (rp_log r)"

lemma split_on_line: "one_line s \<Longrightarrow> split_on 10 (s @ 10 # t) = s # split_on 10 t"
  by (induction s) (auto simp: one_line_def)

lemma split_on_join: "xs \<noteq> [] \<Longrightarrow> list_all one_line xs \<Longrightarrow> split_on 10 (join [10] xs @ [10]) = xs @ [[]]"
  by (induction xs rule: induct_list012) (simp_all add: split_on_line)

lemma one_line_simps [simp]:
  "one_line []" "one_line (s @ t) \<longleftrightarrow> one_line s \<and> one_line t" "one_line (c # s) \<longleftrightarrow> c \<noteq> 10 \<and> one_line s"
  by (auto simp: one_line_def)


lemma phone_number_iff: "phone_number n \<longleftrightarrow> (\<exists>ds. n = 43 # ds \<and> list_all is_digit ds \<and> 7 \<le> length ds \<and> length ds \<le> 15)"
  by (auto simp: phone_number_def split: list.split)

lemma takeWhile_digits: "list_all is_digit ds \<Longrightarrow> (case t of [] \<Rightarrow> True | c # cs \<Rightarrow> \<not> is_digit c) \<Longrightarrow> takeWhile is_digit (ds @ t) = ds"
  by (induction ds) (auto split: list.splits)

lemma dropWhile_digits: "list_all is_digit ds \<Longrightarrow> (case t of [] \<Rightarrow> True | c # cs \<Rightarrow> \<not> is_digit c) \<Longrightarrow> dropWhile is_digit (ds @ t) = t"
  by (induction ds) (auto split: list.splits)

lemma digits_then_digits:
  "list_all is_digit ds \<Longrightarrow> ds \<noteq> [] \<Longrightarrow> \<not> is_digit c \<Longrightarrow> digits_then (ds @ c # t) = Some (ds, c # t)"
  using takeWhile_digits [of ds "c # t"] dropWhile_digits [of ds "c # t"] by (simp add: digits_then_def Let_def)

lemma find_number_skip: "43 \<notin> set s \<Longrightarrow> find_number (s @ t) = find_number t"
  by (induction s) auto

lemma find_number_here: "phone_number n \<Longrightarrow> \<not> is_digit c \<Longrightarrow> find_number (n @ c # t) = Some n"
  using takeWhile_digits [of "tl n" "c # t"] by (auto simp: phone_number_iff)

subsection \<open>The head\<close>

definition over_text :: "mission_report \<Rightarrow> jstr" where
  "over_text r = outcome_text (rp_outcome r) @ [44, 32] @ dec_int (round_seconds (rp_endedAt r - rp_startedAt r)) @ js ''s).''"

definition head_start :: "mission_report \<Rightarrow> jstr" where
  "head_start r = (if rp_outbound r then js ''[otacon-voice] The phone call you placed to '' else js ''[otacon-voice] Incoming call from '')"

definition head_middle :: "mission_report \<Rightarrow> jstr" where
  "head_middle r = 32 # (let ours = report_ours (rp_line r) in
     if rp_outbound r then (if ours = [] then [] else js ''from '' @ ours @ [32]) @ js ''has ''
     else (if ours = [] then [] else js ''to '' @ ours @ [32]))"

lemma report_head_parts:
  "report_head r = head_start r @ report_who (rp_party r) @ head_middle r @ js ''ended ('' @ over_text r"
  by (simp add: report_head_def head_start_def head_middle_def over_text_def Let_def js_def)

lemma head_number:
  assumes "readable r"
  shows "find_number (report_head r) = Some (party_number (rp_party r))"
proof -
  let ?n = "party_number (rp_party r)" and ?m = "party_name (rp_party r)"
  have n: "phone_number ?n" and m: "?m = ?n \<or> 43 \<notin> set ?m" using assms by (auto simp: readable_def plain_name_def)
  have start: "43 \<notin> set (head_start r)" by (simp add: head_start_def js_def)
  obtain t where t: "head_middle r @ js ''ended ('' @ over_text r = 32 # t" by (simp add: head_middle_def)
  show ?thesis
  proof (cases "?m = ?n")
    case True
    then have "report_head r = head_start r @ ?n @ 32 # t" using t by (simp add: report_head_parts report_who_def)
    then show ?thesis using find_number_skip [OF start] find_number_here [OF n, of 32 t] by (simp add: is_digit_def)
  next
    case False
    then have "report_head r = (head_start r @ ?m @ [32, 40]) @ ?n @ 41 # 32 # t"
      using t by (simp add: report_head_parts report_who_def js_def)
    moreover have "43 \<notin> set (head_start r @ ?m @ [32, 40])" using start m False by simp
    ultimately show ?thesis using find_number_skip find_number_here [OF n, of 41 "32 # t"] by (simp add: is_digit_def)
  qed
qed

lemma after_append [simp]: "after p (p @ s) = Some s"
  by (simp add: after_some)

lemma takeWhile_no: "44 \<notin> set q \<Longrightarrow> takeWhile (\<lambda>c. c \<noteq> 44) (q @ 44 # t) = q \<and> dropWhile (\<lambda>c. c \<noteq> 44) (q @ 44 # t) = 44 # t"
  by (induction q) auto

lemma append_no_comma:
  "p @ r = q @ 44 # t \<Longrightarrow> 44 \<notin> set p \<Longrightarrow> 44 \<notin> set q \<Longrightarrow> \<exists>q'. q = p @ q' \<and> r = q' @ 44 # t"
proof (induction p arbitrary: q)
  case (Cons c p)
  then show ?case by (cases q) auto
qed simp

lemma ended_here_cases:
  assumes "44 \<notin> set q" "list_all is_digit d" "d \<noteq> []"
  shows "ended_here (q @ [44, 32] @ d @ js ''s).'') \<in> {None, Some d}"
    "q = js ''ended ('' @ b \<Longrightarrow> b \<noteq> [] \<Longrightarrow> ended_here (q @ [44, 32] @ d @ js ''s).'') = Some d"
proof -
  let ?t = "[44, 32] @ d @ js ''s).''"
  have d: "digits_then (d @ js ''s).'') = Some (d, js ''s).'')"
    using digits_then_digits [OF assms(2,3), of 115 "js '').''"] by (simp add: js_def is_digit_def)
  have here: "ended_here (js ''ended ('' @ b @ ?t) = (if b = [] then None else Some d)" if "44 \<notin> set b" for b
    using takeWhile_no [OF that, of "32 # d @ js ''s).''"] d after_append [of "js '', ''" "d @ js ''s).''"]
    by (simp add: ended_here_def js_def [of "'', ''"])
  show "ended_here (q @ ?t) \<in> {None, Some d}"
  proof (cases "after (js ''ended ('') (q @ ?t)")
    case (Some r)
    then have "js ''ended ('' @ r = q @ 44 # 32 # d @ js ''s).''" by (simp add: after_some)
    from append_no_comma [OF this] obtain q' where "q = js ''ended ('' @ q'" using assms(1) by (auto simp: js_def)
    then show ?thesis using here [of q'] assms(1) by simp
  qed (simp add: ended_here_def)
  show "q = js ''ended ('' @ b \<Longrightarrow> b \<noteq> [] \<Longrightarrow> ended_here (q @ ?t) = Some d"
    using here [of b] assms(1) by simp
qed

lemma ended_seconds_find:
  assumes "44 \<notin> set a" "44 \<notin> set b" "b \<noteq> []" "list_all is_digit d" "d \<noteq> []"
  shows "ended_seconds (a @ js ''ended ('' @ b @ [44, 32] @ d @ js ''s).'') = Some d"
  using assms(1)
proof (induction a)
  case Nil
  have "ended_here ((js ''ended ('' @ b) @ [44, 32] @ d @ js ''s).'') = Some d"
    by (rule ended_here_cases(2) [OF _ assms(4,5) refl assms(3)]) (use assms(2) in \<open>simp add: js_def\<close>)
  then show ?case by (simp add: js_def [of "''ended (''"])
next
  case (Cons c a)
  have "44 \<notin> set ((c # a) @ js ''ended ('' @ b)" using Cons.prems assms(2) by (simp add: js_def)
  from ended_here_cases(1) [OF this assms(4,5)]
  have "ended_here ((c # a) @ js ''ended ('' @ b @ [44, 32] @ d @ js ''s).'') \<in> {None, Some d}" by simp
  then show ?case using Cons by auto
qed

lemma outcome_no_comma: "44 \<notin> set (outcome_text x)" "outcome_text x \<noteq> []" "10 \<notin> set (outcome_text x)"
  by (cases x; simp add: outcome_text_def js_def)+

lemma digits_list: "list_all is_digit ds \<Longrightarrow> 43 \<notin> set ds \<and> 44 \<notin> set ds \<and> 10 \<notin> set ds"
  by (auto simp: list_all_iff is_digit_def)

lemma phone_set: "phone_number n \<Longrightarrow> 44 \<notin> set n \<and> 10 \<notin> set n"
  using digits_list by (auto simp: phone_number_iff)

lemma who_no_comma: "readable r \<Longrightarrow> 44 \<notin> set (report_who (rp_party r)) \<and> one_line (report_who (rp_party r))"
  using phone_set [of "party_number (rp_party r)"]
  by (auto simp: readable_def report_who_def plain_name_def one_line_def js_def)

lemma ours_plain: "readable r \<Longrightarrow> 44 \<notin> set (report_ours (rp_line r)) \<and> one_line (report_ours (rp_line r))"
  by (auto simp: readable_def report_ours_def js_def split: option.splits prod.splits)

lemma middle_plain: "readable r \<Longrightarrow> 44 \<notin> set (head_middle r) \<and> one_line (head_middle r)"
  using ours_plain [of r] by (simp add: head_middle_def Let_def js_def)

lemma seconds_text: "readable r \<Longrightarrow> dec_int (round_seconds (rp_endedAt r - rp_startedAt r)) = dec_nat (nat (round_seconds (rp_endedAt r - rp_startedAt r)))
   \<and> 0 \<le> round_seconds (rp_endedAt r - rp_startedAt r)"
  by (simp add: readable_def dec_int_def round_seconds_def pos_imp_zdiv_neg_iff pos_imp_zdiv_nonneg_iff)

lemma head_seconds:
  assumes "readable r"
  shows "ended_seconds (report_head r) = Some (dec_nat (nat (round_seconds (rp_endedAt r - rp_startedAt r))))"
proof -
  have "ended_seconds ((head_start r @ report_who (rp_party r) @ head_middle r) @ js ''ended ('' @ outcome_text (rp_outcome r)
      @ [44, 32] @ dec_nat (nat (round_seconds (rp_endedAt r - rp_startedAt r))) @ js ''s).'')
    = Some (dec_nat (nat (round_seconds (rp_endedAt r - rp_startedAt r))))"
    by (rule ended_seconds_find)
       (use who_no_comma [OF assms] middle_plain [OF assms] outcome_no_comma dec_nat_digits in \<open>simp_all add: head_start_def js_def\<close>)
  then show ?thesis using seconds_text [OF assms] by (simp add: report_head_parts over_text_def)
qed

lemma head_one_line: "readable r \<Longrightarrow> one_line (report_head r)"
  using who_no_comma [of r] middle_plain [of r] seconds_text [of r] outcome_no_comma(3) [of "rp_outcome r"]
    digits_list [OF dec_nat_digits, of "nat (round_seconds (rp_endedAt r - rp_startedAt r))"]
  by (simp add: report_head_parts over_text_def head_start_def js_def one_line_def)

lemma head_inbound: "starts_with (js ''[otacon-voice] Incoming call'') (report_head r) = (\<not> rp_outbound r)"
  by (simp add: report_head_parts head_start_def starts_with_def js_def)

subsection \<open>The log\<close>

lemma dec_int_digits: "0 \<le> i \<Longrightarrow> list_all is_digit (dec_int i) \<and> dec_int i \<noteq> []"
  by (simp add: dec_int_def dec_nat_digits)

lemma pad2_digits: "list_all is_digit s \<Longrightarrow> list_all is_digit (pad2 s) \<and> 2 \<le> length (pad2 s)"
  by (auto simp: pad2_def list_all_iff is_digit_def)

lemma pad2_short: "length s \<le> 2 \<Longrightarrow> length (pad2 s) = 2"
  by (simp add: pad2_def)

lemma two_digits: "0 \<le> x \<Longrightarrow> x < 60 \<Longrightarrow> length (dec_int x) \<le> 2"
  using length_dec_nat_less [of "nat x" 1] by (simp add: dec_int_def numeral_2_eq_2)

lemma stamp_parts:
  "\<exists>m s. stamp t = m @ 58 # s \<and> list_all is_digit m \<and> m \<noteq> [] \<and> list_all is_digit s \<and> length s = 2"
proof -
  let ?s = "max 0 (round_seconds t)"
  have "list_all is_digit (pad2 (dec_int (?s div 60)))" "pad2 (dec_int (?s div 60)) \<noteq> []"
    using pad2_digits [of "dec_int (?s div 60)"] dec_int_digits [of "?s div 60"] by (auto simp: pos_imp_zdiv_nonneg_iff)
  moreover have "list_all is_digit (pad2 (dec_int (?s mod 60)))"
    using pad2_digits dec_int_digits [of "?s mod 60"] by simp
  moreover have "length (dec_int (?s mod 60)) \<le> 2" by (rule two_digits) simp_all
  ultimately show ?thesis using pad2_short by (auto simp: stamp_def Let_def)
qed

definition stamped :: "int \<Rightarrow> jstr" where
  "stamped t = 91 # stamp t @ [93, 32]"

lemma log_stamp_stamped: "log_stamp (stamped t @ r) = Some r"
proof -
  obtain m s where s: "stamp t = m @ 58 # s" "list_all is_digit m" "m \<noteq> []" "list_all is_digit s" "length s = 2"
    using stamp_parts by blast
  have "digits_then (m @ 58 # s @ 93 # 32 # r) = Some (m, 58 # s @ 93 # 32 # r)"
    using digits_then_digits [OF s(2,3), of 58] by (simp add: is_digit_def)
  then show ?thesis
    using s by (simp add: log_stamp_def stamped_def after_def starts_with_def js_def)
qed

lemma dropWhile_until: "x \<notin> set s \<Longrightarrow> dropWhile (\<lambda>c. c \<noteq> x) (s @ x # r) = x # r"
  by (induction s) auto

lemma strip_stamped: "strip_stamp (stamped t @ r) = untag r"
proof -
  obtain m s where s: "stamp t = m @ 58 # s" "list_all is_digit m" "list_all is_digit s"
    using stamp_parts by blast
  have "93 \<notin> set (stamp t)" using s by (auto simp: list_all_iff is_digit_def)
  then have "dropWhile (\<lambda>c. c \<noteq> 93) (stamp t @ 93 # 32 # r) = 93 # 32 # r" by (rule dropWhile_until)
  then show ?thesis by (simp add: strip_stamp_def stamped_def after_def starts_with_def js_def)
qed

lemma line_tag_tagged: "line_tag (js ''[line '' @ dec_nat n @ js ''] '' @ r) = Some r"
proof -
  have "digits_then (dec_nat n @ 93 # 32 # r) = Some (dec_nat n, 93 # 32 # r)"
    by (rule digits_then_digits) (simp_all add: dec_nat_digits is_digit_def)
  then show ?thesis by (simp add: line_tag_def js_def after_def starts_with_def)
qed

lemma untag_prefix: "(case r of [] \<Rightarrow> True | c # cs \<Rightarrow> c \<noteq> 91) \<Longrightarrow> untag (line_prefix l @ r) = r"
  using line_tag_tagged
  by (auto simp: untag_def line_prefix_def line_tag_def after_def starts_with_def js_def split: option.split list.splits)

lemma entry_text:
  "formatLogEntry e = stamped (le_t e) @ line_prefix (le_line e)
     @ (if le_kind e = Event then [8212, 32] @ le_text e else le_who e @ js '': '' @ le_text e)"
  by (simp add: formatLogEntry_def stamped_def js_def)

lemma said_entry:
  assumes "plain_entry e"
  shows "said_line (formatLogEntry e) = (le_kind e \<noteq> Event)"
proof -
  let ?r = "if le_kind e = Event then [8212, 32] @ le_text e else le_who e @ js '': '' @ le_text e"
  have first: "case ?r of [] \<Rightarrow> True | c # cs \<Rightarrow> c \<noteq> 91" "starts_with [8212] ?r = (le_kind e = Event)"
    using assms by (auto simp: plain_entry_def starts_with_def js_def split: list.splits)
  have "starts_with [8212] (line_prefix (le_line e) @ ?r) \<longrightarrow> line_prefix (le_line e) = []"
    by (auto simp: line_prefix_def starts_with_def js_def split: option.splits)
  then show ?thesis
    using first log_stamp_stamped [of "le_t e" "line_prefix (le_line e) @ ?r"] untag_prefix [OF first(1), of "le_line e"]
    unfolding entry_text said_line_def by auto
qed

lemma said_entries_lines:
  "list_all plain_entry es \<Longrightarrow> filter said_line (map formatLogEntry es) = map formatLogEntry (said_entries es)"
  by (induction es) (simp_all add: said_entry said_entries_def)

lemma not_log_line: "\<not> said_line (c # s)" if "c \<noteq> 91"
  using that by (simp add: said_line_def log_stamp_def after_def starts_with_def js_def)

lemma head_not_said: "\<not> said_line (report_head r)"
  by (simp add: report_head_parts head_start_def said_line_def log_stamp_def after_def starts_with_def js_def digits_then_def is_digit_def)

lemma entry_one_line: "plain_entry e \<Longrightarrow> one_line (formatLogEntry e)"
proof -
  assume e: "plain_entry e"
  obtain m s where s: "stamp (le_t e) = m @ 58 # s" "list_all is_digit m" "list_all is_digit s"
    using stamp_parts by blast
  then have "one_line (stamped (le_t e))" using digits_list by (simp add: stamped_def one_line_def)
  moreover have "one_line (line_prefix l)" for l
    using digits_list [OF dec_nat_digits] by (auto simp: line_prefix_def one_line_def js_def split: option.split)
  ultimately show ?thesis using e by (simp add: entry_text plain_entry_def js_def)
qed

subsection \<open>The whole report\<close>

definition saved_options :: report_options where
  "saved_options = \<lparr>ro_savedAt = None, ro_maxChars = Some None, ro_saved = True\<rparr>"

definition saved_pieces :: "mission_report \<Rightarrow> jstr list" where
  "saved_pieces r = [report_head r, report_tldr r]
     @ (if or_empty (rp_brief r) = [] then [] else [js ''Goal: '' @ or_empty (rp_brief r)])
     @ [report_session r] @ (if rp_log r = [] then [] else js ''Call log:'' # map formatLogEntry (rp_log r))"

lemma saved_report: "formatSavedReport r = join [10] (saved_pieces r)"
  by (simp add: formatSavedReport_def formatReport_def saved_pieces_def report_top_def report_limit_def report_goal_def
      report_full_def report_tail_def report_log_def kept_lines_def log_heading_def Let_def)

lemma trim_end_idem: "trim_end (trim_end s) = trim_end s"
  by (simp add: trim_end_def)

lemma dropWhile_last: "\<not> P c \<Longrightarrow> dropWhile P (xs @ [c]) = dropWhile P xs @ [c]"
  by (induction xs) auto

lemma trim_start_Nil: "trim_start [] = []"
  by (simp add: trim_start_def)

lemma trim_idem [simp]: "trim (trim s) = trim s"
proof (cases "trim_start s")
  case (Cons c cs)
  then have c: "\<not> js_space c" unfolding trim_start_def by (metis dropWhile_eq_Cons_conv)
  have t: "trim s = c # rev (dropWhile js_space (rev cs))"
    using c Cons by (simp add: trim_def trim_end_def dropWhile_last)
  then have "trim_start (trim s) = trim s" using c by (simp add: trim_start_def)
  then show ?thesis by (simp only: trim_def [of "trim s"]) (simp add: trim_def trim_end_idem)
qed (simp add: trim_def trim_start_Nil)

lemma trim_one_line: "one_line s \<Longrightarrow> one_line (trim s)"
proof -
  have "set (trim s) \<subseteq> set s"
    unfolding trim_def trim_end_def trim_start_def by (auto dest!: set_dropWhileD)
  then show "one_line s \<Longrightarrow> one_line (trim s)" by (auto simp: one_line_def)
qed

lemma saved_pieces_lines: "readable r \<Longrightarrow> list_all one_line (saved_pieces r)"
  using head_one_line [of r] trim_one_line [of "or_empty (rp_summary r)"]
  by (auto simp: saved_pieces_def readable_def report_tldr_def report_session_def Let_def clip_def js_def list_all_iff
      intro: entry_one_line)

lemma saved_said: "readable r \<Longrightarrow> filter said_line (saved_pieces r @ [[]]) = map formatLogEntry (said_entries (rp_log r))"
proof -
  assume "readable r"
  then have log: "list_all plain_entry (rp_log r)" by (simp add: readable_def)
  have "\<not> said_line (report_tldr r)" "\<not> said_line (report_session r)" "\<not> said_line (js ''Goal: '' @ g)" "\<not> said_line (js ''Call log:'')"
    "\<not> said_line []" for g
    by (simp_all add: report_tldr_def report_session_def Let_def js_def not_log_line said_line_def log_stamp_def after_def starts_with_def)
  then show ?thesis
    using head_not_said [of r] said_entries_lines [OF log] by (auto simp: saved_pieces_def said_entries_def)
qed

lemma saved_summary:
  assumes "readable r"
  shows "saved_tldr (saved_pieces r @ [[]]) =
    Some (if trim (or_empty (rp_summary r)) = [] then js ''none; the call ended before the assistant summed it up. Read the log.''
      else trim (or_empty (rp_summary r)))"
proof -
  have head: "\<not> starts_with (js ''TL;DR: '') (report_head r)"
    by (simp add: report_head_parts head_start_def starts_with_def js_def)
  have tldr: "starts_with (js ''TL;DR: '') (report_tldr r)"
    by (simp add: report_tldr_def starts_with_def js_def Let_def)
  have "trim (drop 7 (report_tldr r)) = (if trim (or_empty (rp_summary r)) = []
      then js ''none; the call ended before the assistant summed it up. Read the log.'' else trim (or_empty (rp_summary r)))"
    using assms by (auto simp: report_tldr_def readable_def Let_def clip_def js_def trim_def [of "_ # _"] trim_start_def trim_end_def js_space_def)
  then show ?thesis using head tldr by (simp add: saved_tldr_def saved_pieces_def)
qed

section \<open>Properties\<close>


definition demo_saved :: mission_report where
  "demo_saved = demo_report\<lparr>rp_brief := None\<rparr>"


text \<open>The loop drops the oldest lines; what is left is their end.\<close>

lemma fit_drop: "\<exists>n. fit build keep chat = build (drop n chat)"
proof (induction build keep chat rule: fit.induct)
  case (1 build keep chat)
  show ?case
  proof (cases "length (build chat) > MAX_CONTEXT_CHARS \<and> length chat > keep")
    case True
    then obtain n where "fit build keep (tl chat) = build (drop n (tl chat))" using 1 by blast
    then have "fit build keep chat = build (drop (Suc n) chat)" using True by (subst fit.simps) (simp add: drop_Suc)
    then show ?thesis by blast
  next
    case False
    then have "fit build keep chat = build (drop 0 chat)" by (subst fit.simps) auto
    then show ?thesis by blast
  qed
qed

text \<open>
  What a call starts with is bounded, and the oldest goes first: the recap in the voice
  instructions and the context of the first consult are at most 3,000 characters each, built from the
  latest of the owner's messages, and the loop that drops the earlier ones ends.
\<close>

lemma context_fits:
  "pred_option (\<lambda>t. length t \<le> 3000 \<and> t \<in> range (\<lambda>n. take 3000 (consult_text ownerName (drop n (messageLines ms ownerName now)))))
     (formatConsultContext ms ownerName now)
   \<and> pred_option (\<lambda>t. length t \<le> 3000 \<and>
        t \<in> range (\<lambda>n. take 3000 (recent_text ownerName (map (call_line now) calls) (drop n (messageLines ms ownerName now)))))
     (formatRecentContext calls ms ownerName now)"
  using fit_drop [of "consult_text ownerName" 1 "messageLines ms ownerName now"]
    fit_drop [of "recent_text ownerName (map (call_line now) calls)" 0 "messageLines ms ownerName now"]
  by (auto simp: formatConsultContext_def formatRecentContext_def Let_def MAX_CONTEXT_CHARS_def)

end
