(* ===== verification/AgentContext.thy ===== *)
theory AgentContext
  imports Recent
begin

text \<open>
  \<open>src/openclaw-voice/src/session.ts\<close> and \<open>context.ts\<close>: the OpenClaw session a call runs in, and
  the agent's identity and files in the voice model's instructions. OpenClaw's routing and workspace
  helpers are arguments. Lower case is that of ASCII letters.
\<close>

section \<open>The session of a call\<close>

datatype session_scope = Per_phone | Per_call | Main_session

record session_sdk =
  normalizeAgentId :: "jstr \<Rightarrow> jstr"
  parseAgentSessionKey :: "jstr \<Rightarrow> (jstr \<times> jstr) option"
  canonicalizeMain :: "jstr \<Rightarrow> jstr \<Rightarrow> jstr"

text \<open>\<open>Inl\<close> is the error thrown.\<close>

definition agentSessionKey :: "session_sdk \<Rightarrow> jstr \<Rightarrow> jstr \<Rightarrow> jstr + jstr" where
  "agentSessionKey sdk agentIdRaw key =
     (let lower = to_lower key; agentId = normalizeAgentId sdk agentIdRaw;
          wrapped = (case parseAgentSessionKey sdk (js ''agent:'' @ agentId @ js '':'' @ key) of
              None \<Rightarrow> Inl (js ''session key \"'' @ key @ js ''\" could not be normalized'')
            | Some (_, rest) \<Rightarrow> Inr (js ''agent:'' @ agentId @ js '':'' @ rest))
      in if lower = js ''global'' \<or> lower = js ''unknown'' then Inr lower
         else (case (case parseAgentSessionKey sdk key of
                  Some (a, rest) \<Rightarrow> if normalizeAgentId sdk a = a \<and> a = agentId then Inr (js ''agent:'' @ a @ js '':'' @ rest) else wrapped
                | None \<Rightarrow> wrapped) of
             Inl e \<Rightarrow> Inl e
           | Inr scoped \<Rightarrow> Inr (canonicalizeMain sdk agentId scoped)))"

definition callSessionKey ::
    "session_sdk \<Rightarrow> jstr \<Rightarrow> session_scope \<Rightarrow> jstr option \<Rightarrow> jstr \<Rightarrow> jstr option \<Rightarrow> jstr + jstr" where
  "callSessionKey sdk agentId scope phone callId explicit =
     (let ex = trim (or_empty explicit); prefix1 = js ''agent:'' @ normalizeAgentId sdk agentId @ js '':voice'';
          digits = filter is_digit (or_empty phone)
      in if ex \<noteq> [] then agentSessionKey sdk agentId ex
         else case scope of
             Main_session \<Rightarrow> agentSessionKey sdk agentId (js ''main'')
           | Per_call \<Rightarrow> Inr (to_lower (prefix1 @ js '':call:'' @ callId))
           | Per_phone \<Rightarrow> Inr (to_lower (if digits \<noteq> [] then prefix1 @ js '':'' @ digits else prefix1 @ js '':'' @ callId)))"

lemma to_lower_append [simp]: "to_lower (s @ t) = to_lower s @ to_lower t"
  by (simp add: to_lower_def)

lemma to_lower_digits: "list_all is_digit d \<Longrightarrow> to_lower d = d"
  by (induction d) (auto simp: to_lower_def is_digit_def is_upper_def)

text \<open>Calls with one number share a session however the number is written; other numbers have another one.\<close>

lemma per_phone_sessions:
  assumes "filter is_digit p \<noteq> []" "filter is_digit q \<noteq> []"
  shows "callSessionKey sdk a Per_phone (Some p) c None = callSessionKey sdk a Per_phone (Some q) c' None
    \<longleftrightarrow> filter is_digit p = filter is_digit q"
proof -
  have "list_all is_digit (filter is_digit s)" for s by (simp add: list_all_iff)
  then show ?thesis using assms by (simp add: callSessionKey_def Let_def or_empty_def to_lower_digits)
qed

section \<open>The agent's context\<close>

record agent_context_config =
  ac_enabled :: bool
  ac_includeIdentity :: bool
  ac_includeWorkspaceFiles :: bool
  ac_files :: "jstr list"
  ac_maxChars :: int

definition AGENT_CONTEXT_DEFAULTS :: agent_context_config where
  "AGENT_CONTEXT_DEFAULTS = \<lparr>ac_enabled = False, ac_includeIdentity = True, ac_includeWorkspaceFiles = True,
     ac_files = [js ''SOUL.md'', js ''IDENTITY.md'', js ''USER.md''], ac_maxChars = 6000\<rparr>"

definition cut_text :: "jstr \<Rightarrow> int \<Rightarrow> jstr" where
  "cut_text s m = drop_half (trim_end (take (nat (max 0 (m - 32))) s)) @ [10] @ js ''[truncated]''"

definition limit_text_chars :: "jstr \<Rightarrow> int \<Rightarrow> jstr" where
  "limit_text_chars s m = (if int (length s) \<le> m then s else take (nat m) (cut_text s m))"

definition str_value :: "json option \<Rightarrow> jstr option" where
  "str_value v = (case v of Some (JStr s) \<Rightarrow> if trim s = [] then None else Some (trim s) | _ \<Rightarrow> None)"

definition identity_lines :: "json \<Rightarrow> jstr list" where
  "identity_lines identity = concat (map (\<lambda>(label, k).
       case str_value (json_get identity (js k)) of None \<Rightarrow> [] | Some v \<Rightarrow> [js ''- '' @ js label @ js '': '' @ v])
     [(''Name'', ''name''), (''Emoji'', ''emoji''), (''Vibe'', ''vibe''), (''Theme'', ''theme''), (''Creature/persona'', ''creature'')])"

text \<open>The files in order, each cut to the room left; a file that can't be read or is blank is passed over.\<close>

fun file_sections :: "(jstr \<Rightarrow> jstr option) \<Rightarrow> int \<Rightarrow> jstr list \<Rightarrow> jstr list" where
  "file_sections readText remaining [] = []"
| "file_sections readText remaining (f # fs) =
     (if remaining \<le> 0 then file_sections readText remaining fs
      else (let t = trim (or_empty (readText f));
                section1 = js ''### '' @ f @ [10] @ limit_text_chars t (max 0 (remaining - int (length f) - 16))
            in if t = [] then file_sections readText remaining fs
               else section1 # file_sections readText (remaining - int (length section1)) fs))"

text \<open>\<open>workspace\<close>: \<open>None\<close> when it can't be opened, else its reader. \<open>identity\<close>: \<open>{}\<close> when there is none.\<close>

definition buildAgentContext ::
    "agent_context_config \<Rightarrow> jstr \<Rightarrow> jstr \<Rightarrow> json option \<Rightarrow> (jstr \<Rightarrow> jstr option) option \<Rightarrow> jstr option" where
  "buildAgentContext cfg agentId consultToolName identity workspace =
     (if \<not> ac_enabled cfg then None
      else (let lns = (if ac_includeIdentity cfg then identity_lines (case identity of None \<Rightarrow> JObj [] | Some i \<Rightarrow> i) else []);
                secs = (if ac_includeWorkspaceFiles cfg
                  then (case workspace of None \<Rightarrow> [] | Some readText \<Rightarrow> file_sections readText (ac_maxChars cfg) (ac_files cfg)) else []);
                capsule =
                  [js ''OpenClaw agent voice context:'', js ''- Agent id: '' @ agentId,
                   js ''- Use this context to match the OpenClaw agent's personality and standing preferences on fast voice turns.'',
                   js ''- Treat this as compact context only; call '' @ consultToolName @ js '' when the caller needs the full agent brain, tools, memory, or workspace state.'']
                  @ (if lns = [] then [] else [js ''Configured identity:'' @ [10] @ join [10] lns])
                  @ (if secs = [] then [] else [js ''Workspace voice context:'' @ [10] @ join [10, 10] secs])
            in Some (limit_text_chars (join [10, 10] capsule) (ac_maxChars cfg))))"

lemma length_limit_text: "0 \<le> m \<Longrightarrow> int (length (limit_text_chars s m)) \<le> m"
  by (auto simp: limit_text_chars_def min_def le_nat_iff)

text \<open>
  The agent's context never makes the instructions longer than configured: what is built from its
  identity and files is at most \<open>maxChars\<close>, and it is built exactly when it is enabled.
\<close>

lemma agent_context_fits:
  assumes "0 \<le> ac_maxChars cfg"
  shows "(buildAgentContext cfg agentId tl1 identity workspace = None) = (\<not> ac_enabled cfg)
    \<and> pred_option (\<lambda>t. int (length t) \<le> ac_maxChars cfg) (buildAgentContext cfg agentId tl1 identity workspace)"
  using assms by (simp add: buildAgentContext_def Let_def length_limit_text)

lemma agent_context_fits_witness:
  "pred_option (\<lambda>t. int (length t) \<le> 6000)
    (buildAgentContext (AGENT_CONTEXT_DEFAULTS\<lparr>ac_enabled := True\<rparr>) (js ''main'') (js ''consult'') None (Some (\<lambda>f. Some (replicate 9000 97))))"
  using agent_context_fits [of "AGENT_CONTEXT_DEFAULTS\<lparr>ac_enabled := True\<rparr>" "js ''main''" "js ''consult''" None
      "Some (\<lambda>f. Some (replicate 9000 97))"]
  by (simp add: AGENT_CONTEXT_DEFAULTS_def)

end
