(* ===== verification/Transcriber.thy ===== *)
theory Transcriber
  imports Json Base64 Bytes Steps
begin

text \<open>
  \<open>src/openclaw-voice/src/transcriber.ts\<close>: the live transcript of the line. Audio sent before the
  socket opens waits, at most 150 chunks of it; nothing is sent after \<open>close\<close>. The socket is outside:
  effects go to it, events come from it (a message arrives parsed, \<open>None\<close> when it isn't JSON).
\<close>

record transcriber_options =
  ts_apiKey :: jstr
  ts_model :: jstr
  ts_delay :: jstr
  ts_prompt :: "jstr option"

record transcriber =
  ts_open :: bool
  ts_closed :: bool
  ts_pending :: "json list"

datatype transcriber_effect = X_send json | X_close | X_text json | X_error jstr

definition new_transcriber :: transcriber where
  "new_transcriber = \<lparr>ts_open = False, ts_closed = False, ts_pending = []\<rparr>"

definition append_msg :: "byte list \<Rightarrow> json" where
  "append_msg pcm = JObj [(js ''type'', JStr (js ''input_audio_buffer.append'')), (js ''audio'', JStr (base64_encode pcm))]"

definition session_update :: "transcriber_options \<Rightarrow> json" where
  "session_update o1 = JObj [(js ''type'', JStr (js ''session.update'')),
     (js ''session'', JObj [(js ''type'', JStr (js ''transcription'')),
       (js ''audio'', JObj [(js ''input'', JObj
         [(js ''format'', JObj [(js ''type'', JStr (js ''audio/pcm'')), (js ''rate'', JNum 24000)]),
          (js ''transcription'', JObj ([(js ''model'', JStr (ts_model o1)), (js ''delay'', JStr (ts_delay o1))]
             @ (if or_empty (ts_prompt o1) = [] then [] else [(js ''prompt'', JStr (or_empty (ts_prompt o1)))])))])])])]"

datatype transcriber_event = XE_open | XE_message "json option" | XE_error | XE_close | XE_send "byte list" | XE_stop

fun transcriber_step :: "transcriber_options \<Rightarrow> transcriber_event \<Rightarrow> (transcriber, transcriber_effect) handler" where
  "transcriber_step o1 XE_open s =
     (s\<lparr>ts_open := True, ts_pending := []\<rparr>, X_send (session_update o1) # map X_send (ts_pending s))"
| "transcriber_step o1 (XE_message raw) s = (s, case raw of None \<Rightarrow> []
     | Some m \<Rightarrow>
         if json_get m (js ''type'') = Some (JStr (js ''conversation.item.input_audio_transcription.delta'')) \<and> truthy (json_get m (js ''delta''))
         then [X_text (the (json_get m (js ''delta'')))]
         else if json_get m (js ''type'') = Some (JStr (js ''error'')) then
           [X_error (js ''transcription: '' @ js_string_opt (nullish_or (case json_get m (js ''error'') of None \<Rightarrow> None | Some e \<Rightarrow> json_get e (js ''message''))
             (Some (JStr (js ''error'')))))]
         else [])"
| "transcriber_step o1 XE_error s = (s, if ts_closed s then [] else [X_error (js ''transcription socket error'')])"
| "transcriber_step o1 XE_close s = (s\<lparr>ts_open := False\<rparr>, [])"
| "transcriber_step o1 (XE_send pcm) s =
     (if ts_closed s \<or> pcm = [] then (s, [])
      else if ts_open s then (s, [X_send (append_msg pcm)])
      else if length (ts_pending s) < 150 then (s\<lparr>ts_pending := ts_pending s @ [append_msg pcm]\<rparr>, [])
      else (s, []))"
| "transcriber_step o1 XE_stop s = (s\<lparr>ts_closed := True\<rparr>, [X_close])"

definition transcriber_run :: "transcriber_options \<Rightarrow> transcriber_event list \<Rightarrow> (transcriber, transcriber_effect) handler" where
  "transcriber_run o1 = run_events (transcriber_step o1)"

lemma transcriber_pending_bound: "keeps (\<lambda>s. length (ts_pending s) \<le> 150) (\<lambda>_. True) (transcriber_step o1 e)"
  unfolding keeps_def by (cases e) auto

definition demo_transcriber :: transcriber_options where
  "demo_transcriber = \<lparr>ts_apiKey = js ''k'', ts_model = js ''gpt-live-transcribe'', ts_delay = js ''medium'', ts_prompt = None\<rparr>"

text \<open>
  Audio is transcribed in order and at most a few seconds of it wait: over any run at most 150
  chunks are held back; and chunks sent before the socket opens (no more than that) go out first, in
  the order they came, right after the session is set up.
\<close>

lemma transcriber_keeps_order:
  assumes "list_all (\<lambda>p. p \<noteq> []) pcms" "length pcms \<le> 150"
  shows "length (ts_pending (fst (transcriber_run o1 es new_transcriber))) \<le> 150
    \<and> snd (transcriber_run o1 (map XE_send pcms @ [XE_open] @ map XE_send qs) new_transcriber)
       = X_send (session_update o1) # map (X_send \<circ> append_msg) (pcms @ filter (\<lambda>p. p \<noteq> []) qs)"
proof
  have "keeps (\<lambda>s. length (ts_pending s) \<le> 150) (\<lambda>_. True) (transcriber_run o1 es)"
    unfolding transcriber_run_def by (rule keeps_run) (rule transcriber_pending_bound)
  then show "length (ts_pending (fst (transcriber_run o1 es new_transcriber))) \<le> 150"
    by (rule keepsD(1)) (simp add: new_transcriber_def)
  have wait: "transcriber_run o1 (map XE_send ps) s = (s\<lparr>ts_pending := ts_pending s @ map append_msg ps\<rparr>, [])"
    if "\<not> ts_open s" "\<not> ts_closed s" "list_all (\<lambda>p. p \<noteq> []) ps" "length (ts_pending s) + length ps \<le> 150" for ps s
    using that
  proof (induction ps arbitrary: s)
    case (Cons p ps)
    then show ?case
      using Cons.IH [of "s\<lparr>ts_pending := ts_pending s @ [append_msg p]\<rparr>"] by (simp add: transcriber_run_def)
  qed (simp add: transcriber_run_def)
  have live: "transcriber_run o1 (map XE_send ps) s = (s, map (X_send \<circ> append_msg) (filter (\<lambda>p. p \<noteq> []) ps))"
    if "ts_open s" "\<not> ts_closed s" for ps s
    using that by (induction ps) (simp_all add: transcriber_run_def)
  show "snd (transcriber_run o1 (map XE_send pcms @ [XE_open] @ map XE_send qs) new_transcriber)
       = X_send (session_update o1) # map (X_send \<circ> append_msg) (pcms @ filter (\<lambda>p. p \<noteq> []) qs)"
    using wait [of new_transcriber pcms] assms live [of "new_transcriber\<lparr>ts_open := True\<rparr>" qs]
    by (simp add: transcriber_run_def run_events_append new_transcriber_def comp_def)
qed

lemma transcriber_keeps_order_witness:
  "snd (transcriber_run demo_transcriber (map XE_send [[1], [2]] @ [XE_open] @ map XE_send [[3]]) new_transcriber)
     = X_send (session_update demo_transcriber) # map (X_send \<circ> append_msg) [[1], [2], [3]]"
  using transcriber_keeps_order [of "[[1], [2]]" demo_transcriber "[]" "[[3]]"] by simp

end
