(* ===== verification/Config.thy ===== *)
theory Config
  imports AgentContext
begin

text \<open>
  \<open>src/openclaw-voice/src/config.ts\<close>: the plugin's configuration, checked with defaults. The raw
  configuration is a JavaScript value (\<open>jsval\<close>): an object lists its entries in the order
  \<open>Object.entries\<close> gives them, \<open>V_nan\<close> and \<open>V_inf\<close> are the numbers that aren't finite, and numbers
  are real (thresholds are fractions). \<open>undefined\<close> is \<open>None\<close>.
\<close>

section \<open>Values\<close>

datatype jsval =
    V_null
  | V_bool bool
  | V_num real
  | V_nan
  | V_inf
  | V_str jstr
  | V_arr "jsval list"
  | V_obj "(jstr \<times> jsval) list"

type_synonym obj = "(jstr \<times> jsval) list"

fun v_truthy :: "jsval option \<Rightarrow> bool" where
  "v_truthy None = False"
| "v_truthy (Some V_null) = False"
| "v_truthy (Some (V_bool b)) = b"
| "v_truthy (Some (V_num x)) = (x \<noteq> 0)"
| "v_truthy (Some V_nan) = False"
| "v_truthy (Some V_inf) = True"
| "v_truthy (Some (V_str s)) = (s \<noteq> [])"
| "v_truthy (Some (V_arr vs)) = True"
| "v_truthy (Some (V_obj kvs)) = True"

text \<open>The readers: an object or \<open>{}\<close>, a text that isn't blank, a number within bounds, one of some words.\<close>

definition obj_of :: "jsval option \<Rightarrow> obj" where
  "obj_of v = (case v of Some (V_obj kvs) \<Rightarrow> kvs | _ \<Rightarrow> [])"

definition arr_of :: "jsval option \<Rightarrow> jsval list" where
  "arr_of v = (case v of Some (V_arr vs) \<Rightarrow> vs | _ \<Rightarrow> [])"

definition str_of :: "jsval option \<Rightarrow> jstr option" where
  "str_of v = (case v of Some (V_str s) \<Rightarrow> if trim s = [] then None else Some (trim s) | _ \<Rightarrow> None)"

definition num_of :: "jsval option \<Rightarrow> real \<Rightarrow> real \<Rightarrow> real \<Rightarrow> real" where
  "num_of v def1 lo hi = (case v of Some (V_num x) \<Rightarrow> min hi (max lo x) | _ \<Rightarrow> def1)"

definition one_of :: "jsval option \<Rightarrow> jstr list \<Rightarrow> jstr \<Rightarrow> jstr" where
  "one_of v allowed def1 = (case v of Some (V_str s) \<Rightarrow> if s \<in> set allowed then s else def1 | _ \<Rightarrow> def1)"

definition isE164 :: "jsval option \<Rightarrow> bool" where
  "isE164 v = (case v of Some (V_str s) \<Rightarrow> e164 s | _ \<Rightarrow> False)"

abbreviation prop_of :: "obj \<Rightarrow> string \<Rightarrow> jsval option" where
  "prop_of o1 k \<equiv> jm_get o1 (js k)"

section \<open>The configuration\<close>

datatype line_config =
    Otacon_line (lg_id: jstr) (lg_url: jstr) (lg_phoneId: jstr) (lg_takeover: bool) (lg_own: "jstr option")
  | Twilio_line (lg_id: jstr) (lg_accountSid: jstr) (lg_authToken: jsval) (lg_fromNumber: jstr) (lg_publicUrl: jstr)

definition is_twilio :: "line_config \<Rightarrow> bool" where
  "is_twilio l = (case l of Twilio_line _ _ _ _ _ \<Rightarrow> True | _ \<Rightarrow> False)"

definition lg_number :: "line_config \<Rightarrow> jstr option" where
  "lg_number l = (case l of Otacon_line _ _ _ _ n \<Rightarrow> n | Twilio_line _ _ _ n _ \<Rightarrow> Some n)"

record menu_config =
  mc_enabled :: bool
  mc_sttModel :: jstr
  mc_sttDelay :: jstr
  mc_sttApiKey :: "jsval option"
  mc_decModel :: jstr
  mc_decApiKey :: "jsval option"
  mc_checkEverySeconds :: real
  mc_threshold :: real

record voice_config =
  vc_enabled :: bool
  vc_lines :: "line_config list"
  vc_defaultLine :: jstr
  vc_listen :: "(jstr \<times> jstr option) option"
  vc_agentId :: "jstr option"
  vc_sessionScope :: session_scope
  vc_ownerName :: jstr
  vc_assistantName :: jstr
  vc_inboundAllowlist :: bool
  vc_allowFrom :: "jstr list"
  vc_inboundGreeting :: jstr
  vc_inboundSessionKey :: "jstr option"
  vc_toolPolicy :: jstr
  vc_consultPolicy :: jstr
  vc_responseModel :: "jstr option"
  vc_consultThinkingLevel :: "jstr option"
  vc_consultFastMode :: "bool option"
  vc_consultRecentMessages :: int
  vc_responseTimeoutMs :: real
  vc_provider :: "jstr option"
  vc_providers :: "(jstr \<times> obj) list"
  vc_instructions :: "jstr option"
  vc_agentContext :: agent_context_config
  vc_recentEnabled :: bool
  vc_recentMaxMessages :: int
  vc_contacts :: "contact list"
  vc_menu :: menu_config
  vc_holdCapSeconds :: real
  vc_maxCallSeconds :: real
  vc_ringTimeoutSeconds :: real

definition THINKING_LEVELS :: "jstr list" where
  "THINKING_LEVELS = [js ''off'', js ''minimal'', js ''low'', js ''medium'', js ''high'', js ''xhigh'', js ''adaptive'', js ''max'', js ''ultra'']"

definition DELAYS :: "jstr list" where
  "DELAYS = [js ''minimal'', js ''low'', js ''medium'', js ''high'', js ''xhigh'']"

section \<open>Lines\<close>

text \<open>\<open>/^[a-z0-9][a-z0-9_-]*$/i\<close>\<close>

definition id_char :: "nat \<Rightarrow> bool" where
  "id_char c = (is_lower c \<or> is_upper c \<or> is_digit c)"

definition line_id_ok :: "jstr \<Rightarrow> bool" where
  "line_id_ok s = (case s of [] \<Rightarrow> False | c # cs \<Rightarrow> id_char c \<and> list_all (\<lambda>d. id_char d \<or> d = 95 \<or> d = 45) cs)"

text \<open>\<open>s.replace(/\/+$/, "")\<close>\<close>

definition strip_slashes :: "jstr \<Rightarrow> jstr" where
  "strip_slashes s = rev (dropWhile (\<lambda>c. c = 47) (rev s))"

definition line_where :: "nat \<Rightarrow> jstr option \<Rightarrow> jstr" where
  "line_where i id1 = js ''lines['' @ dec_nat i @ js '']'' @ (case id1 of None \<Rightarrow> [] | Some s \<Rightarrow> js '' ('' @ s @ js '')'')"

definition line_id_errors :: "line_config list \<Rightarrow> jstr \<Rightarrow> jstr option \<Rightarrow> jstr list" where
  "line_id_errors lns w id1 = (case id1 of
      None \<Rightarrow> [w @ js ''.id is required (letters, digits, - and _)'']
    | Some s \<Rightarrow> if \<not> line_id_ok s then [w @ js ''.id is required (letters, digits, - and _)'']
        else if s \<in> lg_id ` set lns then [w @ js '': duplicate id''] else [])"

definition parse_otacon_line :: "jstr \<Rightarrow> jstr option \<Rightarrow> jstr option \<Rightarrow> obj \<Rightarrow> line_config list \<times> jstr list" where
  "parse_otacon_line w id1 number l =
     (let url = map_option strip_slashes (str_of (prop_of l ''url'')); phoneId = str_of (prop_of l ''phoneId'')
      in ((case (id1, url, phoneId) of
             (Some s, Some u, Some p) \<Rightarrow>
               if u \<noteq> [] then [Otacon_line s u p (prop_of l ''takeover'' = Some (V_bool True)) number] else []
           | _ \<Rightarrow> []),
          (if url = None \<or> url = Some [] then [w @ js ''.url is required''] else [])
          @ (if phoneId = None then [w @ js ''.phoneId is required''] else [])))"

definition https :: "jstr option \<Rightarrow> bool" where
  "https u = (case u of None \<Rightarrow> False | Some s \<Rightarrow> starts_with (js ''https://'') s)"

definition parse_twilio_line :: "jstr \<Rightarrow> jstr option \<Rightarrow> obj \<Rightarrow> line_config list \<times> jstr list" where
  "parse_twilio_line w id1 l =
     (let accountSid = str_of (prop_of l ''accountSid''); fromNumber = str_of (prop_of l ''fromNumber'');
          publicUrl = map_option strip_slashes (str_of (prop_of l ''publicUrl'')); authToken = prop_of l ''authToken''
      in ((case (id1, accountSid, authToken, fromNumber, publicUrl) of
             (Some s, Some a, Some t, Some f, Some u) \<Rightarrow>
               if v_truthy authToken \<and> e164 f \<and> https publicUrl then [Twilio_line s a t f u] else []
           | _ \<Rightarrow> []),
          (if accountSid = None then [w @ js ''.accountSid is required''] else [])
          @ (if \<not> v_truthy authToken then [w @ js ''.authToken is required''] else [])
          @ (if \<not> isE164 (map_option V_str fromNumber) then [w @ js ''.fromNumber must be E.164''] else [])
          @ (if \<not> https publicUrl then [w @ js ''.publicUrl must be an https URL''] else [])))"

definition parse_line :: "nat \<Rightarrow> jsval \<Rightarrow> line_config list \<Rightarrow> line_config list \<times> jstr list" where
  "parse_line i v lns =
     (let l = obj_of (Some v); id1 = str_of (prop_of l ''id''); w = line_where i id1; number = str_of (prop_of l ''number'');
          (new1, errs) =
            (if prop_of l ''provider'' = Some (V_str (js ''otacon'')) then parse_otacon_line w id1 number l
             else if prop_of l ''provider'' = Some (V_str (js ''twilio'')) then parse_twilio_line w id1 l
             else ([], [w @ js ''.provider must be \"otacon\" or \"twilio\"'']))
      in (lns @ new1,
          line_id_errors lns w id1
          @ (case number of Some n \<Rightarrow> if e164 n then [] else [w @ js ''.number must be E.164''] | None \<Rightarrow> []) @ errs))"

fun parse_lines :: "nat \<Rightarrow> jsval list \<Rightarrow> line_config list \<Rightarrow> line_config list \<times> jstr list" where
  "parse_lines i [] lns = (lns, [])"
| "parse_lines i (v # vs) lns =
     (let (lns1, errs) = parse_line i v lns; (lns2, errs2) = parse_lines (Suc i) vs lns1 in (lns2, errs @ errs2))"

section \<open>Listen-in, callers, contacts, providers\<close>

definition default_line :: "obj \<Rightarrow> line_config list \<Rightarrow> jstr" where
  "default_line c lns = (case str_of (prop_of c ''defaultLine'') of
      Some s \<Rightarrow> s | None \<Rightarrow> (case lns of [] \<Rightarrow> [] | l # _ \<Rightarrow> lg_id l))"

definition parse_listen :: "obj \<Rightarrow> line_config list \<Rightarrow> (jstr \<times> jstr option) option \<times> jstr list" where
  "parse_listen c lns = (case prop_of c ''listen'' of
      None \<Rightarrow> (None, [])
    | Some v \<Rightarrow>
        (let lr = obj_of (Some v); line = str_of (prop_of lr ''line'')
         in case str_of (prop_of lr ''to'') of
              None \<Rightarrow> (None, [js ''listen.to must be E.164''])
            | Some to1 \<Rightarrow>
                if \<not> e164 to1 then (None, [js ''listen.to must be E.164''])
                else (case line of
                    Some s \<Rightarrow>
                      if pred_option is_twilio (find (\<lambda>l. lg_id l = s) lns) \<and> find (\<lambda>l. lg_id l = s) lns \<noteq> None
                      then (Some (to1, line), []) else (None, [js ''listen.line: '' @ s @ js '' isn't a Twilio line''])
                  | None \<Rightarrow>
                      if list_ex is_twilio lns then (Some (to1, line), [])
                      else (None, [js ''listen needs a Twilio line to dial from'']))))"

definition strings_of :: "jsval option \<Rightarrow> jstr list" where
  "strings_of v = concat (map (\<lambda>x. case x of V_str s \<Rightarrow> [s] | _ \<Rightarrow> []) (arr_of v))"

definition allow_errors :: "jstr list \<Rightarrow> jstr list" where
  "allow_errors ns = map (\<lambda>n. js ''allowFrom: '' @ n @ js '' is not E.164'') (filter (\<lambda>n. \<not> e164 n) ns)"

definition parse_contact :: "jstr \<times> jsval \<Rightarrow> jstr + contact" where
  "parse_contact kv =
     (let e = obj_of (Some (snd kv)); number = str_of (prop_of e ''number'')
      in case number of
           Some n \<Rightarrow>
             if e164 n then Inr \<lparr>ct_id = fst kv, ct_name = (case str_of (prop_of e ''name'') of Some s \<Rightarrow> s | None \<Rightarrow> fst kv),
               ct_number = n, ct_description = str_of (prop_of e ''description'')\<rparr>
             else Inl (js ''contacts.'' @ fst kv @ js ''.number must be E.164'')
         | None \<Rightarrow> Inl (js ''contacts.'' @ fst kv @ js ''.number must be E.164''))"

definition good_of :: "'e + 'a \<Rightarrow> 'a list" where
  "good_of r = (case r of Inl _ \<Rightarrow> [] | Inr x \<Rightarrow> [x])"

definition error_of :: "'e + 'a \<Rightarrow> 'e list" where
  "error_of r = (case r of Inl e \<Rightarrow> [e] | Inr _ \<Rightarrow> [])"

definition nullish_set :: "(jstr \<times> 'v) list \<Rightarrow> jstr \<Rightarrow> ('v \<Rightarrow> bool) \<Rightarrow> 'v \<Rightarrow> (jstr \<times> 'v) list" where
  "nullish_set kvs k null1 v = (case jm_get kvs k of
      Some x \<Rightarrow> if null1 x then jm_set k v kvs else kvs | None \<Rightarrow> jm_set k v kvs)"

text \<open>A provider without a model would get GPT-Live, which can't run custom tools.\<close>

definition parse_providers :: "obj \<Rightarrow> (jstr \<times> obj) list" where
  "parse_providers realtime =
     (let ps = map (\<lambda>kv. (fst kv, obj_of (Some (snd kv)))) (obj_of (prop_of realtime ''providers''));
          openai = (case jm_get ps (js ''openai'') of None \<Rightarrow> [] | Some o1 \<Rightarrow> o1)
      in jm_set (js ''openai'') (nullish_set openai (js ''model'') (\<lambda>x. x = V_null) (V_str (js ''gpt-realtime-2.1''))) ps)"

definition scope_of :: "jstr \<Rightarrow> session_scope" where
  "scope_of s = (if s = js ''per-call'' then Per_call else if s = js ''main'' then Main_session else Per_phone)"

definition not_false :: "jsval option \<Rightarrow> bool" where
  "not_false v = (v \<noteq> Some (V_bool False))"

definition is_true :: "jsval option \<Rightarrow> bool" where
  "is_true v = (v = Some (V_bool True))"

definition or_else :: "'a option \<Rightarrow> 'a \<Rightarrow> 'a" where
  "or_else x d = (case x of Some y \<Rightarrow> y | None \<Rightarrow> d)"

definition parse_agent_context :: "obj \<Rightarrow> agent_context_config" where
  "parse_agent_context a = \<lparr>ac_enabled = is_true (prop_of a ''enabled''), ac_includeIdentity = not_false (prop_of a ''includeIdentity''),
     ac_includeWorkspaceFiles = not_false (prop_of a ''includeWorkspaceFiles''),
     ac_files = (case prop_of a ''files'' of Some (V_arr vs) \<Rightarrow> filter (\<lambda>f. trim f \<noteq> []) (strings_of (prop_of a ''files''))
       | _ \<Rightarrow> ac_files AGENT_CONTEXT_DEFAULTS),
     ac_maxChars = js_round (num_of (prop_of a ''maxChars'') (of_int (ac_maxChars AGENT_CONTEXT_DEFAULTS)) 0 50000)\<rparr>"

definition parse_menu :: "obj \<Rightarrow> menu_config" where
  "parse_menu m =
     (let t = obj_of (prop_of m ''transcription''); d = obj_of (prop_of m ''decisions'')
      in \<lparr>mc_enabled = not_false (prop_of m ''enabled''),
          mc_sttModel = or_else (str_of (prop_of t ''model'')) (js ''gpt-live-transcribe''),
          mc_sttDelay = one_of (prop_of t ''delay'') DELAYS (js ''medium''),
          mc_sttApiKey = prop_of t ''apiKey'',
          mc_decModel = or_else (str_of (prop_of d ''model'')) (js ''openai/gpt-6-luna-decisions''),
          mc_decApiKey = prop_of d ''apiKey'',
          mc_checkEverySeconds = num_of (prop_of m ''checkEverySeconds'') 3 1 30,
          mc_threshold = num_of (prop_of m ''threshold'') (6 / 10) (1 / 2) 1\<rparr>)"

section \<open>The whole\<close>

definition thinking_errors :: "obj \<Rightarrow> jstr list" where
  "thinking_errors c = (case prop_of c ''consultThinkingLevel'' of
      None \<Rightarrow> []
    | Some v \<Rightarrow> if v \<in> V_str ` set THINKING_LEVELS then []
        else [js ''consultThinkingLevel must be one of '' @ join (js '', '') THINKING_LEVELS])"

definition session_key_errors :: "jstr option \<Rightarrow> jstr list" where
  "session_key_errors k = (case k of
      None \<Rightarrow> []
    | Some s \<Rightarrow> if starts_with (js ''agent:'') s then [] else [js ''inboundSessionKey must be a session key (agent:...)''])"

definition config_errors :: "obj \<Rightarrow> jstr list" where
  "config_errors c =
     (let rawLines = arr_of (prop_of c ''lines''); (lns, line_errs) = parse_lines 0 rawLines []; dl = default_line c lns
      in (if rawLines = [] then [js ''lines: at least one line is required''] else [])
         @ line_errs
         @ (if lns \<noteq> [] \<and> \<not> list_ex (\<lambda>l. lg_id l = dl) lns then [js ''defaultLine: no line '' @ dl] else [])
         @ snd (parse_listen c lns)
         @ allow_errors (strings_of (prop_of c ''allowFrom''))
         @ concat (map (error_of \<circ> parse_contact) (obj_of (prop_of c ''contacts'')))
         @ session_key_errors (str_of (prop_of c ''inboundSessionKey''))
         @ thinking_errors c)"

definition config_of :: "obj \<Rightarrow> voice_config" where
  "config_of c =
     (let lns = fst (parse_lines 0 (arr_of (prop_of c ''lines'')) []); realtime = obj_of (prop_of c ''realtime'');
          recent = obj_of (prop_of realtime ''recentContext'')
      in \<lparr>vc_enabled = not_false (prop_of c ''enabled''),
          vc_lines = lns,
          vc_defaultLine = default_line c lns,
          vc_listen = fst (parse_listen c lns),
          vc_agentId = str_of (prop_of c ''agentId''),
          vc_sessionScope = scope_of (one_of (prop_of c ''sessionScope'') [js ''per-phone'', js ''per-call'', js ''main''] (js ''per-phone'')),
          vc_ownerName = or_else (str_of (prop_of c ''ownerName'')) (js ''my principal''),
          vc_assistantName = or_else (str_of (prop_of c ''assistantName'')) (js ''an AI assistant''),
          vc_inboundAllowlist = (one_of (prop_of c ''inboundPolicy'') [js ''disabled'', js ''allowlist''] (js ''disabled'') = js ''allowlist''),
          vc_allowFrom = strings_of (prop_of c ''allowFrom''),
          vc_inboundGreeting = (case prop_of c ''inboundGreeting'' of Some (V_str s) \<Rightarrow> trim s | _ \<Rightarrow> js ''Hello! How can I help you today?''),
          vc_inboundSessionKey = str_of (prop_of c ''inboundSessionKey''),
          vc_toolPolicy = one_of (prop_of c ''toolPolicy'') [js ''safe-read-only'', js ''owner'', js ''none''] (js ''safe-read-only''),
          vc_consultPolicy = one_of (prop_of c ''consultPolicy'') [js ''auto'', js ''substantive'', js ''always''] (js ''auto''),
          vc_responseModel = str_of (prop_of c ''responseModel''),
          vc_consultThinkingLevel = (case prop_of c ''consultThinkingLevel'' of Some (V_str s) \<Rightarrow> Some s | _ \<Rightarrow> None),
          vc_consultFastMode = (case prop_of c ''consultFastMode'' of Some (V_bool b) \<Rightarrow> Some b | _ \<Rightarrow> None),
          vc_consultRecentMessages = js_round (num_of (prop_of c ''consultRecentMessages'') 8 0 30),
          vc_responseTimeoutMs = num_of (prop_of c ''responseTimeoutMs'') 60000 5000 600000,
          vc_provider = str_of (prop_of realtime ''provider''),
          vc_providers = parse_providers realtime,
          vc_instructions = str_of (prop_of realtime ''instructions''),
          vc_agentContext = parse_agent_context (obj_of (prop_of realtime ''agentContext'')),
          vc_recentEnabled = is_true (prop_of recent ''enabled''),
          vc_recentMaxMessages = js_round (num_of (prop_of recent ''maxMessages'') 8 1 30),
          vc_contacts = concat (map (good_of \<circ> parse_contact) (obj_of (prop_of c ''contacts''))),
          vc_menu = parse_menu (obj_of (prop_of c ''menu'')),
          vc_holdCapSeconds = num_of (prop_of c ''holdCapSeconds'') 300 10 3600,
          vc_maxCallSeconds = num_of (prop_of c ''maxCallSeconds'') 1800 60 14400,
          vc_ringTimeoutSeconds = num_of (prop_of c ''ringTimeoutSeconds'') 45 10 120\<rparr>)"

definition parseConfig :: "jsval option \<Rightarrow> voice_config option \<times> jstr list" where
  "parseConfig raw = (let c = obj_of raw; errors = config_errors c in if errors \<noteq> [] then (None, errors) else (Some (config_of c), errors))"

section \<open>What a configuration promises\<close>

definition line_ok :: "line_config \<Rightarrow> bool" where
  "line_ok l = (line_id_ok (lg_id l) \<and> pred_option e164 (lg_number l) \<and> (case l of
      Otacon_line _ u p _ _ \<Rightarrow> u \<noteq> [] \<and> p \<noteq> []
    | Twilio_line _ a t f u \<Rightarrow> a \<noteq> [] \<and> v_truthy (Some t) \<and> e164 f \<and> https (Some u)))"

definition listen_ok :: "line_config list \<Rightarrow> (jstr \<times> jstr option) option \<Rightarrow> bool" where
  "listen_ok lns x = (case x of None \<Rightarrow> True
    | Some (to1, line) \<Rightarrow> e164 to1 \<and> list_ex (\<lambda>l. is_twilio l \<and> pred_option (\<lambda>s. lg_id l = s) line) lns)"

definition config_bounds :: "voice_config \<Rightarrow> bool" where
  "config_bounds c =
     (0 \<le> vc_consultRecentMessages c \<and> vc_consultRecentMessages c \<le> 30
      \<and> 5000 \<le> vc_responseTimeoutMs c \<and> vc_responseTimeoutMs c \<le> 600000
      \<and> 0 \<le> ac_maxChars (vc_agentContext c) \<and> ac_maxChars (vc_agentContext c) \<le> 50000
      \<and> 1 \<le> vc_recentMaxMessages c \<and> vc_recentMaxMessages c \<le> 30
      \<and> 1 \<le> mc_checkEverySeconds (vc_menu c) \<and> mc_checkEverySeconds (vc_menu c) \<le> 30
      \<and> 1 / 2 \<le> mc_threshold (vc_menu c) \<and> mc_threshold (vc_menu c) \<le> 1
      \<and> 10 \<le> vc_holdCapSeconds c \<and> vc_holdCapSeconds c \<le> 3600
      \<and> 60 \<le> vc_maxCallSeconds c \<and> vc_maxCallSeconds c \<le> 14400
      \<and> 10 \<le> vc_ringTimeoutSeconds c \<and> vc_ringTimeoutSeconds c \<le> 120)"

definition config_ok :: "voice_config \<Rightarrow> bool" where
  "config_ok c =
     (vc_lines c \<noteq> [] \<and> list_all line_ok (vc_lines c) \<and> distinct (map lg_id (vc_lines c))
      \<and> vc_defaultLine c \<in> lg_id ` set (vc_lines c) \<and> listen_ok (vc_lines c) (vc_listen c)
      \<and> list_all e164 (vc_allowFrom c) \<and> list_all (\<lambda>t. e164 (ct_number t)) (vc_contacts c)
      \<and> pred_option (starts_with (js ''agent:'')) (vc_inboundSessionKey c)
      \<and> vc_toolPolicy c \<in> {js ''safe-read-only'', js ''owner'', js ''none''}
      \<and> vc_consultPolicy c \<in> {js ''auto'', js ''substantive'', js ''always''}
      \<and> pred_option (\<lambda>s. s \<in> set THINKING_LEVELS) (vc_consultThinkingLevel c)
      \<and> config_bounds c)"

lemma num_of_bounds: "lo \<le> def1 \<Longrightarrow> def1 \<le> hi \<Longrightarrow> lo \<le> num_of v def1 lo hi \<and> num_of v def1 lo hi \<le> hi"
  by (auto simp: num_of_def split: option.splits jsval.splits)

lemma js_round_bounds:
  assumes "of_int a \<le> d" "d \<le> of_int b"
  shows "a \<le> js_round (num_of v d (of_int a) (of_int b)) \<and> js_round (num_of v d (of_int a) (of_int b)) \<le> b"
  using num_of_bounds [OF assms, of v] by (simp add: js_round_def le_floor_iff floor_le_iff)

lemma one_of_in: "def1 \<in> set ws \<Longrightarrow> one_of v ws def1 \<in> set ws"
  by (auto simp: one_of_def split: option.splits jsval.splits)

lemma str_of_nonempty: "str_of v = Some s \<Longrightarrow> s \<noteq> []"
  by (auto simp: str_of_def split: option.splits jsval.splits if_splits)

text \<open>A line without an error is appended, well-formed and under a new id.\<close>

lemma no_id_error:
  assumes "line_id_errors lns w id1 = []"
  obtains s where "id1 = Some s" "line_id_ok s" "s \<notin> lg_id ` set lns"
  using assms by (auto simp: line_id_errors_def split: option.splits if_splits)

lemma parse_otacon_line_added:
  assumes "id1 = Some s" "snd (parse_otacon_line w id1 number l) = []"
  obtains u p t where "fst (parse_otacon_line w id1 number l) = [Otacon_line s u p t number]" "u \<noteq> []" "p \<noteq> []"
  using assms str_of_nonempty [of "prop_of l ''phoneId''"]
  by (auto simp: parse_otacon_line_def Let_def split: if_splits option.splits)

lemma parse_twilio_line_added:
  assumes "id1 = Some s" "snd (parse_twilio_line w id1 l) = []"
  obtains a t f u where "fst (parse_twilio_line w id1 l) = [Twilio_line s a t f u]" "a \<noteq> []" "v_truthy (Some t)" "e164 f" "https (Some u)"
proof -
  obtain a where a: "str_of (prop_of l ''accountSid'') = Some a"
    using assms by (auto simp: parse_twilio_line_def Let_def split: if_splits)
  obtain t where t: "prop_of l ''authToken'' = Some t" "v_truthy (Some t)"
    using assms by (cases "prop_of l ''authToken''") (auto simp: parse_twilio_line_def Let_def split: if_splits)
  obtain f where f: "str_of (prop_of l ''fromNumber'') = Some f" "e164 f"
    using assms by (cases "str_of (prop_of l ''fromNumber'')") (auto simp: parse_twilio_line_def Let_def isE164_def split: if_splits)
  obtain z where z: "str_of (prop_of l ''publicUrl'') = Some z" "https (Some (strip_slashes z))"
    using assms by (cases "str_of (prop_of l ''publicUrl'')") (auto simp: parse_twilio_line_def Let_def https_def split: if_splits)
  have "fst (parse_twilio_line w id1 l) = [Twilio_line s a t f (strip_slashes z)]"
    using assms(1) a t f z by (simp add: parse_twilio_line_def Let_def)
  then show ?thesis using that str_of_nonempty [OF a] t f z by blast
qed

lemma parse_line_ok:
  assumes "snd (parse_line i v lns) = []"
  obtains l where "fst (parse_line i v lns) = lns @ [l]" "line_ok l" "lg_id l \<notin> lg_id ` set lns"
proof -
  let ?l = "obj_of (Some v)"
  let ?id = "str_of (prop_of ?l ''id'')"
  let ?w = "line_where i ?id"
  let ?number = "str_of (prop_of ?l ''number'')"
  have ids: "line_id_errors lns ?w ?id = []" and num: "pred_option e164 ?number"
    using assms by (auto simp: parse_line_def Let_def split: prod.splits option.splits if_splits)
  obtain s where s: "?id = Some s" "line_id_ok s" "s \<notin> lg_id ` set lns" using no_id_error [OF ids] by metis
  consider (o) "prop_of ?l ''provider'' = Some (V_str (js ''otacon''))"
    | (t) "prop_of ?l ''provider'' \<noteq> Some (V_str (js ''otacon''))" "prop_of ?l ''provider'' = Some (V_str (js ''twilio''))"
    using assms by (auto simp: parse_line_def Let_def split: if_splits)
  then show ?thesis
  proof cases
    case o
    have f: "fst (parse_line i v lns) = lns @ fst (parse_otacon_line ?w ?id ?number ?l)"
      using o by (simp add: parse_line_def Let_def split: prod.splits)
    have "snd (parse_otacon_line ?w ?id ?number ?l) = []"
      using assms o by (simp add: parse_line_def Let_def split: prod.splits)
    then obtain u p' t' where l: "fst (parse_otacon_line ?w ?id ?number ?l) = [Otacon_line s u p' t' ?number]" "u \<noteq> []" "p' \<noteq> []"
      by (rule parse_otacon_line_added [OF s(1)])
    show ?thesis
      by (rule that [of "Otacon_line s u p' t' ?number"]) (use f l s num in \<open>auto simp: line_ok_def lg_number_def\<close>)
  next
    case t
    have f: "fst (parse_line i v lns) = lns @ fst (parse_twilio_line ?w ?id ?l)"
      using t by (simp add: parse_line_def Let_def split: prod.splits)
    have "snd (parse_twilio_line ?w ?id ?l) = []"
      using assms t by (simp add: parse_line_def Let_def split: prod.splits)
    then obtain a t' f' u where l: "fst (parse_twilio_line ?w ?id ?l) = [Twilio_line s a t' f' u]" "a \<noteq> []" "v_truthy (Some t')" "e164 f'" "https (Some u)"
      by (rule parse_twilio_line_added [OF s(1)])
    show ?thesis
      by (rule that [of "Twilio_line s a t' f' u"]) (use f l s in \<open>auto simp: line_ok_def lg_number_def\<close>)
  qed
qed

lemma parse_lines_ok:
  assumes "snd (parse_lines i vs lns) = []" "list_all line_ok lns" "distinct (map lg_id lns)"
  shows "list_all line_ok (fst (parse_lines i vs lns)) \<and> distinct (map lg_id (fst (parse_lines i vs lns)))
    \<and> length (fst (parse_lines i vs lns)) = length lns + length vs"
  using assms
proof (induction i vs lns rule: parse_lines.induct)
  case (1 i lns)
  then show ?case by simp
next
  case (2 i v vs lns)
  obtain lns1 e1 where p: "parse_line i v lns = (lns1, e1)" by (cases "parse_line i v lns")
  then have "e1 = []" "snd (parse_lines (Suc i) vs lns1) = []" using 2(2) by (auto split: prod.splits)
  moreover obtain l where "lns1 = lns @ [l]" "line_ok l" "lg_id l \<notin> lg_id ` set lns"
    using parse_line_ok [of i v lns] p \<open>e1 = []\<close> by (metis fst_conv snd_conv)
  ultimately show ?case using 2 p by (auto split: prod.splits)
qed

lemma find_in_set: "find P xs = Some x \<Longrightarrow> x \<in> set xs \<and> P x"
  by (auto simp: find_Some_iff)

lemma parse_listen_ok: "snd (parse_listen c lns) = [] \<Longrightarrow> listen_ok lns (fst (parse_listen c lns))"
  using find_in_set [of _ lns]
  by (fastforce simp: parse_listen_def Let_def listen_ok_def list_ex_iff split: option.splits if_splits)

lemma allow_no_errors: "allow_errors ns = [] \<Longrightarrow> list_all e164 ns"
  by (auto simp: allow_errors_def filter_empty_conv list_all_iff)

lemma good_contact: "list_all (\<lambda>t. e164 (ct_number t)) (good_of (parse_contact kv))"
  by (auto simp: good_of_def parse_contact_def Let_def split: option.splits)

lemma good_contacts: "list_all (\<lambda>t. e164 (ct_number t)) (concat (map (good_of \<circ> parse_contact) kvs))"
  using good_contact by (induction kvs) auto

lemma config_of_bounds: "config_bounds (config_of c)"
  unfolding config_bounds_def config_of_def parse_menu_def parse_agent_context_def Let_def
    voice_config.simps menu_config.simps agent_context_config.simps
  using js_round_bounds [of 0 8 30] js_round_bounds [of 1 8 30] js_round_bounds [of 0 6000 50000] num_of_bounds [of "1 / 2" "6 / 10" 1]
  by (simp add: num_of_bounds AGENT_CONTEXT_DEFAULTS_def)

lemma thinking_ok: "thinking_errors c = [] \<Longrightarrow>
    pred_option (\<lambda>s. s \<in> set THINKING_LEVELS) (case prop_of c ''consultThinkingLevel'' of Some (V_str s) \<Rightarrow> Some s | _ \<Rightarrow> None)"
  by (auto simp: thinking_errors_def split: option.splits jsval.splits if_splits)

lemma session_key_ok: "session_key_errors k = [] \<Longrightarrow> pred_option (starts_with (js ''agent:'')) k"
  by (auto simp: session_key_errors_def split: option.splits if_splits)

lemma config_accepted:
  assumes "config_errors c = []"
  shows "config_ok (config_of c)"
proof -
  define vs where "vs = arr_of (prop_of c ''lines'')"
  define lns where "lns = fst (parse_lines 0 vs [])"
  have e: "vs \<noteq> []" "snd (parse_lines 0 vs []) = []" "lns = [] \<or> list_ex (\<lambda>l. lg_id l = default_line c lns) lns"
      "snd (parse_listen c lns) = []" "allow_errors (strings_of (prop_of c ''allowFrom'')) = []"
      "session_key_errors (str_of (prop_of c ''inboundSessionKey'')) = []" "thinking_errors c = []"
    using assms by (auto simp: config_errors_def vs_def lns_def Let_def split: prod.splits if_splits)
  note l = parse_lines_ok [OF e(2)]
  have lns: "lns \<noteq> []" "list_all line_ok lns" "distinct (map lg_id lns)" using l e(1) by (auto simp: lns_def)
  moreover have "default_line c lns \<in> lg_id ` set lns" using e(3) lns(1) by (auto simp: list_ex_iff intro: rev_image_eqI)
  moreover have "one_of v [js ''safe-read-only'', js ''owner'', js ''none''] (js ''safe-read-only'') \<in> {js ''safe-read-only'', js ''owner'', js ''none''}"
    "one_of v [js ''auto'', js ''substantive'', js ''always''] (js ''auto'') \<in> {js ''auto'', js ''substantive'', js ''always''}" for v
    using one_of_in [of "js ''safe-read-only''" "[js ''safe-read-only'', js ''owner'', js ''none'']" v]
      one_of_in [of "js ''auto''" "[js ''auto'', js ''substantive'', js ''always'']" v] by simp_all
  ultimately show ?thesis
    unfolding config_ok_def using config_of_bounds [of c] parse_listen_ok [OF e(4)] allow_no_errors [OF e(5)] good_contacts
      session_key_ok [OF e(6)] thinking_ok [OF e(7)]
    by (simp add: config_of_def Let_def vs_def [symmetric] lns_def [symmetric])
qed

text \<open>
  C38: a configuration that is accepted is well-formed, and one that isn't names an error. Accepted,
  there is at least one line; line ids are distinct and fit the id pattern; every number that can be
  dialled, answered or listened in from is E.164; the default line exists; a listen-in has a Twilio
  line to dial from; Twilio lines have an account, a token and an https address; policies and levels
  are known words; and every number is within its bounds.
\<close>

theorem parseConfig_sound:
  "case parseConfig raw of (None, errors) \<Rightarrow> errors \<noteq> [] | (Some cfg, errors) \<Rightarrow> errors = [] \<and> config_ok cfg"
  using config_accepted by (simp add: parseConfig_def Let_def)

end
