(* ===== verification/Runtime.thy ===== *)
theory Runtime
  imports Config MissionRun MissionText Otacon Twilio
begin

text \<open>
  \<open>src/openclaw-voice/src/runtime.ts\<close>: \<open>OtaconVoiceRuntime\<close>, the plugin's long-lived side. Its state
  is the lines (\<open>slot\<close>, by line id), every mission made so far (missions are objects, so a slot holds a
  number into \<open>rt_missions\<close>; one that has ended still gets its late events), the reports kept in memory
  and the files of the transcripts directory. A mission's own events (theory \<open>Mission\<close>) run through
  \<open>mission_does\<close>, which hands each report it makes to \<open>onMissionEnd\<close>. OpenClaw, the links and the file
  system are outside: \<open>re_base\<close> holds what every mission is given of the configuration and the SDK,
  and an event carries whether a write and a delivery succeed (\<open>io\<close>).
\<close>

section \<open>Dates of file names\<close>

text \<open>\<open>new Date(ms).toISOString().slice(0, 10)\<close>, from 1970 to 9999.\<close>

definition leap :: "nat \<Rightarrow> bool" where
  "leap y = (y mod 4 = 0 \<and> (y mod 100 \<noteq> 0 \<or> y mod 400 = 0))"

definition year_days :: "nat \<Rightarrow> nat" where
  "year_days y = (if leap y then 366 else 365)"

lemma year_days_pos: "0 < year_days y"
  by (simp add: year_days_def)

function year_from :: "nat \<Rightarrow> nat \<Rightarrow> nat \<times> nat" where
  "year_from y d = (if d < year_days y then (y, d) else year_from (Suc y) (d - year_days y))"
  by auto
termination
proof (relation "measure snd")
  fix y d :: nat
  assume "\<not> d < year_days y"
  then show "((Suc y, d - year_days y), y, d) \<in> measure snd" using year_days_pos [of y] by simp
qed simp

declare year_from.simps [simp del]

fun month_from :: "nat \<Rightarrow> nat \<Rightarrow> nat list \<Rightarrow> nat \<times> nat" where
  "month_from m d [] = (m, d)"
| "month_from m d (n # ns) = (if d < n then (m, d) else month_from (Suc m) (d - n) ns)"

definition months :: "nat \<Rightarrow> nat list" where
  "months y = [31, if leap y then 29 else 28, 31, 30, 31, 30, 31, 31, 30, 31, 30, 31]"

definition pad_to :: "nat \<Rightarrow> nat \<Rightarrow> jstr" where
  "pad_to w n = replicate (w - length (dec_nat n)) 48 @ dec_nat n"

definition iso_day :: "int \<Rightarrow> jstr" where
  "iso_day ms = (let (y, d) = year_from 1970 (nat (ms div 86400000)); (m, d2) = month_from 1 d (months y)
     in pad_to 4 y @ js ''-'' @ pad_to 2 m @ js ''-'' @ pad_to 2 (d2 + 1))"

text \<open>\<open>/^\d{4}-\d{2}-\d{2}-oc_[0-9a-f]+\.txt$/\<close>\<close>

definition is_hex :: "nat \<Rightarrow> bool" where
  "is_hex c = (is_digit c \<or> 97 \<le> c \<and> c \<le> 102)"

definition call_file :: "jstr \<Rightarrow> bool" where
  "call_file f = (case split_on 45 f of
      [y, m, d, rest] \<Rightarrow> length y = 4 \<and> length m = 2 \<and> length d = 2 \<and> list_all is_digit (y @ m @ d)
        \<and> starts_with (js ''oc_'') rest \<and> ends_with (js ''.txt'') (drop 3 rest)
        \<and> length rest > 7 \<and> list_all is_hex (take (length rest - 7) (drop 3 rest))
    | _ \<Rightarrow> False)"

section \<open>State\<close>

record runtime_env =
  re_config :: voice_config
  re_api :: "json option"
  re_sdk :: session_sdk
  re_base :: mission_options
  re_dir :: "jstr option"

record slot =
  sl_config :: line_config
  sl_link :: bool
  sl_open :: bool
  sl_listens :: bool
  sl_detector :: bool
  sl_mission :: "nat option"

record runtime =
  rt_slots :: "(jstr \<times> slot) list"
  rt_missions :: "(mission_options \<times> mission) list"
  rt_recent :: "mission_report list"
  rt_files :: "(jstr \<times> int \<times> jstr) list"
  rt_menu :: bool

datatype reply = Re_error jstr | Re_call jstr | Re_ended bool | Re_listening bool jstr | Re_json json

datatype runtime_effect =
    RE_mission nat mission_effect
  | RE_link_start jstr
  | RE_link_stop jstr
  | RE_enqueue jstr jstr jstr
  | RE_unreported jstr jstr
  | RE_heartbeat jstr jstr
  | RE_listen jstr jstr jstr nat
  | RE_reply reply
  | RE_log jstr

type_synonym rh = "(runtime, runtime_effect) handler"

definition new_slot :: "line_config \<Rightarrow> slot" where
  "new_slot l = \<lparr>sl_config = l, sl_link = False, sl_open = False, sl_listens = False, sl_detector = False, sl_mission = None\<rparr>"

definition new_runtime :: "voice_config \<Rightarrow> (jstr \<times> int \<times> jstr) list \<Rightarrow> runtime" where
  "new_runtime cfg files = \<lparr>rt_slots = fold (\<lambda>l. jm_set (lg_id l) (new_slot l)) (vc_lines cfg) [], rt_missions = [],
     rt_recent = [], rt_files = files, rt_menu = False\<rparr>"

definition missions_of :: "runtime \<Rightarrow> (mission_options \<times> mission) list" where
  "missions_of rt = concat (map (\<lambda>(_, s). case sl_mission s of None \<Rightarrow> [] | Some i \<Rightarrow> [rt_missions rt ! i]) (rt_slots rt))"

definition busy :: "runtime \<Rightarrow> slot \<Rightarrow> bool" where
  "busy rt s = (case sl_mission s of None \<Rightarrow> False | Some i \<Rightarrow> \<not> m_ended (snd (rt_missions rt ! i)))"

text \<open>\<open>live()\<close>: the missions under way, newest first, by number.\<close>

definition live_missions :: "runtime \<Rightarrow> nat list" where
  "live_missions rt = rev (concat (map (\<lambda>(_, s). case sl_mission s of None \<Rightarrow> [] | Some i \<Rightarrow> if busy rt s then [i] else []) (rt_slots rt)))"

definition mission_id :: "runtime \<Rightarrow> nat \<Rightarrow> jstr" where
  "mission_id rt i = m_id (snd (rt_missions rt ! i))"

definition live_mission :: "runtime \<Rightarrow> jstr option \<Rightarrow> nat option" where
  "live_mission rt mid = (if or_empty mid = [] then (case live_missions rt of [] \<Rightarrow> None | i # _ \<Rightarrow> Some i)
     else find (\<lambda>i. mission_id rt i = or_empty mid) (live_missions rt))"

section \<open>The end of a call\<close>

definition file_name :: "mission_report \<Rightarrow> jstr" where
  "file_name r = iso_day (rp_startedAt r) @ js ''-'' @ rp_missionId r @ js ''.txt''"

definition path_join :: "jstr \<Rightarrow> jstr \<Rightarrow> jstr" where
  "path_join dir f = dir @ js ''/'' @ f"

text \<open>\<open>save\<close>: the file written, if one was. \<open>now\<close> becomes its time.\<close>

definition save :: "runtime_env \<Rightarrow> int \<Rightarrow> bool \<Rightarrow> mission_report \<Rightarrow> runtime \<Rightarrow> runtime \<times> jstr option" where
  "save env now writes r rt = (case re_dir env of
      None \<Rightarrow> (rt, None)
    | Some dir \<Rightarrow>
        if writes then (rt\<lparr>rt_files := jm_set (file_name r) (now, formatSavedReport r @ [10]) (rt_files rt)\<rparr>,
          Some (path_join dir (file_name r)))
        else (rt, None))"

definition report_session_key :: "mission_report \<Rightarrow> jstr" where
  "report_session_key r = (case rp_requesterSessionKey r of Some k \<Rightarrow> k | None \<Rightarrow> js ''agent:'' @ rp_agentId r @ js '':main'')"

definition report_context :: "mission_report \<Rightarrow> jstr" where
  "report_context r = js ''otacon-voice:'' @ rp_missionId r"

text \<open>The owner's own incoming call is noted, not announced.\<close>

definition wakes :: "runtime_env \<Rightarrow> mission_report \<Rightarrow> bool" where
  "wakes env r = (\<not> (\<not> rp_outbound r \<and> party_number (rp_party r) \<noteq> [] \<and> isOwnerNumber (re_api env) (party_number (rp_party r))))"

definition onMissionEnd :: "runtime_env \<Rightarrow> int \<Rightarrow> bool \<times> bool \<Rightarrow> mission_report \<Rightarrow> rh" where
  "onMissionEnd env now io r = steps
     [upd (\<lambda>rt. rt\<lparr>rt_recent := take 20 (r # rt_recent rt)\<rparr>),
      (\<lambda>rt. let (rt1, savedAt) = save env now (fst io) r rt; key = report_session_key r;
                report = formatReport r \<lparr>ro_savedAt = savedAt, ro_maxChars = None, ro_saved = False\<rparr>
        in (rt1,
            (if re_dir env \<noteq> None \<and> savedAt = None then [RE_log (js ''[otacon-voice] couldn't save the transcript of '' @ rp_missionId r)] else [])
            @ [RE_log (js ''[otacon-voice] '' @ rp_missionId r @ js '' reported to '' @ key @ js '': '' @ outcome_text (rp_outcome r) @ js ''; '' @ dec_nat (length (rp_log r)) @ js '' log entries; '' @ dec_nat (length report) @ js '' chars''
                @ (case savedAt of None \<Rightarrow> [] | Some p \<Rightarrow> js ''; saved at '' @ p))]
            @ (if snd io then RE_enqueue report key (report_context r) # (if wakes env r then [RE_heartbeat key (rp_agentId r)] else [])
               else [RE_unreported key (report_context r), RE_log (js ''[otacon-voice] could not report call '' @ rp_missionId r)])))]"

text \<open>A mission takes a step: its effects happen in order, and a report is dealt with where it is made.\<close>

definition mission_effect_done :: "runtime_env \<Rightarrow> int \<Rightarrow> bool \<times> bool \<Rightarrow> nat \<Rightarrow> mission_effect \<Rightarrow> rh" where
  "mission_effect_done env now io i e = steps
     [emit (RE_mission i e), (case e of E_report r \<Rightarrow> onMissionEnd env now io r | _ \<Rightarrow> skip)]"

definition mission_does :: "runtime_env \<Rightarrow> int \<Rightarrow> bool \<times> bool \<Rightarrow> nat \<Rightarrow> mission_event \<Rightarrow> rh" where
  "mission_does env now io i ev rt =
     (if i < length (rt_missions rt) then
        (let (o1, m) = rt_missions rt ! i; (m1, es) = mission_step o1 ev m
         in steps (map (mission_effect_done env now io i) es) (rt\<lparr>rt_missions := (rt_missions rt)[i := (o1, m1)]\<rparr>))
      else (rt, []))"

section \<open>Placing and taking calls\<close>

text \<open>\<open>newMission\<close> for the slot of a line; making it fails only when the session key can't be formed.\<close>

definition mission_for :: "runtime_env \<Rightarrow> slot \<Rightarrow> bool \<Rightarrow> party \<Rightarrow> jstr option \<Rightarrow> contact list \<Rightarrow> jstr \<Rightarrow> jstr option \<Rightarrow> int option \<Rightarrow> bool \<Rightarrow> jstr option \<Rightarrow> mission_options" where
  "mission_for env s outbound p brief contacts agentId requester hold menu inboundCallId = (re_base env)
     \<lparr>mo_outbound := outbound, mo_party := p, mo_inboundCallId := inboundCallId, mo_brief := brief, mo_contacts := contacts,
      mo_agentId := agentId, mo_requesterSessionKey := requester, mo_line := Some (lg_id (sl_config s), lg_number (sl_config s)),
      mo_menu := menu, mo_holdLimitSeconds := hold, mo_hasDetector := sl_detector s\<rparr>"

definition mission_key :: "runtime_env \<Rightarrow> mission_options \<Rightarrow> jstr \<Rightarrow> jstr option \<Rightarrow> jstr + jstr" where
  "mission_key env o1 mid sessionKey = callSessionKey (re_sdk env) (mo_agentId o1) (vc_sessionScope (re_config env))
     (Some (party_number (mo_party o1))) mid sessionKey"

definition add_mission :: "jstr \<Rightarrow> slot \<Rightarrow> mission_options \<Rightarrow> mission \<Rightarrow> runtime \<Rightarrow> runtime" where
  "add_mission lid s o1 m rt = rt\<lparr>rt_missions := rt_missions rt @ [(o1, m)],
     rt_slots := jm_set lid (s\<lparr>sl_mission := Some (length (rt_missions rt))\<rparr>) (rt_slots rt)\<rparr>"

text \<open>The mission is made and started; \<open>done1\<close> is what its maker does with the outcome.\<close>

definition run_mission :: "runtime_env \<Rightarrow> int \<Rightarrow> jstr \<Rightarrow> bool \<times> bool \<Rightarrow> jstr \<Rightarrow> slot \<Rightarrow> mission_options \<Rightarrow> jstr option \<Rightarrow> (reply \<Rightarrow> rh) \<Rightarrow> rh" where
  "run_mission env now mid io lid s o1 sessionKey done1 = (case mission_key env o1 mid sessionKey of
      Inl e \<Rightarrow> done1 (Re_error e)
    | Inr key \<Rightarrow> reads (\<lambda>rt. steps
        [upd (add_mission lid s o1 (new_mission mid now key)),
         mission_does env now io (length (rt_missions rt)) (mission_event.Ev_start now),
         done1 (Re_call mid)]))"

record start_call =
  sc_to :: "jsval option"
  sc_name :: "jstr option"
  sc_brief :: jstr
  sc_contacts :: "contact list"
  sc_agentId :: jstr
  sc_requesterSessionKey :: "jstr option"
  sc_sessionKey :: "jstr option"
  sc_holdLimitSeconds :: "real option"
  sc_line :: "jstr option"

definition hold_limit :: "runtime_env \<Rightarrow> real option \<Rightarrow> int option" where
  "hold_limit env h = map_option (\<lambda>x. min (max 10 (js_round x)) (mo_maxCallSeconds (re_base env))) h"

definition known_name :: "contact list \<Rightarrow> jstr \<Rightarrow> jstr option" where
  "known_name cs n = map_option ct_name (find (\<lambda>c. ct_number c = n) cs)"

definition or_name :: "jstr option \<Rightarrow> jstr \<Rightarrow> jstr" where
  "or_name x d = (if or_empty x = [] then d else or_empty x)"

definition outbound_party :: "jstr option \<Rightarrow> contact list \<Rightarrow> jstr \<Rightarrow> party" where
  "outbound_party name contacts to1 = \<lparr>party_name = or_name (map_option trim name) (or_name (known_name contacts to1) to1),
     party_number = to1, party_role = Primary\<rparr>"

definition startCall :: "runtime_env \<Rightarrow> int \<Rightarrow> jstr \<Rightarrow> bool \<times> bool \<Rightarrow> start_call \<Rightarrow> rh" where
  "startCall env now mid io req = reads (\<lambda>rt.
     let lid = or_else (sc_line req) (vc_defaultLine (re_config env)); fail = (\<lambda>e. emit (RE_reply (Re_error e)));
         contacts = vc_contacts (re_config env) @ sc_contacts req
     in case jm_get (rt_slots rt) lid of
          None \<Rightarrow> fail (js ''no line '' @ lid @ js ''; lines: '' @ join (js '', '') (map fst (rt_slots rt)))
        | Some s \<Rightarrow>
            if \<not> (sl_link s \<and> sl_open s) then fail (js ''line '' @ lid @ js '' isn't connected'')
            else if busy rt s then fail (js ''a call is already in progress on line '' @ lid)
            else (case sc_to req of
                Some (V_str to1) \<Rightarrow>
                  if e164 to1 then run_mission env now mid io lid s
                    (mission_for env s True (outbound_party (sc_name req) contacts to1) (Some (sc_brief req)) contacts (sc_agentId req)
                      (sc_requesterSessionKey req) (hold_limit env (sc_holdLimitSeconds req)) (rt_menu rt) None) (sc_sessionKey req) (\<lambda>r. emit (RE_reply r))
                  else fail ([96] @ js ''to'' @ [96] @ js '' must be an E.164 number like +15551234567'')
              | _ \<Rightarrow> fail ([96] @ js ''to'' @ [96] @ js '' must be an E.164 number like +15551234567'')))"

definition takes :: "runtime_env \<Rightarrow> runtime \<Rightarrow> slot \<Rightarrow> jstr option \<Rightarrow> bool" where
  "takes env rt s number = (vc_inboundAllowlist (re_config env) \<and> or_empty number \<noteq> [] \<and> or_empty number \<in> set (vc_allowFrom (re_config env))
     \<and> \<not> busy rt s)"

definition onCall :: "runtime_env \<Rightarrow> int \<Rightarrow> jstr \<Rightarrow> bool \<times> bool \<Rightarrow> jstr \<Rightarrow> call_msg \<Rightarrow> rh" where
  "onCall env now mid io lid msg = reads (\<lambda>rt. case (jm_get (rt_slots rt) lid, msg) of
      (Some s, Msg_incoming c) \<Rightarrow>
        (let cfg = re_config env; number = or_empty (lc_number c); cid = lg_id (sl_config s)
         in if \<not> vc_inboundAllowlist cfg then skip
            else if number = [] \<or> number \<notin> set (vc_allowFrom cfg) then
              emit (RE_log (js ''[otacon-voice] line '' @ cid @ js '': ignoring incoming call from '' @ (case lc_number c of None \<Rightarrow> js ''an unknown number'' | Some n \<Rightarrow> n) @ js '' (not allowlisted)''))
            else if busy rt s then emit (RE_log (js ''[otacon-voice] line '' @ cid @ js '': ignoring incoming call from '' @ number @ js '': already on a call''))
            else steps
              [emit (RE_log (js ''[otacon-voice] line '' @ cid @ js '': answering '' @ or_else (known_name (vc_contacts cfg) number) number)),
               run_mission env now mid io lid s
                 (mission_for env s False \<lparr>party_name = or_else (known_name (vc_contacts cfg) number) number, party_number = number, party_role = Primary\<rparr>
                   None (vc_contacts cfg) (or_else (vc_agentId cfg) (js ''main'')) (vc_inboundSessionKey cfg) None False (Some (lc_id c))) None (\<lambda>_. skip)])
    | _ \<Rightarrow> skip)"

section \<open>Status, ending, listening, line actions\<close>

datatype status_of_call = Sc_mission mission_status | Sc_over mission_report

definition rt_status :: "int \<Rightarrow> runtime \<Rightarrow> jstr option \<Rightarrow> status_of_call option" where
  "rt_status now rt mid =
     (let ms = map snd (missions_of rt);
          m = (if or_empty mid \<noteq> [] then find (\<lambda>x. m_id x = or_empty mid) ms
               else (case live_missions rt of i # _ \<Rightarrow> Some (snd (rt_missions rt ! i)) | [] \<Rightarrow> if ms = [] then None else Some (last ms)))
      in case m of
           Some x \<Rightarrow> Some (Sc_mission (status now x))
         | None \<Rightarrow> map_option Sc_over (find (\<lambda>r. Some (rp_missionId r) = mid) (rt_recent rt)))"

definition endCall :: "runtime_env \<Rightarrow> int \<Rightarrow> bool \<times> bool \<Rightarrow> jstr option \<Rightarrow> rh" where
  "endCall env now io mid = reads (\<lambda>rt.
     case (if or_empty mid \<noteq> [] then find (\<lambda>i. mission_id rt i = or_empty mid) (live_missions rt)
           else (case live_missions rt of [i] \<Rightarrow> Some i | _ \<Rightarrow> None)) of
       None \<Rightarrow> emit (RE_reply (Re_ended False))
     | Some i \<Rightarrow> steps
         [mission_does env now io i (mission_event.Ev_finish now Ended_by_agent (Some (js ''Ended at the agent's request.'')) True),
          emit (RE_reply (Re_ended True))])"

definition no_call :: "jstr option \<Rightarrow> jstr" where
  "no_call mid = (if or_empty mid = [] then js ''no call in progress'' else js ''no call '' @ or_empty mid @ js '' in progress'')"

text \<open>\<open>listen\<close> up to the extra call being placed, and what follows once it is.\<close>

definition listen_slot :: "jstr option \<Rightarrow> runtime \<Rightarrow> (jstr \<times> slot) option" where
  "listen_slot line rt = find (\<lambda>(_, s). (or_empty line = [] \<or> lg_id (sl_config s) = or_empty line) \<and> sl_link s \<and> sl_listens s \<and> sl_open s) (rt_slots rt)"

definition listen_start :: "runtime_env \<Rightarrow> jstr option \<Rightarrow> rh" where
  "listen_start env mid = reads (\<lambda>rt.
     case (live_mission rt mid, vc_listen (re_config env)) of
       (None, _) \<Rightarrow> emit (RE_reply (Re_error (no_call mid)))
     | (Some i, None) \<Rightarrow> emit (RE_reply (Re_error (js ''listen-in isn't configured (listen.to)'')))
     | (Some i, Some (to1, line)) \<Rightarrow> (case listen_slot line rt of
           None \<Rightarrow> emit (RE_reply (Re_error (js ''no line can place the listening call right now'')))
         | Some (lid, _) \<Rightarrow> emit (RE_listen lid to1 (js ''Listening to the call with '' @ party_name (mo_party (fst (rt_missions rt ! i))) @ js ''.'') i)))"

definition listening :: "runtime_env \<Rightarrow> int \<Rightarrow> bool \<times> bool \<Rightarrow> nat \<Rightarrow> jstr \<Rightarrow> rh" where
  "listening env now io i lsn = (let who = vc_ownerName (re_config env) in steps
     [mission_does env now io i (mission_event.Ev_listen now lsn who),
      emit (RE_reply (Re_listening True (js ''Calling '' @ who @ js '' to listen in. Hanging up ends only the listening call.'')))])"

definition listen_stop :: "runtime_env \<Rightarrow> int \<Rightarrow> bool \<times> bool \<Rightarrow> jstr option \<Rightarrow> rh" where
  "listen_stop env now io mid = reads (\<lambda>rt. case live_mission rt mid of
      None \<Rightarrow> emit (RE_reply (Re_error (no_call mid)))
    | Some i \<Rightarrow> steps [mission_does env now io i mission_event.Ev_stop_listeners,
        emit (RE_reply (Re_listening False (js ''Hung up the listening call; the call carries on.'')))])"

definition rt_lineAction :: "runtime_env \<Rightarrow> int \<Rightarrow> bool \<times> bool \<Rightarrow> jstr \<Rightarrow> nat \<Rightarrow> jstr \<Rightarrow> json \<Rightarrow> rh" where
  "rt_lineAction env now io mid rid action args = reads (\<lambda>rt.
     case find (\<lambda>i. mission_id rt i = mid) (live_missions rt) of
       None \<Rightarrow> emit (RE_reply (Re_json (JObj [(js ''error'', JStr (js ''call '' @ mid @ js '' isn't in progress''))])))
     | Some i \<Rightarrow> mission_does env now io i (mission_event.Ev_action now rid action args))"

section \<open>Starting and stopping\<close>

datatype new_link = Link_given | Link_otacon otacon_options | Link_twilio twilio_options

text \<open>\<open>createLink\<close>: \<open>given\<close> is a link handed in, \<open>token\<close> what the line's token resolves to.\<close>

definition createLink :: "runtime_env \<Rightarrow> bool \<Rightarrow> jstr option \<Rightarrow> line_config \<Rightarrow> new_link option \<times> runtime_effect list" where
  "createLink env given token l =
     (if given then (Some Link_given, [])
      else (case l of
          Otacon_line _ url phoneId takeover _ \<Rightarrow> (Some (Link_otacon \<lparr>oo_url = url, oo_phoneId = phoneId, oo_takeover = takeover\<rparr>), [])
        | Twilio_line i sid _ from1 url \<Rightarrow> (case token of
              None \<Rightarrow> (None, [RE_log (js ''[otacon-voice] line '' @ i @ js '': no Twilio auth token (authToken); the line is off'')])
            | Some t \<Rightarrow> (Some (Link_twilio \<lparr>line_id = i, accountSid = sid, authToken = t, fromNumber = from1, publicUrl = url,
                ringTimeoutSeconds = mo_ringTimeoutSeconds (re_base env)\<rparr>), []))))"

text \<open>\<open>secret\<close>: \<open>resolved\<close> is what OpenClaw resolves a SecretRef to, when it can.\<close>

definition secret :: "jsval option \<Rightarrow> jsval option \<Rightarrow> jstr option" where
  "secret v resolved = (case v of
      Some (V_str s) \<Rightarrow> if trim s = [] then None else Some (trim s)
    | Some (V_obj _) \<Rightarrow> str_of resolved
    | Some (V_arr _) \<Rightarrow> str_of resolved
    | _ \<Rightarrow> None)"

text \<open>\<open>buildMenu\<close>: the keys the navigator runs with, or the reason it is off.\<close>

definition buildMenu :: "menu_config \<Rightarrow> jstr option \<Rightarrow> jstr option \<Rightarrow> jstr option \<Rightarrow> jstr option \<Rightarrow> (jstr \<times> jstr) option \<times> runtime_effect list" where
  "buildMenu m decisionsKey sttOwn sttProvider envKey =
     (let sttKey = (case sttOwn of Some k \<Rightarrow> Some k | None \<Rightarrow> (case sttProvider of Some k \<Rightarrow> Some k | None \<Rightarrow> str_of (map_option V_str envKey)))
      in if \<not> mc_enabled m then (None, [])
         else case decisionsKey of
             None \<Rightarrow> (None, [RE_log (js ''[otacon-voice] phone-menu navigator off: no OpenRouter key (menu.decisions.apiKey)'')])
           | Some d \<Rightarrow> (case sttKey of
               None \<Rightarrow> (None, [RE_log (js ''[otacon-voice] phone-menu navigator off: no OpenAI key for the live transcript'')])
             | Some k \<Rightarrow> (Some (d, k), [RE_log (js ''[otacon-voice] phone-menu navigator on ('' @ mc_decModel m @ js ''; '' @ mc_sttModel m @ js '', delay '' @ mc_sttDelay m @ js '')'')])))"

definition set_slot :: "jstr \<Rightarrow> (slot \<Rightarrow> slot) \<Rightarrow> runtime \<Rightarrow> runtime" where
  "set_slot lid f rt = (case jm_get (rt_slots rt) lid of None \<Rightarrow> rt | Some s \<Rightarrow> rt\<lparr>rt_slots := jm_set lid (f s) (rt_slots rt)\<rparr>)"

text \<open>\<open>start\<close>, one line: its detector, then its link; \<open>listens\<close> says whether that link can listen in.\<close>

definition start_slot :: "runtime_env \<Rightarrow> jstr \<Rightarrow> bool \<Rightarrow> bool \<Rightarrow> jstr option \<Rightarrow> bool \<Rightarrow> rh" where
  "start_slot env lid detector given token listens = reads (\<lambda>rt. case jm_get (rt_slots rt) lid of
      None \<Rightarrow> skip
    | Some s \<Rightarrow> (let (link, es) = createLink env given token (sl_config s) in steps
        [upd (set_slot lid (\<lambda>s. s\<lparr>sl_detector := detector, sl_link := (link \<noteq> None), sl_listens := listens\<rparr>)),
         emits es, whenever (link \<noteq> None) (emit (RE_link_start lid))]))"

definition rt_stop :: "runtime_env \<Rightarrow> int \<Rightarrow> bool \<times> bool \<Rightarrow> rh" where
  "rt_stop env now io = reads (\<lambda>rt. steps (map (\<lambda>(lid, s). steps
     [(case sl_mission s of None \<Rightarrow> skip
       | Some i \<Rightarrow> mission_does env now io i (mission_event.Ev_finish now Ended_by_agent (Some (js ''The gateway stopped.'')) False)),
      whenever (sl_link s) (emit (RE_link_stop lid))]) (rt_slots rt)))"

section \<open>The machine\<close>

datatype runtime_event =
    RV_slot jstr bool bool "jstr option" bool
  | RV_menu bool
  | RV_link jstr bool
  | RV_start_call int jstr "bool \<times> bool" start_call
  | RV_call int jstr "bool \<times> bool" jstr call_msg
  | RV_mission int "bool \<times> bool" nat mission_event
  | RV_end int "bool \<times> bool" "jstr option"
  | RV_listen "jstr option"
  | RV_listening int "bool \<times> bool" nat jstr
  | RV_listen_stop int "bool \<times> bool" "jstr option"
  | RV_action int "bool \<times> bool" jstr nat jstr json
  | RV_stop int "bool \<times> bool"

fun runtime_step :: "runtime_env \<Rightarrow> runtime_event \<Rightarrow> rh" where
  "runtime_step env (RV_slot lid detector given token listens) = start_slot env lid detector given token listens"
| "runtime_step env (RV_menu on) = upd (\<lambda>rt. rt\<lparr>rt_menu := on\<rparr>)"
| "runtime_step env (RV_link lid isopen) = upd (set_slot lid (\<lambda>s. s\<lparr>sl_open := isopen\<rparr>))"
| "runtime_step env (RV_start_call now mid io req) = startCall env now mid io req"
| "runtime_step env (RV_call now mid io lid msg) = onCall env now mid io lid msg"
| "runtime_step env (RV_mission now io i ev) = mission_does env now io i ev"
| "runtime_step env (RV_end now io mid) = endCall env now io mid"
| "runtime_step env (RV_listen mid) = listen_start env mid"
| "runtime_step env (RV_listening now io i lsn) = listening env now io i lsn"
| "runtime_step env (RV_listen_stop now io mid) = listen_stop env now io mid"
| "runtime_step env (RV_action now io mid rid action args) = rt_lineAction env now io mid rid action args"
| "runtime_step env (RV_stop now io) = rt_stop env now io"

definition runtime_run :: "runtime_env \<Rightarrow> runtime_event list \<Rightarrow> rh" where
  "runtime_run env = run_events (runtime_step env)"

section \<open>What a call starts with, and call logs\<close>

text \<open>
  \<open>earlierCalls\<close>: from memory without a directory, else from its newest forty reports (\<open>sort\<close> is
  stable); a file that can't be read counts as empty.
\<close>

definition newest_first :: "(jstr \<times> int \<times> jstr) list \<Rightarrow> (jstr \<times> int \<times> jstr) list" where
  "newest_first fs = sort_key (\<lambda>(_, t, _). - t) fs"

definition earlierCalls :: "runtime_env \<Rightarrow> runtime \<Rightarrow> jstr \<Rightarrow> earlier_call list" where
  "earlierCalls env rt number = (case re_dir env of
      None \<Rightarrow> map earlierCallFromReport (take 3 (filter (\<lambda>r. party_number (rp_party r) = number) (rt_recent rt)))
    | Some _ \<Rightarrow> take 3 (concat (map (\<lambda>(_, t, x). case earlierCallFromSaved x t number of None \<Rightarrow> [] | Some c \<Rightarrow> [c])
        (take 40 (newest_first (filter (\<lambda>(f, _). call_file f) (rt_files rt)))))))"

definition consulting :: "voice_config \<Rightarrow> int" where
  "consulting cfg = (if vc_toolPolicy cfg \<noteq> js ''none'' then vc_consultRecentMessages cfg else 0)"

text \<open>\<open>messages\<close> is what the SDK reads of a session, given its key and how many; \<open>None\<close>: it can't.\<close>

definition call_messages :: "runtime_env \<Rightarrow> (jstr \<Rightarrow> int \<Rightarrow> session_text list) option \<Rightarrow> jstr \<Rightarrow> jstr option \<Rightarrow> session_text list" where
  "call_messages env messages number requester =
     (let cfg = re_config env; limit = max (if vc_recentEnabled cfg then vc_recentMaxMessages cfg else 0) (consulting cfg)
      in case (messages, requester) of
           (Some rd, Some key) \<Rightarrow> if isOwnerNumber (re_api env) number \<and> key \<noteq> [] \<and> limit \<noteq> 0 then rd key limit else []
         | _ \<Rightarrow> [])"

definition callContext :: "runtime_env \<Rightarrow> int \<Rightarrow> runtime \<Rightarrow> (jstr \<Rightarrow> int \<Rightarrow> session_text list) option \<Rightarrow> party \<Rightarrow> jstr option \<Rightarrow> jstr option \<times> jstr option" where
  "callContext env now rt messages p requester =
     (let cfg = re_config env; number = party_number p; ms = call_messages env messages number requester
      in if number = [] \<or> \<not> vc_recentEnabled cfg \<and> consulting cfg = 0 then (None, None)
         else ((if vc_recentEnabled cfg
                then formatRecentContext (earlierCalls env rt number) (last_n (nat (vc_recentMaxMessages cfg)) ms) (vc_ownerName cfg) now
                else None),
               (if consulting cfg \<noteq> 0 then formatConsultContext (last_n (nat (consulting cfg)) ms) (vc_ownerName cfg) now else None)))"

text \<open>\<open>callLog\<close>; \<open>reads\<close> says whether the file found can be read.\<close>

definition call_files :: "runtime_env \<Rightarrow> runtime \<Rightarrow> (jstr \<times> int \<times> jstr) list" where
  "call_files env rt = (if re_dir env = None then [] else filter (\<lambda>(f, _). call_file f) (rt_files rt))"

definition newest_id :: "(jstr \<times> int \<times> jstr) list \<Rightarrow> jstr option" where
  "newest_id fs = (case newest_first fs of [] \<Rightarrow> None | (f, _) # _ \<Rightarrow> Some (take (length f - 15) (drop 11 f)))"

definition call_log_id :: "runtime_env \<Rightarrow> runtime \<Rightarrow> jstr option \<Rightarrow> jstr option" where
  "call_log_id env rt mid = (case mid of Some i \<Rightarrow> Some i | None \<Rightarrow>
     (case rt_recent rt of r # _ \<Rightarrow> Some (rp_missionId r) | [] \<Rightarrow> newest_id (call_files env rt)))"

definition callLog :: "runtime_env \<Rightarrow> runtime \<Rightarrow> bool \<Rightarrow> jstr option \<Rightarrow> (jstr \<times> jstr \<times> jstr option) option" where
  "callLog env rt readable1 mid = (case call_log_id env rt mid of
      None \<Rightarrow> None
    | Some i \<Rightarrow>
        if i = [] then None
        else (let memory = map_option (\<lambda>r. (i, formatSavedReport r, None)) (find (\<lambda>r. rp_missionId r = i) (rt_recent rt))
              in case find (\<lambda>(f, _). ends_with (js ''-'' @ i @ js ''.txt'') f) (call_files env rt) of
                   Some (f, _, x) \<Rightarrow> if readable1 then Some (i, trim_end x, Some (path_join (or_empty (re_dir env)) f)) else memory
                 | None \<Rightarrow> memory))"

end
