(* ===== verification/RuntimeFacts.thy ===== *)
theory RuntimeFacts
  imports Runtime
begin

text \<open>
  What holds of the plugin's runtime (theory \<open>Runtime\<close>) over any run: every call under way is the one
  its line's slot points to, so a line has at most one; calls are placed to E.164 numbers and taken from
  allowlisted ones only; and every report a mission makes is delivered once, to the session that asked.
  \<open>runtime_ok\<close> is the invariant, proved handler by handler with the rules of \<open>keeps\<close>; \<open>delivers\<close>
  counts reports and deliveries.
\<close>

section \<open>The invariant\<close>

definition screened :: "voice_config \<Rightarrow> mission_options \<Rightarrow> bool" where
  "screened cfg o1 = (if mo_outbound o1 then e164 (party_number (mo_party o1))
     else vc_inboundAllowlist cfg \<and> party_number (mo_party o1) \<in> set (vc_allowFrom cfg))"

definition in_place :: "runtime \<Rightarrow> nat \<Rightarrow> bool" where
  "in_place rt i = (m_ended (snd (rt_missions rt ! i)) \<or>
     (\<exists>lid n s. mo_line (fst (rt_missions rt ! i)) = Some (lid, n) \<and> jm_get (rt_slots rt) lid = Some s \<and> sl_mission s = Some i))"

definition slots_ok :: "runtime \<Rightarrow> bool" where
  "slots_ok rt = (\<forall>lid s. jm_get (rt_slots rt) lid = Some s \<longrightarrow>
     lg_id (sl_config s) = lid \<and> pred_option (\<lambda>i. i < length (rt_missions rt)) (sl_mission s))"

definition runtime_ok :: "(mission_options \<Rightarrow> bool) \<Rightarrow> runtime \<Rightarrow> bool" where
  "runtime_ok G rt = (slots_ok rt \<and> (\<forall>i < length (rt_missions rt).
     mission_ok (fst (rt_missions rt ! i)) (snd (rt_missions rt ! i)) \<and> G (fst (rt_missions rt ! i)) \<and> in_place rt i))"

text \<open>A number dialled is one a mission of kind \<open>G\<close> may dial.\<close>

fun dial_fine :: "(mission_options \<Rightarrow> bool) \<Rightarrow> runtime_effect \<Rightarrow> bool" where
  "dial_fine G (RE_mission i (E_cmd k (C_dial n))) = (\<exists>o1. G o1 \<and> n \<in> numbers o1)"
| "dial_fine G e = True"

abbreviation kept :: "(mission_options \<Rightarrow> bool) \<Rightarrow> rh \<Rightarrow> bool" where
  "kept G f \<equiv> keeps (runtime_ok G) (dial_fine G) f"

named_theorems kept_intros \<open>handlers of the runtime that keep its invariant\<close>

lemma runtime_ok_fields:
  "runtime_ok G (rt\<lparr>rt_recent := r\<rparr>) = runtime_ok G rt"
  "runtime_ok G (rt\<lparr>rt_files := fs\<rparr>) = runtime_ok G rt"
  "runtime_ok G (rt\<lparr>rt_menu := b\<rparr>) = runtime_ok G rt"
  by (simp_all add: runtime_ok_def slots_ok_def in_place_def)

lemma runtime_ok_slot:
  assumes "runtime_ok G rt" "\<And>s. sl_config (f s) = sl_config s" "\<And>s. sl_mission (f s) = sl_mission s"
  shows "runtime_ok G (set_slot lid f rt)"
proof (cases "jm_get (rt_slots rt) lid")
  case None
  then show ?thesis using assms(1) by (simp add: set_slot_def)
next
  case (Some s)
  have "in_place (set_slot lid f rt) i" if "in_place rt i" for i
    using that Some assms(3) unfolding in_place_def set_slot_def by (auto simp: jmap.get_put)
  moreover have "slots_ok (set_slot lid f rt)"
    using assms Some by (auto simp: runtime_ok_def slots_ok_def set_slot_def jmap.get_put)
  ultimately show ?thesis using assms(1) Some by (simp add: runtime_ok_def set_slot_def)
qed

lemma runtime_ok_mission:
  assumes "runtime_ok G rt" "i < length (rt_missions rt)" "rt_missions rt ! i = (o1, m)"
  shows "runtime_ok G (rt\<lparr>rt_missions := (rt_missions rt)[i := (o1, fst (mission_step o1 ev m))]\<rparr>)"
proof -
  have ok: "mission_ok o1 m" using assms by (auto simp: runtime_ok_def)
  let ?rt = "rt\<lparr>rt_missions := (rt_missions rt)[i := (o1, fst (mission_step o1 ev m))]\<rparr>"
  have later: "m_ended m \<Longrightarrow> m_ended (fst (mission_step o1 ev m))" using later_step [OF ok, of ev] by (simp add: later_def)
  have "in_place ?rt j" if "in_place rt j" for j
    using that assms(2,3) later unfolding in_place_def by (cases "j = i") (auto simp: nth_list_update)
  moreover have "mission_ok (fst (rt_missions ?rt ! j)) (snd (rt_missions ?rt ! j)) \<and> G (fst (rt_missions ?rt ! j))"
    if "j < length (rt_missions rt)" for j
    using assms that mission_machine.step_inv [OF ok, of ev] by (cases "j = i") (auto simp: runtime_ok_def)
  ultimately show ?thesis using assms(1) by (simp add: runtime_ok_def slots_ok_def)
qed

lemma runtime_ok_add:
  assumes "runtime_ok G rt" "jm_get (rt_slots rt) lid = Some s" "\<not> busy rt s" "G o1"
    "map_option fst (mo_line o1) = Some (lg_id (sl_config s))"
  shows "runtime_ok G (add_mission lid s o1 (new_mission mid now key) rt)"
proof -
  let ?rt = "add_mission lid s o1 (new_mission mid now key) rt"
  have lid: "lg_id (sl_config s) = lid" using assms(1,2) by (auto simp: runtime_ok_def slots_ok_def)
  have "in_place ?rt i" if i: "i < length (rt_missions rt)" for i
  proof -
    have "in_place rt i" using assms(1) i by (simp add: runtime_ok_def)
    moreover have "m_ended (snd (rt_missions rt ! i))" if "sl_mission s = Some i"
      using assms(3) that by (simp add: busy_def)
    ultimately show ?thesis
      using assms(2) i unfolding in_place_def add_mission_def
      by (simp add: jmap.get_put nth_append) (metis option.inject)
  qed
  moreover have "in_place ?rt (length (rt_missions rt))"
    using assms(5) lid unfolding in_place_def add_mission_def by (auto simp: jmap.get_put nth_append)
  moreover have "slots_ok ?rt"
    using assms(1) lid by (auto simp: runtime_ok_def slots_ok_def add_mission_def jmap.get_put less_Suc_eq pred_option_def)
  ultimately show ?thesis
    using assms(1,4) mission_ok_new by (auto simp: runtime_ok_def add_mission_def nth_append less_Suc_eq)
qed

section \<open>Every handler keeps it\<close>

lemma kept_onMissionEnd: "kept G (onMissionEnd env now io r)"
  by (auto simp: onMissionEnd_def keeps_def runtime_ok_fields upd_def save_def Let_def case_prod_beta split: option.splits)

lemma kept_effect:
  assumes "dial_fine G (RE_mission i e)"
  shows "kept G (mission_effect_done env now io i e)"
  unfolding mission_effect_done_def using assms by (cases e) (auto intro!: keeps_intros kept_onMissionEnd)

lemma mission_effect_fine:
  assumes "mission_ok o1 m" "G o1" "e \<in> set (snd (mission_step o1 ev m))"
  shows "dial_fine G (RE_mission i e)"
proof -
  have "effect_ok o1 m e"
    using safe_mission_step [of o1 m ev] assms(1,3) from_ok_self [of o1 m] by (auto simp: safe_def keeps_def)
  then show ?thesis using assms(2)
    by (cases "(G, RE_mission i e)" rule: dial_fine.cases) auto
qed

lemma kept_mission_does [kept_intros]: "kept G (mission_does env now io i ev)"
  unfolding keeps_def
proof (intro allI impI)
  fix rt
  assume ok: "runtime_ok G rt"
  show "runtime_ok G (fst (mission_does env now io i ev rt)) \<and> (\<forall>e\<in>set (snd (mission_does env now io i ev rt)). dial_fine G e)"
  proof (cases "i < length (rt_missions rt)")
    case True
    obtain o1 m where m: "rt_missions rt ! i = (o1, m)" by (cases "rt_missions rt ! i")
    have "mission_ok o1 m" "G o1" using ok True m by (auto simp: runtime_ok_def)
    then have "kept G (steps (map (mission_effect_done env now io i) (snd (mission_step o1 ev m))))"
      by (auto intro!: keeps_intros kept_effect mission_effect_fine)
    from keepsD [OF this runtime_ok_mission [OF ok True m]]
    show ?thesis using True m by (simp add: mission_does_def case_prod_beta Let_def)
  qed (use ok in \<open>simp add: mission_does_def\<close>)
qed

lemma kept_run_mission:
  assumes "runtime_ok G rt" "jm_get (rt_slots rt) lid = Some s" "\<not> busy rt s" "G o1"
    "map_option fst (mo_line o1) = Some (lg_id (sl_config s))" "\<And>r. kept G (done1 r)"
  shows "runtime_ok G (fst (run_mission env now mid io lid s o1 sk done1 rt))
    \<and> list_all (dial_fine G) (snd (run_mission env now mid io lid s o1 sk done1 rt))"
proof (cases "mission_key env o1 mid sk")
  case (Inl e)
  then show ?thesis using keepsD [OF assms(6) assms(1)] by (simp add: run_mission_def list_all_iff)
next
  case (Inr key)
  have "kept G (steps [mission_does env now io (length (rt_missions rt)) (mission_event.Ev_start now), done1 (Re_call mid)])"
    by (intro keeps_intros kept_intros assms(6))
  from keepsD [OF this runtime_ok_add [OF assms(1-5), of mid now key]] Inr
  show ?thesis by (simp add: run_mission_def reads_def upd_def case_prod_beta Let_def list_all_iff)
qed

lemma mission_for_fields [simp]:
  "mo_outbound (mission_for env s ob p b cs a r h mn i) = ob"
  "mo_party (mission_for env s ob p b cs a r h mn i) = p"
  "mo_contacts (mission_for env s ob p b cs a r h mn i) = cs"
  "mo_line (mission_for env s ob p b cs a r h mn i) = Some (lg_id (sl_config s), lg_number (sl_config s))"
  by (simp_all add: mission_for_def)

lemma kept_reply [kept_intros]: "kept G (emit (RE_reply x))" "kept G (emit (RE_log y))" "kept G (emit (RE_listen a b c d))"
  "kept G (emit (RE_link_start l))" "kept G (emit (RE_link_stop l))"
  by (intro keeps_intros, simp)+

lemma kept_at: "(\<And>rt. runtime_ok G rt \<Longrightarrow> runtime_ok G (fst (f rt)) \<and> list_all (dial_fine G) (snd (f rt))) \<Longrightarrow> kept G f"
  by (simp add: keeps_def list_all_iff)

lemma kept_rest [kept_intros]:
  "kept G (endCall env now io mid)" "kept G (listen_start env mid)" "kept G (listening env now io i l)"
  "kept G (listen_stop env now io mid)" "kept G (rt_lineAction env now io cid rid a args)" "kept G (rt_stop env now io)"
  unfolding endCall_def listen_start_def listening_def listen_stop_def rt_lineAction_def rt_stop_def Let_def
  by (auto intro!: keeps_intros kept_intros split: option.splits list.splits prod.splits)

lemma createLink_fine: "list_all (dial_fine G) (snd (createLink env given tok l))"
  by (auto simp: createLink_def split: line_config.splits option.splits)

lemma kept_start_slot [kept_intros]: "kept G (start_slot env lid det given tok lis)"
  unfolding start_slot_def Let_def case_prod_beta
  by (auto intro!: keeps_intros kept_intros runtime_ok_slot createLink_fine split: option.splits)

section \<open>The screen\<close>

text \<open>
  What the runtime promises of the missions it makes: those for allowlisted callers, and those for
  requests of kind \<open>R\<close> to E.164 numbers, are of kind \<open>G\<close>. Then so are all missions, over any run.
\<close>

locale call_screen =
  fixes env :: runtime_env and G :: "mission_options \<Rightarrow> bool" and R :: "start_call \<Rightarrow> bool"
  assumes inbound: "vc_inboundAllowlist (re_config env) \<Longrightarrow> party_number p \<in> set (vc_allowFrom (re_config env)) \<Longrightarrow>
      G (mission_for env s False p None (vc_contacts (re_config env)) a r None False i)"
    and outbound: "R req \<Longrightarrow> e164 (party_number p) \<Longrightarrow>
      G (mission_for env s True p b (vc_contacts (re_config env) @ sc_contacts req) a r h mn None)"
begin

lemma kept_startCall:
  assumes "R req"
  shows "kept G (startCall env now mid io req)"
proof (rule kept_at)
  fix rt
  assume ok: "runtime_ok G rt"
  show "runtime_ok G (fst (startCall env now mid io req rt)) \<and> list_all (dial_fine G) (snd (startCall env now mid io req rt))"
    using ok unfolding startCall_def reads_def Let_def
    by (auto simp: emit_def outbound_party_def split: option.splits jsval.splits
        intro!: kept_run_mission [THEN conjunct1] kept_run_mission [THEN conjunct2] kept_intros outbound [OF assms])
qed

lemma kept_onCall: "kept G (onCall env now mid io lid msg)"
proof (rule kept_at)
  fix rt
  assume ok: "runtime_ok G rt"
  show "runtime_ok G (fst (onCall env now mid io lid msg rt)) \<and> list_all (dial_fine G) (snd (onCall env now mid io lid msg rt))"
    using ok unfolding onCall_def reads_def Let_def
    by (auto simp: emit_def skip_def case_prod_beta Let_def split: option.splits call_msg.splits
        intro!: kept_run_mission [THEN conjunct1] kept_run_mission [THEN conjunct2] keeps_skip inbound)
qed

lemma kept_step: "(\<And>now mid io req. ev = RV_start_call now mid io req \<Longrightarrow> R req) \<Longrightarrow> kept G (runtime_step env ev)"
  by (cases ev) (auto intro!: kept_intros kept_startCall kept_onCall keeps_upd runtime_ok_slot simp: runtime_ok_fields)

lemma kept_run:
  assumes "list_all (\<lambda>ev. case ev of RV_start_call _ _ _ req \<Rightarrow> R req | _ \<Rightarrow> True) evs"
  shows "kept G (runtime_run env evs)"
  unfolding runtime_run_def by (rule keeps_run, rule kept_step) (use assms in \<open>auto simp: list_all_iff\<close>)

end

lemma runtime_ok_new: "runtime_ok G (new_runtime cfg files)"
proof -
  have "jm_get (fold (\<lambda>l. jm_set (lg_id l) (new_slot l)) ls m) lid = Some s \<Longrightarrow>
      (\<And>lid s. jm_get m lid = Some s \<Longrightarrow> lg_id (sl_config s) = lid \<and> sl_mission s = None) \<Longrightarrow>
      lg_id (sl_config s) = lid \<and> sl_mission s = None" for ls m lid s
  proof (induction ls arbitrary: m)
    case (Cons l ls)
    show ?case by (rule Cons.IH [OF Cons.prems(1) [unfolded fold_simps comp_def]])
        (auto simp: jmap.get_put new_slot_def Cons.prems(2) split: if_splits)
  qed simp
  from this [of "vc_lines cfg" "[]"] show ?thesis
    by (fastforce simp: runtime_ok_def slots_ok_def new_runtime_def jm_get_def)
qed

text \<open>Every mission is screened; and where the configuration is well-formed and requests bring E.164 contacts, it may call E.164 numbers only.\<close>

interpretation screened_calls: call_screen env "screened (re_config env)" "\<lambda>_. True" for env
  by unfold_locales (simp_all add: screened_def)

definition calls_e164 :: "voice_config \<Rightarrow> mission_options \<Rightarrow> bool" where
  "calls_e164 cfg o1 = (config_ok cfg \<longrightarrow> (\<forall>n\<in>numbers o1. e164 n))"

definition e164_contacts :: "start_call \<Rightarrow> bool" where
  "e164_contacts req = list_all (\<lambda>t. e164 (ct_number t)) (sc_contacts req)"

interpretation e164_calls: call_screen env "calls_e164 (re_config env)" e164_contacts for env
  by unfold_locales (auto simp: calls_e164_def config_ok_def numbers_def e164_contacts_def list_all_iff)

interpretation runtime_machine: event_machine "\<lambda>rt ev. fst (runtime_step env ev rt)" "runtime_ok (screened (re_config env))" for env
  by unfold_locales (rule keepsD(1) [OF screened_calls.kept_step], simp)

lemma runtime_run_foldl: "fst (runtime_run env evs rt) = foldl (\<lambda>rt ev. fst (runtime_step env ev rt)) rt evs"
  by (induction evs arbitrary: rt) (simp_all add: runtime_run_def Let_def case_prod_beta)

lemma runtime_run_ok: "runtime_ok (screened (re_config env)) (fst (runtime_run env evs (new_runtime cfg files)))"
  unfolding runtime_run_foldl by (rule runtime_machine.run_inv) (rule runtime_ok_new)

section \<open>Deliveries\<close>

text \<open>The reports missions made, and where reports were put (or could not be put).\<close>

definition reports_made :: "runtime_effect list \<Rightarrow> mission_report list" where
  "reports_made es = concat (map (\<lambda>e. case e of RE_mission i (E_report r) \<Rightarrow> [r] | _ \<Rightarrow> []) es)"

definition deliveries :: "runtime_effect list \<Rightarrow> (jstr \<times> jstr) list" where
  "deliveries es = concat (map (\<lambda>e. case e of RE_enqueue _ k c \<Rightarrow> [(k, c)] | RE_unreported k c \<Rightarrow> [(k, c)] | _ \<Rightarrow> []) es)"

definition address :: "mission_report \<Rightarrow> jstr \<times> jstr" where
  "address r = (report_session_key r, report_context r)"

definition delivers_at :: "runtime \<Rightarrow> rh \<Rightarrow> bool" where
  "delivers_at rt f = (deliveries (snd (f rt)) = map address (reports_made (snd (f rt)))
     \<and> rt_recent (fst (f rt)) = take 20 (rev (reports_made (snd (f rt))) @ rt_recent rt))"

definition delivers :: "rh \<Rightarrow> bool" where
  "delivers f = (\<forall>rt. length (rt_recent rt) \<le> 20 \<longrightarrow> delivers_at rt f)"

named_theorems delivers_intros \<open>what a handler delivers\<close>

lemma delivers_simps [simp]:
  "reports_made [] = []" "deliveries [] = []"
  "reports_made (es @ fs) = reports_made es @ reports_made fs" "deliveries (es @ fs) = deliveries es @ deliveries fs"
  by (simp_all add: reports_made_def deliveries_def)

lemma take_take_rev: "take n (rev b @ take n (rev a @ r)) = take n (rev (a @ b) @ r)"
  by (simp add: take_append min_def)

lemma delivers_skip [delivers_intros]: "delivers skip"
  by (simp add: delivers_def delivers_at_def skip_def)

lemma delivers_steps_Nil [delivers_intros]: "delivers (steps [])"
  by (simp add: delivers_def delivers_at_def)

lemma delivers_steps_Cons [delivers_intros]:
  assumes "delivers f" "delivers (steps fs)"
  shows "delivers (steps (f # fs))"
  unfolding delivers_def
proof (intro allI impI)
  fix rt :: runtime
  assume l: "length (rt_recent rt) \<le> 20"
  have f: "delivers_at rt f" using assms(1) l by (simp add: delivers_def)
  then have "length (rt_recent (fst (f rt))) \<le> 20" by (simp add: delivers_at_def)
  then have "delivers_at (fst (f rt)) (steps fs)" using assms(2) by (simp add: delivers_def)
  with f show "delivers_at rt (steps (f # fs))"
    unfolding delivers_at_def by (simp add: Let_def case_prod_beta take_take_rev del: take_append)
qed

lemma delivers_upd [delivers_intros]: "(\<And>rt. rt_recent (f rt) = rt_recent rt) \<Longrightarrow> delivers (upd f)"
  by (simp add: delivers_def delivers_at_def upd_def)

lemma delivers_reads [delivers_intros]: "(\<And>rt. delivers (f rt)) \<Longrightarrow> delivers (reads f)"
  by (simp add: delivers_def delivers_at_def reads_def)

lemma delivers_emits: "reports_made es = [] \<Longrightarrow> deliveries es = [] \<Longrightarrow> delivers (emits es)"
  by (simp add: delivers_def delivers_at_def emits_def)

lemma delivers_emit [delivers_intros]:
  "delivers (emit (RE_reply x))" "delivers (emit (RE_log y))" "delivers (emit (RE_listen a b c d))"
  "delivers (emit (RE_link_start l))" "delivers (emit (RE_link_stop l))"
  by (simp_all add: delivers_def delivers_at_def emit_def reports_made_def deliveries_def)

lemma delivers_map [delivers_intros]: "(\<And>x. x \<in> set xs \<Longrightarrow> delivers (f x)) \<Longrightarrow> delivers (steps (map f xs))"
  by (induction xs) (auto intro: delivers_intros)

lemma delivers_whenever [delivers_intros]: "delivers f \<Longrightarrow> delivers (whenever b f)"
  by (simp add: whenever_def delivers_skip)

lemma save_recent: "rt_recent (fst (save env now w r rt)) = rt_recent rt"
  by (simp add: save_def split: option.splits)

lemma delivers_effect: "delivers (mission_effect_done env now io i e)"
proof (cases "\<exists>r. e = E_report r")
  case True
  then obtain r where r: "e = E_report r" by blast
  show ?thesis
    by (auto simp: r delivers_def delivers_at_def mission_effect_done_def onMissionEnd_def emit_def upd_def Let_def case_prod_beta
        save_recent reports_made_def deliveries_def address_def)
next
  case False
  then have "mission_effect_done env now io i e = steps [emit (RE_mission i e), skip]"
    by (cases e) (simp_all add: mission_effect_done_def)
  moreover have "delivers (emit (RE_mission i e))"
    using False by (cases e) (simp_all add: delivers_def delivers_at_def emit_def reports_made_def deliveries_def)
  ultimately show ?thesis by (simp add: delivers_intros)
qed

lemma delivers_mission_does [delivers_intros]: "delivers (mission_does env now io i ev)"
proof -
  have "delivers_at rt (mission_does env now io i ev)" if l: "length (rt_recent rt) \<le> 20" for rt
  proof (cases "i < length (rt_missions rt)")
    case True
    obtain o1 m where m: "rt_missions rt ! i = (o1, m)" by (cases "rt_missions rt ! i")
    let ?es = "snd (mission_step o1 ev m)" and ?rt = "rt\<lparr>rt_missions := (rt_missions rt)[i := (o1, fst (mission_step o1 ev m))]\<rparr>"
    have "delivers (steps (map (mission_effect_done env now io i) ?es))" by (auto intro: delivers_intros delivers_effect)
    then have "delivers_at ?rt (steps (map (mission_effect_done env now io i) ?es))" using l by (simp add: delivers_def)
    then show ?thesis using True m by (simp add: delivers_at_def mission_does_def case_prod_beta Let_def)
  qed (use l in \<open>simp add: mission_does_def delivers_at_def\<close>)
  then show ?thesis by (simp add: delivers_def)
qed

lemma delivers_run_mission [delivers_intros]:
  "(\<And>r. delivers (done1 r)) \<Longrightarrow> delivers (run_mission env now mid io lid s o1 sk done1)"
  unfolding run_mission_def by (auto intro!: delivers_intros simp: add_mission_def split: sum.splits)

lemma delivers_createLink: "delivers (emits (snd (createLink env given tok l)))"
  by (rule delivers_emits)
    (auto simp: createLink_def reports_made_def deliveries_def split: line_config.splits option.splits)

lemma set_slot_recent: "rt_recent (set_slot lid f rt) = rt_recent rt"
  by (simp add: set_slot_def split: option.splits)

lemma delivers_parts [delivers_intros]:
  "delivers (startCall env now mid io req)" "delivers (onCall env now mid io lid msg)"
  "delivers (endCall env now io mid')" "delivers (listen_start env mid')" "delivers (listening env now io i l)"
  "delivers (listen_stop env now io mid')" "delivers (rt_lineAction env now io mid rid a args)" "delivers (rt_stop env now io)"
  unfolding startCall_def onCall_def endCall_def listen_start_def listening_def listen_stop_def rt_lineAction_def rt_stop_def Let_def
  by (auto intro!: delivers_intros split: option.splits list.splits prod.splits jsval.splits call_msg.splits)

lemma delivers_start_slot [delivers_intros]: "delivers (start_slot env lid det given tok lis)"
  unfolding start_slot_def Let_def case_prod_beta
  by (auto intro!: delivers_intros delivers_createLink simp: set_slot_recent split: option.splits)

lemma delivers_step: "delivers (runtime_step env ev)"
  by (cases ev) (auto intro!: delivers_intros simp: set_slot_recent)

lemma delivers_run: "delivers (runtime_run env evs)"
proof (induction evs)
  case Nil
  then show ?case by (simp add: runtime_run_def delivers_def delivers_at_def)
next
  case (Cons ev evs)
  have "runtime_run env (ev # evs) rt = steps [runtime_step env ev, runtime_run env evs] rt" for rt
    by (simp add: runtime_run_def case_prod_beta Let_def)
  then have "delivers (runtime_run env (ev # evs)) = delivers (steps [runtime_step env ev, runtime_run env evs])"
    by (simp add: delivers_def delivers_at_def)
  then show ?case using Cons by (auto intro: delivers_intros delivers_step)
qed

end
