(* ===== verification/RuntimeRun.thy ===== *)
theory RuntimeRun
  imports RuntimeFacts
begin

text \<open>
  The properties of the plugin's runtime, over any run from a fresh one: one call per line, screened
  calls, delivered reports; and of its saved call logs and of what a call is told at its start.
\<close>

section \<open>File names\<close>

lemma length_pad_to: "0 < w \<Longrightarrow> n < 10 ^ w \<Longrightarrow> length (pad_to w n) = w"
  using length_dec_nat_less [of n "w - 1"] by (simp add: pad_to_def)

lemma pad_to_digits: "list_all is_digit (pad_to w n)"
  using dec_nat_digits [of n] by (auto simp: pad_to_def list_all_iff is_digit_def)

lemma div_365_step: "365 \<le> k \<Longrightarrow> k \<le> d \<Longrightarrow> Suc ((d - k) div 365) \<le> d div (365 :: nat)"
  using div_le_mono [of "d - k" "d - 365" 365] le_div_geq [of 365 d] by simp

lemma year_from_bounds:
  "fst (year_from y d) \<le> y + d div 365 \<and> snd (year_from y d) < year_days (fst (year_from y d))"
proof (induction y d rule: year_from.induct)
  case (1 y d)
  show ?case
  proof (cases "d < year_days y")
    case True
    then have "year_from y d = (y, d)" by (subst year_from.simps) simp
    then show ?thesis using True by simp
  next
    case False
    then have "year_from y d = year_from (Suc y) (d - year_days y)" by (subst year_from.simps) simp
    moreover have "Suc ((d - year_days y) div 365) \<le> d div 365"
      by (rule div_365_step) (use False in \<open>simp_all add: year_days_def\<close>)
    ultimately show ?thesis using 1 [OF False] by auto
  qed
qed

lemma month_from_bounds:
  "d < sum_list ns \<Longrightarrow> fst (month_from m d ns) < m + length ns \<and> (\<exists>n\<in>set ns. snd (month_from m d ns) < n)"
  by (induction m d ns rule: month_from.induct) auto

lemma sum_months: "sum_list (months y) = year_days y"
  by (simp add: months_def year_days_def)

lemma months_31: "n \<in> set (months y) \<Longrightarrow> n \<le> 31" "length (months y) = 12"
  by (auto simp: months_def)

lemma split_on_here: "c \<notin> set s \<Longrightarrow> split_on c (s @ c # t) = s # split_on c t"
  by (induction s) auto

lemma split_on_none: "c \<notin> set s \<Longrightarrow> split_on c s = [s]"
  by (induction s) auto

lemma ends_with_append: "ends_with p (s @ p)"
  by (simp add: ends_with_def)

lemma digit_not_dash: "list_all is_digit s \<Longrightarrow> 45 \<notin> set s"
  by (auto simp: list_all_iff is_digit_def)

lemma iso_day_shape:
  assumes "0 \<le> ms" "ms < 250000000000000"
  obtains y m d where "iso_day ms = y @ 45 # m @ 45 # d" "length y = 4" "length m = 2" "length d = 2" "list_all is_digit (y @ m @ d)"
proof -
  obtain y d where yd: "year_from 1970 (nat (ms div 86400000)) = (y, d)" by fastforce
  obtain m e where me: "month_from 1 d (months y) = (m, e)" by fastforce
  have "ms div 86400000 < 2893519" using assms by simp
  then have "nat (ms div 86400000) div 365 < 7928" by (simp add: div_less_iff_less_mult nat_less_iff)
  then have y: "y < 10000" "d < year_days y" using year_from_bounds [of 1970 "nat (ms div 86400000)"] yd by auto
  have "m < 13" "\<exists>n\<in>set (months y). e < n"
    using month_from_bounds [of d "months y" 1] y(2) me months_31(2) [of y] by (auto simp: sum_months)
  then have "m < 100" "e + 1 < 100" using months_31(1) by fastforce+
  then have len: "length (pad_to 4 y) = 4" "length (pad_to 2 m) = 2" "length (pad_to 2 (e + 1)) = 2"
    using y(1) by (simp_all add: length_pad_to)
  have "iso_day ms = pad_to 4 y @ 45 # pad_to 2 m @ 45 # pad_to 2 (e + 1)"
    using yd me by (simp add: iso_day_def js_def)
  then show ?thesis by (rule that) (use len pad_to_digits in simp_all)
qed

lemma call_file_name:
  assumes "0 \<le> rp_startedAt r" "rp_startedAt r < 250000000000000" "rp_missionId r = js ''oc_'' @ h" "h \<noteq> []" "list_all is_hex h"
  shows "call_file (file_name r)"
proof -
  obtain y m d where day: "iso_day (rp_startedAt r) = y @ 45 # m @ 45 # d" "length y = 4" "length m = 2" "length d = 2" "list_all is_digit (y @ m @ d)"
    using iso_day_shape [OF assms(1,2)] by blast
  let ?rest = "js ''oc_'' @ h @ js ''.txt''"
  have nd: "45 \<notin> set y" "45 \<notin> set m" "45 \<notin> set d" "45 \<notin> set ?rest"
    using day(5) assms(5) digit_not_dash [of y] digit_not_dash [of m] digit_not_dash [of d]
    by (auto simp: list_all_iff is_hex_def is_digit_def js_def)
  have "file_name r = y @ 45 # m @ 45 # d @ 45 # ?rest" by (simp add: file_name_def day assms(3) js_def)
  then have "split_on 45 (file_name r) = [y, m, d, ?rest]" using nd by (simp add: split_on_here split_on_none)
  moreover have "drop 3 ?rest = h @ js ''.txt''" "take (length ?rest - 7) (h @ js ''.txt'') = h" "length ?rest > 7"
    using assms(4) by (simp_all add: js_def Suc_le_eq)
  ultimately show ?thesis using day assms(5)
    by (simp add: call_file_def starts_with_def ends_with_append)
qed

lemma find_put:
  assumes "P k" "Q k" "list_all (\<lambda>(f, _). f = k \<or> \<not> P f) m"
  shows "find (\<lambda>(f, _). P f) (filter (\<lambda>(f, _). Q f) (jm_set k v m)) = Some (k, v)"
  using assms(3) by (induction m) (auto simp: jm_set_def assms(1,2))

lemma trim_end_newline: "trim_end (s @ [10]) = trim_end s"
  by (simp add: trim_end_def js_space_def)

section \<open>An example\<close>

definition demo_line :: line_config where
  "demo_line = Otacon_line (js ''pixel'') (js ''http://host:8080'') (js ''phone-1'') False None"

definition demo_env :: runtime_env where
  "demo_env = \<lparr>re_config = config_of [], re_api = None,
     re_sdk = \<lparr>normalizeAgentId = (\<lambda>a. a), parseAgentSessionKey = (\<lambda>_. None), canonicalizeMain = (\<lambda>_ k. k)\<rparr>,
     re_base = demo_options, re_dir = Some (js ''calls'')\<rparr>"

definition demo_merged :: runtime where
  "demo_merged = \<lparr>rt_slots = [(js ''pixel'', (new_slot demo_line)\<lparr>sl_mission := Some 0\<rparr>)],
     rt_missions = [(demo_options, (new_mission (js ''oc_1'') 0 [])\<lparr>m_detached := True\<rparr>)], rt_recent = [], rt_files = [], rt_menu = False\<rparr>"

section \<open>Properties\<close>

lemma distinct_filter_nth:
  "(\<And>i j. i < length xs \<Longrightarrow> j < length xs \<Longrightarrow> P (xs ! i) \<Longrightarrow> P (xs ! j) \<Longrightarrow> f (xs ! i) = f (xs ! j) \<Longrightarrow> i = j)
    \<Longrightarrow> distinct (map f (filter P xs))"
proof (induction xs)
  case (Cons x xs)
  have "distinct (map f (filter P xs))"
  proof (rule Cons.IH)
    fix i j
    assume "i < length xs" "j < length xs" "P (xs ! i)" "P (xs ! j)" "f (xs ! i) = f (xs ! j)"
    then show "i = j" using Cons.prems [of "Suc i" "Suc j"] by simp
  qed
  moreover have "f x \<noteq> f y" if "P x" "y \<in> set xs" "P y" for y
    using Cons.prems [of 0] that by (metis Suc_less_eq in_set_conv_nth length_Cons nth_Cons_0 nth_Cons_Suc old.nat.distinct(1) zero_less_Suc)
  ultimately show ?case by auto
qed simp

text \<open>
  C10: a line has one call at a time. Whatever requests, incoming calls and call events come in whatever
  order, the missions that have not ended are all on different lines.
\<close>

theorem runtime_one_call_per_line:
  "distinct (map (\<lambda>(o1, m). map_option fst (mo_line o1)) (filter (\<lambda>(o1, m). \<not> m_ended m)
     (rt_missions (fst (runtime_run env evs (new_runtime cfg files))))))"
proof (rule distinct_filter_nth)
  let ?rt = "fst (runtime_run env evs (new_runtime cfg files))"
  fix i j
  assume ij: "i < length (rt_missions ?rt)" "j < length (rt_missions ?rt)"
    and live: "case rt_missions ?rt ! i of (o1, m) \<Rightarrow> \<not> m_ended m" "case rt_missions ?rt ! j of (o1, m) \<Rightarrow> \<not> m_ended m"
    and same: "(case rt_missions ?rt ! i of (o1, m) \<Rightarrow> map_option fst (mo_line o1)) = (case rt_missions ?rt ! j of (o1, m) \<Rightarrow> map_option fst (mo_line o1))"
  have "in_place ?rt i" "in_place ?rt j"
    using runtime_run_ok [of env evs cfg files] ij by (simp_all add: runtime_ok_def)
  then show "i = j" using live same by (auto simp: in_place_def split: prod.splits)
qed

lemma screened_number:
  "screened cfg o1 \<Longrightarrow> list_all e164 (vc_allowFrom cfg) \<Longrightarrow>
    e164 (party_number (mo_party o1)) \<and> (mo_outbound o1 \<or> vc_inboundAllowlist cfg \<and> party_number (mo_party o1) \<in> set (vc_allowFrom cfg))"
  by (auto simp: screened_def list_all_iff split: if_splits)

text \<open>
  C16: who is called and who is answered. With an accepted configuration, over any run every mission is
  with an E.164 number, and one for an incoming call exists only if incoming calls are on and the
  caller is on the list: anyone else is left to ring, whatever else happens.
\<close>

theorem runtime_screens_calls:
  "case parseConfig raw of
     (None, errors) \<Rightarrow> errors \<noteq> []
   | (Some cfg, _) \<Rightarrow> list_all (\<lambda>(o1, m). e164 (party_number (mo_party o1))
       \<and> (mo_outbound o1 \<or> vc_inboundAllowlist cfg \<and> party_number (mo_party o1) \<in> set (vc_allowFrom cfg)))
       (rt_missions (fst (runtime_run (env\<lparr>re_config := cfg\<rparr>) evs (new_runtime cfg files))))"
proof (cases "config_errors (obj_of raw) = []")
  case True
  let ?cfg = "config_of (obj_of raw)"
  let ?rt = "fst (runtime_run (env\<lparr>re_config := ?cfg\<rparr>) evs (new_runtime ?cfg files))"
  have allow: "list_all e164 (vc_allowFrom ?cfg)"
    using config_accepted [OF True] by (simp add: config_ok_def)
  have "screened ?cfg (fst p)" if "p \<in> set (rt_missions ?rt)" for p
    using runtime_run_ok [of "env\<lparr>re_config := ?cfg\<rparr>" evs ?cfg files] that by (auto simp: runtime_ok_def in_set_conv_nth)
  then have "list_all (\<lambda>(o1, m). e164 (party_number (mo_party o1))
      \<and> (mo_outbound o1 \<or> vc_inboundAllowlist ?cfg \<and> party_number (mo_party o1) \<in> set (vc_allowFrom ?cfg))) (rt_missions ?rt)"
    using screened_number [OF _ allow] by (simp add: list_all_iff case_prod_beta)
  then show ?thesis using True by (simp add: parseConfig_def Let_def)
qed (simp add: parseConfig_def Let_def)


text \<open>
  A finished call's log can be read. After a call's report is written, \<open>callLog\<close> gives its whole
  transcript back, by the call's id and as the most recent call, from the file named after its day and
  id; ids are \<open>oc_\<close> and hexadecimal, dates are those the file pattern has, and no other file is of the
  same call.
\<close>

lemma call_log_reads_back:
  assumes "re_dir env = Some dir" "rp_missionId r = js ''oc_'' @ h" "h \<noteq> []" "list_all is_hex h"
    "0 \<le> rp_startedAt r" "rp_startedAt r < 250000000000000"
    "list_all (\<lambda>(f, _). f = file_name r \<or> \<not> ends_with (js ''-'' @ rp_missionId r @ js ''.txt'') f) (rt_files rt)"
    "mid = None \<or> mid = Some (rp_missionId r)"
  shows "callLog env (fst (onMissionEnd env now (True, sent) r rt)) True mid
    = Some (rp_missionId r, trim_end (formatSavedReport r), Some (path_join dir (file_name r)))"
proof -
  let ?rt = "fst (onMissionEnd env now (True, sent) r rt)"
  have rt: "rt_files ?rt = jm_set (file_name r) (now, formatSavedReport r @ [10]) (rt_files rt)" "hd (rt_recent ?rt) = r" "rt_recent ?rt \<noteq> []"
    using assms(1) by (simp_all add: onMissionEnd_def upd_def save_def Let_def)
  have "ends_with (js ''-'' @ rp_missionId r @ js ''.txt'') (file_name r)"
    by (simp add: ends_with_def file_name_def)
  then have "find (\<lambda>(f, _). ends_with (js ''-'' @ rp_missionId r @ js ''.txt'') f) (call_files env ?rt) = Some (file_name r, now, formatSavedReport r @ [10])"
    unfolding call_files_def rt(1) using assms(1) call_file_name [OF assms(5,6,2-4)] by (simp add: find_put [OF _ _ assms(7)])
  moreover have "call_log_id env ?rt mid = Some (rp_missionId r)"
    using assms(8) rt(2,3) by (auto simp: call_log_id_def split: list.splits)
  moreover have "rp_missionId r \<noteq> []" using assms(2) by simp
  ultimately show ?thesis using assms(1) by (simp add: callLog_def Let_def trim_end_newline or_empty_def)
qed

lemma call_log_reads_back_witness:
  "callLog demo_env (fst (onMissionEnd demo_env 5 (True, True) (demo_saved\<lparr>rp_missionId := js ''oc_1a''\<rparr>) (new_runtime (config_of []) []))) True None
    = Some (js ''oc_1a'', trim_end (formatSavedReport (demo_saved\<lparr>rp_missionId := js ''oc_1a''\<rparr>)),
        Some (path_join (js ''calls'') (file_name (demo_saved\<lparr>rp_missionId := js ''oc_1a''\<rparr>))))"
  using call_log_reads_back [of demo_env "js ''calls''" "demo_saved\<lparr>rp_missionId := js ''oc_1a''\<rparr>" "js ''1a''" "new_runtime (config_of []) []" None 5 True]
  by (simp add: demo_env_def demo_saved_def demo_report_def new_runtime_def js_def is_hex_def is_digit_def)

text \<open>
  The owner's messages are for the owner. What a call with any other number is told at its start is
  the same as if the owner's session held no messages at all.
\<close>

lemma owner_messages_stay_private:
  "isOwnerNumber (re_api env) (party_number p)
   \<or> callContext env now rt messages p requester = callContext env now rt None p requester"
  by (simp add: callContext_def call_messages_def Let_def split: option.splits)

text \<open>
  What ending a merged call does. A merged call the assistant has left still counts as under way, so
  \<open>endCall\<close> finds it and answers that it ended it; but nothing is hung up and nothing changes.
\<close>

lemma end_call_leaves_merged_calls:
  assumes "live_missions rt = [i]" "i < length (rt_missions rt)" "m_detached (snd (rt_missions rt ! i))"
  shows "endCall env now io None rt = (rt, [RE_reply (Re_ended True)])"
proof -
  obtain o1 m where m: "rt_missions rt ! i = (o1, m)" by (cases "rt_missions rt ! i")
  then have "mission_step o1 (mission_event.Ev_finish now x y z) m = (m, [])" for x y z
    using assms(3) by (simp add: finish_def reads_def skip_def)
  moreover have "rt\<lparr>rt_missions := (rt_missions rt)[i := (o1, m)]\<rparr> = rt" using m by (metis list_update_id runtime.surjective runtime.update_convs(2))
  ultimately show ?thesis
    using assms(1,2) m by (simp add: endCall_def reads_def mission_does_def emit_def or_empty_def)
qed

lemma end_call_leaves_merged_calls_witness:
  "endCall demo_env 9 (True, True) None demo_merged = (demo_merged, [RE_reply (Re_ended True)])"
  using end_call_leaves_merged_calls [of demo_merged 0 demo_env 9 "(True, True)"]
  by (simp add: demo_merged_def live_missions_def busy_def new_mission_def)

end
