(* ===== verification/Plugin.thy ===== *)
theory Plugin
  imports RuntimeFacts
begin

text \<open>
  \<open>src/openclaw-voice/src/index.ts\<close>: the plugin's entry. The agent's tools (\<open>otacon_call\<close>,
  \<open>otacon_line\<close>, \<open>otacon_call_log\<close>, \<open>otacon_listen\<close>) check their arguments and act on the runtime the
  service has started; Twilio's requests find their line by path. Tool arguments are objects of
  \<open>jsval\<close>s that OpenClaw has checked against the tool's schema, so a text field of another type counts
  as absent and numbers are finite.
\<close>

section \<open>Tool descriptions\<close>

definition describeLine :: "line_config \<Rightarrow> jstr" where
  "describeLine l = lg_id l @ (case lg_number l of None \<Rightarrow> [] | Some n \<Rightarrow> js '' ('' @ n @ js '')'') @ js '': ''
     @ (if is_twilio l then js ''a Twilio number'' else js ''a phone with a SIM'')"

definition minutes :: "real \<Rightarrow> jstr" where
  "minutes seconds = (let n = nat (js_round (seconds / 60 * 10))
     in dec_nat (n div 10) @ (if n mod 10 = 0 then [] else js ''.'' @ dec_nat (n mod 10)))"

definition text_field :: "jstr \<Rightarrow> json" where
  "text_field d = JObj [(js ''type'', JStr (js ''string'')), (js ''description'', JStr d)]"

definition contact_field :: json where
  "contact_field = JObj [(js ''type'', JStr (js ''array'')),
     (js ''description'', JStr (js ''call: people the assistant may bring into the call if needed (warm hand-off)'')),
     (js ''items'', JObj [(js ''type'', JStr (js ''object'')), (js ''additionalProperties'', JBool False),
       (js ''properties'', JObj [(js ''name'', JObj [(js ''type'', JStr (js ''string''))]), (js ''number'', text_field (js ''E.164'')),
         (js ''description'', text_field (js ''Who they are and when to bring them in''))]),
       (js ''required'', JArr [JStr (js ''name''), JStr (js ''number'')])])]"

definition toolParameters :: "voice_config \<Rightarrow> json" where
  "toolParameters config = JObj [(js ''type'', JStr (js ''object'')), (js ''additionalProperties'', JBool False),
     (js ''properties'', JObj (
       [(js ''action'', JObj [(js ''type'', JStr (js ''string'')), (js ''enum'', JArr [JStr (js ''call''), JStr (js ''end'')]),
          (js ''description'', JStr (js ''call: place a phone call; end: hang up the current call''))]),
        (js ''to'', text_field (js ''call: number to dial, E.164 (e.g. +15551234567)'')),
        (js ''name'', text_field (js ''call: who you're calling (e.g. the business name), used in the report'')),
        (js ''brief'', text_field (js ''call: what the call should achieve, with every detail the assistant may need and may share (names, dates, party size, account numbers it may give out)'')),
        (js ''contacts'', contact_field),
        (js ''sessionKey'', text_field (js ''call: the OpenClaw session the call runs in (its consults, so what the agent remembers of it). Default: one session per phone number, shared by every call with that number'')),
        (js ''holdLimitMinutes'', JObj [(js ''type'', JStr (js ''number'')),
          (js ''description'', JStr (js ''call: how long to wait on hold before hanging up, in minutes (default '' @ minutes (vc_holdCapSeconds config) @ js ''; at most '' @ minutes (vc_maxCallSeconds config) @ js '', the limit for the whole call). Holds are timed until a person answers.''))])]
       @ (if length (vc_lines config) > 1
          then [(js ''line'', JObj [(js ''type'', JStr (js ''string'')), (js ''enum'', JArr (map (JStr \<circ> lg_id) (vc_lines config))),
            (js ''description'', JStr (js ''call: the line to call from (default '' @ vc_defaultLine config @ js ''). '' @ join (js ''; '') (map describeLine (vc_lines config))))])]
          else [])
       @ [(js ''callId'', text_field (js ''end: the call id returned by call''))])),
     (js ''required'', JArr [JStr (js ''action'')])]"

section \<open>Calls\<close>

record call_args =
  pa_to :: "jsval option"
  pa_name :: "jstr option"
  pa_brief :: jstr
  pa_contacts :: "(jstr \<times> jsval option \<times> jstr option) list"
  pa_agentId :: "jstr option"
  pa_requester :: "jstr option"
  pa_sessionKey :: "jstr option"
  pa_hold :: "jsval option"
  pa_line :: "jstr option"

text \<open>\<open>/^agent:([^:]+):/\<close>\<close>

definition agentFromSessionKey :: "jstr option \<Rightarrow> jstr option" where
  "agentFromSessionKey key = (case key of None \<Rightarrow> None | Some k \<Rightarrow>
     (if starts_with (js ''agent:'') k then
        (let a = takeWhile (\<lambda>c. c \<noteq> 58) (drop 6 k) in if a \<noteq> [] \<and> length a < length (drop 6 k) then Some a else None)
      else None))"

definition hold_ok :: "jsval option \<Rightarrow> bool" where
  "hold_ok h = (case h of None \<Rightarrow> True | Some (V_num x) \<Rightarrow> 0 < x | _ \<Rightarrow> False)"

definition hold_seconds :: "jsval option \<Rightarrow> real option" where
  "hold_seconds h = (case h of Some (V_num x) \<Rightarrow> Some (x * 60) | _ \<Rightarrow> None)"

fun call_contacts :: "nat \<Rightarrow> (jstr \<times> jsval option \<times> jstr option) list \<Rightarrow> jstr + contact list" where
  "call_contacts i [] = Inr []"
| "call_contacts i ((name, number, description) # cs) = (case number of
     Some (V_str n) \<Rightarrow>
       if e164 n then (case call_contacts (Suc i) cs of Inl e \<Rightarrow> Inl e
         | Inr ts \<Rightarrow> Inr (\<lparr>ct_id = js ''p'' @ dec_nat (i + 1), ct_name = name, ct_number = n, ct_description = description\<rparr> # ts))
       else Inl (js ''contact '' @ name @ js '': number must be E.164'')
   | _ \<Rightarrow> Inl (js ''contact '' @ name @ js '': number must be E.164''))"

definition call_request :: "voice_config \<Rightarrow> call_args \<Rightarrow> jstr + start_call" where
  "call_request config a =
     (if \<not> hold_ok (pa_hold a) then Inl ([96] @ js ''holdLimitMinutes'' @ [96] @ js '' must be a positive number'')
      else (case call_contacts 0 (pa_contacts a) of Inl e \<Rightarrow> Inl e
        | Inr contacts \<Rightarrow> Inr \<lparr>sc_to = pa_to a, sc_name = pa_name a, sc_brief = pa_brief a, sc_contacts = contacts,
            sc_agentId = or_else (pa_agentId a) (or_else (vc_agentId config) (or_else (agentFromSessionKey (pa_requester a)) (js ''main''))),
            sc_requesterSessionKey = pa_requester a, sc_sessionKey = pa_sessionKey a,
            sc_holdLimitSeconds = hold_seconds (pa_hold a), sc_line = pa_line a\<rparr>))"

section \<open>The tools\<close>

definition str_field :: "obj \<Rightarrow> string \<Rightarrow> jstr option" where
  "str_field p k = (case prop_of p k of Some (V_str s) \<Rightarrow> Some s | _ \<Rightarrow> None)"

definition contact_args :: "jsval \<Rightarrow> jstr \<times> jsval option \<times> jstr option" where
  "contact_args v = (let c = obj_of (Some v) in (or_empty (str_field c ''name''), prop_of c ''number'', str_field c ''description''))"

definition args_of :: "jstr option \<Rightarrow> jstr option \<Rightarrow> obj \<Rightarrow> call_args" where
  "args_of agentId sessionKey p = \<lparr>pa_to = prop_of p ''to'', pa_name = str_field p ''name'', pa_brief = or_empty (str_field p ''brief''),
     pa_contacts = map contact_args (arr_of (prop_of p ''contacts'')), pa_agentId = agentId, pa_requester = sessionKey,
     pa_sessionKey = str_field p ''sessionKey'', pa_hold = prop_of p ''holdLimitMinutes'', pa_line = str_field p ''line''\<rparr>"

datatype tool_action = Do_call call_args | Do_status "jstr option" | Do_end "jstr option" | Refuse jstr

definition otacon_call :: "jstr option \<Rightarrow> jstr option \<Rightarrow> obj \<Rightarrow> tool_action" where
  "otacon_call agentId sessionKey p = (let action = prop_of p ''action'' in
     if action = Some (V_str (js ''call'')) then
       (if \<not> v_truthy (prop_of p ''to'') \<or> \<not> v_truthy (prop_of p ''brief'') then Refuse (js ''call needs '' @ [96] @ js ''to'' @ [96] @ js '' and '' @ [96] @ js ''brief'' @ [96])
        else Do_call (args_of agentId sessionKey p))
     else if action = Some (V_str (js ''status'')) then Do_status (str_field p ''callId'')
     else if action = Some (V_str (js ''end'')) then Do_end (str_field p ''callId'')
     else Refuse (js ''unknown action '' @ undef_text (str_field p ''action'')))"

definition err_result :: "jstr \<Rightarrow> json" where
  "err_result e = JObj [(js ''error'', JStr e)]"

definition call_result :: "reply \<Rightarrow> json" where
  "call_result r = (case r of
      Re_call i \<Rightarrow> JObj [(js ''callId'', JStr i), (js ''status'', JStr (js ''calling'')),
        (js ''note'', JStr (js ''The call is running. Its outcome will be delivered to this session automatically when it ends; don't poll or wait for it. Tell the user it's under way and end your turn.''))]
    | Re_error e \<Rightarrow> err_result e
    | Re_ended b \<Rightarrow> JObj [(js ''ended'', JBool b)]
    | Re_listening b n \<Rightarrow> JObj [(js ''listening'', JBool b), (js ''note'', JStr n)]
    | Re_json j \<Rightarrow> j)"

text \<open>\<open>otacon_line\<close>: only inside a consult, which names its call.\<close>

definition otacon_line :: "jsval option \<Rightarrow> obj \<Rightarrow> (jstr \<times> jstr) option" where
  "otacon_line binding p = (case binding of
      Some (V_str callId) \<Rightarrow> Some (callId, or_empty (str_field p ''action''))
    | _ \<Rightarrow> None)"

definition no_binding :: json where
  "no_binding = err_result (js ''otacon_line works only inside a live phone call's consult'')"

text \<open>\<open>otacon_call_log\<close>\<close>

definition otacon_call_log :: "runtime_env \<Rightarrow> bool \<Rightarrow> runtime option \<Rightarrow> jstr option \<Rightarrow> json" where
  "otacon_call_log env readable1 runtime1 callId = (case runtime1 of
      None \<Rightarrow> err_result (js ''otacon-voice is not running in this process'')
    | Some rt \<Rightarrow> (let mid = (if or_empty callId = [] then None else callId) in case callLog env rt readable1 mid of
          None \<Rightarrow> err_result (case mid of Some i \<Rightarrow> js ''no saved transcript for '' @ i | None \<Rightarrow> js ''no finished call yet'')
        | Some (i, transcript, savedAt) \<Rightarrow> JObj ([(js ''callId'', JStr i), (js ''transcript'', JStr transcript)]
            @ (case savedAt of None \<Rightarrow> [] | Some f \<Rightarrow> [(js ''savedAt'', JStr f)]))))"

section \<open>Twilio's routes\<close>

definition TWILIO_ROUTES :: jstr where
  "TWILIO_ROUTES = js ''/otacon-voice/twilio''"

text \<open>\<open>^<prefix>/([^/]+)/([a-z]+)$\<close> of the path.\<close>

definition route_path :: "jstr \<Rightarrow> (jstr \<times> jstr) option" where
  "route_path pathname =
     (if starts_with (TWILIO_ROUTES @ js ''/'') pathname then
        (case split_on 47 (drop (length TWILIO_ROUTES + 1) pathname) of
           [lid, p] \<Rightarrow> if lid \<noteq> [] \<and> p \<noteq> [] \<and> list_all is_lower p then Some (lid, p) else None
         | _ \<Rightarrow> None)
      else None)"

definition twilio_of :: "runtime \<Rightarrow> jstr \<Rightarrow> bool" where
  "twilio_of rt lid = (case jm_get (rt_slots rt) lid of Some s \<Rightarrow> sl_link s \<and> is_twilio (sl_config s) | None \<Rightarrow> False)"

definition route :: "runtime option \<Rightarrow> jstr \<Rightarrow> (jstr \<times> jstr) option" where
  "route runtime1 pathname = (case (runtime1, route_path pathname) of
      (Some rt, Some (lid, p)) \<Rightarrow> if twilio_of rt lid then Some (lid, p) else None
    | _ \<Rightarrow> None)"

datatype routed = Http_status nat | To_line jstr jstr

definition http_handler :: "runtime option \<Rightarrow> jstr \<Rightarrow> routed" where
  "http_handler runtime1 pathname = (case route runtime1 pathname of
      None \<Rightarrow> Http_status 404
    | Some (lid, p) \<Rightarrow> if p = js ''stream'' then Http_status 426 else To_line lid p)"

definition handleUpgrade_route :: "runtime option \<Rightarrow> jstr \<Rightarrow> jstr option" where
  "handleUpgrade_route runtime1 pathname = (case route runtime1 pathname of
      Some (lid, p) \<Rightarrow> if p = js ''stream'' then Some lid else None | None \<Rightarrow> None)"

section \<open>The service\<close>

text \<open>
  The running runtime, if there is one. Calls are placed through \<open>call_request\<close> only (\<open>PE_call\<close>: the
  tool and the gateway method); everything else that happens to the runtime is \<open>PE_runtime\<close>. What a
  stopped runtime's calls still do is not followed.
\<close>

datatype plugin_event =
    PE_start "(jstr \<times> int \<times> jstr) list"
  | PE_stop int "bool \<times> bool"
  | PE_call int jstr "bool \<times> bool" call_args
  | PE_runtime runtime_event

type_synonym ph = "(runtime option, runtime_effect) handler"

definition with_runtime :: "rh \<Rightarrow> ph" where
  "with_runtime f p = (case p of
      None \<Rightarrow> (None, [RE_reply (Re_error (js ''otacon-voice is not running in this process''))])
    | Some rt \<Rightarrow> (let (rt1, es) = f rt in (Some rt1, es)))"

fun places_call :: "runtime_event \<Rightarrow> bool" where
  "places_call (RV_start_call now mid io req) = True"
| "places_call ev = False"

fun plugin_step :: "runtime_env \<Rightarrow> plugin_event \<Rightarrow> ph" where
  "plugin_step env (PE_start files) = upd (\<lambda>_. Some (new_runtime (re_config env) files))"
| "plugin_step env (PE_stop now io) = steps [with_runtime (rt_stop env now io), upd (\<lambda>_. None)]"
| "plugin_step env (PE_call now mid io a) = with_runtime (case call_request (re_config env) a of
     Inl e \<Rightarrow> emit (RE_reply (Re_error e)) | Inr req \<Rightarrow> startCall env now mid io req)"
| "plugin_step env (PE_runtime ev) = whenever (\<not> places_call ev) (with_runtime (runtime_step env ev))"

definition plugin_run :: "runtime_env \<Rightarrow> plugin_event list \<Rightarrow> ph" where
  "plugin_run env = run_events (plugin_step env)"

section \<open>Facts\<close>

lemma call_contacts_e164: "call_contacts i cs = Inr ts \<Longrightarrow> list_all (\<lambda>t. e164 (ct_number t)) ts"
  by (induction i cs arbitrary: ts rule: call_contacts.induct) (auto split: option.splits jsval.splits if_splits sum.splits)

lemma call_request_e164: "call_request cfg a = Inr req \<Longrightarrow> e164_contacts req"
  by (auto simp: call_request_def e164_contacts_def dest: call_contacts_e164 split: if_splits sum.splits)

text \<open>The address a Twilio line gives Twilio is routed back to that line.\<close>

lemma id_char_not_slash: "line_id_ok s \<Longrightarrow> 47 \<notin> set s \<and> s \<noteq> []"
  by (cases s) (auto simp: line_id_ok_def id_char_def is_lower_def is_upper_def is_digit_def list_all_iff)

lemma split_on_word: "c \<notin> set s \<Longrightarrow> split_on c s = [s]"
  by (induction s) auto

lemma split_on_two: "c \<notin> set s \<Longrightarrow> c \<notin> set t \<Longrightarrow> split_on c (s @ c # t) = [s, t]"
  by (induction s) (auto simp: split_on_word)

lemma route_reaches_line:
  assumes "line_id_ok lid" "p \<noteq> []" "list_all is_lower p"
  shows "route_path (TWILIO_ROUTES @ js ''/'' @ lid @ js ''/'' @ p) = Some (lid, p)"
proof -
  have "47 \<notin> set p" using assms(3) by (auto simp: list_all_iff is_lower_def)
  moreover have "js ''/'' = [47]" by (simp add: js_def)
  ultimately show ?thesis using assms id_char_not_slash [OF assms(1)]
    by (simp add: route_path_def starts_with_def split_on_two)
qed

definition plugin_ok :: "(mission_options \<Rightarrow> bool) \<Rightarrow> runtime option \<Rightarrow> bool" where
  "plugin_ok G p = pred_option (runtime_ok G) p"

lemma keeps_with_runtime [keeps_intros]:
  "kept G f \<Longrightarrow> keeps (plugin_ok G) (dial_fine G) (with_runtime f)"
  by (auto simp: keeps_def with_runtime_def plugin_ok_def case_prod_beta Let_def split: option.splits)

lemma plugin_step_keeps:
  "keeps (plugin_ok (calls_e164 (re_config env))) (dial_fine (calls_e164 (re_config env))) (plugin_step env ev)"
proof (cases ev)
  case (PE_call now mid io a)
  then show ?thesis
    by (auto intro!: keeps_intros kept_intros e164_calls.kept_startCall call_request_e164 split: sum.splits)
next
  case (PE_runtime rev)
  then show ?thesis by (auto intro!: keeps_intros e164_calls.kept_step)
qed (auto intro!: keeps_intros kept_intros simp: plugin_ok_def runtime_ok_new)

section \<open>The property\<close>

definition dials :: "runtime_effect \<Rightarrow> jstr option" where
  "dials e = (case e of RE_mission i (E_cmd k (C_dial n)) \<Rightarrow> Some n | _ \<Rightarrow> None)"


end
