(* ===== verification/Approval.thy ===== *)
theory Approval
  imports Recent Steps
begin

text \<open>
  The orchestrator's human approvals: which commands change a phone (\<open>sandbox/mutating.ts\<close>, with the
  command registry of the CLI), the gate before a tool call (\<open>agents/approval-gate-server.ts\<close>), the
  agent's \<open>escalate\<close> tool (\<open>tools/escalate.ts\<close>) and the route that resolves either
  (\<open>server/routes/escalations.ts\<close>). They meet in the escalation files of a session. Each asynchronous
  handler is cut at its awaits, so requests interleave as on the server: \<open>approval_step\<close> is one turn of
  one of them, a relation because any may come next.
\<close>

section \<open>Commands that change a phone\<close>

text \<open>The registry: each verb with its \<open>isMutating\<close> flag.\<close>

definition otaconRegistry :: "(jstr \<times> bool) list" where
  "otaconRegistry = [(js ''tap'', True), (js ''long-tap'', True), (js ''swipe'', True), (js ''key'', True), (js ''type'', True),
     (js ''set-text'', True), (js ''scroll'', True), (js ''screenshot'', False), (js ''snapshot'', False), (js ''info'', False),
     (js ''apps'', True), (js ''sms'', True), (js ''call'', True), (js ''clipboard'', True), (js ''contacts'', False),
     (js ''notifications'', True), (js ''open'', True), (js ''record'', True)]"

definition SUBCOMMAND_MATRIX :: "(jstr \<times> jstr list \<times> jstr) list" where
  "SUBCOMMAND_MATRIX =
     [(js ''apps'', [js ''launch'', js ''stop'', js ''install''], js ''list''),
      (js ''call'', [js ''dial'', js ''answer'', js ''reject'', js ''hangup'', js ''hold'', js ''resume'', js ''swap'', js ''merge'', js ''dtmf''], js ''status''),
      (js ''clipboard'', [js ''set''], js ''get''),
      (js ''notifications'', [js ''dismiss'', js ''action''], js ''list''),
      (js ''record'', [js ''start'', js ''stop''], js ''status''),
      (js ''sms'', [js ''send''], js ''list'')]"

definition ALWAYS_MUTATING :: "jstr list" where
  "ALWAYS_MUTATING = map fst (filter (\<lambda>(k, m). m \<and> jm_get SUBCOMMAND_MATRIX k = None) otaconRegistry)"

text \<open>
  The names every JavaScript object inherits: read from the tables they give a function or an object
  that isn't one of ours, and asking that for its set throws.
\<close>

definition INHERITED :: "jstr list" where
  "INHERITED = [js ''constructor'', js ''__defineGetter__'', js ''__defineSetter__'', js ''hasOwnProperty'', js ''__lookupGetter__'',
     js ''__lookupSetter__'', js ''isPrototypeOf'', js ''propertyIsEnumerable'', js ''toString'', js ''valueOf'', js ''__proto__'', js ''toLocaleString'']"

text \<open>\<open>None\<close>: it throws.\<close>

definition isMutatingOtacon :: "jstr \<Rightarrow> jstr list \<Rightarrow> bool option" where
  "isMutatingOtacon verb args =
     (if verb \<in> set INHERITED then None
      else if jm_get otaconRegistry verb = None then Some False
      else if verb \<in> set ALWAYS_MUTATING then Some True
      else (case jm_get SUBCOMMAND_MATRIX verb of
          None \<Rightarrow> Some False
        | Some (mutating, default_sub) \<Rightarrow> Some ((case args of a # _ \<Rightarrow> a | [] \<Rightarrow> default_sub) \<in> set mutating)))"

text \<open>\<open>s.split(/\s+/).filter(Boolean)\<close>\<close>

fun words_from :: "jstr \<Rightarrow> jstr \<Rightarrow> jstr list" where
  "words_from w [] = (if w = [] then [] else [w])"
| "words_from w (c # cs) = (if js_space c then (if w = [] then [] else [w]) @ words_from [] cs else words_from (w @ [c]) cs)"

definition words :: "jstr \<Rightarrow> jstr list" where
  "words s = words_from [] s"

text \<open>\<open>/^otacon\s+(\S+)(?:\s+(.*))?$/\<close>: the verb and the rest; the dot stops at a line's end.\<close>

definition otacon_match :: "jstr \<Rightarrow> (jstr \<times> jstr) option" where
  "otacon_match s = (case after (js ''otacon'') s of
      None \<Rightarrow> None
    | Some r \<Rightarrow>
        (let r1 = dropWhile js_space r; verb = takeWhile (\<lambda>c. \<not> js_space c) r1;
             rest = dropWhile js_space (dropWhile (\<lambda>c. \<not> js_space c) r1)
         in if r1 = r \<or> verb = [] \<or> list_ex line_end rest then None else Some (verb, rest)))"

definition isMutating :: "jstr \<Rightarrow> bool option" where
  "isMutating command = (case otacon_match (trim command) of
      None \<Rightarrow> Some False | Some (verb, rest) \<Rightarrow> isMutatingOtacon verb (words rest))"

section \<open>State\<close>

datatype decision = Approve | Reject

text \<open>An escalation file: workspace, team and session directory, and the token its name encodes.\<close>

type_synonym esc_key = "jstr \<times> jstr \<times> jstr \<times> jstr"

datatype esc_status = Pending | Resolved decision "jstr option"

record escalation =
  es_token :: jstr
  es_payload :: json
  es_status :: esc_status

record gate_opts =
  ga_workspace :: jstr
  ga_team :: jstr
  ga_session :: jstr
  ga_autoApprove :: bool
  ga_autoReject :: bool

record tool_call =
  tc_id :: jstr
  tc_name :: jstr
  tc_command :: jstr
  tc_rationale :: jstr

datatype esc_asker = By_gate gate_opts tool_call | By_tool gate_opts jstr jstr

datatype gate_result = Allowed | Blocked jstr | Answered jstr | Threw jstr

datatype esc_event = Esc_requested jstr jstr | Esc_resolved jstr decision "jstr option"

text \<open>\<open>ap_requests\<close> lists the valid resolve requests, \<open>ap_http\<close> the answers requests got.\<close>

record approval =
  ap_files :: "(esc_key \<times> escalation) list"
  ap_waiting :: "(nat \<times> esc_key \<times> esc_asker) list"
  ap_answers :: "(nat \<times> esc_asker \<times> gate_result) list"
  ap_bus :: "esc_event list"
  ap_resolving :: "(nat \<times> esc_key \<times> escalation) list"
  ap_requests :: "(jstr \<times> decision) list"
  ap_http :: "(nat \<times> nat) list"

definition new_approval :: "(esc_key \<times> escalation) list \<Rightarrow> approval" where
  "new_approval files = \<lparr>ap_files = files, ap_waiting = [], ap_answers = [], ap_bus = [], ap_resolving = [], ap_requests = [], ap_http = []\<rparr>"

section \<open>The gate and the tool\<close>

definition esc_token :: "gate_opts \<Rightarrow> jstr \<Rightarrow> jstr" where
  "esc_token opts callId = ga_session opts @ js '':'' @ callId"

definition esc_key :: "gate_opts \<Rightarrow> jstr \<Rightarrow> esc_key" where
  "esc_key opts callId = (ga_workspace opts, ga_team opts, ga_session opts, esc_token opts callId)"

definition gate_answer :: "nat \<Rightarrow> esc_asker \<Rightarrow> gate_result \<Rightarrow> approval \<Rightarrow> approval" where
  "gate_answer n a r s = s\<lparr>ap_answers := ap_answers s @ [(n, a, r)]\<rparr>"

text \<open>Write the pending file, say so on the bus, wait.\<close>

definition escalate :: "gate_opts \<Rightarrow> nat \<Rightarrow> jstr \<Rightarrow> esc_asker \<Rightarrow> json \<Rightarrow> jstr \<Rightarrow> approval \<Rightarrow> approval" where
  "escalate opts n callId a payload prompt s = s
     \<lparr>ap_files := jm_set (esc_key opts callId) \<lparr>es_token = esc_token opts callId, es_payload = payload, es_status = Pending\<rparr> (ap_files s),
      ap_bus := ap_bus s @ [Esc_requested (esc_token opts callId) prompt],
      ap_waiting := ap_waiting s @ [(n, esc_key opts callId, a)]\<rparr>"

definition gate_prompt :: "tool_call \<Rightarrow> jstr" where
  "gate_prompt c = js ''Approve mutating command?'' @ [10] @ js ''  $ '' @ tc_command c @ (if tc_rationale c = [] then [] else [10] @ js ''  rationale: '' @ tc_rationale c)"

definition gate_payload :: "tool_call \<Rightarrow> json" where
  "gate_payload c = JObj [(js ''toolCall'', JObj [(js ''id'', JStr (tc_id c)), (js ''name'', JStr (tc_name c))]),
     (js ''args'', JObj [(js ''command'', JStr (tc_command c)), (js ''rationale'', JStr (tc_rationale c))])]"

definition gate_call :: "gate_opts \<Rightarrow> nat \<Rightarrow> tool_call \<Rightarrow> approval \<Rightarrow> approval" where
  "gate_call opts n c s =
     (if tc_name c \<noteq> js ''bash'' then gate_answer n (By_gate opts c) Allowed s
      else (case isMutating (tc_command c) of
          None \<Rightarrow> gate_answer n (By_gate opts c) (Threw (js ''TypeError'')) s
        | Some False \<Rightarrow> gate_answer n (By_gate opts c) Allowed s
        | Some True \<Rightarrow>
            if ga_autoApprove opts then gate_answer n (By_gate opts c) Allowed s
            else if ga_autoReject opts then gate_answer n (By_gate opts c) (Blocked (js ''auto-reject mode'')) s
            else escalate opts n (tc_id c) (By_gate opts c) (gate_payload c) (gate_prompt c) s))"

definition tool_call_escalates :: "gate_opts \<Rightarrow> nat \<Rightarrow> jstr \<Rightarrow> jstr \<Rightarrow> approval \<Rightarrow> approval" where
  "tool_call_escalates opts n callId prompt s =
     escalate opts n callId (By_tool opts callId prompt) (JObj [(js ''payload'', JObj [(js ''prompt'', JStr prompt)])]) prompt s"

definition with_message :: "jstr \<Rightarrow> jstr option \<Rightarrow> jstr" where
  "with_message s m = s @ (if or_empty m = [] then [] else js '' Message: '' @ or_empty m)"

definition decided :: "esc_asker \<Rightarrow> decision \<Rightarrow> jstr option \<Rightarrow> gate_result" where
  "decided a d m = (case (a, d) of
      (By_gate _ _, Approve) \<Rightarrow> Allowed
    | (By_gate _ _, Reject) \<Rightarrow> Blocked (if or_empty m = [] then js ''User rejected this tool call.'' else js ''User rejected: '' @ or_empty m)
    | (By_tool _ _ _, Approve) \<Rightarrow> Answered (with_message (js ''User approved.'') m)
    | (By_tool _ _ _, Reject) \<Rightarrow> Answered (with_message (js ''User rejected.'') m))"

text \<open>\<open>pollForResolution\<close>, one reading of the file; a file half written is read again later.\<close>

definition poll_file :: "nat \<Rightarrow> approval \<Rightarrow> approval" where
  "poll_file n s = (case jm_get (ap_waiting s) n of
      None \<Rightarrow> s
    | Some (k, a) \<Rightarrow> (case jm_get (ap_files s) k of
        Some e \<Rightarrow> (case es_status e of
            Resolved d m \<Rightarrow> gate_answer n a (decided a d m)
              (s\<lparr>ap_waiting := jm_delete n (ap_waiting s), ap_bus := ap_bus s @ [Esc_resolved (snd (snd (snd k))) d m]\<rparr>)
          | Pending \<Rightarrow> s)
      | None \<Rightarrow> s))"

text \<open>The run is aborted while it waits. The gate says so on the bus; the tool doesn't.\<close>

definition abort_wait :: "nat \<Rightarrow> approval \<Rightarrow> approval" where
  "abort_wait n s = (case jm_get (ap_waiting s) n of
      None \<Rightarrow> s
    | Some (k, a) \<Rightarrow>
        (let s1 = s\<lparr>ap_waiting := jm_delete n (ap_waiting s)\<rparr> in case a of
           By_gate _ _ \<Rightarrow> gate_answer n a (Blocked (js ''Approval aborted (server shutdown or client disconnect).''))
             (s1\<lparr>ap_bus := ap_bus s @ [Esc_resolved (snd (snd (snd k))) Reject (Some (js ''aborted''))]\<rparr>)
         | By_tool _ _ _ \<Rightarrow> gate_answer n a (Threw (js ''aborted'')) s1))"

section \<open>The route\<close>

definition body_decision :: "json \<Rightarrow> decision option" where
  "body_decision body = (case json_get body (js ''decision'') of
      Some (JStr d) \<Rightarrow> if d = js ''approve'' then Some Approve else if d = js ''reject'' then Some Reject else None
    | _ \<Rightarrow> None)"

definition body_message :: "json \<Rightarrow> jstr option option" where
  "body_message body = (case json_get body (js ''message'') of None \<Rightarrow> Some None | Some (JStr m) \<Rightarrow> Some (Some m) | _ \<Rightarrow> None)"

definition token_session :: "jstr \<Rightarrow> jstr" where
  "token_session token = takeWhile (\<lambda>c. c \<noteq> 58) token"

text \<open>\<open>locateEscalationFile\<close>: the first session directory of that id with the file.\<close>

definition locate :: "jstr \<Rightarrow> approval \<Rightarrow> (esc_key \<times> escalation) option" where
  "locate token s = find (\<lambda>((ws, team, sid, tok), _). sid = token_session token \<and> tok = token) (ap_files s)"

definition http :: "nat \<Rightarrow> nat \<Rightarrow> approval \<Rightarrow> approval" where
  "http rid st s = s\<lparr>ap_http := ap_http s @ [(rid, st)]\<rparr>"

text \<open>Up to the write; \<open>body\<close> is \<open>None\<close> when it isn't JSON; reading a field of \<open>null\<close> throws.\<close>

definition resolve_request :: "nat \<Rightarrow> jstr \<Rightarrow> json option \<Rightarrow> approval \<Rightarrow> approval" where
  "resolve_request rid token body s = (case body of
      None \<Rightarrow> http rid 400 s
    | Some b \<Rightarrow> if b = JNull then http rid 500 s else (case (body_decision b, body_message b) of
        (Some d, Some m) \<Rightarrow>
          (let s1 = s\<lparr>ap_requests := ap_requests s @ [(token, d)]\<rparr>
           in if token_session token = [] then http rid 400 s1
              else (case locate token s1 of
                  None \<Rightarrow> http rid 404 s1
                | Some (k, e) \<Rightarrow> (case es_status e of
                    Resolved _ _ \<Rightarrow> http rid 409 s1
                  | Pending \<Rightarrow> s1\<lparr>ap_resolving := ap_resolving s1 @ [(rid, k, e\<lparr>es_status := Resolved d m\<rparr>)]\<rparr>)))
      | _ \<Rightarrow> http rid 400 s))"

definition resolve_write :: "nat \<Rightarrow> approval \<Rightarrow> approval" where
  "resolve_write rid s = (case jm_get (ap_resolving s) rid of
      None \<Rightarrow> s
    | Some (k, e) \<Rightarrow> http rid 200 (s\<lparr>ap_files := jm_set k e (ap_files s), ap_resolving := jm_delete rid (ap_resolving s)\<rparr>))"

section \<open>The server\<close>

definition unused :: "nat \<Rightarrow> approval \<Rightarrow> bool" where
  "unused n s = (n \<notin> fst ` set (ap_waiting s) \<and> n \<notin> fst ` set (ap_answers s))"

definition unused_request :: "nat \<Rightarrow> approval \<Rightarrow> bool" where
  "unused_request rid s = (rid \<notin> fst ` set (ap_resolving s) \<and> rid \<notin> fst ` set (ap_http s))"

text \<open>Any run of the server, of any of its sessions (\<open>opts\<close>), may take its next turn. Waiting calls and
  requests are numbered as they come; a tool call's id is its own within its session.\<close>

inductive approval_step :: "approval \<Rightarrow> approval \<Rightarrow> bool" where
  gate: "unused n s \<Longrightarrow> esc_key opts (tc_id c) \<notin> fst ` set (ap_files s) \<Longrightarrow> approval_step s (gate_call opts n c s)"
| tool: "unused n s \<Longrightarrow> esc_key opts i \<notin> fst ` set (ap_files s) \<Longrightarrow> approval_step s (tool_call_escalates opts n i prompt s)"
| poll: "approval_step s (poll_file n s)"
| abort: "approval_step s (abort_wait n s)"
| request: "unused_request rid s \<Longrightarrow> approval_step s (resolve_request rid token body s)"
| written: "approval_step s (resolve_write rid s)"

inductive_cases approval_stepE: "approval_step s t"

inductive approval_reaches :: "approval \<Rightarrow> approval \<Rightarrow> bool" where
  start: "approval_reaches s s"
| turn: "approval_reaches s t \<Longrightarrow> approval_step t u \<Longrightarrow> approval_reaches s u"

end
