(* ===== verification/ApprovalRun.thy ===== *)
theory ApprovalRun
  imports Approval
begin

text \<open>
  What holds of the approvals in every state the server can reach, however its calls, polls, aborts and
  resolve requests interleave.
\<close>

section \<open>The invariant\<close>

definition key_token :: "esc_key \<Rightarrow> jstr" where
  "key_token k = snd (snd (snd k))"

fun asker_token :: "esc_asker \<Rightarrow> jstr" where
  "asker_token (By_gate opts c) = esc_token opts (tc_id c)"
| "asker_token (By_tool opts i p) = esc_token opts i"

text \<open>A decision in a file or about to be written was asked for by a request.\<close>

definition status_ok :: "(jstr \<times> decision) list \<Rightarrow> jstr \<Rightarrow> esc_status \<Rightarrow> bool" where
  "status_ok rs t st = (case st of Pending \<Rightarrow> True | Resolved d m \<Rightarrow> (t, d) \<in> set rs)"

definition waiting_ok :: "approval \<Rightarrow> bool" where
  "waiting_ok s = (\<forall>(n, k, a) \<in> set (ap_waiting s). key_token k = asker_token a
     \<and> (\<exists>e. jm_get (ap_files s) k = Some e \<and> status_ok (ap_requests s) (key_token k) (es_status e)))"

definition resolving_ok :: "approval \<Rightarrow> bool" where
  "resolving_ok s = (\<forall>(rid, k, e) \<in> set (ap_resolving s). status_ok (ap_requests s) (key_token k) (es_status e))"

text \<open>What let a call through.\<close>

definition passed_ok :: "approval \<Rightarrow> nat \<times> esc_asker \<times> gate_result \<Rightarrow> bool" where
  "passed_ok s x = (case x of (n, By_gate opts c, Allowed) \<Rightarrow>
       tc_name c \<noteq> js ''bash'' \<or> isMutating (tc_command c) = Some False \<or> ga_autoApprove opts
       \<or> (esc_token opts (tc_id c), Approve) \<in> set (ap_requests s)
     | _ \<Rightarrow> True)"

definition approval_ok :: "approval \<Rightarrow> bool" where
  "approval_ok s = (waiting_ok s \<and> resolving_ok s \<and> list_all (passed_ok s) (ap_answers s)
     \<and> distinct (map fst (ap_waiting s) @ map fst (ap_answers s)))"

lemma status_ok_more: "status_ok rs t st \<Longrightarrow> status_ok (rs @ rs') t st"
  by (auto simp: status_ok_def split: esc_status.splits)

lemma passed_ok_more: "passed_ok s x \<Longrightarrow> ap_requests t = ap_requests s @ rs \<Longrightarrow> passed_ok t x"
  by (auto simp: passed_ok_def split: prod.splits esc_asker.splits gate_result.splits)

lemma passed_ok_cong: "ap_requests t = ap_requests s \<Longrightarrow> passed_ok t = passed_ok s"
  by (rule ext) (simp add: passed_ok_def split: prod.splits esc_asker.splits gate_result.splits)

lemma jm_get_in: "jm_get m n = Some v \<Longrightarrow> (n, v) \<in> set m"
  by (simp add: jm_get_def map_of_SomeD)

lemma approval_ok_answer:
  assumes "approval_ok s" "n \<notin> fst ` set (ap_waiting s)" "n \<notin> fst ` set (ap_answers s)" "passed_ok s (n, a, r)"
  shows "approval_ok (gate_answer n a r s)"
  using assms passed_ok_cong [of "gate_answer n a r s" s]
  by (simp add: approval_ok_def gate_answer_def waiting_ok_def resolving_ok_def)

lemma approval_ok_escalate:
  assumes "approval_ok s" "unused n s" "asker_token a = esc_token opts i"
  shows "approval_ok (escalate opts n i a payload prompt s)"
proof -
  let ?t = "escalate opts n i a payload prompt s"
  have "waiting_ok ?t"
    using assms unfolding waiting_ok_def approval_ok_def
    by (auto simp: escalate_def jmap.get_put status_ok_def key_token_def esc_key_def split: prod.splits)
  moreover have "passed_ok ?t = passed_ok s" by (rule passed_ok_cong) (simp add: escalate_def)
  ultimately show ?thesis
    using assms by (auto simp: approval_ok_def resolving_ok_def escalate_def unused_def)
qed

lemma approval_ok_gate_call:
  assumes "approval_ok s" "unused n s"
  shows "approval_ok (gate_call opts n c s)"
  using assms unfolding gate_call_def
  by (auto simp: unused_def passed_ok_def intro!: approval_ok_answer approval_ok_escalate split: option.splits bool.splits)

lemma approval_ok_unwait:
  assumes "approval_ok s" "jm_get (ap_waiting s) n = Some (k, a)"
  shows "approval_ok (s\<lparr>ap_waiting := jm_delete n (ap_waiting s), ap_bus := b\<rparr>)"
    "n \<notin> fst ` set (ap_answers s)" "n \<notin> fst ` set (jm_delete n (ap_waiting s))"
proof -
  have "distinct (map fst (ap_waiting s))" using assms(1) by (simp add: approval_ok_def)
  moreover have "passed_ok (s\<lparr>ap_waiting := jm_delete n (ap_waiting s), ap_bus := b\<rparr>) = passed_ok s"
    by (rule passed_ok_cong) simp
  ultimately show "approval_ok (s\<lparr>ap_waiting := jm_delete n (ap_waiting s), ap_bus := b\<rparr>)"
    using assms(1) by (auto simp: approval_ok_def waiting_ok_def resolving_ok_def set_jm_delete distinct_jm_delete)
  show "n \<notin> fst ` set (ap_answers s)" "n \<notin> fst ` set (jm_delete n (ap_waiting s))"
    using assms jm_get_in [OF assms(2)] by (force simp: approval_ok_def set_jm_delete)+
qed

lemma waiting_token:
  assumes "approval_ok s" "jm_get (ap_waiting s) n = Some (k, a)"
  shows "key_token k = asker_token a"
  using assms jm_get_in [OF assms(2)] by (auto simp: approval_ok_def waiting_ok_def)

lemma waiting_status:
  assumes "approval_ok s" "jm_get (ap_waiting s) n = Some (k, a)" "jm_get (ap_files s) k = Some e"
  shows "status_ok (ap_requests s) (key_token k) (es_status e)"
  using assms jm_get_in [OF assms(2)] by (fastforce simp: approval_ok_def waiting_ok_def)

lemma decided_allowed: "decided a d m = Allowed \<Longrightarrow> d = Approve"
  by (cases d) (auto simp: decided_def split: esc_asker.splits)

lemma approval_ok_poll:
  assumes "approval_ok s"
  shows "approval_ok (poll_file n s)"
proof (cases "jm_get (ap_waiting s) n")
  case None
  then show ?thesis using assms by (simp add: poll_file_def)
next
  case (Some ka)
  obtain k a where ka: "ka = (k, a)" by (cases ka)
  show ?thesis
  proof (cases "jm_get (ap_files s) k")
    case None
    then show ?thesis using assms Some ka by (simp add: poll_file_def)
  next
    case (Some e)
    note w = \<open>jm_get (ap_waiting s) n = Some ka\<close> [unfolded ka]
    note st = waiting_status [OF assms w Some] and tok = waiting_token [OF assms w]
    show ?thesis
    proof (cases "es_status e")
      case Pending
      then show ?thesis using assms Some w by (simp add: poll_file_def)
    next
      case (Resolved d m)
      let ?s = "s\<lparr>ap_waiting := jm_delete n (ap_waiting s), ap_bus := ap_bus s @ [Esc_resolved (snd (snd (snd k))) d m]\<rparr>"
      have "passed_ok ?s (n, a, decided a d m)"
        using st tok Resolved decided_allowed [of a d m]
        by (auto simp: passed_ok_def status_ok_def split: esc_asker.splits gate_result.splits)
      then have "approval_ok (gate_answer n a (decided a d m) ?s)"
        using approval_ok_unwait [OF assms w] by (intro approval_ok_answer) auto
      then show ?thesis using Some w Resolved by (simp add: poll_file_def)
    qed
  qed
qed

lemma approval_ok_abort:
  assumes "approval_ok s"
  shows "approval_ok (abort_wait n s)"
proof (cases "jm_get (ap_waiting s) n")
  case None
  then show ?thesis using assms by (simp add: abort_wait_def)
next
  case (Some ka)
  obtain k a where ka: "ka = (k, a)" by (cases ka)
  note w = Some [unfolded ka]
  from approval_ok_unwait [OF assms w] approval_ok_unwait(1) [OF assms w, of "ap_bus s"] w
  show ?thesis
    by (cases a) (auto simp: abort_wait_def passed_ok_def intro!: approval_ok_answer)
qed

lemma find_holds: "find P xs = Some x \<Longrightarrow> x \<in> set xs \<and> P x"
  by (auto simp: find_Some_iff)

lemma locate_token: "locate token s = Some (k, e) \<Longrightarrow> key_token k = token"
  unfolding locate_def by (drule find_holds) (auto simp: key_token_def split: prod.splits)

lemma approval_ok_http: "approval_ok (http rid st s) = approval_ok s"
proof -
  have "passed_ok (http rid st s) = passed_ok s" by (rule passed_ok_cong) (simp add: http_def)
  then show ?thesis by (simp add: approval_ok_def waiting_ok_def resolving_ok_def http_def)
qed

lemma approval_ok_requested:
  assumes "approval_ok s"
  shows "approval_ok (s\<lparr>ap_requests := ap_requests s @ rs\<rparr>)"
  using assms unfolding approval_ok_def waiting_ok_def resolving_ok_def
  by (auto simp: list_all_iff intro: status_ok_more passed_ok_more) (fastforce intro: status_ok_more)+

lemma approval_ok_resolving:
  assumes "approval_ok s" "status_ok (ap_requests s) (key_token k) (es_status e)"
  shows "approval_ok (s\<lparr>ap_resolving := ap_resolving s @ [(rid, k, e)]\<rparr>)"
proof -
  have "passed_ok (s\<lparr>ap_resolving := ap_resolving s @ [(rid, k, e)]\<rparr>) = passed_ok s" by (rule passed_ok_cong) simp
  then show ?thesis using assms by (auto simp: approval_ok_def waiting_ok_def resolving_ok_def)
qed

lemma approval_ok_request:
  assumes "approval_ok s"
  shows "approval_ok (resolve_request rid token body s)"
proof -
  have "approval_ok (s\<lparr>ap_requests := ap_requests s @ [(token, d)],
      ap_resolving := ap_resolving s @ [(rid, k, e\<lparr>es_status := Resolved d m\<rparr>)]\<rparr>)"
    if "key_token k = token" for d m k e
    using approval_ok_resolving [OF approval_ok_requested [OF assms, of "[(token, d)]"], of k "e\<lparr>es_status := Resolved d m\<rparr>" rid] that
    by (simp add: status_ok_def)
  then show ?thesis using assms
    by (auto simp: resolve_request_def Let_def approval_ok_http approval_ok_requested locate_token
        split: option.splits esc_status.splits)
qed

lemma approval_ok_write:
  assumes "approval_ok s"
  shows "approval_ok (resolve_write rid s)"
proof (cases "jm_get (ap_resolving s) rid")
  case None
  then show ?thesis using assms by (simp add: resolve_write_def)
next
  case (Some ke)
  obtain k e where ke: "ke = (k, e)" by (cases ke)
  let ?s = "s\<lparr>ap_files := jm_set k e (ap_files s), ap_resolving := jm_delete rid (ap_resolving s)\<rparr>"
  have st: "status_ok (ap_requests s) (key_token k) (es_status e)"
    using assms jm_get_in [OF Some [unfolded ke]] by (auto simp: approval_ok_def resolving_ok_def)
  have "waiting_ok ?s"
    using assms st unfolding approval_ok_def waiting_ok_def by (auto simp: jmap.get_put split: prod.splits)
  moreover have "passed_ok ?s = passed_ok s" by (rule passed_ok_cong) simp
  ultimately have "approval_ok ?s"
    using assms by (auto simp: approval_ok_def resolving_ok_def set_jm_delete)
  then show ?thesis using Some ke by (simp add: resolve_write_def approval_ok_http)
qed

lemma approval_ok_step: "approval_step s t \<Longrightarrow> approval_ok s \<Longrightarrow> approval_ok t"
  by (erule approval_stepE)
    (auto simp: tool_call_escalates_def intro!: approval_ok_gate_call approval_ok_escalate approval_ok_poll approval_ok_abort
      approval_ok_request approval_ok_write)

lemma approval_ok_new: "approval_ok (new_approval files)"
  by (simp add: approval_ok_def new_approval_def waiting_ok_def resolving_ok_def)

lemma approval_ok_reaches: "approval_reaches s t \<Longrightarrow> approval_ok s \<Longrightarrow> approval_ok t"
  by (induction rule: approval_reaches.induct) (auto intro: approval_ok_step)

section \<open>Every escalation is settled once\<close>

definition tokens_requested :: "esc_event list \<Rightarrow> jstr multiset" where
  "tokens_requested es = mset (concat (map (\<lambda>e. case e of Esc_requested t p \<Rightarrow> [t] | _ \<Rightarrow> []) es))"

definition tokens_resolved :: "esc_event list \<Rightarrow> jstr multiset" where
  "tokens_resolved es = mset (concat (map (\<lambda>e. case e of Esc_resolved t d m \<Rightarrow> [t] | _ \<Rightarrow> []) es))"

definition tokens_waiting :: "approval \<Rightarrow> jstr multiset" where
  "tokens_waiting s = mset (map (\<lambda>(n, k, a). asker_token a) (ap_waiting s))"

text \<open>The \<open>escalate\<close> tool's calls that were aborted.\<close>

definition tokens_aborted :: "(nat \<times> esc_asker \<times> gate_result) list \<Rightarrow> jstr multiset" where
  "tokens_aborted as = mset (concat (map (\<lambda>(n, a, r). case (a, r) of (By_tool opts i p, Threw e) \<Rightarrow> [esc_token opts i] | _ \<Rightarrow> []) as))"

definition settled_ok :: "approval \<Rightarrow> bool" where
  "settled_ok s = (tokens_requested (ap_bus s) = tokens_resolved (ap_bus s) + tokens_waiting s + tokens_aborted (ap_answers s))"

lemma tokens_simps [simp]:
  "tokens_requested (es @ [Esc_requested t p]) = add_mset t (tokens_requested es)"
  "tokens_requested (es @ [Esc_resolved t d m]) = tokens_requested es"
  "tokens_resolved (es @ [Esc_requested t p]) = tokens_resolved es"
  "tokens_resolved (es @ [Esc_resolved t d m]) = add_mset t (tokens_resolved es)"
  "tokens_aborted (as @ [(n, By_gate opts c, r)]) = tokens_aborted as"
  "tokens_aborted (as @ [(n, By_tool opts i q, Threw e)]) = add_mset (esc_token opts i) (tokens_aborted as)"
  by (simp_all add: tokens_requested_def tokens_resolved_def tokens_aborted_def)

lemma tokens_aborted_decided [simp]: "tokens_aborted (as @ [(n, a, decided a d m)]) = tokens_aborted as"
  by (simp add: tokens_aborted_def decided_def split: esc_asker.split decision.split)

lemma tokens_unwait:
  assumes "approval_ok s" "jm_get (ap_waiting s) n = Some (k, a)"
  shows "tokens_waiting s = add_mset (asker_token a) (mset (map (\<lambda>(n, k, a). asker_token a) (jm_delete n (ap_waiting s))))"
proof -
  have "distinct (map fst (ap_waiting s))" using assms(1) by (simp add: approval_ok_def)
  from delete_key_mset [OF this assms(2)] show ?thesis by (simp add: tokens_waiting_def)
qed

lemma settled_escalate:
  "settled_ok s \<Longrightarrow> asker_token a = esc_token opts i \<Longrightarrow> settled_ok (escalate opts n i a payload prompt s)"
  by (simp add: settled_ok_def escalate_def tokens_waiting_def)

lemma settled_gate: "settled_ok s \<Longrightarrow> settled_ok (gate_answer n (By_gate opts c) r s)"
  by (simp add: settled_ok_def gate_answer_def tokens_waiting_def)

lemma settled_poll: "approval_ok s \<Longrightarrow> settled_ok s \<Longrightarrow> settled_ok (poll_file n s)"
  using waiting_token [of s n] tokens_unwait [of s n]
  by (auto simp: poll_file_def settled_ok_def gate_answer_def tokens_waiting_def key_token_def
      split: option.splits prod.splits esc_status.splits)

lemma settled_abort: "approval_ok s \<Longrightarrow> settled_ok s \<Longrightarrow> settled_ok (abort_wait n s)"
  using waiting_token [of s n] tokens_unwait [of s n]
  by (auto simp: abort_wait_def settled_ok_def gate_answer_def tokens_waiting_def key_token_def Let_def
      split: option.splits prod.splits esc_asker.splits)

lemma settled_request: "settled_ok (resolve_request rid token body s) = settled_ok s" "settled_ok (resolve_write rid s) = settled_ok s"
  by (auto simp: resolve_request_def resolve_write_def http_def settled_ok_def tokens_waiting_def Let_def
      split: option.splits prod.splits esc_status.splits)

lemma settled_step: "approval_step s t \<Longrightarrow> approval_ok s \<Longrightarrow> settled_ok s \<Longrightarrow> settled_ok t"
  by (erule approval_stepE)
    (auto simp: tool_call_escalates_def gate_call_def settled_request intro: settled_escalate settled_gate settled_poll settled_abort
      split: option.split bool.split)

lemma settled_reaches: "approval_reaches s t \<Longrightarrow> approval_ok s \<Longrightarrow> settled_ok s \<Longrightarrow> settled_ok t"
proof (induction rule: approval_reaches.induct)
  case (turn s t u)
  then show ?case using settled_step approval_ok_reaches by blast
qed

section \<open>An example\<close>

definition demo_gate :: gate_opts where
  "demo_gate = \<lparr>ga_workspace = js ''w'', ga_team = js ''t'', ga_session = js ''S1'', ga_autoApprove = False, ga_autoReject = False\<rparr>"

definition demo_tap :: tool_call where
  "demo_tap = \<lparr>tc_id = js ''c1'', tc_name = js ''bash'', tc_command = js ''otacon tap 1 2'', tc_rationale = []\<rparr>"

definition demo_approved :: approval where
  "demo_approved = poll_file 0 (resolve_write 7 (resolve_request 7 (js ''S1:c1'') (Some (JObj [(js ''decision'', JStr (js ''approve''))]))
     (gate_call demo_gate 0 demo_tap (new_approval []))))"

lemma demo_mutating: "isMutating (js ''otacon tap 1 2'') = Some True"
  by (simp add: isMutating_def otacon_match_def isMutatingOtacon_def after_def trim_def trim_start_def trim_end_def js_space_def js_def
      starts_with_def line_end_def otaconRegistry_def SUBCOMMAND_MATRIX_def ALWAYS_MUTATING_def INHERITED_def jm_get_def Let_def)

lemma demo_call:
  "gate_call demo_gate 0 demo_tap (new_approval []) =
     escalate demo_gate 0 (js ''c1'') (By_gate demo_gate demo_tap) (gate_payload demo_tap) (gate_prompt demo_tap) (new_approval [])"
  by (simp add: gate_call_def demo_tap_def demo_gate_def demo_mutating)

lemma demo_keys: "esc_token demo_gate (js ''c1'') = js ''S1:c1''" "token_session (js ''S1:c1'') = js ''S1''"
  "esc_key demo_gate (js ''c1'') = (js ''w'', js ''t'', js ''S1'', js ''S1:c1'')"
  by (simp_all add: esc_token_def token_session_def esc_key_def demo_gate_def js_def)

definition demo_pending :: approval where
  "demo_pending = \<lparr>ap_files = [((js ''w'', js ''t'', js ''S1'', js ''S1:c1''),
       \<lparr>es_token = js ''S1:c1'', es_payload = gate_payload demo_tap, es_status = Pending\<rparr>)],
     ap_waiting = [(0, (js ''w'', js ''t'', js ''S1'', js ''S1:c1''), By_gate demo_gate demo_tap)], ap_answers = [],
     ap_bus = [Esc_requested (js ''S1:c1'') (gate_prompt demo_tap)], ap_resolving = [], ap_requests = [], ap_http = []\<rparr>"

lemma demo_call_pending: "gate_call demo_gate 0 demo_tap (new_approval []) = demo_pending"
  unfolding demo_call by (simp add: escalate_def new_approval_def demo_pending_def demo_keys jm_set_def)

lemmas demo_eval = demo_pending_def resolve_request_def resolve_write_def poll_file_def body_decision_def body_message_def
  locate_def http_def gate_answer_def jm_get_def jm_set_def jm_delete_def decided_def Let_def

lemma demo_reaches: "approval_reaches (new_approval []) demo_approved"
proof -
  let ?s2 = "resolve_request 7 (js ''S1:c1'') (Some (JObj [(js ''decision'', JStr (js ''approve''))])) demo_pending"
  have "approval_step (new_approval []) demo_pending"
    using approval_step.gate [of 0 "new_approval []" demo_gate demo_tap]
    by (simp add: demo_call_pending) (simp add: unused_def new_approval_def)
  with approval_reaches.start have "approval_reaches (new_approval []) demo_pending" by (rule approval_reaches.turn)
  moreover have "approval_step demo_pending ?s2"
    by (rule approval_step.request) (simp add: unused_request_def demo_pending_def)
  ultimately have "approval_reaches (new_approval []) ?s2" by (rule approval_reaches.turn)
  then have "approval_reaches (new_approval []) (resolve_write 7 ?s2)" using approval_step.written by (rule approval_reaches.turn)
  then show ?thesis unfolding demo_approved_def demo_call_pending using approval_step.poll by (rule approval_reaches.turn)
qed

lemma demo_answer: "ap_answers demo_approved = [(0, By_gate demo_gate demo_tap, Allowed)]"
  by (simp add: demo_approved_def demo_call_pending demo_keys demo_eval)

lemma trim_end_append: "trim_end (a @ b) = (if trim_end b = [] then trim_end a else a @ trim_end b)"
  by (simp add: trim_end_def dropWhile_append)

section \<open>Properties\<close>



text \<open>
  C18: every escalation is settled once. In every state the server can reach, each escalation announced
  to the clients has been announced as resolved, is still waiting, or was an \<open>escalate\<close> call that was
  aborted (which is never announced as resolved); and no call is answered twice, nor while it waits.
\<close>

theorem escalations_settle_once:
  assumes "approval_reaches (new_approval files) s"
  shows "tokens_requested (ap_bus s) = tokens_resolved (ap_bus s) + tokens_waiting s + tokens_aborted (ap_answers s)
    \<and> distinct (map fst (ap_waiting s) @ map fst (ap_answers s))"
proof -
  have "settled_ok (new_approval files)"
    by (simp add: settled_ok_def new_approval_def tokens_requested_def tokens_resolved_def tokens_waiting_def tokens_aborted_def)
  from settled_reaches [OF assms approval_ok_new this] approval_ok_reaches [OF assms approval_ok_new]
  show ?thesis by (simp add: settled_ok_def approval_ok_def)
qed

theorem escalations_settle_once_witness:
  "tokens_requested (ap_bus demo_approved) = tokens_resolved (ap_bus demo_approved) + tokens_waiting demo_approved
    + tokens_aborted (ap_answers demo_approved)"
  using escalations_settle_once [OF demo_reaches] by simp

text \<open>
  C28: a decision reaches the call that waits for it. A request that resolves a pending escalation, once
  its file is written, is what the next reading of the file gives the waiting call: let through,
  blocked with the message, or the answer of the \<open>escalate\<close> tool.
\<close>

theorem decision_reaches_the_call:
  assumes "jm_get (ap_waiting s) n = Some (k, a)" "locate token s = Some (k, e)" "es_status e = Pending" "token_session token \<noteq> []"
    "body_decision body = Some d" "body_message body = Some m" "rid \<notin> fst ` set (ap_resolving s)"
  shows "ap_answers (poll_file n (resolve_write rid (resolve_request rid token (Some body) s))) = ap_answers s @ [(n, a, decided a d m)]"
proof -
  have "locate token (s\<lparr>ap_requests := r\<rparr>) = Some (k, e)" for r using assms(2) by (simp add: locate_def)
  moreover have "jm_get (ap_resolving s @ [(rid, x)]) rid = Some x" for x
    using assms(7) by (simp add: jm_get_def map_add_def map_of_eq_None_iff [THEN iffD2])
  moreover have "body \<noteq> JNull" using assms(5) by (auto simp: body_decision_def)
  ultimately show ?thesis
    using assms(1,3-6) by (simp add: resolve_request_def resolve_write_def poll_file_def http_def gate_answer_def Let_def)
qed

theorem decision_reaches_the_call_witness:
  "ap_answers demo_approved = [(0, By_gate demo_gate demo_tap, Allowed)]"
proof -
  let ?k = "(js ''w'', js ''t'', js ''S1'', js ''S1:c1'')"
  let ?e = "\<lparr>es_token = js ''S1:c1'', es_payload = gate_payload demo_tap, es_status = Pending\<rparr>"
  have w: "jm_get (ap_waiting demo_pending) 0 = Some (?k, By_gate demo_gate demo_tap)" "locate (js ''S1:c1'') demo_pending = Some (?k, ?e)"
    "ap_answers demo_pending = []" "ap_resolving demo_pending = []"
    by (simp_all add: demo_keys demo_pending_def jm_get_def locate_def)
  have "ap_answers demo_approved = ap_answers demo_pending @ [(0, By_gate demo_gate demo_tap, decided (By_gate demo_gate demo_tap) Approve None)]"
    unfolding demo_approved_def demo_call_pending
    by (rule decision_reaches_the_call [OF w(1,2)])
      (simp_all add: w(4) demo_keys body_decision_def body_message_def jm_get_def)
  then show ?thesis by (simp add: w(3) decided_def)
qed


text \<open>
  What two requests at once do. A request checks that the escalation is pending and writes the
  decision after another read of the file; a second one may check in between. Then both are told they
  succeeded, and the file ends up saying that a command was rejected which was let through.
\<close>

lemma two_requests_both_succeed:
  "(let s = resolve_write 2 (poll_file 0 (resolve_write 1
       (resolve_request 2 (js ''S1:c1'') (Some (JObj [(js ''decision'', JStr (js ''reject''))]))
         (resolve_request 1 (js ''S1:c1'') (Some (JObj [(js ''decision'', JStr (js ''approve''))]))
           (gate_call demo_gate 0 demo_tap (new_approval []))))))
    in (map snd (ap_http s), map (\<lambda>(n, a, r). r) (ap_answers s), map (\<lambda>(k, e). es_status e) (ap_files s)))
   = ([200, 200], [Allowed], [Resolved Reject None])"
proof -
  let ?k = "(js ''w'', js ''t'', js ''S1'', js ''S1:c1'')"
  let ?e = "\<lambda>st. \<lparr>es_token = js ''S1:c1'', es_payload = gate_payload demo_tap, es_status = st\<rparr>"
  let ?b = "\<lambda>d. Some (JObj [(js ''decision'', JStr d)])"
  have b: "body_decision (JObj [(js ''decision'', JStr (js ''approve''))]) = Some Approve"
    "body_decision (JObj [(js ''decision'', JStr (js ''reject''))]) = Some Reject" "body_message (JObj [(js ''decision'', JStr d)]) = Some None" for d
    by (simp_all add: body_decision_def body_message_def jm_get_def)
  have "resolve_request 2 (js ''S1:c1'') (?b (js ''reject'')) (resolve_request 1 (js ''S1:c1'') (?b (js ''approve'')) demo_pending)
    = demo_pending\<lparr>ap_requests := [(js ''S1:c1'', Approve), (js ''S1:c1'', Reject)],
        ap_resolving := [(1, ?k, ?e (Resolved Approve None)), (2, ?k, ?e (Resolved Reject None))]\<rparr>" (is "?two = ?s")
    by (simp add: resolve_request_def b locate_def demo_keys demo_pending_def Let_def)
  moreover have "poll_file 0 (resolve_write 1 ?s) = ?s\<lparr>ap_files := [(?k, ?e (Resolved Approve None))],
      ap_resolving := [(2, ?k, ?e (Resolved Reject None))], ap_waiting := [], ap_answers := [(0, By_gate demo_gate demo_tap, Allowed)],
      ap_bus := [Esc_requested (js ''S1:c1'') (gate_prompt demo_tap), Esc_resolved (js ''S1:c1'') Approve None], ap_http := [(1, 200)]\<rparr>"
    by (simp add: poll_file_def resolve_write_def http_def gate_answer_def decided_def demo_pending_def jm_get_def jm_set_def jm_delete_def)
  ultimately show ?thesis
    by (simp add: demo_call_pending resolve_write_def http_def jm_get_def jm_set_def jm_delete_def)
qed

end
