(* ===== verification/Files.thy ===== *)
theory Files
  imports Json "HOL-Library.Sublist"
begin

text \<open>
  The orchestrator's data directory: paths (\<open>storage/paths.ts\<close> and Node's \<open>path.join\<close>), the files
  below them, and the error codes of the HTTP API (\<open>server/errors.ts\<close>). A path is the list of names
  from the file system's root, as the operating system resolves it, so \<open>..\<close> and empty names are gone
  and two spellings of a file are one path. A file holds what the program writes to it, before it is
  turned into JSON or YAML (\<open>'c\<close>, each store's own). A directory exists when it was made or something
  lies below it. Reading finds a file or doesn't; other disk errors are left out.
\<close>

section \<open>Paths\<close>

type_synonym fpath = "jstr list"

text \<open>One name of a path, and \<open>path.join(p, s)\<close>.\<close>

definition push_name :: "fpath \<Rightarrow> jstr \<Rightarrow> fpath" where
  "push_name p s = (if s = [] \<or> s = js ''.'' then p else if s = js ''..'' then butlast p else p @ [s])"

definition down :: "fpath \<Rightarrow> jstr \<Rightarrow> fpath" where
  "down p s = foldl push_name p (split_on 47 s)"

definition node_join :: "fpath \<Rightarrow> jstr list \<Rightarrow> fpath" where
  "node_join p ss = foldl down p ss"

definition workspaceDir :: "fpath \<Rightarrow> jstr \<Rightarrow> fpath" where
  "workspaceDir root ws = node_join root [js ''workspaces'', ws]"

definition workspaceFile :: "fpath \<Rightarrow> jstr \<Rightarrow> fpath" where
  "workspaceFile root ws = node_join (workspaceDir root ws) [js ''workspace.json'']"

definition workspaceCredentialsFile :: "fpath \<Rightarrow> jstr \<Rightarrow> fpath" where
  "workspaceCredentialsFile root ws = node_join (workspaceDir root ws) [js ''credentials.json'']"

definition workspaceEnvDir :: "fpath \<Rightarrow> jstr \<Rightarrow> fpath" where
  "workspaceEnvDir root ws = node_join (workspaceDir root ws) [js ''env'']"

definition workspaceMemoryDir :: "fpath \<Rightarrow> jstr \<Rightarrow> fpath" where
  "workspaceMemoryDir root ws = node_join (workspaceDir root ws) [js ''memory'']"

definition teamSessionsRoot :: "fpath \<Rightarrow> jstr \<Rightarrow> jstr \<Rightarrow> fpath" where
  "teamSessionsRoot root ws team = node_join (workspaceDir root ws) [js ''teams'', team, js ''sessions'']"

definition teamLastSessionFile :: "fpath \<Rightarrow> jstr \<Rightarrow> jstr \<Rightarrow> fpath" where
  "teamLastSessionFile root ws team = node_join (workspaceDir root ws) [js ''teams'', team, js ''last-session.txt'']"

definition sessionDir :: "fpath \<Rightarrow> jstr \<Rightarrow> jstr \<Rightarrow> jstr \<Rightarrow> fpath" where
  "sessionDir root ws team sid = node_join (teamSessionsRoot root ws team) [sid]"

definition sessionMetaFile :: "fpath \<Rightarrow> jstr \<Rightarrow> jstr \<Rightarrow> jstr \<Rightarrow> fpath" where
  "sessionMetaFile root ws team sid = node_join (sessionDir root ws team sid) [js ''session.json'']"

definition sessionMessagesFile :: "fpath \<Rightarrow> jstr \<Rightarrow> jstr \<Rightarrow> jstr \<Rightarrow> fpath" where
  "sessionMessagesFile root ws team sid = node_join (sessionDir root ws team sid) [js ''messages.jsonl'']"

definition sessionEventsFile :: "fpath \<Rightarrow> jstr \<Rightarrow> jstr \<Rightarrow> jstr \<Rightarrow> fpath" where
  "sessionEventsFile root ws team sid = node_join (sessionDir root ws team sid) [js ''events.jsonl'']"

definition sessionSandboxDir :: "fpath \<Rightarrow> jstr \<Rightarrow> jstr \<Rightarrow> jstr \<Rightarrow> fpath" where
  "sessionSandboxDir root ws team sid = node_join (sessionDir root ws team sid) [js ''sandbox'']"

definition sessionTracesDir :: "fpath \<Rightarrow> jstr \<Rightarrow> jstr \<Rightarrow> jstr \<Rightarrow> fpath" where
  "sessionTracesDir root ws team sid = node_join (sessionDir root ws team sid) [js ''traces'']"

definition sessionEscalationsDir :: "fpath \<Rightarrow> jstr \<Rightarrow> jstr \<Rightarrow> jstr \<Rightarrow> fpath" where
  "sessionEscalationsDir root ws team sid = node_join (sessionDir root ws team sid) [js ''escalations'']"

definition teamRoot :: "fpath \<Rightarrow> jstr \<Rightarrow> fpath" where
  "teamRoot root team = node_join root [js ''teams'', team]"

definition teamConfigFileJson :: "fpath \<Rightarrow> jstr \<Rightarrow> fpath" where
  "teamConfigFileJson root team = node_join (teamRoot root team) [js ''team.json'']"

definition teamConfigFileYaml :: "fpath \<Rightarrow> jstr \<Rightarrow> fpath" where
  "teamConfigFileYaml root team = node_join (teamRoot root team) [js ''team.yaml'']"

definition teamPromptsDir :: "fpath \<Rightarrow> jstr \<Rightarrow> fpath" where
  "teamPromptsDir root team = node_join (teamRoot root team) [js ''prompts'']"

definition teamPromptFile :: "fpath \<Rightarrow> jstr \<Rightarrow> jstr \<Rightarrow> fpath" where
  "teamPromptFile root team f = node_join (teamRoot root team) [js ''prompts'', f]"

section \<open>Files\<close>

datatype 'c node = N_dir | N_file 'c

type_synonym 'c files = "(fpath \<times> 'c node) list"

definition file_read :: "'c files \<Rightarrow> fpath \<Rightarrow> 'c option" where
  "file_read fs p = (case jm_get fs p of Some (N_file c) \<Rightarrow> Some c | _ \<Rightarrow> None)"

definition file_write :: "fpath \<Rightarrow> 'c \<Rightarrow> 'c files \<Rightarrow> 'c files" where
  "file_write p c fs = jm_set p (N_file c) fs"

definition is_dir :: "'c files \<Rightarrow> fpath \<Rightarrow> bool" where
  "is_dir fs p = (jm_get fs p = Some N_dir \<or> list_ex (\<lambda>q. strict_prefix p (fst q)) fs)"

definition exists_path :: "'c files \<Rightarrow> fpath \<Rightarrow> bool" where
  "exists_path fs p = (jm_get fs p \<noteq> None \<or> is_dir fs p)"

definition make_dir :: "fpath \<Rightarrow> 'c files \<Rightarrow> 'c files" where
  "make_dir p fs = (if exists_path fs p then fs else jm_set p N_dir fs)"

text \<open>The names in a directory; \<open>readdir\<close> of a missing one fails.\<close>

definition list_names :: "'c files \<Rightarrow> fpath \<Rightarrow> jstr list" where
  "list_names fs p = remdups (map (\<lambda>q. fst q ! length p) (filter (\<lambda>q. strict_prefix p (fst q)) fs))"

definition read_dir :: "'c files \<Rightarrow> fpath \<Rightarrow> jstr list option" where
  "read_dir fs p = (if is_dir fs p then Some (list_names fs p) else None)"

definition file_remove :: "fpath \<Rightarrow> 'c files \<Rightarrow> 'c files" where
  "file_remove p fs = jm_delete p fs"

definition tree_remove :: "fpath \<Rightarrow> 'c files \<Rightarrow> 'c files" where
  "tree_remove p fs = filter (\<lambda>q. \<not> prefix p (fst q)) fs"

text \<open>The bytes of a text in UTF-8; half a surrogate pair alone is written as U+FFFD.\<close>

fun utf8_size :: "jstr \<Rightarrow> nat" where
  "utf8_size [] = 0"
| "utf8_size [c] = (if c < 128 then 1 else if c < 2048 then 2 else 3)"
| "utf8_size (c # d # cs) = (if 55296 \<le> c \<and> c < 56320 \<and> 56320 \<le> d \<and> d < 57344 then 4 + utf8_size cs
     else (if c < 128 then 1 else if c < 2048 then 2 else 3) + utf8_size (d # cs))"

section \<open>Names that stay where they are put\<close>

definition plain :: "jstr \<Rightarrow> bool" where
  "plain s = (s \<noteq> [] \<and> s \<noteq> js ''.'' \<and> s \<noteq> js ''..'' \<and> 47 \<notin> set s)"

lemma split_on_plain: "c \<notin> set s \<Longrightarrow> split_on c s = [s]"
  by (induction s) auto

lemma down_plain: "plain s \<Longrightarrow> down p s = p @ [s]"
  by (simp add: down_def plain_def split_on_plain push_name_def)

lemma plain_js [simp]: "plain (js s) = (s \<noteq> '''' \<and> s \<noteq> ''.'' \<and> s \<noteq> ''..'' \<and> CHR ''/'' \<notin> set s)"
proof -
  have "(47 \<in> set (js s)) = (CHR ''/'' \<in> set s)"
  proof -
    have "of_char c = (47 :: nat) \<longleftrightarrow> c = CHR ''/''" for c
      using of_char_eq_iff [of c "CHR ''/''", where 'a = nat] by simp
    then show ?thesis by (auto simp: js_def image_iff)
  qed
  then show ?thesis by (simp add: plain_def)
qed

lemma node_join_plain: "list_all plain ss \<Longrightarrow> node_join p ss = p @ ss"
  by (induction ss arbitrary: p) (simp_all add: node_join_def down_plain)

lemma node_join_append: "node_join p (ss @ ts) = node_join (node_join p ss) ts"
  by (simp add: node_join_def)

text \<open>Where the program's files lie when ids are plain names.\<close>

lemma workspace_files_at:
  assumes "plain ws"
  shows "workspaceDir root ws = root @ [js ''workspaces'', ws]"
    "workspaceFile root ws = root @ [js ''workspaces'', ws, js ''workspace.json'']"
    "workspaceCredentialsFile root ws = root @ [js ''workspaces'', ws, js ''credentials.json'']"
    "workspaceEnvDir root ws = root @ [js ''workspaces'', ws, js ''env'']"
    "workspaceMemoryDir root ws = root @ [js ''workspaces'', ws, js ''memory'']"
  using assms by (simp_all add: workspaceDir_def workspaceFile_def workspaceCredentialsFile_def workspaceEnvDir_def workspaceMemoryDir_def node_join_plain)

lemma session_files_at:
  assumes "plain ws" "plain team" "plain sid"
  shows "sessionDir root ws team sid = root @ [js ''workspaces'', ws, js ''teams'', team, js ''sessions'', sid]"
    "sessionMetaFile root ws team sid = sessionDir root ws team sid @ [js ''session.json'']"
    "sessionMessagesFile root ws team sid = sessionDir root ws team sid @ [js ''messages.jsonl'']"
    "sessionEventsFile root ws team sid = sessionDir root ws team sid @ [js ''events.jsonl'']"
    "sessionTracesDir root ws team sid = sessionDir root ws team sid @ [js ''traces'']"
    "sessionSandboxDir root ws team sid = sessionDir root ws team sid @ [js ''sandbox'']"
    "sessionEscalationsDir root ws team sid = sessionDir root ws team sid @ [js ''escalations'']"
    "teamLastSessionFile root ws team = root @ [js ''workspaces'', ws, js ''teams'', team, js ''last-session.txt'']"
  using assms
  by (simp_all add: sessionDir_def teamSessionsRoot_def workspaceDir_def sessionMetaFile_def sessionMessagesFile_def sessionEventsFile_def
      sessionTracesDir_def sessionSandboxDir_def sessionEscalationsDir_def teamLastSessionFile_def node_join_plain)

lemma team_files_at:
  assumes "plain team"
  shows "teamRoot root team = root @ [js ''teams'', team]"
    "teamConfigFileYaml root team = root @ [js ''teams'', team, js ''team.yaml'']"
    "teamConfigFileJson root team = root @ [js ''teams'', team, js ''team.json'']"
    "teamPromptsDir root team = root @ [js ''teams'', team, js ''prompts'']"
    "plain f \<Longrightarrow> teamPromptFile root team f = root @ [js ''teams'', team, js ''prompts'', f]"
  using assms
  by (simp_all add: teamRoot_def teamConfigFileYaml_def teamConfigFileJson_def teamPromptsDir_def teamPromptFile_def node_join_plain)

section \<open>Reading what was written\<close>

interpretation disk: keyed_store file_read file_write file_remove
proof unfold_locales
  fix p q :: fpath and c :: 'a and fs :: "'a files"
  show "file_read (file_write p c fs) q = (if q = p then Some c else file_read fs q)"
    by (simp add: file_read_def file_write_def jmap.get_put)
  show "file_read (file_remove p fs) q = (if q = p then None else file_read fs q)"
    by (simp add: file_read_def file_remove_def jmap.get_del)
qed

lemma file_read_make_dir [simp]: "file_read (make_dir p fs) q = file_read fs q"
  by (simp add: make_dir_def file_read_def jmap.get_put exists_path_def)

lemma jm_get_filter: "jm_get (filter (\<lambda>q. P (fst q)) fs) p = (if P p then jm_get fs p else None)"
  by (induction fs) (auto simp: jm_get_def)

lemma file_read_tree_remove: "file_read (tree_remove p fs) q = (if prefix p q then None else file_read fs q)"
  using jm_get_filter [of "\<lambda>q. \<not> prefix p q" fs q] by (simp add: file_read_def tree_remove_def)

lemma file_read_in: "file_read fs p = Some c \<Longrightarrow> (p, N_file c) \<in> set fs"
  by (auto simp: file_read_def jm_get_def split: option.splits node.splits dest: map_of_SomeD)

text \<open>Everything there is satisfies a property of its path and what it is.\<close>

definition holds :: "(fpath \<Rightarrow> 'c node \<Rightarrow> bool) \<Rightarrow> 'c files \<Rightarrow> bool" where
  "holds P fs = (\<forall>q\<in>set fs. P (fst q) (snd q))"

lemma holdsD: "holds P fs \<Longrightarrow> file_read fs p = Some c \<Longrightarrow> P p (N_file c)"
  by (force simp: holds_def dest: file_read_in)

lemma in_jm_set: "q \<in> set (jm_set k v m) \<Longrightarrow> q = (k, v) \<or> q \<in> set m"
  by (induction m) (auto simp: jm_set_def split: if_splits)

lemma holds_Nil [simp]: "holds P []"
  by (simp add: holds_def)

lemma holds_write [inv_intros]: "holds P fs \<Longrightarrow> P p (N_file c) \<Longrightarrow> holds P (file_write p c fs)"
  by (auto simp: holds_def file_write_def dest: in_jm_set)

lemma holds_make_dir [inv_intros]: "holds P fs \<Longrightarrow> P p N_dir \<Longrightarrow> holds P (make_dir p fs)"
  by (auto simp: holds_def make_dir_def dest: in_jm_set)

lemma holds_remove [inv_intros]: "holds P fs \<Longrightarrow> holds P (file_remove p fs)"
  by (auto simp: holds_def file_remove_def set_jm_delete)

lemma holds_tree_remove [inv_intros]: "holds P fs \<Longrightarrow> holds P (tree_remove p fs)"
  by (auto simp: holds_def tree_remove_def)

lemma holds_fold [inv_intros]: "holds P fs \<Longrightarrow> (\<And>x fs. x \<in> set xs \<Longrightarrow> holds P fs \<Longrightarrow> holds P (f x fs)) \<Longrightarrow> holds P (fold f xs fs)"
  by (induction xs arbitrary: fs) auto

section \<open>Errors of the API\<close>

datatype error_code = Bad_request | Workspace_not_found | Team_not_found | Session_not_found | Escalation_not_found
  | Escalation_already_resolved | Workspace_kind_mismatch | Workspace_already_exists | Team_already_exists
  | Workspace_has_sessions | Env_file_not_found | No_default_for_file | No_default_for_team | Agent_role_not_found
  | Phone_unresolvable | Phones_unavailable | Internal

fun ERROR_STATUS :: "error_code \<Rightarrow> nat" where
  "ERROR_STATUS Bad_request = 400"
| "ERROR_STATUS Workspace_not_found = 404"
| "ERROR_STATUS Team_not_found = 404"
| "ERROR_STATUS Session_not_found = 404"
| "ERROR_STATUS Escalation_not_found = 404"
| "ERROR_STATUS Escalation_already_resolved = 409"
| "ERROR_STATUS Workspace_kind_mismatch = 409"
| "ERROR_STATUS Workspace_already_exists = 409"
| "ERROR_STATUS Team_already_exists = 409"
| "ERROR_STATUS Workspace_has_sessions = 409"
| "ERROR_STATUS Env_file_not_found = 404"
| "ERROR_STATUS No_default_for_file = 404"
| "ERROR_STATUS No_default_for_team = 404"
| "ERROR_STATUS Agent_role_not_found = 404"
| "ERROR_STATUS Phone_unresolvable = 400"
| "ERROR_STATUS Phones_unavailable = 502"
| "ERROR_STATUS Internal = 500"

end
