(* ===== verification/Store.thy ===== *)
theory Store
  imports Files "HOL-Library.List_Lexorder"
begin

text \<open>
  The orchestrator's stores over the data directory: the domain types (\<open>types.ts\<close>), workspaces
  (\<open>storage/workspace.ts\<close>), teams (\<open>storage/team.ts\<close>), markdown context files (\<open>storage/env-files.ts\<close>),
  credentials (\<open>storage/credentials.ts\<close>) and sessions (\<open>storage/session.ts\<close>). A writer is a function of
  the files; \<open>tpl\<close> is the directory of the seed templates, read only. The YAML library and JSON give
  back what was written, so a file holds the value itself.
\<close>

section \<open>Domain types\<close>

record workspace =
  wk_id :: jstr
  wk_displayName :: jstr
  wk_kind :: jstr
  wk_phoneNumber :: "jstr option"
  wk_externalRef :: "jstr option"
  wk_createdAt :: int

record agent_role =
  ag_role :: jstr
  ag_promptFile :: jstr
  ag_model :: jstr

record team =
  tm_name :: jstr
  tm_description :: jstr
  tm_expectedWorkspaceKind :: jstr
  tm_lead :: jstr
  tm_agents :: "agent_role list"

datatype session_status = S_running | S_completed | S_aborted | S_error

record session_meta =
  me_id :: jstr
  me_workspace :: jstr
  me_team :: jstr
  me_agentRole :: jstr
  me_modelProvider :: jstr
  me_modelId :: jstr
  me_startedAt :: int
  me_endedAt :: "int option"
  me_status :: session_status
  me_error :: "jstr option"

datatype content = C_workspace workspace | C_team team | C_session session_meta | C_json json | C_text jstr | C_link fpath

type_synonym disk = "content files"

text \<open>A file read as text; \<open>raw\<close> is what JSON or the YAML library makes of a value.\<close>

definition text_at :: "(content \<Rightarrow> jstr) \<Rightarrow> disk \<Rightarrow> fpath \<Rightarrow> jstr option" where
  "text_at raw fs p = (case file_read fs p of None \<Rightarrow> None | Some (C_text t) \<Rightarrow> Some t | Some c \<Rightarrow> Some (raw c))"

section \<open>Workspaces\<close>

definition readWorkspace :: "disk \<Rightarrow> fpath \<Rightarrow> jstr \<Rightarrow> workspace option" where
  "readWorkspace fs root i = (case file_read fs (workspaceFile root i) of Some (C_workspace w) \<Rightarrow> Some w | _ \<Rightarrow> None)"

definition writeWorkspace :: "fpath \<Rightarrow> workspace \<Rightarrow> disk \<Rightarrow> disk" where
  "writeWorkspace root ws fs = file_write (workspaceFile root (wk_id ws)) (C_workspace ws) (make_dir (workspaceDir root (wk_id ws)) fs)"

definition listWorkspaceIds :: "disk \<Rightarrow> fpath \<Rightarrow> jstr list" where
  "listWorkspaceIds fs root = (case read_dir fs (node_join root [js ''workspaces'']) of
      None \<Rightarrow> []
    | Some ids \<Rightarrow> filter (\<lambda>i. is_dir fs (node_join root [js ''workspaces'', i]) \<and> exists_path fs (workspaceFile root i)) ids)"

definition countWorkspaceSessions :: "disk \<Rightarrow> fpath \<Rightarrow> jstr \<Rightarrow> nat" where
  "countWorkspaceSessions fs root i = (let teamsRoot = node_join (workspaceDir root i) [js ''teams''] in
     case read_dir fs teamsRoot of
       None \<Rightarrow> 0
     | Some ts \<Rightarrow> sum_list (map (\<lambda>t. let sessRoot = node_join teamsRoot [t, js ''sessions''] in
         case read_dir fs sessRoot of None \<Rightarrow> 0 | Some ss \<Rightarrow> length (filter (\<lambda>s. is_dir fs (node_join sessRoot [s])) ss)) ts))"

definition deleteWorkspace :: "fpath \<Rightarrow> jstr \<Rightarrow> disk \<Rightarrow> disk" where
  "deleteWorkspace root i fs = tree_remove (workspaceDir root i) fs"

text \<open>\<open>None\<close>: there is a workspace of that id.\<close>

definition createWorkspaceLayout :: "fpath \<Rightarrow> workspace \<Rightarrow> disk \<Rightarrow> disk option" where
  "createWorkspaceLayout root ws fs = (case readWorkspace fs root (wk_id ws) of
      Some _ \<Rightarrow> None
    | None \<Rightarrow> Some (file_write (workspaceFile root (wk_id ws)) (C_workspace ws)
        (make_dir (workspaceMemoryDir root (wk_id ws)) (make_dir (workspaceEnvDir root (wk_id ws)) (make_dir (workspaceDir root (wk_id ws)) fs)))))"

section \<open>Teams\<close>

definition readTeam :: "disk \<Rightarrow> fpath \<Rightarrow> jstr \<Rightarrow> team option" where
  "readTeam fs root name = (case file_read fs (teamConfigFileYaml root name) of
      Some (C_team t) \<Rightarrow> Some t
    | Some _ \<Rightarrow> None
    | None \<Rightarrow> (case file_read fs (teamConfigFileJson root name) of Some (C_team t) \<Rightarrow> Some t | _ \<Rightarrow> None))"

definition readTeamPrompt :: "(content \<Rightarrow> jstr) \<Rightarrow> disk \<Rightarrow> fpath \<Rightarrow> jstr \<Rightarrow> jstr \<Rightarrow> jstr option" where
  "readTeamPrompt raw fs root team f = text_at raw fs (teamPromptFile root team f)"

definition writeTeam :: "fpath \<Rightarrow> team \<Rightarrow> disk \<Rightarrow> disk" where
  "writeTeam root t fs = file_remove (teamConfigFileJson root (tm_name t))
     (file_write (teamConfigFileYaml root (tm_name t)) (C_team t) (make_dir (teamRoot root (tm_name t)) fs))"

definition writeTeamPrompt :: "fpath \<Rightarrow> jstr \<Rightarrow> jstr \<Rightarrow> jstr \<Rightarrow> disk \<Rightarrow> disk" where
  "writeTeamPrompt root team f c fs = file_write (teamPromptFile root team f) (C_text c) (make_dir (teamPromptsDir root team) fs)"

definition deleteTeamPrompt :: "fpath \<Rightarrow> jstr \<Rightarrow> jstr \<Rightarrow> disk \<Rightarrow> disk" where
  "deleteTeamPrompt root team f fs = file_remove (teamPromptFile root team f) fs"

definition listTeamNames :: "disk \<Rightarrow> fpath \<Rightarrow> jstr list" where
  "listTeamNames fs root = (case read_dir fs (node_join root [js ''teams'']) of
      None \<Rightarrow> []
    | Some ns \<Rightarrow> filter (\<lambda>n. is_dir fs (node_join root [js ''teams'', n]) \<and> readTeam fs root n \<noteq> None) ns)"

definition deleteTeam :: "fpath \<Rightarrow> jstr \<Rightarrow> disk \<Rightarrow> disk" where
  "deleteTeam root name fs = tree_remove (teamRoot root name) fs"

definition readTeamDefault :: "disk \<Rightarrow> jstr \<Rightarrow> team option" where
  "readTeamDefault tpl name = (case file_read tpl (node_join [] [js ''teams'', name, js ''team.yaml'']) of Some (C_team t) \<Rightarrow> Some t | _ \<Rightarrow> None)"

definition readTeamPromptDefault :: "(content \<Rightarrow> jstr) \<Rightarrow> disk \<Rightarrow> jstr \<Rightarrow> jstr \<Rightarrow> jstr option" where
  "readTeamPromptDefault raw tpl team f = text_at raw tpl (node_join [] [js ''teams'', team, js ''prompts'', f])"

text \<open>The prompt files of a seeded team, each written only when it isn't there.\<close>

definition seed_prompt :: "(content \<Rightarrow> jstr) \<Rightarrow> disk \<Rightarrow> fpath \<Rightarrow> jstr \<Rightarrow> jstr \<Rightarrow> disk \<Rightarrow> disk" where
  "seed_prompt raw tpl root name f fs =
     (if \<not> ends_with (js ''.md'') f \<or> exists_path fs (teamPromptFile root name f) then fs
      else writeTeamPrompt root name f (or_empty (readTeamPromptDefault raw tpl name f)) fs)"

definition seedDefaultTeam :: "(content \<Rightarrow> jstr) \<Rightarrow> disk \<Rightarrow> fpath \<Rightarrow> jstr \<Rightarrow> disk \<Rightarrow> disk" where
  "seedDefaultTeam raw tpl root name fs =
     (if \<not> exists_path tpl (node_join [] [js ''teams'', name]) then fs
      else (let fs1 = (if readTeam fs root name \<noteq> None then fs
                  else (case readTeamDefault tpl name of None \<Rightarrow> fs | Some t \<Rightarrow> writeTeam root t fs));
                ps = (case read_dir tpl (node_join [] [js ''teams'', name, js ''prompts'']) of None \<Rightarrow> [] | Some ns \<Rightarrow> ns)
            in fold (seed_prompt raw tpl root name) ps fs1))"

section \<open>Context files\<close>

definition word_char :: "nat \<Rightarrow> bool" where
  "word_char c = (is_lower c \<or> is_upper c \<or> is_digit c \<or> c = 46 \<or> c = 95 \<or> c = 45)"

definition isValidEnvFileName :: "jstr \<Rightarrow> bool" where
  "isValidEnvFileName name = (name \<noteq> [] \<and> length name \<le> 128 \<and> \<not> starts_with (js ''.'') name
     \<and> ends_with (js ''.md'') name \<and> length name > 3 \<and> list_all word_char name)"

definition env_file :: "fpath \<Rightarrow> jstr \<Rightarrow> jstr \<Rightarrow> fpath" where
  "env_file root i name = node_join (workspaceEnvDir root i) [name]"

text \<open>Names and sizes; \<open>collate\<close> ranks names as \<open>localeCompare\<close> orders them.\<close>

definition listEnvFiles :: "(content \<Rightarrow> jstr) \<Rightarrow> (jstr \<Rightarrow> nat) \<Rightarrow> disk \<Rightarrow> fpath \<Rightarrow> jstr \<Rightarrow> (jstr \<times> nat) list" where
  "listEnvFiles raw collate fs root i = (case read_dir fs (workspaceEnvDir root i) of
      None \<Rightarrow> []
    | Some ns \<Rightarrow> sort_key (\<lambda>(n, _). collate n) (concat (map (\<lambda>n.
        if isValidEnvFileName n then (case text_at raw fs (env_file root i n) of Some t \<Rightarrow> [(n, utf8_size t)] | None \<Rightarrow> []) else []) ns)))"

definition readEnvFile :: "(content \<Rightarrow> jstr) \<Rightarrow> disk \<Rightarrow> fpath \<Rightarrow> jstr \<Rightarrow> jstr \<Rightarrow> jstr option" where
  "readEnvFile raw fs root i name = (if isValidEnvFileName name then text_at raw fs (env_file root i name) else None)"

text \<open>\<open>None\<close>: it throws.\<close>

definition writeEnvFile :: "fpath \<Rightarrow> jstr \<Rightarrow> jstr \<Rightarrow> jstr \<Rightarrow> disk \<Rightarrow> disk option" where
  "writeEnvFile root i name c fs = (if \<not> isValidEnvFileName name then None
     else Some (file_write (env_file root i name) (C_text c) (make_dir (workspaceEnvDir root i) fs)))"

definition deleteEnvFile :: "fpath \<Rightarrow> jstr \<Rightarrow> jstr \<Rightarrow> disk \<Rightarrow> disk \<times> bool" where
  "deleteEnvFile root i name fs =
     (if \<not> isValidEnvFileName name \<or> file_read fs (env_file root i name) = None then (fs, False)
      else (file_remove (env_file root i name) fs, True))"

definition readEnvFileDefault :: "(content \<Rightarrow> jstr) \<Rightarrow> disk \<Rightarrow> jstr \<Rightarrow> jstr \<Rightarrow> jstr option" where
  "readEnvFileDefault raw tpl kind name = (if isValidEnvFileName name then text_at raw tpl (node_join [] [js ''workspaces'', kind, name]) else None)"

definition migrateAgentsToMemory :: "fpath \<Rightarrow> jstr \<Rightarrow> disk \<Rightarrow> disk" where
  "migrateAgentsToMemory root i fs =
     (let agents = env_file root i (js ''agents.md''); memory = env_file root i (js ''memory.md'')
      in if exists_path fs memory then fs
         else (case file_read fs agents of None \<Rightarrow> fs | Some c \<Rightarrow> file_write memory c (file_remove agents fs)))"

definition seed_env_file :: "(content \<Rightarrow> jstr) \<Rightarrow> disk \<Rightarrow> fpath \<Rightarrow> jstr \<Rightarrow> jstr \<Rightarrow> jstr \<Rightarrow> disk \<Rightarrow> disk" where
  "seed_env_file raw tpl root i kind name fs =
     (if \<not> isValidEnvFileName name \<or> exists_path fs (env_file root i name) then fs
      else (case text_at raw tpl (node_join [] [js ''workspaces'', kind, name]) of
          None \<Rightarrow> fs
        | Some t \<Rightarrow> file_write (env_file root i name) (C_text t) (make_dir (workspaceEnvDir root i) fs)))"

definition seedDefaultEnvFiles :: "(content \<Rightarrow> jstr) \<Rightarrow> disk \<Rightarrow> fpath \<Rightarrow> jstr \<Rightarrow> jstr \<Rightarrow> disk \<Rightarrow> disk" where
  "seedDefaultEnvFiles raw tpl root i kind fs = (case read_dir tpl (node_join [] [js ''workspaces'', kind]) of
      None \<Rightarrow> fs | Some ns \<Rightarrow> fold (seed_env_file raw tpl root i kind) ns fs)"

section \<open>Credentials\<close>

text \<open>Whether there are any, and the names of their fields.\<close>

definition readCredentialsStatus :: "disk \<Rightarrow> fpath \<Rightarrow> jstr \<Rightarrow> bool \<times> jstr list" where
  "readCredentialsStatus fs root i = (case file_read fs (workspaceCredentialsFile root i) of
      None \<Rightarrow> (False, [])
    | Some (C_json (JObj kvs)) \<Rightarrow> (kvs \<noteq> [], sort (map fst kvs))
    | Some (C_text t) \<Rightarrow> (trim t \<noteq> [], [])
    | Some _ \<Rightarrow> (True, []))"

definition writeCredentials :: "fpath \<Rightarrow> jstr \<Rightarrow> json \<Rightarrow> disk \<Rightarrow> disk" where
  "writeCredentials root i body fs = file_write (workspaceCredentialsFile root i) (C_json body) fs"

definition deleteCredentials :: "fpath \<Rightarrow> jstr \<Rightarrow> disk \<Rightarrow> disk" where
  "deleteCredentials root i fs = file_remove (workspaceCredentialsFile root i) fs"

section \<open>Sessions\<close>

definition readSessionMeta :: "disk \<Rightarrow> fpath \<Rightarrow> jstr \<Rightarrow> jstr \<Rightarrow> jstr \<Rightarrow> session_meta option" where
  "readSessionMeta fs root ws team sid = (case file_read fs (sessionMetaFile root ws team sid) of Some (C_session m) \<Rightarrow> Some m | _ \<Rightarrow> None)"

definition writeSessionMeta :: "fpath \<Rightarrow> jstr \<Rightarrow> jstr \<Rightarrow> session_meta \<Rightarrow> disk \<Rightarrow> disk" where
  "writeSessionMeta root ws team m fs = file_write (sessionMetaFile root ws team (me_id m)) (C_session m) (make_dir (sessionDir root ws team (me_id m)) fs)"

definition append_line :: "(content \<Rightarrow> jstr) \<Rightarrow> fpath \<Rightarrow> jstr \<Rightarrow> disk \<Rightarrow> disk" where
  "append_line raw p l fs = file_write p (C_text (or_empty (text_at raw fs p) @ l @ [10])) fs"

definition readMessages :: "(content \<Rightarrow> jstr) \<Rightarrow> disk \<Rightarrow> fpath \<Rightarrow> jstr \<Rightarrow> jstr \<Rightarrow> jstr \<Rightarrow> jstr list" where
  "readMessages raw fs root ws team sid = filter (\<lambda>l. l \<noteq> []) (map trim (split_on 10 (or_empty (text_at raw fs (sessionMessagesFile root ws team sid)))))"

definition appendMessage :: "(content \<Rightarrow> jstr) \<Rightarrow> fpath \<Rightarrow> jstr \<Rightarrow> jstr \<Rightarrow> jstr \<Rightarrow> json \<Rightarrow> disk \<Rightarrow> disk" where
  "appendMessage raw root ws team sid m fs = append_line raw (sessionMessagesFile root ws team sid) (json_stringify m) fs"

definition appendEventLine :: "(content \<Rightarrow> jstr) \<Rightarrow> fpath \<Rightarrow> jstr \<Rightarrow> jstr \<Rightarrow> jstr \<Rightarrow> jstr \<Rightarrow> disk \<Rightarrow> disk" where
  "appendEventLine raw root ws team sid l fs = append_line raw (sessionEventsFile root ws team sid) l fs"

definition readLastSessionId :: "(content \<Rightarrow> jstr) \<Rightarrow> disk \<Rightarrow> fpath \<Rightarrow> jstr \<Rightarrow> jstr \<Rightarrow> jstr option" where
  "readLastSessionId raw fs root ws team = (case text_at raw fs (teamLastSessionFile root ws team) of
      None \<Rightarrow> None | Some t \<Rightarrow> if trim t \<noteq> [] then Some (trim t) else None)"

definition writeLastSessionId :: "fpath \<Rightarrow> jstr \<Rightarrow> jstr \<Rightarrow> jstr \<Rightarrow> disk \<Rightarrow> disk" where
  "writeLastSessionId root ws team sid fs = file_write (teamLastSessionFile root ws team) (C_text (sid @ [10]))
     (make_dir (node_join (workspaceDir root ws) [js ''teams'', team]) fs)"

definition listSessions :: "disk \<Rightarrow> fpath \<Rightarrow> jstr \<Rightarrow> jstr \<Rightarrow> jstr list" where
  "listSessions fs root ws team = (case read_dir fs (teamSessionsRoot root ws team) of None \<Rightarrow> [] | Some ns \<Rightarrow> sort ns)"

text \<open>\<open>False\<close>: it throws, as something that is no link is in its place.\<close>

definition ensureSymlink :: "fpath \<Rightarrow> fpath \<Rightarrow> disk \<Rightarrow> bool \<times> disk" where
  "ensureSymlink target link fs = (let fs1 = make_dir target fs in
     if \<not> exists_path fs1 link then (True, file_write link (C_link target) fs1)
     else (case file_read fs1 link of Some (C_link t) \<Rightarrow> (True, if t = target then fs1 else file_write link (C_link target) fs1) | _ \<Rightarrow> (False, fs1)))"

fun ensure_links :: "(fpath \<times> fpath) list \<Rightarrow> disk \<Rightarrow> bool \<times> disk" where
  "ensure_links [] fs = (True, fs)"
| "ensure_links ((target, link) # ls) fs = (case ensureSymlink target link fs of (ok, fs1) \<Rightarrow> if ok then ensure_links ls fs1 else (False, fs1))"

definition buildSandbox :: "fpath \<Rightarrow> jstr \<Rightarrow> jstr \<Rightarrow> jstr \<Rightarrow> disk \<Rightarrow> bool \<times> disk" where
  "buildSandbox root ws team sid fs =
     (let sb = sessionSandboxDir root ws team sid; tr = sessionTracesDir root ws team sid
      in ensure_links [(workspaceEnvDir root ws, node_join sb [js ''env'']), (workspaceMemoryDir root ws, node_join sb [js ''memory'']), (tr, node_join sb [js ''traces''])]
           (make_dir (sessionEscalationsDir root ws team sid) (make_dir tr (make_dir sb fs))))"

end
