(* ===== verification/TeamRoutes.thy ===== *)
theory TeamRoutes
  imports Store
begin

text \<open>
  The team routes (\<open>server/routes/teams.ts\<close>) over the stores: a request is answered and changes the
  files. \<open>body\<close> is \<open>None\<close> when it isn't JSON; names come from the URL decoded. Messages and details of
  errors are left out.
\<close>

section \<open>Names and agents\<close>

text \<open>\<open>/^[a-z0-9][a-z0-9-]{0,63}$/\<close>\<close>

definition name_ok :: "jstr \<Rightarrow> bool" where
  "name_ok s = (case s of [] \<Rightarrow> False
     | c # cs \<Rightarrow> (is_lower c \<or> is_digit c) \<and> length cs \<le> 63 \<and> list_all (\<lambda>d. is_lower d \<or> is_digit d \<or> d = 45) cs)"

fun agents_from :: "jstr list \<Rightarrow> json list \<Rightarrow> agent_role list option" where
  "agents_from seen [] = Some []"
| "agents_from seen (raw # rest) = (case (json_get raw (js ''role''), json_get raw (js ''model'')) of
     (Some (JStr role), Some (JStr model)) \<Rightarrow>
       if name_ok role \<and> role \<notin> set seen \<and> model \<noteq> [] then
         map_option (\<lambda>as. \<lparr>ag_role = role, ag_promptFile = role @ js ''.md'', ag_model = model\<rparr> # as) (agents_from (role # seen) rest)
       else None
   | _ \<Rightarrow> None)"

text \<open>\<open>None\<close>: an error message.\<close>

definition parseAgentsInput :: "json option \<Rightarrow> agent_role list option" where
  "parseAgentsInput input = (case input of None \<Rightarrow> Some [] | Some JNull \<Rightarrow> Some [] | Some (JArr raws) \<Rightarrow> agents_from [] raws | _ \<Rightarrow> None)"

definition roles :: "agent_role list \<Rightarrow> jstr list" where
  "roles as = map ag_role as"

section \<open>Requests\<close>

datatype team_request =
    Teams_list "jstr option"
  | Teams_create "json option"
  | Team_get jstr
  | Team_patch jstr "json option"
  | Team_delete jstr bool
  | Team_reset jstr
  | Prompt_get jstr jstr
  | Prompt_put jstr jstr jstr
  | Prompt_reset jstr jstr

datatype team_response = TR_error error_code | TR_team nat team | TR_teams "team list" | TR_text jstr | TR_done nat

type_synonym team_handler = "disk \<Rightarrow> team_response \<times> disk"

definition list_teams :: "(jstr \<Rightarrow> nat) \<Rightarrow> fpath \<Rightarrow> jstr option \<Rightarrow> team_handler" where
  "list_teams collate root kind fs =
     (let teams = concat (map (\<lambda>n. case readTeam fs root n of Some t \<Rightarrow> [t] | None \<Rightarrow> []) (listTeamNames fs root));
          filtered = (if or_empty kind \<noteq> [] then filter (\<lambda>t. tm_expectedWorkspaceKind t = or_empty kind) teams else teams)
      in (TR_teams (sort_key (\<lambda>t. collate (tm_name t)) filtered), fs))"

definition lead_ok :: "jstr \<Rightarrow> agent_role list \<Rightarrow> bool" where
  "lead_ok lead as = (lead \<in> set (roles as))"

definition seed_prompts :: "(content \<Rightarrow> jstr) \<Rightarrow> disk \<Rightarrow> fpath \<Rightarrow> jstr \<Rightarrow> agent_role list \<Rightarrow> disk \<Rightarrow> disk" where
  "seed_prompts raw tpl root name as fs =
     fold (\<lambda>a. writeTeamPrompt root name (ag_promptFile a) (or_empty (readTeamPromptDefault raw tpl name (ag_promptFile a)))) as fs"

definition create_team :: "(content \<Rightarrow> jstr) \<Rightarrow> disk \<Rightarrow> fpath \<Rightarrow> json option \<Rightarrow> team_handler" where
  "create_team raw tpl root body fs = (case body of
      None \<Rightarrow> (TR_error Bad_request, fs)
    | Some b \<Rightarrow> if b = JNull then (TR_error Internal, fs)
      else (case (json_get b (js ''name''), json_get b (js ''description''), json_get b (js ''expectedWorkspaceKind'')) of
        (Some (JStr name), Some (JStr description), Some (JStr kind)) \<Rightarrow>
          if \<not> name_ok name \<or> kind = [] then (TR_error Bad_request, fs)
          else if readTeam fs root name \<noteq> None then (TR_error Team_already_exists, fs)
          else (case parseAgentsInput (json_get b (js ''agents'')) of
              None \<Rightarrow> (TR_error Bad_request, fs)
            | Some as \<Rightarrow>
                (let lead = or_empty (json_str (json_get b (js ''lead'')));
                     t = \<lparr>tm_name = name, tm_description = description, tm_expectedWorkspaceKind = kind, tm_lead = lead, tm_agents = as\<rparr>
                 in if as \<noteq> [] \<and> \<not> lead_ok lead as then (TR_error Bad_request, fs)
                    else (TR_team 201 t, seed_prompts raw tpl root name as (writeTeam root t fs))))
      | _ \<Rightarrow> (TR_error Bad_request, fs)))"

text \<open>A field of a patch: absent, of another type, or a string.\<close>

definition patch_text :: "json \<Rightarrow> string \<Rightarrow> (jstr \<Rightarrow> bool) \<Rightarrow> jstr \<Rightarrow> jstr option" where
  "patch_text b k ok old = (case json_get b (js k) of None \<Rightarrow> Some old | Some (JStr s) \<Rightarrow> if ok s then Some s else None | Some _ \<Rightarrow> None)"

text \<open>The agents a patch leaves, and which of them are new or gone.\<close>

definition reconcile :: "agent_role list \<Rightarrow> agent_role list \<Rightarrow> agent_role list" where
  "reconcile old new = map (\<lambda>a. case find (\<lambda>p. ag_role p = ag_role a) (rev old) of Some p \<Rightarrow> a\<lparr>ag_promptFile := ag_promptFile p\<rparr> | None \<Rightarrow> a) new"

definition patch_agents :: "json \<Rightarrow> team \<Rightarrow> agent_role list option" where
  "patch_agents b t = (case json_get b (js ''agents'') of None \<Rightarrow> Some (tm_agents t)
     | Some v \<Rightarrow> map_option (reconcile (tm_agents t)) (parseAgentsInput (Some v)))"

definition added_agents :: "agent_role list \<Rightarrow> agent_role list \<Rightarrow> agent_role list" where
  "added_agents old new = filter (\<lambda>a. ag_role a \<notin> set (roles old)) new"

definition seed_missing_prompt :: "(content \<Rightarrow> jstr) \<Rightarrow> disk \<Rightarrow> fpath \<Rightarrow> jstr \<Rightarrow> agent_role \<Rightarrow> disk \<Rightarrow> disk" where
  "seed_missing_prompt raw tpl root name a fs = (if readTeamPrompt raw fs root name (ag_promptFile a) = None
     then writeTeamPrompt root name (ag_promptFile a) (or_empty (readTeamPromptDefault raw tpl name (ag_promptFile a))) fs else fs)"

definition patch_team :: "(content \<Rightarrow> jstr) \<Rightarrow> disk \<Rightarrow> fpath \<Rightarrow> jstr \<Rightarrow> json option \<Rightarrow> team_handler" where
  "patch_team raw tpl root name body fs = (case readTeam fs root name of
      None \<Rightarrow> (TR_error Team_not_found, fs)
    | Some t \<Rightarrow> (case body of
        None \<Rightarrow> (TR_error Bad_request, fs)
      | Some b \<Rightarrow> if b = JNull then (TR_error Internal, fs)
        else (case (patch_text b ''description'' (\<lambda>_. True) (tm_description t),
                    patch_text b ''expectedWorkspaceKind'' (\<lambda>s. s \<noteq> []) (tm_expectedWorkspaceKind t),
                    patch_text b ''lead'' (\<lambda>_. True) (tm_lead t), patch_agents b t) of
          (Some description, Some kind, Some lead, Some as) \<Rightarrow>
            if as \<noteq> [] \<and> lead \<noteq> [] \<and> \<not> lead_ok lead as then (TR_error Bad_request, fs)
            else (let next1 = t\<lparr>tm_description := description, tm_expectedWorkspaceKind := kind, tm_lead := lead, tm_agents := as\<rparr>;
                      removed = filter (\<lambda>a. ag_role a \<notin> set (roles as)) (tm_agents t)
                  in (TR_team 200 next1,
                      fold (\<lambda>a. deleteTeamPrompt root name (ag_promptFile a)) removed
                        (fold (seed_missing_prompt raw tpl root name) (added_agents (tm_agents t) as) (writeTeam root next1 fs))))
        | _ \<Rightarrow> (TR_error Bad_request, fs))))"

definition delete_team :: "fpath \<Rightarrow> jstr \<Rightarrow> bool \<Rightarrow> team_handler" where
  "delete_team root name force fs = (case readTeam fs root name of
      None \<Rightarrow> (TR_error Team_not_found, fs)
    | Some _ \<Rightarrow> if force then (TR_done 204, deleteTeam root name fs) else (TR_error Bad_request, fs))"

definition reset_team :: "disk \<Rightarrow> fpath \<Rightarrow> jstr \<Rightarrow> team_handler" where
  "reset_team tpl root name fs = (case readTeam fs root name of
      None \<Rightarrow> (TR_error Team_not_found, fs)
    | Some _ \<Rightarrow> (case readTeamDefault tpl name of
        None \<Rightarrow> (TR_error No_default_for_team, fs)
      | Some d \<Rightarrow> (TR_team 200 d, writeTeam root d fs)))"

text \<open>The checks the prompt routes share: the agent, or the error.\<close>

definition prompt_agent :: "disk \<Rightarrow> fpath \<Rightarrow> jstr \<Rightarrow> jstr \<Rightarrow> error_code + agent_role" where
  "prompt_agent fs root name role = (case readTeam fs root name of
      None \<Rightarrow> Inl Team_not_found
    | Some t \<Rightarrow> if \<not> name_ok role then Inl Bad_request
      else (case find (\<lambda>a. ag_role a = role) (tm_agents t) of None \<Rightarrow> Inl Agent_role_not_found | Some a \<Rightarrow> Inr a))"

definition get_prompt :: "(content \<Rightarrow> jstr) \<Rightarrow> fpath \<Rightarrow> jstr \<Rightarrow> jstr \<Rightarrow> team_handler" where
  "get_prompt raw root name role fs = (case prompt_agent fs root name role of
      Inl e \<Rightarrow> (TR_error e, fs) | Inr a \<Rightarrow> (TR_text (or_empty (readTeamPrompt raw fs root name (ag_promptFile a))), fs))"

definition put_prompt :: "fpath \<Rightarrow> jstr \<Rightarrow> jstr \<Rightarrow> jstr \<Rightarrow> team_handler" where
  "put_prompt root name role c fs = (case prompt_agent fs root name role of
      Inl e \<Rightarrow> (TR_error e, fs) | Inr a \<Rightarrow> (TR_done 204, writeTeamPrompt root name (ag_promptFile a) c fs))"

definition reset_prompt :: "(content \<Rightarrow> jstr) \<Rightarrow> disk \<Rightarrow> fpath \<Rightarrow> jstr \<Rightarrow> jstr \<Rightarrow> team_handler" where
  "reset_prompt raw tpl root name role fs = (case prompt_agent fs root name role of
      Inl e \<Rightarrow> (TR_error e, fs)
    | Inr a \<Rightarrow> (case readTeamPromptDefault raw tpl name (ag_promptFile a) of
        None \<Rightarrow> (TR_error No_default_for_file, fs)
      | Some d \<Rightarrow> (TR_text d, writeTeamPrompt root name (ag_promptFile a) d fs)))"

fun team_handle :: "(content \<Rightarrow> jstr) \<Rightarrow> (jstr \<Rightarrow> nat) \<Rightarrow> disk \<Rightarrow> fpath \<Rightarrow> team_request \<Rightarrow> team_handler" where
  "team_handle raw collate tpl root (Teams_list kind) = list_teams collate root kind"
| "team_handle raw collate tpl root (Teams_create body) = create_team raw tpl root body"
| "team_handle raw collate tpl root (Team_get name) = (\<lambda>fs. (case readTeam fs root name of None \<Rightarrow> TR_error Team_not_found | Some t \<Rightarrow> TR_team 200 t, fs))"
| "team_handle raw collate tpl root (Team_patch name body) = patch_team raw tpl root name body"
| "team_handle raw collate tpl root (Team_delete name force) = delete_team root name force"
| "team_handle raw collate tpl root (Team_reset name) = reset_team tpl root name"
| "team_handle raw collate tpl root (Prompt_get name role) = get_prompt raw root name role"
| "team_handle raw collate tpl root (Prompt_put name role c) = put_prompt root name role c"
| "team_handle raw collate tpl root (Prompt_reset name role) = reset_prompt raw tpl root name role"

definition teams_run :: "(content \<Rightarrow> jstr) \<Rightarrow> (jstr \<Rightarrow> nat) \<Rightarrow> disk \<Rightarrow> fpath \<Rightarrow> team_request list \<Rightarrow> disk \<Rightarrow> disk" where
  "teams_run raw collate tpl root = fold (\<lambda>rq fs. snd (team_handle raw collate tpl root rq fs))"

end
