(* ===== verification/WorkspaceRoutes.thy ===== *)
theory WorkspaceRoutes
  imports Store
begin

text \<open>
  The workspace routes (\<open>server/routes/workspaces.ts\<close>) over the stores, as in theory \<open>TeamRoutes\<close>:
  workspaces, their context files and their credentials.
\<close>

section \<open>Patterns\<close>

text \<open>\<open>/^[a-zA-Z0-9_-]+:[a-zA-Z0-9._-]+$/\<close>\<close>

definition kind_char :: "nat \<Rightarrow> bool" where
  "kind_char c = (is_lower c \<or> is_upper c \<or> is_digit c \<or> c = 95 \<or> c = 45)"

definition workspace_id_ok :: "jstr \<Rightarrow> bool" where
  "workspace_id_ok s = (case split_on 58 s of
      [k, i] \<Rightarrow> k \<noteq> [] \<and> i \<noteq> [] \<and> list_all kind_char k \<and> list_all word_char i | _ \<Rightarrow> False)"

section \<open>Requests\<close>

datatype workspace_request =
    Workspaces_list
  | Workspaces_create int "json option"
  | Workspace_get jstr
  | Workspace_patch jstr "json option"
  | Workspace_delete jstr bool
  | Env_list jstr
  | Env_get jstr jstr
  | Env_put jstr jstr jstr
  | Env_delete jstr jstr
  | Env_reset jstr jstr
  | Cred_get jstr
  | Cred_put jstr "json option"
  | Cred_delete jstr
  | Workspace_teams jstr

datatype workspace_response = WR_error error_code | WR_workspace nat workspace | WR_workspaces "workspace list" | WR_files "(jstr \<times> nat) list"
  | WR_text jstr | WR_credentials bool "jstr list" | WR_teams "team list" | WR_done nat

type_synonym workspace_handler = "disk \<Rightarrow> workspace_response \<times> disk"

definition list_workspaces :: "(jstr \<Rightarrow> nat) \<Rightarrow> fpath \<Rightarrow> workspace_handler" where
  "list_workspaces collate root fs = (WR_workspaces (sort_key (\<lambda>w. collate (wk_id w))
     (concat (map (\<lambda>i. case readWorkspace fs root i of Some w \<Rightarrow> [w] | None \<Rightarrow> []) (listWorkspaceIds fs root)))), fs)"

definition create_workspace :: "(content \<Rightarrow> jstr) \<Rightarrow> disk \<Rightarrow> fpath \<Rightarrow> int \<Rightarrow> json option \<Rightarrow> workspace_handler" where
  "create_workspace raw tpl root now body fs = (case body of
      None \<Rightarrow> (WR_error Bad_request, fs)
    | Some b \<Rightarrow> if b = JNull then (WR_error Internal, fs)
      else (case (json_get b (js ''id''), json_get b (js ''displayName''), json_get b (js ''kind''), json_get b (js ''phoneNumber'')) of
        (Some (JStr i), Some (JStr displayName), Some (JStr kind), Some (JStr phone)) \<Rightarrow>
          if \<not> workspace_id_ok i \<or> displayName = [] \<or> kind = [] \<or> \<not> e164 phone
             \<or> (json_get b (js ''externalRef'') \<noteq> None \<and> json_str (json_get b (js ''externalRef'')) = None) then (WR_error Bad_request, fs)
          else (let w = \<lparr>wk_id = i, wk_displayName = displayName, wk_kind = kind, wk_phoneNumber = Some phone,
                  wk_externalRef = json_str (json_get b (js ''externalRef'')), wk_createdAt = now\<rparr>
                in case createWorkspaceLayout root w fs of
                     None \<Rightarrow> (WR_error Workspace_already_exists, fs)
                   | Some fs1 \<Rightarrow> (WR_workspace 201 w, seedDefaultEnvFiles raw tpl root i kind fs1))
      | _ \<Rightarrow> (WR_error Bad_request, fs)))"

text \<open>The checks all routes of one workspace begin with.\<close>

definition with_workspace :: "fpath \<Rightarrow> jstr \<Rightarrow> (workspace \<Rightarrow> workspace_handler) \<Rightarrow> workspace_handler" where
  "with_workspace root i f fs = (case readWorkspace fs root i of None \<Rightarrow> (WR_error Workspace_not_found, fs) | Some w \<Rightarrow> f w fs)"

definition patch_field :: "json \<Rightarrow> string \<Rightarrow> (jstr \<Rightarrow> bool) \<Rightarrow> 'a \<Rightarrow> (jstr \<Rightarrow> 'a) \<Rightarrow> 'a option" where
  "patch_field b k ok old mk = (case json_get b (js k) of None \<Rightarrow> Some old | Some (JStr s) \<Rightarrow> if ok s then Some (mk s) else None | Some _ \<Rightarrow> None)"

definition patch_ref :: "json \<Rightarrow> jstr option \<Rightarrow> jstr option option" where
  "patch_ref b old = (case json_get b (js ''externalRef'') of
      None \<Rightarrow> Some old | Some JNull \<Rightarrow> Some None | Some (JStr s) \<Rightarrow> Some (if s = [] then None else Some s) | Some _ \<Rightarrow> None)"

definition patch_workspace :: "fpath \<Rightarrow> json option \<Rightarrow> workspace \<Rightarrow> workspace_handler" where
  "patch_workspace root body w fs = (case body of
      None \<Rightarrow> (WR_error Bad_request, fs)
    | Some b \<Rightarrow> if b = JNull then (WR_error Internal, fs)
      else (case (patch_field b ''displayName'' (\<lambda>s. s \<noteq> []) (wk_displayName w) id, patch_field b ''kind'' (\<lambda>s. s \<noteq> []) (wk_kind w) id,
                  patch_field b ''phoneNumber'' e164 (wk_phoneNumber w) Some, patch_ref b (wk_externalRef w)) of
        (Some d, Some k, Some p, Some r) \<Rightarrow>
          (let next1 = w\<lparr>wk_displayName := d, wk_kind := k, wk_phoneNumber := p, wk_externalRef := r\<rparr>
           in (WR_workspace 200 next1, writeWorkspace root next1 fs))
      | _ \<Rightarrow> (WR_error Bad_request, fs)))"

definition delete_workspace :: "fpath \<Rightarrow> jstr \<Rightarrow> bool \<Rightarrow> workspace_handler" where
  "delete_workspace root i force fs =
     (if \<not> force \<and> countWorkspaceSessions fs root i > 0 then (WR_error Workspace_has_sessions, fs)
      else (WR_done 204, deleteWorkspace root i fs))"

section \<open>Context files\<close>

definition list_env :: "(content \<Rightarrow> jstr) \<Rightarrow> (jstr \<Rightarrow> nat) \<Rightarrow> fpath \<Rightarrow> jstr \<Rightarrow> workspace_handler" where
  "list_env raw collate root i fs = (let fs1 = migrateAgentsToMemory root i fs in (WR_files (listEnvFiles raw collate fs1 root i), fs1))"

definition get_env :: "(content \<Rightarrow> jstr) \<Rightarrow> fpath \<Rightarrow> jstr \<Rightarrow> jstr \<Rightarrow> workspace_handler" where
  "get_env raw root i f fs =
     (if \<not> isValidEnvFileName f then (WR_error Bad_request, fs)
      else (let fs1 = migrateAgentsToMemory root i fs in
        (case readEnvFile raw fs1 root i f of None \<Rightarrow> WR_error Env_file_not_found | Some t \<Rightarrow> WR_text t, fs1)))"

definition put_env :: "fpath \<Rightarrow> jstr \<Rightarrow> jstr \<Rightarrow> jstr \<Rightarrow> workspace_handler" where
  "put_env root i f c fs = (case writeEnvFile root i f c fs of None \<Rightarrow> (WR_error Bad_request, fs) | Some fs1 \<Rightarrow> (WR_done 204, fs1))"

definition delete_env :: "fpath \<Rightarrow> jstr \<Rightarrow> jstr \<Rightarrow> workspace_handler" where
  "delete_env root i f fs =
     (if \<not> isValidEnvFileName f then (WR_error Bad_request, fs)
      else (case deleteEnvFile root i f fs of (fs1, ok) \<Rightarrow> (if ok then WR_done 204 else WR_error Env_file_not_found, fs1)))"

definition reset_env :: "(content \<Rightarrow> jstr) \<Rightarrow> disk \<Rightarrow> fpath \<Rightarrow> jstr \<Rightarrow> jstr \<Rightarrow> workspace \<Rightarrow> workspace_handler" where
  "reset_env raw tpl root i f w fs =
     (if \<not> isValidEnvFileName f then (WR_error Bad_request, fs)
      else (case readEnvFileDefault raw tpl (wk_kind w) f of
          None \<Rightarrow> (WR_error No_default_for_file, fs)
        | Some d \<Rightarrow> (case writeEnvFile root i f d fs of None \<Rightarrow> (WR_error Internal, fs) | Some fs1 \<Rightarrow> (WR_text d, fs1))))"

section \<open>Credentials and teams\<close>

definition get_credentials :: "fpath \<Rightarrow> jstr \<Rightarrow> workspace_handler" where
  "get_credentials root i fs = (case readCredentialsStatus fs root i of (has, names) \<Rightarrow> (WR_credentials has names, fs))"

definition put_credentials :: "fpath \<Rightarrow> jstr \<Rightarrow> json option \<Rightarrow> workspace_handler" where
  "put_credentials root i body fs = (case body of
      Some (JObj kvs) \<Rightarrow> (WR_done 204, writeCredentials root i (JObj kvs) fs) | _ \<Rightarrow> (WR_error Bad_request, fs))"

definition workspace_teams :: "(jstr \<Rightarrow> nat) \<Rightarrow> fpath \<Rightarrow> workspace \<Rightarrow> workspace_handler" where
  "workspace_teams collate root w fs = (WR_teams (sort_key (\<lambda>t. collate (tm_name t)) (filter (\<lambda>t. tm_expectedWorkspaceKind t = wk_kind w)
     (concat (map (\<lambda>n. case readTeam fs root n of Some t \<Rightarrow> [t] | None \<Rightarrow> []) (listTeamNames fs root))))), fs)"

fun workspace_handle :: "(content \<Rightarrow> jstr) \<Rightarrow> (jstr \<Rightarrow> nat) \<Rightarrow> disk \<Rightarrow> fpath \<Rightarrow> workspace_request \<Rightarrow> workspace_handler" where
  "workspace_handle raw collate tpl root Workspaces_list = list_workspaces collate root"
| "workspace_handle raw collate tpl root (Workspaces_create now body) = create_workspace raw tpl root now body"
| "workspace_handle raw collate tpl root (Workspace_get i) = with_workspace root i (\<lambda>w fs. (WR_workspace 200 w, fs))"
| "workspace_handle raw collate tpl root (Workspace_patch i body) = with_workspace root i (patch_workspace root body)"
| "workspace_handle raw collate tpl root (Workspace_delete i force) = with_workspace root i (\<lambda>_. delete_workspace root i force)"
| "workspace_handle raw collate tpl root (Env_list i) = with_workspace root i (\<lambda>_. list_env raw collate root i)"
| "workspace_handle raw collate tpl root (Env_get i f) = with_workspace root i (\<lambda>_. get_env raw root i f)"
| "workspace_handle raw collate tpl root (Env_put i f c) = with_workspace root i (\<lambda>_. put_env root i f c)"
| "workspace_handle raw collate tpl root (Env_delete i f) = with_workspace root i (\<lambda>_. delete_env root i f)"
| "workspace_handle raw collate tpl root (Env_reset i f) = with_workspace root i (reset_env raw tpl root i f)"
| "workspace_handle raw collate tpl root (Cred_get i) = with_workspace root i (\<lambda>_. get_credentials root i)"
| "workspace_handle raw collate tpl root (Cred_put i body) = with_workspace root i (\<lambda>_. put_credentials root i body)"
| "workspace_handle raw collate tpl root (Cred_delete i) = with_workspace root i (\<lambda>_ fs. (WR_done 204, deleteCredentials root i fs))"
| "workspace_handle raw collate tpl root (Workspace_teams i) = with_workspace root i (workspace_teams collate root)"

definition workspaces_run :: "(content \<Rightarrow> jstr) \<Rightarrow> (jstr \<Rightarrow> nat) \<Rightarrow> disk \<Rightarrow> fpath \<Rightarrow> workspace_request list \<Rightarrow> disk \<Rightarrow> workspace_response list \<times> disk" where
  "workspaces_run raw collate tpl root rqs fs = foldl (\<lambda>(rs, d) rq. let (r, d1) = workspace_handle raw collate tpl root rq d in (rs @ [r], d1)) ([], fs) rqs"

end
