(* ===== verification/Api.thy ===== *)
theory Api
  imports TeamRoutes WorkspaceRoutes
begin

text \<open>
  The stores' routes behind one server (\<open>buildApp\<close> of \<open>server/index.ts\<close>), what the data directory
  always looks like, and what the answers can depend on. \<open>entry_ok\<close> says what may lie where:
  everything below the data directory, each workspace and team in the directory of its name and as
  the routes' checks leave it.
\<close>

datatype api_request = A_team team_request | A_workspace workspace_request

datatype api_response = AR_team team_response | AR_workspace workspace_response

fun api_handle :: "(content \<Rightarrow> jstr) \<Rightarrow> (jstr \<Rightarrow> nat) \<Rightarrow> disk \<Rightarrow> fpath \<Rightarrow> api_request \<Rightarrow> disk \<Rightarrow> api_response \<times> disk" where
  "api_handle raw collate tpl root (A_team rq) fs = map_prod AR_team id (team_handle raw collate tpl root rq fs)"
| "api_handle raw collate tpl root (A_workspace rq) fs = map_prod AR_workspace id (workspace_handle raw collate tpl root rq fs)"

fun api_run :: "(content \<Rightarrow> jstr) \<Rightarrow> (jstr \<Rightarrow> nat) \<Rightarrow> disk \<Rightarrow> fpath \<Rightarrow> api_request list \<Rightarrow> disk \<Rightarrow> api_response list \<times> disk" where
  "api_run raw collate tpl root [] fs = ([], fs)"
| "api_run raw collate tpl root (rq # rqs) fs =
     (let (r, fs1) = api_handle raw collate tpl root rq fs; (rs, fs2) = api_run raw collate tpl root rqs fs1 in (r # rs, fs2))"

section \<open>What the data directory looks like\<close>

definition agent_ok :: "agent_role \<Rightarrow> bool" where
  "agent_ok a = (name_ok (ag_role a) \<and> plain (ag_promptFile a) \<and> ends_with (js ''.md'') (ag_promptFile a) \<and> ag_model a \<noteq> [])"

definition team_ok :: "team \<Rightarrow> bool" where
  "team_ok t = (name_ok (tm_name t) \<and> list_all agent_ok (tm_agents t) \<and> distinct (roles (tm_agents t))
     \<and> (tm_lead t = [] \<or> tm_agents t = [] \<or> lead_ok (tm_lead t) (tm_agents t)))"

definition workspace_ok :: "workspace \<Rightarrow> bool" where
  "workspace_ok w = (workspace_id_ok (wk_id w) \<and> wk_displayName w \<noteq> [] \<and> wk_kind w \<noteq> [] \<and> e164 (or_empty (wk_phoneNumber w)))"

fun content_ok :: "fpath \<Rightarrow> fpath \<Rightarrow> content \<Rightarrow> bool" where
  "content_ok root p (C_workspace w) = (workspace_ok w \<and> p = root @ [js ''workspaces'', wk_id w, js ''workspace.json''])"
| "content_ok root p (C_team t) = (team_ok t \<and> (p = root @ [js ''teams'', tm_name t, js ''team.yaml''] \<or> p = root @ [js ''teams'', tm_name t, js ''team.json'']))"
| "content_ok root p (C_json j) = (last p = js ''credentials.json'')"
| "content_ok root p _ = True"

definition entry_ok :: "fpath \<Rightarrow> fpath \<Rightarrow> content node \<Rightarrow> bool" where
  "entry_ok root p n = (prefix root p \<and> (case n of N_dir \<Rightarrow> True | N_file c \<Rightarrow> content_ok root p c))"

text \<open>The teams among the seed templates pass the routes' checks too.\<close>

definition templates_ok :: "disk \<Rightarrow> bool" where
  "templates_ok tpl = list_all (\<lambda>(p, n). case n of N_file (C_team t) \<Rightarrow> team_ok t | _ \<Rightarrow> True) tpl"

lemma templates_okD: "templates_ok tpl \<Longrightarrow> readTeamDefault tpl n = Some d \<Longrightarrow> team_ok d"
  by (auto simp: templates_ok_def readTeamDefault_def list_all_iff dest!: file_read_in split: option.splits content.splits)

lemma name_ok_plain: "name_ok s \<Longrightarrow> plain s"
  by (cases s) (auto simp: name_ok_def plain_def js_def is_lower_def is_digit_def list_all_iff)

lemma join_split_on: "split_on c s = ws \<Longrightarrow> s = join [c] ws"
proof (induction s arbitrary: ws)
  case (Cons d s)
  have "split_on c s \<noteq> []" by (cases s) (auto split: list.splits)
  then obtain v vs where "split_on c s = v # vs" by (cases "split_on c s") auto
  then show ?case using Cons by (cases vs) (auto split: if_splits)
qed auto

lemma workspace_id_plain: "workspace_id_ok s \<Longrightarrow> plain s"
proof -
  assume ok: "workspace_id_ok s"
  then obtain k i where s: "split_on 58 s = [k, i]" and w: "list_all kind_char k" "list_all word_char i"
    by (auto simp: workspace_id_ok_def split: list.splits)
  have "s = k @ 58 # i" using join_split_on [OF s] by simp
  moreover from this have "58 \<in> set s" by simp
  then have "s \<noteq> js ''.''" "s \<noteq> js ''..''" by (auto simp: js_def)
  ultimately show ?thesis using w by (auto simp: plain_def js_def kind_char_def word_char_def is_lower_def is_upper_def is_digit_def list_all_iff)
qed

lemma env_name_plain: "isValidEnvFileName s \<Longrightarrow> plain s"
proof -
  assume ok: "isValidEnvFileName s"
  then have "list_all word_char s" "\<not> starts_with (js ''.'') s" "s \<noteq> []" by (simp_all add: isValidEnvFileName_def)
  then show ?thesis by (auto simp: plain_def js_def starts_with_def word_char_def is_lower_def is_upper_def is_digit_def list_all_iff)
qed

lemma readWorkspace_ok:
  assumes "holds (entry_ok root) fs" "readWorkspace fs root i = Some w"
  shows "workspace_ok w" "workspaceDir root i = root @ [js ''workspaces'', wk_id w]"
proof -
  have "file_read fs (workspaceFile root i) = Some (C_workspace w)"
    using assms(2) by (auto simp: readWorkspace_def split: option.splits content.splits)
  from holdsD [OF assms(1) this] have "workspace_ok w" "workspaceDir root i @ [js ''workspace.json''] = root @ [js ''workspaces'', wk_id w, js ''workspace.json'']"
    by (simp_all add: entry_ok_def workspaceFile_def node_join_plain)
  then show "workspace_ok w" "workspaceDir root i = root @ [js ''workspaces'', wk_id w]" by simp_all
qed

lemma readTeam_ok:
  assumes "holds (entry_ok root) fs" "readTeam fs root n = Some t"
  shows "team_ok t" "teamRoot root n = root @ [js ''teams'', tm_name t]"
proof -
  have "file_read fs (teamConfigFileYaml root n) = Some (C_team t) \<or> file_read fs (teamConfigFileJson root n) = Some (C_team t)"
    using assms(2) by (auto simp: readTeam_def split: option.splits content.splits)
  then have "team_ok t \<and> teamRoot root n = root @ [js ''teams'', tm_name t]"
    using holdsD [OF assms(1)] by (force simp: entry_ok_def teamConfigFileYaml_def teamConfigFileJson_def node_join_plain)
  then show "team_ok t" "teamRoot root n = root @ [js ''teams'', tm_name t]" by simp_all
qed

lemma below_root [simp]: "prefix root (root @ p)"
  by simp

section \<open>Every route keeps it so\<close>

lemma workspace_id_of: "workspace_ok w \<Longrightarrow> plain (wk_id w)"
  by (simp add: workspace_ok_def workspace_id_plain)

lemma team_name_of: "team_ok t \<Longrightarrow> plain (tm_name t)"
  by (simp add: team_ok_def name_ok_plain)

lemma entry_ok_simps [simp]:
  "entry_ok root (root @ p) N_dir"
  "entry_ok root (root @ p) (N_file (C_text x))"
  "last (root @ p) = js ''credentials.json'' \<Longrightarrow> entry_ok root (root @ p) (N_file (C_json j))"
  by (simp_all add: entry_ok_def)

lemma holds_writeTeam: "holds (entry_ok root) fs \<Longrightarrow> team_ok t \<Longrightarrow> holds (entry_ok root) (writeTeam root t fs)"
  by (auto simp: writeTeam_def team_files_at team_name_of entry_ok_def intro!: inv_intros)

lemma holds_writeTeamPrompt:
  "holds (entry_ok root) fs \<Longrightarrow> prefix root (teamRoot root n) \<Longrightarrow> plain f \<Longrightarrow> holds (entry_ok root) (writeTeamPrompt root n f c fs)"
  by (auto simp: writeTeamPrompt_def teamPromptFile_def teamPromptsDir_def node_join_plain entry_ok_def intro!: inv_intros)

lemma team_root_below: "holds (entry_ok root) fs \<Longrightarrow> readTeam fs root n = Some t \<Longrightarrow> prefix root (teamRoot root n)"
  by (simp add: readTeam_ok)

lemma agents_from_ok:
  "agents_from seen js1 = Some as \<Longrightarrow> list_all agent_ok as \<and> distinct (roles as) \<and> set (roles as) \<inter> set seen = {}"
proof (induction seen js1 arbitrary: as rule: agents_from.induct)
  case (2 seen raw rest)
  then obtain role model as1 where r: "json_get raw (js ''role'') = Some (JStr role)" "json_get raw (js ''model'') = Some (JStr model)"
    "name_ok role" "role \<notin> set seen" "model \<noteq> []" "agents_from (role # seen) rest = Some as1"
    and as: "as = \<lparr>ag_role = role, ag_promptFile = role @ js ''.md'', ag_model = model\<rparr> # as1"
    by (auto split: option.splits json.splits if_splits)
  have "list_all agent_ok as1 \<and> distinct (roles as1) \<and> set (roles as1) \<inter> set (role # seen) = {}"
    using 2(1) [OF _ r(1) refl r(2) refl] r by blast
  moreover have "plain (role @ js ''.md'')"
    using name_ok_plain [OF r(3)] by (auto simp: plain_def js_def)
  then have "agent_ok \<lparr>ag_role = role, ag_promptFile = role @ js ''.md'', ag_model = model\<rparr>"
    using r(3-5) by (simp add: agent_ok_def ends_with_def)
  ultimately show ?case using r(4) by (auto simp: as roles_def)
qed (simp add: roles_def)

lemma parseAgents_ok: "parseAgentsInput v = Some as \<Longrightarrow> list_all agent_ok as \<and> distinct (roles as)"
  by (auto simp: parseAgentsInput_def roles_def dest: agents_from_ok split: option.splits json.splits)

lemma roles_reconcile: "roles (reconcile old new) = roles new"
  by (induction new) (auto simp: reconcile_def roles_def split: option.split)

lemma reconcile_ok: "list_all agent_ok old \<Longrightarrow> list_all agent_ok new \<Longrightarrow> list_all agent_ok (reconcile old new)"
proof -
  assume ok: "list_all agent_ok old" "list_all agent_ok new"
  have "agent_ok p" if "find P (rev old) = Some p" for P p
  proof -
    have "p \<in> set (rev old)" using that by (auto simp: find_Some_iff simp del: set_rev)
    then show ?thesis using ok(1) by (simp add: list_all_iff)
  qed
  then have "agent_ok (a\<lparr>ag_promptFile := ag_promptFile p\<rparr>)" if "find P (rev old) = Some p" "agent_ok a" for P p a
    using that by (fastforce simp: agent_ok_def)
  then show ?thesis using ok(2) by (auto simp: reconcile_def list_all_iff split: option.split)
qed

lemma holds_create_team:
  assumes "holds (entry_ok root) fs"
  shows "holds (entry_ok root) (snd (create_team raw tpl root body fs))"
proof -
  have "holds (entry_ok root) (seed_prompts raw tpl root name as (writeTeam root \<lparr>tm_name = name, tm_description = d, tm_expectedWorkspaceKind = k, tm_lead = lead, tm_agents = as\<rparr> fs))"
    if "name_ok name" "parseAgentsInput v = Some as" "as \<noteq> [] \<longrightarrow> lead_ok lead as" for name as d k lead v
  proof -
    have as: "list_all agent_ok as" "distinct (roles as)" using parseAgents_ok [OF that(2)] by simp_all
    then have "team_ok \<lparr>tm_name = name, tm_description = d, tm_expectedWorkspaceKind = k, tm_lead = lead, tm_agents = as\<rparr>" (is "team_ok ?t")
      using that by (auto simp: team_ok_def)
    from holds_writeTeam [OF assms this] show ?thesis
      unfolding seed_prompts_def
      by (rule holds_fold)
        (use as that(1) in \<open>auto simp: list_all_iff agent_ok_def team_files_at name_ok_plain intro!: holds_writeTeamPrompt\<close>)
  qed
  then show ?thesis using assms
    by (auto simp: create_team_def Let_def split: option.splits json.splits if_splits)
qed

lemma patched_team_ok:
  assumes "team_ok t" "patch_agents b t = Some as" "\<not> (as \<noteq> [] \<and> lead \<noteq> [] \<and> \<not> lead_ok lead as)"
  shows "team_ok (t\<lparr>tm_description := d, tm_expectedWorkspaceKind := k, tm_lead := lead, tm_agents := as\<rparr>)"
proof -
  have "list_all agent_ok as \<and> distinct (roles as)"
  proof (cases "json_get b (js ''agents'')")
    case None
    then show ?thesis using assms(1,2) by (simp add: patch_agents_def team_ok_def)
  next
    case (Some v)
    then obtain new where "parseAgentsInput (Some v) = Some new" "as = reconcile (tm_agents t) new"
      using assms(2) by (auto simp: patch_agents_def)
    then show ?thesis using assms(1) parseAgents_ok by (simp add: roles_reconcile reconcile_ok team_ok_def)
  qed
  then show ?thesis using assms(1,3) by (auto simp: team_ok_def)
qed

lemma holds_patch_team:
  assumes "holds (entry_ok root) fs"
  shows "holds (entry_ok root) (snd (patch_team raw tpl root name body fs))"
proof -
  have "holds (entry_ok root) (fold (\<lambda>a. deleteTeamPrompt root name (ag_promptFile a)) removed
      (fold (seed_missing_prompt raw tpl root name) (added_agents (tm_agents t) as)
        (writeTeam root (t\<lparr>tm_description := d, tm_expectedWorkspaceKind := k, tm_lead := lead, tm_agents := as\<rparr>) fs)))"
    if t: "readTeam fs root name = Some t" and "patch_agents b t = Some as" "\<not> (as \<noteq> [] \<and> lead \<noteq> [] \<and> \<not> lead_ok lead as)"
    for t b as lead d k removed
  proof -
    let ?t = "t\<lparr>tm_description := d, tm_expectedWorkspaceKind := k, tm_lead := lead, tm_agents := as\<rparr>"
    have ok: "team_ok ?t" using patched_team_ok [OF readTeam_ok(1) [OF assms t] that(2,3)] .
    have below: "prefix root (teamRoot root name)" using team_root_below [OF assms t] .
    have "holds (entry_ok root) (fold (seed_missing_prompt raw tpl root name) (added_agents (tm_agents t) as) (writeTeam root ?t fs))"
      using holds_writeTeam [OF assms ok]
      by (rule holds_fold)
        (use ok below in \<open>auto simp: added_agents_def seed_missing_prompt_def team_ok_def agent_ok_def list_all_iff intro!: holds_writeTeamPrompt\<close>)
    then show ?thesis by (rule holds_fold) (auto simp: deleteTeamPrompt_def intro: inv_intros)
  qed
  note kept = this
  show ?thesis using assms
    by (auto simp: patch_team_def Let_def intro!: kept split: option.splits)
qed

lemma prompt_agent_ok:
  assumes "holds (entry_ok root) fs" "prompt_agent fs root name role = Inr a"
  shows "prefix root (teamRoot root name)" "agent_ok a"
proof -
  obtain t where t: "readTeam fs root name = Some t" "find (\<lambda>a. ag_role a = role) (tm_agents t) = Some a"
    using assms(2) by (auto simp: prompt_agent_def split: option.splits if_splits)
  show "prefix root (teamRoot root name)" using team_root_below [OF assms(1) t(1)] .
  have "a \<in> set (tm_agents t)" using t(2) by (auto simp: find_Some_iff)
  then show "agent_ok a" using readTeam_ok(1) [OF assms(1) t(1)] by (simp add: team_ok_def list_all_iff)
qed

lemma holds_teams:
  assumes "holds (entry_ok root) fs" "templates_ok tpl"
  shows "holds (entry_ok root) (snd (team_handle raw collate tpl root rq fs))"
proof (cases rq)
  case (Teams_list k)
  then show ?thesis using assms(1) by (simp add: list_teams_def Let_def)
next
  case (Teams_create body)
  then show ?thesis using holds_create_team [OF assms(1)] by simp
next
  case (Team_get n)
  then show ?thesis using assms(1) by simp
next
  case (Team_patch n body)
  then show ?thesis using holds_patch_team [OF assms(1)] by simp
next
  case (Team_delete n force)
  then show ?thesis using assms(1) by (auto simp: delete_team_def deleteTeam_def intro: inv_intros split: option.split)
next
  case (Team_reset n)
  then show ?thesis using assms(1) templates_okD [OF assms(2)] by (auto simp: reset_team_def intro: holds_writeTeam split: option.split)
next
  case (Prompt_get n role)
  then show ?thesis using assms(1) by (simp add: get_prompt_def split: sum.split)
next
  case (Prompt_put n role c)
  then show ?thesis using assms(1) prompt_agent_ok [OF assms(1)]
    by (auto simp: put_prompt_def agent_ok_def intro!: holds_writeTeamPrompt split: sum.split)
next
  case (Prompt_reset n role)
  then show ?thesis using assms(1) prompt_agent_ok [OF assms(1)]
    by (auto simp: reset_prompt_def agent_ok_def intro!: holds_writeTeamPrompt split: sum.split option.split)
qed

section \<open>The workspace routes\<close>

lemma workspace_below: "holds (entry_ok root) fs \<Longrightarrow> readWorkspace fs root i = Some w \<Longrightarrow> prefix root (workspaceDir root i)"
  by (simp add: readWorkspace_ok)

lemma env_file_at: "isValidEnvFileName f \<Longrightarrow> env_file root i f = workspaceDir root i @ [js ''env'', f]"
  by (simp add: env_file_def workspaceEnvDir_def node_join_plain env_name_plain)

lemma holds_writeEnvFile:
  "holds (entry_ok root) fs \<Longrightarrow> prefix root (workspaceDir root i) \<Longrightarrow> writeEnvFile root i f c fs = Some fs1 \<Longrightarrow> holds (entry_ok root) fs1"
  by (auto simp: writeEnvFile_def env_file_at workspaceEnvDir_def node_join_plain entry_ok_def intro!: inv_intros split: if_splits)

lemma holds_seed_env:
  "holds (entry_ok root) fs \<Longrightarrow> prefix root (workspaceDir root i) \<Longrightarrow> holds (entry_ok root) (seedDefaultEnvFiles raw tpl root i kind fs)"
  by (auto simp: seedDefaultEnvFiles_def seed_env_file_def env_file_at workspaceEnvDir_def node_join_plain entry_ok_def
      intro!: inv_intros split: option.split)

lemma holds_createWorkspaceLayout:
  assumes "holds (entry_ok root) fs" "workspace_ok w" "createWorkspaceLayout root w fs = Some fs1"
  shows "holds (entry_ok root) fs1"
  using assms
  by (auto simp: createWorkspaceLayout_def workspace_files_at workspace_id_of entry_ok_def intro!: inv_intros split: option.splits)

lemma holds_create_workspace:
  assumes "holds (entry_ok root) fs"
  shows "holds (entry_ok root) (snd (create_workspace raw tpl root now body fs))"
proof -
  have "holds (entry_ok root) (seedDefaultEnvFiles raw tpl root i kind fs1)"
    if "createWorkspaceLayout root \<lparr>wk_id = i, wk_displayName = d, wk_kind = k, wk_phoneNumber = Some ph, wk_externalRef = x, wk_createdAt = now\<rparr> fs = Some fs1"
      "workspace_id_ok i" "d \<noteq> []" "k \<noteq> []" "e164 ph" for i d k ph x fs1 kind
  proof -
    have "workspace_ok \<lparr>wk_id = i, wk_displayName = d, wk_kind = k, wk_phoneNumber = Some ph, wk_externalRef = x, wk_createdAt = now\<rparr>"
      using that by (simp add: workspace_ok_def or_empty_def)
    from holds_createWorkspaceLayout [OF assms this that(1)] show ?thesis
      by (rule holds_seed_env) (simp add: workspace_files_at workspace_id_plain that(2))
  qed
  note kept = this
  show ?thesis using assms
    by (auto simp: create_workspace_def Let_def intro!: kept split: option.splits json.splits)
qed

lemma migrated_ok: "holds (entry_ok root) fs \<Longrightarrow> prefix root (workspaceDir root i) \<Longrightarrow> holds (entry_ok root) (migrateAgentsToMemory root i fs)"
proof -
  assume ok: "holds (entry_ok root) fs" and below: "prefix root (workspaceDir root i)"
  have mem: "isValidEnvFileName (js ''memory.md'')" "isValidEnvFileName (js ''agents.md'')"
    by (simp_all add: isValidEnvFileName_def js_def starts_with_def ends_with_def word_char_def is_lower_def)
  have "entry_ok root (env_file root i (js ''memory.md'')) (N_file c)" if "file_read fs (env_file root i (js ''agents.md'')) = Some c" for c
    using holdsD [OF ok that] below by (cases c) (auto simp: entry_ok_def env_file_at mem)
  then show ?thesis using ok
    by (auto simp: migrateAgentsToMemory_def Let_def intro!: inv_intros split: option.split)
qed

lemma holds_patch_workspace:
  assumes "holds (entry_ok root) fs" "workspace_ok w"
  shows "holds (entry_ok root) (snd (patch_workspace root body w fs))"
proof -
  have ok: "workspace_ok (w\<lparr>wk_displayName := d, wk_kind := k, wk_phoneNumber := p, wk_externalRef := r\<rparr>)"
    if "patch_field b ''displayName'' (\<lambda>s. s \<noteq> []) (wk_displayName w) id = Some d" "patch_field b ''kind'' (\<lambda>s. s \<noteq> []) (wk_kind w) id = Some k"
      "patch_field b ''phoneNumber'' e164 (wk_phoneNumber w) Some = Some p" for b d k p r
    using that assms(2) by (auto simp: workspace_ok_def patch_field_def or_empty_def split: option.splits json.splits if_splits)
  have "holds (entry_ok root) (writeWorkspace root w1 fs)" if "workspace_ok w1" for w1
    using assms(1) that by (auto simp: writeWorkspace_def workspace_files_at workspace_id_of entry_ok_def intro!: inv_intros)
  then show ?thesis using assms(1) ok
    by (auto simp: patch_workspace_def Let_def split: option.splits)
qed

lemma holds_workspaces:
  assumes "holds (entry_ok root) fs"
  shows "holds (entry_ok root) (snd (workspace_handle raw collate tpl root rq fs))"
proof -
  have on: "holds (entry_ok root) (snd (with_workspace root i f fs))"
    if "\<And>w. workspace_ok w \<Longrightarrow> prefix root (workspaceDir root i) \<Longrightarrow> holds (entry_ok root) (snd (f w fs))" for i f
    using assms that readWorkspace_ok [OF assms] workspace_below [OF assms] by (auto simp: with_workspace_def split: option.split)
  show ?thesis
  proof (cases rq)
    case Workspaces_list
    then show ?thesis using assms by (simp add: list_workspaces_def)
  next
    case (Workspaces_create now body)
    then show ?thesis using holds_create_workspace [OF assms] by simp
  next
    case (Workspace_patch i body)
    then show ?thesis by (auto intro!: on holds_patch_workspace assms)
  next
    case (Cred_put i body)
    then show ?thesis using assms
      by (auto intro!: on inv_intros simp: put_credentials_def writeCredentials_def workspaceCredentialsFile_def node_join_plain entry_ok_def
          split: option.split json.split)
  qed (use assms in \<open>auto intro!: on intro: inv_intros holds_writeEnvFile migrated_ok
      simp: delete_workspace_def deleteWorkspace_def list_env_def get_env_def put_env_def delete_env_def deleteEnvFile_def reset_env_def
        get_credentials_def deleteCredentials_def workspace_teams_def Let_def split: option.split prod.split\<close>)
qed

lemma holds_api:
  assumes "holds (entry_ok root) fs" "templates_ok tpl"
  shows "holds (entry_ok root) (snd (api_handle raw collate tpl root rq fs))"
  using holds_teams [OF assms] holds_workspaces [OF assms(1)] by (cases rq) simp_all

lemma holds_api_run:
  assumes "holds (entry_ok root) fs" "templates_ok tpl"
  shows "holds (entry_ok root) (snd (api_run raw collate tpl root rqs fs))"
  using assms(1)
proof (induction rqs arbitrary: fs)
  case (Cons rq rqs)
  then show ?case using holds_api [OF Cons.prems assms(2)] by (simp add: case_prod_beta Let_def)
qed simp

end
