(* ===== verification/ApiRun.thy ===== *)
theory ApiRun
  imports Api
begin

text \<open>
  Properties of the stores' routes: what a run of requests keeps, what the answers can depend on
  (credentials are write-only), and what single requests do.
\<close>

section \<open>Files without the credentials' values\<close>

definition veil_json :: "json \<Rightarrow> json" where
  "veil_json j = (case j of JObj kvs \<Rightarrow> JObj (map (\<lambda>(k, v). (k, JNull)) kvs) | _ \<Rightarrow> JNull)"

fun veil_content :: "content \<Rightarrow> content" where
  "veil_content (C_json j) = C_json (veil_json j)"
| "veil_content c = c"

fun veil_node :: "content node \<Rightarrow> content node" where
  "veil_node (N_file c) = N_file (veil_content c)"
| "veil_node N_dir = N_dir"

definition veil :: "disk \<Rightarrow> disk" where
  "veil fs = map (\<lambda>(p, n). (p, veil_node n)) fs"

fun veil_request :: "api_request \<Rightarrow> api_request" where
  "veil_request (A_workspace (Cred_put i (Some (JObj kvs)))) = A_workspace (Cred_put i (Some (veil_json (JObj kvs))))"
| "veil_request rq = rq"

lemma jm_get_veil: "jm_get (veil fs) p = map_option veil_node (jm_get fs p)"
  by (induction fs) (auto simp: veil_def jm_get_def)

lemma jm_set_veil: "jm_set p (veil_node n) (veil fs) = veil (jm_set p n fs)"
  by (induction fs) (auto simp: veil_def jm_set_def)

lemma jm_delete_veil: "jm_delete p (veil fs) = veil (jm_delete p fs)"
  by (induction fs) (auto simp: veil_def jm_delete_def)

lemma veil_node_dir: "veil_node n = N_dir \<longleftrightarrow> n = N_dir"
  by (cases n) simp_all

lemma file_read_veil [simp]: "file_read (veil fs) p = map_option veil_content (file_read fs p)"
  by (auto simp: file_read_def jm_get_veil split: option.splits node.splits)

lemma is_dir_veil [simp]: "is_dir (veil fs) p = is_dir fs p"
proof -
  have "list_ex (\<lambda>q. strict_prefix p (fst q)) (veil fs) = list_ex (\<lambda>q. strict_prefix p (fst q)) fs"
    by (induction fs) (auto simp: veil_def)
  then show ?thesis by (cases "jm_get fs p") (simp_all add: is_dir_def jm_get_veil veil_node_dir)
qed

lemma exists_path_veil [simp]: "exists_path (veil fs) p = exists_path fs p"
  by (simp add: exists_path_def jm_get_veil)

lemma read_dir_veil [simp]: "read_dir (veil fs) p = read_dir fs p"
proof -
  have "map (\<lambda>q. fst q ! length p) (filter (\<lambda>q. strict_prefix p (fst q)) (veil fs))
      = map (\<lambda>q. fst q ! length p) (filter (\<lambda>q. strict_prefix p (fst q)) fs)"
    by (induction fs) (auto simp: veil_def)
  then show ?thesis by (simp add: read_dir_def list_names_def)
qed

lemma file_write_veil: "file_write p (veil_content c) (veil fs) = veil (file_write p c fs)"
  using jm_set_veil [of p "N_file c" fs] by (simp add: file_write_def)

lemma writes_veil [simp]:
  "file_write p (C_text t) (veil fs) = veil (file_write p (C_text t) fs)"
  "file_write p (C_team tm) (veil fs) = veil (file_write p (C_team tm) fs)"
  "file_write p (C_workspace w) (veil fs) = veil (file_write p (C_workspace w) fs)"
  "make_dir p (veil fs) = veil (make_dir p fs)"
  "file_remove p (veil fs) = veil (file_remove p fs)"
  "tree_remove p (veil fs) = veil (tree_remove p fs)"
proof -
  show "tree_remove p (veil fs) = veil (tree_remove p fs)" by (induction fs) (auto simp: tree_remove_def veil_def)
qed (use file_write_veil [of p "C_text t"] file_write_veil [of p "C_team tm"] file_write_veil [of p "C_workspace w"] jm_set_veil [of p N_dir fs]
  in \<open>simp_all add: make_dir_def file_remove_def jm_delete_veil\<close>)

lemma veil_content_kinds [simp]:
  "veil_content c = C_team t \<longleftrightarrow> c = C_team t" "veil_content c = C_workspace w \<longleftrightarrow> c = C_workspace w"
  by (cases c; simp)+

lemma readers_veil [simp]:
  "readWorkspace (veil fs) root i = readWorkspace fs root i"
  "readTeam (veil fs) root n = readTeam fs root n"
  "listWorkspaceIds (veil fs) root = listWorkspaceIds fs root"
  "countWorkspaceSessions (veil fs) root i = countWorkspaceSessions fs root i"
  by (auto simp: readWorkspace_def readTeam_def listWorkspaceIds_def countWorkspaceSessions_def cong: option.case_cong split: option.split content.split)

lemma listTeamNames_veil [simp]: "listTeamNames (veil fs) root = listTeamNames fs root"
  by (simp add: listTeamNames_def split: option.split)

lemma text_at_veil:
  assumes "holds (entry_ok root) fs" "p \<noteq> [] \<Longrightarrow> last p \<noteq> js ''credentials.json''" "p \<noteq> []"
  shows "text_at raw (veil fs) p = text_at raw fs p"
proof -
  have "veil_content c = c" if "file_read fs p = Some c" for c
    using holdsD [OF assms(1) that] assms(2,3) by (cases c) (simp_all add: entry_ok_def)
  then show ?thesis by (auto simp: text_at_def split: option.splits)
qed

lemma prompt_text_veil:
  assumes "holds (entry_ok root) fs" "plain f" "ends_with (js ''.md'') f"
  shows "readTeamPrompt raw (veil fs) root n f = readTeamPrompt raw fs root n f"
proof -
  have "f \<noteq> js ''credentials.json''" using assms(3) by (auto simp: ends_with_def js_def)
  then show ?thesis
    using text_at_veil [OF assms(1)] assms(2) by (simp add: readTeamPrompt_def teamPromptFile_def node_join_plain)
qed

lemma env_text_veil:
  assumes "holds (entry_ok root) fs"
  shows "isValidEnvFileName f \<Longrightarrow> text_at raw (veil fs) (env_file root i f) = text_at raw fs (env_file root i f)"
proof -
  assume f: "isValidEnvFileName f"
  then have "f \<noteq> js ''credentials.json''" by (auto simp: isValidEnvFileName_def ends_with_def js_def)
  then show ?thesis using text_at_veil [OF assms] by (simp add: env_file_at f)
qed

lemma team_writers_veil [simp]:
  "writeTeam root t (veil fs) = veil (writeTeam root t fs)"
  "writeTeamPrompt root n f c (veil fs) = veil (writeTeamPrompt root n f c fs)"
  "deleteTeamPrompt root n f (veil fs) = veil (deleteTeamPrompt root n f fs)"
  "deleteTeam root n (veil fs) = veil (deleteTeam root n fs)"
  "deleteWorkspace root i (veil fs) = veil (deleteWorkspace root i fs)"
  "writeWorkspace root w (veil fs) = veil (writeWorkspace root w fs)"
  by (simp_all add: writeTeam_def writeTeamPrompt_def deleteTeamPrompt_def deleteTeam_def deleteWorkspace_def writeWorkspace_def)

lemma fold_veil:
  assumes "holds P fs" "\<And>x fs. x \<in> set xs \<Longrightarrow> holds P fs \<Longrightarrow> f x (veil fs) = veil (f x fs) \<and> holds P (f x fs)"
  shows "fold f xs (veil fs) = veil (fold f xs fs)"
  using assms by (induction xs arbitrary: fs) auto

lemma prompt_agent_veil [simp]: "prompt_agent (veil fs) root n role = prompt_agent fs root n role"
  by (simp add: prompt_agent_def)

lemma seed_prompts_veil: "seed_prompts raw tpl root n as (veil fs) = veil (seed_prompts raw tpl root n as fs)"
  unfolding seed_prompts_def by (rule fold_veil [of "\<lambda>_ _. True"]) (simp_all add: holds_def)

lemma create_team_veil: "create_team raw tpl root body (veil fs) = map_prod id veil (create_team raw tpl root body fs)"
  by (auto simp: create_team_def Let_def seed_prompts_veil split: option.split json.split)

lemma patch_team_veil:
  assumes "holds (entry_ok root) fs"
  shows "patch_team raw tpl root n body (veil fs) = map_prod id veil (patch_team raw tpl root n body fs)"
proof -
  have "fold (\<lambda>a. deleteTeamPrompt root n (ag_promptFile a)) removed (fold (seed_missing_prompt raw tpl root n) (added_agents old as) (veil (writeTeam root t1 fs)))
      = veil (fold (\<lambda>a. deleteTeamPrompt root n (ag_promptFile a)) removed (fold (seed_missing_prompt raw tpl root n) (added_agents old as) (writeTeam root t1 fs)))"
    if "readTeam fs root n = Some t" "team_ok t1" "list_all agent_ok as" for t t1 as old removed
  proof -
    have below: "prefix root (teamRoot root n)" using team_root_below [OF assms that(1)] .
    have "fold (seed_missing_prompt raw tpl root n) (added_agents old as) (veil (writeTeam root t1 fs))
        = veil (fold (seed_missing_prompt raw tpl root n) (added_agents old as) (writeTeam root t1 fs))"
      using holds_writeTeam [OF assms that(2)]
      by (rule fold_veil)
        (use that(3) below in \<open>auto simp: seed_missing_prompt_def added_agents_def agent_ok_def list_all_iff prompt_text_veil intro!: holds_writeTeamPrompt\<close>)
    then show ?thesis by (simp add: fold_veil [of "\<lambda>_ _. True"] holds_def)
  qed
  note same = this
  show ?thesis
  proof (cases "readTeam fs root n")
    case None
    then show ?thesis by (simp add: patch_team_def)
  next
    case (Some t)
    note ok = readTeam_ok(1) [OF assms Some]
    have "list_all agent_ok as" if "patch_agents b t = Some as" for b as
      using patched_team_ok [OF ok that, of "[]" undefined undefined] by (simp add: team_ok_def)
    then show ?thesis using Some patched_team_ok [OF ok]
      by (auto simp: patch_team_def Let_def intro!: same [OF Some] split: option.split)
  qed
qed

lemma team_handle_veil:
  assumes "holds (entry_ok root) fs"
  shows "team_handle raw collate tpl root rq (veil fs) = map_prod id veil (team_handle raw collate tpl root rq fs)"
proof (cases rq)
  case (Team_patch n body)
  then show ?thesis using patch_team_veil [OF assms] by simp
next
  case (Prompt_get n role)
  then show ?thesis using prompt_agent_ok [OF assms] prompt_text_veil [OF assms]
    by (auto simp: get_prompt_def agent_ok_def split: sum.split)
qed (auto simp: list_teams_def create_team_veil delete_team_def reset_team_def put_prompt_def reset_prompt_def Let_def split: option.split sum.split)

section \<open>The workspace routes see no credentials\<close>

lemma status_veil [simp]: "readCredentialsStatus (veil fs) root i = readCredentialsStatus fs root i"
proof -
  have "(case veil_content c of C_json (JObj kvs) \<Rightarrow> (kvs \<noteq> [], sort (map fst kvs)) | C_text t \<Rightarrow> (trim t \<noteq> [], []) | _ \<Rightarrow> (True, []))
      = (case c of C_json (JObj kvs) \<Rightarrow> (kvs \<noteq> [], sort (map fst kvs)) | C_text t \<Rightarrow> (trim t \<noteq> [], []) | _ \<Rightarrow> (True, []))" for c
    by (cases c) (auto simp: veil_json_def comp_def split_def split: json.split)
  then show ?thesis by (simp add: readCredentialsStatus_def split: option.split)
qed

lemma migrate_veil: "migrateAgentsToMemory root i (veil fs) = veil (migrateAgentsToMemory root i fs)"
  by (simp add: migrateAgentsToMemory_def Let_def file_write_veil split: option.split)

lemma seed_env_veil: "seedDefaultEnvFiles raw tpl root i kind (veil fs) = veil (seedDefaultEnvFiles raw tpl root i kind fs)"
proof -
  have "fold (seed_env_file raw tpl root i kind) ns (veil fs) = veil (fold (seed_env_file raw tpl root i kind) ns fs)" for ns
    by (rule fold_veil [of "\<lambda>_ _. True"]) (simp_all add: holds_def seed_env_file_def split: option.split)
  then show ?thesis by (simp add: seedDefaultEnvFiles_def split: option.split)
qed

lemma env_writers_veil:
  "writeEnvFile root i f c (veil fs) = map_option veil (writeEnvFile root i f c fs)"
  "deleteEnvFile root i f (veil fs) = map_prod veil id (deleteEnvFile root i f fs)"
  "createWorkspaceLayout root w (veil fs) = map_option veil (createWorkspaceLayout root w fs)"
  by (auto simp: writeEnvFile_def deleteEnvFile_def createWorkspaceLayout_def split: option.split)

lemma listEnvFiles_veil:
  assumes "holds (entry_ok root) fs"
  shows "listEnvFiles raw collate (veil fs) root i = listEnvFiles raw collate fs root i"
proof -
  have "(if isValidEnvFileName n then (case text_at raw (veil fs) (env_file root i n) of Some t \<Rightarrow> [(n, utf8_size t)] | None \<Rightarrow> []) else [])
      = (if isValidEnvFileName n then (case text_at raw fs (env_file root i n) of Some t \<Rightarrow> [(n, utf8_size t)] | None \<Rightarrow> []) else [])" for n
    by (simp add: env_text_veil [OF assms])
  then show ?thesis by (simp add: listEnvFiles_def split: option.split)
qed

lemma create_workspace_veil:
  "create_workspace raw tpl root now body (veil fs) = map_prod id veil (create_workspace raw tpl root now body fs)"
  by (auto simp: create_workspace_def Let_def env_writers_veil seed_env_veil split: option.split json.split)

lemma with_workspace_veil:
  assumes "\<And>w. readWorkspace fs root i = Some w \<Longrightarrow> f w (veil fs) = map_prod id veil (f w fs)"
  shows "with_workspace root i f (veil fs) = map_prod id veil (with_workspace root i f fs)"
  using assms by (auto simp: with_workspace_def split: option.split)

lemma workspace_handle_veil:
  assumes "holds (entry_ok root) fs" "\<And>i b. rq \<noteq> Cred_put i b"
  shows "workspace_handle raw collate tpl root rq (veil fs) = map_prod id veil (workspace_handle raw collate tpl root rq fs)"
proof (cases rq)
  case Workspaces_list
  then show ?thesis by (simp add: list_workspaces_def)
next
  case (Workspaces_create now body)
  then show ?thesis by (simp add: create_workspace_veil)
next
  case (Env_list i)
  have "listEnvFiles raw collate (veil (migrateAgentsToMemory root i fs)) root i = listEnvFiles raw collate (migrateAgentsToMemory root i fs) root i"
    if "readWorkspace fs root i = Some w" for w
    using listEnvFiles_veil migrated_ok [OF assms(1) workspace_below [OF assms(1) that]] by blast
  then show ?thesis using Env_list by (auto intro!: with_workspace_veil simp: list_env_def Let_def migrate_veil)
next
  case (Env_get i f)
  have "readEnvFile raw (veil (migrateAgentsToMemory root i fs)) root i f = readEnvFile raw (migrateAgentsToMemory root i fs) root i f"
    if "readWorkspace fs root i = Some w" for w
    using env_text_veil [OF migrated_ok [OF assms(1) workspace_below [OF assms(1) that]]] by (simp add: readEnvFile_def)
  then show ?thesis using Env_get by (auto intro!: with_workspace_veil simp: get_env_def Let_def migrate_veil split: option.split)
next
  case (Cred_put i b)
  then show ?thesis using assms(2) by blast
qed (auto intro!: with_workspace_veil simp: patch_workspace_def delete_workspace_def put_env_def delete_env_def reset_env_def get_credentials_def
    deleteCredentials_def workspace_teams_def Let_def env_writers_veil split: option.split prod.split)

lemma put_credentials_veil:
  "workspace_handle raw collate tpl root (Cred_put i (Some (veil_json (JObj kvs)))) (veil fs)
     = map_prod id veil (workspace_handle raw collate tpl root (Cred_put i (Some (JObj kvs))) fs)"
  using file_write_veil [of _ "C_json (JObj kvs)" fs]
  by (auto simp: with_workspace_def put_credentials_def writeCredentials_def veil_json_def split: option.split)

lemma api_handle_veil:
  assumes "holds (entry_ok root) fs"
  shows "api_handle raw collate tpl root (veil_request rq) (veil fs) = map_prod id veil (api_handle raw collate tpl root rq fs)"
proof (cases rq)
  case (A_team trq)
  then show ?thesis using team_handle_veil [OF assms] by (simp add: map_prod_compose prod.map_comp comp_def)
next
  case (A_workspace wrq)
  show ?thesis
  proof (cases "\<exists>i b. wrq = Cred_put i b")
    case True
    then obtain i b where w: "wrq = Cred_put i b" by blast
    show ?thesis
    proof (cases "\<exists>kvs. b = Some (JObj kvs)")
      case True
      then show ?thesis using A_workspace w put_credentials_veil [of raw collate tpl root i] by (auto simp: prod.map_comp comp_def)
    next
      case False
      moreover have "veil_request (A_workspace (Cred_put i b)) = A_workspace (Cred_put i b)"
        using False by (cases b) (simp, case_tac a, simp_all)
      ultimately have "veil_request rq = rq" "put_credentials root i b d = (WR_error Bad_request, d)" for d
        using A_workspace w by (auto simp: put_credentials_def split: option.split json.split)
      then show ?thesis using A_workspace w by (simp add: with_workspace_def split: option.split)
    qed
  next
    case False
    then have "veil_request rq = rq" using A_workspace by (cases wrq) auto
    then show ?thesis using A_workspace workspace_handle_veil [OF assms] False by (auto simp: prod.map_comp comp_def)
  qed
qed

lemma api_run_veil:
  assumes "holds (entry_ok root) fs" "templates_ok tpl"
  shows "api_run raw collate tpl root (map veil_request rqs) (veil fs) = map_prod id veil (api_run raw collate tpl root rqs fs)"
  using assms(1)
proof (induction rqs arbitrary: fs)
  case (Cons rq rqs)
  have "api_run raw collate tpl root (map veil_request rqs) (veil (snd (api_handle raw collate tpl root rq fs)))
      = map_prod id veil (api_run raw collate tpl root rqs (snd (api_handle raw collate tpl root rq fs)))"
    using Cons.IH holds_api [OF Cons.prems assms(2)] by blast
  then show ?case by (simp add: api_handle_veil [OF Cons.prems] case_prod_beta Let_def)
qed simp

section \<open>An example\<close>

definition demo_template :: disk where
  "demo_template = [([js ''teams'', js ''crew'', js ''team.yaml''], N_file (C_team \<lparr>tm_name = js ''crew'', tm_description = [],
     tm_expectedWorkspaceKind = js ''social'', tm_lead = js ''engagement-lead'',
     tm_agents = [\<lparr>ag_role = js ''engagement-lead'', ag_promptFile = js ''lead.md'', ag_model = js ''m''\<rparr>]\<rparr>)),
    ([js ''teams'', js ''crew'', js ''prompts'', js ''lead.md''], N_file (C_text (js ''Be kind.'')))]"

lemma demo_template_ok: "templates_ok demo_template"
  by (simp add: templates_ok_def demo_template_def team_ok_def agent_ok_def roles_def lead_ok_def name_ok_def js_def is_lower_def is_digit_def
      plain_def ends_with_def)

section \<open>Properties\<close>

text \<open>
  C13: the data directory stays well-formed and everything stays inside it. Whatever requests the team
  and workspace routes get, in whatever order, everything they leave on disk lies below the data
  directory, each workspace and each team in the directory of its own name; workspaces have a valid id,
  a display name, a kind and an E.164 number, teams have distinct valid roles, a model and a prompt
  file for each, and a lead that is one of them unless there is none.
\<close>

theorem api_keeps_the_directory:
  assumes "templates_ok tpl"
  shows "holds (entry_ok root) (snd (api_run raw collate tpl root rqs []))"
  by (rule holds_api_run [OF _ assms]) simp

theorem api_keeps_the_directory_witness:
  "holds (entry_ok [js ''data'']) (snd (api_run (\<lambda>_. []) length demo_template [js ''data'']
     [A_team (Teams_create (Some (JObj [(js ''name'', JStr (js ''crew'')), (js ''description'', JStr []), (js ''expectedWorkspaceKind'', JStr (js ''social''))]))),
      A_team (Team_reset (js ''crew''))] []))"
  by (rule api_keeps_the_directory [OF demo_template_ok])

text \<open>
  C15: credentials are write-only. Over any run of the team and workspace routes, the answers are the same
  as if every value of every credential ever stored had been \<open>null\<close>: no answer, now or later, depends on one.
\<close>

theorem credentials_are_write_only:
  assumes "templates_ok tpl"
  shows "fst (api_run raw collate tpl root (map veil_request rqs) []) = fst (api_run raw collate tpl root rqs [])"
  using api_run_veil [OF holds_Nil assms, of raw collate root rqs] by (simp add: veil_def)

theorem credentials_are_write_only_witness:
  "let rqs = (\<lambda>v. [A_workspace (Workspaces_create 0 (Some (JObj [(js ''id'', JStr (js ''a:b'')), (js ''displayName'', JStr (js ''A'')),
       (js ''kind'', JStr (js ''social'')), (js ''phoneNumber'', JStr (js ''+15551234567''))]))),
     A_workspace (Cred_put (js ''a:b'') (Some (JObj [(js ''password'', v)]))), A_workspace (Cred_get (js ''a:b''))])
   in fst (api_run (\<lambda>_. []) length demo_template [js ''data''] (rqs JNull) []) = fst (api_run (\<lambda>_. []) length demo_template [js ''data''] (rqs (JStr (js ''secret''))) [])"
  using credentials_are_write_only [OF demo_template_ok, of "\<lambda>_. []" length "[js ''data'']"
    "[A_workspace (Workspaces_create 0 (Some (JObj [(js ''id'', JStr (js ''a:b'')), (js ''displayName'', JStr (js ''A'')),
       (js ''kind'', JStr (js ''social'')), (js ''phoneNumber'', JStr (js ''+15551234567''))]))),
     A_workspace (Cred_put (js ''a:b'') (Some (JObj [(js ''password'', JStr (js ''secret''))]))), A_workspace (Cred_get (js ''a:b''))]"]
  by (simp add: veil_json_def Let_def del: api_run.simps api_handle.simps)

text \<open>
  Deleting a workspace removes that workspace. On any disk the routes can have left, a request to
  delete, however its id is spelled, either changes nothing or names a workspace that is there and
  removes exactly the directory of that workspace's own id; without \<open>force\<close> only when it has no session.
\<close>

lemma delete_removes_one_workspace:
  assumes "templates_ok tpl" "fs = snd (api_run raw collate tpl root rqs [])"
  shows "snd (workspace_handle raw collate tpl root (Workspace_delete i force) fs) = fs
    \<or> (case readWorkspace fs root i of None \<Rightarrow> False
       | Some w \<Rightarrow> snd (workspace_handle raw collate tpl root (Workspace_delete i force) fs) = tree_remove (root @ [js ''workspaces'', wk_id w]) fs
           \<and> (force \<or> countWorkspaceSessions fs root i = 0))"
proof -
  have "holds (entry_ok root) fs" unfolding assms(2) by (rule holds_api_run [OF _ assms(1)]) simp
  then show ?thesis
    by (auto simp: with_workspace_def delete_workspace_def deleteWorkspace_def readWorkspace_ok split: option.split)
qed

lemma delete_removes_one_workspace_witness:
  "let fs = snd (api_run (\<lambda>_. []) length demo_template [js ''data''] [] [])
   in snd (workspace_handle (\<lambda>_. []) length demo_template [js ''data''] (Workspace_delete (js ''a:b'') False) fs) = fs
    \<or> (case readWorkspace fs [js ''data''] (js ''a:b'') of None \<Rightarrow> False
       | Some w \<Rightarrow> snd (workspace_handle (\<lambda>_. []) length demo_template [js ''data''] (Workspace_delete (js ''a:b'') False) fs) = tree_remove ([js ''data''] @ [js ''workspaces'', wk_id w]) fs
           \<and> (False \<or> countWorkspaceSessions fs [js ''data''] (js ''a:b'') = 0))"
  unfolding Let_def by (rule delete_removes_one_workspace [OF demo_template_ok refl])

text \<open>
  A prompt reads back. On any disk the routes can have left, a prompt put for an agent's role is what the prompt route then gives, and the
  team itself is untouched.
\<close>

lemma prompt_reads_back:
  assumes "templates_ok tpl" "fs = snd (api_run raw collate tpl root rqs [])"
  shows "case team_handle raw collate tpl root (Prompt_put name role c) fs of
     (TR_done st, fs1) \<Rightarrow> team_handle raw collate tpl root (Prompt_get name role) fs1 = (TR_text c, fs1) \<and> readTeam fs1 root name = readTeam fs root name
   | (TR_error e, fs1) \<Rightarrow> fs1 = fs \<and> fst (team_handle raw collate tpl root (Prompt_get name role) fs) = TR_error e
   | _ \<Rightarrow> False"
proof (cases "prompt_agent fs root name role")
  case (Inl e)
  then show ?thesis by (simp add: put_prompt_def get_prompt_def)
next
  case (Inr a)
  let ?fs = "writeTeamPrompt root name (ag_promptFile a) c fs"
  have "holds (entry_ok root) fs" unfolding assms(2) by (rule holds_api_run [OF _ assms(1)]) simp
  from prompt_agent_ok(2) [OF this Inr] have "plain (ag_promptFile a)" by (simp add: agent_ok_def)
  then have t: "readTeam ?fs root name = readTeam fs root name"
    by (simp add: readTeam_def writeTeamPrompt_def teamPromptFile_def teamConfigFileYaml_def teamConfigFileJson_def node_join_plain disk.get_put cong: option.case_cong)
  then have "prompt_agent ?fs root name role = Inr a" using Inr by (simp add: prompt_agent_def)
  then show ?thesis using Inr t
    by (simp add: put_prompt_def get_prompt_def readTeamPrompt_def text_at_def writeTeamPrompt_def disk.get_put or_empty_def)
qed

lemma prompt_reads_back_witness:
  "let fs = snd (api_run (\<lambda>_. []) length demo_template [js ''data''] [] [])
   in case team_handle (\<lambda>_. []) length demo_template [js ''data''] (Prompt_put (js ''crew'') (js ''lead'') (js ''Hi'')) fs of
     (TR_done st, fs1) \<Rightarrow> team_handle (\<lambda>_. []) length demo_template [js ''data''] (Prompt_get (js ''crew'') (js ''lead'')) fs1 = (TR_text (js ''Hi''), fs1)
       \<and> readTeam fs1 [js ''data''] (js ''crew'') = readTeam fs [js ''data''] (js ''crew'')
   | (TR_error e, fs1) \<Rightarrow> fs1 = fs \<and> fst (team_handle (\<lambda>_. []) length demo_template [js ''data''] (Prompt_get (js ''crew'') (js ''lead'')) fs) = TR_error e
   | _ \<Rightarrow> False"
  unfolding Let_def by (rule prompt_reads_back [OF demo_template_ok refl])

text \<open>
  What a patch can delete. An agent that exists keeps the prompt file it has, a new one gets the file of
  its role's name, and the files of the agents that go are deleted: so a patch that replaces an agent by a
  new one whose role names the old one's file answers 200 and deletes the prompt of the agent it added.
\<close>

lemma patch_deletes_a_kept_prompt:
  assumes "team_handle raw collate tpl root (Team_patch name body) fs = (TR_team 200 t, fs1)" "readTeam fs root name = Some old"
    "a \<in> set (tm_agents t)" "b \<in> set (tm_agents old)" "ag_role b \<notin> set (roles (tm_agents t))" "ag_promptFile a = ag_promptFile b"
  shows "readTeamPrompt raw fs1 root name (ag_promptFile a) = None"
proof -
  have gone: "file_read (fold (\<lambda>r. deleteTeamPrompt root name (ag_promptFile r)) rs d) (teamPromptFile root name (ag_promptFile b)) = None"
    if "b \<in> set rs \<or> file_read d (teamPromptFile root name (ag_promptFile b)) = None" for rs d
    using that by (induction rs arbitrary: d) (auto simp: deleteTeamPrompt_def disk.get_del)
  obtain d as where t: "tm_agents t = as" "fs1 = fold (\<lambda>r. deleteTeamPrompt root name (ag_promptFile r)) (filter (\<lambda>r. ag_role r \<notin> set (roles as)) (tm_agents old)) d"
    using assms(1,2) by (auto simp: patch_team_def Let_def split: option.splits if_splits)
  have "file_read fs1 (teamPromptFile root name (ag_promptFile b)) = None"
    unfolding t(2) by (rule gone) (use assms(4,5) t(1) in simp)
  then show ?thesis by (simp add: readTeamPrompt_def text_at_def assms(6))
qed

definition demo_crew :: team where
  "demo_crew = \<lparr>tm_name = js ''crew'', tm_description = [], tm_expectedWorkspaceKind = js ''social'', tm_lead = js ''engagement-lead'',
     tm_agents = [\<lparr>ag_role = js ''engagement-lead'', ag_promptFile = js ''lead.md'', ag_model = js ''m''\<rparr>]\<rparr>"

definition demo_disk :: disk where
  "demo_disk = [([js ''data'', js ''teams'', js ''crew'', js ''team.yaml''], N_file (C_team demo_crew)),
     ([js ''data'', js ''teams'', js ''crew'', js ''prompts'', js ''lead.md''], N_file (C_text (js ''Be kind.'')))]"

definition demo_patch :: json where
  "demo_patch = JObj [(js ''lead'', JStr (js ''lead'')), (js ''agents'', JArr [JObj [(js ''role'', JStr (js ''lead'')), (js ''model'', JStr (js ''m''))]])]"

definition demo_patched :: team where
  "demo_patched = demo_crew\<lparr>tm_lead := js ''lead'', tm_agents := [\<lparr>ag_role = js ''lead'', ag_promptFile = js ''lead.md'', ag_model = js ''m''\<rparr>]\<rparr>"

lemma demo_read: "readTeam demo_disk [js ''data''] (js ''crew'') = Some demo_crew"
  by (simp add: readTeam_def team_files_at file_read_def jm_get_def demo_disk_def)

lemma demo_md: "js ''lead'' @ js ''.md'' = js ''lead.md''"
  by (simp add: js_def)

lemma demo_patch_answer:
  "fst (team_handle raw collate tpl [js ''data''] (Team_patch (js ''crew'') (Some demo_patch)) demo_disk) = TR_team 200 demo_patched"
proof -
  have "name_ok (js ''lead'')" by (simp add: name_ok_def js_def is_lower_def)
  then have "patch_agents demo_patch demo_crew = Some (tm_agents demo_patched)"
    by (simp add: patch_agents_def demo_patch_def parseAgentsInput_def jm_get_def demo_md reconcile_def demo_crew_def demo_patched_def)
  moreover have "patch_text demo_patch ''lead'' P x = (if P (js ''lead'') then Some (js ''lead'') else None)"
    "patch_text demo_patch ''description'' P x = Some x" "patch_text demo_patch ''expectedWorkspaceKind'' P x = Some x" for P x
    by (simp_all add: patch_text_def demo_patch_def jm_get_def)
  moreover have "lead_ok (js ''lead'') (tm_agents demo_patched)" by (simp add: lead_ok_def roles_def demo_patched_def)
  moreover have "demo_patch \<noteq> JNull" by (simp add: demo_patch_def)
  ultimately show ?thesis by (simp add: patch_team_def demo_read Let_def) (simp add: demo_patched_def)
qed

lemma patch_deletes_a_kept_prompt_witness:
  "readTeamPrompt (\<lambda>_. []) demo_disk [js ''data''] (js ''crew'') (js ''lead.md'') = Some (js ''Be kind.'')
   \<and> readTeamPrompt (\<lambda>_. []) (snd (team_handle (\<lambda>_. []) length demo_template [js ''data''] (Team_patch (js ''crew'') (Some demo_patch)) demo_disk))
       [js ''data''] (js ''crew'') (js ''lead.md'') = None"
proof
  show "readTeamPrompt (\<lambda>_. []) demo_disk [js ''data''] (js ''crew'') (js ''lead.md'') = Some (js ''Be kind.'')"
    by (simp add: readTeamPrompt_def text_at_def team_files_at file_read_def jm_get_def demo_disk_def)
  let ?h = "team_handle (\<lambda>_. []) length demo_template [js ''data''] (Team_patch (js ''crew'') (Some demo_patch)) demo_disk"
  let ?a = "\<lparr>ag_role = js ''lead'', ag_promptFile = js ''lead.md'', ag_model = js ''m''\<rparr>"
  let ?b = "\<lparr>ag_role = js ''engagement-lead'', ag_promptFile = js ''lead.md'', ag_model = js ''m''\<rparr>"
  have "?h = (TR_team 200 demo_patched, snd ?h)" using demo_patch_answer by (metis prod.collapse)
  from patch_deletes_a_kept_prompt [OF this demo_read, of ?a ?b]
  show "readTeamPrompt (\<lambda>_. []) (snd ?h) [js ''data''] (js ''crew'') (js ''lead.md'') = None"
    by (simp add: demo_crew_def demo_patched_def roles_def)
qed

end
