(* ===== verification/Runs.thy ===== *)
theory Runs
  imports Store
begin

text \<open>
  Runs of the agent (\<open>server/routes/runs.ts\<close>, \<open>runtime/run.ts\<close>), what they write
  (\<open>persisters/events.ts\<close>, \<open>persisters/messages.ts\<close>), the routes that read sessions back
  (\<open>server/routes/sessions.ts\<close>) and the clean-up at start (\<open>server/startup.ts\<close>). The agent, the models
  and the phone registry are outside: an agent's events come as JSON values, in order, and then it ends,
  with an error or without. Appends to a session's logs aren't awaited, so each lands at some later
  turn (\<open>sv_pending\<close>); an append writes its line whole. \<open>server_step\<close> is one turn of one of the
  handlers. Positions in a log count its code units, where the code counts bytes.
\<close>

section \<open>Starting a run\<close>

record run_opts =
  rn_workspace :: jstr
  rn_team :: jstr
  rn_resume :: jstr
  rn_userMessage :: jstr
  rn_modelProvider :: "jstr option"

definition filled :: "json option \<Rightarrow> jstr option" where
  "filled v = (case v of Some (JStr s) \<Rightarrow> if s = [] then None else Some s | _ \<Rightarrow> None)"

text \<open>The checks of \<open>POST /runs\<close>; \<open>resolve\<close> says whether the registry finds the phone, \<open>fresh\<close> is a new ULID.\<close>

definition resume_mode :: "json \<Rightarrow> jstr option" where
  "resume_mode b = (case json_get b (js ''resume'') of None \<Rightarrow> Some (js ''last'') | Some (JStr s) \<Rightarrow> Some s | Some _ \<Rightarrow> None)"

definition resolved_session :: "(content \<Rightarrow> jstr) \<Rightarrow> disk \<Rightarrow> fpath \<Rightarrow> jstr \<Rightarrow> jstr \<Rightarrow> jstr \<Rightarrow> jstr \<Rightarrow> jstr" where
  "resolved_session raw fs root ws team mode fresh =
     (if mode = js ''new'' then fresh
      else if mode = js ''last'' then (case readLastSessionId raw fs root ws team of Some i \<Rightarrow> i | None \<Rightarrow> fresh)
      else mode)"

definition preflight :: "(content \<Rightarrow> jstr) \<Rightarrow> (jstr \<Rightarrow> bool) \<Rightarrow> fpath \<Rightarrow> jstr \<Rightarrow> json option \<Rightarrow> disk \<Rightarrow> error_code + run_opts" where
  "preflight raw resolve root fresh body fs = (case body of
      None \<Rightarrow> Inl Bad_request
    | Some b \<Rightarrow> if b = JNull then Inl Internal
      else (case (filled (json_get b (js ''workspace'')), filled (json_get b (js ''team'')), filled (json_get b (js ''userMessage'')), resume_mode b) of
        (Some w, Some t, Some m, Some mode) \<Rightarrow>
          (case readWorkspace fs root w of
             None \<Rightarrow> Inl Workspace_not_found
           | Some ws \<Rightarrow> (case readTeam fs root t of
               None \<Rightarrow> Inl Team_not_found
             | Some tm \<Rightarrow>
                 if tm_expectedWorkspaceKind tm \<noteq> wk_kind ws then Inl Workspace_kind_mismatch
                 else if or_empty (wk_phoneNumber ws) = [] \<or> \<not> resolve (or_empty (wk_phoneNumber ws)) then Inl Phone_unresolvable
                 else Inr \<lparr>rn_workspace = w, rn_team = t, rn_resume = resolved_session raw fs root w t mode fresh, rn_userMessage = m,
                   rn_modelProvider = json_str (json_get b (js ''modelProvider''))\<rparr>))
      | _ \<Rightarrow> Inl Bad_request))"

text \<open>\<open>runSession\<close>'s own resolution: the session, and whether it is resumed.\<close>

definition run_session_id :: "(content \<Rightarrow> jstr) \<Rightarrow> disk \<Rightarrow> fpath \<Rightarrow> jstr \<Rightarrow> run_opts \<Rightarrow> jstr \<times> bool" where
  "run_session_id raw fs root fresh r =
     (if rn_resume r = js ''new'' then (fresh, False)
      else if rn_resume r = js ''last'' then (case readLastSessionId raw fs root (rn_workspace r) (rn_team r) of Some i \<Rightarrow> (i, True) | None \<Rightarrow> (fresh, False))
      else (rn_resume r, True))"

record live_run =
  lr_opts :: run_opts
  lr_sid :: jstr
  lr_meta :: session_meta
  lr_messages :: "jstr list"

definition lead_agent :: "team \<Rightarrow> agent_role option" where
  "lead_agent t = find (\<lambda>a. ag_role a = tm_lead t) (tm_agents t)"

definition run_meta :: "disk \<Rightarrow> fpath \<Rightarrow> int \<Rightarrow> run_opts \<Rightarrow> team \<Rightarrow> agent_role \<Rightarrow> jstr \<times> bool \<Rightarrow> session_meta" where
  "run_meta fs root now r t a sid =
     (let new1 = \<lparr>me_id = fst sid, me_workspace = rn_workspace r, me_team = rn_team r, me_agentRole = tm_lead t,
            me_modelProvider = (case rn_modelProvider r of Some p \<Rightarrow> p | None \<Rightarrow> js ''vercel-ai-gateway''), me_modelId = ag_model a,
            me_startedAt = now, me_endedAt = None, me_status = S_running, me_error = None\<rparr>;
          m = (if snd sid then (case readSessionMeta fs root (rn_workspace r) (rn_team r) (fst sid) of Some m \<Rightarrow> m | None \<Rightarrow> new1) else new1)
      in m\<lparr>me_status := S_running, me_endedAt := None\<rparr>)"

text \<open>
  \<open>runSession\<close> up to the agent, or the message it throws; \<open>parses\<close> is whether \<open>JSON.parse\<close> reads a line.
  The agent's prior messages are read after the session was marked as running.
\<close>

definition begin_run :: "(content \<Rightarrow> jstr) \<Rightarrow> (jstr \<Rightarrow> bool) \<Rightarrow> fpath \<Rightarrow> int \<Rightarrow> jstr \<Rightarrow> run_opts \<Rightarrow> disk \<Rightarrow> (jstr + live_run) \<times> disk" where
  "begin_run raw parses root now fresh r fs = (case (readWorkspace fs root (rn_workspace r), readTeam fs root (rn_team r)) of
      (Some ws, Some t) \<Rightarrow>
        if tm_expectedWorkspaceKind t \<noteq> wk_kind ws then (Inl (js ''kind''), fs)
        else (case lead_agent t of
            None \<Rightarrow> (Inl (js ''lead''), fs)
          | Some a \<Rightarrow>
              (let sid = run_session_id raw fs root fresh r
               in case buildSandbox root (rn_workspace r) (rn_team r) (fst sid) fs of
                    (False, fs1) \<Rightarrow> (Inl (js ''sandbox''), fs1)
                  | (True, fs1) \<Rightarrow>
                      (let m = run_meta fs1 root now r t a sid;
                           fs2 = writeSessionMeta root (rn_workspace r) (rn_team r) m fs1;
                           ms = (if snd sid then readMessages raw fs2 root (rn_workspace r) (rn_team r) (fst sid) else [])
                       in if list_all parses ms then (Inr \<lparr>lr_opts = r, lr_sid = fst sid, lr_meta = m, lr_messages = ms\<rparr>, fs2)
                          else (Inl (js ''messages''), fs2))))
    | _ \<Rightarrow> (Inl (js ''not found''), fs))"

section \<open>What a run writes\<close>

definition llm_roles :: "jstr list" where
  "llm_roles = [js ''user'', js ''assistant'', js ''toolResult'']"

text \<open>\<open>extractMessage\<close>, with \<open>toMessage\<close>, of an event of the bus.\<close>

definition extractMessage :: "json \<Rightarrow> json option" where
  "extractMessage ev =
     (if json_get ev (js ''kind'') \<noteq> Some (JStr (js ''pi'')) then None
      else (case json_get ev (js ''event'') of
          None \<Rightarrow> None
        | Some pi1 \<Rightarrow> if json_get pi1 (js ''type'') \<noteq> Some (JStr (js ''message_end'')) then None
          else (case json_get pi1 (js ''message'') of
              Some m \<Rightarrow> (case json_get m (js ''role'') of Some (JStr rl) \<Rightarrow> if rl \<in> set llm_roles then Some m else None | _ \<Rightarrow> None)
            | None \<Rightarrow> None)))"

text \<open>The appends an event asks for, by file: the messages persister, then the events persister.\<close>

definition persisted :: "fpath \<Rightarrow> live_run \<Rightarrow> json \<Rightarrow> (fpath \<times> jstr) list" where
  "persisted root r ev =
     (let w = rn_workspace (lr_opts r); t = rn_team (lr_opts r)
      in (case extractMessage ev of None \<Rightarrow> [] | Some m \<Rightarrow> [(sessionMessagesFile root w t (lr_sid r), json_stringify m)])
         @ [(sessionEventsFile root w t (lr_sid r), json_stringify ev)])"

definition first_events :: "jstr \<Rightarrow> int \<Rightarrow> live_run \<Rightarrow> json list" where
  "first_events prompt now r =
     [JObj [(js ''kind'', JStr (js ''system_set'')), (js ''prompt'', JStr prompt), (js ''ts'', JNum now)],
      JObj [(js ''kind'', JStr (js ''user_message'')), (js ''text'', JStr (rn_userMessage (lr_opts r))), (js ''ts'', JNum now)]]"

text \<open>The agent has ended: \<open>runSession\<close>'s last part, then the route's.\<close>

definition end_run :: "fpath \<Rightarrow> int \<Rightarrow> jstr option \<Rightarrow> live_run \<Rightarrow> disk \<Rightarrow> disk" where
  "end_run root now err r fs =
     (let w = rn_workspace (lr_opts r); t = rn_team (lr_opts r);
          fs1 = writeSessionMeta root w t ((lr_meta r)\<lparr>me_status := (if err = None then S_completed else S_error), me_endedAt := Some now, me_error := err\<rparr>) fs;
          fs2 = (if rn_resume (lr_opts r) = js ''last'' \<or> rn_resume (lr_opts r) = js ''new'' then writeLastSessionId root w t (lr_sid r) fs1 else fs1)
      in if err = None then writeLastSessionId root w t (rn_resume (lr_opts r)) fs2 else fs2)"

section \<open>Clean-up at start\<close>

definition synthetic_end :: "int \<Rightarrow> json" where
  "synthetic_end now = JObj [(js ''kind'', JStr (js ''pi'')), (js ''event'', JObj [(js ''type'', JStr (js ''agent_end''))]), (js ''ts'', JNum now)]"

definition abort_stale :: "(content \<Rightarrow> jstr) \<Rightarrow> fpath \<Rightarrow> int \<Rightarrow> jstr \<Rightarrow> jstr \<Rightarrow> jstr \<Rightarrow> disk \<Rightarrow> disk" where
  "abort_stale raw root now ws team sid fs = (case readSessionMeta fs root ws team sid of
      None \<Rightarrow> fs
    | Some m \<Rightarrow> if me_status m \<noteq> S_running then fs
        else appendEventLine raw root ws team sid (json_stringify (synthetic_end now))
          (writeSessionMeta root ws team (m\<lparr>me_status := S_aborted, me_endedAt := Some now,
             me_error := Some (case me_error m of Some e \<Rightarrow> e | None \<Rightarrow> js ''server restarted while session was running'')\<rparr>) fs))"

definition names_in :: "disk \<Rightarrow> fpath \<Rightarrow> jstr list" where
  "names_in fs p = (case read_dir fs p of None \<Rightarrow> [] | Some ns \<Rightarrow> ns)"

definition abort_team :: "(content \<Rightarrow> jstr) \<Rightarrow> fpath \<Rightarrow> int \<Rightarrow> jstr \<Rightarrow> jstr \<Rightarrow> disk \<Rightarrow> disk" where
  "abort_team raw root now ws team fs = fold (abort_stale raw root now ws team) (listSessions fs root ws team) fs"

definition abort_workspace :: "(content \<Rightarrow> jstr) \<Rightarrow> fpath \<Rightarrow> int \<Rightarrow> jstr \<Rightarrow> disk \<Rightarrow> disk" where
  "abort_workspace raw root now ws fs =
     fold (abort_team raw root now ws) (names_in fs (node_join root [js ''workspaces'', ws, js ''teams''])) fs"

definition abortStaleRunningSessions :: "(content \<Rightarrow> jstr) \<Rightarrow> fpath \<Rightarrow> int \<Rightarrow> disk \<Rightarrow> disk" where
  "abortStaleRunningSessions raw root now fs =
     fold (abort_workspace raw root now) (names_in fs (node_join root [js ''workspaces''])) fs"

section \<open>Reading sessions\<close>

definition assertWorkspaceAndTeam :: "disk \<Rightarrow> fpath \<Rightarrow> jstr \<Rightarrow> jstr \<Rightarrow> error_code option" where
  "assertWorkspaceAndTeam fs root w t = (case readWorkspace fs root w of
      None \<Rightarrow> Some Workspace_not_found
    | Some ws \<Rightarrow> (case readTeam fs root t of
        None \<Rightarrow> Some Team_not_found
      | Some tm \<Rightarrow> if tm_expectedWorkspaceKind tm \<noteq> wk_kind ws then Some Workspace_kind_mismatch else None))"

definition assertSessionExists :: "disk \<Rightarrow> fpath \<Rightarrow> jstr \<Rightarrow> jstr \<Rightarrow> jstr \<Rightarrow> error_code option" where
  "assertSessionExists fs root w t sid = (case assertWorkspaceAndTeam fs root w t of
      Some e \<Rightarrow> Some e
    | None \<Rightarrow> if is_dir fs (sessionDir root w t sid) then None else Some Session_not_found)"

definition newest_started :: "session_meta list \<Rightarrow> session_meta list" where
  "newest_started = sort_key (\<lambda>m. - me_startedAt m)"

definition metas :: "disk \<Rightarrow> fpath \<Rightarrow> jstr \<Rightarrow> jstr \<Rightarrow> session_meta list" where
  "metas fs root w t = concat (map (\<lambda>i. case readSessionMeta fs root w t i of Some m \<Rightarrow> [m] | None \<Rightarrow> []) (listSessions fs root w t))"

definition get_workspace_sessions :: "disk \<Rightarrow> fpath \<Rightarrow> jstr \<Rightarrow> error_code + session_meta list" where
  "get_workspace_sessions fs root w = (case readWorkspace fs root w of
      None \<Rightarrow> Inl Workspace_not_found
    | Some _ \<Rightarrow> (let teamsDir = node_join (workspaceDir root w) [js ''teams'']
        in Inr (newest_started (concat (map (\<lambda>t. if is_dir fs (node_join teamsDir [t]) then metas fs root w t else []) (names_in fs teamsDir))))))"

definition get_team_sessions :: "disk \<Rightarrow> fpath \<Rightarrow> jstr \<Rightarrow> jstr \<Rightarrow> error_code + session_meta list" where
  "get_team_sessions fs root w t = (case assertWorkspaceAndTeam fs root w t of Some e \<Rightarrow> Inl e | None \<Rightarrow> Inr (newest_started (metas fs root w t)))"

definition get_session :: "disk \<Rightarrow> fpath \<Rightarrow> jstr \<Rightarrow> jstr \<Rightarrow> jstr \<Rightarrow> error_code + session_meta" where
  "get_session fs root w t sid = (case assertWorkspaceAndTeam fs root w t of
      Some e \<Rightarrow> Inl e
    | None \<Rightarrow> (case readSessionMeta fs root w t sid of None \<Rightarrow> Inl Session_not_found | Some m \<Rightarrow> Inr m))"

definition get_messages :: "(content \<Rightarrow> jstr) \<Rightarrow> disk \<Rightarrow> fpath \<Rightarrow> jstr \<Rightarrow> jstr \<Rightarrow> jstr \<Rightarrow> error_code + jstr" where
  "get_messages raw fs root w t sid = (case assertSessionExists fs root w t sid of
      Some e \<Rightarrow> Inl e | None \<Rightarrow> Inr (or_empty (text_at raw fs (sessionMessagesFile root w t sid))))"

definition get_events :: "(content \<Rightarrow> jstr) \<Rightarrow> disk \<Rightarrow> fpath \<Rightarrow> jstr \<Rightarrow> jstr \<Rightarrow> jstr \<Rightarrow> error_code + jstr" where
  "get_events raw fs root w t sid = (case assertSessionExists fs root w t sid of
      Some e \<Rightarrow> Inl e | None \<Rightarrow> Inr (or_empty (text_at raw fs (sessionEventsFile root w t sid))))"

definition trace_files :: "jstr list" where
  "trace_files = [js ''before.png'', js ''annotated.png'', js ''after.png'', js ''result.json'']"

text \<open>The file a trace route serves, by path.\<close>

definition get_trace :: "disk \<Rightarrow> fpath \<Rightarrow> jstr \<Rightarrow> jstr \<Rightarrow> jstr \<Rightarrow> jstr \<Rightarrow> jstr \<Rightarrow> error_code + fpath" where
  "get_trace fs root w t sid tcid f =
     (if f \<notin> set trace_files then Inl Bad_request
      else (case assertSessionExists fs root w t sid of
          Some e \<Rightarrow> Inl e
        | None \<Rightarrow> (let dir = sessionTracesDir root w t sid; p = node_join dir [tcid, f]
            in if \<not> strict_prefix dir p then Inl Bad_request
               else if \<not> exists_path fs p then Inl Session_not_found
               else if file_read fs p = None then Inl Bad_request else Inr p)))"

section \<open>The live stream of a session\<close>

datatype sse_phase = Ph_replay | Ph_check | Ph_tail | Ph_done

record sse =
  ss_ws :: jstr
  ss_team :: jstr
  ss_sid :: jstr
  ss_cursor :: nat
  ss_sent :: "jstr list"
  ss_phase :: sse_phase

definition new_sse :: "jstr \<Rightarrow> jstr \<Rightarrow> jstr \<Rightarrow> sse" where
  "new_sse w t sid = \<lparr>ss_ws = w, ss_team = t, ss_sid = sid, ss_cursor = 0, ss_sent = [], ss_phase = Ph_replay\<rparr>"

definition log_lines :: "jstr \<Rightarrow> jstr list" where
  "log_lines t = filter (\<lambda>l. l \<noteq> []) (split_on 10 t)"

text \<open>The file read from the cursor on, and its lines sent.\<close>

definition sse_read :: "(content \<Rightarrow> jstr) \<Rightarrow> disk \<Rightarrow> fpath \<Rightarrow> sse \<Rightarrow> sse" where
  "sse_read raw fs root s =
     (if ss_phase s = Ph_replay \<or> ss_phase s = Ph_tail then
        (case text_at raw fs (sessionEventsFile root (ss_ws s) (ss_team s) (ss_sid s)) of
           None \<Rightarrow> s\<lparr>ss_phase := Ph_check\<rparr>
         | Some t \<Rightarrow> if length t > ss_cursor s
             then s\<lparr>ss_cursor := length t, ss_sent := ss_sent s @ log_lines (drop (ss_cursor s) t), ss_phase := Ph_check\<rparr>
             else s\<lparr>ss_phase := Ph_check\<rparr>)
      else s)"

text \<open>Then the session's status: over, \<open>[DONE]\<close> and the end; else the next tick.\<close>

definition sse_check :: "disk \<Rightarrow> fpath \<Rightarrow> sse \<Rightarrow> sse" where
  "sse_check fs root s =
     (if ss_phase s \<noteq> Ph_check then s
      else (case readSessionMeta fs root (ss_ws s) (ss_team s) (ss_sid s) of
          Some m \<Rightarrow> s\<lparr>ss_phase := (if me_status m \<noteq> S_running then Ph_done else Ph_tail)\<rparr>
        | None \<Rightarrow> s\<lparr>ss_phase := Ph_tail\<rparr>))"

section \<open>The server\<close>

record server =
  sv_disk :: disk
  sv_runs :: "(nat \<times> live_run) list"
  sv_pending :: "(fpath \<times> jstr) list"
  sv_streams :: "(nat \<times> sse) list"

definition new_server :: "disk \<Rightarrow> server" where
  "new_server fs = \<lparr>sv_disk = fs, sv_runs = [], sv_pending = [], sv_streams = []\<rparr>"

definition server_start :: "(content \<Rightarrow> jstr) \<Rightarrow> (jstr \<Rightarrow> bool) \<Rightarrow> (jstr \<Rightarrow> bool) \<Rightarrow> fpath \<Rightarrow> nat \<Rightarrow> int \<Rightarrow> jstr \<Rightarrow> jstr \<Rightarrow> json option \<Rightarrow> server \<Rightarrow> server" where
  "server_start raw parses resolve root n now fresh prompt body sv = (case preflight raw resolve root fresh body (sv_disk sv) of
      Inl e \<Rightarrow> sv
    | Inr r \<Rightarrow> (case begin_run raw parses root now fresh r (sv_disk sv) of
        (Inl e, fs) \<Rightarrow> sv\<lparr>sv_disk := fs\<rparr>
      | (Inr lr, fs) \<Rightarrow> sv\<lparr>sv_disk := fs, sv_runs := sv_runs sv @ [(n, lr)],
          sv_pending := sv_pending sv @ concat (map (persisted root lr) (first_events prompt now lr))\<rparr>))"

definition server_event :: "fpath \<Rightarrow> nat \<Rightarrow> json \<Rightarrow> server \<Rightarrow> server" where
  "server_event root n ev sv = (case jm_get (sv_runs sv) n of
      None \<Rightarrow> sv | Some r \<Rightarrow> sv\<lparr>sv_pending := sv_pending sv @ persisted root r ev\<rparr>)"

definition server_land :: "(content \<Rightarrow> jstr) \<Rightarrow> nat \<Rightarrow> server \<Rightarrow> server" where
  "server_land raw i sv = (if i < length (sv_pending sv)
     then (case sv_pending sv ! i of (p, l) \<Rightarrow>
       sv\<lparr>sv_disk := append_line raw p l (sv_disk sv), sv_pending := take i (sv_pending sv) @ drop (Suc i) (sv_pending sv)\<rparr>)
     else sv)"

definition server_finish :: "fpath \<Rightarrow> nat \<Rightarrow> int \<Rightarrow> jstr option \<Rightarrow> server \<Rightarrow> server" where
  "server_finish root n now err sv = (case jm_get (sv_runs sv) n of
      None \<Rightarrow> sv | Some r \<Rightarrow> sv\<lparr>sv_disk := end_run root now err r (sv_disk sv), sv_runs := jm_delete n (sv_runs sv)\<rparr>)"

definition server_open :: "fpath \<Rightarrow> nat \<Rightarrow> jstr \<Rightarrow> jstr \<Rightarrow> jstr \<Rightarrow> server \<Rightarrow> server" where
  "server_open root k w t sid sv = (case assertSessionExists (sv_disk sv) root w t sid of
      Some e \<Rightarrow> sv | None \<Rightarrow> sv\<lparr>sv_streams := sv_streams sv @ [(k, new_sse w t sid)]\<rparr>)"

definition on_stream :: "nat \<Rightarrow> (sse \<Rightarrow> sse) \<Rightarrow> server \<Rightarrow> server" where
  "on_stream k f sv = (case jm_get (sv_streams sv) k of None \<Rightarrow> sv | Some s \<Rightarrow> sv\<lparr>sv_streams := jm_set k (f s) (sv_streams sv)\<rparr>)"

text \<open>The process ends, its appends with it, and a new one starts.\<close>

definition server_restart :: "(content \<Rightarrow> jstr) \<Rightarrow> fpath \<Rightarrow> int \<Rightarrow> server \<Rightarrow> server" where
  "server_restart raw root now sv = new_server (abortStaleRunningSessions raw root now (sv_disk sv))"

inductive server_step :: "(content \<Rightarrow> jstr) \<Rightarrow> (jstr \<Rightarrow> bool) \<Rightarrow> (jstr \<Rightarrow> bool) \<Rightarrow> fpath \<Rightarrow> server \<Rightarrow> server \<Rightarrow> bool"
  for raw parses resolve root where
  sv_start: "n \<notin> fst ` set (sv_runs sv) \<Longrightarrow> server_step raw parses resolve root sv (server_start raw parses resolve root n now fresh prompt body sv)"
| sv_event: "server_step raw parses resolve root sv (server_event root n ev sv)"
| sv_land: "server_step raw parses resolve root sv (server_land raw i sv)"
| sv_finish: "server_step raw parses resolve root sv (server_finish root n now err sv)"
| sv_open: "k \<notin> fst ` set (sv_streams sv) \<Longrightarrow> server_step raw parses resolve root sv (server_open root k w t sid sv)"
| sv_read: "server_step raw parses resolve root sv (on_stream k (sse_read raw (sv_disk sv) root) sv)"
| sv_check: "server_step raw parses resolve root sv (on_stream k (sse_check (sv_disk sv) root) sv)"
| sv_restart: "server_step raw parses resolve root sv (server_restart raw root now sv)"

inductive_cases server_stepE: "server_step raw parses resolve root sv sv1"

inductive server_reaches :: "(content \<Rightarrow> jstr) \<Rightarrow> (jstr \<Rightarrow> bool) \<Rightarrow> (jstr \<Rightarrow> bool) \<Rightarrow> fpath \<Rightarrow> server \<Rightarrow> server \<Rightarrow> bool"
  for raw parses resolve root where
  sv_here: "server_reaches raw parses resolve root sv sv"
| sv_turn: "server_reaches raw parses resolve root sv sv1 \<Longrightarrow> server_step raw parses resolve root sv1 sv2 \<Longrightarrow> server_reaches raw parses resolve root sv sv2"

end
