(* ===== verification/RunsRun.thy ===== *)
theory RunsRun
  imports Runs
begin

text \<open>
  Properties of runs and of the session stream: what a live stream sends, what it can miss, what a
  finished run leaves on record, what a restart cleans up, and where a run's files can end up.
\<close>

section \<open>Lines of a log\<close>

lemma split_on_sep: "split_on c (x @ c # y) = split_on c x @ split_on c y"
proof (induction x)
  case (Cons d x)
  have "split_on c x \<noteq> []" by (cases x) (auto split: list.splits)
  then show ?case using Cons by (auto split: list.splits)
qed simp

lemma split_on_one_line: "10 \<notin> set l \<Longrightarrow> split_on 10 l = [l]"
  by (induction l) auto

definition whole :: "jstr \<Rightarrow> bool" where
  "whole t = (t = [] \<or> last t = 10)"

lemma whole_Nil [simp]: "whole []"
  by (simp add: whole_def)

lemma log_lines_append: "whole a \<Longrightarrow> log_lines (a @ b) = log_lines a @ log_lines b"
proof (cases a rule: rev_cases)
  case (snoc x c)
  assume "whole a"
  then have "c = 10" using snoc by (simp add: whole_def)
  then show ?thesis using split_on_sep [of 10 x b] split_on_sep [of 10 x "[]"] by (simp add: log_lines_def snoc)
qed (simp add: log_lines_def)

lemma log_lines_line: "10 \<notin> set l \<Longrightarrow> l \<noteq> [] \<Longrightarrow> log_lines (l @ [10]) = [l]"
  using split_on_sep [of 10 l "[]"] by (simp add: log_lines_def split_on_one_line)

text \<open>JSON has no line breaks.\<close>

lemma js_no_newline: "CHR 0x0A \<notin> set s \<Longrightarrow> 10 \<notin> set (js s)"
proof -
  have "of_char c = (10 :: nat) \<longleftrightarrow> c = CHR 0x0A" for c
    using of_char_eq_iff [of c "CHR 0x0A", where 'a = nat] by simp
  then show "CHR 0x0A \<notin> set s \<Longrightarrow> ?thesis" by (auto simp: js_def image_iff)
qed

lemma json_quote_no_newline: "10 \<notin> set (json_quote s)"
proof -
  have "10 \<notin> set (json_char c)" for c by (auto simp: json_char_def hex_digit_def)
  then show ?thesis by (simp add: json_quote_def)
qed

lemma dec_int_no_newline: "10 \<notin> set (dec_int n)"
proof -
  have "10 \<notin> set (dec_nat m)" for m using dec_nat_digits [of m] by (auto simp: list_all_iff is_digit_def)
  then show ?thesis by (simp add: dec_int_def)
qed

lemma set_join: "set (join sep xs) \<subseteq> set sep \<union> \<Union> (set ` set xs)"
  by (induction sep xs rule: join.induct) auto

lemma join_no_newline: "10 \<notin> set sep \<Longrightarrow> (\<And>x. x \<in> set xs \<Longrightarrow> 10 \<notin> set x) \<Longrightarrow> 10 \<notin> set (join sep xs)"
  using set_join [of sep xs] by blast

lemma json_one_line: "10 \<notin> set (json_stringify j)"
proof (induction j rule: json_stringify.induct)
  case (5 vs)
  then have "10 \<notin> set (join (js '','') (map json_stringify vs))" by (intro join_no_newline) (auto simp: js_no_newline)
  then show ?case by (simp add: js_no_newline)
next
  case (6 kvs)
  then have "10 \<notin> set (join (js '','') (map (\<lambda>kv. json_quote (fst kv) @ js '':'' @ json_stringify (snd kv)) kvs))"
    by (intro join_no_newline) (auto simp: json_quote_no_newline js_no_newline)
  then show ?case by (simp add: js_no_newline)
qed (simp_all add: js_no_newline json_quote_no_newline dec_int_no_newline)

lemma json_not_empty: "json_stringify j \<noteq> []"
  by (cases j) (auto simp: json_quote_def dec_int_def)

section \<open>Where things are written\<close>

lemma node_join_last: "list_all plain ss \<Longrightarrow> ss \<noteq> [] \<Longrightarrow> last (node_join p ss) = last ss \<and> node_join p ss \<noteq> []"
  by (simp add: node_join_plain)

lemma last_of_files:
  "last (sessionMetaFile root w t i) = js ''session.json''"
  "last (sessionMessagesFile root w t i) = js ''messages.jsonl''"
  "last (sessionEventsFile root w t i) = js ''events.jsonl''"
  "last (node_join (sessionSandboxDir root w t i) [js ''env'']) = js ''env''"
  "last (node_join (sessionSandboxDir root w t i) [js ''memory'']) = js ''memory''"
  "last (node_join (sessionSandboxDir root w t i) [js ''traces'']) = js ''traces''"
  by (simp_all add: sessionMetaFile_def sessionMessagesFile_def sessionEventsFile_def node_join_plain)

lemma last_of_pointer: "last (teamLastSessionFile root w t) = js ''last-session.txt''"
proof -
  have "teamLastSessionFile root w t = down (node_join (workspaceDir root w) [js ''teams'', t]) (js ''last-session.txt'')"
    by (simp add: teamLastSessionFile_def node_join_def)
  then show ?thesis by (simp add: down_plain)
qed

text \<open>An event log is made of whole lines; nothing else is said of other files.\<close>

definition log_ok :: "fpath \<Rightarrow> content node \<Rightarrow> bool" where
  "log_ok p n = (last p = js ''events.jsonl'' \<longrightarrow> (case n of N_dir \<Rightarrow> True | N_file (C_text t) \<Rightarrow> whole t | N_file _ \<Rightarrow> False))"

lemma log_ok_elsewhere: "last p \<noteq> js ''events.jsonl'' \<Longrightarrow> log_ok p n"
  by (simp add: log_ok_def)

lemma log_ok_dir [simp]: "log_ok p N_dir"
  by (simp add: log_ok_def)

lemma log_ok_text: "holds log_ok fs \<Longrightarrow> last p = js ''events.jsonl'' \<Longrightarrow> file_read fs p = Some c \<Longrightarrow> \<exists>t. c = C_text t \<and> whole t"
  by (drule (1) holdsD) (auto simp: log_ok_def split: content.splits)

text \<open>A writer keeps the logs: it keeps them whole, and only adds to them at their ends.\<close>

definition adds_only :: "(content \<Rightarrow> jstr) \<Rightarrow> disk \<Rightarrow> disk \<Rightarrow> bool" where
  "adds_only raw fs fs1 = (holds log_ok fs \<longrightarrow> holds log_ok fs1
     \<and> (\<forall>p. last p = js ''events.jsonl'' \<longrightarrow> prefix (or_empty (text_at raw fs p)) (or_empty (text_at raw fs1 p))))"

lemma adds_onlyI:
  assumes "holds log_ok fs \<Longrightarrow> holds log_ok fs1"
    and "\<And>p. holds log_ok fs \<Longrightarrow> last p = js ''events.jsonl'' \<Longrightarrow> prefix (or_empty (text_at raw fs p)) (or_empty (text_at raw fs1 p))"
  shows "adds_only raw fs fs1"
  using assms by (simp add: adds_only_def)

lemma adds_only_refl [simp]: "adds_only raw fs fs"
  by (simp add: adds_only_def)

lemma adds_only_trans: "adds_only raw fs fs1 \<Longrightarrow> adds_only raw fs1 fs2 \<Longrightarrow> adds_only raw fs fs2"
  unfolding adds_only_def by (meson prefix_order.trans)

lemma text_at_write: "text_at raw (file_write p c fs) q = (if q = p then Some (case c of C_text t \<Rightarrow> t | _ \<Rightarrow> raw c) else text_at raw fs q)"
  by (simp add: text_at_def disk.get_put split: content.splits)

lemma text_at_make_dir [simp]: "text_at raw (make_dir p fs) q = text_at raw fs q"
  by (simp add: text_at_def)

lemma adds_only_write: "last p \<noteq> js ''events.jsonl'' \<Longrightarrow> adds_only raw fs (file_write p c fs)"
  by (rule adds_onlyI) (auto intro!: holds_write log_ok_elsewhere simp: text_at_write)

lemma adds_only_dir: "adds_only raw fs (make_dir p fs)"
  by (rule adds_onlyI) (auto intro!: holds_make_dir)

lemma adds_only_append: "adds_only raw fs (append_line raw p l fs)"
proof (rule adds_onlyI)
  assume "holds log_ok fs"
  then show "holds log_ok (append_line raw p l fs)"
    unfolding append_line_def by (rule holds_write) (simp add: log_ok_def whole_def)
next
  fix q assume "last q = js ''events.jsonl''"
  show "prefix (or_empty (text_at raw fs q)) (or_empty (text_at raw (append_line raw p l fs) q))"
    by (simp add: append_line_def text_at_write or_empty_def)
qed

lemma adds_only_writes:
  "adds_only raw fs (writeSessionMeta root w t m fs)" "adds_only raw fs (writeLastSessionId root w t i fs)"
  unfolding writeSessionMeta_def writeLastSessionId_def
  by (rule adds_only_trans [OF adds_only_dir adds_only_write]; simp add: last_of_files last_of_pointer)+

lemma adds_only_ensure: "last link \<noteq> js ''events.jsonl'' \<Longrightarrow> adds_only raw fs (snd (ensureSymlink target link fs))"
  by (auto simp: ensureSymlink_def Let_def intro: adds_only_dir adds_only_trans [OF adds_only_dir adds_only_write] split: option.splits content.splits)

lemma adds_only_links: "\<forall>x\<in>set ls. last (snd x) \<noteq> js ''events.jsonl'' \<Longrightarrow> adds_only raw fs (snd (ensure_links ls fs))"
proof (induction ls fs rule: ensure_links.induct)
  case (2 target link ls fs)
  have a: "adds_only raw fs (snd (ensureSymlink target link fs))" using 2 by (simp add: adds_only_ensure)
  show ?case
  proof (cases "ensureSymlink target link fs")
    case (Pair ok fs1)
    show ?thesis
    proof (cases ok)
      case True
      then have "adds_only raw fs1 (snd (ensure_links ls fs1))" using 2 Pair by simp
      then show ?thesis using a Pair True by (auto intro: adds_only_trans)
    next
      case False
      then show ?thesis using a Pair by simp
    qed
  qed
qed simp

lemma adds_only_sandbox: "adds_only raw fs (snd (buildSandbox root w t i fs))"
  unfolding buildSandbox_def Let_def
  by (rule adds_only_trans [OF adds_only_trans [OF adds_only_trans [OF adds_only_dir adds_only_dir] adds_only_dir] adds_only_links])
    (simp add: last_of_files)

lemma adds_only_fold: "(\<And>x fs. adds_only raw fs (f x fs)) \<Longrightarrow> adds_only raw fs (fold f xs fs)"
  by (induction xs arbitrary: fs) (auto intro: adds_only_trans)

lemma adds_only_run:
  "adds_only raw fs (snd (begin_run raw parses root now fresh r fs))"
  "adds_only raw fs (end_run root now err lr fs)"
  "adds_only raw fs (abortStaleRunningSessions raw root now fs)"
proof -
  have "adds_only raw fs1 (abort_stale raw root now w t i fs1)" for fs1 w t i
    unfolding abort_stale_def appendEventLine_def
    by (auto intro: adds_only_trans [OF adds_only_writes(1) adds_only_append] split: option.splits)
  then show "adds_only raw fs (abortStaleRunningSessions raw root now fs)"
    unfolding abortStaleRunningSessions_def abort_workspace_def abort_team_def by (intro adds_only_fold)
  show "adds_only raw fs (end_run root now err lr fs)"
    unfolding end_run_def Let_def
    by (auto intro: adds_only_writes adds_only_trans [OF adds_only_writes(1) adds_only_writes(2)]
        adds_only_trans [OF adds_only_trans [OF adds_only_writes(1) adds_only_writes(2)] adds_only_writes(2)])
  show "adds_only raw fs (snd (begin_run raw parses root now fresh r fs))"
    using adds_only_sandbox [of raw fs root "rn_workspace r" "rn_team r"]
    by (auto simp: begin_run_def Let_def split: option.splits prod.splits bool.splits
        intro: adds_only_trans [OF _ adds_only_writes(1)]) (metis adds_only_trans adds_only_writes(1) snd_conv)+
qed

section \<open>The live stream\<close>

definition log_of :: "(content \<Rightarrow> jstr) \<Rightarrow> disk \<Rightarrow> fpath \<Rightarrow> sse \<Rightarrow> jstr" where
  "log_of raw fs root s = or_empty (text_at raw fs (sessionEventsFile root (ss_ws s) (ss_team s) (ss_sid s)))"

text \<open>A stream has sent the lines up to its cursor, which is at the end of one.\<close>

definition stream_ok :: "(content \<Rightarrow> jstr) \<Rightarrow> fpath \<Rightarrow> disk \<Rightarrow> sse \<Rightarrow> bool" where
  "stream_ok raw root fs s = (let t = log_of raw fs root s
     in ss_cursor s \<le> length t \<and> whole (take (ss_cursor s) t) \<and> ss_sent s = log_lines (take (ss_cursor s) t))"

lemma stream_ok_new: "stream_ok raw root fs (new_sse w t i)"
  by (simp add: stream_ok_def new_sse_def log_lines_def Let_def)

lemma stream_ok_adds:
  assumes "adds_only raw fs fs1" "holds log_ok fs" "stream_ok raw root fs s"
  shows "stream_ok raw root fs1 s"
proof -
  have "prefix (log_of raw fs root s) (log_of raw fs1 root s)"
    using assms(1,2) by (simp add: adds_only_def log_of_def last_of_files)
  then show ?thesis using assms(3) by (auto simp: stream_ok_def Let_def elim!: prefixE)
qed

lemma log_whole: "holds log_ok fs \<Longrightarrow> whole (log_of raw fs root s)"
proof (cases "file_read fs (sessionEventsFile root (ss_ws s) (ss_team s) (ss_sid s))")
  case (Some c)
  assume "holds log_ok fs"
  from log_ok_text [OF this _ Some] show ?thesis by (auto simp: log_of_def text_at_def Some or_empty_def last_of_files)
qed (simp add: log_of_def text_at_def or_empty_def)

lemma log_of_update [simp]: "log_of raw fs root (s\<lparr>ss_phase := p\<rparr>) = log_of raw fs root s"
  "log_of raw fs root (s\<lparr>ss_cursor := c, ss_sent := xs, ss_phase := p\<rparr>) = log_of raw fs root s"
  by (simp_all add: log_of_def)

lemma stream_reads:
  assumes "holds log_ok fs" "stream_ok raw root fs s"
  shows "stream_ok raw root fs (sse_read raw fs root s)"
    and "ss_phase s = Ph_replay \<or> ss_phase s = Ph_tail \<Longrightarrow> ss_sent (sse_read raw fs root s) = log_lines (log_of raw fs root s)"
proof -
  let ?t = "log_of raw fs root s"
  have app: "log_lines (take (ss_cursor s) ?t) @ log_lines (drop (ss_cursor s) ?t) = log_lines ?t"
    using assms(2) log_lines_append [of "take (ss_cursor s) ?t" "drop (ss_cursor s) ?t"] by (simp add: stream_ok_def Let_def)
  show "stream_ok raw root fs (sse_read raw fs root s)"
    using assms app log_whole [OF assms(1), of raw root s]
    by (auto simp: sse_read_def stream_ok_def Let_def log_of_def or_empty_def split: option.splits)
  show "ss_phase s = Ph_replay \<or> ss_phase s = Ph_tail \<Longrightarrow> ss_sent (sse_read raw fs root s) = log_lines ?t"
    using assms(2) app
    by (auto simp: sse_read_def stream_ok_def Let_def log_of_def or_empty_def split: option.splits)
qed

lemma stream_checks: "stream_ok raw root fs s \<Longrightarrow> stream_ok raw root fs (sse_check fs root s)"
  by (auto simp: sse_check_def stream_ok_def Let_def split: option.splits)

definition server_ok :: "(content \<Rightarrow> jstr) \<Rightarrow> fpath \<Rightarrow> server \<Rightarrow> bool" where
  "server_ok raw root sv = (holds log_ok (sv_disk sv) \<and> (\<forall>x\<in>set (sv_streams sv). stream_ok raw root (sv_disk sv) (snd x)))"

lemma server_ok_disk:
  assumes "server_ok raw root sv" "adds_only raw (sv_disk sv) fs" "sv_disk sv1 = fs" "sv_streams sv1 = sv_streams sv"
  shows "server_ok raw root sv1"
proof -
  have "holds log_ok fs" using assms(1,2) by (simp add: server_ok_def adds_only_def)
  moreover have "stream_ok raw root fs (snd x)" if "x \<in> set (sv_streams sv)" for x
    using that assms(1) by (auto simp: server_ok_def intro: stream_ok_adds [OF assms(2)])
  ultimately show ?thesis using assms(3,4) by (simp add: server_ok_def)
qed

lemma server_ok_stream:
  assumes "server_ok raw root sv" "\<And>s. stream_ok raw root (sv_disk sv) s \<Longrightarrow> stream_ok raw root (sv_disk sv) (f s)"
  shows "server_ok raw root (on_stream k f sv)"
proof (cases "jm_get (sv_streams sv) k")
  case (Some s)
  then have "(k, s) \<in> set (sv_streams sv)" by (auto simp: jm_get_def dest: map_of_SomeD)
  then have "stream_ok raw root (sv_disk sv) (f s)" using assms by (force simp: server_ok_def)
  then show ?thesis using assms(1) Some by (auto simp: on_stream_def server_ok_def dest!: in_jm_set)
qed (use assms(1) in \<open>simp add: on_stream_def\<close>)

lemma server_ok_step: "server_step raw parses resolve root sv sv1 \<Longrightarrow> server_ok raw root sv \<Longrightarrow> server_ok raw root sv1"
proof (induction rule: server_step.induct)
  case (sv_start n sv now fresh prompt body)
  show ?case
  proof (cases "preflight raw resolve root fresh body (sv_disk sv)")
    case (Inr r)
    show ?thesis
    proof (rule server_ok_disk [OF sv_start(2) adds_only_run(1)])
      show "sv_disk (server_start raw parses resolve root n now fresh prompt body sv) = snd (begin_run raw parses root now fresh r (sv_disk sv))"
        "sv_streams (server_start raw parses resolve root n now fresh prompt body sv) = sv_streams sv"
        by (auto simp: server_start_def Inr split: prod.splits sum.splits)
    qed
  qed (use sv_start in \<open>simp add: server_start_def\<close>)
next
  case (sv_event sv n ev)
  then show ?case by (auto simp: server_event_def server_ok_def split: option.splits)
next
  case (sv_land sv i)
  show ?case by (rule server_ok_disk [OF sv_land, of "sv_disk (server_land raw i sv)"])
      (auto simp: server_land_def adds_only_append split: prod.splits)
next
  case (sv_finish sv n now err)
  show ?case by (rule server_ok_disk [OF sv_finish, of "sv_disk (server_finish root n now err sv)"])
      (auto simp: server_finish_def adds_only_run split: option.splits)
next
  case (sv_open k sv w t sid)
  then show ?case by (auto simp: server_open_def server_ok_def stream_ok_new split: option.splits)
next
  case (sv_read sv k)
  then show ?case by (intro server_ok_stream) (auto simp: server_ok_def intro: stream_reads)
next
  case (sv_check sv k)
  then show ?case by (intro server_ok_stream) (auto intro: stream_checks)
next
  case (sv_restart sv now)
  then show ?case using adds_only_run(3) by (fastforce simp: server_restart_def new_server_def server_ok_def adds_only_def)
qed

lemma server_ok_reaches: "server_reaches raw parses resolve root sv sv1 \<Longrightarrow> server_ok raw root sv \<Longrightarrow> server_ok raw root sv1"
  by (induction rule: server_reaches.induct) (auto intro: server_ok_step)

lemma server_streams_ok:
  assumes "holds log_ok fs" "server_reaches raw parses resolve root (new_server fs) sv" "(k, s) \<in> set (sv_streams sv)"
  shows "prefix (ss_sent s) (log_lines (log_of raw (sv_disk sv) root s))" "server_ok raw root sv" "stream_ok raw root (sv_disk sv) s"
proof -
  show ok: "server_ok raw root sv"
    using server_ok_reaches [OF assms(2)] assms(1) by (simp add: server_ok_def new_server_def)
  then show s: "stream_ok raw root (sv_disk sv) s" using assms(3) by (force simp: server_ok_def)
  then have "log_lines (log_of raw (sv_disk sv) root s) = ss_sent s @ log_lines (drop (ss_cursor s) (log_of raw (sv_disk sv) root s))"
    using log_lines_append [of "take (ss_cursor s) (log_of raw (sv_disk sv) root s)" "drop (ss_cursor s) (log_of raw (sv_disk sv) root s)"]
    by (simp add: stream_ok_def Let_def)
  then show "prefix (ss_sent s) (log_lines (log_of raw (sv_disk sv) root s))" by simp
qed

text \<open>
  C14: a live stream is a prefix of its session's log. However the server gets there, by runs that start,
  write and end, appends that land in any order, streams that open and poll, and restarts, what a stream
  has sent is the first lines of the events file, each once and in order, and a poll brings it level
  with the file.
\<close>

theorem stream_is_a_prefix:
  assumes "holds log_ok fs" "server_reaches raw parses resolve root (new_server fs) sv" "(k, s) \<in> set (sv_streams sv)"
  shows "prefix (ss_sent s) (log_lines (log_of raw (sv_disk sv) root s))
    \<and> (ss_phase s = Ph_replay \<or> ss_phase s = Ph_tail
        \<longrightarrow> ss_sent (sse_read raw (sv_disk sv) root s) = log_lines (log_of raw (sv_disk sv) root s))"
  using server_streams_ok [OF assms] by (auto simp: server_ok_def intro: stream_reads(2))

section \<open>A run on record\<close>

lemma readSessionMeta_write: "readSessionMeta (file_write p c fs) root w t i =
    (if sessionMetaFile root w t i = p then (case c of C_session m \<Rightarrow> Some m | _ \<Rightarrow> None) else readSessionMeta fs root w t i)"
  by (simp add: readSessionMeta_def disk.get_put)

lemma readSessionMeta_make_dir [simp]: "readSessionMeta (make_dir p fs) root w t i = readSessionMeta fs root w t i"
  by (simp add: readSessionMeta_def)

lemma meta_reads_back: "readSessionMeta (writeSessionMeta root w t m fs) root w t (me_id m) = Some m"
  by (simp add: writeSessionMeta_def readSessionMeta_write)

lemma pointer_is_no_meta [simp]: "sessionMetaFile root w t j \<noteq> teamLastSessionFile root w t" "teamLastSessionFile root w t \<noteq> sessionMetaFile root w t j"
  using last_of_files(1) [of root w t j] last_of_pointer [of root w t] by auto

lemma pointer_keeps_meta [simp]: "readSessionMeta (writeLastSessionId root w t i fs) root w t j = readSessionMeta fs root w t j"
  by (simp add: writeLastSessionId_def readSessionMeta_write)

lemma trim_line: "trim (i @ [10]) = trim i"
proof -
  have sp: "js_space 10" by (simp add: js_space_def)
  show ?thesis
  proof (cases "\<forall>c\<in>set i. js_space c")
    case True
    then have "dropWhile js_space i = []" "dropWhile js_space (i @ [10]) = []" using sp by (simp_all only: dropWhile_eq_Nil_conv) auto
    then show ?thesis by (simp only: trim_def trim_start_def)
  next
    case False
    then show ?thesis using sp by (auto simp: trim_def trim_start_def trim_end_def dropWhile_append1)
  qed
qed

lemma pointer_reads_back: "readLastSessionId raw (writeLastSessionId root w t i fs) root w t = (if trim i = [] then None else Some (trim i))"
  by (simp add: readLastSessionId_def writeLastSessionId_def text_at_write trim_line)

lemma meta_keeps_pointer: "readLastSessionId raw (writeSessionMeta root w t m fs) root w t = readLastSessionId raw fs root w t"
  by (simp add: readLastSessionId_def writeSessionMeta_def text_at_write)

lemma run_meta_running: "me_status (run_meta fs root now r t a sid) = S_running" "me_endedAt (run_meta fs root now r t a sid) = None"
  by (simp_all add: run_meta_def Let_def)

text \<open>Whatever the start comes to once the session is marked, the mark is on the disk.\<close>

lemma begin_run_marks:
  assumes "begin_run raw parses root now fresh r fs = (res, fs1)" "res = Inl (js ''messages'') \<or> res = Inr lr"
  shows "\<exists>m. readSessionMeta fs1 root (rn_workspace r) (rn_team r) (me_id m) = Some m \<and> me_status m = S_running \<and> me_endedAt m = None
     \<and> (res = Inr lr \<longrightarrow> lr_opts lr = r \<and> lr_meta lr = m)"
proof -
  have "\<exists>fs2 t a. fs1 = writeSessionMeta root (rn_workspace r) (rn_team r) (run_meta fs2 root now r t a (run_session_id raw fs root fresh r)) fs2
      \<and> (res = Inr lr \<longrightarrow> lr_opts lr = r \<and> lr_meta lr = run_meta fs2 root now r t a (run_session_id raw fs root fresh r))"
    using assms by (fastforce simp: begin_run_def Let_def split: option.splits prod.splits bool.splits if_splits)
  then show ?thesis using meta_reads_back run_meta_running by metis
qed

lemma begin_run_sid:
  "begin_run raw parses root now fresh r fs = (Inr lr, fs1) \<Longrightarrow> lr_opts lr = r \<and> (rn_resume r \<noteq> js ''last'' \<and> rn_resume r \<noteq> js ''new'' \<longrightarrow> lr_sid lr = rn_resume r)"
  by (auto simp: begin_run_def run_session_id_def Let_def split: option.splits prod.splits bool.splits if_splits)

text \<open>
  C24: a finished run is on record. However the disk changed meanwhile, when a run that had started ends, its session
  says how and when; a run over HTTP that completed is the one a later \<open>resume: "last"\<close> continues, and one that
  failed leaves that choice as it was.
\<close>

theorem finished_run_is_on_record:
  assumes "begin_run raw parses root now fresh r fs = (Inr lr, fs1)"
  shows "readSessionMeta (end_run root later err lr fs2) root (rn_workspace r) (rn_team r) (me_id (lr_meta lr)) =
      Some ((lr_meta lr)\<lparr>me_status := (if err = None then S_completed else S_error), me_endedAt := Some later, me_error := err\<rparr>)
    \<and> (rn_resume r \<noteq> js ''last'' \<and> rn_resume r \<noteq> js ''new'' \<and> trim (rn_resume r) = rn_resume r \<and> rn_resume r \<noteq> [] \<longrightarrow>
      resolved_session raw (end_run root later err lr fs2) root (rn_workspace r) (rn_team r) (js ''last'') ulid =
        (if err = None then lr_sid lr else resolved_session raw fs2 root (rn_workspace r) (rn_team r) (js ''last'') ulid))"
proof -
  let ?m = "(lr_meta lr)\<lparr>me_status := (if err = None then S_completed else S_error), me_endedAt := Some later, me_error := err\<rparr>"
  have "readSessionMeta (writeSessionMeta root (rn_workspace r) (rn_team r) ?m fs2) root (rn_workspace r) (rn_team r) (me_id (lr_meta lr)) = Some ?m"
    using meta_reads_back [of root "rn_workspace r" "rn_team r" ?m fs2] by simp
  then show ?thesis
    using begin_run_sid [OF assms] by (cases err) (simp_all add: end_run_def Let_def pointer_reads_back meta_keeps_pointer resolved_session_def)
qed

section \<open>A new session's sandbox\<close>

lemma exists_path_iff: "exists_path fs q \<longleftrightarrow> (\<exists>x\<in>set fs. prefix q (fst x))"
proof -
  have "jm_get fs q = None \<longleftrightarrow> q \<notin> fst ` set fs" by (simp add: jm_get_def map_of_eq_None_iff)
  then show ?thesis
    by (force simp: exists_path_def is_dir_def list_ex_iff strict_prefix_def jm_get_def dest: map_of_SomeD)
qed

lemma exists_path_keys: "exists_path fs q \<longleftrightarrow> (\<exists>y\<in>fst ` set fs. prefix q y)"
  by (auto simp: exists_path_iff)

lemma exists_write: "exists_path (file_write p c fs) q \<longleftrightarrow> exists_path fs q \<or> prefix q p"
  by (simp only: exists_path_keys file_write_def keys_jm_set) blast

lemma exists_make_dir: "exists_path (make_dir p fs) q \<longleftrightarrow> exists_path fs q \<or> prefix q p"
proof (cases "exists_path fs p")
  case True
  then have "prefix q p \<Longrightarrow> exists_path fs q" unfolding exists_path_keys using prefix_order.trans by blast
  then show ?thesis using True by (auto simp: make_dir_def)
next
  case False
  then show ?thesis by (simp only: make_dir_def if_False exists_path_keys keys_jm_set) blast
qed

lemma ensure_new_link: "\<not> exists_path fs link \<Longrightarrow> \<not> prefix link target \<Longrightarrow> ensureSymlink target link fs = (True, file_write link (C_link target) (make_dir target fs))"
  by (simp add: ensureSymlink_def exists_make_dir)

lemma session_parts:
  "sessionSandboxDir root w t i = sessionDir root w t i @ [js ''sandbox'']" "sessionTracesDir root w t i = sessionDir root w t i @ [js ''traces'']"
  "sessionEscalationsDir root w t i = sessionDir root w t i @ [js ''escalations'']" "sessionMetaFile root w t i = sessionDir root w t i @ [js ''session.json'']"
  "sessionMessagesFile root w t i = sessionDir root w t i @ [js ''messages.jsonl'']" "sessionEventsFile root w t i = sessionDir root w t i @ [js ''events.jsonl'']"
  by (simp_all add: sessionSandboxDir_def sessionTracesDir_def sessionEscalationsDir_def sessionMetaFile_def sessionMessagesFile_def sessionEventsFile_def node_join_plain)

lemma new_sandbox:
  assumes "\<not> exists_path fs (sessionSandboxDir root w t i)"
    "\<not> prefix (sessionSandboxDir root w t i) (workspaceEnvDir root w)" "\<not> prefix (sessionSandboxDir root w t i) (workspaceMemoryDir root w)"
  shows "fst (buildSandbox root w t i fs)"
proof -
  let ?sb = "sessionSandboxDir root w t i"
  have "\<not> exists_path fs (?sb @ [s])" for s
    using assms(1) by (auto simp: exists_path_iff dest: append_prefixD)
  moreover have "\<not> prefix (?sb @ [s]) (workspaceEnvDir root w)" "\<not> prefix (?sb @ [s]) (workspaceMemoryDir root w)" for s
    using assms(2,3) by (auto dest: append_prefixD)
  ultimately show ?thesis
    by (simp add: buildSandbox_def Let_def node_join_plain ensure_new_link exists_make_dir exists_write session_parts)
qed

lemma links_keep: "q \<notin> snd ` set ls \<Longrightarrow> file_read (snd (ensure_links ls fs)) q = file_read fs q"
proof (induction ls fs rule: ensure_links.induct)
  case (2 target link ls fs)
  have "file_read (snd (ensureSymlink target link fs)) q = file_read fs q"
    using 2 by (auto simp: ensureSymlink_def Let_def disk.get_put split: option.splits content.splits)
  then show ?case using 2 by (auto split: prod.splits)
qed simp

lemma sandbox_keeps:
  assumes "last q \<notin> {js ''env'', js ''memory'', js ''traces''}"
  shows "file_read (snd (buildSandbox root w t i fs)) q = file_read fs q"
proof -
  have "q \<noteq> node_join (sessionSandboxDir root w t i) [js n]" if "n \<in> {''env'', ''memory'', ''traces''}" for n
    using assms that last_of_files [of root w t i] by auto
  then show ?thesis by (simp add: buildSandbox_def Let_def links_keep del: ensure_links.simps)
qed

text \<open>
  A start that fails can leave a session running. When the transcript of a resumed session has a line that is not
  JSON, the run throws after it has marked the session, and the mark stays: the session says \<open>running\<close> while no run of it exists.
\<close>

lemma failed_start_leaves_it_running:
  assumes "preflight raw resolve root fresh body (sv_disk sv) = Inr r"
    and "fst (begin_run raw parses root now fresh r (sv_disk sv)) = Inl (js ''messages'')"
  shows "sv_runs (server_start raw parses resolve root n now fresh prompt body sv) = sv_runs sv
    \<and> (\<exists>m. readSessionMeta (sv_disk (server_start raw parses resolve root n now fresh prompt body sv)) root (rn_workspace r) (rn_team r) (me_id m) = Some m
         \<and> me_status m = S_running \<and> me_endedAt m = None)"
proof -
  obtain fs1 where b: "begin_run raw parses root now fresh r (sv_disk sv) = (Inl (js ''messages''), fs1)"
    using assms(2) by (metis prod.collapse)
  then show ?thesis using assms(1) begin_run_marks [OF b] by (auto simp: server_start_def)
qed

text \<open>A data directory with one workspace, one team and one session, whose transcript holds a line.\<close>

definition run_disk :: disk where
  "run_disk = [([js ''d'', js ''workspaces'', js ''w'', js ''workspace.json''], N_file (C_workspace \<lparr>wk_id = js ''w'', wk_displayName = js ''W'',
       wk_kind = js ''k'', wk_phoneNumber = Some (js ''+15551234567''), wk_externalRef = None, wk_createdAt = 0\<rparr>)),
     ([js ''d'', js ''teams'', js ''t'', js ''team.yaml''], N_file (C_team \<lparr>tm_name = js ''t'', tm_description = [],
       tm_expectedWorkspaceKind = js ''k'', tm_lead = js ''a'', tm_agents = [\<lparr>ag_role = js ''a'', ag_promptFile = js ''a.md'', ag_model = js ''m''\<rparr>]\<rparr>)),
     ([js ''d'', js ''workspaces'', js ''w'', js ''teams'', js ''t'', js ''sessions'', js ''s'', js ''messages.jsonl''], N_file (C_text (js ''x'' @ [10]))),
     ([js ''d'', js ''workspaces'', js ''w'', js ''teams'', js ''t'', js ''sessions'', js ''s'', js ''events.jsonl''], N_file (C_text (js ''{}'' @ [10])))]"

definition run_with :: "jstr \<Rightarrow> run_opts" where
  "run_with mode = \<lparr>rn_workspace = js ''w'', rn_team = js ''t'', rn_resume = mode, rn_userMessage = js ''hi'', rn_modelProvider = None\<rparr>"

definition run_body :: "jstr \<Rightarrow> json" where
  "run_body mode = JObj [(js ''workspace'', JStr (js ''w'')), (js ''team'', JStr (js ''t'')), (js ''userMessage'', JStr (js ''hi'')), (js ''resume'', JStr mode)]"

lemma run_disk_reads:
  "readWorkspace run_disk [js ''d''] (js ''w'') = Some \<lparr>wk_id = js ''w'', wk_displayName = js ''W'',
       wk_kind = js ''k'', wk_phoneNumber = Some (js ''+15551234567''), wk_externalRef = None, wk_createdAt = 0\<rparr>"
  "readTeam run_disk [js ''d''] (js ''t'') = Some \<lparr>tm_name = js ''t'', tm_description = [],
       tm_expectedWorkspaceKind = js ''k'', tm_lead = js ''a'', tm_agents = [\<lparr>ag_role = js ''a'', ag_promptFile = js ''a.md'', ag_model = js ''m''\<rparr>]\<rparr>"
  "file_read run_disk (sessionMessagesFile [js ''d''] (js ''w'') (js ''t'') (js ''s'')) = Some (C_text (js ''x'' @ [10]))"
  "readSessionMeta run_disk [js ''d''] (js ''w'') (js ''t'') (js ''s'') = None"
  by (simp_all add: readWorkspace_def readTeam_def readSessionMeta_def workspace_files_at team_files_at session_files_at file_read_def jm_get_def run_disk_def)

lemma run_disk_preflight: "mode \<noteq> js ''new'' \<Longrightarrow> mode \<noteq> js ''last'' \<Longrightarrow>
    preflight (\<lambda>_. []) (\<lambda>_. True) [js ''d''] fresh (Some (run_body mode)) run_disk = Inr (run_with mode)"
  by (simp add: preflight_def run_body_def run_with_def filled_def resume_mode_def run_disk_reads resolved_session_def or_empty_def json_str_def jm_get_def)

lemma run_disk_sandbox:
  "\<exists>fs1. buildSandbox [js ''d''] (js ''w'') (js ''t'') (js ''s'') run_disk = (True, fs1)
    \<and> file_read fs1 (sessionMessagesFile [js ''d''] (js ''w'') (js ''t'') (js ''s'')) = Some (C_text (js ''x'' @ [10]))"
proof -
  let ?sb = "buildSandbox [js ''d''] (js ''w'') (js ''t'') (js ''s'') run_disk"
  have "\<not> exists_path run_disk (sessionSandboxDir [js ''d''] (js ''w'') (js ''t'') (js ''s''))"
    by (simp add: exists_path_iff run_disk_def session_files_at)
  then have "fst ?sb" by (simp add: new_sandbox session_files_at workspace_files_at)
  then obtain fs1 where "?sb = (True, fs1)" by (cases ?sb) simp
  then show ?thesis
    using sandbox_keeps [of "sessionMessagesFile [js ''d''] (js ''w'') (js ''t'') (js ''s'')" "[js ''d'']" "js ''w''" "js ''t''" "js ''s''" run_disk]
    by (simp add: run_disk_reads last_of_files)
qed

lemma transcript_is_no_meta [simp]: "sessionMessagesFile root w t i \<noteq> sessionMetaFile root w t j"
  by (rule notI, drule arg_cong [where f = last]) (simp add: last_of_files)

lemma one_line_transcript:
  assumes "file_read fs (sessionMessagesFile root w t i) = Some (C_text (js ''x'' @ [10]))"
  shows "readMessages raw (writeSessionMeta root w t m fs) root w t i = [js ''x'']"
proof -
  have x: "js ''x'' = [120]" by (simp add: js_def)
  have one: "split_on 10 (js ''x'' @ [10]) = [js ''x'', []]" "trim (js ''x'') = js ''x''"
    by (simp_all add: x trim_def trim_start_def trim_end_def js_space_def)
  show ?thesis
    by (simp add: readMessages_def text_at_def writeSessionMeta_def disk.get_put or_empty_def assms one del: split_on.simps)
qed

lemma begin_run_resumed:
  assumes "readWorkspace fs root (rn_workspace r) = Some ws" "readTeam fs root (rn_team r) = Some t" "tm_expectedWorkspaceKind t = wk_kind ws"
    "lead_agent t = Some a" "run_session_id raw fs root fresh r = (i, True)" "buildSandbox root (rn_workspace r) (rn_team r) i fs = (True, fs1)"
  shows "begin_run raw parses root now fresh r fs =
    (let m = run_meta fs1 root now r t a (i, True); fs2 = writeSessionMeta root (rn_workspace r) (rn_team r) m fs1;
         ms = readMessages raw fs2 root (rn_workspace r) (rn_team r) i
     in if list_all parses ms then (Inr \<lparr>lr_opts = r, lr_sid = i, lr_meta = m, lr_messages = ms\<rparr>, fs2) else (Inl (js ''messages''), fs2))"
  unfolding begin_run_def assms(1,2,4,5) option.case prod.case Let_def fst_conv snd_conv assms(6) bool.case if_True
  using assms(3) by simp

lemma run_disk_begins:
  "list_all parses [js ''x''] \<Longrightarrow> \<not> isl (fst (begin_run (\<lambda>_. []) parses [js ''d''] now fresh (run_with (js ''s'')) run_disk))"
  "\<not> list_all parses [js ''x''] \<Longrightarrow> fst (begin_run (\<lambda>_. []) parses [js ''d''] now fresh (run_with (js ''s'')) run_disk) = Inl (js ''messages'')"
proof -
  obtain fs1 where sb: "buildSandbox [js ''d''] (js ''w'') (js ''t'') (js ''s'') run_disk = (True, fs1)"
    and x: "file_read fs1 (sessionMessagesFile [js ''d''] (js ''w'') (js ''t'') (js ''s'')) = Some (C_text (js ''x'' @ [10]))"
    using run_disk_sandbox by (elim exE conjE)
  have rw: "rn_workspace (run_with (js ''s'')) = js ''w''" "rn_team (run_with (js ''s'')) = js ''t''" by (simp_all add: run_with_def)
  have sid: "run_session_id (\<lambda>_. []) run_disk [js ''d''] fresh (run_with (js ''s'')) = (js ''s'', True)"
    by (simp add: run_session_id_def run_with_def)
  obtain ws t a where "readWorkspace run_disk [js ''d''] (js ''w'') = Some ws" "readTeam run_disk [js ''d''] (js ''t'') = Some t"
    "tm_expectedWorkspaceKind t = wk_kind ws" "lead_agent t = Some a"
    by (simp add: run_disk_reads lead_agent_def)
  note b = begin_run_resumed [where r = "run_with (js ''s'')", unfolded rw, OF this sid sb]
  show "list_all parses [js ''x''] \<Longrightarrow> \<not> isl (fst (begin_run (\<lambda>_. []) parses [js ''d''] now fresh (run_with (js ''s'')) run_disk))"
    by (simp add: b Let_def one_line_transcript [OF x])
  show "\<not> list_all parses [js ''x''] \<Longrightarrow> fst (begin_run (\<lambda>_. []) parses [js ''d''] now fresh (run_with (js ''s'')) run_disk) = Inl (js ''messages'')"
    by (simp add: b Let_def one_line_transcript [OF x])
qed

lemma failed_start_leaves_it_running_witness:
  "let sv = new_server run_disk; sv1 = server_start (\<lambda>_. []) (\<lambda>_. False) (\<lambda>_. True) [js ''d''] 0 5 (js ''f'') [] (Some (run_body (js ''s''))) sv
   in sv_runs sv1 = [] \<and> (\<exists>m. readSessionMeta (sv_disk sv1) [js ''d''] (js ''w'') (js ''t'') (me_id m) = Some m \<and> me_status m = S_running)"
proof -
  let ?sv = "new_server run_disk"
  have p: "preflight (\<lambda>_. []) (\<lambda>_. True) [js ''d''] (js ''f'') (Some (run_body (js ''s''))) (sv_disk ?sv) = Inr (run_with (js ''s''))"
    by (simp add: new_server_def run_disk_preflight)
  have "fst (begin_run (\<lambda>_. []) (\<lambda>_. False) [js ''d''] 5 (js ''f'') (run_with (js ''s'')) (sv_disk ?sv)) = Inl (js ''messages'')"
    by (simp add: new_server_def run_disk_begins)
  from failed_start_leaves_it_running [OF p this, of 0 "[]"] show ?thesis
    by (auto simp: Let_def run_with_def new_server_def)
qed

theorem finished_run_is_on_record_witness:
  "\<exists>lr. fst (begin_run (\<lambda>_. []) (\<lambda>_. True) [js ''d''] 5 (js ''f'') (run_with (js ''s'')) run_disk) = Inr lr
    \<and> resolved_session (\<lambda>_. []) (end_run [js ''d''] 9 None lr run_disk) [js ''d''] (js ''w'') (js ''t'') (js ''last'') (js ''u'') = js ''s''"
proof -
  have "\<not> isl (fst (begin_run (\<lambda>_. []) (\<lambda>_. True) [js ''d''] 5 (js ''f'') (run_with (js ''s'')) run_disk))"
    by (rule run_disk_begins(1)) simp
  then obtain lr fs1 where b: "begin_run (\<lambda>_. []) (\<lambda>_. True) [js ''d''] 5 (js ''f'') (run_with (js ''s'')) run_disk = (Inr lr, fs1)"
    by (metis isl_def sumE prod.collapse)
  have "js ''s'' = [115]" by (simp add: js_def)
  then have "trim (js ''s'') = js ''s''" by (simp add: trim_def trim_start_def trim_end_def js_space_def)
  then have "resolved_session (\<lambda>_. []) (end_run [js ''d''] 9 None lr run_disk) [js ''d''] (js ''w'') (js ''t'') (js ''last'') (js ''u'') = js ''s''"
    using finished_run_is_on_record [OF b, of 9 None run_disk "js ''u''"] begin_run_sid [OF b] by (simp add: run_with_def)
  then show ?thesis using b by (intro exI [of _ lr]) simp
qed

theorem stream_is_a_prefix_witness:
  "sv_streams (server_open [js ''d''] 7 (js ''w'') (js ''t'') (js ''s'') (new_server run_disk)) = [(7, new_sse (js ''w'') (js ''t'') (js ''s''))]
   \<and> ss_sent (sse_read (\<lambda>_. []) run_disk [js ''d''] (new_sse (js ''w'') (js ''t'') (js ''s''))) = [js ''{}'']"
proof -
  let ?sv = "server_open [js ''d''] 7 (js ''w'') (js ''t'') (js ''s'') (new_server run_disk)" and ?s = "new_sse (js ''w'') (js ''t'') (js ''s'')"
  have "is_dir run_disk (sessionDir [js ''d''] (js ''w'') (js ''t'') (js ''s''))"
    by (simp add: is_dir_def session_files_at run_disk_def strict_prefix_def)
  then have o: "?sv = new_server run_disk\<lparr>sv_streams := [(7, ?s)]\<rparr>"
    by (simp add: server_open_def assertSessionExists_def assertWorkspaceAndTeam_def run_disk_reads new_server_def)
  have ok: "holds log_ok run_disk"
    by (simp add: holds_def run_disk_def log_ok_def whole_def)
  have r: "server_reaches (\<lambda>_. []) (\<lambda>_. True) (\<lambda>_. True) [js ''d''] (new_server run_disk) ?sv"
    by (rule sv_turn [OF sv_here sv_open]) (simp add: new_server_def)
  have "log_of (\<lambda>_. []) run_disk [js ''d''] ?s = js ''{}'' @ [10]"
    by (simp add: log_of_def new_sse_def text_at_def session_files_at file_read_def jm_get_def run_disk_def or_empty_def)
  then have "log_lines (log_of (\<lambda>_. []) run_disk [js ''d''] ?s) = [js ''{}'']"
    using log_lines_line [of "js ''{}''"] js_no_newline [of "''{}''"] by simp
  then show ?thesis
    using stream_is_a_prefix [OF ok r, of 7 ?s] o by (simp add: new_sse_def new_server_def)
qed

section \<open>What a stream misses\<close>

text \<open>An append that lands, and a poll of the stream after it.\<close>

definition land_and_poll :: "(content \<Rightarrow> jstr) \<Rightarrow> fpath \<Rightarrow> nat \<Rightarrow> nat \<Rightarrow> server \<Rightarrow> server" where
  "land_and_poll raw root k i sv = (let sv1 = server_land raw i sv; sv2 = on_stream k (sse_read raw (sv_disk sv1) root) sv1
     in on_stream k (sse_check (sv_disk sv2) root) sv2)"

lemma streams_land [simp]: "sv_streams (server_land raw i sv) = sv_streams sv"
  by (simp add: server_land_def split: prod.splits)

lemma on_stream_at: "jm_get (sv_streams sv) k = Some s \<Longrightarrow> jm_get (sv_streams (on_stream k f sv)) k = Some (f s)"
  by (simp add: on_stream_def jmap.get_put)

lemma done_stays:
  assumes "jm_get (sv_streams sv) k = Some s" "ss_phase s = Ph_done"
  shows "jm_get (sv_streams (fold (land_and_poll raw root k) ns sv)) k = Some s"
  using assms(1)
proof (induction ns arbitrary: sv)
  case (Cons i ns)
  have "jm_get (sv_streams (land_and_poll raw root k i sv)) k = Some s"
    using Cons.prems assms(2) by (simp add: land_and_poll_def Let_def on_stream_at sse_read_def sse_check_def)
  then show ?case using Cons.IH by simp
qed simp

text \<open>
  C33: a stream can lose the end of its session. When a run ends between a stream's read of the log and its look at the
  session's status, while an append of the run hasn't landed, the stream closes as done: however the appends land and
  whatever it is polled, it sends nothing more, and the line that lands then is in the log and not in the stream.
\<close>

theorem stream_loses_the_end:
  assumes "jm_get (sv_runs sv) n = Some r" "jm_get (sv_streams sv) k = Some s" "ss_phase s = Ph_check"
    and "ss_ws s = rn_workspace (lr_opts r)" "ss_team s = rn_team (lr_opts r)" "ss_sid s = me_id (lr_meta r)"
    and "sv1 = on_stream k (sse_check (sv_disk (server_finish root n now err sv)) root) (server_finish root n now err sv)"
  shows "jm_get (sv_streams (fold (land_and_poll raw root k) ns sv1)) k = Some (s\<lparr>ss_phase := Ph_done\<rparr>)
    \<and> (server_ok raw root sv \<and> sv_pending sv = (sessionEventsFile root (ss_ws s) (ss_team s) (ss_sid s), json_stringify ev) # rest
       \<longrightarrow> log_lines (log_of raw (sv_disk (server_land raw 0 sv1)) root s) = log_lines (log_of raw (sv_disk sv1) root s) @ [json_stringify ev])"
proof -
  let ?f = "server_finish root n now err sv"
  have f: "?f = sv\<lparr>sv_disk := end_run root now err r (sv_disk sv), sv_runs := jm_delete n (sv_runs sv)\<rparr>"
    using assms(1) by (simp add: server_finish_def)
  have "\<exists>m. readSessionMeta (sv_disk ?f) root (ss_ws s) (ss_team s) (ss_sid s) = Some m \<and> me_status m \<noteq> S_running"
    using meta_reads_back [of root "ss_ws s" "ss_team s" "(lr_meta r)\<lparr>me_status := (if err = None then S_completed else S_error), me_endedAt := Some now, me_error := err\<rparr>" "sv_disk sv"] assms(4-6)
    unfolding f by (cases err) (simp_all add: end_run_def Let_def)
  then have "sse_check (sv_disk ?f) root s = s\<lparr>ss_phase := Ph_done\<rparr>"
    using assms(3) by (auto simp: sse_check_def)
  then have "jm_get (sv_streams sv1) k = Some (s\<lparr>ss_phase := Ph_done\<rparr>)"
    using assms(2) unfolding assms(7) by (subst on_stream_at [of _ _ s]) (simp_all add: f)
  then have 1: "jm_get (sv_streams (fold (land_and_poll raw root k) ns sv1)) k = Some (s\<lparr>ss_phase := Ph_done\<rparr>)"
    by (rule done_stays) simp
  have d: "sv_disk sv1 = end_run root now err r (sv_disk sv)" "sv_pending sv1 = sv_pending sv"
    by (simp_all add: assms(7) f on_stream_def split: option.splits)
  have 2: "log_lines (log_of raw (sv_disk (server_land raw 0 sv1)) root s) = log_lines (log_of raw (sv_disk sv1) root s) @ [json_stringify ev]"
    if "server_ok raw root sv" "sv_pending sv = (sessionEventsFile root (ss_ws s) (ss_team s) (ss_sid s), json_stringify ev) # rest"
  proof -
    have "holds log_ok (sv_disk sv1)" using that(1) adds_only_run(2) unfolding d(1) by (fastforce simp: server_ok_def adds_only_def)
    then have "whole (log_of raw (sv_disk sv1) root s)" by (rule log_whole)
    moreover have "log_of raw (sv_disk (server_land raw 0 sv1)) root s = log_of raw (sv_disk sv1) root s @ json_stringify ev @ [10]"
      using that(2) d(2) by (simp add: server_land_def log_of_def append_line_def text_at_write or_empty_def)
    ultimately show ?thesis by (simp add: log_lines_append log_lines_line json_one_line json_not_empty)
  qed
  show ?thesis using 1 2 by blast
qed

theorem stream_loses_the_end_witness:
  "\<exists>r sv. jm_get (sv_runs sv) 0 = Some r \<and> ss_phase (snd (hd (sv_streams sv))) = Ph_check
   \<and> jm_get (sv_streams (fold (land_and_poll (\<lambda>_. []) [js ''d''] 7) [0, 0]
       (on_stream 7 (sse_check (sv_disk (server_finish [js ''d''] 0 9 None sv)) [js ''d'']) (server_finish [js ''d''] 0 9 None sv)))) 7
     = Some ((new_sse (js ''w'') (js ''t'') (js ''s''))\<lparr>ss_phase := Ph_done\<rparr>)"
proof -
  let ?m = "\<lparr>me_id = js ''s'', me_workspace = js ''w'', me_team = js ''t'', me_agentRole = js ''a'', me_modelProvider = [], me_modelId = [],
    me_startedAt = 5, me_endedAt = None, me_status = S_running, me_error = None\<rparr>"
  let ?r = "\<lparr>lr_opts = run_with (js ''s''), lr_sid = js ''s'', lr_meta = ?m, lr_messages = []\<rparr>"
  let ?s = "(new_sse (js ''w'') (js ''t'') (js ''s''))\<lparr>ss_phase := Ph_check\<rparr>"
  let ?sv = "\<lparr>sv_disk = run_disk, sv_runs = [(0, ?r)], sv_pending = [(sessionEventsFile [js ''d''] (js ''w'') (js ''t'') (js ''s''), json_stringify JNull)], sv_streams = [(7, ?s)]\<rparr>"
  have "jm_get (sv_runs ?sv) 0 = Some ?r" "jm_get (sv_streams ?sv) 7 = Some ?s" by (simp_all add: jm_get_def)
  from stream_loses_the_end [OF this _ _ _ _ refl, where root = "[js ''d'']" and now = 9 and err = None and raw = "\<lambda>_. []" and ns = "[0, 0]"]
  have "jm_get (sv_streams (fold (land_and_poll (\<lambda>_. []) [js ''d''] 7) [0, 0]
       (on_stream 7 (sse_check (sv_disk (server_finish [js ''d''] 0 9 None ?sv)) [js ''d'']) (server_finish [js ''d''] 0 9 None ?sv)))) 7
     = Some (?s\<lparr>ss_phase := Ph_done\<rparr>)"
    by (simp add: new_sse_def run_with_def)
  then show ?thesis by (intro exI [of _ ?r] exI [of _ ?sv]) (simp add: jm_get_def)
qed

section \<open>Where a run's files can be\<close>

lemma six_up: "down (p @ [a, b, c, d, e, f]) (js ''../../../../../../x'') = p @ [js ''x'']"
proof -
  have "split_on 47 (js ''../../../../../../x'') = [js ''..'', js ''..'', js ''..'', js ''..'', js ''..'', js ''..'', js ''x'']"
    by (simp add: js_def)
  then show ?thesis by (simp add: down_def push_name_def butlast_append)
qed

lemma begin_run_new_id:
  assumes "begin_run raw parses root now fresh r fs = (Inr lr, fs1)" "readSessionMeta fs root (rn_workspace r) (rn_team r) (rn_resume r) = None"
    "rn_resume r \<noteq> js ''last''" "rn_resume r \<noteq> js ''new''"
  shows "me_id (lr_meta lr) = rn_resume r"
proof -
  have sid: "run_session_id raw fs root fresh r = (rn_resume r, True)" using assms(3,4) by (simp add: run_session_id_def)
  have "readSessionMeta (snd (buildSandbox root (rn_workspace r) (rn_team r) (rn_resume r) fs)) root (rn_workspace r) (rn_team r) (rn_resume r) = None"
    using assms(2) by (simp add: readSessionMeta_def sandbox_keeps last_of_files)
  then show ?thesis
    using assms(1) by (auto simp: begin_run_def Let_def sid run_meta_def split: option.splits prod.splits bool.splits if_splits)
qed



section \<open>What a restart does\<close>

text \<open>Names are plain, and a session's file is in the directory of its own id.\<close>

definition tidy :: "fpath \<Rightarrow> content node \<Rightarrow> bool" where
  "tidy p n = (list_all plain p \<and> (case n of N_file (C_session m) \<Rightarrow> me_id m = last (butlast p) | _ \<Rightarrow> True))"

definition closed_off :: "int \<Rightarrow> session_meta \<Rightarrow> session_meta" where
  "closed_off now m = (if me_status m \<noteq> S_running then m else m\<lparr>me_status := S_aborted, me_endedAt := Some now,
     me_error := Some (case me_error m of Some e \<Rightarrow> e | None \<Rightarrow> js ''server restarted while session was running'')\<rparr>)"

lemma closed_off_twice: "map_option (closed_off now) (map_option (closed_off now) x) = map_option (closed_off now) x"
  by (cases x) (simp_all add: closed_off_def)

definition meta_of :: "fpath \<Rightarrow> disk \<Rightarrow> jstr \<times> jstr \<times> jstr \<Rightarrow> session_meta option" where
  "meta_of root fs k = (case k of (w, t, i) \<Rightarrow> readSessionMeta fs root w t i)"

definition plain_key :: "jstr \<times> jstr \<times> jstr \<Rightarrow> bool" where
  "plain_key k = (case k of (w, t, i) \<Rightarrow> plain w \<and> plain t \<and> plain i)"

text \<open>A pass over the sessions of a group closes off those of the group and keeps the others.\<close>

definition closes :: "fpath \<Rightarrow> int \<Rightarrow> (jstr \<times> jstr \<times> jstr \<Rightarrow> bool) \<Rightarrow> disk \<Rightarrow> disk \<Rightarrow> bool" where
  "closes root now G fs fs1 = (holds tidy fs1
     \<and> (\<forall>k. plain_key k \<longrightarrow> meta_of root fs1 k = (if G k then map_option (closed_off now) (meta_of root fs k) else meta_of root fs k)))"

lemma closes_fold:
  assumes "\<And>x fs. x \<in> set xs \<Longrightarrow> holds tidy fs \<Longrightarrow> closes root now (G x) fs (f x fs)" "holds tidy fs"
  shows "closes root now (\<lambda>k. \<exists>x\<in>set xs. G x k) fs (fold f xs fs)"
  using assms
proof (induction xs arbitrary: fs)
  case (Cons x xs)
  have 1: "closes root now (G x) fs (f x fs)" using Cons.prems by simp
  then have "closes root now (\<lambda>k. \<exists>x\<in>set xs. G x k) (f x fs) (fold f xs (f x fs))"
    using Cons.prems(1) by (intro Cons.IH) (simp_all add: closes_def)
  with 1 show ?case by (auto simp: closes_def closed_off_twice)
qed (simp add: closes_def)

lemma closes_group:
  assumes "closes root now G fs fs1" "\<And>k. plain_key k \<Longrightarrow> G k \<noteq> H k \<Longrightarrow> meta_of root fs k = None"
  shows "closes root now H fs fs1"
  using assms unfolding closes_def by (metis option.map_disc_iff)

lemma tidy_names: "holds tidy fs \<Longrightarrow> read_dir fs p = Some ns \<Longrightarrow> s \<in> set ns \<Longrightarrow> plain s"
proof -
  assume "holds tidy fs" "read_dir fs p = Some ns" "s \<in> set ns"
  then obtain x where x: "x \<in> set fs" "strict_prefix p (fst x)" "s = fst x ! length p"
    by (auto simp: read_dir_def list_names_def split: if_splits)
  then have "s \<in> set (fst x)" using prefix_length_less [OF x(2)] by simp
  moreover have "list_all plain (fst x)" using \<open>holds tidy fs\<close> x(1) by (auto simp: holds_def tidy_def)
  ultimately show ?thesis by (simp add: list_all_iff)
qed

lemma tidy_listed:
  assumes "holds tidy fs"
  shows "s \<in> set (names_in fs p) \<Longrightarrow> plain s" "s \<in> set (listSessions fs root w t) \<Longrightarrow> plain s"
proof -
  show "s \<in> set (names_in fs p) \<Longrightarrow> plain s"
    by (cases "read_dir fs p") (auto simp: names_in_def dest: tidy_names [OF assms])
  show "s \<in> set (listSessions fs root w t) \<Longrightarrow> plain s"
    by (cases "read_dir fs (teamSessionsRoot root w t)") (auto simp: listSessions_def dest: tidy_names [OF assms])
qed

lemma name_listed: "file_read fs (p @ s # q) = Some c \<Longrightarrow> \<exists>ns. read_dir fs p = Some ns \<and> s \<in> set ns"
proof -
  assume "file_read fs (p @ s # q) = Some c"
  then have "(p @ s # q, N_file c) \<in> set fs" by (rule file_read_in)
  then show ?thesis
    by (force simp: read_dir_def is_dir_def list_names_def list_ex_iff strict_prefix_def image_iff intro!: bexI [where x = "(p @ s # q, N_file c)"])
qed

lemma meta_listed:
  assumes "plain_key (w, t, i)" "meta_of root fs (w, t, i) = Some m"
  shows "w \<in> set (names_in fs (node_join root [js ''workspaces'']))"
    and "t \<in> set (names_in fs (node_join root [js ''workspaces'', w, js ''teams'']))"
    and "i \<in> set (listSessions fs root w t)"
proof -
  have at: "plain w" "plain t" "plain i" using assms(1) by (simp_all add: plain_key_def)
  obtain c where c: "file_read fs (root @ [js ''workspaces'', w, js ''teams'', t, js ''sessions'', i, js ''session.json'']) = Some c"
    using assms(2) at by (auto simp: meta_of_def readSessionMeta_def session_files_at split: option.splits)
  show "w \<in> set (names_in fs (node_join root [js ''workspaces'']))"
    using name_listed [of fs "root @ [js ''workspaces'']"] c by (force simp: names_in_def node_join_plain)
  show "t \<in> set (names_in fs (node_join root [js ''workspaces'', w, js ''teams'']))"
    using name_listed [of fs "root @ [js ''workspaces'', w, js ''teams'']"] c at by (force simp: names_in_def node_join_plain)
  show "i \<in> set (listSessions fs root w t)"
    using name_listed [of fs "root @ [js ''workspaces'', w, js ''teams'', t, js ''sessions'']"] c at
    by (force simp: listSessions_def teamSessionsRoot_def workspaceDir_def node_join_plain)
qed

lemma same_meta_file: "plain_key (w, t, i) \<Longrightarrow> plain_key (v, u, j) \<Longrightarrow> (sessionMetaFile root w t i = sessionMetaFile root v u j) = ((w, t, i) = (v, u, j))"
  by (auto simp: plain_key_def session_files_at)

lemma closes_one:
  assumes "list_all plain root" "plain_key (w, t, i)" "holds tidy fs"
  shows "closes root now (\<lambda>k. k = (w, t, i)) fs (abort_stale raw root now w t i fs)"
proof (cases "readSessionMeta fs root w t i")
  case None
  then show ?thesis using assms(3) by (simp add: closes_def abort_stale_def meta_of_def)
next
  case (Some m)
  have at: "plain w" "plain t" "plain i" using assms(2) by (simp_all add: plain_key_def)
  have id: "me_id m = i"
  proof -
    have "file_read fs (sessionMetaFile root w t i) = Some (C_session m)"
      using Some by (simp add: readSessionMeta_def split: option.splits content.splits)
    from holdsD [OF assms(3) this] show ?thesis using at by (simp add: tidy_def session_files_at butlast_append)
  qed
  show ?thesis
  proof (cases "me_status m = S_running")
    case False
    then show ?thesis using assms(3) Some by (auto simp: closes_def abort_stale_def meta_of_def closed_off_def)
  next
    case True
    then have eq: "abort_stale raw root now w t i fs = appendEventLine raw root w t i (json_stringify (synthetic_end now)) (writeSessionMeta root w t (closed_off now m) fs)"
      using Some by (simp add: abort_stale_def closed_off_def)
    have idc: "me_id (closed_off now m) = i" by (simp add: closed_off_def id)
    have "holds tidy (abort_stale raw root now w t i fs)"
      unfolding eq appendEventLine_def append_line_def writeSessionMeta_def idc
      using assms(1,3) at idc by (intro inv_intros) (simp_all add: tidy_def session_files_at butlast_append)
    moreover have "sessionMetaFile root v u j \<noteq> sessionEventsFile root w t i" for v u j
      by (rule notI, drule arg_cong [where f = last]) (simp add: last_of_files)
    then have "meta_of root (abort_stale raw root now w t i fs) k = (if k = (w, t, i) then map_option (closed_off now) (meta_of root fs k) else meta_of root fs k)"
      if "plain_key k" for k
      using that assms(2) Some
      by (cases k) (simp add: meta_of_def eq appendEventLine_def append_line_def writeSessionMeta_def idc readSessionMeta_write same_meta_file)
    ultimately show ?thesis by (simp add: closes_def)
  qed
qed

lemma closes_team:
  assumes "list_all plain root" "plain w" "plain t" "holds tidy fs"
  shows "closes root now (\<lambda>k. fst k = w \<and> fst (snd k) = t) fs (abort_team raw root now w t fs)"
proof (rule closes_group)
  show "closes root now (\<lambda>k. \<exists>i\<in>set (listSessions fs root w t). k = (w, t, i)) fs (abort_team raw root now w t fs)"
    unfolding abort_team_def using assms by (intro closes_fold closes_one) (simp_all add: plain_key_def tidy_listed)
  show "meta_of root fs k = None"
    if "plain_key k" "(\<exists>i\<in>set (listSessions fs root w t). k = (w, t, i)) \<noteq> (fst k = w \<and> fst (snd k) = t)" for k
    using that meta_listed(3) by (cases k) (fastforce)
qed

lemma closes_workspace:
  assumes "list_all plain root" "plain w" "holds tidy fs"
  shows "closes root now (\<lambda>k. fst k = w) fs (abort_workspace raw root now w fs)"
proof (rule closes_group)
  let ?ts = "names_in fs (node_join root [js ''workspaces'', w, js ''teams''])"
  show "closes root now (\<lambda>k. \<exists>t\<in>set ?ts. fst k = w \<and> fst (snd k) = t) fs (abort_workspace raw root now w fs)"
    unfolding abort_workspace_def using assms by (intro closes_fold closes_team) (simp_all add: tidy_listed)
  show "meta_of root fs k = None" if "plain_key k" "(\<exists>t\<in>set ?ts. fst k = w \<and> fst (snd k) = t) \<noteq> (fst k = w)" for k
    using that meta_listed(2) by (cases k) (fastforce)
qed



end
