(* ===== verification/JsonText.thy ===== *)
theory JsonText
  imports Json
begin

text \<open>
  JSON as text, as JavaScript writes it with an indentation of two (\<open>JSON.stringify(v, null, 2)\<close>) and reads it
  (\<open>JSON.parse\<close>), and that reading gives back what was written. Numbers are integers, as in \<open>Json\<close>.
  The reader recurses on a bound; the length of the text is enough.
\<close>

section \<open>Writing\<close>

definition spaces :: "nat \<Rightarrow> jstr" where
  "spaces n = replicate n 32"

fun json_pretty :: "nat \<Rightarrow> json \<Rightarrow> jstr" where
  "json_pretty d (JArr vs) = (if vs = [] then js ''[]''
     else [91, 10] @ join [44, 10] (map (\<lambda>v. spaces (d + 2) @ json_pretty (d + 2) v) vs) @ [10] @ spaces d @ [93])"
| "json_pretty d (JObj kvs) = (if kvs = [] then js ''{}''
     else [123, 10] @ join [44, 10] (map (\<lambda>kv. spaces (d + 2) @ json_quote (fst kv) @ [58, 32] @ json_pretty (d + 2) (snd kv)) kvs) @ [10] @ spaces d @ [125])"
| "json_pretty d v = json_stringify v"

section \<open>Reading\<close>

definition json_ws :: "nat \<Rightarrow> bool" where
  "json_ws c = (c = 32 \<or> c = 9 \<or> c = 10 \<or> c = 13)"

definition skip_ws :: "jstr \<Rightarrow> jstr" where
  "skip_ws s = dropWhile json_ws s"

definition hex_value :: "nat \<Rightarrow> nat option" where
  "hex_value c = (if is_digit c then Some (c - 48) else if 97 \<le> c \<and> c \<le> 102 then Some (c - 87) else if 65 \<le> c \<and> c \<le> 70 then Some (c - 55) else None)"

definition hex4 :: "nat \<Rightarrow> nat \<Rightarrow> nat \<Rightarrow> nat \<Rightarrow> nat option" where
  "hex4 a b c d = (case (hex_value a, hex_value b, hex_value c, hex_value d) of
     (Some w, Some x, Some y, Some z) \<Rightarrow> Some (((w * 16 + x) * 16 + y) * 16 + z) | _ \<Rightarrow> None)"

definition unescape :: "nat \<Rightarrow> nat option" where
  "unescape c = jm_get [(34, 34), (92, 92), (47, 47), (98, 8), (102, 12), (110, 10), (114, 13), (116, 9)] c"

definition with_char :: "nat \<Rightarrow> (jstr \<times> jstr) option \<Rightarrow> (jstr \<times> jstr) option" where
  "with_char c r = (case r of None \<Rightarrow> None | Some (s, t) \<Rightarrow> Some (c # s, t))"

text \<open>A string, from after its opening quote.\<close>

fun parse_str :: "jstr \<Rightarrow> (jstr \<times> jstr) option" where
  "parse_str [] = None"
| "parse_str (c # cs) =
     (if c = 34 then Some ([], cs)
      else if c = 92 then (case cs of
          [] \<Rightarrow> None
        | e # r \<Rightarrow> if e = 117 then (case r of
              a # b # x # y # t \<Rightarrow> (case hex4 a b x y of None \<Rightarrow> None | Some u \<Rightarrow> with_char u (parse_str t))
            | _ \<Rightarrow> None)
          else (case unescape e of None \<Rightarrow> None | Some u \<Rightarrow> with_char u (parse_str r)))
      else if c < 32 then None else with_char c (parse_str cs))"

text \<open>A number: no leading zeros.\<close>

definition parse_nat :: "jstr \<Rightarrow> (nat \<times> jstr) option" where
  "parse_nat s = (let ds = takeWhile is_digit s
     in if ds = [] \<or> (hd ds = 48 \<and> length ds > 1) then None else Some (digits_value ds, dropWhile is_digit s))"

definition then_char :: "nat \<Rightarrow> jstr \<Rightarrow> jstr option" where
  "then_char c s = (case s of [] \<Rightarrow> None | d # r \<Rightarrow> if d = c then Some r else None)"

definition parse_num :: "jstr \<Rightarrow> (int \<times> jstr) option" where
  "parse_num s = (case then_char 45 s of
      Some r \<Rightarrow> (case parse_nat r of None \<Rightarrow> None | Some (n, t) \<Rightarrow> Some (- int n, t))
    | None \<Rightarrow> (case parse_nat s of None \<Rightarrow> None | Some (n, t) \<Rightarrow> Some (int n, t)))"

definition parse_word :: "jstr \<Rightarrow> (json \<times> jstr) option" where
  "parse_word s = (if starts_with (js ''true'') s then Some (JBool True, drop 4 s)
     else if starts_with (js ''false'') s then Some (JBool False, drop 5 s)
     else if starts_with (js ''null'') s then Some (JNull, drop 4 s)
     else (case parse_num s of None \<Rightarrow> None | Some (n, t) \<Rightarrow> Some (JNum n, t)))"

fun parse_value :: "nat \<Rightarrow> jstr \<Rightarrow> (json \<times> jstr) option"
  and parse_elems :: "nat \<Rightarrow> json list \<Rightarrow> jstr \<Rightarrow> (json \<times> jstr) option"
  and parse_members :: "nat \<Rightarrow> (jstr \<times> json) list \<Rightarrow> jstr \<Rightarrow> (json \<times> jstr) option" where
  "parse_value 0 s = None"
| "parse_value (Suc n) s = (case skip_ws s of
      [] \<Rightarrow> None
    | c # cs \<Rightarrow>
        if c = 34 then (case parse_str cs of None \<Rightarrow> None | Some (t, r) \<Rightarrow> Some (JStr t, r))
        else if c = 91 then (case then_char 93 (skip_ws cs) of Some r \<Rightarrow> Some (JArr [], r) | None \<Rightarrow> parse_elems n [] cs)
        else if c = 123 then (case then_char 125 (skip_ws cs) of Some r \<Rightarrow> Some (JObj [], r) | None \<Rightarrow> parse_members n [] cs)
        else parse_word (c # cs))"
| "parse_elems 0 vs s = None"
| "parse_elems (Suc n) vs s = (case parse_value n s of
      None \<Rightarrow> None
    | Some (v, r) \<Rightarrow> (case skip_ws r of
        [] \<Rightarrow> None
      | c # t \<Rightarrow> if c = 44 then parse_elems n (vs @ [v]) t else if c = 93 then Some (JArr (vs @ [v]), t) else None))"
| "parse_members 0 kvs s = None"
| "parse_members (Suc n) kvs s = (case then_char 34 (skip_ws s) of
      None \<Rightarrow> None
    | Some q \<Rightarrow> (case parse_str q of
          None \<Rightarrow> None
        | Some (k, r) \<Rightarrow> (case then_char 58 (skip_ws r) of
            None \<Rightarrow> None
          | Some t \<Rightarrow> (case parse_value n t of
                None \<Rightarrow> None
              | Some (v, u) \<Rightarrow> (case skip_ws u of
                  [] \<Rightarrow> None
                | c # x \<Rightarrow> if c = 44 then parse_members n (jm_set k v kvs) x
                    else if c = 125 then Some (JObj (jm_set k v kvs), x) else None)))))"

definition json_parse :: "jstr \<Rightarrow> json option" where
  "json_parse s = (case parse_value (Suc (length s)) s of Some (j, r) \<Rightarrow> if skip_ws r = [] then Some j else None | None \<Rightarrow> None)"

section \<open>Reading what was written\<close>

lemma hex_value_digit: "n < 16 \<Longrightarrow> hex_value (hex_digit n) = Some n"
  by (auto simp: hex_value_def hex_digit_def is_digit_def)

lemma hex4_low: "c < 32 \<Longrightarrow> hex4 48 48 (hex_digit (c div 16)) (hex_digit (c mod 16)) = Some c"
  using hex_value_digit [of "c div 16"] hex_value_digit [of "c mod 16"] hex_value_digit [of 0]
  by (simp add: hex4_def hex_digit_def)

lemma parse_str_char: "parse_str (json_char c @ s) = with_char c (parse_str s)"
  by (auto simp: json_char_def unescape_def jm_get_def hex4_low split: option.splits)

lemma parse_str_quoted: "parse_str (concat (map json_char s) @ 34 # r) = Some (s, r)"
  by (induction s) (simp_all add: parse_str_char with_char_def)

lemma digits_run: "list_all is_digit ds \<Longrightarrow> r = [] \<or> \<not> is_digit (hd r) \<Longrightarrow> takeWhile is_digit (ds @ r) = ds \<and> dropWhile is_digit (ds @ r) = r"
  by (induction ds) (cases r; auto)+

lemma dec_nat_hd: "0 < n \<Longrightarrow> hd (dec_nat n) \<noteq> 48"
proof (induction n rule: dec_nat.induct)
  case (1 n)
  then show ?case by (cases "n < 10") (subst dec_nat.simps; auto)+
qed

lemma parse_nat_written: "r = [] \<or> \<not> is_digit (hd r) \<Longrightarrow> parse_nat (dec_nat n @ r) = Some (n, r)"
proof -
  assume "r = [] \<or> \<not> is_digit (hd r)"
  then have t: "takeWhile is_digit (dec_nat n @ r) = dec_nat n" "dropWhile is_digit (dec_nat n @ r) = r"
    using digits_run [OF dec_nat_digits, of r n] by simp_all
  have "\<not> (hd (dec_nat n) = 48 \<and> 1 < length (dec_nat n))"
  proof (cases "n = 0")
    case True
    then have "dec_nat n = [48]" by (subst dec_nat.simps) simp
    then show ?thesis by simp
  qed (simp add: dec_nat_hd)
  then show ?thesis by (simp add: parse_nat_def Let_def t dec_nat_value)
qed

lemma dec_nat_first: "\<exists>c cs. dec_nat n = c # cs \<and> 48 \<le> c \<and> c \<le> 57"
  using dec_nat_digits [of n] by (cases "dec_nat n") (auto simp: is_digit_def)

lemma parse_num_written: "r = [] \<or> \<not> is_digit (hd r) \<Longrightarrow> parse_num (dec_int n @ r) = Some (n, r)"
proof -
  assume r: "r = [] \<or> \<not> is_digit (hd r)"
  obtain c cs where "dec_nat (nat n) = c # cs" "48 \<le> c" using dec_nat_first by blast
  then have "then_char 45 (dec_nat (nat n) @ r) = None" by (simp add: then_char_def)
  then show ?thesis by (cases "n < 0") (simp_all add: parse_num_def dec_int_def parse_nat_written [OF r], simp add: then_char_def parse_nat_written [OF r])
qed

lemma skip_ws_over: "list_all json_ws w \<Longrightarrow> skip_ws (w @ s) = skip_ws s"
  by (induction w) (auto simp: skip_ws_def)

lemma skip_ws_spaces [simp]: "skip_ws (spaces n @ s) = skip_ws s" "skip_ws (10 # s) = skip_ws s" "skip_ws (32 # s) = skip_ws s"
  by (rule skip_ws_over) (simp_all add: spaces_def json_ws_def skip_ws_def list_all_iff)

lemma skip_ws_stop: "\<not> json_ws c \<Longrightarrow> skip_ws (c # s) = c # s"
  by (simp add: skip_ws_def)

text \<open>The bound a value needs, and the values whose objects have no key twice.\<close>

fun json_need :: "json \<Rightarrow> nat" where
  "json_need (JArr vs) = Suc (sum_list (map (\<lambda>v. Suc (json_need v)) vs))"
| "json_need (JObj kvs) = Suc (sum_list (map (\<lambda>kv. Suc (json_need (snd kv))) kvs))"
| "json_need JNull = 1"
| "json_need (JBool b) = 1"
| "json_need (JNum i) = 1"
| "json_need (JStr s) = 1"

fun json_ok :: "json \<Rightarrow> bool" where
  "json_ok (JArr vs) = list_all json_ok vs"
| "json_ok (JObj kvs) = (distinct (map fst kvs) \<and> list_all (\<lambda>kv. json_ok (snd kv)) kvs)"
| "json_ok JNull = True"
| "json_ok (JBool b) = True"
| "json_ok (JNum i) = True"
| "json_ok (JStr s) = True"

lemma stops [simp]: "skip_ws (44 # s) = 44 # s" "skip_ws (93 # s) = 93 # s" "skip_ws (125 # s) = 125 # s" "skip_ws (34 # s) = 34 # s" "skip_ws (58 # s) = 58 # s"
  "skip_ws (91 # s) = 91 # s" "skip_ws (123 # s) = 123 # s"
  by (simp_all add: skip_ws_stop json_ws_def)

text \<open>White space in front of a value doesn't matter.\<close>

lemma parse_value_ws: "skip_ws s = skip_ws t \<Longrightarrow> parse_value n s = parse_value n t"
  by (cases n) simp_all

lemma parse_elems_ws: "skip_ws s = skip_ws t \<Longrightarrow> parse_elems n vs s = parse_elems n vs t"
  using parse_value_ws [of s t "n - 1"] by (cases n) simp_all

lemma parse_members_ws: "skip_ws s = skip_ws t \<Longrightarrow> parse_members n kvs s = parse_members n kvs t"
  by (cases n) simp_all

definition blank :: "jstr \<Rightarrow> bool" where
  "blank s = list_all json_ws s"

lemma blanks [simp]: "blank []" "blank (c # s) \<longleftrightarrow> json_ws c \<and> blank s" "blank (s @ t) \<longleftrightarrow> blank s \<and> blank t" "blank (spaces n)" "json_ws 10" "json_ws 32"
  by (auto simp: blank_def spaces_def json_ws_def list_all_iff)

lemma skip_blank: "blank b \<Longrightarrow> skip_ws (b @ s) = skip_ws s"
  unfolding blank_def by (rule skip_ws_over)

lemma parse_past:
  assumes "blank b"
  shows "parse_value n (b @ s) = parse_value n s" "parse_elems n vs (b @ s) = parse_elems n vs s" "parse_members n kvs (b @ s) = parse_members n kvs s"
  using skip_blank [OF assms] by (auto intro: parse_value_ws parse_elems_ws parse_members_ws)

text \<open>What a value's text may be followed by: a number mustn't run on.\<close>

definition stop :: "jstr \<Rightarrow> bool" where
  "stop r = (r = [] \<or> \<not> is_digit (hd r))"

lemma stop_past: "blank b \<Longrightarrow> \<not> is_digit c \<Longrightarrow> stop (b @ c # r)"
  by (cases b) (auto simp: stop_def json_ws_def is_digit_def)

text \<open>A value as the writer \<open>w\<close> puts it is read back, however the text goes on.\<close>

definition reads_back :: "(json \<Rightarrow> jstr) \<Rightarrow> json \<Rightarrow> bool" where
  "reads_back w v = (\<forall>n r. json_need v \<le> n \<longrightarrow> stop r \<longrightarrow> parse_value n (w v @ r) = Some (v, r))"

lemma reads_backD: "reads_back w v \<Longrightarrow> json_need v \<le> n \<Longrightarrow> stop r \<Longrightarrow> parse_value n (w v @ r) = Some (v, r)"
  unfolding reads_back_def by blast

lemma parse_elems_written:
  assumes "\<And>v. v \<in> set vs \<Longrightarrow> reads_back w v" "vs \<noteq> []" "sum_list (map (\<lambda>v. Suc (json_need v)) vs) \<le> n"
    and ws: "blank a" "blank b" "blank c"
  shows "parse_elems n acc (join (44 # a) (map (\<lambda>v. b @ w v) vs) @ c @ 93 # r) = Some (JArr (acc @ vs), r)"
  using assms(1-3)
proof (induction vs arbitrary: n acc)
  case (Cons v vs)
  from Cons.prems(3) obtain m where n: "n = Suc m" "json_need v \<le> m" "sum_list (map (\<lambda>v. Suc (json_need v)) vs) \<le> m" by (cases n) auto
  have v: "parse_value m (w v @ t) = Some (v, t)" if "stop t" for t
    using reads_backD [OF _ n(2) that] Cons.prems(1) by simp
  note past = parse_past [OF ws(1)] parse_past [OF ws(2)]
  show ?case
  proof (cases vs)
    case Nil
    then show ?thesis using stop_past [OF ws(3), of 93 r] by (simp add: n(1) v is_digit_def skip_blank past ws)
  next
    case (Cons x xs)
    then have "parse_elems m (acc @ [v]) (join (44 # a) (map (\<lambda>v. b @ w v) vs) @ c @ 93 # r) = Some (JArr ((acc @ [v]) @ vs), r)"
      using Cons.IH Cons.prems(1) n(3) by auto
    then show ?thesis using stop_past [of "[]" 44] by (simp add: Cons n(1) v is_digit_def past)
  qed
qed simp

lemma parse_members_written:
  assumes "\<And>kv. kv \<in> set kvs \<Longrightarrow> reads_back w (snd kv)" "kvs \<noteq> []" "sum_list (map (\<lambda>kv. Suc (json_need (snd kv))) kvs) \<le> n"
    "distinct (map fst (acc @ kvs))"
    and ws: "blank a" "blank b" "blank c" "blank e"
  shows "parse_members n acc (join (44 # a) (map (\<lambda>kv. b @ json_quote (fst kv) @ 58 # e @ w (snd kv)) kvs) @ c @ 125 # r) = Some (JObj (acc @ kvs), r)"
  using assms(1-4)
proof (induction kvs arbitrary: n acc)
  case (Cons kv kvs)
  obtain k v where kv: "kv = (k, v)" by (cases kv)
  from Cons.prems(3) obtain m where n: "n = Suc m" "json_need v \<le> m" "sum_list (map (\<lambda>kv. Suc (json_need (snd kv))) kvs) \<le> m" by (cases n) (auto simp: kv)
  have v: "parse_value m (w v @ t) = Some (v, t)" if "stop t" for t
    using reads_backD [OF _ n(2) that] Cons.prems(1) [of kv] by (simp add: kv)
  note past = parse_past [OF ws(1)] parse_past [OF ws(4)]
  have new: "jm_set k v acc = acc @ [(k, v)]" using Cons.prems(4) by (intro jm_set_fresh) (auto simp: kv)
  note written = n(1) v is_digit_def kv json_quote_def then_char_def parse_str_quoted new skip_blank ws
  show ?case
  proof (cases kvs)
    case Nil
    then show ?thesis using stop_past [OF ws(3), of 125 r] by (simp add: written past)
  next
    case (Cons x xs)
    then have "parse_members m (acc @ [(k, v)]) (join (44 # a) (map (\<lambda>kv. b @ json_quote (fst kv) @ 58 # e @ w (snd kv)) kvs) @ c @ 125 # r)
        = Some (JObj ((acc @ [(k, v)]) @ kvs), r)"
      using Cons.IH Cons.prems(1,4) n(3) kv by auto
    then show ?thesis using stop_past [of "[]" 44] by (simp add: Cons written past)
  qed
qed simp

lemma js_words: "js ''[]'' = [91, 93]" "js ''{}'' = [123, 125]" "js ''true'' = [116, 114, 117, 101]" "js ''false'' = [102, 97, 108, 115, 101]" "js ''null'' = [110, 117, 108, 108]"
  by (simp_all add: js_def)

lemma parse_word_num: "r = [] \<or> \<not> is_digit (hd r) \<Longrightarrow> parse_word (dec_int n @ r) = Some (JNum n, r)"
proof -
  assume r: "r = [] \<or> \<not> is_digit (hd r)"
  obtain c cs where c: "dec_int n = c # cs" "c \<noteq> 116" "c \<noteq> 102" "c \<noteq> 110"
    using dec_nat_first [of "nat n"] by (cases "n < 0") (auto simp: dec_int_def)
  then show ?thesis using parse_num_written [OF r, of n] by (simp add: parse_word_def starts_with_def js_words)
qed

lemma parse_value_num:
  assumes "r = [] \<or> \<not> is_digit (hd r)"
  shows "parse_value (Suc n) (dec_int i @ r) = Some (JNum i, r)"
proof -
  obtain c cs where c: "dec_int i = c # cs" "c = 45 \<or> 48 \<le> c \<and> c \<le> 57"
    using dec_nat_first [of "nat i"] by (cases "i < 0") (auto simp: dec_int_def)
  then have "\<not> json_ws c" "c \<noteq> 34" "c \<noteq> 91" "c \<noteq> 123" by (auto simp: json_ws_def)
  then show ?thesis using parse_word_num [OF assms, of i] c(1) by (simp add: skip_ws_stop)
qed

text \<open>The first character of a value's text is no white space and doesn't close a list.\<close>

definition opens :: "jstr \<Rightarrow> bool" where
  "opens t = (\<exists>c cs. t = c # cs \<and> \<not> json_ws c \<and> c \<noteq> 93)"

lemma dec_int_opens: "opens (dec_int i)"
  using dec_nat_first [of "nat i"] by (cases "i < 0") (auto simp: dec_int_def json_ws_def opens_def)

lemma pretty_opens: "opens (json_pretty d v)"
  by (cases v) (simp_all add: dec_int_opens, auto simp: js_words json_quote_def json_ws_def opens_def)

lemma stringify_opens: "opens (json_stringify v)"
  by (cases v) (simp_all add: dec_int_opens, auto simp: js_def json_quote_def json_ws_def opens_def)

lemma array_read:
  assumes "\<And>v. v \<in> set vs \<Longrightarrow> reads_back w v" "vs \<noteq> []" "json_need (JArr vs) \<le> n" "\<And>v. opens (w v)"
    and ws: "blank z" "blank a" "blank b" "blank c"
  shows "parse_value n (91 # z @ join (44 # a) (map (\<lambda>v. b @ w v) vs) @ c @ 93 # r) = Some (JArr vs, r)"
proof -
  obtain m where m: "n = Suc m" "sum_list (map (\<lambda>v. Suc (json_need v)) vs) \<le> m" using assms(3) by (cases n) auto
  obtain v vs1 where vs: "vs = v # vs1" using assms(2) by (cases vs) auto
  obtain x xs where x: "w v = x # xs" "\<not> json_ws x" "x \<noteq> 93" using assms(4) [of v] by (auto simp: opens_def)
  have "parse_elems m [] (z @ join (44 # a) (map (\<lambda>v. b @ w v) vs) @ c @ 93 # r) = Some (JArr vs, r)"
    using parse_elems_written [OF assms(1,2) m(2) ws(2-4), of "[]" r] ws by (simp add: parse_past)
  moreover have "then_char 93 (skip_ws (z @ join (44 # a) (map (\<lambda>v. b @ w v) vs) @ c @ 93 # r)) = None"
    using ws x by (cases vs1) (simp_all add: vs skip_blank then_char_def skip_ws_stop)
  ultimately show ?thesis by (simp add: m(1))
qed

lemma object_read:
  assumes "\<And>kv. kv \<in> set kvs \<Longrightarrow> reads_back w (snd kv)" "kvs \<noteq> []" "json_need (JObj kvs) \<le> n" "distinct (map fst kvs)"
    and ws: "blank z" "blank a" "blank b" "blank c" "blank e"
  shows "parse_value n (123 # z @ join (44 # a) (map (\<lambda>kv. b @ json_quote (fst kv) @ 58 # e @ w (snd kv)) kvs) @ c @ 125 # r) = Some (JObj kvs, r)"
proof -
  obtain m where m: "n = Suc m" "sum_list (map (\<lambda>kv. Suc (json_need (snd kv))) kvs) \<le> m" using assms(3) by (cases n) auto
  obtain kv kvs1 where kvs: "kvs = kv # kvs1" using assms(2) by (cases kvs) auto
  have "parse_members m [] (z @ join (44 # a) (map (\<lambda>kv. b @ json_quote (fst kv) @ 58 # e @ w (snd kv)) kvs) @ c @ 125 # r) = Some (JObj kvs, r)"
    using parse_members_written [OF assms(1,2) m(2) _ ws(2-5), of "[]" r] assms(4) ws by (simp add: parse_past)
  moreover have "then_char 125 (skip_ws (z @ join (44 # a) (map (\<lambda>kv. b @ json_quote (fst kv) @ 58 # e @ w (snd kv)) kvs) @ c @ 125 # r)) = None"
    using ws by (cases kvs1) (simp_all add: kvs skip_blank then_char_def json_quote_def)
  ultimately show ?thesis by (simp add: m(1))
qed

lemma atoms_read:
  assumes "stop r"
  shows "parse_value (Suc n) (js ''null'' @ r) = Some (JNull, r)" "parse_value (Suc n) (js ''true'' @ r) = Some (JBool True, r)" "parse_value (Suc n) (js ''false'' @ r) = Some (JBool False, r)"
    "parse_value (Suc n) (dec_int i @ r) = Some (JNum i, r)" "parse_value (Suc n) (json_quote t @ r) = Some (JStr t, r)"
    "parse_value (Suc n) (js ''[]'' @ r) = Some (JArr [], r)" "parse_value (Suc n) (js ''{}'' @ r) = Some (JObj [], r)"
    "parse_value (Suc n) (91 # 93 # r) = Some (JArr [], r)" "parse_value (Suc n) (123 # 125 # r) = Some (JObj [], r)"
  using parse_value_num [of r n i] assms
  by (simp_all add: stop_def js_words parse_word_def starts_with_def skip_ws_stop json_ws_def json_quote_def parse_str_quoted then_char_def)

lemma read_pretty: "json_ok j \<Longrightarrow> reads_back (json_pretty d) j"
proof (induction j arbitrary: d rule: json_ok.induct)
  case (1 vs)
  have "parse_value n (json_pretty d (JArr vs) @ r) = Some (JArr vs, r)" if "json_need (JArr vs) \<le> n" "stop r" for n r
  proof (cases "vs = []")
    case False
    show ?thesis using array_read [of vs "json_pretty (d + 2)" n "[10]" "[10]" "spaces (d + 2)" "10 # spaces d" r] 1 that(1) False pretty_opens
      by (simp add: list_all_iff)
  qed (use that in \<open>auto simp: atoms_read simp del: parse_value.simps dest!: Suc_le_D\<close>)
  then show ?case by (simp add: reads_back_def)
next
  case (2 kvs)
  have "parse_value n (json_pretty d (JObj kvs) @ r) = Some (JObj kvs, r)" if "json_need (JObj kvs) \<le> n" "stop r" for n r
  proof (cases "kvs = []")
    case False
    show ?thesis using object_read [of kvs "json_pretty (d + 2)" n "[10]" "[10]" "spaces (d + 2)" "10 # spaces d" "[32]" r] 2 that(1) False
      by (simp add: list_all_iff)
  qed (use that in \<open>auto simp: atoms_read simp del: parse_value.simps dest!: Suc_le_D\<close>)
  then show ?case by (simp add: reads_back_def)
qed (auto simp: reads_back_def atoms_read simp del: parse_value.simps dest!: Suc_le_D)

lemma read_compact: "json_ok j \<Longrightarrow> reads_back json_stringify j"
proof (induction j rule: json_ok.induct)
  case (1 vs)
  have "parse_value n (json_stringify (JArr vs) @ r) = Some (JArr vs, r)" if "json_need (JArr vs) \<le> n" "stop r" for n r
  proof (cases "vs = []")
    case False
    show ?thesis using array_read [of vs json_stringify n "[]" "[]" "[]" "[]" r] 1 that(1) False stringify_opens
      by (simp add: list_all_iff js_def)
  qed (use that in \<open>auto simp: js_def atoms_read simp del: parse_value.simps dest!: Suc_le_D\<close>)
  then show ?case by (simp add: reads_back_def)
next
  case (2 kvs)
  have "parse_value n (json_stringify (JObj kvs) @ r) = Some (JObj kvs, r)" if "json_need (JObj kvs) \<le> n" "stop r" for n r
  proof (cases "kvs = []")
    case False
    show ?thesis using object_read [of kvs json_stringify n "[]" "[]" "[]" "[]" "[]" r] 2 that(1) False
      by (simp add: list_all_iff js_def)
  qed (use that in \<open>auto simp: js_def atoms_read simp del: parse_value.simps dest!: Suc_le_D\<close>)
  then show ?case by (simp add: reads_back_def)
qed (auto simp: reads_back_def atoms_read simp del: parse_value.simps dest!: Suc_le_D)

lemma sum_join: "sum_list (map (\<lambda>x. Suc (f x)) xs) \<le> Suc (length (join sep (map g xs)))"
  if "\<And>x. x \<in> set xs \<Longrightarrow> f x \<le> length (g x)" "sep \<noteq> []"
  using that
proof (induction xs)
  case (Cons x xs)
  then have "sum_list (map (\<lambda>x. Suc (f x)) xs) \<le> Suc (length (join sep (map g xs)))" "f x \<le> length (g x)" "1 \<le> length sep"
    by (auto simp: Suc_le_eq)
  then show ?case by (cases xs) simp_all
qed simp

lemma need_within: "json_need j \<le> length (json_pretty d j)"
proof (induction j arbitrary: d rule: json_need.induct)
  case (1 vs)
  then have "sum_list (map (\<lambda>v. Suc (json_need v)) vs) \<le> Suc (length (join [44, 10] (map (\<lambda>v. spaces (d + 2) @ json_pretty (d + 2) v) vs)))"
    by (intro sum_join) (simp_all add: trans_le_add2)
  then show ?case by (simp add: js_words)
next
  case (2 kvs)
  then have "sum_list (map (\<lambda>kv. Suc (json_need (snd kv))) kvs)
      \<le> Suc (length (join [44, 10] (map (\<lambda>kv. spaces (d + 2) @ json_quote (fst kv) @ [58, 32] @ json_pretty (d + 2) (snd kv)) kvs)))"
    by (intro sum_join) (auto intro!: le_SucI trans_le_add2)
  then show ?case by (simp add: js_words)
next
  case (5 i)
  then show ?case using dec_nat_first [of "nat i"] by (cases "i < 0") (auto simp: dec_int_def)
qed (simp_all add: js_words json_quote_def)

lemma json_parse_pretty: "json_ok j \<Longrightarrow> json_parse (json_pretty d j) = Some j"
  using reads_backD [OF read_pretty, of j "Suc (length (json_pretty d j))" "[]" d] need_within [of j d]
  by (simp add: json_parse_def skip_ws_def stop_def)

lemma need_within_compact: "json_need j \<le> length (json_stringify j)"
proof (induction j rule: json_need.induct)
  case (1 vs)
  then have "sum_list (map (\<lambda>v. Suc (json_need v)) vs) \<le> Suc (length (join (js '','') (map json_stringify vs)))"
    by (intro sum_join) simp_all
  then show ?case by (simp add: js_def)
next
  case (2 kvs)
  then have "sum_list (map (\<lambda>kv. Suc (json_need (snd kv))) kvs)
      \<le> Suc (length (join (js '','') (map (\<lambda>kv. json_quote (fst kv) @ js '':'' @ json_stringify (snd kv)) kvs)))"
    by (intro sum_join) (auto intro!: le_SucI trans_le_add2)
  then show ?case by (simp add: js_def)
next
  case (5 i)
  then show ?case using dec_nat_first [of "nat i"] by (cases "i < 0") (auto simp: dec_int_def)
qed (simp_all add: js_words json_quote_def)

lemma json_parse_stringify: "json_ok j \<Longrightarrow> json_parse (json_stringify j) = Some j"
  using reads_backD [OF read_compact, of j "Suc (length (json_stringify j))" "[]"] need_within_compact [of j]
  by (simp add: json_parse_def skip_ws_def stop_def)

lemma trim_bounded: "s \<noteq> [] \<Longrightarrow> \<not> js_space (hd s) \<Longrightarrow> \<not> js_space (last s) \<Longrightarrow> trim s = s"
proof -
  assume "s \<noteq> []" "\<not> js_space (hd s)" "\<not> js_space (last s)"
  then have "dropWhile js_space s = s" "dropWhile js_space (rev s) = rev s"
    by (simp_all add: dropWhile_eq_self_iff hd_rev)
  then show ?thesis by (simp add: trim_def trim_start_def trim_end_def)
qed

lemma trim_pretty: "trim (json_pretty d (JObj kvs)) = json_pretty d (JObj kvs)" "trim (json_pretty d (JArr vs)) = json_pretty d (JArr vs)"
  by (rule trim_bounded; simp add: js_words js_space_def)+

end
