(* ===== verification/Commands.thy ===== *)
theory Commands
  imports JsonText Base64
begin

text \<open>
  The CLI's phone commands: the HTTP client of a phone (\<open>cli/src/client.ts\<close>) and the verbs of \<open>otacon\<close>
  (\<open>cli/src/commands/otacon/\<close>), which the CLI and the agents' sandbox share. A command is a function of
  its arguments to a \<open>plan\<close>: it throws, or it makes one request and says what it makes of the answer. Files
  of the machine it runs on that it reads or writes are in its plan. The trace directory
  (\<open>OTACON_TRACE_DIR\<close>, \<open>_trace.ts\<close>) is left out: the sandbox runs commands without it. Numbers from the phone
  are integers.
\<close>

section \<open>JavaScript\<close>

text \<open>\<open>parseInt\<close>, with or without a radix of ten (\<open>None\<close> is \<open>NaN\<close>).\<close>

fun hex_run :: "jstr \<Rightarrow> nat list" where
  "hex_run [] = []"
| "hex_run (c # cs) = (case hex_value c of None \<Rightarrow> [] | Some v \<Rightarrow> v # hex_run cs)"

definition parse_digits :: "bool \<Rightarrow> jstr \<Rightarrow> int option" where
  "parse_digits hex s =
     (if hex \<and> (starts_with (js ''0x'') s \<or> starts_with (js ''0X'') s)
      then (let vs = hex_run (drop 2 s) in if vs = [] then None else Some (int (foldl (\<lambda>a v. 16 * a + v) 0 vs)))
      else (let ds = takeWhile is_digit s in if ds = [] then None else Some (int (digits_value ds))))"

definition parse_int :: "bool \<Rightarrow> jstr \<Rightarrow> int option" where
  "parse_int hex s = (let t = trim_start s
     in (case t of [] \<Rightarrow> None
         | c # r \<Rightarrow> if c = 45 then map_option uminus (parse_digits hex r) else if c = 43 then parse_digits hex r else parse_digits hex t))"

definition arg_at :: "jstr list \<Rightarrow> nat \<Rightarrow> jstr option" where
  "arg_at args i = (if i < length args then Some (args ! i) else None)"

definition arg_int :: "jstr list \<Rightarrow> nat \<Rightarrow> int option" where
  "arg_int args i = (case arg_at args i of None \<Rightarrow> None | Some s \<Rightarrow> parse_int True s)"

text \<open>A truthy argument, \<open>NaN\<close> as JSON and as text, \<open>padEnd\<close>.\<close>

definition given :: "jstr list \<Rightarrow> nat \<Rightarrow> jstr option" where
  "given args i = (case arg_at args i of Some s \<Rightarrow> if s = [] then None else Some s | None \<Rightarrow> None)"

definition json_int :: "int option \<Rightarrow> json" where
  "json_int n = (case n of None \<Rightarrow> JNull | Some i \<Rightarrow> JNum i)"

definition int_text :: "int option \<Rightarrow> jstr" where
  "int_text n = (case n of None \<Rightarrow> js ''NaN'' | Some i \<Rightarrow> dec_int i)"

definition pad_end :: "nat \<Rightarrow> jstr \<Rightarrow> jstr" where
  "pad_end n s = s @ spaces (n - length s)"

definition join_args :: "jstr list \<Rightarrow> jstr" where
  "join_args args = join (js '' '') args"

text \<open>\<open>encodeURIComponent\<close>; \<open>None\<close>: half a surrogate pair, it throws.\<close>

definition uri_plain :: "nat \<Rightarrow> bool" where
  "uri_plain c = (is_digit c \<or> is_lower c \<or> is_upper c \<or> c \<in> {45, 95, 46, 33, 126, 42, 39, 40, 41})"

definition percent :: "byte \<Rightarrow> jstr" where
  "percent b = (let n = unat b; h = (\<lambda>d. if d < 10 then 48 + d else 55 + d) in [37, h (n div 16), h (n mod 16)])"

fun encodeURIComponent :: "jstr \<Rightarrow> jstr option" where
  "encodeURIComponent [] = Some []"
| "encodeURIComponent (c # cs) =
     (if uri_plain c then map_option ((@) [c]) (encodeURIComponent cs)
      else if 55296 \<le> c \<and> c < 57344
        then (case cs of [] \<Rightarrow> None
            | d # ds \<Rightarrow> if c < 56320 \<and> 56320 \<le> d \<and> d < 57344
                then map_option ((@) (concat (map percent (utf8_bytes [c, d])))) (encodeURIComponent ds) else None)
      else map_option ((@) (concat (map percent (utf8_bytes [c])))) (encodeURIComponent cs))"

section \<open>The client\<close>

datatype request_verb = GET | POST | PUT | DELETE

datatype request_body = No_body | Json_body json | Octets "nat list"

record phone_request =
  hq_verb :: request_verb
  hq_url :: jstr
  hq_body :: request_body

text \<open>What \<open>fetch\<close> gives: a network error, or an answer. Its body reads as JSON, or the parser throws.\<close>

record phone_answer =
  ha_status :: nat
  ha_json :: "jstr + json"
  ha_text :: jstr
  ha_bytes :: "nat list"

datatype fetched = Unreachable jstr | Answer phone_answer

definition ha_ok :: "phone_answer \<Rightarrow> bool" where
  "ha_ok a = (200 \<le> ha_status a \<and> ha_status a < 300)"

definition http_status :: "phone_answer \<Rightarrow> jstr" where
  "http_status a = js ''HTTP '' @ dec_nat (ha_status a)"

text \<open>\<open>json?.k || d\<close> as text.\<close>

definition or_text :: "json option \<Rightarrow> jstr \<Rightarrow> jstr" where
  "or_text v d = (if truthy v then js_string_opt v else d)"

definition throwOnError :: "phone_answer \<Rightarrow> jstr option" where
  "throwOnError a = (if ha_ok a then None
     else Some (case ha_json a of
         Inr JNull \<Rightarrow> js ''Cannot read properties of null (reading '' @ [39] @ js ''error'' @ [39] @ js '')''
       | Inr j \<Rightarrow> or_text (json_get j (js ''error'')) (http_status a)
       | Inl _ \<Rightarrow> http_status a))"

text \<open>The three ways the client reads an answer: only errors, JSON (with either error text), and calls.\<close>

definition want_done :: "fetched \<Rightarrow> jstr option" where
  "want_done f = (case f of Unreachable m \<Rightarrow> Some m | Answer a \<Rightarrow> throwOnError a)"

definition want :: "(phone_answer \<Rightarrow> jstr + 'a) \<Rightarrow> fetched \<Rightarrow> jstr + 'a" where
  "want rd f = (case f of Unreachable m \<Rightarrow> Inl m | Answer a \<Rightarrow> if ha_ok a then rd a else Inl (http_status a))"

definition want_checked :: "(phone_answer \<Rightarrow> jstr + 'a) \<Rightarrow> fetched \<Rightarrow> jstr + 'a" where
  "want_checked rd f = (case f of Unreachable m \<Rightarrow> Inl m | Answer a \<Rightarrow> (case throwOnError a of Some m \<Rightarrow> Inl m | None \<Rightarrow> rd a))"

definition call_error :: "phone_answer \<Rightarrow> jstr" where
  "call_error a = (let j = (case ha_json a of Inr j \<Rightarrow> j | Inl _ \<Rightarrow> JNull);
       code = or_text (json_get j (js ''error'')) (http_status a);
       message = or_text (json_get j (js ''message'')) []
     in if message \<noteq> [] then code @ js '': '' @ message else code)"

definition callCommand :: "fetched \<Rightarrow> jstr + json" where
  "callCommand f = (case f of Unreachable m \<Rightarrow> Inl m
     | Answer a \<Rightarrow> if \<not> ha_ok a then Inl (call_error a)
         else Inr (case ha_json a of Inr JNull \<Rightarrow> JObj [(js ''ok'', JBool True)] | Inr j \<Rightarrow> j | Inl _ \<Rightarrow> JObj [(js ''ok'', JBool True)]))"

definition callStatus :: "fetched \<Rightarrow> jstr + json" where
  "callStatus f = (case f of Unreachable m \<Rightarrow> Inl m | Answer a \<Rightarrow> if \<not> ha_ok a then Inl (call_error a) else ha_json a)"

definition get_request :: "jstr \<Rightarrow> phone_request" where
  "get_request url = \<lparr>hq_verb = GET, hq_url = url, hq_body = No_body\<rparr>"

definition json_request :: "request_verb \<Rightarrow> jstr \<Rightarrow> json \<Rightarrow> phone_request" where
  "json_request m url b = \<lparr>hq_verb = m, hq_url = url, hq_body = Json_body b\<rparr>"

definition action_request :: "(jstr \<times> json) list \<Rightarrow> phone_request" where
  "action_request params = json_request POST (js ''/api/action'') (JObj params)"

definition call_op_request :: "jstr \<Rightarrow> (jstr \<times> json) list \<Rightarrow> phone_request" where
  "call_op_request op params = \<lparr>hq_verb = POST, hq_url = js ''/api/calls/'' @ op, hq_body = (if params = [] then No_body else Json_body (JObj params))\<rparr>"

section \<open>Commands\<close>

record command_spec =
  cs_name :: jstr
  cs_description :: jstr
  cs_usage :: jstr
  cs_examples :: "jstr list"
  cs_isMutating :: bool

definition spec_tap :: command_spec where
  "spec_tap = \<lparr>cs_name = js ''tap'', cs_description = js ''Tap at coordinates or an element ref.'',
     cs_usage = js ''otacon tap <x> <y> | otacon tap <ref>'',
     cs_examples = [js ''otacon tap 540 1200'',
       js ''otacon tap e5''], cs_isMutating = True\<rparr>"

definition spec_long_tap :: command_spec where
  "spec_long_tap = \<lparr>cs_name = js ''long-tap'', cs_description = js ''Long-tap (press and hold) at coordinates or an element ref.'',
     cs_usage = js ''otacon long-tap <x> <y> | otacon long-tap <ref>'',
     cs_examples = [js ''otacon long-tap 540 1200'',
       js ''otacon long-tap e5''], cs_isMutating = True\<rparr>"

definition spec_swipe :: command_spec where
  "spec_swipe = \<lparr>cs_name = js ''swipe'', cs_description = js ''Swipe gesture from (x1,y1) to (x2,y2). Default duration 300ms.'',
     cs_usage = js ''otacon swipe <x1> <y1> <x2> <y2> [--duration ms] [--pause ms]'',
     cs_examples = [js ''otacon swipe 540 1800 540 600'',
       js ''otacon swipe 540 1200 540 800 --duration 400''], cs_isMutating = True\<rparr>"

definition spec_key :: command_spec where
  "spec_key = \<lparr>cs_name = js ''key'', cs_description = js ''Press a hardware/system key (BACK, HOME, ENTER, etc.) or keycode.'',
     cs_usage = js ''otacon key <name>'',
     cs_examples = [js ''otacon key BACK'',
       js ''otacon key HOME'',
       js ''otacon key ENTER''], cs_isMutating = True\<rparr>"

definition spec_type :: command_spec where
  "spec_type = \<lparr>cs_name = js ''type'', cs_description = js ''Type text via ADB input (ASCII only '' @ [8212] @ js '' use set-text for Unicode).'',
     cs_usage = js ''otacon type <text>'',
     cs_examples = [js ''otacon type '' @ [34] @ js ''hello world'' @ [34]], cs_isMutating = True\<rparr>"

definition spec_set_text :: command_spec where
  "spec_set_text = \<lparr>cs_name = js ''set-text'', cs_description = js ''Set text on a focused element (supports Unicode).'',
     cs_usage = js ''otacon set-text <ref> <text>'',
     cs_examples = [js ''otacon set-text e5 '' @ [34] @ js ''ni hao'' @ [34]], cs_isMutating = True\<rparr>"

definition spec_scroll :: command_spec where
  "spec_scroll = \<lparr>cs_name = js ''scroll'', cs_description = js ''Scroll a scrollable element. Default direction is forward (down).'',
     cs_usage = js ''otacon scroll <ref> [--direction up|down]'',
     cs_examples = [js ''otacon scroll e3'',
       js ''otacon scroll e3 --direction up''], cs_isMutating = True\<rparr>"

definition spec_screenshot :: command_spec where
  "spec_screenshot = \<lparr>cs_name = js ''screenshot'', cs_description = js ''Capture the current screen as a PNG.'',
     cs_usage = js ''otacon screenshot [-o|--output path]'',
     cs_examples = [js ''otacon screenshot'',
       js ''otacon screenshot -o /tmp/now.png''], cs_isMutating = False\<rparr>"

definition spec_snapshot :: command_spec where
  "spec_snapshot = \<lparr>cs_name = js ''snapshot'', cs_description = js ''Get the accessibility tree of the current screen (text or JSON).'',
     cs_usage = js ''otacon snapshot [--json]'',
     cs_examples = [js ''otacon snapshot'',
       js ''otacon snapshot --json''], cs_isMutating = False\<rparr>"

definition spec_info :: command_spec where
  "spec_info = \<lparr>cs_name = js ''info'', cs_description = js ''Device and activity info (resolution, screen state, current app, battery, etc.).'',
     cs_usage = js ''otacon info [--json]'',
     cs_examples = [js ''otacon info'',
       js ''otacon info --json''], cs_isMutating = False\<rparr>"

definition spec_apps :: command_spec where
  "spec_apps = \<lparr>cs_name = js ''apps'', cs_description = js ''App control: list installed apps, list running apps, launch, stop, install. Subcommand defaults to `list`.'',
     cs_usage = js ''otacon apps [list | running | launch <pkg> | stop <pkg> | install <apk>]'',
     cs_examples = [js ''otacon apps'',
       js ''otacon apps running'',
       js ''otacon apps launch com.xingin.xhs'',
       js ''otacon apps stop com.xingin.xhs''], cs_isMutating = True\<rparr>"

definition spec_sms :: command_spec where
  "spec_sms = \<lparr>cs_name = js ''sms'', cs_description = js ''SMS: list threads, read messages in a thread, send a message.'',
     cs_usage = js ''otacon sms [list | read <thread_id> | send <to> <body>]'',
     cs_examples = [js ''otacon sms list'',
       js ''otacon sms read 12'',
       js ''otacon sms send +12135551212 '' @ [34] @ js ''hello'' @ [34]], cs_isMutating = True\<rparr>"

definition spec_call :: command_spec where
  "spec_call = \<lparr>cs_name = js ''call'', cs_description = js ''Voice calls: list calls, dial, answer, reject, hang up, hold/resume/swap/merge, send DTMF.'',
     cs_usage = js ''otacon call <status | dial <number> | answer [--call <id>] | reject [--call <id>] | hangup [--call <id>] | hold | resume | swap | merge | dtmf <digits>>'',
     cs_examples = [js ''otacon call status'',
       js ''otacon call dial +15550001111'',
       js ''otacon call answer'',
       js ''otacon call hangup --call call_7f3a9c'',
       js ''otacon call hold'',
       js ''otacon call merge'',
       js ''otacon call dtmf '' @ [39] @ js ''1234#'' @ [39]], cs_isMutating = True\<rparr>"

definition spec_clipboard :: command_spec where
  "spec_clipboard = \<lparr>cs_name = js ''clipboard'', cs_description = js ''Get or set the device clipboard.'',
     cs_usage = js ''otacon clipboard [get | set <text>]'',
     cs_examples = [js ''otacon clipboard get'',
       js ''otacon clipboard set '' @ [34] @ js ''hi'' @ [34]], cs_isMutating = True\<rparr>"

definition spec_contacts :: command_spec where
  "spec_contacts = \<lparr>cs_name = js ''contacts'', cs_description = js ''Search contacts by name or number (omit query for full list).'',
     cs_usage = js ''otacon contacts [query]'',
     cs_examples = [js ''otacon contacts'',
       js ''otacon contacts alex''], cs_isMutating = False\<rparr>"

definition spec_notifications :: command_spec where
  "spec_notifications = \<lparr>cs_name = js ''notifications'', cs_description = js ''List notifications, dismiss one, or trigger an action button.'',
     cs_usage = js ''otacon notifications [list | dismiss <key> | action <key> <index>]'',
     cs_examples = [js ''otacon notifications'',
       js ''otacon notifications dismiss 0|com.example|123|null'',
       js ''otacon notifications action 0|com.example|123|null 0''], cs_isMutating = True\<rparr>"

definition spec_open :: command_spec where
  "spec_open = \<lparr>cs_name = js ''open'', cs_description = js ''Open a URI with the registered app (https://, tel:, app deep links, etc.).'',
     cs_usage = js ''otacon open <uri>'',
     cs_examples = [js ''otacon open https://example.com'',
       js ''otacon open tel:+12135551212''], cs_isMutating = True\<rparr>"

definition spec_record :: command_spec where
  "spec_record = \<lparr>cs_name = js ''record'', cs_description = js ''Screen recording: start, stop (saves MP4), or check status.'',
     cs_usage = js ''otacon record <start [-d secs] | stop [-o path] | status>'',
     cs_examples = [js ''otacon record start -d 60'',
       js ''otacon record stop -o /tmp/clip.mp4'',
       js ''otacon record status''], cs_isMutating = True\<rparr>"

text \<open>What a command says, and the file it writes first; a plan.\<close>

datatype said = Says jstr | Saves jstr "nat list" jstr

datatype plan = Throws jstr | Asks phone_request "fetched \<Rightarrow> jstr + said"

definition usage_error :: "command_spec \<Rightarrow> plan" where
  "usage_error sp = Throws (js ''usage: '' @ cs_usage sp)"

definition then_say :: "(fetched \<Rightarrow> jstr option) \<Rightarrow> jstr \<Rightarrow> fetched \<Rightarrow> jstr + said" where
  "then_say w t f = (case w f of Some m \<Rightarrow> Inl m | None \<Rightarrow> Inr (Says t))"

definition say_of :: "(fetched \<Rightarrow> jstr + 'a) \<Rightarrow> ('a \<Rightarrow> jstr + said) \<Rightarrow> fetched \<Rightarrow> jstr + said" where
  "say_of w g f = (case w f of Inl m \<Rightarrow> Inl m | Inr x \<Rightarrow> g x)"

definition says_json :: "json \<Rightarrow> jstr + said" where
  "says_json j = Inr (Says (json_pretty 0 j))"

text \<open>\<open>/^e\d+$/\<close>\<close>

definition is_ref :: "jstr \<Rightarrow> bool" where
  "is_ref s = (case s of [] \<Rightarrow> False | c # cs \<Rightarrow> c = 101 \<and> cs \<noteq> [] \<and> list_all is_digit cs)"

text \<open>\<open>tap\<close> and \<open>long-tap\<close>\<close>

definition run_press :: "command_spec \<Rightarrow> jstr \<Rightarrow> jstr \<Rightarrow> jstr list \<Rightarrow> plan" where
  "run_press sp action past args =
     (let told = then_say want_done (past @ js '' '' @ join_args args)
      in if args = [] then usage_error sp
         else if length args = 1 \<and> is_ref (hd args) then Asks (action_request [(js ''action'', JStr action), (js ''ref'', JStr (hd args))]) told
         else if length args \<ge> 2 then (case (arg_int args 0, arg_int args 1) of
             (Some x, Some y) \<Rightarrow> Asks (action_request [(js ''action'', JStr action), (js ''x'', JNum x), (js ''y'', JNum y)]) told
           | _ \<Rightarrow> usage_error sp)
         else usage_error sp)"

fun swipe_opts :: "jstr list \<Rightarrow> int option \<Rightarrow> int option \<Rightarrow> int option \<times> int option" where
  "swipe_opts (a # b # rest) dur pause =
     (if a = js ''--duration'' \<and> b \<noteq> [] then swipe_opts rest (parse_int True b) pause
      else if a = js ''--pause'' \<and> b \<noteq> [] then swipe_opts rest dur (parse_int True b)
      else swipe_opts (b # rest) dur pause)"
| "swipe_opts _ dur pause = (dur, pause)"

definition run_swipe :: "jstr list \<Rightarrow> plan" where
  "run_swipe args = (if length args < 4 then usage_error spec_swipe
     else (case (arg_int args 0, arg_int args 1, arg_int args 2, arg_int args 3) of
         (Some a, Some b, Some c, Some d) \<Rightarrow>
           (case swipe_opts (drop 4 args) (Some 300) (Some 0) of (dur, pause) \<Rightarrow>
              Asks (action_request [(js ''action'', JStr (js ''swipe'')), (js ''x1'', JNum a), (js ''y1'', JNum b), (js ''x2'', JNum c), (js ''y2'', JNum d),
                  (js ''duration_ms'', json_int dur), (js ''pause_ms'', json_int pause)])
                (then_say want_done (js ''swiped '' @ join_args args)))
       | _ \<Rightarrow> usage_error spec_swipe))"

definition run_key :: "jstr list \<Rightarrow> plan" where
  "run_key args = (case given args 0 of None \<Rightarrow> usage_error spec_key
     | Some k \<Rightarrow> Asks (action_request [(js ''action'', JStr (js ''key'')), (js ''key'', JStr k)]) (then_say want_done (js ''sent key '' @ k)))"

definition run_type :: "jstr list \<Rightarrow> plan" where
  "run_type args = (let text = join_args args in if text = [] then usage_error spec_type
     else Asks (action_request [(js ''action'', JStr (js ''type'')), (js ''text'', JStr text)]) (then_say want_done (js ''typed '' @ [34] @ text @ [34])))"

definition run_set_text :: "jstr list \<Rightarrow> plan" where
  "run_set_text args = (case given args 0 of None \<Rightarrow> usage_error spec_set_text
     | Some ref \<Rightarrow> if tl args = [] then usage_error spec_set_text
         else (let text = join_args (tl args)
           in Asks (action_request [(js ''action'', JStr (js ''set_text'')), (js ''ref'', JStr ref), (js ''text'', JStr text)])
             (then_say want_done (js ''set text on '' @ ref @ js '': '' @ [34] @ text @ [34]))))"

fun scroll_opts :: "jstr list \<Rightarrow> jstr \<Rightarrow> jstr \<Rightarrow> jstr \<times> jstr" where
  "scroll_opts [] ref direction = (ref, direction)"
| "scroll_opts [a] ref direction = (if a = js ''--up'' then (ref, js ''up'') else if ref = [] then (a, direction) else (ref, direction))"
| "scroll_opts (a # b # rest) ref direction =
     (if a = js ''--direction'' \<and> b \<noteq> [] then scroll_opts rest ref b
      else if a = js ''--up'' then scroll_opts (b # rest) ref (js ''up'')
      else if ref = [] then scroll_opts (b # rest) a direction else scroll_opts (b # rest) ref direction)"

definition run_scroll :: "jstr list \<Rightarrow> plan" where
  "run_scroll args = (case scroll_opts args [] (js ''down'') of (ref, direction) \<Rightarrow>
     if ref = [] then usage_error spec_scroll
     else Asks (action_request [(js ''action'', JStr (if direction = js ''up'' then js ''scroll_backward'' else js ''scroll_forward'')), (js ''ref'', JStr ref)])
       (then_say want_done (js ''scrolled '' @ ref @ js '' '' @ direction)))"

text \<open>The path after the last \<open>-o\<close> that has one.\<close>

fun out_path :: "jstr list \<Rightarrow> jstr option \<Rightarrow> jstr option" where
  "out_path (a # b # rest) p = (if (a = js ''-o'' \<or> a = js ''--output'') \<and> b \<noteq> [] then out_path rest (Some b) else out_path (b # rest) p)"
| "out_path _ p = p"

definition run_screenshot :: "jstr list \<Rightarrow> plan" where
  "run_screenshot args = Asks (get_request (js ''/api/screenshot'')) (say_of (want (\<lambda>a. Inr (ha_bytes a))) (\<lambda>png.
     Inr (case out_path args None of
         Some p \<Rightarrow> Saves p png (js ''Saved to '' @ p)
       | None \<Rightarrow> Says (js ''[screenshot captured: '' @ dec_nat (length png) @ js '' bytes]''))))"

definition run_snapshot :: "jstr list \<Rightarrow> plan" where
  "run_snapshot args = (if js ''--json'' \<in> set args
     then Asks (get_request (js ''/api/snapshot?format=json'')) (say_of (want ha_json) says_json)
     else Asks (get_request (js ''/api/snapshot?format=text'')) (say_of (want (\<lambda>a. Inr (ha_text a))) (\<lambda>t. Inr (Says t))))"

text \<open>The text of \<open>info\<close>: a line for each field that isn't an object.\<close>

definition info_line :: "jstr \<times> json \<Rightarrow> jstr list" where
  "info_line kv = (case kv of (k, v) \<Rightarrow> (case v of
       JArr _ \<Rightarrow> []
     | JObj _ \<Rightarrow> []
     | JNull \<Rightarrow> [pad_end 20 k @ js '' -'']
     | _ \<Rightarrow> [pad_end 20 k @ [32] @ js_string v]))"

definition info_text :: "(jstr \<times> json) list \<Rightarrow> jstr" where
  "info_text kvs = join [10] (concat (map info_line kvs))"

text \<open>The host sends an object.\<close>

definition says_info :: "jstr list \<Rightarrow> json \<Rightarrow> jstr + said" where
  "says_info args d = (case d of
      JObj kvs \<Rightarrow> if js ''--json'' \<in> set args then says_json d
        else Inr (Says (info_text (if js ''--monitor'' \<in> set args then kvs else jm_delete (js ''monitor'') kvs)))
    | _ \<Rightarrow> if js ''--json'' \<in> set args then says_json d else Inl (js ''info is no object''))"

definition run_info :: "jstr list \<Rightarrow> plan" where
  "run_info args = Asks (get_request (js ''/api/info'')) (say_of (want ha_json) (says_info args))"

definition sub_or :: "jstr list \<Rightarrow> jstr \<Rightarrow> jstr" where
  "sub_or args d = (case arg_at args 0 of Some s \<Rightarrow> s | None \<Rightarrow> d)"

definition app_line :: "json \<Rightarrow> jstr" where
  "app_line a = js_string_opt (json_get a (js ''package'')) @ js '' ('' @ or_text (json_get a (js ''label'')) (js ''no label'') @ js '')''"

text \<open>The host sends a list of objects.\<close>

definition says_apps :: "json \<Rightarrow> jstr + said" where
  "says_apps j = (case j of JArr vs \<Rightarrow> Inr (Says (join [10] (map app_line vs))) | _ \<Rightarrow> Inl (js ''list.map is not a function''))"

definition run_apps :: "(jstr \<Rightarrow> jstr + nat list) \<Rightarrow> jstr list \<Rightarrow> plan" where
  "run_apps host args = (let sub = sub_or args (js ''list'') in
     if sub = js ''list'' then Asks (get_request (js ''/api/apps'')) (say_of (want ha_json) says_apps)
     else if sub = js ''running'' then Asks (get_request (js ''/api/apps/running'')) (say_of (want ha_json) says_json)
     else if sub = js ''launch'' then (case given args 1 of None \<Rightarrow> Throws (js ''usage: otacon apps launch <package>'')
       | Some p \<Rightarrow> Asks (json_request POST (js ''/api/apps/running'') (JObj [(js ''package'', JStr p)])) (then_say want_done (js ''launched '' @ p)))
     else if sub = js ''stop'' then (case given args 1 of None \<Rightarrow> Throws (js ''usage: otacon apps stop <package>'')
       | Some p \<Rightarrow> (case encodeURIComponent p of None \<Rightarrow> Throws (js ''URI malformed'')
         | Some e \<Rightarrow> Asks \<lparr>hq_verb = DELETE, hq_url = js ''/api/apps/running/'' @ e, hq_body = No_body\<rparr> (then_say want_done (js ''stopped '' @ p))))
     else if sub = js ''install'' then (case given args 1 of None \<Rightarrow> Throws (js ''usage: otacon apps install <apk>'')
       | Some p \<Rightarrow> (case host p of Inl m \<Rightarrow> Throws m
         | Inr bytes \<Rightarrow> Asks \<lparr>hq_verb = POST, hq_url = js ''/api/apps/install'', hq_body = Octets bytes\<rparr> (then_say want_done (js ''installed '' @ p))))
     else Throws (js ''unknown apps subcommand: '' @ sub))"

definition run_sms :: "jstr list \<Rightarrow> plan" where
  "run_sms args = (let sub = sub_or args (js ''list'') in
     if sub = js ''list'' then Asks (get_request (js ''/api/sms/threads'')) (say_of (want ha_json) says_json)
     else if sub = js ''read'' \<or> sub = js ''messages'' then (case arg_int args 1 of None \<Rightarrow> Throws (js ''usage: otacon sms read <thread_id>'')
       | Some i \<Rightarrow> Asks (get_request (js ''/api/sms/threads/'' @ dec_int i @ js ''/messages'')) (say_of (want ha_json) says_json))
     else if sub = js ''send'' then (let body = join_args (drop 2 args) in (case given args 1 of
         Some to \<Rightarrow> if body = [] then Throws (js ''usage: otacon sms send <to> <body>'')
           else Asks (json_request POST (js ''/api/sms/messages'') (JObj [(js ''to'', JStr to), (js ''body'', JStr body)])) (then_say want_done (js ''sent SMS to '' @ to))
       | None \<Rightarrow> Throws (js ''usage: otacon sms send <to> <body>'')))
     else Throws (js ''unknown sms subcommand: '' @ sub))"

definition cell :: "json \<Rightarrow> jstr \<Rightarrow> jstr" where
  "cell c k = js_string_opt (json_get c k)"

definition call_row :: "json \<Rightarrow> jstr list" where
  "call_row c = [cell c (js ''id''), js_string_opt (nullish_or (json_get c (js ''number'')) (Some (JStr (js ''-'')))),
     cell c (js ''direction''), cell c (js ''state''), if truthy (json_get c (js ''conference'')) then js ''yes'' else js ''no'']"

definition call_header :: "jstr list" where
  "call_header = [js ''ID'', js ''NUMBER'', js ''DIRECTION'', js ''STATE'', js ''CONFERENCE'']"

definition table_row :: "nat list \<Rightarrow> jstr list \<Rightarrow> jstr" where
  "table_row widths r = trim_end (join (js ''  '') (map2 pad_end widths r))"

definition formatCalls :: "json list \<Rightarrow> jstr" where
  "formatCalls calls = (if calls = [] then js ''(no calls)''
     else (let rows = map call_row calls;
               widths = map (\<lambda>i. foldl max (length (call_header ! i)) (map (\<lambda>r. length (r ! i)) rows)) [0..<5]
           in join [10] (map (table_row widths) (call_header # rows))))"

definition describeCall :: "json option \<Rightarrow> jstr" where
  "describeCall c = (case c of Some (JObj kvs) \<Rightarrow> [32] @ cell (JObj kvs) (js ''id'') @
       (if truthy (json_get (JObj kvs) (js ''number'')) then js '' ('' @ cell (JObj kvs) (js ''number'') @ js '')'' else [])
     | _ \<Rightarrow> [])"

definition fallbackNote :: "json \<Rightarrow> jstr" where
  "fallbackNote r = (if truthy (json_get r (js ''fallback''))
     then js '' [via '' @ cell r (js ''fallback'') @ js '' fallback: Bluetooth control link is down]'' else [])"

fun callFlag :: "jstr list \<Rightarrow> jstr + (jstr \<times> json) list" where
  "callFlag [] = Inr []"
| "callFlag (a # rest) =
     (if a = js ''--call'' then (case given rest 0 of
          None \<Rightarrow> Inl (js ''--call needs a call id (see `otacon call status`)'') | Some i \<Rightarrow> Inr [(js ''call'', JStr i)])
      else if starts_with (js ''--call='') a then Inr (if drop 7 a = [] then [] else [(js ''call'', JStr (drop 7 a))])
      else callFlag rest)"

definition one_call :: "jstr list \<Rightarrow> jstr \<Rightarrow> jstr \<Rightarrow> plan" where
  "one_call args op past = (case callFlag (tl args) of Inl m \<Rightarrow> Throws m
     | Inr params \<Rightarrow> Asks (call_op_request op params)
         (say_of callCommand (\<lambda>r. Inr (Says (past @ describeCall (json_get r (js ''call'')) @ fallbackNote r)))))"

definition all_calls :: "jstr \<Rightarrow> jstr \<Rightarrow> plan" where
  "all_calls op past = Asks (call_op_request op []) (say_of callCommand (\<lambda>r. Inr (Says (case json_get r (js ''calls'') of
      Some (JArr cs) \<Rightarrow> past @ [10] @ formatCalls cs | _ \<Rightarrow> past))))"

definition run_call :: "jstr list \<Rightarrow> plan" where
  "run_call args = (case args of [] \<Rightarrow> Asks (get_request (js ''/api/calls/status'')) (say_of callStatus says_json)
     | sub # _ \<Rightarrow>
       if sub = js ''status'' then Asks (get_request (js ''/api/calls/status'')) (say_of callStatus says_json)
       else if sub = js ''dial'' then (case given args 1 of None \<Rightarrow> Throws (js ''usage: otacon call dial <number>'')
         | Some to \<Rightarrow> Asks (call_op_request (js ''dial'') [(js ''to'', JStr to)]) (say_of callCommand (\<lambda>r. Inr (Says (js ''dialing '' @ to @
             (case json_get r (js ''call'') of Some (JObj kvs) \<Rightarrow> js '' (call '' @ cell (JObj kvs) (js ''id'') @ js '')'' | _ \<Rightarrow> []) @ fallbackNote r)))))
       else if sub = js ''answer'' then one_call args (js ''answer'') (js ''answered'')
       else if sub = js ''reject'' then one_call args (js ''reject'') (js ''rejected'')
       else if sub = js ''hangup'' then one_call args (js ''hangup'') (js ''hung up'')
       else if sub = js ''hold'' then all_calls (js ''hold'') (js ''on hold'')
       else if sub = js ''resume'' then all_calls (js ''resume'') (js ''resumed'')
       else if sub = js ''swap'' then all_calls (js ''swap'') (js ''swapped'')
       else if sub = js ''merge'' then all_calls (js ''merge'') (js ''merged'')
       else if sub = js ''dtmf'' then (case given args 1 of None \<Rightarrow> Throws (js ''usage: otacon call dtmf <digits>  (0-9 * # A-D; w = 500 ms pause)'')
         | Some ds \<Rightarrow> Asks (call_op_request (js ''dtmf'') [(js ''digits'', JStr ds)]) (say_of callCommand (\<lambda>r. Inr (Says (js ''sent DTMF '' @
             js_string_opt (nullish_or (json_get r (js ''digits'')) (Some (JStr ds))))))))
       else usage_error spec_call)"

text \<open>The host sends a text or \<open>null\<close>.\<close>

definition run_clipboard :: "jstr list \<Rightarrow> plan" where
  "run_clipboard args = (let sub = sub_or args (js ''get'') in
     if sub = js ''get'' then Asks (get_request (js ''/api/clipboard'')) (say_of (want_checked ha_json) (\<lambda>r.
       Inr (Says (js_string_opt (nullish_or (json_get r (js ''text'')) (Some (JStr (js ''(empty)''))))))))
     else if sub = js ''set'' then (let text = join_args (drop 1 args)
       in Asks (json_request PUT (js ''/api/clipboard'') (JObj [(js ''text'', JStr text)])) (then_say want_done (js ''clipboard set'')))
     else Throws (js ''usage: otacon clipboard <get|set>''))"

definition run_contacts :: "jstr list \<Rightarrow> plan" where
  "run_contacts args = (let q = join_args args in
     if q = [] then Asks (get_request (js ''/api/contacts'')) (say_of (want ha_json) says_json)
     else (case encodeURIComponent q of None \<Rightarrow> Throws (js ''URI malformed'')
       | Some e \<Rightarrow> Asks (get_request (js ''/api/contacts?q='' @ e)) (say_of (want ha_json) says_json)))"

definition run_notifications :: "jstr list \<Rightarrow> plan" where
  "run_notifications args = (let sub = sub_or args (js ''list'') in
     if sub = js ''list'' then Asks (get_request (js ''/api/notifications'')) (say_of (want ha_json) says_json)
     else if sub = js ''dismiss'' then (case given args 1 of None \<Rightarrow> Throws (js ''usage: otacon notifications dismiss <key>'')
       | Some k \<Rightarrow> (case encodeURIComponent k of None \<Rightarrow> Throws (js ''URI malformed'')
         | Some e \<Rightarrow> Asks \<lparr>hq_verb = DELETE, hq_url = js ''/api/notifications/'' @ e, hq_body = No_body\<rparr> (then_say want_done (js ''dismissed '' @ k))))
     else if sub = js ''action'' then (case (given args 1, arg_int args 2) of
         (Some k, Some i) \<Rightarrow> (case encodeURIComponent k of None \<Rightarrow> Throws (js ''URI malformed'')
           | Some e \<Rightarrow> Asks \<lparr>hq_verb = POST, hq_url = js ''/api/notifications/'' @ e @ js ''/action/'' @ dec_int i, hq_body = No_body\<rparr>
               (then_say want_done (js ''triggered action '' @ dec_int i @ js '' on '' @ k)))
       | _ \<Rightarrow> Throws (js ''usage: otacon notifications action <key> <index>''))
     else Throws (js ''usage: otacon notifications <list|dismiss|action>''))"

definition run_open :: "jstr list \<Rightarrow> plan" where
  "run_open args = (case given args 0 of None \<Rightarrow> usage_error spec_open
     | Some u \<Rightarrow> Asks (json_request POST (js ''/api/open'') (JObj [(js ''uri'', JStr u)])) (then_say want_done (js ''opened '' @ u)))"

fun record_duration :: "jstr list \<Rightarrow> int option \<Rightarrow> int option" where
  "record_duration (a # b # rest) d = (if (a = js ''-d'' \<or> a = js ''--duration'') \<and> b \<noteq> [] then record_duration rest (parse_int True b) else record_duration (b # rest) d)"
| "record_duration _ d = d"

definition run_record :: "jstr list \<Rightarrow> plan" where
  "run_record args = (case args of [] \<Rightarrow> Throws (js ''usage: otacon record <start|stop|status>'')
     | sub # rest \<Rightarrow>
       if sub = js ''start'' then (let d = record_duration rest (Some 30)
         in Asks (json_request POST (js ''/api/record/start'') (JObj [(js ''max_duration'', json_int d)]))
           (then_say want_done (js ''recording started (max '' @ int_text d @ js ''s)'')))
       else if sub = js ''stop'' then Asks \<lparr>hq_verb = POST, hq_url = js ''/api/record/stop'', hq_body = No_body\<rparr>
         (say_of (want_checked (\<lambda>a. Inr (ha_bytes a))) (\<lambda>buf. Inr (case out_path rest None of
             Some p \<Rightarrow> Saves p buf (js ''Saved to '' @ p)
           | None \<Rightarrow> Says (js ''[recording stopped: '' @ dec_nat (length buf) @ js '' bytes]''))))
       else if sub = js ''status'' then Asks (get_request (js ''/api/record/status'')) (say_of (want ha_json) says_json)
       else Throws (js ''usage: otacon record <start|stop|status>''))"

section \<open>The registry\<close>

definition command_specs :: "command_spec list" where
  "command_specs = [spec_tap, spec_long_tap, spec_swipe, spec_key, spec_type, spec_set_text, spec_scroll, spec_screenshot, spec_snapshot, spec_info,
     spec_apps, spec_sms, spec_call, spec_clipboard, spec_contacts, spec_notifications, spec_open, spec_record]"

definition command_table :: "(jstr \<Rightarrow> jstr + nat list) \<Rightarrow> (jstr \<times> (jstr list \<Rightarrow> plan)) list" where
  "command_table host =
     [(js ''tap'', run_press spec_tap (js ''tap'') (js ''tapped'')), (js ''long-tap'', run_press spec_long_tap (js ''long_tap'') (js ''long-tapped'')),
      (js ''swipe'', run_swipe), (js ''key'', run_key), (js ''type'', run_type), (js ''set-text'', run_set_text), (js ''scroll'', run_scroll),
      (js ''screenshot'', run_screenshot), (js ''snapshot'', run_snapshot), (js ''info'', run_info), (js ''apps'', run_apps host), (js ''sms'', run_sms),
      (js ''call'', run_call), (js ''clipboard'', run_clipboard), (js ''contacts'', run_contacts), (js ''notifications'', run_notifications),
      (js ''open'', run_open), (js ''record'', run_record)]"

end
