(* ===== verification/Sandbox.thy ===== *)
theory Sandbox
  imports Commands Approval Store
begin

text \<open>
  What an agent's shell can do with a phone (\<open>sandbox/build.ts\<close>): the \<open>otacon\<close> command with its screenshots,
  result file and \<open>phone_action\<close> event, the redaction of its output (\<open>sandbox/redact.ts\<close>), what is drawn on its
  screenshots (\<open>sandbox/annotate.ts\<close>), the texts of the agent's tools (\<open>tools/bash.ts\<close>, \<open>tools/file-ops.ts\<close>) and the
  system prompt (\<open>agents/build-prompt.ts\<close>). The shell itself (\<open>just-bash\<close>) and the image library are outside: \<open>draw\<close> is
  what the latter makes of a screenshot, or nothing when it throws. The phone is a parameter, a state and
  its answer to each request (\<open>'p \<Rightarrow> phone_request \<Rightarrow> fetched \<times> 'p\<close>); a screenshot is kept as its bytes.
\<close>

section \<open>Redaction\<close>

definition REDACTED_FIELDS :: "jstr list" where
  "REDACTED_FIELDS = [js ''adb_serial'', js ''phone_bt_mac'', js ''adapter_mac'', js ''imei'', js ''imei2'', js ''eid'', js ''vnc_port'']"

definition REDACTED :: jstr where
  "REDACTED = js ''[redacted]''"

text \<open>A key \<open>__proto__\<close> sets the copy's prototype and is no field of it.\<close>

fun walkRedact :: "json \<Rightarrow> json" where
  "walkRedact (JArr vs) = JArr (map walkRedact vs)"
| "walkRedact (JObj kvs) = JObj (map (\<lambda>kv. (fst kv, if fst kv \<in> set REDACTED_FIELDS then JStr REDACTED else walkRedact (snd kv)))
     (filter (\<lambda>kv. fst kv \<noteq> js ''__proto__'') kvs))"
| "walkRedact v = v"

text \<open>
  \<open>^(key\s+).+$\<close> at the start of a line: what is kept, and what follows the match. White space runs over line
  ends; at the end of the text the last of it that is no line end is what \<open>.+\<close> matches.
\<close>

fun last_visible :: "jstr \<Rightarrow> (jstr \<times> jstr) option" where
  "last_visible [] = None"
| "last_visible (c # cs) = (case last_visible cs of Some (a, b) \<Rightarrow> Some (c # a, b) | None \<Rightarrow> if line_end c then None else Some ([], cs))"

definition field_match :: "jstr \<Rightarrow> jstr \<Rightarrow> (jstr \<times> jstr) option" where
  "field_match key s = (case after key s of
      None \<Rightarrow> None
    | Some r \<Rightarrow> (let ws = takeWhile js_space r; t = dropWhile js_space r
        in if ws = [] then None
           else if t \<noteq> [] then Some (key @ ws, dropWhile (\<lambda>c. \<not> line_end c) t)
           else (case last_visible (tl ws) of None \<Rightarrow> None | Some (a, b) \<Rightarrow> Some (key @ hd ws # a, b))))"

lemma last_visible_shorter: "last_visible s = Some (a, b) \<Longrightarrow> length b < length s"
  by (induction s arbitrary: a) (auto split: option.splits if_splits)

lemma field_match_shorter: "field_match key s = Some (a, b) \<Longrightarrow> length b < length s"
proof -
  assume m: "field_match key s = Some (a, b)"
  then obtain r where r: "after key s = Some r" by (auto simp: field_match_def split: option.splits)
  then have "length r \<le> length s" by (auto simp: after_def split: if_splits)
  have "length b < length r"
  proof (cases "dropWhile js_space r = []")
    case True
    then obtain a1 where "takeWhile js_space r \<noteq> []" "last_visible (tl (takeWhile js_space r)) = Some (a1, b)"
      using m r by (auto simp: field_match_def Let_def split: if_splits option.splits)
    then show ?thesis
      using last_visible_shorter [of "tl (takeWhile js_space r)" a1 b] length_takeWhile_le [of js_space r]
      by simp
  next
    case False
    then have "takeWhile js_space r \<noteq> []" and b: "b = dropWhile (\<lambda>c. \<not> line_end c) (dropWhile js_space r)"
      using m r by (auto simp: field_match_def Let_def split: if_splits)
    then have "length (dropWhile js_space r) < length r"
      by (metis length_append length_greater_0_conv less_add_same_cancel2 takeWhile_dropWhile_id)
    then show ?thesis using b length_dropWhile_le [of "\<lambda>c. \<not> line_end c" "dropWhile js_space r"] by simp
  qed
  then show ?thesis using \<open>length r \<le> length s\<close> by simp
qed

text \<open>All matches replaced; \<open>at_start\<close>: a line begins here.\<close>

function redact_field :: "jstr \<Rightarrow> bool \<Rightarrow> jstr \<Rightarrow> jstr" where
  "redact_field key at_start s = (case (if at_start then field_match key s else None) of
      Some (kept, rest) \<Rightarrow> kept @ REDACTED @ redact_field key False rest
    | None \<Rightarrow> (case s of [] \<Rightarrow> [] | c # cs \<Rightarrow> c # redact_field key (line_end c) cs))"
  by pat_completeness auto
termination
  by (relation "measure (\<lambda>(key, st, s). length s)") (auto split: if_splits dest: field_match_shorter)

declare redact_field.simps [simp del]

definition redact_text :: "jstr \<Rightarrow> jstr" where
  "redact_text s = fold (\<lambda>key. redact_field key True) REDACTED_FIELDS s"

definition redactPhoneIdentifiers :: "jstr \<Rightarrow> jstr" where
  "redactPhoneIdentifiers out = (let t = trim out in
     if out = [] then [] else if starts_with (js ''{'') t \<or> starts_with (js ''['') t
     then (case json_parse t of Some j \<Rightarrow> json_pretty 0 (walkRedact j) | None \<Rightarrow> redact_text out)
     else redact_text out)"

section \<open>What is drawn on a screenshot\<close>

type_synonym rect = "int \<times> int \<times> int \<times> int"

datatype annotation = An_tap rect bool | An_coords int int bool | An_swipe int int int int | An_box rect jstr | An_text jstr | An_key jstr

definition finite_num :: "json option \<Rightarrow> int option" where
  "finite_num v = (case v of Some (JNum n) \<Rightarrow> Some n | _ \<Rightarrow> None)"

text \<open>\<open>a ?? ((b ?? 0) + (c ?? 0))\<close>\<close>

definition or_sum :: "json option \<Rightarrow> json option \<Rightarrow> json option \<Rightarrow> int option" where
  "or_sum a b c = (case nullish_or a None of
      Some v \<Rightarrow> finite_num (Some v)
    | None \<Rightarrow> (case (finite_num (nullish_or b (Some (JNum 0))), finite_num (nullish_or c (Some (JNum 0)))) of
        (Some x, Some y) \<Rightarrow> Some (x + y) | _ \<Rightarrow> None))"

definition normalizeBounds :: "json \<Rightarrow> rect option" where
  "normalizeBounds b = (let g = (\<lambda>k. json_get b k) in
     case (finite_num (g (js ''x1'')), finite_num (g (js ''x2'')), finite_num (g (js ''y1'')), finite_num (g (js ''y2''))) of
       (Some x1, Some x2, Some y1, Some y2) \<Rightarrow> Some (x1, y1, x2, y2)
     | _ \<Rightarrow> (case (finite_num (nullish_or (g (js ''left'')) (g (js ''x''))), finite_num (nullish_or (g (js ''top'')) (g (js ''y''))),
              or_sum (g (js ''right'')) (g (js ''x'')) (g (js ''width'')), or_sum (g (js ''bottom'')) (g (js ''y'')) (g (js ''height''))) of
            (Some x1, Some y1, Some x2, Some y2) \<Rightarrow> Some (x1, y1, x2, y2) | _ \<Rightarrow> None))"

definition node_is :: "jstr \<Rightarrow> json \<Rightarrow> bool" where
  "node_is ref n = (json_get n (js ''ref_id'') = Some (JStr ref) \<or> json_get n (js ''ref'') = Some (JStr ref))"

definition children_of :: "json \<Rightarrow> json list" where
  "children_of n = (case json_get n (js ''children'') of Some (JArr cs) \<Rightarrow> cs | _ \<Rightarrow> [])"

definition weight :: "json list \<Rightarrow> nat" where
  "weight vs = sum_list (map (\<lambda>v. Suc (json_need v)) vs)"

lemma weight_children: "weight (children_of n) < Suc (json_need n)"
proof (cases "\<exists>cs. json_get n (js ''children'') = Some (JArr cs)")
  case True
  then obtain kvs cs where n: "n = JObj kvs" and c: "jm_get kvs (js ''children'') = Some (JArr cs)" by (cases n) auto
  then have "(js ''children'', JArr cs) \<in> set kvs" by (simp add: jm_get_def map_of_SomeD)
  then have "Suc (json_need (JArr cs)) \<in> set (map (\<lambda>kv. Suc (json_need (snd kv))) kvs)" by (force simp del: json_need.simps simp: image_iff)
  from member_le_sum_list [OF this] have "weight cs < json_need (JObj kvs)" by (simp add: weight_def)
  then show ?thesis by (simp add: n c children_of_def)
next
  case False
  then have "children_of n = []" by (auto simp: children_of_def split: option.splits json.splits)
  then show ?thesis by (simp add: weight_def)
qed

lemma weight_rev_append [simp]: "weight (rev vs @ ws) = weight vs + weight ws"
  by (simp add: weight_def rev_map [symmetric] sum_list_rev)

text \<open>The search; the top of the stack is the head of the list.\<close>

function find_node :: "jstr \<Rightarrow> json list \<Rightarrow> json option" where
  "find_node ref [] = None"
| "find_node ref (n # st) = (if truthy (Some n) \<and> node_is ref n then Some n else find_node ref ((if truthy (Some n) then rev (children_of n) else []) @ st))"
  by pat_completeness auto
termination
proof (relation "measure (\<lambda>(ref, st). weight st)")
  fix ref n st
  show "((ref, (if truthy (Some n) then rev (children_of n) else []) @ st), ref, n # st) \<in> measure (\<lambda>(ref, st). weight st)"
    using weight_children [of n] weight_rev_append [of "children_of n" st] by (simp add: weight_def)
qed simp

definition findRef :: "json \<Rightarrow> jstr \<Rightarrow> json option" where
  "findRef tree ref = find_node ref (case tree of JArr vs \<Rightarrow> rev vs | _ \<Rightarrow> [tree])"

text \<open>The tree given, or else a new snapshot (\<open>None\<close> when it fails).\<close>

definition resolve_ref :: "json option \<Rightarrow> jstr \<Rightarrow> rect option" where
  "resolve_ref tree ref = (case tree of None \<Rightarrow> None
     | Some t \<Rightarrow> if \<not> truthy tree then None
         else (case findRef t ref of None \<Rightarrow> None
           | Some n \<Rightarrow> (case json_get n (js ''bounds'') of Some b \<Rightarrow> if truthy (Some b) then normalizeBounds b else None | None \<Rightarrow> None)))"

definition truncate_text :: "jstr \<Rightarrow> nat \<Rightarrow> jstr" where
  "truncate_text s n = (if length s \<le> n then s else take n s @ [8230])"

definition arg_ten :: "jstr list \<Rightarrow> nat \<Rightarrow> int option" where
  "arg_ten args i = (case arg_at args i of None \<Rightarrow> None | Some s \<Rightarrow> parse_int False s)"

text \<open>The options of \<open>scroll\<close> as the annotation reads them: it knows \<open>--down\<close>.\<close>

fun scroll_drawn :: "jstr list \<Rightarrow> jstr \<Rightarrow> jstr \<Rightarrow> jstr \<times> jstr" where
  "scroll_drawn [] ref dir = (ref, dir)"
| "scroll_drawn [a] ref dir = (if a = js ''--up'' then (ref, js ''up'') else if a = js ''--down'' then (ref, js ''down'') else if ref = [] then (a, dir) else (ref, dir))"
| "scroll_drawn (a # b # rest) ref dir =
     (if a = js ''--direction'' \<and> b \<noteq> [] then scroll_drawn rest ref b
      else if a = js ''--up'' then scroll_drawn (b # rest) ref (js ''up'')
      else if a = js ''--down'' then scroll_drawn (b # rest) ref (js ''down'')
      else if ref = [] then scroll_drawn (b # rest) a dir else scroll_drawn (b # rest) ref dir)"

definition scroll_swipe :: "rect \<Rightarrow> jstr \<Rightarrow> annotation" where
  "scroll_swipe r dir = (case r of (x1, y1, x2, y2) \<Rightarrow>
     (let cx = (x1 + x2) div 2; top = min y1 y2; bottom = max y1 y2; pad = (bottom - top) * 15 div 100; high = top + pad; low = bottom - pad
      in if dir = js ''down'' then An_swipe cx low cx high else An_swipe cx high cx low))"

definition labelled :: "jstr \<Rightarrow> jstr list \<Rightarrow> jstr" where
  "labelled verb args = verb @ js '': '' @ join_args args"

text \<open>\<open>tree\<close> is the snapshot a ref is looked up in, whichever snapshot that is.\<close>

definition inferAnnotation :: "jstr \<Rightarrow> jstr list \<Rightarrow> json option \<Rightarrow> annotation option" where
  "inferAnnotation verb args tree =
     (if verb = js ''tap'' \<or> verb = js ''long-tap'' then (let long = (verb = js ''long-tap'') in
        Some (case (arg_ten args 0, arg_ten args 1) of
            (Some x, Some y) \<Rightarrow> An_coords x y long
          | _ \<Rightarrow> (case (if args \<noteq> [] \<and> is_ref (hd args) then resolve_ref tree (hd args) else None) of
              Some r \<Rightarrow> An_tap r long | None \<Rightarrow> An_text (labelled verb args))))
      else if verb = js ''swipe'' then Some (case (arg_ten args 0, arg_ten args 1, arg_ten args 2, arg_ten args 3) of
          (Some a, Some b, Some c, Some d) \<Rightarrow> An_swipe a b c d | _ \<Rightarrow> An_text (labelled (js ''swipe'') args))
      else if verb = js ''set-text'' \<or> verb = js ''type'' then (let ref = sub_or args []; text = join_args (drop 1 args) in
        Some (case (if is_ref ref then resolve_ref tree ref else None) of
            Some r \<Rightarrow> An_box r (verb @ js '': '' @ truncate_text text 40)
          | None \<Rightarrow> An_text (verb @ js '' '' @ ref @ js '': '' @ truncate_text text 50)))
      else if verb = js ''scroll'' then (case scroll_drawn args [] (js ''down'') of (ref, dir) \<Rightarrow>
        Some (case (if is_ref ref then resolve_ref tree ref else None) of Some r \<Rightarrow> scroll_swipe r dir | None \<Rightarrow> An_text (labelled (js ''scroll'') args)))
      else if verb = js ''key'' then Some (An_key (js ''KEY: '' @ join_args args))
      else if verb \<in> set [js ''open'', js ''apps'', js ''call'', js ''sms'', js ''clipboard'', js ''notifications'', js ''record'', js ''contacts'']
        then Some (An_text (labelled verb args))
      else None)"

text \<open>Whether a snapshot is asked for when none is at hand.\<close>

definition ref_wanted :: "jstr \<Rightarrow> jstr list \<Rightarrow> jstr option" where
  "ref_wanted verb args =
     (if verb = js ''tap'' \<or> verb = js ''long-tap''
        then (if args \<noteq> [] \<and> is_ref (hd args) \<and> (arg_ten args 0 = None \<or> arg_ten args 1 = None) then Some (hd args) else None)
      else if verb = js ''set-text'' \<or> verb = js ''type'' then (if is_ref (sub_or args []) then Some (sub_or args []) else None)
      else if verb = js ''scroll'' then (let ref = fst (scroll_drawn args [] (js ''down'')) in if is_ref ref then Some ref else None)
      else None)"

section \<open>The otacon command\<close>

record 'p box =
  bx_disk :: disk
  bx_phone :: 'p
  bx_sent :: "phone_request list"
  bx_bus :: "json list"
  bx_files :: "(jstr \<times> nat list) list"

record box_opts =
  bo_root :: fpath
  bo_workspace :: jstr
  bo_team :: jstr
  bo_session :: jstr
  bo_base :: "jstr option"

definition ask :: "('p \<Rightarrow> phone_request \<Rightarrow> fetched \<times> 'p) \<Rightarrow> phone_request \<Rightarrow> 'p box \<Rightarrow> fetched \<times> 'p box" where
  "ask phone r b = (case phone (bx_phone b) r of (f, p) \<Rightarrow> (f, b\<lparr>bx_phone := p, bx_sent := bx_sent b @ [r]\<rparr>))"

definition screenshot_request :: phone_request where
  "screenshot_request = get_request (js ''/api/screenshot'')"

definition snapshot_request :: phone_request where
  "snapshot_request = get_request (js ''/api/snapshot?format=json'')"

definition trace_file :: "box_opts \<Rightarrow> jstr \<Rightarrow> jstr \<Rightarrow> fpath" where
  "trace_file o1 tcid f = node_join (sessionTracesDir (bo_root o1) (bo_workspace o1) (bo_team o1) (bo_session o1)) [tcid, f]"

definition path_text :: "fpath \<Rightarrow> jstr" where
  "path_text p = concat (map (\<lambda>s. 47 # s) p)"

text \<open>\<open>writeScreenshot\<close>: the file's path.\<close>

definition writeScreenshot :: "box_opts \<Rightarrow> jstr \<Rightarrow> jstr \<Rightarrow> nat list \<Rightarrow> 'p box \<Rightarrow> jstr \<times> 'p box" where
  "writeScreenshot o1 tcid kind bytes b = (let p = trace_file o1 tcid (kind @ js ''.png'')
     in (path_text p, b\<lparr>bx_disk := file_write p (C_text bytes) (bx_disk b)\<rparr>))"

text \<open>A screenshot taken and written, when the phone gives one.\<close>

definition capture :: "('p \<Rightarrow> phone_request \<Rightarrow> fetched \<times> 'p) \<Rightarrow> box_opts \<Rightarrow> jstr \<Rightarrow> jstr \<Rightarrow> 'p box \<Rightarrow> (nat list \<times> jstr) option \<times> 'p box" where
  "capture phone o1 tcid kind b = (case ask phone screenshot_request b of (f, b1) \<Rightarrow>
     (case want (\<lambda>a. Inr (ha_bytes a)) f of
        Inl _ \<Rightarrow> (None, b1)
      | Inr bytes \<Rightarrow> (case writeScreenshot o1 tcid kind bytes b1 of (p, b2) \<Rightarrow> (Some (bytes, p), b2))))"

text \<open>A snapshot, or \<open>null\<close>.\<close>

definition look :: "('p \<Rightarrow> phone_request \<Rightarrow> fetched \<times> 'p) \<Rightarrow> 'p box \<Rightarrow> json option \<times> 'p box" where
  "look phone b = (case ask phone snapshot_request b of (f, b1) \<Rightarrow> ((case want ha_json f of Inl _ \<Rightarrow> None | Inr j \<Rightarrow> Some j), b1))"

text \<open>Before a command that changes the phone: the paths of the screenshot and of the one drawn on.\<close>

definition before :: "('p \<Rightarrow> phone_request \<Rightarrow> fetched \<times> 'p) \<Rightarrow> (nat list \<Rightarrow> annotation \<Rightarrow> nat list option) \<Rightarrow> box_opts \<Rightarrow> jstr \<Rightarrow> jstr \<Rightarrow> jstr list
    \<Rightarrow> 'p box \<Rightarrow> (jstr option \<times> jstr option) \<times> 'p box" where
  "before phone draw o1 tcid verb args b = (case look phone b of (snap, b1) \<Rightarrow>
     (case capture phone o1 tcid (js ''before'') b1 of
        (None, b2) \<Rightarrow> ((None, None), b2)
      | (Some (bytes, p), b2) \<Rightarrow>
          (case (if \<not> truthy snap \<and> ref_wanted verb args \<noteq> None then look phone b2 else (snap, b2)) of (tree, b3) \<Rightarrow>
            (case inferAnnotation verb args tree of
               None \<Rightarrow> ((Some p, None), b3)
             | Some an \<Rightarrow> (case draw bytes an of
                 None \<Rightarrow> ((Some p, None), b3)
               | Some png \<Rightarrow> (case writeScreenshot o1 tcid (js ''annotated'') png b3 of (q, b4) \<Rightarrow> ((Some p, Some q), b4)))))))"

record ran =
  ra_stdout :: jstr
  ra_stderr :: jstr
  ra_exit :: int

definition failed_run :: "jstr \<Rightarrow> ran" where
  "failed_run e = \<lparr>ra_stdout = [], ra_stderr = e, ra_exit = 1\<rparr>"

definition end_line :: "jstr \<Rightarrow> jstr" where
  "end_line s = (if ends_with [10] s then s else s @ [10])"

text \<open>The command's own part: the request of its plan, and its output redacted.\<close>

definition carry_out :: "('p \<Rightarrow> phone_request \<Rightarrow> fetched \<times> 'p) \<Rightarrow> jstr \<Rightarrow> plan \<Rightarrow> 'p box \<Rightarrow> ran \<times> 'p box" where
  "carry_out phone verb pl b = (let err = (\<lambda>m. failed_run (js ''otacon '' @ verb @ js '': '' @ m @ [10])) in
     case pl of
       Throws m \<Rightarrow> (err m, b)
     | Asks r k \<Rightarrow> (case ask phone r b of (f, b1) \<Rightarrow> (case k f of
           Inl m \<Rightarrow> (err m, b1)
         | Inr (Says t) \<Rightarrow> (\<lparr>ra_stdout = end_line (redactPhoneIdentifiers t), ra_stderr = [], ra_exit = 0\<rparr>, b1)
         | Inr (Saves p bytes t) \<Rightarrow> (\<lparr>ra_stdout = end_line (redactPhoneIdentifiers t), ra_stderr = [], ra_exit = 0\<rparr>, b1\<lparr>bx_files := bx_files b1 @ [(p, bytes)]\<rparr>))))"

definition command_line :: "jstr \<Rightarrow> jstr list \<Rightarrow> jstr" where
  "command_line verb args = join_args (js ''otacon'' # verb # args)"

definition tool_result :: "jstr \<Rightarrow> jstr \<Rightarrow> ran \<Rightarrow> json" where
  "tool_result cl why r = JObj [(js ''command'', JStr cl), (js ''rationale'', JStr why), (js ''stdout'', JStr (ra_stdout r)),
     (js ''stderr'', JStr (ra_stderr r)), (js ''exitCode'', JNum (ra_exit r))]"

definition writeToolResult :: "box_opts \<Rightarrow> jstr \<Rightarrow> json \<Rightarrow> 'p box \<Rightarrow> 'p box" where
  "writeToolResult o1 tcid j b = b\<lparr>bx_disk := file_write (trace_file o1 tcid (js ''result.json'')) (C_text (json_pretty 0 j)) (bx_disk b)\<rparr>"

definition shot :: "jstr option \<Rightarrow> json" where
  "shot p = (case p of None \<Rightarrow> JNull | Some t \<Rightarrow> JStr t)"

definition phone_action :: "int \<Rightarrow> int \<Rightarrow> jstr \<Rightarrow> jstr \<Rightarrow> jstr list \<Rightarrow> jstr \<Rightarrow> ran \<Rightarrow> jstr option \<times> jstr option \<times> jstr option \<Rightarrow> json" where
  "phone_action started now tcid verb args why r shots = JObj [(js ''kind'', JStr (js ''phone_action'')),
     (js ''payload'', JObj [(js ''toolCallId'', JStr tcid), (js ''command'', JStr (command_line verb args)), (js ''subcommand'', JStr verb), (js ''target'', JStr (join_args args)),
        (js ''rationale'', JStr why), (js ''startedAt'', JNum started), (js ''completedAt'', JNum now), (js ''exitCode'', JNum (ra_exit r)),
        (js ''stdout'', JStr (ra_stdout r)), (js ''stderr'', JStr (ra_stderr r)),
        (js ''screenshots'', JObj [(js ''before'', shot (fst shots)), (js ''annotated'', shot (fst (snd shots))), (js ''after'', shot (snd (snd shots)))])]),
     (js ''ts'', JNum now)]"

text \<open>
  The command; \<open>None\<close> when it throws. \<open>env\<close> is the shell's environment, \<open>fresh\<close> a new ULID, \<open>started\<close> and \<open>now\<close> the clock.
\<close>

definition otacon_command :: "('p \<Rightarrow> phone_request \<Rightarrow> fetched \<times> 'p) \<Rightarrow> (nat list \<Rightarrow> annotation \<Rightarrow> nat list option) \<Rightarrow> (jstr \<Rightarrow> jstr + nat list) \<Rightarrow> box_opts
    \<Rightarrow> (jstr \<times> jstr) list \<Rightarrow> jstr \<Rightarrow> int \<Rightarrow> int \<Rightarrow> jstr list \<Rightarrow> 'p box \<Rightarrow> (ran \<times> 'p box) option" where
  "otacon_command phone draw host o1 env fresh started now argv b = (case argv of
      [] \<Rightarrow> Some (failed_run (js ''Usage: otacon <command> [args...]'' @ [10]), b)
    | verb # args \<Rightarrow>
      if verb = [] then Some (failed_run (js ''Usage: otacon <command> [args...]'' @ [10]), b)
      else if verb \<notin> set INHERITED \<and> jm_get (command_table host) verb = None then
        Some (failed_run (js ''unknown otacon verb: '' @ verb @ js ''. Available: '' @ join (js '', '') (sort (map fst (command_table host))) @ [10]), b)
      else if or_empty (bo_base o1) = [] then Some (failed_run (js ''NO_PHONE: no phone client configured for this session.'' @ [10]), b)
      else (case (isMutatingOtacon verb args, jm_get (command_table host) verb) of
          (Some mutating, Some run) \<Rightarrow>
            (let tcid = (case jm_get env (js ''OTACON_TOOL_CALL_ID'') of Some i \<Rightarrow> i | None \<Rightarrow> fresh);
                 why = or_empty (jm_get env (js ''OTACON_RATIONALE''))
             in case (if mutating then before phone draw o1 tcid verb args b else ((None, None), b)) of ((s1, s2), b1) \<Rightarrow>
               (case carry_out phone verb (run args) b1 of (r, b2) \<Rightarrow>
                 (case (if mutating then capture phone o1 tcid (js ''after'') b2 else (None, b2)) of (s3, b3) \<Rightarrow>
                   (let b4 = writeToolResult o1 tcid (tool_result (command_line verb args) why r) b3
                    in Some (r, if mutating then b4\<lparr>bx_bus := bx_bus b4 @ [phone_action started now tcid verb args why r (s1, s2, map_option snd s3)]\<rparr> else b4)))))
        | _ \<Rightarrow> None))"

text \<open>\<open>otacon-alloc\<close>\<close>

definition otacon_alloc :: "box_opts \<Rightarrow> jstr list \<Rightarrow> ran" where
  "otacon_alloc o1 args = (case args of
      [] \<Rightarrow> failed_run (js ''otacon-alloc ?: not implemented in spike '' @ [8212] @ js '' phone is bound at session start.'' @ [10])
    | verb # _ \<Rightarrow> if verb = js ''provision'' then
        (if or_empty (bo_base o1) = [] then failed_run (js ''NO_PHONE: no phone bound to this session. Re-run with --phone <url>.'' @ [10])
         else \<lparr>ra_stdout = js ''phone bound at session start (spike '' @ [8212] @ js '' no real allocation): '' @ or_empty (bo_base o1) @ [10], ra_stderr = [], ra_exit = 0\<rparr>)
      else failed_run (js ''otacon-alloc '' @ verb @ js '': not implemented in spike '' @ [8212] @ js '' phone is bound at session start.'' @ [10]))"

section \<open>The agent's tools\<close>

definition bash_text :: "ran \<Rightarrow> jstr" where
  "bash_text r = (let t1 = ra_stdout r;
       t2 = (if ra_stderr r = [] then t1 else t1 @ (if t1 = [] then [] else [10]) @ js ''[stderr] '' @ ra_stderr r);
       t3 = (if ra_exit r = 0 then t2 else t2 @ (if t2 = [] then [] else [10]) @ js ''[exit code: '' @ dec_int (ra_exit r) @ js '']'')
     in if t3 = [] then js ''(no output)'' else t3)"

text \<open>The shell's file system: it throws, or gives the text.\<close>

definition read_file_text :: "jstr + jstr \<Rightarrow> jstr" where
  "read_file_text res = (case res of Inr t \<Rightarrow> t | Inl m \<Rightarrow> js ''read_file error: '' @ m)"

definition write_file_text :: "jstr \<Rightarrow> jstr \<Rightarrow> jstr option \<Rightarrow> jstr" where
  "write_file_text p c err = (case err of None \<Rightarrow> js ''wrote '' @ dec_nat (length c) @ js '' bytes to '' @ p | Some m \<Rightarrow> js ''write_file error: '' @ m)"

section \<open>The system prompt\<close>

definition tool_lines :: "command_spec \<Rightarrow> jstr list" where
  "tool_lines sp = (js ''- `'' @ cs_usage sp @ js ''` '' @ [8212] @ js '' '' @ cs_description sp)
     # map (\<lambda>ex. js ''  - example: `'' @ ex @ js ''`'') (cs_examples sp)"

definition buildToolReference :: jstr where
  "buildToolReference = join [10]
     ([js ''## Available bash commands'', [], js ''### otacon (phone control)'', js ''Available subcommands (run `otacon <subcommand>`):'', []]
      @ concat (map tool_lines (sort_key cs_name command_specs))
      @ [[], js ''### otacon-alloc (phone allocation)'', js ''- `otacon-alloc provision` '' @ [8212] @ js '' confirms phone is bound for this session.'', [],
         js ''### Other shell utilities'',
         js ''Standard utilities available via the sandbox: `cat`, `echo`, `ls`, `grep`, `cd`. The `memory/` dir is read/write across sessions; `env/` is read-only context; `traces/` holds this session''
           @ [39] @ js ''s screenshots.''])"

definition listMdFiles :: "disk \<Rightarrow> fpath \<Rightarrow> jstr list" where
  "listMdFiles fs dir = (case read_dir fs dir of None \<Rightarrow> [] | Some ns \<Rightarrow> sort (filter (ends_with (js ''.md'')) ns))"

definition env_part :: "(content \<Rightarrow> jstr) \<Rightarrow> disk \<Rightarrow> fpath \<Rightarrow> jstr \<Rightarrow> jstr option" where
  "env_part raw fs dir f = map_option (\<lambda>t. js ''# Workspace '' @ take (length f - 3) f @ [10, 10] @ t) (text_at raw fs (node_join dir [f]))"

text \<open>\<open>None\<close>: it throws.\<close>

definition buildSystemPrompt :: "(content \<Rightarrow> jstr) \<Rightarrow> disk \<Rightarrow> fpath \<Rightarrow> workspace \<Rightarrow> jstr \<Rightarrow> jstr \<Rightarrow> jstr \<Rightarrow> jstr \<Rightarrow> jstr option" where
  "buildSystemPrompt raw fs dr ws team_name role at_time zone = (case readTeam fs dr team_name of
      None \<Rightarrow> None
    | Some t \<Rightarrow> (case find (\<lambda>a. ag_role a = role) (tm_agents t) of
        None \<Rightarrow> None
      | Some a \<Rightarrow>
          (let main = or_empty (readTeamPrompt raw fs dr team_name (ag_promptFile a)); dir = workspaceEnvDir dr (wk_id ws);
               envs = map (env_part raw fs dir) (listMdFiles fs dir)
           in if None \<in> set envs then None
              else Some (join ([10, 10] @ js ''---'' @ [10, 10])
                ((if main = [] then [] else [main]) @ map the envs @ [buildToolReference,
                  join [10] [js ''## Context'', js ''- Workspace: '' @ wk_id ws @ js '' ('' @ wk_kind ws @ js '')'', js ''- Current time: '' @ at_time, js ''- Timezone: '' @ zone]])))))"

end
