(* ===== verification/SandboxRun.thy ===== *)
theory SandboxRun
  imports Sandbox ApprovalRun
begin

text \<open>
  Properties of the agents' shell: harmless commands only read the phone and the others are recorded, the
  phone's identifiers don't reach the agent, where the redaction and the sandbox leak, the annotation's search
  and what the system prompt depends on.
\<close>

section \<open>What commands ask of the phone\<close>

lemma verb_simps [simp]: "hq_verb (get_request u) = GET" "hq_verb (json_request m u b) = m" "hq_verb (action_request ps) = POST" "hq_verb (call_op_request op ps) = POST"
  by (simp_all add: get_request_def json_request_def action_request_def call_op_request_def)

text \<open>The request of a plan, if it has one, is of the kind the classification says.\<close>

definition plan_is :: "bool \<Rightarrow> plan \<Rightarrow> bool" where
  "plan_is mutating p = (case p of Throws _ \<Rightarrow> True | Asks r _ \<Rightarrow> (hq_verb r \<noteq> GET) = mutating)"

lemma plan_is_simps [simp]: "plan_is m (Throws t)" "plan_is m (usage_error sp)" "plan_is m (Asks r k) = ((hq_verb r \<noteq> GET) = m)"
  by (simp_all add: plan_is_def usage_error_def)

lemma always_plans:
  "plan_is True (run_press sp a p args)" "plan_is True (run_swipe args)" "plan_is True (run_key args)" "plan_is True (run_type args)"
  "plan_is True (run_set_text args)" "plan_is True (run_scroll args)" "plan_is True (run_open args)"
  "plan_is False (run_screenshot args)" "plan_is False (run_snapshot args)" "plan_is False (run_info args)" "plan_is False (run_contacts args)"
  by (simp_all add: run_press_def run_swipe_def run_key_def run_type_def run_set_text_def run_scroll_def run_open_def
      run_screenshot_def run_snapshot_def run_info_def run_contacts_def Let_def split: option.splits prod.splits)

lemma sub_plans:
  "plan_is (sub_or args (js ''list'') \<in> {js ''launch'', js ''stop'', js ''install''}) (run_apps host args)"
  "plan_is (sub_or args (js ''get'') = js ''set'') (run_clipboard args)"
  "plan_is (sub_or args (js ''list'') \<in> {js ''dismiss'', js ''action''}) (run_notifications args)"
  "plan_is (sub_or args (js ''status'') \<in> {js ''start'', js ''stop''}) (run_record args)"
  "plan_is (sub_or args (js ''list'') = js ''send'') (run_sms args)"
  "plan_is (sub_or args (js ''status'') \<in> set [js ''dial'', js ''answer'', js ''reject'', js ''hangup'', js ''hold'', js ''resume'', js ''swap'', js ''merge'', js ''dtmf'']) (run_call args)"
proof -
  show "plan_is (sub_or args (js ''list'') \<in> {js ''launch'', js ''stop'', js ''install''}) (run_apps host args)"
    by (simp add: run_apps_def Let_def split: option.splits sum.splits)
  show "plan_is (sub_or args (js ''get'') = js ''set'') (run_clipboard args)"
    by (simp add: run_clipboard_def Let_def)
  show "plan_is (sub_or args (js ''list'') \<in> {js ''dismiss'', js ''action''}) (run_notifications args)"
    by (simp add: run_notifications_def Let_def split: option.splits)
  show "plan_is (sub_or args (js ''status'') \<in> {js ''start'', js ''stop''}) (run_record args)"
    by (simp add: run_record_def sub_or_def arg_at_def Let_def split: list.splits)
  show "plan_is (sub_or args (js ''list'') = js ''send'') (run_sms args)"
    by (simp add: run_sms_def Let_def split: option.splits)
  show "plan_is (sub_or args (js ''status'') \<in> set [js ''dial'', js ''answer'', js ''reject'', js ''hangup'', js ''hold'', js ''resume'', js ''swap'', js ''merge'', js ''dtmf'']) (run_call args)"
    by (simp add: run_call_def one_call_def all_calls_def sub_or_def arg_at_def Let_def split: list.splits option.splits sum.splits)
qed


lemma always_list: "ALWAYS_MUTATING = [js ''tap'', js ''long-tap'', js ''swipe'', js ''key'', js ''type'', js ''set-text'', js ''scroll'', js ''open'']"
  by (simp add: ALWAYS_MUTATING_def otaconRegistry_def SUBCOMMAND_MATRIX_def jm_get_def)

lemma sub_or_list: "(case args of a # _ \<Rightarrow> a | [] \<Rightarrow> d) = sub_or args d"
  by (cases args) (simp_all add: sub_or_def arg_at_def)

lemma classified:
  "verb \<in> set ALWAYS_MUTATING \<Longrightarrow> isMutatingOtacon verb args = Some True"
  "verb \<in> set [js ''screenshot'', js ''snapshot'', js ''info'', js ''contacts''] \<Longrightarrow> isMutatingOtacon verb args = Some False"
  "isMutatingOtacon (js ''apps'') args = Some (sub_or args (js ''list'') \<in> {js ''launch'', js ''stop'', js ''install''})"
  "isMutatingOtacon (js ''clipboard'') args = Some (sub_or args (js ''get'') = js ''set'')"
  "isMutatingOtacon (js ''notifications'') args = Some (sub_or args (js ''list'') \<in> {js ''dismiss'', js ''action''})"
  "isMutatingOtacon (js ''record'') args = Some (sub_or args (js ''status'') \<in> {js ''start'', js ''stop''})"
  "isMutatingOtacon (js ''sms'') args = Some (sub_or args (js ''list'') = js ''send'')"
  "isMutatingOtacon (js ''call'') args = Some (sub_or args (js ''status'') \<in> set [js ''dial'', js ''answer'', js ''reject'', js ''hangup'', js ''hold'', js ''resume'', js ''swap'', js ''merge'', js ''dtmf''])"
  by (auto simp: isMutatingOtacon_def INHERITED_def always_list otaconRegistry_def SUBCOMMAND_MATRIX_def jm_get_def sub_or_list)

lemma by_class: "isMutatingOtacon verb args = Some x \<Longrightarrow> plan_is x p \<Longrightarrow> isMutatingOtacon verb args = Some m \<Longrightarrow> plan_is m p"
  by simp

lemmas subs = by_class [OF classified(3) sub_plans(1)] by_class [OF classified(4) sub_plans(2)] by_class [OF classified(5) sub_plans(3)]
  by_class [OF classified(6) sub_plans(4)] by_class [OF classified(7) sub_plans(5)] by_class [OF classified(8) sub_plans(6)]

text \<open>Every verb's plan is of the kind its classification says.\<close>

lemma plan_classified:
  assumes "jm_get (command_table host) verb = Some run" "isMutatingOtacon verb args = Some m"
  shows "plan_is m (run args)"
proof -
  have "(verb, run) \<in> set (command_table host)" using assms(1) by (simp add: jm_get_def map_of_SomeD)
  then show ?thesis
    using assms(2) by (auto simp: command_table_def always_list classified(1,2) always_plans intro: subs)
qed


section \<open>What the command sends and announces\<close>

lemma want_cases: "(\<exists>m. want g f = Inl m) \<or> (\<exists>x. want g f = Inr x)"
  by (cases "want g f") auto

text \<open>Requests only, and of which kinds: what a part of the command adds to what was sent, leaving the bus alone.\<close>

definition sends :: "(phone_request \<Rightarrow> bool) \<Rightarrow> 'p box \<Rightarrow> 'p box \<Rightarrow> bool" where
  "sends P b b1 = (\<exists>rs. bx_sent b1 = bx_sent b @ rs \<and> list_all P rs \<and> bx_bus b1 = bx_bus b)"

lemma sends_refl [simp]: "sends P b b"
  by (simp add: sends_def)

lemma sends_trans: "sends P b b1 \<Longrightarrow> sends P b1 b2 \<Longrightarrow> sends P b b2"
  by (auto simp: sends_def)

lemma sends_ask: "P r \<Longrightarrow> sends P b (snd (ask phone r b))"
  by (auto simp: sends_def ask_def split: prod.splits)

lemma sends_capture: "sends (\<lambda>r. hq_verb r = GET) b (snd (capture phone o1 tcid kind b))"
  using sends_ask [of "\<lambda>r. hq_verb r = GET" screenshot_request b phone]
  by (auto simp: capture_def writeScreenshot_def sends_def screenshot_request_def Let_def split: prod.splits sum.splits)

lemma sends_look: "sends (\<lambda>r. hq_verb r = GET) b (snd (look phone b))"
  using sends_ask [of "\<lambda>r. hq_verb r = GET" snapshot_request b phone]
  by (auto simp: look_def snapshot_request_def split: prod.splits)

lemma sends_before: "sends (\<lambda>r. hq_verb r = GET) b (snd (before phone draw o1 tcid verb args b))"
proof -
  obtain snap b1 where l: "look phone b = (snap, b1)" by (cases "look phone b")
  have 1: "sends (\<lambda>r. hq_verb r = GET) b b1" using sends_look [of b phone] l by simp
  obtain c b2 where c: "capture phone o1 tcid (js ''before'') b1 = (c, b2)" by (cases "capture phone o1 tcid (js ''before'') b1")
  have 2: "sends (\<lambda>r. hq_verb r = GET) b b2" using sends_trans [OF 1] sends_capture [of b1 phone o1 tcid "js ''before''"] c by simp
  have 3: "sends (\<lambda>r. hq_verb r = GET) b (snd (look phone b2))" using sends_trans [OF 2 sends_look] .
  show ?thesis
    using 2 3 by (auto simp: before_def l c writeScreenshot_def sends_def Let_def split: prod.splits option.splits)
qed

lemma carry_out_sends: "plan_is m pl \<Longrightarrow> \<exists>rs. bx_sent (snd (carry_out phone verb pl b)) = bx_sent b @ rs \<and> length rs \<le> 1
    \<and> list_all (\<lambda>r. (hq_verb r \<noteq> GET) = m) rs \<and> bx_bus (snd (carry_out phone verb pl b)) = bx_bus b"
  by (cases pl) (auto simp: carry_out_def ask_def Let_def split: prod.splits sum.splits said.splits)

lemma early_exit:
  assumes "otacon_command phone draw host o1 env fresh started now (verb # args) b = Some (r, b1)"
    "verb = [] \<or> (verb \<notin> set INHERITED \<and> jm_get (command_table host) verb = None) \<or> or_empty (bo_base o1) = []"
  shows "b1 = b"
proof (cases "verb = [] \<or> verb \<notin> set INHERITED \<and> jm_get (command_table host) verb = None")
  case True
  then show ?thesis using assms(1) by (elim disjE) (simp_all add: otacon_command_def split: if_splits)
next
  case False
  then show ?thesis using assms by (simp add: otacon_command_def split: if_splits)
qed

text \<open>
  C1: what changes the phone is on record. A run of \<open>otacon\<close> that the classification calls harmless sends the phone nothing but
  \<open>GET\<close> requests and announces nothing; one that it calls mutating sends at most one request of another kind and
  announces exactly one \<open>phone_action\<close>, with its command line and exit code.
\<close>

theorem phone_changes_are_recorded:
  assumes "otacon_command phone draw host o1 env fresh started now (verb # args) b = Some (r, b1)" "isMutatingOtacon verb args = Some m"
  shows "\<exists>rs. bx_sent b1 = bx_sent b @ rs
    \<and> (\<not> m \<or> or_empty (bo_base o1) = [] \<longrightarrow> list_all (\<lambda>q. hq_verb q = GET) rs \<and> bx_bus b1 = bx_bus b)
    \<and> (m \<and> or_empty (bo_base o1) \<noteq> [] \<longrightarrow> length (filter (\<lambda>q. hq_verb q \<noteq> GET) rs) \<le> 1
        \<and> (\<exists>e p. bx_bus b1 = bx_bus b @ [e] \<and> json_get e (js ''kind'') = Some (JStr (js ''phone_action'')) \<and> json_get e (js ''payload'') = Some p
            \<and> json_get p (js ''command'') = Some (JStr (command_line verb args)) \<and> json_get p (js ''exitCode'') = Some (JNum (ra_exit r))))"
proof (cases "verb = [] \<or> (verb \<notin> set INHERITED \<and> jm_get (command_table host) verb = None) \<or> or_empty (bo_base o1) = []")
  case True
  have "m = False" if "verb = [] \<or> (verb \<notin> set INHERITED \<and> jm_get (command_table host) verb = None)"
  proof -
    have "jm_get otaconRegistry verb = None"
      using that by (auto simp: otaconRegistry_def command_table_def jm_get_def split: if_splits)
    then show ?thesis using assms(2) by (simp add: isMutatingOtacon_def split: if_splits)
  qed
  moreover have "b1 = b" using early_exit [OF assms(1) True] .
  ultimately show ?thesis using True by auto
next
  case False
  then obtain run where run: "jm_get (command_table host) verb = Some run"
    using assms by (cases "jm_get (command_table host) verb") (auto simp: otacon_command_def)
  let ?tcid = "case jm_get env (js ''OTACON_TOOL_CALL_ID'') of Some i \<Rightarrow> i | None \<Rightarrow> fresh"
  define b2 where "b2 = snd (if m then before phone draw o1 ?tcid verb args b else ((None, None), b))"
  define b3 where "b3 = snd (carry_out phone verb (run args) b2)"
  define b4 where "b4 = snd (if m then capture phone o1 ?tcid (js ''after'') b3 else (None, b3))"
  have r: "r = fst (carry_out phone verb (run args) b2)"
    and b1: "bx_sent b1 = bx_sent b4" "bx_bus b1 = bx_bus b4 @ (if m then [phone_action started now ?tcid verb args (or_empty (jm_get env (js ''OTACON_RATIONALE''))) r
        (fst (fst (if m then before phone draw o1 ?tcid verb args b else ((None, None), b))), snd (fst (if m then before phone draw o1 ?tcid verb args b else ((None, None), b))),
         map_option snd (fst (if m then capture phone o1 ?tcid (js ''after'') b3 else (None, b3))))] else [])"
    using assms False run by (auto simp: otacon_command_def b2_def b3_def b4_def Let_def writeToolResult_def split: prod.splits if_splits)
  have 2: "sends (\<lambda>q. hq_verb q = GET) b b2" by (simp add: b2_def sends_before)
  have 4: "sends (\<lambda>q. hq_verb q = GET) b3 b4" by (simp add: b4_def sends_capture)
  obtain rs where 3: "bx_sent b3 = bx_sent b2 @ rs" "length rs \<le> 1" "list_all (\<lambda>q. (hq_verb q \<noteq> GET) = m) rs" "bx_bus b3 = bx_bus b2"
    using carry_out_sends [OF plan_classified [OF run assms(2)], of phone verb b2] unfolding b3_def by blast
  from 2 obtain qs where q: "bx_sent b2 = bx_sent b @ qs" "list_all (\<lambda>q. hq_verb q = GET) qs" "bx_bus b2 = bx_bus b" by (auto simp: sends_def)
  from 4 obtain ts where t: "bx_sent b4 = bx_sent b3 @ ts" "list_all (\<lambda>q. hq_verb q = GET) ts" "bx_bus b4 = bx_bus b3" by (auto simp: sends_def)
  have none: "filter (\<lambda>q. hq_verb q \<noteq> GET) xs = []" if "list_all (\<lambda>q. hq_verb q = GET) xs" for xs
    using that by (induction xs) auto
  have "length (filter (\<lambda>q. hq_verb q \<noteq> GET) rs) \<le> 1" using 3(2) by (metis le_trans length_filter_le)
  then show ?thesis
    using 3 q t b1 False none
    by (intro exI [of _ "qs @ rs @ ts"], cases m) (simp add: phone_action_def jm_get_def list_all_iff, auto simp: list_all_iff)
qed

text \<open>A phone that answers everything with an empty screen.\<close>

definition blank_phone :: "unit \<Rightarrow> phone_request \<Rightarrow> fetched \<times> unit" where
  "blank_phone u r = (Answer \<lparr>ha_status = 200, ha_json = Inr (JArr []), ha_text = [], ha_bytes = [137]\<rparr>, u)"

definition blank_box :: "unit box" where
  "blank_box = \<lparr>bx_disk = [], bx_phone = (), bx_sent = [], bx_bus = [], bx_files = []\<rparr>"

definition box_w :: box_opts where
  "box_w = \<lparr>bo_root = [js ''d''], bo_workspace = js ''w'', bo_team = js ''t'', bo_session = js ''s'', bo_base = Some (js ''http://h'')\<rparr>"

lemma classified_key: "isMutatingOtacon (js ''key'') args = Some True" "isMutatingOtacon (js ''screenshot'') args = Some False"
  by (simp_all add: classified always_list)

theorem phone_changes_are_recorded_witness:
  "\<exists>r b1 rs. otacon_command blank_phone (\<lambda>_ _. None) (\<lambda>_. Inl []) box_w [] (js ''f'') 1 2 [js ''key'', js ''HOME''] blank_box = Some (r, b1) \<and> bx_sent b1 = rs
    \<and> length (filter (\<lambda>q. hq_verb q \<noteq> GET) rs) \<le> 1 \<and> length (bx_bus b1) = 1"
proof -
  have "\<exists>x. otacon_command blank_phone (\<lambda>_ _. None) (\<lambda>_. Inl []) box_w [] (js ''f'') 1 2 [js ''key'', js ''HOME''] blank_box = Some x"
    by (simp add: otacon_command_def classified_key command_table_def jm_get_def box_w_def or_empty_def Let_def INHERITED_def split: prod.splits)
  then obtain r b1 where c: "otacon_command blank_phone (\<lambda>_ _. None) (\<lambda>_. Inl []) box_w [] (js ''f'') 1 2 [js ''key'', js ''HOME''] blank_box = Some (r, b1)"
    by auto
  from phone_changes_are_recorded [OF c classified_key(1)] show ?thesis
    using c by (auto simp: box_w_def or_empty_def blank_box_def)
qed

section \<open>Identifiers\<close>

text \<open>What tells a phone from others: the serial, MAC addresses, IMEIs, EID and VNC port. And the same value without them.\<close>

definition PHONE_IDS :: "jstr set" where
  "PHONE_IDS = {js ''imei'', js ''imei2'', js ''eid'', js ''adb_serial'', js ''adapter_mac'', js ''phone_bt_mac'', js ''vnc_port''}"

lemma phone_ids [simp]: "PHONE_IDS = set REDACTED_FIELDS"
  by (auto simp: PHONE_IDS_def REDACTED_FIELDS_def)

fun veil_ids :: "json \<Rightarrow> json" where
  "veil_ids (JArr vs) = JArr (map veil_ids vs)"
| "veil_ids (JObj kvs) = JObj (map (\<lambda>kv. (fst kv, if fst kv \<in> PHONE_IDS then JNull else veil_ids (snd kv))) kvs)"
| "veil_ids v = v"

lemma filter_fst_map: "filter (\<lambda>kv. fst kv \<noteq> x) (map (\<lambda>kv. (fst kv, f kv)) kvs) = map (\<lambda>kv. (fst kv, f kv)) (filter (\<lambda>kv. fst kv \<noteq> x) kvs)"
  by (induction kvs) auto

lemma walk_veil: "walkRedact (veil_ids j) = walkRedact j"
  by (induction j rule: veil_ids.induct) (auto simp: filter_fst_map)

lemma veil_ok: "json_ok j \<Longrightarrow> json_ok (veil_ids j)"
  by (induction j rule: json_ok.induct) (auto simp: list_all_iff comp_def)

lemma opens: "starts_with (js ''{'') s \<longleftrightarrow> s \<noteq> [] \<and> hd s = 123" "starts_with (js ''['') s \<longleftrightarrow> s \<noteq> [] \<and> hd s = 91"
  by (cases s; simp add: starts_with_def js_def)+

lemma redact_json: "json_ok (JObj kvs) \<Longrightarrow> redactPhoneIdentifiers (json_pretty 0 (JObj kvs)) = json_pretty 0 (walkRedact (JObj kvs))"
  "json_ok (JArr vs) \<Longrightarrow> redactPhoneIdentifiers (json_pretty 0 (JArr vs)) = json_pretty 0 (walkRedact (JArr vs))"
proof -
  show "redactPhoneIdentifiers (json_pretty 0 (JObj kvs)) = json_pretty 0 (walkRedact (JObj kvs))" if "json_ok (JObj kvs)"
    unfolding redactPhoneIdentifiers_def Let_def trim_pretty json_parse_pretty [OF that] opens by (simp add: js_words)
  show "redactPhoneIdentifiers (json_pretty 0 (JArr vs)) = json_pretty 0 (walkRedact (JArr vs))" if "json_ok (JArr vs)"
    unfolding redactPhoneIdentifiers_def Let_def trim_pretty json_parse_pretty [OF that] opens by (simp add: js_words)
qed

subsection \<open>Lines of text\<close>

definition one_line_text :: "jstr \<Rightarrow> bool" where
  "one_line_text s = list_all (\<lambda>c. \<not> line_end c) s"

text \<open>A line of the text: a name without white space, padding, and a value.\<close>

definition padded :: "jstr \<times> jstr \<Rightarrow> jstr" where
  "padded f = pad_end 20 (fst f) @ 32 # snd f"

definition field_ok :: "jstr \<times> jstr \<Rightarrow> bool" where
  "field_ok f = (fst f \<noteq> [] \<and> list_all (\<lambda>c. \<not> js_space c) (fst f) \<and> one_line_text (snd f)
     \<and> (fst f \<in> PHONE_IDS \<longrightarrow> snd f \<noteq> [] \<and> \<not> js_space (hd (snd f))))"

lemma line_end_space: "line_end c \<Longrightarrow> js_space c"
  by (auto simp: line_end_def js_space_def)

lemma redact_rest: "one_line_text l \<Longrightarrow> redact_field key False l = l"
  "one_line_text l \<Longrightarrow> redact_field key False (l @ 10 # t) = l @ 10 # redact_field key True t"
proof -
  show "one_line_text l \<Longrightarrow> redact_field key False l = l"
    by (induction l) (simp_all add: redact_field.simps one_line_text_def)
  show "one_line_text l \<Longrightarrow> redact_field key False (l @ 10 # t) = l @ 10 # redact_field key True t"
  proof (induction l)
    case Nil
    show ?case by (subst redact_field.simps) (simp add: line_end_def)
  next
    case (Cons c l)
    then show ?case by (subst append_Cons, subst redact_field.simps) (simp add: one_line_text_def)
  qed
qed

text \<open>The rest of a text: nothing, or another line.\<close>

definition line_break :: "jstr \<Rightarrow> bool" where
  "line_break t = (t = [] \<or> hd t = 10)"

definition next_line :: "jstr \<Rightarrow> jstr \<Rightarrow> jstr" where
  "next_line key t = (case t of [] \<Rightarrow> [] | c # u \<Rightarrow> c # redact_field key True u)"

lemma redact_to_break: "one_line_text l \<Longrightarrow> line_break t \<Longrightarrow> redact_field key False (l @ t) = l @ next_line key t"
  by (cases t) (auto simp: line_break_def next_line_def redact_rest)

text \<open>A key matches the line of its own field, and no other.\<close>

lemma key_fits:
  assumes "list_all (\<lambda>c. \<not> js_space c) key" "list_all (\<lambda>c. \<not> js_space c) k" "after key (k @ 32 # u) = Some r" "js_space (hd (r @ [32]))"
  shows "k = key"
proof -
  have take: "take (length key) (k @ 32 # u) = key" and r: "r = drop (length key) (k @ 32 # u)"
    using assms(3) by (auto simp: after_def starts_with_def split: if_splits)
  have sp: "js_space 32" by (simp add: js_space_def)
  consider "length key < length k" | "length key = length k" | "length key > length k" by linarith
  then show ?thesis
  proof cases
    case 1
    then have "hd (r @ [32]) = k ! length key" using r by (simp add: hd_append hd_drop_conv_nth nth_append)
    then show ?thesis using assms(2,4) 1 by (auto simp: list_all_length)
  next
    case 2
    then show ?thesis using take by simp
  next
    case 3
    then have "key ! length k = 32" using take by (metis nth_append_length nth_take)
    then show ?thesis using assms(1) 3 sp by (auto simp: list_all_length)
  qed
qed

lemma padded_split: "padded f = fst f @ 32 # spaces (20 - length (fst f)) @ snd f"
proof -
  have "spaces n @ 32 # s = 32 # spaces n @ s" for n s by (induction n) (simp_all add: spaces_def)
  then show ?thesis by (simp add: padded_def pad_end_def)
qed

lemma one_line_padded: "field_ok f \<Longrightarrow> one_line_text (padded f)"
proof -
  assume f: "field_ok f"
  then have "list_all (\<lambda>c. \<not> line_end c) (fst f)" by (auto simp: field_ok_def list_all_iff dest: line_end_space)
  moreover have "one_line_text (spaces n)" for n by (simp add: one_line_text_def spaces_def list_all_iff line_end_def)
  moreover have "\<not> line_end 32" by (simp add: line_end_def)
  ultimately show ?thesis using f by (simp add: padded_split field_ok_def one_line_text_def)
qed

definition marked :: "jstr list \<Rightarrow> jstr \<times> jstr \<Rightarrow> jstr \<times> jstr" where
  "marked keys f = (if fst f \<in> set keys then (fst f, REDACTED) else f)"

lemma field_ok_marked: "field_ok f \<Longrightarrow> field_ok (marked keys f)"
proof -
  have "REDACTED \<noteq> []" "\<not> js_space (hd REDACTED)" "one_line_text REDACTED"
    by (simp_all add: REDACTED_def js_def js_space_def one_line_text_def line_end_def)
  then show "field_ok f \<Longrightarrow> ?thesis" by (simp add: field_ok_def marked_def)
qed

lemma run_split: "list_all P xs \<Longrightarrow> \<not> P y \<Longrightarrow> takeWhile P (xs @ y # ys) = xs \<and> dropWhile P (xs @ y # ys) = y # ys"
  by (induction xs) auto

lemma run_end: "list_all P xs \<Longrightarrow> t = [] \<or> \<not> P (hd t) \<Longrightarrow> dropWhile P (xs @ t) = t"
  by (induction xs) (cases t; auto)+

lemma redact_own:
  assumes "field_ok f" "fst f \<in> set REDACTED_FIELDS" "line_break t"
  shows "redact_field (fst f) True (padded f @ t) = padded (fst f, REDACTED) @ next_line (fst f) t"
proof -
  let ?s = "spaces (20 - length (fst f))"
  have v: "snd f \<noteq> []" "\<not> js_space (hd (snd f))" "one_line_text (snd f)" using assms by (simp_all add: field_ok_def)
  have sp: "list_all js_space (32 # ?s)" by (simp add: spaces_def list_all_iff js_space_def)
  obtain d ds where d: "snd f = d # ds" "\<not> js_space d" using v by (cases "snd f") auto
  have tw: "takeWhile js_space ((32 # ?s) @ snd f @ t) = 32 # ?s" and dw: "dropWhile js_space ((32 # ?s) @ snd f @ t) = snd f @ t"
    using run_split [OF sp d(2), of "ds @ t"] by (simp_all add: d(1))
  have nl: "dropWhile (\<lambda>c. \<not> line_end c) (snd f @ t) = t"
    using v(3) assms(3) by (intro run_end) (auto simp: one_line_text_def line_break_def line_end_def)
  have "field_match (fst f) (padded f @ t) = Some (fst f @ 32 # ?s, t)"
    using tw dw nl v(1) by (simp add: field_match_def after_def starts_with_def padded_split)
  then show ?thesis
    using redact_to_break [of "[]" t "fst f"] assms(3) by (subst redact_field.simps) (simp add: padded_split one_line_text_def)
qed

lemma redact_other:
  assumes "field_ok f" "list_all (\<lambda>c. \<not> js_space c) key" "fst f \<noteq> key" "line_break t"
  shows "redact_field key True (padded f @ t) = padded f @ next_line key t"
proof -
  obtain c cs where k: "fst f = c # cs" using assms(1) by (cases "fst f") (auto simp: field_ok_def)
  then have c: "\<not> line_end c" using assms(1) line_end_space by (auto simp: field_ok_def)
  have none: "field_match key (padded f @ t) = None"
  proof (cases "after key (padded f @ t)")
    case (Some r)
    have "\<not> js_space (hd (r @ [32]))"
      using key_fits [OF assms(2) _ _ , of "fst f" "spaces (20 - length (fst f)) @ snd f @ t" r] Some assms(1,3) by (auto simp: padded_split field_ok_def)
    then have "takeWhile js_space r = []" by (cases r) (auto simp: js_space_def)
    then show ?thesis by (simp add: field_match_def Some)
  qed (simp add: field_match_def)
  obtain l where l: "padded f = c # l" "one_line_text l"
    using one_line_padded [OF assms(1)] k by (auto simp: padded_split one_line_text_def)
  have "redact_field key True (padded f @ t) = c # redact_field key False (l @ t)"
    using none c l(1) by (subst redact_field.simps) simp
  then show ?thesis using redact_to_break [OF l(2) assms(4)] l(1) by simp
qed

lemma redact_lines:
  assumes "list_all field_ok fs" "key \<in> set REDACTED_FIELDS"
  shows "redact_field key True (join [10] (map padded fs)) = join [10] (map (\<lambda>f. padded (marked [key] f)) fs)"
  using assms(1)
proof (induction fs)
  case Nil
  show ?case by (subst redact_field.simps) (simp add: field_match_def after_def starts_with_def)
next
  case (Cons f fs)
  have key: "list_all (\<lambda>c. \<not> js_space c) key" using assms(2) by (auto simp: REDACTED_FIELDS_def js_def js_space_def)
  have f: "redact_field key True (padded f @ t) = padded (marked [key] f) @ next_line key t" if "line_break t" for t
    using redact_own [of f t] redact_other [of f key t] Cons.prems key assms(2) that by (auto simp: marked_def)
  show ?case
  proof (cases fs)
    case Nil
    then show ?thesis using f [of "[]"] by (simp add: line_break_def next_line_def)
  next
    case (Cons g gs)
    then show ?thesis using f [of "10 # join [10] (map padded fs)"] Cons.IH Cons.prems by (simp add: line_break_def next_line_def)
  qed
qed

lemma redact_text_lines:
  assumes "list_all field_ok fs"
  shows "redact_text (join [10] (map padded fs)) = join [10] (map (\<lambda>f. padded (marked REDACTED_FIELDS f)) fs)"
proof -
  have "fold (\<lambda>key. redact_field key True) ks (join [10] (map padded fs)) = join [10] (map (\<lambda>f. padded (marked ks f)) fs)"
    if "set ks \<subseteq> set REDACTED_FIELDS" "list_all field_ok fs" for ks and fs :: "(jstr \<times> jstr) list"
    using that
  proof (induction ks arbitrary: fs)
    case Nil
    then show ?case by (simp add: marked_def)
  next
    case (Cons k ks)
    have "list_all field_ok (map (marked [k]) fs)" using Cons.prems(2) by (simp add: list_all_iff field_ok_marked)
    then have rest: "fold (\<lambda>key. redact_field key True) ks (join [10] (map padded (map (marked [k]) fs))) = join [10] (map (\<lambda>f. padded (marked ks f)) (map (marked [k]) fs))"
      using Cons.prems(1) by (intro Cons.IH) simp_all
    have two: "(\<lambda>f. padded (marked ks f)) \<circ> marked [k] = (\<lambda>f. padded (marked (k # ks) f))" by (rule ext) (simp add: marked_def)
    have "redact_field k True (join [10] (map padded fs)) = join [10] (map padded (map (marked [k]) fs))"
      using redact_lines [OF Cons.prems(2), of k] Cons.prems(1) by (simp add: comp_def)
    then have "fold (\<lambda>key. redact_field key True) (k # ks) (join [10] (map padded fs)) = join [10] (map (\<lambda>f. padded (marked ks f)) (map (marked [k]) fs))"
      unfolding fold_simps by (simp only: rest)
    then show ?case unfolding map_map two .
  qed
  then show ?thesis using assms by (simp add: redact_text_def)
qed

subsection \<open>The text of info\<close>

definition info_fields :: "(jstr \<times> json) list \<Rightarrow> (jstr \<times> jstr) list" where
  "info_fields kvs = concat (map (\<lambda>kv. case snd kv of JArr _ \<Rightarrow> [] | JObj _ \<Rightarrow> [] | JNull \<Rightarrow> [(fst kv, js ''-'')] | v \<Rightarrow> [(fst kv, js_string v)]) kvs)"

lemma info_text_fields: "info_text kvs = join [10] (map padded (info_fields kvs))"
proof -
  have dash: "js '' -'' = 32 # js ''-''" by (simp add: js_def)
  have eq: "info_line = (\<lambda>kv. map padded (case snd kv of JArr _ \<Rightarrow> [] | JObj _ \<Rightarrow> [] | JNull \<Rightarrow> [(fst kv, js ''-'')] | v \<Rightarrow> [(fst kv, js_string v)]))"
  proof (rule ext)
    fix kv show "info_line kv = map padded (case snd kv of JArr _ \<Rightarrow> [] | JObj _ \<Rightarrow> [] | JNull \<Rightarrow> [(fst kv, js ''-'')] | v \<Rightarrow> [(fst kv, js_string v)])"
      by (cases kv; cases "snd kv") (simp_all add: info_line_def padded_def dash)
  qed
  show ?thesis by (simp only: info_text_def info_fields_def map_concat map_map comp_def eq)
qed

text \<open>
  Fields as the host sends them: names without white space, texts of one line, and an identifier that is
  \<open>null\<close> or a text or number that doesn't begin with white space.
\<close>

definition presentable :: "(jstr \<times> json) list \<Rightarrow> bool" where
  "presentable kvs = (list_all field_ok (info_fields kvs)
     \<and> list_all (\<lambda>kv. fst kv \<noteq> [] \<and> hd (fst kv) \<noteq> 91 \<and> hd (fst kv) \<noteq> 123 \<and> list_all (\<lambda>c. \<not> js_space c) (fst kv)
         \<and> (fst kv \<in> PHONE_IDS \<longrightarrow> (case snd kv of JArr _ \<Rightarrow> False | JObj _ \<Rightarrow> False | _ \<Rightarrow> True))) kvs)"

definition veil_fields :: "(jstr \<times> json) list \<Rightarrow> (jstr \<times> json) list" where
  "veil_fields kvs = map (\<lambda>kv. (fst kv, if fst kv \<in> PHONE_IDS then JNull else veil_ids (snd kv))) kvs"

lemma veil_fields: "veil_ids (JObj kvs) = JObj (veil_fields kvs)"
  by (simp add: veil_fields_def)

lemma dash_ok: "js ''-'' \<noteq> []" "\<not> js_space (hd (js ''-''))" "one_line_text (js ''-'')"
  by (simp_all add: js_def js_space_def one_line_text_def line_end_def)

lemma presentable_veil:
  assumes "presentable kvs"
  shows "presentable (veil_fields kvs)"
    and "map (marked REDACTED_FIELDS) (info_fields (veil_fields kvs)) = map (marked REDACTED_FIELDS) (info_fields kvs)"
  using assms
proof (induction kvs)
  case (Cons kv kvs)
  obtain k v where kv: "kv = (k, v)" by (cases kv)
  {
    case 1
    then show ?case using Cons dash_ok by (cases v) (auto simp: kv presentable_def veil_fields_def info_fields_def field_ok_def)
  next
    case 2
    then show ?case using Cons by (cases v) (auto simp: kv presentable_def veil_fields_def info_fields_def marked_def)
  }
qed (simp_all add: presentable_def veil_fields_def info_fields_def)

lemma dropWhile_snoc: "\<not> P c \<Longrightarrow> dropWhile P (xs @ [c]) = dropWhile P xs @ [c]"
  by (induction xs) auto

lemma hd_trim: "s \<noteq> [] \<Longrightarrow> \<not> js_space (hd s) \<Longrightarrow> trim s \<noteq> [] \<and> hd (trim s) = hd s"
  by (cases s) (auto simp: trim_def trim_start_def trim_end_def dropWhile_snoc)

lemma redact_info_text:
  assumes "presentable kvs"
  shows "redactPhoneIdentifiers (info_text kvs) = join [10] (map (\<lambda>f. padded (marked REDACTED_FIELDS f)) (info_fields kvs))"
proof (cases "info_fields kvs")
  case Nil
  then show ?thesis by (simp add: info_text_fields redactPhoneIdentifiers_def Let_def)
next
  case (Cons f fs)
  then have "fst f \<in> fst ` set kvs" by (induction kvs) (auto simp: info_fields_def split: json.splits)
  then have f: "fst f \<noteq> []" "hd (fst f) \<noteq> 91" "hd (fst f) \<noteq> 123" "\<not> js_space (hd (fst f))"
    using assms by (auto simp: presentable_def list_all_iff)
  obtain t where t: "info_text kvs = fst f @ t" by (cases fs) (auto simp: info_text_fields Cons padded_split)
  have "trim (info_text kvs) \<noteq> [] \<and> hd (trim (info_text kvs)) = hd (fst f)"
    using hd_trim [of "info_text kvs"] f t by simp
  then have "redactPhoneIdentifiers (info_text kvs) = redact_text (info_text kvs)"
    using f by (simp add: redactPhoneIdentifiers_def Let_def opens t)
  then show ?thesis using redact_text_lines [of "info_fields kvs"] assms by (simp add: info_text_fields presentable_def)
qed

lemma presentable_delete: "presentable kvs \<Longrightarrow> presentable (jm_delete k kvs)" "jm_delete k (veil_fields kvs) = veil_fields (jm_delete k kvs)"
proof -
  show "presentable kvs \<Longrightarrow> presentable (jm_delete k kvs)"
    by (induction kvs) (auto simp: presentable_def info_fields_def jm_delete_def)
  show "jm_delete k (veil_fields kvs) = veil_fields (jm_delete k kvs)"
    by (induction kvs) (auto simp: veil_fields_def jm_delete_def)
qed

text \<open>What \<open>info\<close> shows of a value, and of the value without the identifiers.\<close>

definition shown :: "jstr + said \<Rightarrow> jstr + jstr" where
  "shown x = (case x of Inl m \<Rightarrow> Inl m | Inr (Says t) \<Rightarrow> Inr (redactPhoneIdentifiers t) | Inr (Saves p bytes t) \<Rightarrow> Inr (redactPhoneIdentifiers t))"

lemma info_shown:
  assumes "json_ok (JObj kvs)" "presentable kvs"
  shows "shown (says_info args (veil_ids (JObj kvs))) = shown (says_info args (JObj kvs))"
proof (cases "js ''--json'' \<in> set args")
  case True
  then show ?thesis
    using redact_json(1) [OF assms(1)] redact_json(1) [of "veil_fields kvs"] veil_ok [OF assms(1)] walk_veil [of "JObj kvs"]
    unfolding veil_fields by (simp add: shown_def says_info_def says_json_def del: json_pretty.simps walkRedact.simps)
next
  case False
  define ks where "ks = (if js ''--monitor'' \<in> set args then kvs else jm_delete (js ''monitor'') kvs)"
  have ks: "presentable ks" using assms(2) by (simp add: ks_def presentable_delete)
  have v: "(if js ''--monitor'' \<in> set args then veil_fields kvs else jm_delete (js ''monitor'') (veil_fields kvs)) = veil_fields ks"
    by (simp add: ks_def presentable_delete)
  have "redactPhoneIdentifiers (info_text (veil_fields ks)) = redactPhoneIdentifiers (info_text ks)"
    using redact_info_text [OF ks] redact_info_text [OF presentable_veil(1) [OF ks]] arg_cong [OF presentable_veil(2) [OF ks], of "\<lambda>fs. join [10] (map padded fs)"]
    by (simp add: comp_def)
  then show ?thesis using False unfolding veil_fields by (simp add: shown_def says_info_def v flip: ks_def)
qed

lemma carry_out_shown:
  "fst (carry_out phone verb (Asks q k) b) = (case shown (k (fst (phone (bx_phone b) q))) of
      Inl m \<Rightarrow> failed_run (js ''otacon '' @ verb @ js '': '' @ m @ [10])
    | Inr t \<Rightarrow> \<lparr>ra_stdout = end_line t, ra_stderr = [], ra_exit = 0\<rparr>)"
  by (auto simp: carry_out_def ask_def shown_def split: prod.splits sum.splits said.splits)

text \<open>The phone whose answers have no identifiers.\<close>

definition veil_answer :: "fetched \<Rightarrow> fetched" where
  "veil_answer f = (case f of Unreachable m \<Rightarrow> Unreachable m | Answer a \<Rightarrow> Answer (a\<lparr>ha_json := (case ha_json a of Inl m \<Rightarrow> Inl m | Inr j \<Rightarrow> Inr (veil_ids j))\<rparr>))"

definition veiled :: "('p \<Rightarrow> phone_request \<Rightarrow> fetched \<times> 'p) \<Rightarrow> 'p \<Rightarrow> phone_request \<Rightarrow> fetched \<times> 'p" where
  "veiled phone p q = (case phone p q of (f, p1) \<Rightarrow> (veil_answer f, p1))"

lemma classified_info: "isMutatingOtacon (js ''info'') args = Some False"
  by (simp add: classified)

lemma info_command:
  assumes "or_empty (bo_base o1) \<noteq> []"
  shows "map_option fst (otacon_command phone draw host o1 env fresh started now (js ''info'' # args) b) = Some (fst (carry_out phone (js ''info'') (run_info args) b))"
proof -
  have "jm_get (command_table host) (js ''info'') = Some run_info" by (simp add: command_table_def jm_get_def)
  moreover have "js ''info'' \<notin> set INHERITED" by (simp add: INHERITED_def)
  ultimately show ?thesis
    using assms by (simp add: otacon_command_def classified_info Let_def split: prod.splits)
qed

text \<open>
  C12: the phone's identifiers don't reach the agent. Whatever the options of \<open>otacon info\<close>, what it prints is the same for a phone and
  for the one whose answers have \<open>null\<close> for every serial, IMEI, EID, MAC address and VNC port, as JSON and as text, when the
  host's fields have names and values of one line.
\<close>

theorem identifiers_stay_hidden:
  assumes "fst (phone (bx_phone b) (get_request (js ''/api/info''))) = Answer a" "ha_json a = Inr (JObj kvs)"
    and "json_ok (JObj kvs)" "presentable kvs" "or_empty (bo_base o1) \<noteq> []"
  shows "map_option fst (otacon_command phone draw host o1 env fresh started now (js ''info'' # args) b)
    = map_option fst (otacon_command (veiled phone) draw host o1 env fresh started now (js ''info'' # args) b)"
proof -
  obtain q where q: "phone (bx_phone b) (get_request (js ''/api/info'')) = (Answer a, q)"
    using assms(1) by (cases "phone (bx_phone b) (get_request (js ''/api/info''))") auto
  then have v: "fst (veiled phone (bx_phone b) (get_request (js ''/api/info''))) = Answer (a\<lparr>ha_json := Inr (veil_ids (JObj kvs))\<rparr>)"
    using assms(2) by (simp add: veiled_def veil_answer_def del: veil_ids.simps)
  have "shown (say_of (want ha_json) (says_info args) (Answer (a\<lparr>ha_json := Inr (veil_ids (JObj kvs))\<rparr>)))
      = shown (say_of (want ha_json) (says_info args) (Answer a))"
    using info_shown [OF assms(3,4), of args] assms(2) by (simp add: say_of_def want_def ha_ok_def http_status_def)
  then show ?thesis
    unfolding info_command [OF assms(5)] run_info_def carry_out_shown v assms(1) by simp
qed

text \<open>A phone with two fields.\<close>

definition info_fields_w :: "(jstr \<times> json) list" where
  "info_fields_w = [(js ''model'', JStr (js ''P8'')), (js ''imei'', JStr (js ''35209''))]"

definition info_phone :: "unit \<Rightarrow> phone_request \<Rightarrow> fetched \<times> unit" where
  "info_phone u r = (Answer \<lparr>ha_status = 200, ha_json = Inr (JObj info_fields_w), ha_text = [], ha_bytes = [137]\<rparr>, u)"

theorem identifiers_stay_hidden_witness:
  "map_option fst (otacon_command info_phone (\<lambda>_ _. None) (\<lambda>_. Inl []) box_w [] (js ''f'') 1 2 [js ''info''] blank_box)
    = map_option fst (otacon_command (veiled info_phone) (\<lambda>_ _. None) (\<lambda>_. Inl []) box_w [] (js ''f'') 1 2 [js ''info''] blank_box)"
proof (rule identifiers_stay_hidden)
  show "fst (info_phone (bx_phone blank_box) (get_request (js ''/api/info'')))
      = Answer \<lparr>ha_status = 200, ha_json = Inr (JObj info_fields_w), ha_text = [], ha_bytes = [137]\<rparr>"
    by (simp add: info_phone_def)
  show "ha_json \<lparr>ha_status = 200, ha_json = Inr (JObj info_fields_w), ha_text = [], ha_bytes = [137]\<rparr> = Inr (JObj info_fields_w)"
    by simp
  show "json_ok (JObj info_fields_w)" by (simp add: info_fields_w_def js_def)
  show "presentable info_fields_w"
    by (simp add: presentable_def info_fields_w_def info_fields_def field_ok_def one_line_text_def line_end_def js_def js_space_def REDACTED_FIELDS_def)
  show "or_empty (bo_base box_w) \<noteq> []" by (simp add: box_w_def or_empty_def js_def)
qed

section \<open>Where the sandbox leaks\<close>

lemma screenshot_command:
  assumes "or_empty (bo_base o1) \<noteq> []"
  shows "otacon_command phone draw host o1 env fresh started now (js ''screenshot'' # args) b
    = (case carry_out phone (js ''screenshot'') (run_screenshot args) b of (r, b2) \<Rightarrow>
        Some (r, writeToolResult o1 (case jm_get env (js ''OTACON_TOOL_CALL_ID'') of Some i \<Rightarrow> i | None \<Rightarrow> fresh)
          (tool_result (command_line (js ''screenshot'') args) (or_empty (jm_get env (js ''OTACON_RATIONALE''))) r) b2))"
proof -
  have "jm_get (command_table host) (js ''screenshot'') = Some run_screenshot" by (simp add: command_table_def jm_get_def)
  moreover have "js ''screenshot'' \<notin> set INHERITED" by (simp add: INHERITED_def)
  ultimately show ?thesis
    using assms by (simp add: otacon_command_def classified_key Let_def split: prod.splits)
qed

lemma screenshot_passes:
  "isMutating (js ''otacon screenshot -o '' @ p) = Some False"
proof -
  have "trim_start (js ''otacon screenshot -o '' @ p) = js ''otacon screenshot -o '' @ p"
    by (simp add: trim_start_def js_def js_space_def)
  moreover have "trim_end (js ''otacon screenshot -o '') = js ''otacon screenshot -o''"
    by (simp add: trim_end_def js_def js_space_def)
  ultimately have "trim (js ''otacon screenshot -o '' @ p) = js ''otacon screenshot -o'' \<or> trim (js ''otacon screenshot -o '' @ p) = js ''otacon screenshot -o '' @ trim_end p"
    by (simp add: trim_def trim_end_append)
  moreover have "isMutatingOtacon (map (of_char :: char \<Rightarrow> nat) ''screenshot'') ws = Some False" for ws
    using classified_key(2) [of ws] by (simp add: js_def)
  ultimately show ?thesis
    by (auto simp: isMutating_def otacon_match_def after_def starts_with_def js_def js_space_def Let_def)
qed

text \<open>
  C30: what \<open>-o\<close> gives an agent. The option of \<open>screenshot\<close> is the path of a file of the machine, not of the sandbox: the
  command line counts as harmless, so the gate lets it through at once, without auto-approval and without asking
  anyone; the command then writes the named file, whichever it is, and no \<open>phone_action\<close> tells of it.
\<close>

theorem screenshot_writes_host_files:
  assumes "fst (phone (bx_phone b) screenshot_request) = Answer a" "ha_status a = 200" "or_empty (bo_base o1) \<noteq> []" "p \<noteq> []"
  shows "gate_call opts n \<lparr>tc_id = i, tc_name = js ''bash'', tc_command = js ''otacon screenshot -o '' @ p, tc_rationale = why\<rparr> s
      = gate_answer n (By_gate opts \<lparr>tc_id = i, tc_name = js ''bash'', tc_command = js ''otacon screenshot -o '' @ p, tc_rationale = why\<rparr>) Allowed s
    \<and> (\<exists>r b1. otacon_command phone draw host o1 env fresh started now [js ''screenshot'', js ''-o'', p] b = Some (r, b1)
        \<and> ra_exit r = 0 \<and> bx_files b1 = bx_files b @ [(p, ha_bytes a)] \<and> bx_bus b1 = bx_bus b)"
proof -
  obtain q where q: "phone (bx_phone b) screenshot_request = (Answer a, q)"
    using assms(1) by (cases "phone (bx_phone b) screenshot_request") auto
  have "out_path [js ''-o'', p] None = Some p" using assms(4) by simp
  then show ?thesis
    unfolding screenshot_command [OF assms(3)] gate_call_def
    using q assms(2) screenshot_passes
    by (simp add: carry_out_def run_screenshot_def ask_def say_of_def want_def ha_ok_def writeToolResult_def Let_def flip: screenshot_request_def)
qed

theorem screenshot_writes_host_files_witness:
  "\<exists>r b1. otacon_command blank_phone (\<lambda>_ _. None) (\<lambda>_. Inl []) box_w [] (js ''f'') 1 2 [js ''screenshot'', js ''-o'', js ''/etc/hosts''] blank_box = Some (r, b1)
    \<and> bx_files b1 = [(js ''/etc/hosts'', [137])]"
proof -
  have "fst (blank_phone (bx_phone blank_box) screenshot_request) = Answer \<lparr>ha_status = 200, ha_json = Inr (JArr []), ha_text = [], ha_bytes = [137]\<rparr>"
    by (simp add: blank_phone_def)
  moreover have "or_empty (bo_base box_w) \<noteq> []" "js ''/etc/hosts'' \<noteq> []" by (simp_all add: box_w_def or_empty_def js_def)
  ultimately show ?thesis
    using screenshot_writes_host_files [of blank_phone blank_box _ box_w "js ''/etc/hosts''"] by (fastforce simp: blank_box_def)
qed

section \<open>The search for a ref\<close>

text \<open>The nodes of a tree the search can see: those that aren't falsy, and their children.\<close>

inductive seen_in :: "json \<Rightarrow> json \<Rightarrow> bool" where
  seen_here: "truthy (Some n) \<Longrightarrow> seen_in n n"
| seen_below: "truthy (Some n) \<Longrightarrow> c \<in> set (children_of n) \<Longrightarrow> seen_in c m \<Longrightarrow> seen_in n m"

inductive_simps seen_in_iff: "seen_in n m"

lemma find_node_iff:
  "(case find_node ref st of
      Some m \<Rightarrow> node_is ref m \<and> (\<exists>n\<in>set st. seen_in n m)
    | None \<Rightarrow> \<not> (\<exists>m. node_is ref m \<and> (\<exists>n\<in>set st. seen_in n m)))"
proof (induction ref st rule: find_node.induct)
  case (2 ref n st)
  let ?st = "(if truthy (Some n) then rev (children_of n) else []) @ st"
  show ?case
  proof (cases "truthy (Some n) \<and> node_is ref n")
    case True
    then show ?thesis by (auto intro: seen_here)
  next
    case False
    have same: "(\<exists>k\<in>set ?st. seen_in k m) = (\<exists>k\<in>set (n # st). seen_in k m)" if "node_is ref m" for m
      using False that seen_in_iff [of n m] by auto
    have "find_node ref (n # st) = find_node ref ?st" using False by (simp only: find_node.simps if_False)
    with 2 [OF False] same show ?thesis
      by (cases "find_node ref ?st") (simp_all only: option.case, blast+)
  qed
qed simp

text \<open>
  The search finds what is there. The annotation's search with its own stack gives a node of the snapshot
  that has the wanted \<open>ref\<close> or \<open>ref_id\<close> exactly when the tree, or a tree of the list, has one at any depth.
\<close>

lemma findRef_finds:
  "(case findRef tree ref of
      Some m \<Rightarrow> node_is ref m \<and> (\<exists>n\<in>set (case tree of JArr vs \<Rightarrow> vs | _ \<Rightarrow> [tree]). seen_in n m)
    | None \<Rightarrow> \<not> (\<exists>m. node_is ref m \<and> (\<exists>n\<in>set (case tree of JArr vs \<Rightarrow> vs | _ \<Rightarrow> [tree]). seen_in n m)))"
proof -
  have "set (case tree of JArr vs \<Rightarrow> rev vs | _ \<Rightarrow> [tree]) = set (case tree of JArr vs \<Rightarrow> vs | _ \<Rightarrow> [tree])" by (cases tree) simp_all
  with find_node_iff [of ref "case tree of JArr vs \<Rightarrow> rev vs | _ \<Rightarrow> [tree]"] show ?thesis by (simp only: findRef_def)
qed

lemma findRef_finds_witness:
  "case findRef (JArr [JNull, JObj [(js ''children'', JArr [JObj [(js ''ref'', JStr (js ''@e2''))]])]]) (js ''@e2'') of
      Some m \<Rightarrow> node_is (js ''@e2'') m \<and> m = JObj [(js ''ref'', JStr (js ''@e2''))] | None \<Rightarrow> False"
proof -
  let ?t = "JArr [JNull, JObj [(js ''children'', JArr [JObj [(js ''ref'', JStr (js ''@e2''))]])]]"
  have "findRef ?t (js ''@e2'') = Some (JObj [(js ''ref'', JStr (js ''@e2''))])"
    by (simp add: findRef_def node_is_def children_of_def jm_get_def)
  with findRef_finds [where tree = ?t and ref = "js ''@e2''"] show ?thesis by simp
qed

section \<open>The system prompt\<close>

lemma sublist_after: "sublist x y \<Longrightarrow> sublist x (p @ y)"
  by (rule sublist_order.order_trans [OF _ sublist_append_leftI])

lemma join_has: "x \<in> set xs \<Longrightarrow> sublist x (join sep xs)"
proof (induction xs rule: induct_list012)
  case (3 a b zs)
  show ?case
  proof (cases "x = a")
    case True
    then show ?thesis by (simp add: sublist_append_rightI)
  next
    case False
    then have "sublist x (join sep (b # zs))" using 3 by simp
    from sublist_after [OF this, of "a @ sep"] show ?thesis by simp
  qed
qed auto

text \<open>
  The prompt leaves nothing out. When the server can build an agent's system prompt, it contains the agent's own
  prompt, the whole text of every Markdown file of the workspace's \<open>env\<close> directory, and the usage and description
  of every command.
\<close>

lemma prompt_is_complete:
  assumes "buildSystemPrompt raw fs dr ws team_name role at_time zone = Some t" "f \<in> set (listMdFiles fs (workspaceEnvDir dr (wk_id ws)))" "sp \<in> set command_specs"
  shows "(\<exists>x. text_at raw fs (node_join (workspaceEnvDir dr (wk_id ws)) [f]) = Some x \<and> sublist x t)
    \<and> sublist (cs_usage sp) t \<and> sublist (cs_description sp) t
    \<and> (\<exists>tm a. readTeam fs dr team_name = Some tm \<and> find (\<lambda>a. ag_role a = role) (tm_agents tm) = Some a
        \<and> sublist (or_empty (readTeamPrompt raw fs dr team_name (ag_promptFile a))) t)"
proof -
  let ?dir = "workspaceEnvDir dr (wk_id ws)"
  obtain tm a where tm: "readTeam fs dr team_name = Some tm" "find (\<lambda>a. ag_role a = role) (tm_agents tm) = Some a"
    using assms(1) by (auto simp: buildSystemPrompt_def split: option.splits)
  let ?main = "or_empty (readTeamPrompt raw fs dr team_name (ag_promptFile a))" and ?envs = "map (env_part raw fs ?dir) (listMdFiles fs ?dir)"
  obtain last where envs: "None \<notin> set ?envs"
    and t: "t = join ([10, 10] @ js ''---'' @ [10, 10]) ((if ?main = [] then [] else [?main]) @ map the ?envs @ [buildToolReference, last])"
    using assms(1) tm by (auto simp: buildSystemPrompt_def Let_def split: if_splits)
  have "env_part raw fs ?dir f \<noteq> None" using envs assms(2) by force
  then obtain x where x: "text_at raw fs (node_join ?dir [f]) = Some x" by (auto simp: env_part_def)
  have "the (env_part raw fs ?dir f) = (js ''# Workspace '' @ take (length f - 3) f @ [10, 10]) @ x" by (simp add: env_part_def x)
  then have "sublist x (the (env_part raw fs ?dir f))" by (simp only: sublist_append_leftI)
  moreover have "sublist (the (env_part raw fs ?dir f)) t" using assms(2) by (auto simp: t intro!: join_has)
  ultimately have 1: "sublist x t" by (rule sublist_order.order_trans)
  define line where "line = (js ''- `'' @ cs_usage sp @ js ''` '' @ [8212] @ js '' '') @ cs_description sp"
  have "line \<in> set (concat (map tool_lines (sort_key cs_name command_specs)))"
    using assms(3) by (auto simp: tool_lines_def line_def)
  then have "sublist line buildToolReference"
    unfolding buildToolReference_def by (intro join_has) simp
  moreover have "sublist buildToolReference t" unfolding t by (rule join_has) simp
  ultimately have line: "sublist line t" by (rule sublist_order.order_trans)
  have "line = js ''- `'' @ cs_usage sp @ (js ''` '' @ [8212] @ js '' '' @ cs_description sp)" by (simp add: line_def)
  then have "sublist (cs_usage sp) line" by (simp only: sublist_appendI)
  moreover have "sublist (cs_description sp) line" unfolding line_def by (rule sublist_append_leftI)
  ultimately have 2: "sublist (cs_usage sp) t" "sublist (cs_description sp) t" using line sublist_order.order_trans by blast+
  have "sublist ?main t" by (cases "?main = []") (auto simp: t intro!: join_has)
  then show ?thesis using 1 2 tm x by auto
qed

text \<open>A workspace with one file, and a team of one agent.\<close>

definition prompt_ws :: workspace where
  "prompt_ws = \<lparr>wk_id = js ''w'', wk_displayName = [], wk_kind = js ''person'', wk_phoneNumber = None, wk_externalRef = None, wk_createdAt = 0\<rparr>"

definition prompt_disk :: disk where
  "prompt_disk =
     [([js ''d'', js ''teams'', js ''t'', js ''team.yaml''], N_file (C_team \<lparr>tm_name = js ''t'', tm_description = [], tm_expectedWorkspaceKind = js ''person'',
         tm_lead = js ''lead'', tm_agents = [\<lparr>ag_role = js ''lead'', ag_promptFile = js ''lead.md'', ag_model = []\<rparr>]\<rparr>)),
      ([js ''d'', js ''workspaces'', js ''w'', js ''env'', js ''USER.md''], N_file (C_text (js ''Jo'')))]"

lemma prompt_md: "ends_with (js ''.md'') (js ''USER.md'')"
  by (simp add: ends_with_def js_def)

lemma prompt_names: "listMdFiles prompt_disk (workspaceEnvDir [js ''d''] (js ''w'')) = [js ''USER.md'']"
  by (simp add: listMdFiles_def read_dir_def is_dir_def list_names_def prompt_disk_def workspace_files_at jm_get_def strict_prefix_def prompt_md)

lemma prompt_team: "readTeam prompt_disk [js ''d''] (js ''t'') = Some \<lparr>tm_name = js ''t'', tm_description = [], tm_expectedWorkspaceKind = js ''person'',
    tm_lead = js ''lead'', tm_agents = [\<lparr>ag_role = js ''lead'', ag_promptFile = js ''lead.md'', ag_model = []\<rparr>]\<rparr>"
  by (simp add: readTeam_def file_read_def prompt_disk_def teamConfigFileYaml_def teamRoot_def node_join_plain jm_get_def)

lemma prompt_file: "text_at raw prompt_disk (node_join (workspaceEnvDir [js ''d''] (js ''w'')) [js ''USER.md'']) = Some (js ''Jo'')"
  by (simp add: text_at_def file_read_def prompt_disk_def workspace_files_at node_join_plain jm_get_def)

lemma prompt_is_complete_witness:
  "\<exists>t. buildSystemPrompt (\<lambda>_. []) prompt_disk [js ''d''] prompt_ws (js ''t'') (js ''lead'') (js ''now'') (js ''UTC'') = Some t
    \<and> sublist (js ''Jo'') t \<and> sublist (cs_usage spec_tap) t"
proof -
  have ws: "wk_id prompt_ws = js ''w''" by (simp add: prompt_ws_def)
  have "\<exists>t. buildSystemPrompt (\<lambda>_. []) prompt_disk [js ''d''] prompt_ws (js ''t'') (js ''lead'') (js ''now'') (js ''UTC'') = Some t"
    by (simp add: buildSystemPrompt_def prompt_team ws prompt_names Let_def env_part_def prompt_file)
  then obtain t where t: "buildSystemPrompt (\<lambda>_. []) prompt_disk [js ''d''] prompt_ws (js ''t'') (js ''lead'') (js ''now'') (js ''UTC'') = Some t" by blast
  have "js ''USER.md'' \<in> set (listMdFiles prompt_disk (workspaceEnvDir [js ''d''] (wk_id prompt_ws)))" "spec_tap \<in> set command_specs"
    by (simp_all add: ws prompt_names command_specs_def)
  from prompt_is_complete [OF t this] show ?thesis
    using t by (auto simp: ws prompt_file)
qed

end
