(* ===== verification/Phones.thy ===== *)
theory Phones
  imports Commands Recent Files
begin

text \<open>
  How the CLI and the orchestrator reach a phone: the CLI's configuration and its sign-in (\<open>config.ts\<close>, \<open>auth.ts\<close>), the
  resolution of a registry's phone to its host and to the host's own id, with its cache (\<open>resolver.ts\<close>), the base URL
  of a command's phone (\<open>host-client.ts\<close>, \<open>tailscale.ts\<close>), the orchestrator's resolution of a number
  (\<open>resolve/phone.ts\<close>) and \<open>GET /phones\<close> (\<open>routes/phones.ts\<close>). The network is a parameter: \<open>net url bearer\<close> is what \<open>fetch\<close>
  gives. The TOML library is one too, \<open>parse\<close> and \<open>stringify\<close> over the values it shares with JSON.
\<close>

section \<open>JavaScript\<close>

text \<open>\<open>a || b\<close>, and \<open>a === b\<close> (two objects are never the same one).\<close>

definition js_or :: "json option \<Rightarrow> json option \<Rightarrow> json option" where
  "js_or a b = (if truthy a then a else b)"

definition js_same :: "json option \<Rightarrow> json option \<Rightarrow> bool" where
  "js_same a b = (a = b \<and> (case a of Some (JArr _) \<Rightarrow> False | Some (JObj _) \<Rightarrow> False | _ \<Rightarrow> True))"

definition env_str :: "(jstr \<times> jstr) list \<Rightarrow> jstr \<Rightarrow> json option" where
  "env_str env k = map_option JStr (jm_get env k)"

text \<open>\<open>vs.find(p => p.k === x)\<close>; \<open>None\<close>: it throws on a \<open>null\<close>.\<close>

fun find_with :: "(json \<Rightarrow> bool) \<Rightarrow> json list \<Rightarrow> json option option" where
  "find_with P [] = Some None"
| "find_with P (v # vs) = (if v = JNull then None else if P v then Some (Some v) else find_with P vs)"

definition null_read :: "jstr \<Rightarrow> jstr" where
  "null_read k = js ''Cannot read properties of null (reading '' @ [39] @ k @ [39] @ js '')''"

section \<open>Configuration\<close>

record cli_config =
  cf_registry_url :: "json option"
  cf_token :: "json option"
  cf_active_phone :: "json option"
  cf_link :: "(jstr \<times> jstr) option"

definition no_config :: cli_config where
  "no_config = \<lparr>cf_registry_url = None, cf_token = None, cf_active_phone = None, cf_link = None\<rparr>"

text \<open>A link of mode \<open>phone\<close>: the host and its phone.\<close>

definition parseLink :: "json option \<Rightarrow> (jstr \<times> jstr) option" where
  "parseLink v = (case v of None \<Rightarrow> None
     | Some l \<Rightarrow> if json_get l (js ''mode'') \<noteq> Some (JStr (js ''phone'')) then None
         else (case (json_get l (js ''host''), json_get l (js ''phone'')) of (Some (JStr h), Some (JStr p)) \<Rightarrow> Some (h, p) | _ \<Rightarrow> None))"

text \<open>The file, when there is one; \<open>None\<close> from \<open>parse\<close>: it throws.\<close>

definition loadConfig :: "(jstr \<Rightarrow> json option) \<Rightarrow> jstr option \<Rightarrow> cli_config" where
  "loadConfig parse file = (case file of None \<Rightarrow> no_config
     | Some raw \<Rightarrow> (case parse raw of None \<Rightarrow> no_config
         | Some t \<Rightarrow> \<lparr>cf_registry_url = json_get t (js ''registry_url''), cf_token = json_get t (js ''token''),
             cf_active_phone = json_get t (js ''active_phone''), cf_link = parseLink (json_get t (js ''link''))\<rparr>))"

definition set_field :: "string \<Rightarrow> json option \<Rightarrow> (jstr \<times> json) list" where
  "set_field k v = (case v of Some j \<Rightarrow> if truthy v then [(js k, j)] else [] | None \<Rightarrow> [])"

definition config_table :: "cli_config \<Rightarrow> json" where
  "config_table c = JObj (set_field ''registry_url'' (cf_registry_url c) @ set_field ''token'' (cf_token c) @ set_field ''active_phone'' (cf_active_phone c)
     @ (case cf_link c of None \<Rightarrow> [] | Some (h, p) \<Rightarrow> [(js ''link'', JObj [(js ''mode'', JStr (js ''phone'')), (js ''host'', JStr h), (js ''phone'', JStr p)])]))"

definition saveConfig :: "(json \<Rightarrow> jstr) \<Rightarrow> cli_config \<Rightarrow> jstr" where
  "saveConfig stringify c = stringify (config_table c)"

record resolved_config =
  rc_registryUrl :: "json option"
  rc_token :: "json option"
  rc_activePhone :: "json option"

definition resolveConfig :: "(jstr \<times> jstr) list \<Rightarrow> jstr option \<Rightarrow> jstr option \<Rightarrow> cli_config \<Rightarrow> resolved_config" where
  "resolveConfig env registry phone config =
     \<lparr>rc_registryUrl = js_or (js_or (env_str env (js ''OTACON_REGISTRY_URL'')) (map_option JStr registry)) (cf_registry_url config),
      rc_token = js_or (env_str env (js ''OTACON_TOKEN'')) (cf_token config),
      rc_activePhone = js_or (js_or (env_str env (js ''OTACON_PHONE'')) (map_option JStr phone)) (cf_active_phone config)\<rparr>"

text \<open>\<open>saveAuth\<close> and \<open>removeAuth\<close>: the file before and after.\<close>

definition saveAuth :: "(jstr \<Rightarrow> json option) \<Rightarrow> (json \<Rightarrow> jstr) \<Rightarrow> jstr \<Rightarrow> jstr \<Rightarrow> jstr option \<Rightarrow> jstr" where
  "saveAuth parse stringify url token file =
     saveConfig stringify ((loadConfig parse file)\<lparr>cf_registry_url := Some (JStr url), cf_token := Some (JStr token)\<rparr>)"

definition removeAuth :: "(jstr \<Rightarrow> json option) \<Rightarrow> (json \<Rightarrow> jstr) \<Rightarrow> jstr option \<Rightarrow> jstr" where
  "removeAuth parse stringify file = saveConfig stringify ((loadConfig parse file)\<lparr>cf_token := None\<rparr>)"

text \<open>What \<open>whoami\<close> shows of a token: none, its start, or it throws (\<open>None\<close>; a number has no \<open>slice\<close>).\<close>

definition token_prefix :: "json option \<Rightarrow> jstr option option" where
  "token_prefix v = (if \<not> truthy v then Some None
     else (case v of Some (JStr s) \<Rightarrow> Some (Some (take 16 s @ js ''...''))
       | Some (JArr vs) \<Rightarrow> Some (Some (js_string (JArr (take 16 vs)) @ js ''...'')) | _ \<Rightarrow> None))"

section \<open>Sign-in\<close>

text \<open>
  \<open>registerClient\<close>: \<open>polls n\<close> is the answer to the \<open>n\<close>th poll. Not returning is the value \<open>None\<close>; a returned value is the error
  thrown or the token.
\<close>

definition poll_answer :: "fetched \<Rightarrow> (jstr + json) option" where
  "poll_answer f = (case f of Unreachable m \<Rightarrow> Some (Inl m)
     | Answer a \<Rightarrow> if \<not> ha_ok a then Some (Inl (js ''Poll failed: '' @ http_status a))
         else (case ha_json a of Inl m \<Rightarrow> Some (Inl m)
           | Inr j \<Rightarrow> if j = JNull then Some (Inl (null_read (js ''status'')))
               else if json_get j (js ''status'') = Some (JStr (js ''approved'')) \<and> truthy (json_get j (js ''token'')) then Some (Inr (the (json_get j (js ''token''))))
               else if json_get j (js ''status'') = Some (JStr (js ''rejected'')) then Some (Inl (js ''Registration was rejected by admin''))
               else None))"

partial_function (option) poll_from :: "(nat \<Rightarrow> fetched) \<Rightarrow> nat \<Rightarrow> (jstr + json) option" where
  "poll_from polls n = (case poll_answer (polls n) of Some r \<Rightarrow> Some r | None \<Rightarrow> poll_from polls (Suc n))"

definition registerClient :: "fetched \<Rightarrow> (nat \<Rightarrow> fetched) \<Rightarrow> (jstr + json) option" where
  "registerClient submit polls = (case submit of Unreachable m \<Rightarrow> Some (Inl m)
     | Answer a \<Rightarrow> if \<not> ha_ok a then Some (Inl (js ''Registration failed: '' @ http_status a @ js '' '' @ ha_text a))
         else (case ha_json a of Inl m \<Rightarrow> Some (Inl m)
           | Inr j \<Rightarrow> if j = JNull then Some (Inl (js ''Cannot destructure property'')) else poll_from polls 0))"

section \<open>A registry's phone on its host\<close>

type_synonym net = "jstr \<Rightarrow> jstr option \<Rightarrow> fetched"

text \<open>
  The host's own id: by serial, by registry id, by the same id; the registry's id when the host's list can't be read.
\<close>

definition local_phone :: "json option \<Rightarrow> json option \<Rightarrow> fetched \<Rightarrow> json option" where
  "local_phone serial i f = (case f of Unreachable _ \<Rightarrow> i
     | Answer a \<Rightarrow> if \<not> ha_ok a then i
         else (case ha_json a of
             Inr (JArr ps) \<Rightarrow>
               (case (if truthy serial then find_with (\<lambda>p. js_same (json_get p (js ''adb_serial'')) serial) ps else Some None) of
                   None \<Rightarrow> i
                 | Some (Some p) \<Rightarrow> json_get p (js ''id'')
                 | Some None \<Rightarrow>
                     (case find_with (\<lambda>p. js_same (json_get p (js ''registry_id'')) i) ps of
                         None \<Rightarrow> i
                       | Some (Some p) \<Rightarrow> json_get p (js ''id'')
                       | Some None \<Rightarrow> (case find_with (\<lambda>p. js_same (json_get p (js ''id'')) i) ps of
                             Some (Some p) \<Rightarrow> nullish_or (json_get p (js ''id'')) i | _ \<Rightarrow> i)))
           | _ \<Rightarrow> i))"

definition registry_error :: "phone_answer \<Rightarrow> jstr option" where
  "registry_error a = (if ha_ok a then None else Some (if ha_text a \<noteq> [] then ha_text a else http_status a))"

text \<open>\<open>RegistryClient.getPhone\<close>\<close>

definition getPhone :: "net \<Rightarrow> jstr \<Rightarrow> jstr \<Rightarrow> jstr \<Rightarrow> jstr + json" where
  "getPhone net url token i = (case encodeURIComponent i of None \<Rightarrow> Inl (js ''URI malformed'')
     | Some e \<Rightarrow> (case net (url @ js ''/api/v1/admin/phones/'' @ e) (Some token) of Unreachable m \<Rightarrow> Inl m
         | Answer a \<Rightarrow> (case registry_error a of Some m \<Rightarrow> Inl m | None \<Rightarrow> ha_json a)))"

text \<open>A resolved phone: its host's URL and its id there. The cache: when each was resolved.\<close>

type_synonym place = "jstr \<times> json option"

type_synonym place_cache = "(jstr \<times> place \<times> int) list"

definition TTL_MS :: int where
  "TTL_MS = 5 * 60 * 1000"

definition fresh_place :: "net \<Rightarrow> jstr \<Rightarrow> jstr \<Rightarrow> jstr \<Rightarrow> jstr + place" where
  "fresh_place net url token i = (case getPhone net url token i of Inl m \<Rightarrow> Inl m
     | Inr JNull \<Rightarrow> Inl (null_read (js ''host''))
     | Inr detail \<Rightarrow>
        (case json_get detail (js ''host'') of
            None \<Rightarrow> Inl (js ''Phone '' @ i @ js '' has no connected host (status: '' @ js_string_opt (json_get detail (js ''status'')) @ js '')'')
          | Some host \<Rightarrow>
              if \<not> truthy (Some host) then Inl (js ''Phone '' @ i @ js '' has no connected host (status: '' @ js_string_opt (json_get detail (js ''status'')) @ js '')'')
              else if \<not> truthy (json_get host (js ''address'')) then
                Inl (js ''Phone '' @ i @ js '': host '' @ [39] @ js_string_opt (nullish_or (json_get host (js ''id'')) (Some (JStr (js ''?'')))) @ [39]
                  @ js '' has no registered address. The host needs to call POST /api/v1/hosts/identity with its address. ''
                  @ js ''Try restarting the host'' @ [39] @ js ''s otacon container so it re-registers.'')
              else (let hostUrl = js ''https://'' @ js_string_opt (json_get host (js ''address'')) @ js '':''
                      @ js_string_opt (nullish_or (json_get host (js ''api_port'')) (Some (JNum 8080)))
                    in Inr (hostUrl, local_phone (json_get detail (js ''adb_serial'')) (Some (JStr i)) (net (hostUrl @ js ''/phones'') None)))))"

text \<open>\<open>now\<close> and \<open>later\<close> are the clock before and after the requests.\<close>

definition resolvePhone :: "net \<Rightarrow> jstr \<Rightarrow> jstr \<Rightarrow> int \<Rightarrow> int \<Rightarrow> jstr \<Rightarrow> place_cache \<Rightarrow> (jstr + place) \<times> place_cache" where
  "resolvePhone net url token now later i cache =
     (let again = (case fresh_place net url token i of
          Inl m \<Rightarrow> (Inl m, cache) | Inr p \<Rightarrow> (Inr p, jm_set i (p, later) cache))
      in case jm_get cache i of
          Some (p, since) \<Rightarrow> if now - since < TTL_MS then (Inr p, cache) else again
        | None \<Rightarrow> again)"

section \<open>The phone of a command\<close>

text \<open>\<open>tsFqdn\<close>: \<open>ts\<close> is what \<open>tailscale status --json\<close> prints, when it can be run and read.\<close>

definition strip_dot :: "jstr \<Rightarrow> jstr" where
  "strip_dot s = (if ends_with (js ''.'') s then butlast s else s)"

definition tailscale_name :: "json option \<Rightarrow> jstr \<Rightarrow> jstr option" where
  "tailscale_name ts h = (case ts of None \<Rightarrow> None
     | Some st \<Rightarrow> (case json_get st (js ''Peer'') of
         Some (JObj ps) \<Rightarrow> (case find_with (\<lambda>p. json_get p (js ''HostName'') = Some (JStr h)) (map snd ps) of
             Some (Some p) \<Rightarrow> (case json_get p (js ''DNSName'') of Some (JStr d) \<Rightarrow> Some (strip_dot d) | _ \<Rightarrow> None)
           | _ \<Rightarrow> None)
       | _ \<Rightarrow> None))"

definition tsFqdn :: "json option \<Rightarrow> jstr \<Rightarrow> (jstr \<times> jstr) list \<Rightarrow> jstr \<times> (jstr \<times> jstr) list" where
  "tsFqdn ts h cache = (case jm_get cache h of
      Some (c # cs) \<Rightarrow> (c # cs, cache)
    | _ \<Rightarrow> (case tailscale_name ts h of Some d \<Rightarrow> (d, jm_set h d cache) | None \<Rightarrow> (h, jm_set h h cache)))"

definition piUrl :: "json option \<Rightarrow> jstr \<Rightarrow> int \<Rightarrow> (jstr \<times> jstr) list \<Rightarrow> jstr" where
  "piUrl ts h port cache = js ''https://'' @ fst (tsFqdn ts h cache) @ js '':'' @ dec_int port"

record cli_opts =
  co_host :: "jstr option"
  co_phone :: "jstr option"
  co_registry :: "jstr option"

definition host_of_link :: "jstr \<Rightarrow> jstr" where
  "host_of_link s = rev (dropWhile (\<lambda>c. c = 47) (rev s))"

definition phone_url :: "jstr \<Rightarrow> jstr \<Rightarrow> jstr + jstr" where
  "phone_url host i = (case encodeURIComponent i of None \<Rightarrow> Inl (js ''URI malformed'') | Some e \<Rightarrow> Inr (host @ js ''/phones/'' @ e))"

text \<open>\<open>getHostClient\<close>: the client's base URL, or what it throws.\<close>

definition getHostClient :: "net \<Rightarrow> json option \<Rightarrow> (jstr \<times> jstr) list \<Rightarrow> int \<Rightarrow> int \<Rightarrow> cli_opts \<Rightarrow> cli_config \<Rightarrow> place_cache \<Rightarrow> (jstr + jstr) \<times> place_cache" where
  "getHostClient net ts env now later opts config cache =
     (let direct = js_or (map_option JStr (co_host opts)) (env_str env (js ''OTACON_HOST'')) in
      if truthy direct then (Inr (js_string_opt direct), cache)
      else (case cf_link config of
          Some (host, phone) \<Rightarrow>
            (phone_url (host_of_link host) (js_string_opt (js_or (js_or (map_option JStr (co_phone opts)) (env_str env (js ''OTACON_PHONE''))) (Some (JStr phone)))), cache)
        | None \<Rightarrow>
            (let rc = resolveConfig env (co_registry opts) (co_phone opts) config in
             if truthy (rc_registryUrl rc) \<and> truthy (rc_token rc) then
               (if \<not> truthy (rc_activePhone rc) then (Inl (js ''No active phone. Set OTACON_PHONE, pass --phone, or run `otacon phones use <id>`''), cache)
                else (case resolvePhone net (js_string_opt (rc_registryUrl rc)) (js_string_opt (rc_token rc)) now later (js_string_opt (rc_activePhone rc)) cache of
                    (Inl m, c) \<Rightarrow> (Inl m, c)
                  | (Inr (hostUrl, i), c) \<Rightarrow> (phone_url hostUrl (js_string_opt i), c)))
             else (Inr (piUrl ts (js ''otacon-pi'') 8080 []), cache))))"

section \<open>The orchestrator's configuration\<close>

text \<open>\<open>raw.match(/^key\s*=\s*"([^"]*)"/m)\<close>: the value, at the start of a line and anywhere.\<close>

definition quoted_value :: "jstr \<Rightarrow> jstr \<Rightarrow> jstr option" where
  "quoted_value key s = (case after key s of None \<Rightarrow> None
     | Some r \<Rightarrow> (case dropWhile js_space r of [] \<Rightarrow> None
         | c # r1 \<Rightarrow> if c \<noteq> 61 then None
             else (case dropWhile js_space r1 of [] \<Rightarrow> None
               | q # r2 \<Rightarrow> if q = 34 \<and> 34 \<in> set r2 then Some (takeWhile (\<lambda>x. x \<noteq> 34) r2) else None)))"

fun toml_get :: "jstr \<Rightarrow> bool \<Rightarrow> jstr \<Rightarrow> jstr option" where
  "toml_get key at_start s = (case (if at_start then quoted_value key s else None) of
      Some v \<Rightarrow> Some v
    | None \<Rightarrow> (case s of [] \<Rightarrow> None | c # cs \<Rightarrow> toml_get key (line_end c) cs))"

declare toml_get.simps [simp del]

definition or_else :: "jstr option \<Rightarrow> jstr option \<Rightarrow> jstr option" where
  "or_else a b = (if or_empty a \<noteq> [] then a else b)"

text \<open>The registry's URL and the token; \<open>file\<close> is the configuration file, when it can be read.\<close>

definition loadOtaconConfig :: "(jstr \<times> jstr) list \<Rightarrow> jstr option \<Rightarrow> jstr option \<times> jstr option" where
  "loadOtaconConfig env file = (let url = jm_get env (js ''OTACON_REGISTRY_URL''); token = jm_get env (js ''OTACON_TOKEN'') in
     if or_empty url \<noteq> [] \<and> or_empty token \<noteq> [] then (url, token)
     else (case file of None \<Rightarrow> (url, token)
       | Some raw \<Rightarrow> (or_else url (toml_get (js ''registry_url'') True raw), or_else token (toml_get (js ''token'') True raw))))"

section \<open>A number's phone\<close>

record resolved_phone =
  rp_phoneId :: "json option"
  rp_localPhoneId :: "json option"
  rp_hostUrl :: jstr
  rp_baseUrl :: jstr

text \<open>The first connected phone with the number, or else the first one.\<close>

definition pick_phone :: "jstr \<Rightarrow> json list \<Rightarrow> jstr + json option" where
  "pick_phone number ps =
     (let has = (\<lambda>p. json_get p (js ''phone_number'') = Some (JStr number)) in
      case find_with (\<lambda>p. has p \<and> json_get p (js ''status'') = Some (JStr (js ''connected''))) ps of
        None \<Rightarrow> Inl (null_read (js ''phone_number''))
      | Some (Some p) \<Rightarrow> Inr (Some p)
      | Some None \<Rightarrow> (case find_with has ps of None \<Rightarrow> Inl (null_read (js ''phone_number'')) | Some q \<Rightarrow> Inr q))"

definition host_of_phone :: "net \<Rightarrow> jstr \<Rightarrow> jstr \<Rightarrow> json \<Rightarrow> jstr + resolved_phone" where
  "host_of_phone net url token p = (let i = json_get p (js ''id''); hid = json_get p (js ''host_id'') in
     if \<not> truthy hid then Inl (js ''Phone '' @ [34] @ js_string_opt i @ [34] @ js '' has no host_id '' @ [8212] @ js '' not connected to any host'')
     else (case encodeURIComponent (js_string_opt hid) of None \<Rightarrow> Inl (js ''URI malformed'')
       | Some e \<Rightarrow> (case net (url @ js ''/api/v1/admin/hosts/'' @ e) (Some token) of Unreachable m \<Rightarrow> Inl m
           | Answer a \<Rightarrow> if \<not> ha_ok a then Inl (js ''Registry host lookup failed for '' @ [34] @ js_string_opt hid @ [34] @ js '': '' @ http_status a)
               else (case ha_json a of Inl m \<Rightarrow> Inl m
                 | Inr h \<Rightarrow> if h = JNull then Inl (null_read (js ''address''))
                     else if \<not> truthy (json_get h (js ''address'')) then Inl (js ''Host '' @ [34] @ js_string_opt (json_get h (js ''id'')) @ [34] @ js '' has no address'')
                     else (let hostUrl = js ''https://'' @ js_string_opt (json_get h (js ''address'')) @ js '':'' @ js_string_opt (json_get h (js ''api_port''));
                             l = local_phone (json_get p (js ''adb_serial'')) i (net (hostUrl @ js ''/phones'') None)
                           in Inr \<lparr>rp_phoneId = i, rp_localPhoneId = l, rp_hostUrl = hostUrl, rp_baseUrl = hostUrl @ js ''/phones/'' @ js_string_opt l\<rparr>)))))"

definition resolve_number :: "net \<Rightarrow> (jstr \<times> jstr) list \<Rightarrow> jstr option \<Rightarrow> jstr \<Rightarrow> jstr + resolved_phone" where
  "resolve_number net env file number = (case loadOtaconConfig env file of (url, token) \<Rightarrow>
     if or_empty url = [] then Inl (js ''Cannot resolve phone: OTACON_REGISTRY_URL not set and ~/.otacon/config.toml has no registry_url'')
     else if or_empty token = [] then Inl (js ''Cannot resolve phone: OTACON_TOKEN not set and ~/.otacon/config.toml has no token'')
     else (case net (or_empty url @ js ''/api/v1/admin/phones'') token of Unreachable m \<Rightarrow> Inl m
       | Answer a \<Rightarrow> if \<not> ha_ok a then Inl (js ''Registry phones list failed: '' @ http_status a)
           else (case ha_json a of
               Inl m \<Rightarrow> Inl m
             | Inr (JArr ps) \<Rightarrow> (case pick_phone number ps of Inl m \<Rightarrow> Inl m
                 | Inr None \<Rightarrow> Inl (js ''No phone found with number '' @ [34] @ number @ [34] @ js '' in registry'')
                 | Inr (Some p) \<Rightarrow> host_of_phone net (or_empty url) (or_empty token) p)
             | Inr JNull \<Rightarrow> Inl (null_read (js ''find''))
             | Inr _ \<Rightarrow> Inl (js ''phones.find is not a function''))))"

section \<open>GET /phones\<close>

record phone_summary =
  ps_phoneNumber :: jstr
  ps_status :: jstr
  ps_registryId :: "json option"
  ps_displayLabel :: jstr
  ps_hostId :: json

datatype phones_response = PR_error error_code | PR_phones "phone_summary list"

definition loadRegistryConfig :: "(jstr \<times> jstr) list \<Rightarrow> jstr option \<Rightarrow> jstr option \<times> jstr option" where
  "loadRegistryConfig env file = loadOtaconConfig env file"

text \<open>The map of hosts by id: a later host with the same id counts; the loop ends at a \<open>null\<close>.\<close>

definition host_named :: "fetched \<Rightarrow> json option \<Rightarrow> json option" where
  "host_named f i = (case f of Answer a \<Rightarrow> if \<not> ha_ok a then None
       else (case ha_json a of Inr (JArr hs) \<Rightarrow> find (\<lambda>h. js_same (json_get h (js ''id'')) i) (rev (takeWhile (\<lambda>h. h \<noteq> JNull) hs)) | _ \<Rightarrow> None)
     | Unreachable _ \<Rightarrow> None)"

definition phone_status :: "json \<Rightarrow> jstr" where
  "phone_status p = (if json_get p (js ''status'') = Some (JStr (js ''connected'')) then js ''online''
     else if json_get p (js ''status'') = Some (JStr (js ''disconnected'')) then js ''offline'' else js ''unreachable'')"

definition get_opt :: "json option \<Rightarrow> string \<Rightarrow> json option" where
  "get_opt v k = (case v of None \<Rightarrow> None | Some j \<Rightarrow> json_get j (js k))"

definition summary :: "fetched \<Rightarrow> json \<Rightarrow> phone_summary" where
  "summary hosts p = (let number = js_string_opt (json_get p (js ''phone_number'')); hid = json_get p (js ''host_id'');
       host = (if truthy hid then host_named hosts hid else None);
       label = js_or (js_or (js_or (get_opt host ''display_label'') (get_opt host ''hostname'')) hid) (Some (JStr []));
       start = number @ js '' '' @ [8212] @ js '' '' @ js_string_opt (json_get p (js ''id''))
     in \<lparr>ps_phoneNumber = number, ps_status = phone_status p, ps_registryId = json_get p (js ''id''),
         ps_displayLabel = (if truthy label then start @ js '' ('' @ js_string_opt label @ js '')'' else start),
         ps_hostId = the (nullish_or hid (Some JNull))\<rparr>)"

text \<open>
  The handler; \<open>None\<close>: it throws (500). The registry's phone numbers are texts or \<open>null\<close>. \<open>collate\<close> ranks texts as \<open>localeCompare\<close> does.
\<close>

definition get_phones :: "net \<Rightarrow> (jstr \<Rightarrow> nat) \<Rightarrow> (jstr \<times> jstr) list \<Rightarrow> jstr option \<Rightarrow> phones_response option" where
  "get_phones net collate env file = (case loadRegistryConfig env file of (url, token) \<Rightarrow>
     if or_empty url = [] \<or> or_empty token = [] then Some (PR_error Phones_unavailable)
     else (case net (or_empty url @ js ''/api/v1/admin/phones'') token of
         Unreachable _ \<Rightarrow> Some (PR_error Phones_unavailable)
       | Answer a \<Rightarrow> if \<not> ha_ok a then Some (PR_error Phones_unavailable)
           else (case ha_json a of
               Inr (JArr ps) \<Rightarrow>
                 if JNull \<in> set ps then None
                 else (let numbered = filter (\<lambda>p. truthy (json_get p (js ''phone_number''))) ps;
                         hosts = (if list_ex (\<lambda>p. truthy (json_get p (js ''host_id''))) numbered
                           then net (or_empty url @ js ''/api/v1/admin/hosts'') token else Unreachable [])
                       in Some (PR_phones (sort_key (\<lambda>s. collate (ps_phoneNumber s)) (map (summary hosts) numbered))))
             | _ \<Rightarrow> Some (PR_error Phones_unavailable))))"

end
