(* ===== verification/PhonesRun.thy ===== *)
theory PhonesRun
  imports Phones
begin

text \<open>
  Properties of how phones are reached: the CLI's sign-in and its configuration, the cache of resolved phones, the
  agreement of the CLI's and the orchestrator's resolutions, and the list of phones.
\<close>

section \<open>Configuration\<close>

text \<open>A configuration of texts, as the CLI writes it: what is there is not empty.\<close>

definition text_field :: "json option \<Rightarrow> bool" where
  "text_field v = (case v of None \<Rightarrow> True | Some (JStr s) \<Rightarrow> s \<noteq> [] | _ \<Rightarrow> False)"

definition text_config :: "cli_config \<Rightarrow> bool" where
  "text_config c = (text_field (cf_registry_url c) \<and> text_field (cf_token c) \<and> text_field (cf_active_phone c))"

lemma text_field_cases: "text_field v \<Longrightarrow> v = None \<or> (\<exists>s. v = Some (JStr s) \<and> s \<noteq> [])"
  by (auto simp: text_field_def split: option.splits json.splits)

lemma set_field_text: "text_field v \<Longrightarrow> set_field k v = (case v of None \<Rightarrow> [] | Some j \<Rightarrow> [(js k, j)])"
  by (auto simp: set_field_def dest!: text_field_cases)

lemma parseLink_table: "parseLink (Some (JObj [(js ''mode'', JStr (js ''phone'')), (js ''host'', JStr h), (js ''phone'', JStr p)])) = Some (h, p)"
  by (simp add: parseLink_def jm_get_def)

lemma table_reads_back:
  assumes "text_config c" "parse raw = Some (config_table c)"
  shows "loadConfig parse (Some raw) = c"
proof -
  have f: "text_field (cf_registry_url c)" "text_field (cf_token c)" "text_field (cf_active_phone c)" using assms(1) by (simp_all add: text_config_def)
  let ?l = "case cf_link c of None \<Rightarrow> [] | Some (h, p) \<Rightarrow> [(js ''link'', JObj [(js ''mode'', JStr (js ''phone'')), (js ''host'', JStr h), (js ''phone'', JStr p)])]"
  have t: "config_table c = JObj ((case cf_registry_url c of None \<Rightarrow> [] | Some j \<Rightarrow> [(js ''registry_url'', j)]) @ (case cf_token c of None \<Rightarrow> [] | Some j \<Rightarrow> [(js ''token'', j)])
      @ (case cf_active_phone c of None \<Rightarrow> [] | Some j \<Rightarrow> [(js ''active_phone'', j)]) @ ?l)"
    using f by (simp add: config_table_def set_field_text)
  have "parseLink (json_get (config_table c) (js ''link'')) = cf_link c"
    unfolding t by (cases "cf_registry_url c"; cases "cf_token c"; cases "cf_active_phone c"; cases "cf_link c")
      (auto simp: jm_get_def parseLink_table, auto simp: parseLink_def)
  moreover have "json_get (config_table c) (js ''registry_url'') = cf_registry_url c" "json_get (config_table c) (js ''token'') = cf_token c"
      "json_get (config_table c) (js ''active_phone'') = cf_active_phone c"
    unfolding t by (cases "cf_registry_url c"; cases "cf_token c"; cases "cf_active_phone c"; cases "cf_link c"; auto simp: jm_get_def)+
  ultimately show ?thesis using assms(2) by (cases c) (simp add: loadConfig_def)
qed

text \<open>
  Signing in and out keeps the rest. With a TOML library that reads back what it writes, the file after \<open>otacon login\<close> holds
  the registry and the token, and everything else as it was; the token alone is gone after \<open>otacon logout\<close>.
\<close>

lemma login_reads_back:
  assumes "\<And>c. text_config c \<Longrightarrow> parse (stringify (config_table c)) = Some (config_table c)"
    and "text_config (loadConfig parse file)" "url \<noteq> []" "token \<noteq> []"
  shows "loadConfig parse (Some (saveAuth parse stringify url token file))
      = (loadConfig parse file)\<lparr>cf_registry_url := Some (JStr url), cf_token := Some (JStr token)\<rparr>
    \<and> loadConfig parse (Some (removeAuth parse stringify (Some (saveAuth parse stringify url token file))))
      = (loadConfig parse file)\<lparr>cf_registry_url := Some (JStr url), cf_token := None\<rparr>"
proof -
  let ?c = "(loadConfig parse file)\<lparr>cf_registry_url := Some (JStr url), cf_token := Some (JStr token)\<rparr>"
  have c: "text_config ?c" "text_config (?c\<lparr>cf_token := None\<rparr>)" using assms(2-4) by (simp_all add: text_config_def text_field_def)
  have 1: "loadConfig parse (Some (saveAuth parse stringify url token file)) = ?c"
    unfolding saveAuth_def saveConfig_def by (rule table_reads_back [OF c(1)]) (rule assms(1) [OF c(1)])
  have "loadConfig parse (Some (stringify (config_table (?c\<lparr>cf_token := None\<rparr>)))) = ?c\<lparr>cf_token := None\<rparr>"
    by (rule table_reads_back [OF c(2)]) (rule assms(1) [OF c(2)])
  then show ?thesis using 1 by (simp add: removeAuth_def saveConfig_def)
qed

lemma table_ok: "text_config c \<Longrightarrow> json_ok (config_table c)"
  by (auto simp: text_config_def config_table_def set_field_text dest!: text_field_cases split: option.splits)

lemma login_reads_back_witness:
  "loadConfig json_parse (Some (saveAuth json_parse (json_pretty 0) (js ''https://r'') (js ''t1'') None))
    = \<lparr>cf_registry_url = Some (JStr (js ''https://r'')), cf_token = Some (JStr (js ''t1'')), cf_active_phone = None, cf_link = None\<rparr>"
  using login_reads_back [of json_parse "json_pretty 0" None "js ''https://r''" "js ''t1''"]
  by (simp add: json_parse_pretty table_ok loadConfig_def no_config_def text_config_def text_field_def)

section \<open>Sign-in\<close>

lemma poll_from_step: "poll_answer (polls n) = None \<Longrightarrow> poll_from polls n = poll_from polls (Suc n)"
  by (subst poll_from.simps) simp

lemma poll_from_found: "poll_answer (polls (n + k)) = Some r \<Longrightarrow> (\<And>m. m < k \<Longrightarrow> poll_answer (polls (n + m)) = None) \<Longrightarrow> poll_from polls n = Some r"
proof (induction k arbitrary: n)
  case 0
  then show ?case by (subst poll_from.simps) simp
next
  case (Suc k)
  have "poll_from polls (Suc n) = Some r"
  proof (rule Suc.IH)
    show "poll_answer (polls (Suc n + k)) = Some r" using Suc.prems(1) by simp
    show "poll_answer (polls (Suc n + m)) = None" if "m < k" for m using Suc.prems(2) [of "Suc m"] that by simp
  qed
  then show ?case using poll_from_step [of polls n] Suc.prems(2) [of 0] by simp
qed

definition first_answer :: "(nat \<Rightarrow> fetched) \<Rightarrow> nat \<Rightarrow> jstr + json \<Rightarrow> bool" where
  "first_answer polls n r = (\<exists>k. poll_answer (polls (n + k)) = Some r \<and> (\<forall>m<k. poll_answer (polls (n + m)) = None))"

lemma first_answer_step: "(case poll_answer (polls n) of Some x \<Rightarrow> x = r | None \<Rightarrow> first_answer polls (Suc n) r) \<Longrightarrow> first_answer polls n r"
proof (cases "poll_answer (polls n)")
  case None
  assume "case poll_answer (polls n) of Some x \<Rightarrow> x = r | None \<Rightarrow> first_answer polls (Suc n) r"
  then obtain k where k: "poll_answer (polls (Suc n + k)) = Some r" "\<And>m. m < k \<Longrightarrow> poll_answer (polls (Suc n + m)) = None"
    using None by (auto simp: first_answer_def)
  have "\<forall>m<Suc k. poll_answer (polls (n + m)) = None"
  proof (intro allI impI)
    fix m show "poll_answer (polls (n + m)) = None" if "m < Suc k" using None k(2) that by (cases m) auto
  qed
  then show ?thesis using k(1) unfolding first_answer_def by (intro exI [of _ "Suc k"]) simp
next
  case (Some x)
  assume "case poll_answer (polls n) of Some x \<Rightarrow> x = r | None \<Rightarrow> first_answer polls (Suc n) r"
  then show ?thesis using Some unfolding first_answer_def by (intro exI [of _ 0]) simp
qed

lemma poll_from_only: "poll_from polls n = Some r \<Longrightarrow> first_answer polls n r"
  by (erule poll_from.raw_induct [rotated, where P = first_answer]) (rule first_answer_step, auto split: option.splits)



section \<open>The cache\<close>

text \<open>
  A resolved phone is reused for five minutes. After a phone was looked up, its place is given again without the network
  for five minutes, whatever the registry and the host say by then; later on it is looked up again. Other phones'
  entries aren't touched.
\<close>

lemma resolution_is_reused:
  assumes "resolvePhone net url token now later i cache = (Inr p, c1)" "\<And>q s. jm_get cache i = Some (q, s) \<Longrightarrow> TTL_MS \<le> now - s"
  shows "(t - later < TTL_MS \<longrightarrow> resolvePhone net1 url1 token1 t t1 i c1 = (Inr p, c1))
    \<and> (TTL_MS \<le> t - later \<longrightarrow> fst (resolvePhone net1 url1 token1 t t1 i c1) = fresh_place net1 url1 token1 i)
    \<and> (\<forall>j. j \<noteq> i \<longrightarrow> jm_get c1 j = jm_get cache j)"
proof -
  have "c1 = jm_set i (p, later) cache"
    using assms by (auto simp: resolvePhone_def Let_def split: option.splits sum.splits prod.splits if_splits)
  then show ?thesis by (auto simp: resolvePhone_def Let_def jmap.get_put split: sum.splits)
qed

text \<open>A registry with one host and its phone.\<close>

definition net_w :: net where
  "net_w url bearer = (if bearer = None then Answer \<lparr>ha_status = 200, ha_json = Inr (JArr [JObj [(js ''id'', JStr (js ''phone-ab'')), (js ''adb_serial'', JStr (js ''AB''))]]), ha_text = [], ha_bytes = []\<rparr>
     else if url = js ''r/api/v1/admin/phones/phone-4'' then Answer \<lparr>ha_status = 200, ha_json = Inr (JObj [(js ''adb_serial'', JStr (js ''AB'')), (js ''host'', JObj [(js ''address'', JStr (js ''h'')), (js ''api_port'', JNum 1)])]), ha_text = [], ha_bytes = []\<rparr>
     else Answer \<lparr>ha_status = 200, ha_json = Inr (JObj [(js ''address'', JStr (js ''h'')), (js ''api_port'', JNum 1)]), ha_text = [], ha_bytes = []\<rparr>)"

lemma encode_w: "encodeURIComponent (js ''phone-4'') = Some (js ''phone-4'')" "encodeURIComponent (js ''h1'') = Some (js ''h1'')"
  by (simp_all add: js_def uri_plain_def is_digit_def is_lower_def is_upper_def)

lemma phone_url_w: "js ''r'' @ js ''/api/v1/admin/phones/'' @ js ''phone-4'' = js ''r/api/v1/admin/phones/phone-4''"
  by (simp add: js_def)

lemma fresh_w: "fresh_place net_w (js ''r'') (js ''k'') (js ''phone-4'') = Inr (js ''https://h:1'', Some (JStr (js ''phone-ab'')))"
proof -
  have "getPhone net_w (js ''r'') (js ''k'') (js ''phone-4'') = Inr (JObj [(js ''adb_serial'', JStr (js ''AB'')), (js ''host'', JObj [(js ''address'', JStr (js ''h'')), (js ''api_port'', JNum 1)])])"
    by (simp add: getPhone_def encode_w net_w_def registry_error_def ha_ok_def phone_url_w)
  moreover have "js ''https://'' @ js ''h'' @ js '':'' @ dec_int 1 = js ''https://h:1''" by (simp add: js_def dec_int_def dec_nat.simps)
  ultimately show ?thesis
    by (simp add: fresh_place_def jm_get_def js_string_opt_def Let_def local_phone_def net_w_def ha_ok_def js_same_def)
qed

lemma resolution_is_reused_witness:
  "\<exists>p c1. resolvePhone net_w (js ''r'') (js ''k'') 0 1 (js ''phone-4'') [] = (Inr p, c1)
    \<and> resolvePhone (\<lambda>_ _. Unreachable []) (js ''r'') (js ''k'') 299999 299999 (js ''phone-4'') c1 = (Inr p, c1)"
proof -
  have r: "resolvePhone net_w (js ''r'') (js ''k'') 0 1 (js ''phone-4'') [] = (Inr (js ''https://h:1'', Some (JStr (js ''phone-ab''))), [(js ''phone-4'', (js ''https://h:1'', Some (JStr (js ''phone-ab''))), 1)])"
    by (simp add: resolvePhone_def fresh_w jm_get_def jm_set_def Let_def)
  from resolution_is_reused [OF r, of 299999] show ?thesis using r by (auto simp: jm_get_def TTL_MS_def)
qed

section \<open>The two resolutions\<close>

lemma encode_plain: "list_all uri_plain s \<Longrightarrow> encodeURIComponent s = Some s"
  by (induction s) auto


definition phone_w :: json where
  "phone_w = JObj [(js ''id'', JStr (js ''phone-4'')), (js ''host_id'', JStr (js ''h1'')), (js ''adb_serial'', JStr (js ''AB''))]"


section \<open>The orchestrator's reading of the configuration\<close>

text \<open>Lines as the TOML library writes texts: a key, an equals sign and a quoted value.\<close>

definition toml_line :: "jstr \<times> jstr \<Rightarrow> jstr" where
  "toml_line kv = fst kv @ [32, 61, 32, 34] @ snd kv @ [34]"

definition toml_key :: "jstr \<Rightarrow> bool" where
  "toml_key k = list_all (\<lambda>c. \<not> js_space c \<and> c \<noteq> 61) k"

definition toml_ok :: "jstr \<times> jstr \<Rightarrow> bool" where
  "toml_ok kv = (toml_key (fst kv) \<and> list_all (\<lambda>c. c \<noteq> 34 \<and> \<not> line_end c) (snd kv))"

lemma space_not: "js_space 32" "\<not> js_space 61" "\<not> js_space 34" "\<not> line_end 32" "\<not> line_end 61" "\<not> line_end 34" "line_end 10"
  by (simp_all add: js_space_def line_end_def)

lemma line_end_is_space: "line_end c \<Longrightarrow> js_space c"
  by (auto simp: line_end_def js_space_def)

lemma quoted_value_line:
  assumes "toml_ok kv" "toml_key key"
  shows "quoted_value key (toml_line kv @ t) = (if key = fst kv then Some (snd kv) else None)"
proof -
  obtain k v where kv: "kv = (k, v)" by (cases kv)
  have k: "list_all (\<lambda>c. \<not> js_space c \<and> c \<noteq> 61) k" and v: "list_all (\<lambda>c. c \<noteq> 34 \<and> \<not> line_end c) v"
    using assms(1) by (simp_all add: toml_ok_def toml_key_def kv)
  let ?z = "[61, 32, 34] @ v @ [34] @ t"
  have s: "toml_line kv @ t = k @ 32 # ?z" by (simp add: toml_line_def kv)
  have val: "takeWhile (\<lambda>x. x \<noteq> 34) (v @ 34 # t) = v" using v by (simp add: takeWhile_append2 list_all_iff)
  show ?thesis
  proof (cases "starts_with key (k @ 32 # ?z)")
    case False
    then have "key \<noteq> k" by (auto simp: starts_with_def)
    then show ?thesis using False unfolding s by (simp add: quoted_value_def after_def kv)
  next
    case True
    then have key: "take (length key) (k @ 32 # ?z) = key" by (simp add: starts_with_def)
    have "\<not> length k < length key"
    proof
      assume l: "length k < length key"
      then have "(take (length key) (k @ 32 # ?z)) ! length k = 32" by (simp add: nth_append)
      then have "32 \<in> set key" using key l nth_mem by metis
      then show False using assms(2) space_not by (auto simp: toml_key_def list_all_iff)
    qed
    then consider "key = k" | "length key < length k" using key by (cases "length key = length k") auto
    then show ?thesis
    proof cases
      case 1
      then show ?thesis using True val unfolding s by (simp add: quoted_value_def after_def kv space_not)
    next
      case 2
      then obtain c cs where c: "drop (length key) k = c # cs" "c \<in> set k" by (metis Cons_nth_drop_Suc nth_mem)
      then have "\<not> js_space c" "c \<noteq> 61" using k by (auto simp: list_all_iff)
      then show ?thesis using True 2 c unfolding s by (auto simp: quoted_value_def after_def kv)
    qed
  qed
qed

lemma toml_skip: "list_all (\<lambda>c. \<not> line_end c) l \<Longrightarrow> toml_get key False (l @ 10 # t) = toml_get key True t"
proof (induction l)
  case Nil
  then show ?case by (subst toml_get.simps) (simp add: space_not)
next
  case (Cons c l)
  then show ?case by (subst toml_get.simps) simp
qed

lemma toml_get_lines:
  assumes "toml_key key" "list_all toml_ok kvs"
  shows "toml_get key True (concat (map (\<lambda>kv. toml_line kv @ [10]) kvs)) = map_of kvs key"
  using assms(2)
proof (induction kvs)
  case Nil
  then show ?case by (subst toml_get.simps) (simp add: quoted_value_def after_def starts_with_def)
next
  case (Cons kv kvs)
  let ?t = "concat (map (\<lambda>kv. toml_line kv @ [10]) kvs)"
  obtain k v where kv: "kv = (k, v)" by (cases kv)
  have q: "quoted_value key (toml_line kv @ 10 # ?t) = (if key = fst kv then Some (snd kv) else None)"
    using quoted_value_line [of kv key] assms(1) Cons.prems by simp
  have l: "list_all (\<lambda>c. \<not> line_end c) (toml_line kv)"
    using Cons.prems space_not line_end_is_space by (auto simp: toml_line_def toml_ok_def toml_key_def list_all_iff)
  have "toml_line kv \<noteq> []" by (simp add: toml_line_def)
  then obtain c cs where c: "toml_line kv = c # cs" "\<not> line_end c" "list_all (\<lambda>c. \<not> line_end c) cs"
    using l by (cases "toml_line kv") auto
  have "toml_get key True (toml_line kv @ 10 # ?t) = (if key = fst kv then Some (snd kv) else toml_get key False (cs @ 10 # ?t))"
    by (subst toml_get.simps) (use q c in simp)
  then show ?case using Cons toml_skip [OF c(3), of key ?t] by (simp add: kv)
qed

text \<open>
  The orchestrator reads what the CLI wrote. Its pattern for \<open>key = "value"\<close> gives, for a file with one such line for each
  of the CLI's fields, the URL and the token of the file, which only the environment overrides.
\<close>

lemma orchestrator_reads_the_file:
  assumes "list_all toml_ok kvs" "file = Some (concat (map (\<lambda>kv. toml_line kv @ [10]) kvs))"
  shows "loadOtaconConfig env file
    = (or_else (jm_get env (js ''OTACON_REGISTRY_URL'')) (map_of kvs (js ''registry_url'')), or_else (jm_get env (js ''OTACON_TOKEN'')) (map_of kvs (js ''token'')))"
proof -
  have "toml_key (js ''registry_url'')" "toml_key (js ''token'')" by (simp_all add: toml_key_def js_def js_space_def)
  then show ?thesis using assms(1) by (simp add: loadOtaconConfig_def Let_def assms(2) toml_get_lines or_else_def)
qed

lemma orchestrator_reads_the_file_witness:
  "loadOtaconConfig [(js ''OTACON_TOKEN'', js ''e'')] (Some (concat (map (\<lambda>kv. toml_line kv @ [10]) [(js ''registry_url'', js ''http://r''), (js ''token'', js ''f'')])))
    = (Some (js ''http://r''), Some (js ''e''))"
  by (subst orchestrator_reads_the_file [OF _ refl]) (simp_all add: toml_ok_def toml_key_def js_def js_space_def line_end_def or_else_def or_empty_def jm_get_def)

section \<open>The list of phones\<close>

lemma summary_simps [simp]: "ps_phoneNumber (summary hosts p) = js_string_opt (json_get p (js ''phone_number''))"
  "ps_registryId (summary hosts p) = json_get p (js ''id'')" "ps_status (summary hosts p) = phone_status p"
  by (simp_all add: summary_def Let_def)



end
