(* ===== verification/Listen.thy ===== *)
theory Listen
  imports Commands Bytes
begin

text \<open>
  \<open>otacon call listen\<close> (\<open>cli/src/commands/call-listen.ts\<close>): the WAV header, the file and the player that the call's sound
  goes to, the lines of its events, and the listener as a function from the socket's events to its state. What JavaScript's
  \<open>JSON.parse\<close>, \<open>Date\<close> and \<open>toFixed\<close> make of their arguments is a parameter (\<open>listen_env\<close>); an uncaught exception ends
  the program, and so does its exit.
\<close>

section \<open>WAV\<close>

definition bytes32 :: "int \<Rightarrow> byte list" where
  "bytes32 n = [word_of_int n, word_of_int (n div 256), word_of_int (n div 65536), word_of_int (n div 16777216)]"

definition MAX_U32 :: int where
  "MAX_U32 = 4294967295"

text \<open>\<open>writeUInt32LE\<close> and \<open>writeUInt16LE\<close>; \<open>None\<close>: they throw.\<close>

definition u32 :: "int \<Rightarrow> byte list option" where
  "u32 n = (if 0 \<le> n \<and> n \<le> MAX_U32 then Some (bytes32 n) else None)"

definition u16 :: "int \<Rightarrow> byte list option" where
  "u16 n = (if 0 \<le> n \<and> n \<le> 65535 then Some (bytes16 n) else None)"

definition ascii :: "string \<Rightarrow> byte list" where
  "ascii s = map of_char s"

definition wavHeader :: "int \<Rightarrow> int \<Rightarrow> int \<Rightarrow> byte list option" where
  "wavHeader rate channels data = (let align = channels * 2 in
     case (u32 (min (36 + data) MAX_U32), u16 channels, u32 rate, u32 (rate * align), u16 align, u32 (min data MAX_U32)) of
       (Some sz, Some ch, Some r, Some bps, Some al, Some d) \<Rightarrow>
         Some (ascii ''RIFF'' @ sz @ ascii ''WAVE'' @ ascii ''fmt '' @ bytes32 16 @ bytes16 1 @ ch @ r @ bps @ al @ bytes16 16 @ ascii ''data'' @ d)
     | _ \<Rightarrow> None)"

text \<open>A number written to the header: what is none counts as 0 there.\<close>

definition header_num :: "json \<Rightarrow> int" where
  "header_num v = (case js_number (Some v) of Some n \<Rightarrow> n | None \<Rightarrow> 0)"

section \<open>Where the sound goes\<close>

record wav_sink =
  wv_name :: jstr
  wv_file :: "byte list option"
  wv_dataBytes :: nat
  wv_sampleRate :: json
  wv_channels :: json
  wv_started :: bool
  wv_full :: bool

definition new_wav :: "jstr \<Rightarrow> wav_sink" where
  "new_wav f = \<lparr>wv_name = f, wv_file = Some [], wv_dataBytes = 0, wv_sampleRate = JNum 0, wv_channels = JNum 0, wv_started = False, wv_full = False\<rparr>"

text \<open>\<open>None\<close>: it throws.\<close>

definition wav_start :: "json \<Rightarrow> json \<Rightarrow> wav_sink \<Rightarrow> wav_sink option" where
  "wav_start rate channels k = (if wv_started k then Some k
     else (case wavHeader (header_num rate) (header_num channels) 0 of
         None \<Rightarrow> None
       | Some h \<Rightarrow> Some (k\<lparr>wv_started := True, wv_sampleRate := rate, wv_channels := channels, wv_file := map_option (\<lambda>f. f @ h) (wv_file k)\<rparr>)))"

definition limit_line :: jstr where
  "limit_line = js ''WAV size limit (4 GB) reached; no more audio is saved''"

definition wav_write :: "byte list \<Rightarrow> wav_sink \<Rightarrow> wav_sink \<times> jstr list" where
  "wav_write pcm k =
     (if \<not> wv_started k \<or> wv_full k then (k, [])
      else if int (wv_dataBytes k + length pcm) > MAX_U32 - 36 then (k\<lparr>wv_full := True\<rparr>, [limit_line])
      else (k\<lparr>wv_file := map_option (\<lambda>f. f @ pcm) (wv_file k), wv_dataBytes := wv_dataBytes k + length pcm\<rparr>, []))"

text \<open>\<open>writeSync(fd, header, i, 4, i)\<close>\<close>

definition patch4 :: "byte list \<Rightarrow> nat \<Rightarrow> byte list \<Rightarrow> byte list" where
  "patch4 h i f = take i f @ take 4 (drop i h) @ drop (i + 4) f"

text \<open>The file when it is closed (\<open>None\<close>: removed), and the summary line. It throws when the header can't be written.\<close>

definition wav_finish :: "(nat \<Rightarrow> json \<Rightarrow> json \<Rightarrow> jstr) \<Rightarrow> wav_sink \<Rightarrow> (wav_sink \<times> jstr option) option" where
  "wav_finish secs k =
     (if \<not> wv_started k then Some (k\<lparr>wv_file := None\<rparr>, None)
      else (case wavHeader (header_num (wv_sampleRate k)) (header_num (wv_channels k)) (int (wv_dataBytes k)) of
          None \<Rightarrow> None
        | Some h \<Rightarrow> Some (k\<lparr>wv_file := map_option (\<lambda>f. patch4 h 40 (patch4 h 4 f)) (wv_file k)\<rparr>,
            Some (js ''Saved '' @ secs (wv_dataBytes k) (wv_sampleRate k) (wv_channels k) @ js ''s ('' @ js_string (wv_channels k) @ js '' ch, ''
              @ js_string (wv_sampleRate k) @ js '' Hz) to '' @ wv_name k))))"

text \<open>The player: its standard input once it runs, and whether that was closed.\<close>

record player_sink =
  pl_bin :: jstr
  pl_stdin :: "byte list option"
  pl_closed :: bool

definition new_player :: "jstr \<Rightarrow> player_sink" where
  "new_player bin = \<lparr>pl_bin = bin, pl_stdin = None, pl_closed = False\<rparr>"

definition player_start :: "json \<Rightarrow> json \<Rightarrow> player_sink \<Rightarrow> player_sink option" where
  "player_start rate channels k = (case pl_stdin k of Some _ \<Rightarrow> Some k
     | None \<Rightarrow> map_option (\<lambda>h. k\<lparr>pl_stdin := Some h\<rparr>) (wavHeader (header_num rate) (header_num channels) MAX_U32))"

definition player_write :: "byte list \<Rightarrow> player_sink \<Rightarrow> player_sink" where
  "player_write pcm k = (case pl_stdin k of Some f \<Rightarrow> if pl_closed k then k else k\<lparr>pl_stdin := Some (f @ pcm)\<rparr> | None \<Rightarrow> k)"

definition player_finish :: "player_sink \<Rightarrow> player_sink" where
  "player_finish k = (case pl_stdin k of Some _ \<Rightarrow> k\<lparr>pl_closed := True\<rparr> | None \<Rightarrow> k)"

datatype sink = Wav wav_sink | Player player_sink

definition sink_start :: "json \<Rightarrow> json \<Rightarrow> sink \<Rightarrow> sink option" where
  "sink_start rate channels k = (case k of Wav w \<Rightarrow> map_option Wav (wav_start rate channels w) | Player p \<Rightarrow> map_option Player (player_start rate channels p))"

definition sink_write :: "byte list \<Rightarrow> sink \<Rightarrow> sink \<times> jstr list" where
  "sink_write pcm k = (case k of Wav w \<Rightarrow> (case wav_write pcm w of (w1, ls) \<Rightarrow> (Wav w1, ls)) | Player p \<Rightarrow> (Player (player_write pcm p), []))"

definition sink_finish :: "(nat \<Rightarrow> json \<Rightarrow> json \<Rightarrow> jstr) \<Rightarrow> sink \<Rightarrow> (sink \<times> jstr option) option" where
  "sink_finish secs k = (case k of
      Wav w \<Rightarrow> map_option (\<lambda>(w1, l). (Wav w1, l)) (wav_finish secs w)
    | Player p \<Rightarrow> Some (Player (player_finish p), None))"

section \<open>The events' lines\<close>

record listen_env =
  le_parse :: "jstr \<Rightarrow> json option"
  le_clock :: "json option \<Rightarrow> jstr"
  le_position :: "json \<Rightarrow> json \<Rightarrow> jstr"
  le_seconds :: "nat \<Rightarrow> json \<Rightarrow> json \<Rightarrow> jstr"

definition cannot_read :: "string \<Rightarrow> jstr" where
  "cannot_read k = js ''Cannot read properties of null (reading '' @ [39] @ js k @ [39] @ js '')''"

definition opt_get :: "json option \<Rightarrow> string \<Rightarrow> json option" where
  "opt_get v k = (case v of None \<Rightarrow> None | Some j \<Rightarrow> json_get j (js k))"

definition shown_parts :: "json option list \<Rightarrow> jstr" where
  "shown_parts vs = join [32, 32] (map (\<lambda>v. js_string_opt v) (filter truthy vs))"

definition callLine :: "json \<Rightarrow> jstr" where
  "callLine c = (let g = (\<lambda>k. json_get c (js k)) in
     shown_parts [g ''id'', nullish_or (g ''number'') (Some (JStr (js ''unknown-number''))), g ''direction'', g ''state'',
       Some (JStr (if truthy (g ''conference'') then js ''conference'' else []))])"

definition up_down :: "json option \<Rightarrow> string \<Rightarrow> string \<Rightarrow> jstr" where
  "up_down v a b = (if truthy v then js a else js b)"

text \<open>\<open>const { type, ts, audioPos, ...rest } = ev\<close>\<close>

definition rest_of :: "json \<Rightarrow> json" where
  "rest_of ev = (case ev of
      JObj kvs \<Rightarrow> JObj (filter (\<lambda>kv. fst kv \<notin> {js ''type'', js ''ts'', js ''audioPos''}) kvs)
    | JArr vs \<Rightarrow> JObj (zip (map dec_nat [0..<length vs]) vs)
    | JStr s \<Rightarrow> JObj (zip (map dec_nat [0..<length s]) (map (\<lambda>c. JStr [c]) s))
    | _ \<Rightarrow> JObj [])"

definition number_above_0 :: "json \<Rightarrow> bool" where
  "number_above_0 v = (case js_number (Some v) of Some n \<Rightarrow> 0 < n | None \<Rightarrow> False)"

definition event_prefix :: "listen_env \<Rightarrow> json \<Rightarrow> json \<Rightarrow> jstr" where
  "event_prefix env ev rate =
     (let pos = (case json_get ev (js ''audioPos'') of Some (JNum n) \<Rightarrow> if number_above_0 rate then js '' +'' @ le_position env (JNum n) rate @ js ''s'' else [] | _ \<Rightarrow> [])
      in js ''['' @ le_clock env (json_get ev (js ''ts'')) @ pos @ js '']'')"

definition hello_line :: "json \<Rightarrow> jstr + jstr" where
  "hello_line ev = (let a = nullish_or (json_get ev (js ''audio'')) (Some (JObj [])); g = opt_get a;
       head = js ''connected to '' @ js_string_opt (nullish_or (json_get ev (js ''phoneId'')) (Some (JStr (js ''phone''))))
         @ (if truthy (json_get ev (js ''number'')) then js '' ('' @ js_string_opt (json_get ev (js ''number'')) @ js '')'' else [])
         @ js '': '' @ js_string_opt (nullish_or (g ''sampleRate'') (Some (JStr (js ''?'')))) @ js '' Hz, ''
         @ js_string_opt (nullish_or (g ''channels'') (Some (JStr (js ''?'')))) @ js '' ch'';
       tail = js ''; audio link '' @ up_down (json_get ev (js ''audioLink'')) ''up'' ''down'' @ js ''; HFP ''
         @ up_down (opt_get (json_get ev (js ''hfp'')) ''connected'') ''connected'' ''disconnected''
     in case g ''channelMap'' of
         Some (JArr ms) \<Rightarrow> Inr (head @ js '' ['' @ join (js '', '') (map (\<lambda>m. if m = JNull then [] else js_string m) ms) @ js '']'' @ tail)
       | m \<Rightarrow> if truthy m then Inl (js ''a.channelMap.join is not a function'') else Inr (head @ tail))"

definition formatEvent :: "listen_env \<Rightarrow> json \<Rightarrow> json \<Rightarrow> jstr + jstr" where
  "formatEvent env ev rate =
     (let prefix = event_prefix env ev rate; type = js_string_opt (nullish_or (json_get ev (js ''type'')) (Some (JStr (js ''?''))));
          label = prefix @ js '' '' @ pad_end 13 type @ js '' ''; call = json_get ev (js ''call'');
          line = (if truthy call then callLine (the call) else js ''-'')
      in if type = js ''hello'' then
           (case hello_line ev of Inl m \<Rightarrow> Inl m
            | Inr h \<Rightarrow> (case nullish_or (json_get ev (js ''calls'')) (Some (JArr [])) of
                Some (JArr cs) \<Rightarrow>
                  if JNull \<in> set cs then Inl (cannot_read ''id'')
                  else Inr (join [10] ((prefix @ js '' '' @ h) # (if cs = [] then [prefix @ js '' no calls''] else map (\<lambda>c. prefix @ js '' call '' @ callLine c) cs)))
              | _ \<Rightarrow> Inl (js ''calls is not iterable'')))
         else if type = js ''call.incoming'' \<or> type = js ''call.state'' then Inr (label @ line)
         else if type = js ''call.ended'' then
           (let why = join [32] (filter (\<lambda>t. t \<noteq> []) (map (\<lambda>k. if truthy (json_get ev (js k)) then js k @ js ''='' @ js_string_opt (json_get ev (js k)) else []) [''reason'', ''cause'']))
            in Inr (label @ line @ (if why = [] then [] else [32, 32] @ why)))
         else if type = js ''audio.link'' then Inr (label @ up_down (json_get ev (js ''up'')) ''up'' ''down'')
         else if type = js ''hfp'' then Inr (label @ up_down (json_get ev (js ''connected'')) ''connected'' ''disconnected'')
         else Inr (label @ json_stringify (rest_of ev)))"

section \<open>The listener\<close>

record listen_opts =
  lo_out :: "jstr option"
  lo_json :: bool

datatype ending = Exits int | Crashes jstr

record listener =
  li_opened :: bool
  li_helloSeen :: bool
  li_sampleRate :: json
  li_lastError :: jstr
  li_probing :: bool
  li_sink :: sink
  li_player :: jstr
  li_log :: "jstr list"
  li_end :: "ending option"

datatype socket_event =
    E_open
  | E_binary "byte list"
  | E_text jstr
  | E_error jstr
  | E_close nat jstr
  | E_probed fetched
  | E_player_exit "int option" jstr
  | E_signal

definition PLAYERS :: "jstr list" where
  "PLAYERS = [js ''ffplay'', js ''play'', js ''aplay'']"

text \<open>The start: a file's name, or the first player that \<open>on_path\<close> finds.\<close>

definition start_listening :: "(jstr \<Rightarrow> bool) \<Rightarrow> listen_opts \<Rightarrow> jstr + listener" where
  "start_listening on_path opts =
     (let st = (\<lambda>k p. \<lparr>li_opened = False, li_helloSeen = False, li_sampleRate = JNum 0, li_lastError = [], li_probing = False, li_sink = k,
          li_player = p, li_log = [], li_end = None\<rparr>)
      in if or_empty (lo_out opts) \<noteq> [] then Inr (st (Wav (new_wav (or_empty (lo_out opts)))) [])
         else (case find on_path PLAYERS of
             None \<Rightarrow> Inl (js ''no audio player found on PATH (ffplay, play or aplay): install ffmpeg, sox or alsa-utils, or save the call with --out <file.wav>'')
           | Some p \<Rightarrow> Inr (st (Player (new_player p)) p)))"

definition say :: "jstr \<Rightarrow> listener \<Rightarrow> listener" where
  "say l s = s\<lparr>li_log := li_log s @ [l]\<rparr>"

definition crash :: "jstr \<Rightarrow> listener \<Rightarrow> listener" where
  "crash m s = s\<lparr>li_end := Some (Crashes m)\<rparr>"

definition finish_listening :: "listen_env \<Rightarrow> int \<Rightarrow> jstr \<Rightarrow> listener \<Rightarrow> listener" where
  "finish_listening env code message s =
     (let s1 = (if message = [] then s else say message s) in
      case sink_finish (le_seconds env) (li_sink s1) of
        None \<Rightarrow> crash (js ''out of range'') s1
      | Some (k, l) \<Rightarrow> (case l of None \<Rightarrow> s1 | Some t \<Rightarrow> say t s1)\<lparr>li_sink := k, li_end := Some (Exits code)\<rparr>)"

definition connectFailureReason :: "fetched \<Rightarrow> jstr" where
  "connectFailureReason f = (case f of Unreachable m \<Rightarrow> m
     | Answer a \<Rightarrow> if ha_status a = 404 then js ''phone not found on this host (check --phone / the phone id)''
         else if ha_ok a then js ''the host answers HTTP but refused the monitor socket (is it running a build with ws/voice/monitor?)''
         else js ''the host answered '' @ http_status a)"

definition wsUrl :: "jstr \<Rightarrow> jstr \<Rightarrow> jstr" where
  "wsUrl base p = (if starts_with (js ''http'') base then js ''ws'' @ drop 4 base else base) @ p"

definition say_event :: "listen_env \<Rightarrow> listen_opts \<Rightarrow> json \<Rightarrow> listener \<Rightarrow> listener" where
  "say_event env opts ev s = (if lo_json opts then say (json_stringify ev) s
     else (case formatEvent env ev (li_sampleRate s) of Inl m \<Rightarrow> crash m s | Inr t \<Rightarrow> say t s))"

definition on_hello :: "listen_env \<Rightarrow> listen_opts \<Rightarrow> json \<Rightarrow> listener \<Rightarrow> listener" where
  "on_hello env opts ev s =
     (let a = nullish_or (json_get ev (js ''audio'')) (Some (JObj []));
          fmt = opt_get a ''format'';
          s1 = (if truthy fmt \<and> fmt \<noteq> Some (JStr (js ''pcm_s16le'')) then say (js ''warning: unexpected audio format '' @ js_string_opt fmt @ js ''; writing it as 16-bit PCM'') s else s);
          rate = the (nullish_or (opt_get a ''sampleRate'') (Some (JNum 16000)));
          channels = the (nullish_or (opt_get a ''channels'') (Some (JNum 2)))
      in case sink_start rate channels (li_sink s1) of
          None \<Rightarrow> crash (js ''out of range'') s1
        | Some k \<Rightarrow>
            (let s2 = say_event env opts ev (s1\<lparr>li_sink := k, li_sampleRate := rate, li_helloSeen := True\<rparr>)
             in if li_end s2 \<noteq> None then s2
                else say (if or_empty (lo_out opts) \<noteq> [] then js ''Recording to '' @ or_empty (lo_out opts) @ js '' (Ctrl-C to stop)''
                  else js ''Playing via '' @ li_player s2 @ js '' (Ctrl-C to stop)'') s2))"

definition on_text :: "listen_env \<Rightarrow> listen_opts \<Rightarrow> jstr \<Rightarrow> listener \<Rightarrow> listener" where
  "on_text env opts t s = (case le_parse env t of
      None \<Rightarrow> say (js ''(unparseable message: '' @ take 200 t @ js '')'') s
    | Some ev \<Rightarrow> if ev = JNull then crash (cannot_read ''type'') s
        else if json_get ev (js ''type'') = Some (JStr (js ''hello'')) \<and> \<not> li_helloSeen s then on_hello env opts ev s
        else say_event env opts ev s)"

fun on_socket :: "listen_env \<Rightarrow> listen_opts \<Rightarrow> jstr \<Rightarrow> listener \<Rightarrow> socket_event \<Rightarrow> listener" where
  "on_socket env opts url s E_open = s\<lparr>li_opened := True\<rparr>"
| "on_socket env opts url s (E_binary pcm) =
     (if li_helloSeen s then (case sink_write pcm (li_sink s) of (k, ls) \<Rightarrow> s\<lparr>li_sink := k, li_log := li_log s @ ls\<rparr>) else s)"
| "on_socket env opts url s (E_text t) = on_text env opts t s"
| "on_socket env opts url s (E_error m) = s\<lparr>li_lastError := m\<rparr>"
| "on_socket env opts url s (E_close code reason) =
     (if \<not> li_opened s
      then (if li_lastError s \<noteq> [] then finish_listening env 1 (js ''could not connect to '' @ url @ js '': '' @ li_lastError s) s
            else s\<lparr>li_probing := True\<rparr>)
      else finish_listening env (if code = 1000 \<or> code = 1005 then 0 else 1)
        (js ''connection closed by the server (code '' @ dec_nat code @ (if reason = [] then [] else js '': '' @ reason) @ js '')'') s)"
| "on_socket env opts url s (E_probed f) =
     (if li_probing s then finish_listening env 1 (js ''could not connect to '' @ url @ js '': '' @ connectFailureReason f) s else s)"
| "on_socket env opts url s (E_player_exit code signal) =
     (case li_sink s of Wav _ \<Rightarrow> s
      | Player p \<Rightarrow> finish_listening env (if code = Some 0 then 0 else 1)
          (pl_bin p @ js '' exited ('' @ (if signal \<noteq> [] then signal else js ''code '' @ (case code of None \<Rightarrow> js ''null'' | Some n \<Rightarrow> dec_int n)) @ js '')'') s)"
| "on_socket env opts url s E_signal = finish_listening env 0 [] s"

text \<open>Nothing happens once the program has ended.\<close>

definition listen_step :: "listen_env \<Rightarrow> listen_opts \<Rightarrow> jstr \<Rightarrow> listener \<Rightarrow> socket_event \<Rightarrow> listener" where
  "listen_step env opts url s e = (if li_end s \<noteq> None then s else on_socket env opts url s e)"

end
