(* ===== verification/ListenRun.thy ===== *)
theory ListenRun
  imports Listen
begin

text \<open>
  Properties of \<open>otacon call listen\<close>: a sink keeps what it is given in order (an interface with both sinks behind it), the
  WAV header reads back, and the file of a recording is complete whatever order the socket's events, the signals and
  the end come in.
\<close>

section \<open>Sinks\<close>

text \<open>
  What a sink has kept of the frames it was given: a number of them from the first on, and all of them unless one
  didn't fit, which is where it stopped for good.
\<close>

definition kept_of :: "('k \<Rightarrow> byte list option) \<Rightarrow> ('k \<Rightarrow> bool) \<Rightarrow> (byte list \<Rightarrow> byte list \<Rightarrow> bool) \<Rightarrow> 'k \<Rightarrow> byte list list \<Rightarrow> bool" where
  "kept_of sound full fits k fs = (\<exists>n\<le>length fs. sound k = Some (concat (take n fs)) \<and> full k = (n < length fs)
     \<and> (n < length fs \<longrightarrow> \<not> fits (concat (take n fs)) (fs ! n)))"

locale audio_sink =
  fixes start :: "json \<Rightarrow> json \<Rightarrow> 'k \<Rightarrow> 'k option"
    and feed :: "byte list \<Rightarrow> 'k \<Rightarrow> 'k"
    and fresh :: "'k \<Rightarrow> bool"
    and sound :: "'k \<Rightarrow> byte list option"
    and full :: "'k \<Rightarrow> bool"
    and fits :: "byte list \<Rightarrow> byte list \<Rightarrow> bool"
  assumes start_empty: "fresh k \<Longrightarrow> start rate channels k = Some k1 \<Longrightarrow> sound k1 = Some [] \<and> \<not> full k1"
    and write_fits: "sound k = Some d \<Longrightarrow> \<not> full k \<Longrightarrow> fits d pcm \<Longrightarrow> sound (feed pcm k) = Some (d @ pcm) \<and> \<not> full (feed pcm k)"
    and write_full: "sound k = Some d \<Longrightarrow> full k \<or> \<not> fits d pcm \<Longrightarrow> sound (feed pcm k) = Some d \<and> full (feed pcm k)"
begin

lemma kept_start: "fresh k \<Longrightarrow> start rate channels k = Some k1 \<Longrightarrow> kept_of sound full fits k1 []"
  using start_empty [of k rate channels k1] by (simp add: kept_of_def)

lemma kept_write:
  assumes "kept_of sound full fits k fs"
  shows "kept_of sound full fits (feed pcm k) (fs @ [pcm])"
proof -
  obtain n where n: "n \<le> length fs" "sound k = Some (concat (take n fs))" "full k = (n < length fs)" "n < length fs \<longrightarrow> \<not> fits (concat (take n fs)) (fs ! n)"
    using assms by (auto simp: kept_of_def)
  show ?thesis
  proof (cases "n < length fs \<or> \<not> fits (concat (take n fs)) pcm")
    case True
    then have "sound (feed pcm k) = Some (concat (take n fs)) \<and> full (feed pcm k)" using write_full [OF n(2)] n(3) by simp
    then show ?thesis unfolding kept_of_def using True n by (intro exI [of _ n]) (auto simp: nth_append)
  next
    case False
    then have "n = length fs" using n(1) by simp
    then show ?thesis unfolding kept_of_def using write_fits [OF n(2)] False n(3) by (intro exI [of _ "Suc n"]) simp
  qed
qed

end

definition wav_sound :: "wav_sink \<Rightarrow> byte list option" where
  "wav_sound k = (case wv_file k of Some f \<Rightarrow> if wv_started k \<and> length f = 44 + wv_dataBytes k then Some (drop 44 f) else None | None \<Rightarrow> None)"

definition wav_fits :: "byte list \<Rightarrow> byte list \<Rightarrow> bool" where
  "wav_fits d pcm = (int (length d + length pcm) \<le> MAX_U32 - 36)"

lemma header_length: "wavHeader rate channels data = Some h \<Longrightarrow> length h = 44"
  by (auto simp: wavHeader_def u32_def u16_def bytes32_def ascii_def Let_def split: if_splits)

interpretation wav: audio_sink wav_start "\<lambda>pcm k. fst (wav_write pcm k)" "\<lambda>k. \<exists>f. k = new_wav f" wav_sound wv_full wav_fits
proof
  show "wav_sound k1 = Some [] \<and> \<not> wv_full k1" if "\<exists>f. k = new_wav f" "wav_start rate channels k = Some k1" for k rate channels k1
    using that by (auto simp: wav_start_def new_wav_def wav_sound_def header_length split: option.splits)
next
  fix k d pcm assume s: "wav_sound k = Some d"
  then obtain f where f: "wv_file k = Some f" "wv_started k" "length f = 44 + wv_dataBytes k" "d = drop 44 f"
    by (auto simp: wav_sound_def split: option.splits if_splits)
  show "wav_sound (fst (wav_write pcm k)) = Some (d @ pcm) \<and> \<not> wv_full (fst (wav_write pcm k))" if "\<not> wv_full k" "wav_fits d pcm"
    using f that by (simp add: wav_write_def wav_fits_def wav_sound_def)
  show "wav_sound (fst (wav_write pcm k)) = Some d \<and> wv_full (fst (wav_write pcm k))" if "wv_full k \<or> \<not> wav_fits d pcm"
    using f that s by (auto simp: wav_write_def wav_fits_def wav_sound_def)
qed

definition player_sound :: "player_sink \<Rightarrow> byte list option" where
  "player_sound k = (case pl_stdin k of Some f \<Rightarrow> if 44 \<le> length f then Some (drop 44 f) else None | None \<Rightarrow> None)"

interpretation player: audio_sink player_start player_write "\<lambda>k. \<exists>b. k = new_player b" player_sound pl_closed "\<lambda>_ _. True"
proof
  show "player_sound k1 = Some [] \<and> \<not> pl_closed k1" if "\<exists>b. k = new_player b" "player_start rate channels k = Some k1" for k rate channels k1
    using that by (auto simp: player_start_def new_player_def player_sound_def header_length)
qed (auto simp: player_sound_def player_write_def split: option.splits if_splits)

text \<open>Either of them.\<close>

definition sink_sound :: "sink \<Rightarrow> byte list option" where
  "sink_sound k = (case k of Wav w \<Rightarrow> wav_sound w | Player p \<Rightarrow> player_sound p)"

definition sink_full :: "sink \<Rightarrow> bool" where
  "sink_full k = (case k of Wav w \<Rightarrow> wv_full w | Player p \<Rightarrow> pl_closed p)"

definition sink_new :: "bool \<Rightarrow> sink \<Rightarrow> bool" where
  "sink_new wav k = (if wav then \<exists>f. k = Wav (new_wav f) else \<exists>b. k = Player (new_player b))"

definition sink_kept :: "sink \<Rightarrow> byte list list \<Rightarrow> bool" where
  "sink_kept k fs = (case k of Wav w \<Rightarrow> kept_of wav_sound wv_full wav_fits w fs | Player p \<Rightarrow> kept_of player_sound pl_closed (\<lambda>_ _. True) p fs)"

lemma sink_kept_start: "sink_new w k \<Longrightarrow> sink_start rate channels k = Some k1 \<Longrightarrow> sink_kept k1 []"
  using wav.kept_start player.kept_start by (fastforce simp: sink_new_def sink_start_def sink_kept_def split: if_splits)

lemma sink_kept_write: "sink_kept k fs \<Longrightarrow> sink_kept (fst (sink_write pcm k)) (fs @ [pcm])"
  using wav.kept_write player.kept_write by (auto simp: sink_kept_def sink_write_def split: sink.splits prod.splits) (metis fst_conv)

section \<open>The listener keeps the sound\<close>

definition head_ok :: "sink \<Rightarrow> bool" where
  "head_ok k = (case k of
      Wav w \<Rightarrow> (\<exists>f. wv_file w = Some f \<and> wv_started w \<and> length f = 44 + wv_dataBytes w \<and> int (wv_dataBytes w) \<le> MAX_U32 - 36
        \<and> wavHeader (header_num (wv_sampleRate w)) (header_num (wv_channels w)) 0 = Some (take 44 f))
    | Player p \<Rightarrow> (\<exists>f. pl_stdin p = Some f \<and> 44 \<le> length f \<and> (\<exists>rate channels. wavHeader rate channels MAX_U32 = Some (take 44 f))))"

lemma head_ok_start: "sink_new w k \<Longrightarrow> sink_start rate channels k = Some k1 \<Longrightarrow> head_ok k1"
  by (auto simp: sink_new_def sink_start_def wav_start_def player_start_def new_wav_def new_player_def head_ok_def header_length MAX_U32_def split: if_splits option.splits) blast

lemma head_ok_write: "head_ok k \<Longrightarrow> head_ok (fst (sink_write pcm k))"
  by (auto simp: sink_write_def wav_write_def player_write_def head_ok_def split: sink.splits option.splits) blast+

text \<open>Before the hello a sink is new; from then on it has kept what it was given.\<close>

definition sink_wav :: "sink \<Rightarrow> bool" where
  "sink_wav k = (case k of Wav _ \<Rightarrow> True | Player _ \<Rightarrow> False)"

lemma sink_wav_kept: "sink_new w k \<Longrightarrow> sink_wav k = w" "sink_start r c k = Some k1 \<Longrightarrow> sink_wav k1 = sink_wav k" "sink_wav (fst (sink_write pcm k)) = sink_wav k"
  by (auto simp: sink_new_def sink_wav_def sink_start_def sink_write_def split: if_splits sink.splits prod.splits)

definition sink_ready :: "bool \<Rightarrow> bool \<Rightarrow> sink \<Rightarrow> byte list list \<Rightarrow> bool" where
  "sink_ready w hello k fs = (sink_wav k = w \<and> (if hello then sink_kept k fs \<and> head_ok k else sink_new w k \<and> fs = []))"

definition listening :: "listen_env \<Rightarrow> bool \<Rightarrow> listener \<Rightarrow> byte list list \<Rightarrow> bool" where
  "listening env w s fs = (case li_end s of
      None \<Rightarrow> sink_ready w (li_helloSeen s) (li_sink s) fs
    | Some (Exits c) \<Rightarrow> \<exists>k l. sink_finish (le_seconds env) k = Some (li_sink s, l) \<and> sink_ready w (li_helloSeen s) k fs
    | Some (Crashes m) \<Rightarrow> True)"

text \<open>The frames that come after the hello, while the program runs.\<close>

definition frame_of :: "listener \<Rightarrow> socket_event \<Rightarrow> byte list list" where
  "frame_of s e = (case e of E_binary pcm \<Rightarrow> if li_end s = None \<and> li_helloSeen s then [pcm] else [] | _ \<Rightarrow> [])"

fun frames_heard :: "listen_env \<Rightarrow> listen_opts \<Rightarrow> jstr \<Rightarrow> listener \<Rightarrow> socket_event list \<Rightarrow> byte list list" where
  "frames_heard env opts url s [] = []"
| "frames_heard env opts url s (e # es) = frame_of s e @ frames_heard env opts url (listen_step env opts url s e) es"

lemma say_simps [simp]: "li_end (say l s) = li_end s" "li_sink (say l s) = li_sink s" "li_helloSeen (say l s) = li_helloSeen s"
  by (simp_all add: say_def)

lemma listening_crash [simp]: "listening env w (crash m s) fs"
  by (simp add: listening_def crash_def)

lemma listening_say [simp]: "listening env w (say l s) fs = listening env w s fs"
  by (auto simp: listening_def split: option.splits ending.splits)

lemma listening_say_event: "listening env w s fs \<Longrightarrow> listening env w (say_event env opts ev s) fs"
  by (auto simp: say_event_def split: sum.splits)

lemma listening_finish: "li_end s = None \<Longrightarrow> listening env w s fs \<Longrightarrow> listening env w (finish_listening env c m s) fs"
proof -
  assume s: "li_end s = None" "listening env w s fs"
  then have r: "sink_ready w (li_helloSeen s) (li_sink s) fs" by (simp add: listening_def)
  show "listening env w (finish_listening env c m s) fs"
  proof (cases "sink_finish (le_seconds env) (li_sink s)")
    case None
    then show ?thesis by (simp add: finish_listening_def Let_def)
  next
    case (Some kl)
    obtain k l where kl: "kl = (k, l)" by (cases kl)
    have "li_end (finish_listening env c m s) = Some (Exits c)" "li_sink (finish_listening env c m s) = k" "li_helloSeen (finish_listening env c m s) = li_helloSeen s"
      using Some by (auto simp: finish_listening_def Let_def kl split: option.splits)
    then show ?thesis using r Some by (auto simp: listening_def kl)
  qed
qed

lemma listening_hello: "li_end s = None \<Longrightarrow> \<not> li_helloSeen s \<Longrightarrow> listening env w s fs \<Longrightarrow> listening env w (on_hello env opts ev s) fs"
proof -
  assume s: "li_end s = None" "\<not> li_helloSeen s" "listening env w s fs"
  then have n: "sink_new w (li_sink s)" "fs = []" "sink_wav (li_sink s) = w" by (simp_all add: listening_def sink_ready_def)
  have "listening env w (s1\<lparr>li_sink := k, li_sampleRate := r, li_helloSeen := True\<rparr>) fs"
    if "sink_start r c (li_sink s) = Some k" "li_end s1 = None" for s1 r c k
    using sink_kept_start [OF n(1) that(1)] head_ok_start [OF n(1) that(1)] n(2,3) that(2) sink_wav_kept(2) [OF that(1)] by (simp add: listening_def sink_ready_def)
  then show ?thesis
    using s(1) by (auto simp: on_hello_def Let_def intro: listening_say_event split: option.splits)
qed

lemma listening_marks [simp]: "listening env w (s\<lparr>li_opened := x\<rparr>) fs = listening env w s fs" "listening env w (s\<lparr>li_lastError := m\<rparr>) fs = listening env w s fs"
  "listening env w (s\<lparr>li_probing := x\<rparr>) fs = listening env w s fs"
  by (auto simp: listening_def split: option.splits ending.splits)

lemma listening_text: "li_end s = None \<Longrightarrow> listening env w s fs \<Longrightarrow> listening env w (on_text env opts t s) fs"
  unfolding on_text_def by (auto intro: listening_say_event listening_hello split: option.splits)

lemma listening_step:
  assumes "listening env w s fs"
  shows "listening env w (listen_step env opts url s e) (fs @ frame_of s e)"
proof (cases "li_end s")
  case (Some x)
  then show ?thesis using assms by (cases e) (simp_all add: listen_step_def frame_of_def)
next
  case None
  note end_ok = listening_finish [OF None assms]
  show ?thesis
  proof (cases e)
    case (E_binary pcm)
    show ?thesis
    proof (cases "li_helloSeen s")
      case True
      then have "sink_kept (fst (sink_write pcm (li_sink s))) (fs @ [pcm])" "head_ok (fst (sink_write pcm (li_sink s)))"
        using assms None sink_kept_write head_ok_write by (auto simp: listening_def sink_ready_def)
      then show ?thesis using True None assms sink_wav_kept(3) [of pcm "li_sink s"]
        by (cases "sink_write pcm (li_sink s)") (simp add: E_binary listen_step_def frame_of_def listening_def sink_ready_def)
    qed (use assms None in \<open>simp add: E_binary listen_step_def frame_of_def\<close>)
  next
    case (E_text t)
    then show ?thesis using listening_text [OF None assms] None by (simp add: listen_step_def frame_of_def)
  next
    case (E_close c m)
    then show ?thesis using assms end_ok None by (simp add: listen_step_def frame_of_def)
  next
    case (E_probed f)
    then show ?thesis using assms end_ok None by (simp add: listen_step_def frame_of_def)
  next
    case (E_player_exit c m)
    then show ?thesis using assms end_ok None by (cases "li_sink s") (simp_all add: listen_step_def frame_of_def)
  next
    case E_signal
    then show ?thesis using end_ok None by (simp add: listen_step_def frame_of_def)
  qed (use assms None in \<open>simp_all add: listen_step_def frame_of_def\<close>)
qed

lemma listening_run: "listening env w s fs \<Longrightarrow> listening env w (foldl (listen_step env opts url) s es) (fs @ frames_heard env opts url s es)"
proof (induction es arbitrary: s fs)
  case (Cons e es)
  then show ?case using Cons.IH [OF listening_step [OF Cons.prems]] by simp
qed simp

lemma listening_start: "start_listening on_path opts = Inr s \<Longrightarrow> listening env (or_empty (lo_out opts) \<noteq> []) s []"
  by (auto simp: start_listening_def Let_def listening_def sink_ready_def sink_new_def sink_wav_def split: if_splits option.splits)

section \<open>WAV headers\<close>

definition le32 :: "byte list \<Rightarrow> int" where
  "le32 bs = (case bs of [a, b, c, d] \<Rightarrow> uint a + 256 * uint b + 65536 * uint c + 16777216 * uint d | _ \<Rightarrow> - 1)"

definition field32 :: "nat \<Rightarrow> byte list \<Rightarrow> int" where
  "field32 i f = le32 (take 4 (drop i f))"

lemma byte_sum:
  fixes n :: int
  assumes "0 \<le> n" "n < 4294967296"
  shows "n mod 256 + 256 * (n div 256 mod 256) + 65536 * (n div 65536 mod 256) + 16777216 * (n div 16777216 mod 256) = n"
proof -
  have q: "n div 65536 = n div 256 div 256" "n div 16777216 = n div 65536 div 256"
    using zdiv_zmult2_eq [of 256 n 256] zdiv_zmult2_eq [of 256 n 65536] by simp_all
  have "0 \<le> n div 16777216" using assms(1) by (simp add: pos_imp_zdiv_nonneg_iff)
  moreover have "n div 16777216 < 256"
    using mult_div_mod_eq [of 16777216 n] pos_mod_sign [of 16777216 n] assms(2) by linarith
  ultimately have "n div 16777216 mod 256 = n div 16777216" by (rule mod_pos_pos_trivial)
  moreover have "65536 * (n div 65536 mod 256) + 65536 * (256 * (n div 16777216)) = 65536 * (n div 65536)"
    using mult_div_mod_eq [of 256 "n div 65536"] q(2) by linarith
  moreover have "256 * (n div 256 mod 256) + 256 * (256 * (n div 65536)) = 256 * (n div 256)"
    using mult_div_mod_eq [of 256 "n div 256"] q(1) by linarith
  moreover have "n mod 256 + 256 * (n div 256) = n" using mult_div_mod_eq [of 256 n] by linarith
  ultimately show ?thesis by linarith
qed

lemma le32_bytes32: "0 \<le> n \<Longrightarrow> n \<le> MAX_U32 \<Longrightarrow> le32 (bytes32 n) = n"
  using byte_sum [of n] by (simp only: le32_def bytes32_def list.case uint_word_of_int_byte MAX_U32_def)

lemma length_bytes32 [simp]: "length (bytes32 n) = 4"
  by (simp add: bytes32_def)

lemma header_parts:
  assumes "wavHeader rate channels data = Some h"
  shows "0 \<le> rate" "rate \<le> MAX_U32" "h = ascii ''RIFF'' @ bytes32 (min (36 + data) MAX_U32) @ ascii ''WAVEfmt '' @ bytes32 16 @ bytes16 1 @ bytes16 channels @ bytes32 rate
      @ bytes32 (rate * (channels * 2)) @ bytes16 (channels * 2) @ bytes16 16 @ ascii ''data'' @ bytes32 (min data MAX_U32)"
  using assms by (auto simp: wavHeader_def Let_def u32_def u16_def ascii_def split: if_splits)

text \<open>A later size fits the header when an earlier one did; the two patches are all that differs.\<close>

lemma header_size:
  assumes "wavHeader rate channels 0 = Some h0" "0 \<le> data" "data \<le> MAX_U32"
  shows "\<exists>h. wavHeader rate channels data = Some h \<and> patch4 h 40 (patch4 h 4 (h0 @ d)) = h @ d"
proof -
  obtain h where h: "wavHeader rate channels data = Some h"
    using assms by (auto simp: wavHeader_def Let_def u32_def u16_def MAX_U32_def split: if_splits)
  show ?thesis
    using header_parts(3) [OF h] header_parts(3) [OF assms(1)] h
    by (simp add: patch4_def ascii_def)
qed

lemma header_fields:
  assumes "wavHeader rate channels data = Some h" "0 \<le> data" "data \<le> MAX_U32 - 36"
  shows "field32 4 (h @ d) = 36 + data" "field32 40 (h @ d) = data" "field32 24 (h @ d) = rate"
proof -
  note h = header_parts [OF assms(1)]
  have "field32 4 (h @ d) = le32 (bytes32 (36 + data))" "field32 40 (h @ d) = le32 (bytes32 data)" "field32 24 (h @ d) = le32 (bytes32 rate)"
    unfolding h(3) using assms(2,3) by (simp_all add: field32_def ascii_def MAX_U32_def)
  then show "field32 4 (h @ d) = 36 + data" "field32 40 (h @ d) = data" "field32 24 (h @ d) = rate"
    using le32_bytes32 [of "36 + data"] le32_bytes32 [of data] le32_bytes32 [of rate] assms(2,3) h(1,2) by (simp_all add: MAX_U32_def)
qed


text \<open>A host that says hello, sends one frame, and a Ctrl-C.\<close>

definition listen_env_w :: listen_env where
  "listen_env_w = \<lparr>le_parse = (\<lambda>_. Some (JObj [(js ''type'', JStr (js ''hello''))])), le_clock = (\<lambda>_. []), le_position = (\<lambda>_ _. []), le_seconds = (\<lambda>_ _ _. [])\<rparr>"

definition listen_opts_w :: "bool \<Rightarrow> listen_opts" where
  "listen_opts_w out = \<lparr>lo_out = (if out then Some (js ''a.wav'') else None), lo_json = True\<rparr>"

definition listen_events_w :: "socket_event list" where
  "listen_events_w = [E_open, E_text [], E_binary [1, 2, 3, 4], E_signal, E_binary [5, 6]]"

lemma header_w: "data = 0 \<or> data = 4 \<or> data = MAX_U32 \<Longrightarrow> \<exists>h. wavHeader 16000 2 data = Some h"
  by (auto simp: wavHeader_def u32_def u16_def MAX_U32_def Let_def)

lemma number_w: "header_num (JNum n) = n"
  by (simp add: header_num_def js_number_def)

lemma hello_step_w:
  assumes "li_end s = None" "\<not> li_helloSeen s" "sink_start (JNum 16000) (JNum 2) (li_sink s) = Some k"
  shows "li_end (listen_step listen_env_w (listen_opts_w out) url s (E_text t)) = None"
    "li_helloSeen (listen_step listen_env_w (listen_opts_w out) url s (E_text t))" "li_sink (listen_step listen_env_w (listen_opts_w out) url s (E_text t)) = k"
  using assms by (simp_all add: listen_step_def on_text_def on_hello_def say_event_def listen_env_w_def listen_opts_w_def jm_get_def opt_get_def or_empty_def say_def Let_def
      del: json_stringify.simps)

lemma signal_step_w:
  assumes "li_end s = None" "sink_finish (le_seconds env) (li_sink s) = Some (k, l)"
  shows "li_end (listen_step env opts url s E_signal) = Some (Exits 0)" "li_helloSeen (listen_step env opts url s E_signal) = li_helloSeen s"
  using assms by (auto simp: listen_step_def finish_listening_def Let_def split: option.splits)

lemma run_w:
  assumes "li_end s = None" "\<not> li_helloSeen s" "sink_start (JNum 16000) (JNum 2) (li_sink s) = Some k"
    and "sink_finish (le_seconds listen_env_w) (fst (sink_write [1, 2, 3, 4] k)) = Some (k1, l)"
  shows "li_end (foldl (listen_step listen_env_w (listen_opts_w out) url) s listen_events_w) = Some (Exits 0)"
    "li_helloSeen (foldl (listen_step listen_env_w (listen_opts_w out) url) s listen_events_w)"
    "frames_heard listen_env_w (listen_opts_w out) url s listen_events_w = [[1, 2, 3, 4]]"
proof -
  let ?step = "listen_step listen_env_w (listen_opts_w out) url"
  define s1 where "s1 = ?step s E_open"
  define s2 where "s2 = ?step s1 (E_text [])"
  define s3 where "s3 = ?step s2 (E_binary [1, 2, 3, 4])"
  define s4 where "s4 = ?step s3 E_signal"
  have 1: "li_end s1 = None" "\<not> li_helloSeen s1" "li_sink s1 = li_sink s" using assms(1,2) by (simp_all add: s1_def listen_step_def)
  have 2: "li_end s2 = None" "li_helloSeen s2" "li_sink s2 = k"
    using hello_step_w [OF 1(1,2)] 1(3) assms(3) by (simp_all add: s2_def)
  have 3: "li_end s3 = None" "li_helloSeen s3" "li_sink s3 = fst (sink_write [1, 2, 3, 4] k)"
    using 2 by (simp_all add: s3_def listen_step_def split: prod.splits)
  have 4: "li_end s4 = Some (Exits 0)" "li_helloSeen s4"
    using signal_step_w [OF 3(1)] 3(2,3) assms(4) by (simp_all add: s4_def)
  have 5: "?step s4 (E_binary [5, 6]) = s4" using 4(1) by (simp add: listen_step_def)
  have f: "foldl ?step s listen_events_w = s4" by (simp add: listen_events_w_def 5 flip: s1_def s2_def s3_def s4_def)
  show "li_end (foldl ?step s listen_events_w) = Some (Exits 0)" "li_helloSeen (foldl ?step s listen_events_w)" using 4 by (simp_all add: f)
  show "frames_heard listen_env_w (listen_opts_w out) url s listen_events_w = [[1, 2, 3, 4]]"
    using 2 4 by (simp add: listen_events_w_def frame_of_def flip: s1_def s2_def s3_def s4_def)
qed


text \<open>
  The player hears everything. Without \<open>--out\<close>, as long as the program runs, and when it has exited, the player's input
  is a header that says "until the end" and every frame that came after the hello, in order.
\<close>

lemma player_hears_everything:
  assumes "start_listening on_path opts = Inr s" "or_empty (lo_out opts) = []"
    and "li_helloSeen (foldl (listen_step env opts url) s es)" "\<And>m. li_end (foldl (listen_step env opts url) s es) \<noteq> Some (Crashes m)"
  shows "\<exists>p h rate channels. li_sink (foldl (listen_step env opts url) s es) = Player p \<and> wavHeader rate channels MAX_U32 = Some h
    \<and> pl_stdin p = Some (h @ concat (frames_heard env opts url s es))"
proof -
  let ?s = "foldl (listen_step env opts url) s es" and ?fs = "frames_heard env opts url s es"
  have l: "listening env False ?s ?fs" using listening_run [OF listening_start [OF assms(1)], of env opts url es] assms(2) by simp
  obtain k where k: "sink_ready False True k ?fs" "li_sink ?s = k \<or> (\<exists>l. sink_finish (le_seconds env) k = Some (li_sink ?s, l))"
    using l assms(3,4) by (auto simp: listening_def split: option.splits ending.splits)
  then obtain p where p: "k = Player p" by (cases k) (auto simp: sink_ready_def sink_wav_def)
  obtain n where n: "n = length ?fs" "player_sound p = Some (concat (take n ?fs))"
    using k(1) by (auto simp: p sink_ready_def sink_kept_def kept_of_def)
  obtain f rate channels where f: "pl_stdin p = Some f" "44 \<le> length f" "wavHeader rate channels MAX_U32 = Some (take 44 f)"
    using k(1) by (auto simp: p sink_ready_def head_ok_def)
  have "drop 44 f = concat ?fs" using n f by (simp add: player_sound_def)
  then have d: "f = take 44 f @ concat ?fs" using append_take_drop_id [of 44 f] by simp
  obtain q where "li_sink ?s = Player q" "pl_stdin q = pl_stdin p"
    using k(2) f(1) by (cases "li_sink ?s") (auto simp: p sink_finish_def player_finish_def)
  then show ?thesis using f(1,3) d by auto
qed

lemma player_hears_everything_witness:
  "\<exists>s p h. start_listening (\<lambda>_. True) (listen_opts_w False) = Inr s
    \<and> li_sink (foldl (listen_step listen_env_w (listen_opts_w False) []) s listen_events_w) = Player p \<and> pl_stdin p = Some (h @ [1, 2, 3, 4])"
proof -
  obtain h where h: "wavHeader 16000 2 MAX_U32 = Some h" using header_w [of MAX_U32] by auto
  obtain s where s: "start_listening (\<lambda>_. True) (listen_opts_w False) = Inr s" "li_end s = None" "\<not> li_helloSeen s" "li_sink s = Player (new_player (js ''ffplay''))"
    by (simp add: start_listening_def listen_opts_w_def or_empty_def PLAYERS_def)
  have k: "sink_start (JNum 16000) (JNum 2) (li_sink s) = Some (Player ((new_player (js ''ffplay''))\<lparr>pl_stdin := Some h\<rparr>))"
    by (simp add: s(4) sink_start_def player_start_def new_player_def number_w h)
  have "\<exists>k l. sink_finish (le_seconds listen_env_w) (fst (sink_write [1, 2, 3, 4] (Player ((new_player (js ''ffplay''))\<lparr>pl_stdin := Some h\<rparr>)))) = Some (k, l)"
    by (simp add: sink_write_def sink_finish_def)
  then obtain q l where "sink_finish (le_seconds listen_env_w) (fst (sink_write [1, 2, 3, 4] (Player ((new_player (js ''ffplay''))\<lparr>pl_stdin := Some h\<rparr>)))) = Some (q, l)" by blast
  note r = run_w [OF s(2,3) k this, of False "[]"]
  have o: "or_empty (lo_out (listen_opts_w False)) = []" by (simp add: listen_opts_w_def or_empty_def)
  have e: "li_end (foldl (listen_step listen_env_w (listen_opts_w False) []) s listen_events_w) \<noteq> Some (Crashes m)" for m using r(1) by simp
  from player_hears_everything [OF s(1) o r(2) e] show ?thesis unfolding r(3) using s(1) by auto
qed

text \<open>
  A header says what it was made from. The 44 bytes of a WAV header read back, as little-endian numbers, as the sample rate, the
  size of the sound and the size of what follows the first eight bytes.
\<close>

lemma wav_header_reads_back:
  assumes "wavHeader rate channels data = Some h" "0 \<le> data" "data \<le> MAX_U32 - 36"
  shows "length h = 44 \<and> field32 4 h = 36 + data \<and> field32 40 h = data \<and> field32 24 h = rate"
  using header_length [OF assms(1)] header_fields [OF assms, of "[]"] by simp

lemma wav_header_reads_back_witness:
  "\<exists>h. wavHeader 16000 2 4 = Some h \<and> field32 40 h = 4 \<and> field32 24 h = 16000"
  using header_w [of 4] wav_header_reads_back [of 16000 2 4] by (auto simp: MAX_U32_def)

end
