(* ===== verification/Viewer.thy ===== *)
theory Viewer
  imports Sandbox
begin

text \<open>
  The web UI's view of a session: the reading of server-sent events and of NDJSON (\<open>web/src/lib/api-client.ts\<close>), the transcript
  store (\<open>web/src/lib/event-handler.ts\<close>), what \<open>Transcript.tsx\<close> groups its items into, the URLs of screenshots, and the
  small formatting helpers (\<open>web/src/lib/format.ts\<close>). A response's body is the sequence of texts that
  \<open>TextDecoder\<close> makes of its chunks; \<open>parse\<close> is \<open>JSON.parse\<close> (\<open>None\<close>: it throws). Components (\<open>.tsx\<close>) aren't modelled.
\<close>

section \<open>NDJSON\<close>

text \<open>\<open>readNdjson\<close>: the buffer, or \<open>None\<close> after it has thrown; and what it yields.\<close>

fun yield_lines :: "(jstr \<Rightarrow> json option) \<Rightarrow> jstr list \<Rightarrow> json list \<times> bool" where
  "yield_lines parse [] = ([], True)"
| "yield_lines parse (l # ls) =
     (if trim l = [] then yield_lines parse ls
      else (case parse (trim l) of None \<Rightarrow> ([], False)
        | Some j \<Rightarrow> (case yield_lines parse ls of (js1, ok) \<Rightarrow> (j # js1, ok))))"

definition feed_ndjson :: "(jstr \<Rightarrow> json option) \<Rightarrow> jstr option \<Rightarrow> jstr \<Rightarrow> jstr option \<times> json list" where
  "feed_ndjson parse buf chunk = (case buf of None \<Rightarrow> (None, [])
     | Some b \<Rightarrow> (let parts = split_on 10 (b @ chunk) in
         case yield_lines parse (butlast parts) of (out, ok) \<Rightarrow> (if ok then Some (last parts) else None, out)))"

definition end_ndjson :: "(jstr \<Rightarrow> json option) \<Rightarrow> jstr option \<Rightarrow> json list \<times> bool" where
  "end_ndjson parse buf = (case buf of None \<Rightarrow> ([], False) | Some b \<Rightarrow> yield_lines parse [b])"

text \<open>The whole of a response: its chunks, then its end; what it yields, and whether it ends without throwing.\<close>

fun readNdjson :: "(jstr \<Rightarrow> json option) \<Rightarrow> jstr option \<Rightarrow> jstr list \<Rightarrow> json list \<times> bool" where
  "readNdjson parse buf [] = end_ndjson parse buf"
| "readNdjson parse buf (c # cs) = (case feed_ndjson parse buf c of (b, out) \<Rightarrow>
     (case readNdjson parse b cs of (out1, ok) \<Rightarrow> (out @ out1, ok)))"

section \<open>Server-sent events\<close>

text \<open>The server's side: the frame it writes for a line of the log, and the one that announces the end.\<close>

definition sse_frame :: "jstr \<Rightarrow> jstr" where
  "sse_frame line = js ''data: '' @ line @ [10, 10]"

definition sse_done :: jstr where
  "sse_done = js ''data: [DONE]'' @ [10, 10]"

text \<open>The text before the first empty line, and what follows it.\<close>

fun next_block :: "jstr \<Rightarrow> (jstr \<times> jstr) option" where
  "next_block [] = None"
| "next_block (c # cs) = (if c = 10 \<and> cs \<noteq> [] \<and> hd cs = 10 then Some ([], tl cs)
     else (case next_block cs of None \<Rightarrow> None | Some (b, r) \<Rightarrow> Some (c # b, r)))"

definition parseSseBlock :: "jstr \<Rightarrow> jstr option" where
  "parseSseBlock block = (let data = map (\<lambda>l. trim_start (drop 5 l)) (filter (starts_with (js ''data:'')) (split_on 10 block))
     in if data = [] then None else Some (join [10] data))"

datatype sse_call = On_event json | On_error | On_done

datatype sse_reader = Reading jstr | Finished

lemma next_block_shorter: "next_block s = Some (b, r) \<Longrightarrow> length r < length s"
  by (induction s arbitrary: b r) (auto split: if_splits option.splits)

text \<open>The blocks of the buffer, until it has none left or the end is announced.\<close>

function drain_sse :: "(jstr \<Rightarrow> json option) \<Rightarrow> jstr \<Rightarrow> sse_reader \<times> sse_call list" where
  "drain_sse parse buf = (case next_block buf of
      None \<Rightarrow> (Reading buf, [])
    | Some (b, rest) \<Rightarrow>
        (case parseSseBlock b of
           None \<Rightarrow> drain_sse parse rest
         | Some data \<Rightarrow>
             if data = js ''[DONE]'' then (Finished, [On_done])
             else (case drain_sse parse rest of (r, cs) \<Rightarrow> (r, (case parse data of Some j \<Rightarrow> On_event j | None \<Rightarrow> On_error) # cs))))"
  by pat_completeness auto
termination
  by (relation "measure (\<lambda>(p, s). length s)") (auto dest: next_block_shorter)

declare drain_sse.simps [simp del]

definition feed_sse :: "(jstr \<Rightarrow> json option) \<Rightarrow> sse_reader \<Rightarrow> jstr \<Rightarrow> sse_reader \<times> sse_call list" where
  "feed_sse parse r chunk = (case r of Finished \<Rightarrow> (Finished, []) | Reading buf \<Rightarrow> drain_sse parse (buf @ chunk))"

text \<open>How the body ends: it closes, the reader is aborted (\<open>close()\<close>), or reading it fails.\<close>

datatype body_end = Closed | Aborted | Broken

text \<open>The whole of a response: its chunks, then its end. A response without a body is one that closes at once.\<close>

fun consumeSseStream :: "(jstr \<Rightarrow> json option) \<Rightarrow> sse_reader \<Rightarrow> body_end \<Rightarrow> jstr list \<Rightarrow> sse_call list" where
  "consumeSseStream parse r e [] = (case r of Finished \<Rightarrow> []
     | Reading _ \<Rightarrow> (case e of Closed \<Rightarrow> [On_done] | Aborted \<Rightarrow> [] | Broken \<Rightarrow> [On_error]))"
| "consumeSseStream parse r e (c # cs) = (case feed_sse parse r c of (r1, calls) \<Rightarrow> calls @ consumeSseStream parse r1 e cs)"

section \<open>The transcript\<close>

record escalation_card =
  ec_token :: "json option"
  ec_payload :: "json option"
  ec_resolved :: bool
  ec_decision :: "json option"
  ec_message :: "json option"
  ec_ts :: "json option"

datatype transcript_item =
    I_message "json option" json
  | I_phone_action "json option" "json option"
  | I_escalation "json option" escalation_card
  | I_system "json option" "json option"

datatype terminal_kind = Agent_end | Agent_error

record transcript =
  tr_items :: "transcript_item list"
  tr_streamingMessage :: "json option"
  tr_isStreaming :: bool
  tr_isTerminal :: bool
  tr_terminalKind :: "terminal_kind option"

text \<open>The store; \<open>ts_shown\<close> are the states its listener was given.\<close>

record transcript_store =
  ts_state :: transcript
  ts_index :: "(json option \<times> nat) list"
  ts_shown :: "transcript list"

definition empty_transcript :: transcript where
  "empty_transcript = \<lparr>tr_items = [], tr_streamingMessage = None, tr_isStreaming = False, tr_isTerminal = False, tr_terminalKind = None\<rparr>"

definition emit_state :: "transcript_store \<Rightarrow> transcript_store" where
  "emit_state s = s\<lparr>ts_shown := ts_shown s @ [ts_state s]\<rparr>"

text \<open>A store with a listener (\<open>subscribe\<close> shows it the state at once).\<close>

definition new_store :: transcript_store where
  "new_store = emit_state \<lparr>ts_state = empty_transcript, ts_index = [], ts_shown = []\<rparr>"

definition reset_store :: "transcript_store \<Rightarrow> transcript_store" where
  "reset_store s = emit_state (s\<lparr>ts_state := empty_transcript, ts_index := []\<rparr>)"

definition on_state :: "(transcript \<Rightarrow> transcript) \<Rightarrow> transcript_store \<Rightarrow> transcript_store" where
  "on_state f s = s\<lparr>ts_state := f (ts_state s)\<rparr>"

definition append_item :: "transcript_item \<Rightarrow> transcript_store \<Rightarrow> transcript_store" where
  "append_item i s = emit_state (on_state (\<lambda>t. t\<lparr>tr_items := tr_items t @ [i]\<rparr>) s)"

definition ended :: "terminal_kind \<Rightarrow> transcript \<Rightarrow> transcript" where
  "ended k t = t\<lparr>tr_isStreaming := False, tr_isTerminal := True, tr_terminalKind := Some k, tr_streamingMessage := None\<rparr>"

definition opt_field :: "json option \<Rightarrow> string \<Rightarrow> json option" where
  "opt_field v k = (case v of None \<Rightarrow> None | Some j \<Rightarrow> json_get j (js k))"

definition handlePiEvent :: "json option \<Rightarrow> json option \<Rightarrow> transcript_store \<Rightarrow> transcript_store" where
  "handlePiEvent ev ts s =
     (let type = opt_field ev ''type''; message = opt_field ev ''message'' in
      if type = Some (JStr (js ''agent_start'')) then emit_state (on_state (\<lambda>t. t\<lparr>tr_isStreaming := True\<rparr>) s)
      else if type = Some (JStr (js ''message_start'')) \<or> type = Some (JStr (js ''message_update'')) then
        emit_state (if truthy message then on_state (\<lambda>t. t\<lparr>tr_streamingMessage := message\<rparr>) s else s)
      else if type = Some (JStr (js ''message_end'')) then
        emit_state (on_state (\<lambda>t. t\<lparr>tr_streamingMessage := None\<rparr>) (if truthy message then append_item (I_message ts (the message)) s else s))
      else if type = Some (JStr (js ''agent_end'')) then emit_state (on_state (ended Agent_end) s)
      else if type = Some (JStr (js ''agent_error'')) then emit_state (on_state (ended Agent_error) s)
      else s)"

definition no_request :: json where
  "no_request = JObj [(js ''prompt'', JStr (js ''(resolved without matching request)''))]"

definition resolve_card :: "json option \<Rightarrow> json option \<Rightarrow> transcript_item \<Rightarrow> transcript_item" where
  "resolve_card d m i = (case i of I_escalation ts c \<Rightarrow> I_escalation ts (c\<lparr>ec_resolved := True, ec_decision := d, ec_message := m\<rparr>) | _ \<Rightarrow> i)"

definition is_escalation :: "transcript_item \<Rightarrow> bool" where
  "is_escalation i = (case i of I_escalation _ _ \<Rightarrow> True | _ \<Rightarrow> False)"

definition ingest :: "json \<Rightarrow> transcript_store \<Rightarrow> transcript_store" where
  "ingest ev s =
     (let g = (\<lambda>k. json_get ev (js k)); kind = g ''kind''; ts = g ''ts''; token = g ''token'' in
      if kind = Some (JStr (js ''system_set'')) then append_item (I_system ts (g ''prompt'')) s
      else if kind = Some (JStr (js ''phone_action'')) then append_item (I_phone_action ts (g ''payload'')) s
      else if kind = Some (JStr (js ''escalation_requested'')) then
        append_item (I_escalation ts \<lparr>ec_token = token, ec_payload = g ''payload'', ec_resolved = False, ec_decision = None, ec_message = None, ec_ts = ts\<rparr>)
          (s\<lparr>ts_index := jm_set token (length (tr_items (ts_state s))) (ts_index s)\<rparr>)
      else if kind = Some (JStr (js ''escalation_resolved'')) then
        (case jm_get (ts_index s) token of
           None \<Rightarrow> append_item (I_escalation ts \<lparr>ec_token = token, ec_payload = Some no_request, ec_resolved = True, ec_decision = g ''decision'', ec_message = g ''message'', ec_ts = ts\<rparr>) s
         | Some i \<Rightarrow>
             if i < length (tr_items (ts_state s)) \<and> is_escalation (tr_items (ts_state s) ! i)
             then emit_state (on_state (\<lambda>t. t\<lparr>tr_items := (tr_items t)[i := resolve_card (g ''decision'') (g ''message'') (tr_items t ! i)]\<rparr>) s)
             else s)
      else if kind = Some (JStr (js ''pi'')) then handlePiEvent (g ''event'') ts s
      else s)"

text \<open>
  The page of a run: its store, and whether its stream has reported an error. Ingesting \<open>null\<close> throws, and so does a
  \<open>pi\<close> event without an \<open>event\<close>; the reader catches that and reports it.
\<close>

definition ingest_throws :: "json \<Rightarrow> bool" where
  "ingest_throws j = (j = JNull \<or> (json_get j (js ''kind'') = Some (JStr (js ''pi'')) \<and> json_get j (js ''event'') \<in> {None, Some JNull}))"

definition page_call :: "sse_call \<Rightarrow> transcript_store \<times> bool \<Rightarrow> transcript_store \<times> bool" where
  "page_call c p = (case c of
      On_event j \<Rightarrow> if ingest_throws j then (fst p, True) else (ingest j (fst p), snd p)
    | On_error \<Rightarrow> (fst p, True)
    | On_done \<Rightarrow> p)"

section \<open>What is drawn\<close>

datatype chunk = Msg_chunk "json list" bool | Card_chunk transcript_item

text \<open>\<open>chunkItems\<close>: \<open>cur\<close> is the open chunk of messages.\<close>

fun chunk_from :: "json option \<Rightarrow> bool \<Rightarrow> json list option \<Rightarrow> transcript_item list \<Rightarrow> chunk list" where
  "chunk_from streaming live cur [] =
     (case (cur, streaming) of
        (None, None) \<Rightarrow> []
      | (Some ms, None) \<Rightarrow> [Msg_chunk ms False]
      | (None, Some m) \<Rightarrow> [Msg_chunk [m] live]
      | (Some ms, Some m) \<Rightarrow> [Msg_chunk (ms @ [m]) live])"
| "chunk_from streaming live cur (I_message ts m # is) = chunk_from streaming live (Some ((case cur of None \<Rightarrow> [] | Some ms \<Rightarrow> ms) @ [m])) is"
| "chunk_from streaming live cur (i # is) =
     (case cur of None \<Rightarrow> [] | Some ms \<Rightarrow> [Msg_chunk ms False]) @ Card_chunk i # chunk_from streaming live None is"

definition chunkItems :: "transcript \<Rightarrow> chunk list" where
  "chunkItems t = chunk_from (if truthy (tr_streamingMessage t) then tr_streamingMessage t else None) (tr_isStreaming t) None (tr_items t)"

text \<open>\<open>s.slice(s.indexOf(w))\<close>, when there is one.\<close>

fun from_word :: "jstr \<Rightarrow> jstr \<Rightarrow> jstr option" where
  "from_word w [] = (if w = [] then Some [] else None)"
| "from_word w (c # cs) = (if starts_with w (c # cs) then Some (c # cs) else from_word w cs)"

text \<open>\<open>Inl\<close>: it throws.\<close>

definition traceUrl :: "jstr \<Rightarrow> jstr option \<Rightarrow> jstr + jstr option" where
  "traceUrl base p = (case p of None \<Rightarrow> Inr None
     | Some s \<Rightarrow> (case (if s = [] then None else from_word (js ''workspaces/'') s) of
         None \<Rightarrow> Inr None
       | Some t \<Rightarrow> (let es = map encodeURIComponent (split_on 47 t) in
           if None \<in> set es then Inl (js ''URI malformed'') else Inr (Some (base @ js ''/api/v1/'' @ join [47] (map the es))))))"

text \<open>The title of a phone action's card.\<close>

definition action_summary :: "json \<Rightarrow> jstr" where
  "action_summary p = join [32] (map (\<lambda>v. js_string_opt v) (filter truthy (map (\<lambda>k. json_get p (js k)) [''command'', ''subcommand'', ''target''])))"

definition formatRelativeTime :: "int \<Rightarrow> int \<Rightarrow> jstr" where
  "formatRelativeTime ms now =
     (let sec = (now - ms) div 1000; mins = sec div 60; hr = mins div 60; day = hr div 24; mo = day div 30 in
      if sec < 60 then dec_int sec @ js ''s ago'' else if mins < 60 then dec_int mins @ js ''m ago'' else if hr < 24 then dec_int hr @ js ''h ago''
      else if day < 30 then dec_int day @ js ''d ago'' else if mo < 12 then dec_int mo @ js ''mo ago'' else dec_int (day div 365) @ js ''y ago'')"

text \<open>\<open>fixed\<close> is \<open>(a / b).toFixed(1)\<close>.\<close>

definition formatBytes :: "(int \<Rightarrow> int \<Rightarrow> jstr) \<Rightarrow> int \<Rightarrow> jstr" where
  "formatBytes fixed n = (if n < 1024 then dec_int n @ js '' B'' else if n < 1024 * 1024 then fixed n 1024 @ js '' KB'' else fixed n (1024 * 1024) @ js '' MB'')"

definition lastN :: "jstr \<Rightarrow> nat \<Rightarrow> jstr" where
  "lastN s n = (if length s \<le> n \<or> n = 0 then s else drop (length s - n) s)"

end
