(* ===== verification/ViewerRun.thy ===== *)
theory ViewerRun
  imports Viewer RunsRun
begin

text \<open>
  What the web UI makes of a session: reading a body gives the same whatever chunks it comes in, a page receives the lines of
  its session's log, and its transcript is the reference transcript of those events.
\<close>

section \<open>Chunks of server-sent events\<close>

lemma next_block_append: "next_block s = Some (b, r) \<Longrightarrow> next_block (s @ t) = Some (b, r @ t)"
proof (induction s arbitrary: b r)
  case (Cons c s)
  then show ?case by (cases s) (auto split: if_splits option.splits)
qed simp

lemma drain_none: "next_block s = None \<Longrightarrow> drain_sse parse s = (Reading s, [])"
  by (simp add: drain_sse.simps)

lemma drain_some: "next_block s = Some (b, r) \<Longrightarrow> drain_sse parse s = (case parseSseBlock b of None \<Rightarrow> drain_sse parse r
    | Some d \<Rightarrow> if d = js ''[DONE]'' then (Finished, [On_done])
        else (case drain_sse parse r of (q, cs) \<Rightarrow> (q, (case parse d of Some j \<Rightarrow> On_event j | None \<Rightarrow> On_error) # cs)))"
  by (simp add: drain_sse.simps [of _ s])

lemma drain_append: "drain_sse parse (s @ t) = (case drain_sse parse s of
    (Finished, cs) \<Rightarrow> (Finished, cs)
  | (Reading b, cs) \<Rightarrow> (case drain_sse parse (b @ t) of (r, ds) \<Rightarrow> (r, cs @ ds)))"
proof (induction parse s rule: drain_sse.induct)
  case (1 parse s)
  show ?case
  proof (cases "next_block s")
    case None
    then show ?thesis by (simp add: drain_none)
  next
    case (Some x)
    obtain b r where x: "next_block s = Some (b, r)" using Some by (cases x) simp
    show ?thesis
      using 1 [OF x refl] by (simp add: drain_some [OF x] drain_some [OF next_block_append [OF x]] split: option.splits prod.splits sse_reader.splits)
  qed
qed

lemma drain_rest: "drain_sse parse s = (Reading b, cs) \<Longrightarrow> next_block b = None"
proof (induction parse s arbitrary: cs rule: drain_sse.induct)
  case (1 parse s)
  show ?case
  proof (cases "next_block s")
    case (Some x)
    obtain c r where x: "next_block s = Some (c, r)" using Some by (cases x) simp
    show ?thesis
      using "1.IH" [OF x refl] "1.prems" by (auto simp: drain_some [OF x] split: option.splits prod.splits if_splits)
  qed (use 1 in \<open>simp add: drain_none\<close>)
qed

lemma consume_finished [simp]: "consumeSseStream parse Finished e cs = []"
  by (induction cs) (simp_all add: feed_sse_def)

lemma consume_whole:
  "next_block b = None \<Longrightarrow> consumeSseStream parse (Reading b) e cs
    = (case drain_sse parse (b @ concat cs) of (r, calls) \<Rightarrow> calls @ consumeSseStream parse r e [])"
proof (induction cs arbitrary: b)
  case Nil
  then show ?case by (simp add: drain_none)
next
  case (Cons c cs)
  obtain r calls where d: "drain_sse parse (b @ c) = (r, calls)" by fastforce
  show ?case
  proof (cases r)
    case (Reading x)
    then show ?thesis using Cons.IH [of x] d drain_rest [of parse "b @ c" x calls] drain_append [of parse "b @ c" "concat cs"]
      by (auto simp: feed_sse_def split: prod.splits)
  qed (use d drain_append [of parse "b @ c" "concat cs"] in \<open>simp add: feed_sse_def\<close>)
qed

section \<open>Chunks of NDJSON\<close>

lemma split_on_ne [simp]: "split_on c s \<noteq> []"
  by (induction s) (auto split: list.splits)

lemma split_chunk: "split_on c (x @ y) = butlast (split_on c x) @ split_on c (last (split_on c x) @ y)"
proof (induction x)
  case (Cons d x)
  obtain w ws where w: "split_on c x = w # ws" by (cases "split_on c x") auto
  show ?case
  proof (cases ws)
    case Nil
    then show ?thesis using Cons w by (simp split: list.splits)
  next
    case (Cons v vs)
    then show ?thesis using Cons.IH w by simp
  qed
qed simp

lemma last_split: "c \<notin> set (last (split_on c s))"
proof (induction s)
  case (Cons d s)
  then show ?case by (cases "split_on c s") (auto split: if_splits)
qed simp

lemma yield_append: "yield_lines parse (xs @ ys) = (case yield_lines parse xs of
    (a, ok) \<Rightarrow> if ok then (case yield_lines parse ys of (b, k) \<Rightarrow> (a @ b, k)) else (a, False))"
  by (induction xs) (auto split: option.splits prod.splits if_splits)

lemma ndjson_thrown [simp]: "readNdjson parse None cs = ([], False)"
  by (induction cs) (simp_all add: end_ndjson_def feed_ndjson_def)

lemma ndjson_whole: "10 \<notin> set b \<Longrightarrow> readNdjson parse (Some b) cs = yield_lines parse (split_on 10 (b @ concat cs))"
proof (induction cs arbitrary: b)
  case Nil
  then show ?case by (simp add: end_ndjson_def split_on_one_line)
next
  case (Cons c cs)
  show ?case
    using Cons.IH [OF last_split [of 10 "b @ c"]] split_chunk [of 10 "b @ c" "concat cs"]
    by (auto simp: feed_ndjson_def Let_def yield_append split: prod.splits)
qed

text \<open>
  C22: the chunks a body arrives in don't matter. However the network cuts it, the reader of server-sent events makes the calls
  it would make on the whole text at once, then the one its end calls for, and the reader of NDJSON yields what splitting the
  whole text at its newlines gives, up to the first line that is no JSON.
\<close>

theorem chunks_dont_matter:
  "consumeSseStream parse (Reading []) e cs = (case drain_sse parse (concat cs) of (r, calls) \<Rightarrow> calls @ consumeSseStream parse r e [])
   \<and> readNdjson parse (Some []) cs = yield_lines parse (split_on 10 (concat cs))"
  using consume_whole [of "[]" parse e cs] ndjson_whole [of "[]" parse cs] by simp

section \<open>The lines of a log, as a page reads them\<close>

definition solid :: "jstr \<Rightarrow> bool" where
  "solid t = (t \<noteq> [] \<and> \<not> js_space (hd t) \<and> \<not> js_space (last t))"

lemma solid_digits: "solid (dec_int i)"
proof -
  have d: "\<not> js_space c" if "is_digit c" for c using that by (auto simp: is_digit_def js_space_def)
  have "\<not> js_space (hd (dec_nat n))" "\<not> js_space (last (dec_nat n))" for n
    using d dec_nat_digits [of n] by (simp_all add: list_all_iff)
  then show ?thesis by (simp add: solid_def dec_int_def js_space_def [of 45])
qed

lemma solid_json: "solid (json_stringify j)"
  by (cases j) (simp_all add: solid_digits, auto simp: solid_def js_def json_quote_def js_space_def)

lemma trim_json: "trim (json_stringify j) = json_stringify j"
  using solid_json [of j] by (simp add: solid_def trim_bounded)

lemma next_block_line: "10 \<notin> set l \<Longrightarrow> next_block (l @ 10 # 10 # t) = Some (l, t)"
proof (induction l)
  case (Cons c l)
  then show ?case by (cases l) auto
qed simp

lemma no_end: "json_parse (js ''[DONE]'') = None"
  by (simp add: js_def json_parse_def skip_ws_def json_ws_def then_char_def parse_word_def starts_with_def parse_num_def parse_nat_def is_digit_def numeral_eq_Suc)

lemma parse_frame: "10 \<notin> set l \<Longrightarrow> solid l \<Longrightarrow> parseSseBlock (js ''data: '' @ l) = Some l"
proof -
  assume l: "10 \<notin> set l" "solid l"
  then have one: "split_on 10 (js ''data: '' @ l) = [js ''data: '' @ l]" by (intro split_on_one_line) (simp add: js_def)
  have "js_space 32" by (simp add: js_space_def)
  then have "trim_start (32 # l) = l" using l(2) by (cases l) (simp_all add: trim_start_def solid_def)
  then show ?thesis unfolding parseSseBlock_def one by (simp add: js_def starts_with_def)
qed

lemma drain_frame:
  assumes "json_ok j"
  shows "drain_sse json_parse (sse_frame (json_stringify j) @ t) = (case drain_sse json_parse t of (r, cs) \<Rightarrow> (r, On_event j # cs))"
proof -
  have n: "next_block (sse_frame (json_stringify j) @ t) = Some (js ''data: '' @ json_stringify j, t)"
    using next_block_line [of "js ''data: '' @ json_stringify j" t] json_one_line [of j] by (simp add: sse_frame_def js_def)
  have "json_stringify j \<noteq> js ''[DONE]''" using json_parse_stringify [OF assms] no_end by auto
  then show ?thesis
    using json_parse_stringify [OF assms] by (simp add: drain_some [OF n] parse_frame json_one_line solid_json)
qed

lemma drain_frames: "list_all json_ok es \<Longrightarrow> drain_sse json_parse (concat (map (\<lambda>j. sse_frame (json_stringify j)) es) @ t)
    = (case drain_sse json_parse t of (r, cs) \<Rightarrow> (r, map On_event es @ cs))"
  by (induction es) (simp_all add: drain_frame split: prod.splits)

lemma drain_done: "drain_sse parse sse_done = (Finished, [On_done])" "drain_sse parse [] = (Reading [], [])"
proof -
  have n: "next_block sse_done = Some (js ''data: [DONE]'', [])" by (simp add: sse_done_def js_def)
  have "parseSseBlock (js ''data: [DONE]'') = Some (js ''[DONE]'')"
    using split_on_one_line [of "js ''data: [DONE]''"] by (simp add: parseSseBlock_def js_def starts_with_def trim_start_def js_space_def)
  then show "drain_sse parse sse_done = (Finished, [On_done])" by (simp add: drain_some [OF n])
qed (simp add: drain_none)

lemma yield_skips: "yield_lines parse ls = yield_lines parse (filter (\<lambda>l. l \<noteq> []) ls)"
  by (induction ls) (auto simp: trim_def trim_start_def trim_end_def split: option.splits)

lemma yield_json: "list_all json_ok es \<Longrightarrow> yield_lines json_parse (map json_stringify es) = (es, True)"
  by (induction es) (simp_all add: trim_json json_not_empty json_parse_stringify)

text \<open>What the server has written of a stream.\<close>

definition stream_body :: "sse \<Rightarrow> jstr" where
  "stream_body s = concat (map sse_frame (ss_sent s)) @ (if ss_phase s = Ph_done then sse_done else [])"

lemma stream_calls:
  assumes "ss_sent s = map json_stringify es" "list_all json_ok es" "concat cs = stream_body s"
  shows "consumeSseStream json_parse (Reading []) Aborted cs = map On_event es @ (if ss_phase s = Ph_done then [On_done] else [])"
proof -
  have "drain_sse json_parse (concat cs) = (case drain_sse json_parse (if ss_phase s = Ph_done then sse_done else []) of (r, ds) \<Rightarrow> (r, map On_event es @ ds))"
    using drain_frames [OF assms(2)] by (simp add: assms(1,3) stream_body_def comp_def)
  then show ?thesis using consume_whole [of "[]" json_parse Aborted cs] by (auto simp: drain_done)
qed

text \<open>
  C3: a page reads its session's log. The lines the server appends are events as JSON text; however the server got there and
  however the network cuts the stream's body, the page's reader is called with the first events of the log, each once, in order
  and as they were written, then with the end where the server has announced it, and never with an error. Reading the log as
  NDJSON yields all of its events.
\<close>

theorem page_reads_the_log:
  assumes "holds log_ok fs" "server_reaches raw parses resolve base (new_server fs) sv" "(k, s) \<in> set (sv_streams sv)"
    and "log_lines (log_of raw (sv_disk sv) base s) = map json_stringify es" "list_all json_ok es" "concat cs = stream_body s"
  shows "\<exists>n. consumeSseStream json_parse (Reading []) Aborted cs = map On_event (take n es) @ (if ss_phase s = Ph_done then [On_done] else [])
    \<and> (concat ds = log_of raw (sv_disk sv) base s \<longrightarrow> readNdjson json_parse (Some []) ds = (es, True))"
proof -
  have "prefix (ss_sent s) (map json_stringify es)"
    using server_streams_ok [OF assms(1-3)] assms(4) by simp
  then have "ss_sent s = map json_stringify (take (length (ss_sent s)) es)"
    by (auto simp: prefix_def take_map [symmetric])
  then have 1: "consumeSseStream json_parse (Reading []) Aborted cs
      = map On_event (take (length (ss_sent s)) es) @ (if ss_phase s = Ph_done then [On_done] else [])"
    using assms(5,6) by (intro stream_calls) (auto simp: list_all_iff dest: in_set_takeD)
  have "readNdjson json_parse (Some []) ds = (es, True)" if "concat ds = log_of raw (sv_disk sv) base s"
    using ndjson_whole [of "[]" json_parse ds] yield_skips [of json_parse "split_on 10 (concat ds)"] assms(4,5)
    by (simp add: that log_lines_def yield_json)
  then show ?thesis using 1 by blast
qed

theorem page_reads_the_log_witness:
  "consumeSseStream json_parse (Reading []) Aborted [js ''data: {'', js ''}'' @ [10], [10]] = [On_event (JObj [])]
   \<and> readNdjson json_parse (Some []) [js ''{'', js ''}'' @ [10]] = ([JObj []], True)"
proof -
  let ?s = "new_sse (js ''w'') (js ''t'') (js ''s'')" and ?raw = "\<lambda>_. []"
  let ?o = "server_open [js ''d''] 7 (js ''w'') (js ''t'') (js ''s'') (new_server run_disk)"
  let ?sv = "on_stream 7 (sse_read ?raw run_disk [js ''d'']) ?o" and ?s1 = "sse_read ?raw run_disk [js ''d''] ?s"
  have "is_dir run_disk (sessionDir [js ''d''] (js ''w'') (js ''t'') (js ''s''))"
    by (simp add: is_dir_def session_files_at run_disk_def strict_prefix_def)
  then have o: "?o = new_server run_disk\<lparr>sv_streams := [(7, ?s)]\<rparr>"
    by (simp add: server_open_def assertSessionExists_def assertWorkspaceAndTeam_def run_disk_reads new_server_def)
  have ok: "holds log_ok run_disk" by (simp add: holds_def run_disk_def log_ok_def whole_def)
  have "server_reaches ?raw (\<lambda>_. True) (\<lambda>_. True) [js ''d''] (new_server run_disk) ?o"
    by (rule sv_turn [OF sv_here sv_open]) (simp add: new_server_def)
  then have r: "server_reaches ?raw (\<lambda>_. True) (\<lambda>_. True) [js ''d''] (new_server run_disk) ?sv"
    using sv_turn [OF _ sv_read] o by (fastforce simp: new_server_def)
  have t: "text_at ?raw run_disk (sessionEventsFile [js ''d''] (js ''w'') (js ''t'') (js ''s'')) = Some (js ''{}'' @ [10])"
    by (simp add: text_at_def session_files_at file_read_def jm_get_def run_disk_def)
  have l: "log_lines (js ''{}'' @ [10]) = [js ''{}'']" using log_lines_line [of "js ''{}''"] js_no_newline [of "''{}''"] by simp
  have e: "map json_stringify [JObj []] = [js ''{}'']" by (simp add: js_def)
  have s1: "?s1 = ?s\<lparr>ss_cursor := 3, ss_sent := [js ''{}''], ss_phase := Ph_check\<rparr>"
    using t l by (simp add: sse_read_def new_sse_def)
  have sv: "?sv = new_server run_disk\<lparr>sv_streams := [(7, ?s1)]\<rparr>"
    unfolding o by (simp add: on_stream_def jm_get_def jm_set_def)
  have lg: "log_of ?raw (sv_disk ?sv) [js ''d''] ?s1 = js ''{}'' @ [10]"
    unfolding sv log_of_def s1 using t by (simp add: new_server_def new_sse_def or_empty_def)
  have s: "(7, ?s1) \<in> set (sv_streams ?sv)" unfolding sv by simp
  have w: "concat [js ''data: {'', js ''}'' @ [10], [10]] = stream_body ?s1" "concat [js ''{'', js ''}'' @ [10]] = js ''{}'' @ [10]"
    unfolding s1 stream_body_def by (simp_all add: new_sse_def sse_frame_def js_def)
  have ph: "ss_phase ?s1 \<noteq> Ph_done" "ss_sent ?s1 = map json_stringify [JObj []]" unfolding s1 by (simp_all add: js_def)
  obtain n where "consumeSseStream json_parse (Reading []) Aborted [js ''data: {'', js ''}'' @ [10], [10]] = map On_event (take n [JObj []])"
    "readNdjson json_parse (Some []) [js ''{'', js ''}'' @ [10]] = ([JObj []], True)"
    using page_reads_the_log [OF ok r s _ _ w(1), of "[JObj []]" "[js ''{'', js ''}'' @ [10]]"] lg l e w(2) ph(1)
    by auto
  moreover have "consumeSseStream json_parse (Reading []) Aborted [js ''data: {'', js ''}'' @ [10], [10]] = [On_event (JObj [])]"
    using stream_calls [OF ph(2) _ w(1)] ph(1) by simp
  ultimately show ?thesis by simp
qed

section \<open>The reference transcript\<close>

definition kind_is :: "string \<Rightarrow> json \<Rightarrow> bool" where
  "kind_is k ev = (json_get ev (js ''kind'') = Some (JStr (js k)))"

abbreviation ev_field :: "json \<Rightarrow> string \<Rightarrow> json option" where
  "ev_field ev k \<equiv> json_get ev (js k)"

text \<open>The items of events that are no escalation: the prompt, a phone action, a finished message.\<close>

definition plain_item :: "json \<Rightarrow> transcript_item option" where
  "plain_item ev =
     (if kind_is ''system_set'' ev then Some (I_system (ev_field ev ''ts'') (ev_field ev ''prompt''))
      else if kind_is ''phone_action'' ev then Some (I_phone_action (ev_field ev ''ts'') (ev_field ev ''payload''))
      else if kind_is ''pi'' ev \<and> opt_field (ev_field ev ''event'') ''type'' = Some (JStr (js ''message_end'')) \<and> truthy (opt_field (ev_field ev ''event'') ''message'')
        then Some (I_message (ev_field ev ''ts'') (the (opt_field (ev_field ev ''event'') ''message'')))
      else None)"

definition asked_card :: "json \<Rightarrow> transcript_item" where
  "asked_card ev = I_escalation (ev_field ev ''ts'') \<lparr>ec_token = ev_field ev ''token'', ec_payload = ev_field ev ''payload'', ec_resolved = False,
     ec_decision = None, ec_message = None, ec_ts = ev_field ev ''ts''\<rparr>"

definition stray_card :: "json \<Rightarrow> transcript_item" where
  "stray_card ev = I_escalation (ev_field ev ''ts'') \<lparr>ec_token = ev_field ev ''token'', ec_payload = Some no_request, ec_resolved = True,
     ec_decision = ev_field ev ''decision'', ec_message = ev_field ev ''message'', ec_ts = ev_field ev ''ts''\<rparr>"

text \<open>The card of \<open>tok\<close> as the events decide it: by the resolutions of its token until the token is asked about anew.\<close>

fun answered :: "json option \<Rightarrow> json list \<Rightarrow> transcript_item \<Rightarrow> transcript_item" where
  "answered tok [] i = i"
| "answered tok (ev # es) i =
     (if kind_is ''escalation_requested'' ev \<and> ev_field ev ''token'' = tok then i
      else answered tok es (if kind_is ''escalation_resolved'' ev \<and> ev_field ev ''token'' = tok
        then resolve_card (ev_field ev ''decision'') (ev_field ev ''message'') i else i))"

text \<open>The transcript of the events, when the tokens of \<open>R\<close> have been asked about before.\<close>

fun spec_items :: "json option set \<Rightarrow> json list \<Rightarrow> transcript_item list" where
  "spec_items R [] = []"
| "spec_items R (ev # es) =
     (if kind_is ''escalation_requested'' ev then answered (ev_field ev ''token'') es (asked_card ev) # spec_items (insert (ev_field ev ''token'') R) es
      else if kind_is ''escalation_resolved'' ev then (if ev_field ev ''token'' \<in> R then [] else [stray_card ev]) @ spec_items R es
      else (case plain_item ev of None \<Rightarrow> [] | Some i \<Rightarrow> [i]) @ spec_items R es)"

section \<open>What an event does to the store\<close>

abbreviation items :: "transcript_store \<Rightarrow> transcript_item list" where
  "items s \<equiv> tr_items (ts_state s)"

lemma store_steps [simp]:
  "items (emit_state s) = items s" "ts_index (emit_state s) = ts_index s"
  "items (append_item i s) = items s @ [i]" "ts_index (append_item i s) = ts_index s" "ts_index (on_state f s) = ts_index s"
  "tr_items (ended k t) = tr_items t" "ts_state (on_state f s) = f (ts_state s)"
  by (simp_all add: emit_state_def append_item_def on_state_def ended_def)

lemma ingest_asked:
  assumes "kind_is ''escalation_requested'' ev"
  shows "items (ingest ev s) = items s @ [asked_card ev]" "ts_index (ingest ev s) = jm_set (ev_field ev ''token'') (length (items s)) (ts_index s)"
  using assms by (simp_all add: kind_is_def ingest_def Let_def asked_card_def)

lemma ingest_resolved:
  assumes "kind_is ''escalation_resolved'' ev"
  shows "jm_get (ts_index s) (ev_field ev ''token'') = None \<Longrightarrow> items (ingest ev s) = items s @ [stray_card ev]"
    "jm_get (ts_index s) (ev_field ev ''token'') = Some i \<Longrightarrow> i < length (items s) \<Longrightarrow> is_escalation (items s ! i) \<Longrightarrow>
       items (ingest ev s) = (items s)[i := resolve_card (ev_field ev ''decision'') (ev_field ev ''message'') (items s ! i)]"
    "ts_index (ingest ev s) = ts_index s"
  using assms by (simp_all add: kind_is_def ingest_def Let_def stray_card_def split: option.splits)

lemma ingest_plain:
  assumes "\<not> kind_is ''escalation_requested'' ev" "\<not> kind_is ''escalation_resolved'' ev"
  shows "items (ingest ev s) = items s @ (case plain_item ev of None \<Rightarrow> [] | Some i \<Rightarrow> [i])" "ts_index (ingest ev s) = ts_index s"
  using assms by (simp_all add: kind_is_def ingest_def handlePiEvent_def Let_def plain_item_def)

section \<open>The store holds the reference transcript\<close>

text \<open>Which token an item is found by: \<open>g ! i\<close> is \<open>i\<close>'s, where the index has one for it.\<close>

definition indexed :: "transcript_store \<Rightarrow> json option option list \<Rightarrow> bool" where
  "indexed s g = (length g = length (items s)
     \<and> (\<forall>tok i. jm_get (ts_index s) tok = Some i \<longleftrightarrow> i < length g \<and> g ! i = Some tok)
     \<and> (\<forall>i<length g. g ! i \<noteq> None \<longrightarrow> is_escalation (items s ! i)))"

definition late :: "json list \<Rightarrow> json option option \<Rightarrow> transcript_item \<Rightarrow> transcript_item" where
  "late es o1 i = (case o1 of None \<Rightarrow> i | Some tok \<Rightarrow> answered tok es i)"

definition found_tokens :: "json option option list \<Rightarrow> json option set" where
  "found_tokens g = {tok. Some tok \<in> set g}"

lemma tokens_index: "indexed s g \<Longrightarrow> tok \<in> found_tokens g \<longleftrightarrow> jm_get (ts_index s) tok \<noteq> None"
  unfolding indexed_def found_tokens_def by (auto simp: in_set_conv_nth)

lemma tokens_None [simp]: "found_tokens (g @ [None]) = found_tokens g"
  by (simp add: found_tokens_def)

text \<open>An item appended that no token finds.\<close>

lemma indexed_append:
  assumes "indexed s g" "items s1 = items s @ [i]" "ts_index s1 = ts_index s"
  shows "indexed s1 (g @ [None])"
  using assms by (auto simp: indexed_def nth_append less_Suc_eq split: if_splits)

definition forget :: "json option \<Rightarrow> json option option list \<Rightarrow> json option option list" where
  "forget tok g = map (\<lambda>o1. if o1 = Some tok then None else o1) g"

lemma length_forget [simp]: "length (forget tok g) = length g"
  by (simp add: forget_def)

lemma indexed_asked:
  assumes "indexed s g" "kind_is ''escalation_requested'' ev"
  shows "indexed (ingest ev s) (forget (ev_field ev ''token'') g @ [Some (ev_field ev ''token'')])"
  using assms unfolding indexed_def ingest_asked [OF assms(2)]
  by (auto simp: forget_def nth_append less_Suc_eq jmap.get_put asked_card_def is_escalation_def split: if_splits)

lemma tokens_asked: "found_tokens (forget tok g @ [Some tok]) = insert tok (found_tokens g)"
  by (auto simp: found_tokens_def forget_def image_iff)

lemma late_skips:
  "\<not> kind_is ''escalation_requested'' ev \<Longrightarrow> \<not> kind_is ''escalation_resolved'' ev \<Longrightarrow> late (ev # es) = late es"
  by (auto simp: late_def fun_eq_iff split: option.splits)

lemma map2_cong: "length xs = length ys \<Longrightarrow> (\<And>i. i < length ys \<Longrightarrow> f (xs ! i) (ys ! i) = h (us ! i) (vs ! i)) \<Longrightarrow> length us = length ys \<Longrightarrow> length vs = length ys
    \<Longrightarrow> map2 f xs ys = map2 h us vs"
  by (rule nth_equalityI) simp_all

lemma store_is_reference:
  "indexed s g \<Longrightarrow> items (fold ingest es s) = map2 (late es) g (items s) @ spec_items (found_tokens g) es"
proof (induction es arbitrary: s g)
  case Nil
  have "map2 (late []) g (items s) = items s"
    using Nil by (intro nth_equalityI) (simp_all add: indexed_def late_def split: option.splits)
  then show ?case by simp
next
  case (Cons ev es)
  note len = Cons.prems [unfolded indexed_def, THEN conjunct1]
  let ?tok = "ev_field ev ''token''"
  consider (ask) "kind_is ''escalation_requested'' ev"
    | (unasked) "kind_is ''escalation_resolved'' ev" "\<not> kind_is ''escalation_requested'' ev" "jm_get (ts_index s) ?tok = None"
    | (known) n where "kind_is ''escalation_resolved'' ev" "\<not> kind_is ''escalation_requested'' ev" "jm_get (ts_index s) ?tok = Some n"
    | (plain) "\<not> kind_is ''escalation_requested'' ev" "\<not> kind_is ''escalation_resolved'' ev"
    by fastforce
  then show ?case
  proof cases
    case ask
    have "map2 (late es) (forget ?tok g) (items s) = map2 (late (ev # es)) g (items s)"
      using len ask by (intro map2_cong) (auto simp: forget_def late_def split: option.splits)
    then show ?thesis
      using Cons.IH [OF indexed_asked [OF Cons.prems ask]] ask len
      by (simp add: ingest_asked tokens_asked late_def [of es "Some ?tok"])
  next
    case unasked
    have "?tok \<notin> found_tokens g" using tokens_index [OF Cons.prems] unasked(3) by simp
    moreover have "map2 (late (ev # es)) g (items s) = map2 (late es) g (items s)"
      using len unasked \<open>?tok \<notin> found_tokens g\<close> by (intro map2_cong) (auto simp: late_def found_tokens_def in_set_conv_nth split: option.splits)
    moreover have "indexed (ingest ev s) (g @ [None])"
      by (rule indexed_append [OF Cons.prems ingest_resolved(1) [OF unasked(1,3)] ingest_resolved(3) [OF unasked(1)]])
    ultimately show ?thesis
      using Cons.IH [of "ingest ev s" "g @ [None]"] unasked len by (simp add: ingest_resolved(1) late_def)
  next
    case known
    have n: "n < length g" "g ! n = Some ?tok" "is_escalation (items s ! n)" using Cons.prems known(3) by (auto simp: indexed_def)
    have only: "i = n" if "i < length (items s)" "g ! i = Some ?tok" for i
      using Cons.prems known(3) that len unfolding indexed_def by (metis option.inject)
    note items1 = ingest_resolved(2) [OF known(1,3) n(1) [unfolded len] n(3)]
    have "indexed (ingest ev s) g"
      using Cons.prems n unfolding indexed_def items1 ingest_resolved(3) [OF known(1)]
      by (auto simp: nth_list_update is_escalation_def resolve_card_def split: transcript_item.splits)
    moreover have "map2 (late es) g (items (ingest ev s)) = map2 (late (ev # es)) g (items s)"
      using len known n unfolding items1
      by (intro map2_cong) (auto simp: late_def nth_list_update split: option.splits dest: only)
    ultimately show ?thesis
      using Cons.IH [of "ingest ev s" g] known tokens_index [OF Cons.prems, of ?tok] by simp
  next
    case plain
    show ?thesis
    proof (cases "plain_item ev")
      case None
      then have "indexed (ingest ev s) g" using Cons.prems plain by (simp add: indexed_def ingest_plain)
      then show ?thesis using Cons.IH [of "ingest ev s" g] plain None by (simp add: ingest_plain late_skips)
    next
      case (Some i)
      then have "indexed (ingest ev s) (g @ [None])"
        by (intro indexed_append [OF Cons.prems]) (simp_all add: ingest_plain plain)
      then show ?thesis using Cons.IH [of "ingest ev s" "g @ [None]"] plain Some len by (simp add: ingest_plain late_skips late_def)
    qed
  qed
qed

text \<open>The listener has seen the state there is.\<close>

definition current :: "transcript_store \<Rightarrow> bool" where
  "current s = (ts_shown s \<noteq> [] \<and> last (ts_shown s) = ts_state s)"

lemma current_steps [simp]: "current (emit_state s)" "current (append_item i s)" "current (reset_store s)"
  by (simp_all add: current_def emit_state_def append_item_def reset_store_def)

lemma current_if: "current a \<Longrightarrow> current b \<Longrightarrow> current (if c then a else b)"
  by simp

lemma current_case: "current a \<Longrightarrow> (\<And>i. current (f i)) \<Longrightarrow> current (case x of None \<Rightarrow> a | Some i \<Rightarrow> f i)"
  by (cases x) simp_all

lemma current_pi: "current s \<Longrightarrow> current (handlePiEvent ev ts s)"
  unfolding handlePiEvent_def Let_def by (intro current_if current_steps)

lemma current_ingest: "current s \<Longrightarrow> current (ingest ev s)"
  unfolding ingest_def Let_def by (intro current_if current_case current_pi current_steps)

lemma current_fold: "current s \<Longrightarrow> current (fold ingest es s)"
  by (induction es arbitrary: s) (simp_all add: current_ingest)

text \<open>The events a page is called with. One that makes the store throw doesn't change it.\<close>

fun called_with :: "sse_call list \<Rightarrow> json list" where
  "called_with [] = []"
| "called_with (On_event j # cs) = j # called_with cs"
| "called_with (On_error # cs) = called_with cs"
| "called_with (On_done # cs) = called_with cs"

lemma page_call_store [simp]:
  "fst (page_call (On_event j) p) = ingest j (fst p)" "fst (page_call On_error p) = fst p" "page_call On_done p = p"
proof -
  have n: "handlePiEvent e ts s = s" if "e \<in> {None, Some JNull}" for e ts s
  proof -
    have "opt_field e ''type'' = None" using that by (auto simp: opt_field_def)
    then show ?thesis by (simp add: handlePiEvent_def)
  qed
  have "ingest j s = handlePiEvent (json_get j (js ''event'')) (json_get j (js ''ts'')) s" if "json_get j (js ''kind'') = Some (JStr (js ''pi''))" for j s
    using that by (simp add: ingest_def)
  moreover have "ingest JNull s = s" for s by (simp add: ingest_def)
  ultimately have "ingest j s = s" if "ingest_throws j" for j s using that n unfolding ingest_throws_def by metis
  then show "fst (page_call (On_event j) p) = ingest j (fst p)" by (simp add: page_call_def)
qed (simp_all add: page_call_def)

lemma page_ingests: "fst (fold page_call cs p) = fold ingest (called_with cs) (fst p)"
  by (induction cs arbitrary: p rule: called_with.induct) simp_all

text \<open>
  C9: the page shows the reference transcript. Whatever calls its stream makes, the last state the page's listener was given
  is the store's, and its items are, in the order of the events: each prompt, phone action and finished message; for each
  request of an approval a card, decided by the last resolution of its token before the token is asked about again, and pending
  where there is none; and for a resolution of a token nobody asked about a card of its own.
\<close>

theorem page_shows_the_transcript:
  "tr_items (last (ts_shown (fst (fold page_call cs (reset_store s, False))))) = spec_items {} (called_with cs)"
proof -
  have r: "items (reset_store s) = []" "ts_index (reset_store s) = []"
    by (simp_all add: reset_store_def emit_state_def empty_transcript_def)
  have "indexed (reset_store s) []" by (simp add: indexed_def r jm_get_def)
  then show ?thesis
    using store_is_reference [of "reset_store s" "[]"] current_fold [OF current_steps(3), of "called_with cs" s]
    by (simp add: page_ingests r found_tokens_def current_def)
qed

section \<open>What is drawn\<close>

text \<open>The pieces of a chunk, and of the transcript.\<close>

datatype piece = Bubble json | Card transcript_item

fun pieces_of :: "chunk \<Rightarrow> piece list" where
  "pieces_of (Msg_chunk ms live) = map Bubble ms"
| "pieces_of (Card_chunk i) = [Card i]"

definition piece_of :: "transcript_item \<Rightarrow> piece" where
  "piece_of i = (case i of I_message ts m \<Rightarrow> Bubble m | _ \<Rightarrow> Card i)"

definition is_live :: "chunk \<Rightarrow> bool" where
  "is_live c = (case c of Msg_chunk ms live \<Rightarrow> live | _ \<Rightarrow> False)"

definition is_bubbles :: "chunk \<Rightarrow> bool" where
  "is_bubbles c = (case c of Msg_chunk ms live \<Rightarrow> True | _ \<Rightarrow> False)"

lemma chunk_pieces: "concat (map pieces_of (chunk_from m live cur is))
    = (case cur of None \<Rightarrow> [] | Some ms \<Rightarrow> map Bubble ms) @ map piece_of is @ (case m of None \<Rightarrow> [] | Some x \<Rightarrow> [Bubble x])"
  by (induction m live cur "is" rule: chunk_from.induct) (simp_all add: piece_of_def split: option.splits)

definition well_chunked :: "chunk list \<Rightarrow> bool" where
  "well_chunked cs = (successively (\<lambda>a b. \<not> (is_bubbles a \<and> is_bubbles b)) cs \<and> list_all (\<lambda>c. pieces_of c \<noteq> []) cs
     \<and> list_all (\<lambda>c. \<not> is_live c) (butlast cs))"

lemma well_chunked_Cons: "well_chunked cs \<Longrightarrow> pieces_of c \<noteq> [] \<Longrightarrow> \<not> is_live c \<Longrightarrow> cs = [] \<or> \<not> is_bubbles c \<or> \<not> is_bubbles (hd cs) \<Longrightarrow> well_chunked (c # cs)"
  by (cases cs) (auto simp: well_chunked_def)

lemma well_chunked_one: "pieces_of c \<noteq> [] \<Longrightarrow> well_chunked [c]" "well_chunked []"
  by (simp_all add: well_chunked_def)

lemma well_chunked_card:
  assumes "well_chunked cs" "cur \<noteq> Some []"
  shows "well_chunked ((case cur of None \<Rightarrow> [] | Some ms \<Rightarrow> [Msg_chunk ms False]) @ Card_chunk i # cs)"
proof -
  have "well_chunked (Card_chunk i # cs)" by (rule well_chunked_Cons [OF assms(1)]) (simp_all add: is_live_def is_bubbles_def)
  then show ?thesis using assms(2) by (auto simp: is_live_def is_bubbles_def intro: well_chunked_Cons split: option.split)
qed

lemma chunks_well_chunked: "cur \<noteq> Some [] \<Longrightarrow> well_chunked (chunk_from m live cur is)"
proof (induction m live cur "is" rule: chunk_from.induct)
  case (1 m live cur)
  then show ?case by (auto intro!: well_chunked_one split: option.split)
qed (auto intro: well_chunked_card)

text \<open>
  What is drawn is the transcript. The chunks hold the items in their order, a message as a bubble and the others as cards,
  with the message being streamed at the end; neighbouring messages share a chunk, no chunk is empty, and only the last one can
  be the live one.
\<close>

lemma drawing_is_complete:
  "concat (map pieces_of (chunkItems t)) = map piece_of (tr_items t) @ (if truthy (tr_streamingMessage t) then [Bubble (the (tr_streamingMessage t))] else [])
   \<and> successively (\<lambda>a b. \<not> (is_bubbles a \<and> is_bubbles b)) (chunkItems t) \<and> list_all (\<lambda>c. pieces_of c \<noteq> []) (chunkItems t)
   \<and> list_all (\<lambda>c. \<not> is_live c) (butlast (chunkItems t))"
  using chunks_well_chunked [of None] unfolding chunkItems_def well_chunked_def chunk_pieces
  by (auto dest: truthy_Some)

end
