(* ===== verification/Uri.thy ===== *)
theory Uri
  imports Commands
begin

text \<open>
  JavaScript's \<open>decodeURIComponent\<close>, and that it gives back what \<open>encodeURIComponent\<close> (theory \<open>Commands\<close>) wrote.
\<close>

section \<open>decodeURIComponent\<close>

text \<open>A byte written as \<open>%XY\<close>, and \<open>n\<close> continuation bytes.\<close>

fun percent_byte :: "jstr \<Rightarrow> (nat \<times> jstr) option" where
  "percent_byte (p # a # b # r) = (if p = 37 then (case (hex_value a, hex_value b) of (Some x, Some y) \<Rightarrow> Some (16 * x + y, r) | _ \<Rightarrow> None) else None)"
| "percent_byte _ = None"

fun percent_tail :: "nat \<Rightarrow> nat \<Rightarrow> jstr \<Rightarrow> (nat \<times> jstr) option" where
  "percent_tail 0 v s = Some (v, s)"
| "percent_tail (Suc n) v s = (case percent_byte s of None \<Rightarrow> None
     | Some (b, r) \<Rightarrow> if 128 \<le> b \<and> b < 192 then percent_tail n (64 * v + (b - 128)) r else None)"

text \<open>A code point, from its first byte on: the number of bytes to follow, the bits the first one gives, and the least point of that length.\<close>

definition percent_point :: "jstr \<Rightarrow> (nat \<times> jstr) option" where
  "percent_point s = (case percent_byte s of None \<Rightarrow> None
     | Some (b, r) \<Rightarrow>
         if b < 128 then Some (b, r)
         else (case (if b < 192 then None else if b < 224 then Some (1, b - 192, 128) else if b < 240 then Some (2, b - 224, 2048)
                     else if b < 248 then Some (3, b - 240, 65536) else None) of
             None \<Rightarrow> None
           | Some (n, v, least) \<Rightarrow> (case percent_tail n v r of None \<Rightarrow> None
               | Some (p, t) \<Rightarrow> if least \<le> p \<and> p < 1114112 \<and> \<not> (55296 \<le> p \<and> p < 57344) then Some (p, t) else None)))"

definition units_of :: "nat \<Rightarrow> jstr" where
  "units_of p = (if p < 65536 then [p] else [55296 + (p - 65536) div 1024, 56320 + (p - 65536) mod 1024])"

lemma percent_byte_shorter: "percent_byte s = Some (b, r) \<Longrightarrow> length r < length s"
  by (cases s rule: percent_byte.cases) (auto split: if_splits option.splits)

lemma percent_tail_shorter: "percent_tail n v s = Some (p, r) \<Longrightarrow> length r \<le> length s"
  by (induction n arbitrary: v s) (force split: option.splits if_splits dest: percent_byte_shorter)+

lemma percent_point_shorter: "percent_point s = Some (p, r) \<Longrightarrow> length r < length s"
  unfolding percent_point_def
  by (auto split: option.splits if_splits dest!: percent_byte_shorter percent_tail_shorter)

text \<open>\<open>None\<close>: it throws.\<close>

function decodeURIComponent :: "jstr \<Rightarrow> jstr option" where
  "decodeURIComponent s = (case s of [] \<Rightarrow> Some []
     | c # cs \<Rightarrow> if c \<noteq> 37 then map_option ((#) c) (decodeURIComponent cs)
         else (case percent_point s of None \<Rightarrow> None | Some (p, r) \<Rightarrow> map_option ((@) (units_of p)) (decodeURIComponent r)))"
  by pat_completeness auto
termination
  by (relation "measure length") (auto dest: percent_point_shorter)

declare decodeURIComponent.simps [simp del]

section \<open>It undoes encoding\<close>

lemma percent_read:
  assumes "n < 256"
  shows "percent_byte (percent (word_of_nat n) @ r) = Some (n, r)"
proof -
  have n: "unat (word_of_nat n :: byte) = n" using assms by (simp add: unat_of_nat take_bit_eq_mod)
  have "hex_value (if d < 10 then 48 + d else 55 + d) = Some d" if "d < 16" for d
    using that by (auto simp: hex_value_def is_digit_def)
  then have h: "hex_value (if n div 16 < 10 then 48 + n div 16 else 55 + n div 16) = Some (n div 16)"
    "hex_value (if n mod 16 < 10 then 48 + n mod 16 else 55 + n mod 16) = Some (n mod 16)"
    using assms by (simp_all add: less_mult_imp_div_less)
  then show ?thesis by (simp add: percent_def Let_def n del: if_split)
qed

lemma sextets: "64 * (64 * (n div 4096) + n div 64 mod 64) + n mod 64 = (n::nat)" "64 * (n div 262144) + n div 4096 mod 64 = (n::nat) div 4096"
proof -
  have "n div 4096 = n div 64 div 64" "n div 262144 = n div 4096 div 64" by (simp_all add: div_mult2_eq [symmetric])
  then show "64 * (64 * (n div 4096) + n div 64 mod 64) + n mod 64 = n" "64 * (n div 262144) + n div 4096 mod 64 = n div 4096"
    by (metis mult_div_mod_eq)+
qed

lemma point_read:
  assumes "p < 1114112" "\<not> (55296 \<le> p \<and> p < 57344)"
  shows "percent_point (concat (map percent (utf8_point p)) @ r) = Some (p, r)"
proof -
  note read = utf8_point_def percent_point_def percent_read
  consider "p < 128" | "128 \<le> p" "p < 2048" | "2048 \<le> p" "p < 65536" | "65536 \<le> p" by linarith
  then show ?thesis
  proof cases
    case 1
    then show ?thesis by (simp add: read)
  next
    case 2
    obtain q m where p: "p div 64 = q" "p mod 64 = m" by simp
    have v: "64 * q + m = p" unfolding p [symmetric] by (rule mult_div_mod_eq)
    have "q < 32" "m < 64" using 2 p(1,2) by (auto simp: less_mult_imp_div_less)
    then show ?thesis using 2 v by (simp add: read p del: of_nat_add)
  next
    case 3
    obtain q n m where p: "p div 4096 = q" "p div 64 mod 64 = n" "p mod 64 = m" by simp
    have v: "64 * (64 * q + n) + m = p" unfolding p [symmetric] by (rule sextets)
    have "q < 16" "m < 64" "n < 64" using 3 p by (auto simp: less_mult_imp_div_less)
    then show ?thesis using 3 assms(2) v by (simp add: read p numeral_2_eq_2 del: of_nat_add)
  next
    case 4
    obtain q n m k where p: "p div 262144 = q" "p div 4096 mod 64 = n" "p div 64 mod 64 = m" "p mod 64 = k" by simp
    have v: "64 * (64 * (64 * q + n) + m) + k = p" unfolding p [symmetric] sextets(2) by (rule sextets)
    have "q < 5" "m < 64" "n < 64" "k < 64" using assms(1) p by (auto simp: less_mult_imp_div_less)
    then show ?thesis using 4 assms v by (simp add: read p numeral_3_eq_3 del: of_nat_add)
  qed
qed

lemma utf8_point_first: "utf8_point p = b # bs \<Longrightarrow> concat (map percent (utf8_point p)) @ r = 37 # tl (percent b) @ concat (map percent bs) @ r"
  by (simp add: percent_def Let_def)

lemma decode_point:
  assumes "p < 1114112" "\<not> (55296 \<le> p \<and> p < 57344)"
  shows "decodeURIComponent (concat (map percent (utf8_point p)) @ r) = map_option ((@) (units_of p)) (decodeURIComponent r)"
proof -
  obtain b bs where "utf8_point p = b # bs" by (cases "utf8_point p") (auto simp: utf8_point_def split: if_splits)
  then show ?thesis
    using point_read [OF assms, of r] unfolding utf8_point_first [OF \<open>utf8_point p = b # bs\<close>]
    by (simp add: decodeURIComponent.simps [of "37 # _"])
qed

lemma decode_char: "c \<noteq> 37 \<Longrightarrow> decodeURIComponent (c # r) = map_option ((#) c) (decodeURIComponent r)" "decodeURIComponent [] = Some []"
  by (simp_all add: decodeURIComponent.simps [of "_ # _"] decodeURIComponent.simps [of "[]"])

lemma units_of_pair:
  assumes "55296 \<le> c" "c < 56320" "56320 \<le> d" "d < 57344"
  shows "units_of (65536 + (c - 55296) * 1024 + (d - 56320)) = [c, d]"
proof -
  obtain x y where "c = 55296 + x" "d = 56320 + y" using assms by (metis le_Suc_ex)
  then show ?thesis using assms by (simp add: units_of_def add.assoc)
qed

lemma decode_encoded:
  "encodeURIComponent s = Some e \<Longrightarrow> list_all (\<lambda>c. c < 65536) s \<Longrightarrow> decodeURIComponent (e @ r) = map_option ((@) s) (decodeURIComponent r)"
proof (induction s arbitrary: e rule: encodeURIComponent.induct)
  case 1
  then show ?case by (simp add: option.map_ident)
next
  case (2 c cs)
  consider (plain) "uri_plain c" | (pair) d ds where "\<not> uri_plain c" "55296 \<le> c" "c < 56320" "cs = d # ds" "56320 \<le> d" "d < 57344"
    | (point) "\<not> uri_plain c" "\<not> (55296 \<le> c \<and> c < 57344)"
    using 2(4) by (auto split: if_splits list.splits)
  then show ?case
  proof cases
    case plain
    then obtain e1 where "encodeURIComponent cs = Some e1" "e = c # e1" using 2(4) by auto
    moreover have "c \<noteq> 37" using plain by (auto simp: uri_plain_def is_digit_def is_lower_def is_upper_def)
    ultimately show ?thesis using 2(1) [OF plain] 2(5) by (simp add: decode_char option.map_comp comp_def)
  next
    case pair
    let ?p = "65536 + (c - 55296) * 1024 + (d - 56320)"
    obtain e1 where e: "encodeURIComponent ds = Some e1" "e = concat (map percent (utf8_point ?p)) @ e1"
      using 2(4) pair by auto
    have "?p < 1114112" "\<not> (55296 \<le> ?p \<and> ?p < 57344)" using pair by auto
    then show ?thesis
      using 2(2) [of d ds e1] 2(5) pair decode_point [of ?p "e1 @ r"] units_of_pair [OF pair(2,3,5,6)] unfolding e(2)
      by (simp add: e(1) option.map_comp comp_def)
  next
    case point
    then obtain e1 where e: "encodeURIComponent cs = Some e1" "e = concat (map percent (utf8_point c)) @ e1"
      using 2(4) by (auto split: if_splits)
    then show ?thesis using 2(3) [of e1] 2(5) point by (auto simp: decode_point units_of_def option.map_comp comp_def)
  qed
qed

corollary decode_encode: "encodeURIComponent s = Some e \<Longrightarrow> list_all (\<lambda>c. c < 65536) s \<Longrightarrow> decodeURIComponent e = Some s"
  using decode_encoded [of s e "[]"] by (simp add: decode_char)

lemma decode_without_percent: "37 \<notin> set s \<Longrightarrow> decodeURIComponent s = Some s"
  by (induction s) (simp_all add: decode_char)

section \<open>What encoded text is made of\<close>

text \<open>The characters of an encoded text: none that would end a segment or the path.\<close>

definition path_char :: "nat \<Rightarrow> bool" where
  "path_char c = (uri_plain c \<or> c = 37)"

lemma percent_chars: "list_all path_char (percent b)"
proof -
  have "unat b < 256" using unsigned_less [of b, where ?'a = nat] by simp
  then have "unat b div 16 < 16" by (simp add: less_mult_imp_div_less)
  then show ?thesis by (auto simp: percent_def Let_def path_char_def uri_plain_def is_digit_def is_upper_def)
qed

lemma percents_chars: "list_all path_char (concat (map percent bs))"
  using percent_chars by (auto simp: list_all_iff)

lemma encode_chars: "encodeURIComponent s = Some e \<Longrightarrow> list_all path_char e"
  by (induction s arbitrary: e rule: encodeURIComponent.induct)
    (auto simp: percents_chars path_char_def [of "_"] split: if_splits list.splits simp del: utf8_bytes.simps)

lemma path_char_not: "list_all path_char e \<Longrightarrow> 47 \<notin> set e \<and> 63 \<notin> set e \<and> 35 \<notin> set e"
  by (auto simp: list_all_iff path_char_def uri_plain_def is_digit_def is_lower_def is_upper_def)

lemma percents_Nil: "(concat (map percent bs) = []) = (bs = [])"
  by (cases bs) (simp_all add: percent_def Let_def)

lemma utf8_point_Nil: "utf8_point p \<noteq> []"
  by (simp add: utf8_point_def)

lemma encode_Nil: "encodeURIComponent s = Some e \<Longrightarrow> s \<noteq> [] \<Longrightarrow> e \<noteq> []"
  by (cases s) (auto simp: percents_Nil utf8_point_Nil simp del: concat_eq_Nil_conv split: if_splits list.splits)

end
