(* ===== verification/Client.thy ===== *)
theory Client
  imports Sandbox Api Uri
begin

text \<open>
  The web UI's client of the API (\<open>web/src/lib/api-client.ts\<close>): the requests its functions make and what they make of an answer;
  and the server's side of it, the routes as they are registered (\<open>server/index.ts\<close>, \<open>server/routes\<close>) and the answers for errors
  (\<open>server/errors.ts\<close>). Hono's router is the parameter \<open>hono\<close>: matching a path against a pattern, a parameter's value and a query's.
\<close>

section \<open>Requests\<close>

record web_request =
  wq_method :: jstr
  wq_path :: jstr
  wq_accept :: "jstr option"
  wq_type :: "jstr option"
  wq_body :: "jstr option"

definition resolveApiBase :: "jstr option \<Rightarrow> jstr option \<Rightarrow> jstr" where
  "resolveApiBase window env = (let b = (case window of Some w \<Rightarrow> w | None \<Rightarrow> or_empty env) in if ends_with (js ''/'') b then butlast b else b)"

text \<open>A path from a template: fixed text and encoded arguments. \<open>None\<close>: encoding throws.\<close>

fun url_path :: "(string + jstr) list \<Rightarrow> jstr option" where
  "url_path [] = Some []"
| "url_path (Inl t # r) = map_option ((@) (js t)) (url_path r)"
| "url_path (Inr a # r) = (case (encodeURIComponent a, url_path r) of (Some e, Some p) \<Rightarrow> Some (e @ p) | _ \<Rightarrow> None)"

definition getJson_request :: "(string + jstr) list \<Rightarrow> web_request option" where
  "getJson_request p = map_option (\<lambda>u. \<lparr>wq_method = js ''GET'', wq_path = u, wq_accept = None, wq_type = None, wq_body = None\<rparr>) (url_path p)"

definition jsonRequest_request :: "string \<Rightarrow> (string + jstr) list \<Rightarrow> json option \<Rightarrow> web_request option" where
  "jsonRequest_request m p body = map_option (\<lambda>u. \<lparr>wq_method = js m, wq_path = u, wq_accept = None,
     wq_type = (if body = None then None else Some (js ''application/json'')), wq_body = map_option json_stringify body\<rparr>) (url_path p)"

definition textRequest_request :: "string \<Rightarrow> (string + jstr) list \<Rightarrow> jstr option \<Rightarrow> web_request option" where
  "textRequest_request m p body = map_option (\<lambda>u. \<lparr>wq_method = js m, wq_path = u, wq_accept = None,
     wq_type = (if body = None then None else Some (js ''text/markdown'')), wq_body = body\<rparr>) (url_path p)"

datatype workspace_call =
    Ui_listWorkspaces | Ui_getWorkspace jstr | Ui_createWorkspace json | Ui_patchWorkspace jstr json | Ui_deleteWorkspace jstr bool
  | Ui_listEnvFiles jstr | Ui_getEnvFile jstr jstr | Ui_putEnvFile jstr jstr jstr | Ui_deleteEnvFile jstr jstr | Ui_resetEnvFile jstr jstr
  | Ui_getCredentialsStatus jstr | Ui_putCredentials jstr json | Ui_deleteCredentials jstr

definition force_query :: "bool \<Rightarrow> (string + jstr) list" where
  "force_query force = (if force then [Inl ''?force=true''] else [])"

fun workspace_call_request :: "workspace_call \<Rightarrow> web_request option" where
  "workspace_call_request Ui_listWorkspaces = getJson_request [Inl ''/api/v1/workspaces'']"
| "workspace_call_request (Ui_getWorkspace i) = getJson_request [Inl ''/api/v1/workspaces/'', Inr i]"
| "workspace_call_request (Ui_createWorkspace b) = jsonRequest_request ''POST'' [Inl ''/api/v1/workspaces''] (Some b)"
| "workspace_call_request (Ui_patchWorkspace i b) = jsonRequest_request ''PATCH'' [Inl ''/api/v1/workspaces/'', Inr i] (Some b)"
| "workspace_call_request (Ui_deleteWorkspace i force) = jsonRequest_request ''DELETE'' ([Inl ''/api/v1/workspaces/'', Inr i] @ force_query force) None"
| "workspace_call_request (Ui_listEnvFiles i) = getJson_request [Inl ''/api/v1/workspaces/'', Inr i, Inl ''/env'']"
| "workspace_call_request (Ui_getEnvFile i f) = textRequest_request ''GET'' [Inl ''/api/v1/workspaces/'', Inr i, Inl ''/env/'', Inr f] None"
| "workspace_call_request (Ui_putEnvFile i f c) = textRequest_request ''PUT'' [Inl ''/api/v1/workspaces/'', Inr i, Inl ''/env/'', Inr f] (Some c)"
| "workspace_call_request (Ui_deleteEnvFile i f) = jsonRequest_request ''DELETE'' [Inl ''/api/v1/workspaces/'', Inr i, Inl ''/env/'', Inr f] None"
| "workspace_call_request (Ui_resetEnvFile i f) = textRequest_request ''POST'' [Inl ''/api/v1/workspaces/'', Inr i, Inl ''/env/'', Inr f, Inl ''/reset''] None"
| "workspace_call_request (Ui_getCredentialsStatus i) = getJson_request [Inl ''/api/v1/workspaces/'', Inr i, Inl ''/credentials'']"
| "workspace_call_request (Ui_putCredentials i b) = jsonRequest_request ''PUT'' [Inl ''/api/v1/workspaces/'', Inr i, Inl ''/credentials''] (Some b)"
| "workspace_call_request (Ui_deleteCredentials i) = jsonRequest_request ''DELETE'' [Inl ''/api/v1/workspaces/'', Inr i, Inl ''/credentials''] None"

datatype team_call =
    Ui_listAllTeams "jstr option" | Ui_getTeam jstr | Ui_createTeam json | Ui_patchTeam jstr json | Ui_deleteTeam jstr bool
  | Ui_getTeamPrompt jstr jstr | Ui_putTeamPrompt jstr jstr jstr | Ui_resetTeam jstr | Ui_resetTeamPrompt jstr jstr

fun team_call_request :: "team_call \<Rightarrow> web_request option" where
  "team_call_request (Ui_listAllTeams kind) = getJson_request (Inl ''/api/v1/teams'' # (case kind of
     None \<Rightarrow> [] | Some k \<Rightarrow> if k = [] then [] else [Inl ''?workspaceKind='', Inr k]))"
| "team_call_request (Ui_getTeam n) = getJson_request [Inl ''/api/v1/teams/'', Inr n]"
| "team_call_request (Ui_createTeam b) = jsonRequest_request ''POST'' [Inl ''/api/v1/teams''] (Some b)"
| "team_call_request (Ui_patchTeam n b) = jsonRequest_request ''PATCH'' [Inl ''/api/v1/teams/'', Inr n] (Some b)"
| "team_call_request (Ui_deleteTeam n force) = jsonRequest_request ''DELETE'' ([Inl ''/api/v1/teams/'', Inr n] @ force_query force) None"
| "team_call_request (Ui_getTeamPrompt n r) = textRequest_request ''GET'' [Inl ''/api/v1/teams/'', Inr n, Inl ''/prompts/'', Inr r] None"
| "team_call_request (Ui_putTeamPrompt n r c) = textRequest_request ''PUT'' [Inl ''/api/v1/teams/'', Inr n, Inl ''/prompts/'', Inr r] (Some c)"
| "team_call_request (Ui_resetTeam n) = jsonRequest_request ''POST'' [Inl ''/api/v1/teams/'', Inr n, Inl ''/reset''] None"
| "team_call_request (Ui_resetTeamPrompt n r) = textRequest_request ''POST'' [Inl ''/api/v1/teams/'', Inr n, Inl ''/prompts/'', Inr r, Inl ''/reset''] None"

datatype session_call =
    Ui_listPhones | Ui_listTeams jstr | Ui_listWorkspaceSessions jstr | Ui_listSessions jstr jstr | Ui_getSession jstr jstr jstr
  | Ui_getEventsHistory jstr jstr jstr | Ui_getMessages jstr jstr jstr | Ui_streamSessionEvents jstr jstr jstr

definition session_path :: "jstr \<Rightarrow> jstr \<Rightarrow> jstr \<Rightarrow> (string + jstr) list" where
  "session_path w t i = [Inl ''/api/v1/workspaces/'', Inr w, Inl ''/teams/'', Inr t, Inl ''/sessions/'', Inr i]"

definition accepting :: "string \<Rightarrow> (string + jstr) list \<Rightarrow> web_request option" where
  "accepting a p = map_option (\<lambda>r. r\<lparr>wq_accept := Some (js a)\<rparr>) (getJson_request p)"

fun session_call_request :: "session_call \<Rightarrow> web_request option" where
  "session_call_request Ui_listPhones = getJson_request [Inl ''/api/v1/phones'']"
| "session_call_request (Ui_listTeams w) = getJson_request [Inl ''/api/v1/workspaces/'', Inr w, Inl ''/teams'']"
| "session_call_request (Ui_listWorkspaceSessions w) = getJson_request [Inl ''/api/v1/workspaces/'', Inr w, Inl ''/sessions'']"
| "session_call_request (Ui_listSessions w t) = getJson_request [Inl ''/api/v1/workspaces/'', Inr w, Inl ''/teams/'', Inr t, Inl ''/sessions'']"
| "session_call_request (Ui_getSession w t i) = getJson_request (session_path w t i)"
| "session_call_request (Ui_getEventsHistory w t i) = accepting ''application/x-ndjson'' (session_path w t i @ [Inl ''/events''])"
| "session_call_request (Ui_getMessages w t i) = accepting ''application/x-ndjson'' (session_path w t i @ [Inl ''/messages''])"
| "session_call_request (Ui_streamSessionEvents w t i) = accepting ''text/event-stream'' (session_path w t i @ [Inl ''/events''])"

definition startRun_request :: "json \<Rightarrow> web_request" where
  "startRun_request b = \<lparr>wq_method = js ''POST'', wq_path = js ''/api/v1/runs'', wq_accept = Some (js ''text/event-stream''),
     wq_type = Some (js ''application/json''), wq_body = Some (json_stringify b)\<rparr>"

definition resolveEscalation_request :: "jstr \<Rightarrow> json \<Rightarrow> web_request option" where
  "resolveEscalation_request token b = jsonRequest_request ''POST'' [Inl ''/api/v1/escalations/'', Inr token, Inl ''/resolve''] (Some b)"

datatype web_call = Ui_workspace workspace_call | Ui_team team_call | Ui_session session_call | Ui_startRun json | Ui_resolveEscalation jstr json

fun web_request_of :: "web_call \<Rightarrow> web_request option" where
  "web_request_of (Ui_workspace c) = workspace_call_request c"
| "web_request_of (Ui_team c) = team_call_request c"
| "web_request_of (Ui_session c) = session_call_request c"
| "web_request_of (Ui_startRun b) = Some (startRun_request b)"
| "web_request_of (Ui_resolveEscalation t b) = resolveEscalation_request t b"

section \<open>Answers\<close>

record web_answer =
  wa_status :: nat
  wa_statusText :: jstr
  wa_type :: "jstr option"
  wa_body :: jstr

text \<open>What a call throws: an \<open>ApiClientError\<close> with its status, code, message and details, or what JavaScript throws.\<close>

datatype client_error = ApiClientError nat "json option" "json option" "json option" | Js_error

datatype answer_value = V_json json | V_text jstr | V_undefined

definition answer_ok :: "web_answer \<Rightarrow> bool" where
  "answer_ok a = (200 \<le> wa_status a \<and> wa_status a < 300)"

definition unknown_error :: "jstr \<Rightarrow> json" where
  "unknown_error t = JObj [(js ''error'', JObj [(js ''code'', JStr (js ''unknown'')), (js ''message'', JStr t)])]"

text \<open>\<open>new ApiClientError(status, body)\<close> reads the fields of \<open>body.error\<close>, which throws when there is none.\<close>

definition answer_error :: "web_answer \<Rightarrow> client_error" where
  "answer_error a = (let body = (case json_parse (wa_body a) of Some j \<Rightarrow> j | None \<Rightarrow> unknown_error (wa_statusText a))
     in case json_get body (js ''error'') of
          None \<Rightarrow> Js_error
        | Some e \<Rightarrow> if e = JNull then Js_error
            else ApiClientError (wa_status a) (json_get e (js ''code'')) (json_get e (js ''message'')) (json_get e (js ''details'')))"

definition json_answer :: "web_answer \<Rightarrow> client_error + answer_value" where
  "json_answer a = (case json_parse (wa_body a) of Some j \<Rightarrow> Inr (V_json j) | None \<Rightarrow> Inl Js_error)"

definition getJson_answer :: "web_answer \<Rightarrow> client_error + answer_value" where
  "getJson_answer a = (if answer_ok a then json_answer a else Inl (answer_error a))"

fun contains_text :: "jstr \<Rightarrow> jstr \<Rightarrow> bool" where
  "contains_text w [] = (w = [])"
| "contains_text w (c # cs) = (starts_with w (c # cs) \<or> contains_text w cs)"

definition jsonRequest_answer :: "web_answer \<Rightarrow> client_error + answer_value" where
  "jsonRequest_answer a = (if \<not> answer_ok a then Inl (answer_error a)
     else if wa_status a = 204 then Inr V_undefined
     else if contains_text (js ''application/json'') (or_empty (wa_type a)) then json_answer a
     else Inr V_undefined)"

definition textRequest_answer :: "web_answer \<Rightarrow> client_error + answer_value" where
  "textRequest_answer a = (if answer_ok a then Inr (V_text (wa_body a)) else Inl (answer_error a))"

definition resolveEscalation_answer :: "web_answer \<Rightarrow> client_error option" where
  "resolveEscalation_answer a = (if answer_ok a then None else Some (answer_error a))"

section \<open>The server's errors\<close>

fun code_name :: "error_code \<Rightarrow> string" where
  "code_name Bad_request = ''bad_request''"
| "code_name Workspace_not_found = ''workspace_not_found''"
| "code_name Team_not_found = ''team_not_found''"
| "code_name Session_not_found = ''session_not_found''"
| "code_name Escalation_not_found = ''escalation_not_found''"
| "code_name Escalation_already_resolved = ''escalation_already_resolved''"
| "code_name Workspace_kind_mismatch = ''workspace_kind_mismatch''"
| "code_name Workspace_already_exists = ''workspace_already_exists''"
| "code_name Team_already_exists = ''team_already_exists''"
| "code_name Workspace_has_sessions = ''workspace_has_sessions''"
| "code_name Env_file_not_found = ''env_file_not_found''"
| "code_name No_default_for_file = ''no_default_for_file''"
| "code_name No_default_for_team = ''no_default_for_team''"
| "code_name Agent_role_not_found = ''agent_role_not_found''"
| "code_name Phone_unresolvable = ''phone_unresolvable''"
| "code_name Phones_unavailable = ''phones_unavailable''"
| "code_name Internal = ''internal''"

definition json_body :: "nat \<Rightarrow> jstr \<Rightarrow> json \<Rightarrow> web_answer" where
  "json_body st statusText j = \<lparr>wa_status = st, wa_statusText = statusText, wa_type = Some (js ''application/json''), wa_body = json_stringify j\<rparr>"

definition error_envelope :: "string \<Rightarrow> jstr \<Rightarrow> json option \<Rightarrow> json" where
  "error_envelope code message details = JObj [(js ''error'', JObj ([(js ''code'', JStr (js code)), (js ''message'', JStr message)]
     @ (case details of None \<Rightarrow> [] | Some d \<Rightarrow> [(js ''details'', d)])))]"

definition apiError :: "(nat \<Rightarrow> jstr) \<Rightarrow> error_code \<Rightarrow> jstr \<Rightarrow> json option \<Rightarrow> web_answer" where
  "apiError statusText code message details = json_body (ERROR_STATUS code) (statusText (ERROR_STATUS code)) (error_envelope (code_name code) message details)"

definition notFound :: "(nat \<Rightarrow> jstr) \<Rightarrow> jstr \<Rightarrow> jstr \<Rightarrow> web_answer" where
  "notFound statusText m p = json_body 404 (statusText 404) (error_envelope ''bad_request'' (js ''route not found: '' @ m @ [32] @ p) None)"

definition onError :: "(nat \<Rightarrow> jstr) \<Rightarrow> jstr \<Rightarrow> web_answer" where
  "onError statusText message = json_body 500 (statusText 500) (error_envelope ''internal'' message None)"

section \<open>The server's routes\<close>

text \<open>What a route does with a request: the team and workspace routes' requests, and those of the others.\<close>

datatype ui_request =
    To_api api_request
  | To_phones
  | To_workspace_sessions jstr
  | To_team_sessions jstr jstr
  | To_session jstr jstr jstr
  | To_messages jstr jstr jstr
  | To_events jstr jstr jstr bool
  | To_trace jstr jstr jstr jstr jstr
  | To_run "json option"
  | To_resolve jstr "json option"

datatype seg = Lit string | Par

fun pattern_fits :: "seg list \<Rightarrow> jstr list \<Rightarrow> jstr list option" where
  "pattern_fits [] [] = Some []"
| "pattern_fits (Lit l # ps) (s # ss) = (if s = js l then pattern_fits ps ss else None)"
| "pattern_fits (Par # ps) (s # ss) = (if s = [] then None else map_option ((#) s) (pattern_fits ps ss))"
| "pattern_fits _ _ = None"

text \<open>Hono's router: a path's segments against a pattern, a parameter's value, the value of a key of the query.\<close>

record hono =
  hn_match :: "seg list \<Rightarrow> jstr list \<Rightarrow> jstr list option"
  hn_param :: "jstr \<Rightarrow> jstr"
  hn_query :: "jstr \<Rightarrow> jstr \<Rightarrow> jstr option"

text \<open>What a route reads of a request: its parameters, query, \<open>Accept\<close> and body. Reading the body as JSON throws when it is none.\<close>

record route_input =
  ri_now :: int
  ri_params :: "jstr list"
  ri_query :: "jstr \<Rightarrow> jstr option"
  ri_accept :: jstr
  ri_body :: jstr

definition ri_json :: "route_input \<Rightarrow> json option" where
  "ri_json x = json_parse (ri_body x)"

text \<open>\<open>decodeURIComponent(c.req.param(...))\<close>; \<open>None\<close>: it throws, and the answer is a 500.\<close>

definition with_param :: "nat \<Rightarrow> (jstr \<Rightarrow> route_input \<Rightarrow> ui_request option) \<Rightarrow> route_input \<Rightarrow> ui_request option" where
  "with_param k f x = (case decodeURIComponent (ri_params x ! k) of None \<Rightarrow> None | Some v \<Rightarrow> f v x)"

definition forced :: "route_input \<Rightarrow> bool" where
  "forced x = (ri_query x (js ''force'') = Some (js ''true''))"

type_synonym route = "string \<times> seg list \<times> (route_input \<Rightarrow> ui_request option)"

abbreviation ws_route :: "(route_input \<Rightarrow> workspace_request) \<Rightarrow> route_input \<Rightarrow> ui_request option" where
  "ws_route f \<equiv> \<lambda>x. Some (To_api (A_workspace (f x)))"

abbreviation tm_route :: "(route_input \<Rightarrow> team_request) \<Rightarrow> route_input \<Rightarrow> ui_request option" where
  "tm_route f \<equiv> \<lambda>x. Some (To_api (A_team (f x)))"

definition workspaces_routes :: "route list" where
  "workspaces_routes =
    [(''GET'', [Lit ''workspaces''], ws_route (\<lambda>x. Workspaces_list)),
     (''POST'', [Lit ''workspaces''], ws_route (\<lambda>x. Workspaces_create (ri_now x) (ri_json x))),
     (''GET'', [Lit ''workspaces'', Par], with_param 0 (\<lambda>i. ws_route (\<lambda>x. Workspace_get i))),
     (''PATCH'', [Lit ''workspaces'', Par], with_param 0 (\<lambda>i. ws_route (\<lambda>x. Workspace_patch i (ri_json x)))),
     (''DELETE'', [Lit ''workspaces'', Par], with_param 0 (\<lambda>i. ws_route (\<lambda>x. Workspace_delete i (forced x)))),
     (''GET'', [Lit ''workspaces'', Par, Lit ''env''], with_param 0 (\<lambda>i. ws_route (\<lambda>x. Env_list i))),
     (''GET'', [Lit ''workspaces'', Par, Lit ''env'', Par], with_param 0 (\<lambda>i. with_param 1 (\<lambda>f. ws_route (\<lambda>x. Env_get i f)))),
     (''PUT'', [Lit ''workspaces'', Par, Lit ''env'', Par], with_param 0 (\<lambda>i. with_param 1 (\<lambda>f. ws_route (\<lambda>x. Env_put i f (ri_body x))))),
     (''DELETE'', [Lit ''workspaces'', Par, Lit ''env'', Par], with_param 0 (\<lambda>i. with_param 1 (\<lambda>f. ws_route (\<lambda>x. Env_delete i f)))),
     (''POST'', [Lit ''workspaces'', Par, Lit ''env'', Par, Lit ''reset''], with_param 0 (\<lambda>i. with_param 1 (\<lambda>f. ws_route (\<lambda>x. Env_reset i f)))),
     (''GET'', [Lit ''workspaces'', Par, Lit ''credentials''], with_param 0 (\<lambda>i. ws_route (\<lambda>x. Cred_get i))),
     (''PUT'', [Lit ''workspaces'', Par, Lit ''credentials''], with_param 0 (\<lambda>i. ws_route (\<lambda>x. Cred_put i (ri_json x)))),
     (''DELETE'', [Lit ''workspaces'', Par, Lit ''credentials''], with_param 0 (\<lambda>i. ws_route (\<lambda>x. Cred_delete i))),
     (''GET'', [Lit ''workspaces'', Par, Lit ''teams''], with_param 0 (\<lambda>i. ws_route (\<lambda>x. Workspace_teams i)))]"

definition teams_routes :: "route list" where
  "teams_routes =
    [(''GET'', [Lit ''teams''], tm_route (\<lambda>x. Teams_list (ri_query x (js ''workspaceKind'')))),
     (''POST'', [Lit ''teams''], tm_route (\<lambda>x. Teams_create (ri_json x))),
     (''GET'', [Lit ''teams'', Par], with_param 0 (\<lambda>n. tm_route (\<lambda>x. Team_get n))),
     (''PATCH'', [Lit ''teams'', Par], with_param 0 (\<lambda>n. tm_route (\<lambda>x. Team_patch n (ri_json x)))),
     (''DELETE'', [Lit ''teams'', Par], with_param 0 (\<lambda>n. tm_route (\<lambda>x. Team_delete n (forced x)))),
     (''POST'', [Lit ''teams'', Par, Lit ''reset''], with_param 0 (\<lambda>n. tm_route (\<lambda>x. Team_reset n))),
     (''GET'', [Lit ''teams'', Par, Lit ''prompts'', Par], with_param 0 (\<lambda>n. with_param 1 (\<lambda>r. tm_route (\<lambda>x. Prompt_get n r)))),
     (''PUT'', [Lit ''teams'', Par, Lit ''prompts'', Par], with_param 0 (\<lambda>n. with_param 1 (\<lambda>r. tm_route (\<lambda>x. Prompt_put n r (ri_body x))))),
     (''POST'', [Lit ''teams'', Par, Lit ''prompts'', Par, Lit ''reset''], with_param 0 (\<lambda>n. with_param 1 (\<lambda>r. tm_route (\<lambda>x. Prompt_reset n r))))]"

definition sessions_routes :: "route list" where
  "sessions_routes =
    [(''GET'', [Lit ''workspaces'', Par, Lit ''sessions''], with_param 0 (\<lambda>w x. Some (To_workspace_sessions w))),
     (''GET'', [Lit ''workspaces'', Par, Lit ''teams'', Par, Lit ''sessions''], with_param 0 (\<lambda>w. with_param 1 (\<lambda>t x. Some (To_team_sessions w t)))),
     (''GET'', [Lit ''workspaces'', Par, Lit ''teams'', Par, Lit ''sessions'', Par],
        with_param 0 (\<lambda>w. with_param 1 (\<lambda>t x. Some (To_session w t (ri_params x ! 2))))),
     (''GET'', [Lit ''workspaces'', Par, Lit ''teams'', Par, Lit ''sessions'', Par, Lit ''messages''],
        with_param 0 (\<lambda>w. with_param 1 (\<lambda>t x. Some (To_messages w t (ri_params x ! 2))))),
     (''GET'', [Lit ''workspaces'', Par, Lit ''teams'', Par, Lit ''sessions'', Par, Lit ''events''],
        with_param 0 (\<lambda>w. with_param 1 (\<lambda>t x. Some (To_events w t (ri_params x ! 2) (contains_text (js ''text/event-stream'') (ri_accept x)))))),
     (''GET'', [Lit ''workspaces'', Par, Lit ''teams'', Par, Lit ''sessions'', Par, Lit ''traces'', Par, Par],
        with_param 0 (\<lambda>w. with_param 1 (\<lambda>t x. Some (To_trace w t (ri_params x ! 2) (ri_params x ! 3) (ri_params x ! 4)))))]"

text \<open>\<open>buildApp\<close>: the routes in the order they are mounted, below \<open>/api/v1\<close>.\<close>

definition api_routes :: "route list" where
  "api_routes = map (\<lambda>(m, p, f). (m, Lit [] # Lit ''api'' # Lit ''v1'' # p, f))
     (workspaces_routes @ teams_routes @ [(''GET'', [Lit ''phones''], \<lambda>x. Some To_phones)] @ sessions_routes
      @ [(''POST'', [Lit ''runs''], \<lambda>x. Some (To_run (ri_json x))),
         (''POST'', [Lit ''escalations'', Par, Lit ''resolve''], with_param 0 (\<lambda>t x. Some (To_resolve t (ri_json x))))])"

text \<open>
  The path's segments and the query, as the URL standard has them. \<open>None\<close>: the path has a segment of dots, which the browser
  resolves, so that the request goes elsewhere.
\<close>

definition fetch_path :: "jstr \<Rightarrow> (jstr list \<times> jstr) option" where
  "fetch_path u = (let p = takeWhile (\<lambda>c. c \<noteq> 63) u; segs = split_on 47 p
     in if js ''.'' \<in> set segs \<or> js ''..'' \<in> set segs then None else Some (segs, drop (Suc (length p)) u))"

datatype dispatched = Reaches ui_request | Throws_500 | Not_found_404

definition first_route :: "hono \<Rightarrow> jstr \<Rightarrow> jstr list \<Rightarrow> route list \<Rightarrow> (jstr list \<times> (route_input \<Rightarrow> ui_request option)) option" where
  "first_route h m segs rs = (case List.find (\<lambda>(m1, p, f). js m1 = m \<and> hn_match h p segs \<noteq> None) rs of
     None \<Rightarrow> None | Some (m1, p, f) \<Rightarrow> Some (the (hn_match h p segs), f))"

definition app_dispatch :: "hono \<Rightarrow> int \<Rightarrow> web_request \<Rightarrow> dispatched option" where
  "app_dispatch h now r = (case fetch_path (wq_path r) of
      None \<Rightarrow> None
    | Some (segs, query) \<Rightarrow> (case first_route h (wq_method r) segs api_routes of
        None \<Rightarrow> Some Not_found_404
      | Some (ps, f) \<Rightarrow> (case f \<lparr>ri_now = now, ri_params = map (hn_param h) ps, ri_query = hn_query h query,
              ri_accept = or_empty (wq_accept r), ri_body = or_empty (wq_body r)\<rparr> of
          None \<Rightarrow> Some Throws_500 | Some u \<Rightarrow> Some (Reaches u))))"

end
