(* ===== verification/ClientRun.thy ===== *)
theory ClientRun
  imports Client Viewer RunsRun
begin

text \<open>
  The web UI's calls reach the routes they mean: encoding an argument into a path is undone by the server's decoding, also when the
  router has decoded it before, every call arrives with its arguments, and an error the server answers is the one the call throws.
\<close>

section \<open>Arguments of a path\<close>

text \<open>What is assumed of the router, as it is documented. It may or may not decode a parameter's value itself.\<close>

definition hono_documented :: "hono \<Rightarrow> bool" where
  "hono_documented h = (hn_match h = pattern_fits
     \<and> (\<forall>e. hn_param h e = e \<or> Some (hn_param h e) = decodeURIComponent e)
     \<and> (\<forall>k. hn_query h [] k = None)
     \<and> (\<forall>k v e. list_all uri_plain k \<longrightarrow> list_all (\<lambda>c. c < 65536) v \<longrightarrow> encodeURIComponent v = Some e \<longrightarrow> hn_query h (k @ 61 # e) k = Some v))"

text \<open>An argument that arrives: text that can be encoded, that is no segment of dots, and without a percent sign.\<close>

definition arg_ok :: "jstr \<Rightarrow> bool" where
  "arg_ok a = (a \<noteq> [] \<and> a \<noteq> js ''.'' \<and> a \<noteq> js ''..'' \<and> 37 \<notin> set a \<and> list_all (\<lambda>c. c < 65536) a \<and> encodeURIComponent a \<noteq> None)"

lemma param_decoded:
  assumes "hono_documented h" "arg_ok a" "encodeURIComponent a = Some e"
  shows "decodeURIComponent (hn_param h e) = Some a"
proof -
  have d: "decodeURIComponent e = Some a" using assms(2,3) by (simp add: arg_ok_def decode_encode)
  have "hn_param h e = e \<or> hn_param h e = a" using assms(1) d by (auto simp: hono_documented_def)
  then show ?thesis using d assms(2) decode_without_percent [of a] by (auto simp: arg_ok_def)
qed

lemma encode_plain_text: "list_all uri_plain s \<Longrightarrow> encodeURIComponent s = Some s"
  by (induction s) simp_all

text \<open>A session's id is put into paths as it is.\<close>

lemma param_plain:
  assumes "hono_documented h" "list_all uri_plain a"
  shows "hn_param h a = a"
proof -
  have "37 \<notin> set a" using assms(2) by (auto simp: list_all_iff uri_plain_def is_digit_def is_lower_def is_upper_def)
  then have "decodeURIComponent a = Some a" by (rule decode_without_percent)
  then show ?thesis using assms(1) by (auto simp: hono_documented_def)
qed

lemma encoded_segment:
  assumes "arg_ok a" "encodeURIComponent a = Some e"
  shows "e \<noteq> []" "js ''.'' \<noteq> e" "js ''..'' \<noteq> e" "47 \<notin> set e" "63 \<notin> set e"
proof -
  have d: "decodeURIComponent e = Some a" using assms by (simp add: arg_ok_def decode_encode)
  show "e \<noteq> []" using d assms(1) by (auto simp: decode_char arg_ok_def)
  have "decodeURIComponent (js ''.'') = Some (js ''.'')" "decodeURIComponent (js ''..'') = Some (js ''..'')"
    by (simp_all add: decode_without_percent js_def)
  then show "js ''.'' \<noteq> e" "js ''..'' \<noteq> e" using d assms(1) by (auto simp: arg_ok_def)
  show "47 \<notin> set e" "63 \<notin> set e" using path_char_not [OF encode_chars [OF assms(2)]] by simp_all
qed

text \<open>Cutting a path into segments, literal text into characters only where it has to be.\<close>

lemma in_js: "47 \<in> set (js s) \<longleftrightarrow> CHR ''/'' \<in> set s" "63 \<in> set (js s) \<longleftrightarrow> CHR ''?'' \<in> set s"
proof -
  have "c = d" if "of_char c = (of_char d :: nat)" for c d :: char using that by simp
  moreover have "of_char (CHR ''/'') = (47 :: nat)" "of_char (CHR ''?'') = (63 :: nat)" by simp_all
  ultimately show "47 \<in> set (js s) \<longleftrightarrow> CHR ''/'' \<in> set s" "63 \<in> set (js s) \<longleftrightarrow> CHR ''?'' \<in> set s"
    unfolding js_def by (metis (no_types, lifting) image_iff list.set_map)+
qed

lemma cut_segment: "47 \<notin> set x \<Longrightarrow> split_on 47 (x @ 47 # r) = x # split_on 47 r" "47 \<notin> set x \<Longrightarrow> split_on 47 x = [x]" "split_on 47 (47 # r) = [] # split_on 47 r"
proof -
  show one: "split_on 47 x = [x]" if "47 \<notin> set x" for x using that by (induction x) auto
  show "split_on 47 (x @ 47 # r) = x # split_on 47 r" if "47 \<notin> set x" using one [OF that] by (simp add: split_on_sep)
qed simp

lemma cut_query: "63 \<notin> set x \<Longrightarrow> takeWhile (\<lambda>c. c \<noteq> 63) (x @ r) = x @ takeWhile (\<lambda>c. c \<noteq> 63) r" "63 \<notin> set x \<Longrightarrow> takeWhile (\<lambda>c. c \<noteq> (63::nat)) x = x"
  by (auto simp: takeWhile_append)

lemma literal_paths:
  "js ''/api/v1/workspaces'' = 47 # js ''api'' @ 47 # js ''v1'' @ 47 # js ''workspaces''"
  "js ''/api/v1/workspaces/'' = 47 # js ''api'' @ 47 # js ''v1'' @ 47 # js ''workspaces'' @ [47]"
  "js ''/api/v1/teams'' = 47 # js ''api'' @ 47 # js ''v1'' @ 47 # js ''teams''"
  "js ''/api/v1/teams/'' = 47 # js ''api'' @ 47 # js ''v1'' @ 47 # js ''teams'' @ [47]"
  "js ''/api/v1/escalations/'' = 47 # js ''api'' @ 47 # js ''v1'' @ 47 # js ''escalations'' @ [47]"
  "js ''/api/v1/phones'' = 47 # js ''api'' @ 47 # js ''v1'' @ 47 # js ''phones''"
  "js ''/api/v1/runs'' = 47 # js ''api'' @ 47 # js ''v1'' @ 47 # js ''runs''"
  "js ''/env'' = 47 # js ''env''" "js ''/env/'' = 47 # js ''env'' @ [47]" "js ''/reset'' = 47 # js ''reset''" "js ''/credentials'' = 47 # js ''credentials''"
  "js ''/teams'' = 47 # js ''teams''" "js ''/teams/'' = 47 # js ''teams'' @ [47]" "js ''/prompts/'' = 47 # js ''prompts'' @ [47]"
  "js ''/sessions'' = 47 # js ''sessions''" "js ''/sessions/'' = 47 # js ''sessions'' @ [47]" "js ''/events'' = 47 # js ''events''"
  "js ''/messages'' = 47 # js ''messages''" "js ''/resolve'' = 47 # js ''resolve''"
  "js ''?force=true'' = 63 # js ''force'' @ 61 # js ''true''" "js ''?workspaceKind='' = 63 # js ''workspaceKind'' @ [61]"
  by (simp_all add: js_def)

lemmas path_simps = literal_paths in_js cut_segment cut_query fetch_path_def Let_def

section \<open>Every call arrives\<close>

text \<open>What each call means.\<close>

fun asks_workspace :: "int \<Rightarrow> workspace_call \<Rightarrow> workspace_request" where
  "asks_workspace now Ui_listWorkspaces = Workspaces_list"
| "asks_workspace now (Ui_getWorkspace i) = Workspace_get i"
| "asks_workspace now (Ui_createWorkspace b) = Workspaces_create now (Some b)"
| "asks_workspace now (Ui_patchWorkspace i b) = Workspace_patch i (Some b)"
| "asks_workspace now (Ui_deleteWorkspace i force) = Workspace_delete i force"
| "asks_workspace now (Ui_listEnvFiles i) = Env_list i"
| "asks_workspace now (Ui_getEnvFile i f) = Env_get i f"
| "asks_workspace now (Ui_putEnvFile i f c) = Env_put i f c"
| "asks_workspace now (Ui_deleteEnvFile i f) = Env_delete i f"
| "asks_workspace now (Ui_resetEnvFile i f) = Env_reset i f"
| "asks_workspace now (Ui_getCredentialsStatus i) = Cred_get i"
| "asks_workspace now (Ui_putCredentials i b) = Cred_put i (Some b)"
| "asks_workspace now (Ui_deleteCredentials i) = Cred_delete i"

fun asks_team :: "team_call \<Rightarrow> team_request" where
  "asks_team (Ui_listAllTeams kind) = Teams_list (if kind = Some [] then None else kind)"
| "asks_team (Ui_getTeam n) = Team_get n"
| "asks_team (Ui_createTeam b) = Teams_create (Some b)"
| "asks_team (Ui_patchTeam n b) = Team_patch n (Some b)"
| "asks_team (Ui_deleteTeam n force) = Team_delete n force"
| "asks_team (Ui_getTeamPrompt n r) = Prompt_get n r"
| "asks_team (Ui_putTeamPrompt n r c) = Prompt_put n r c"
| "asks_team (Ui_resetTeam n) = Team_reset n"
| "asks_team (Ui_resetTeamPrompt n r) = Prompt_reset n r"

fun asks_session :: "session_call \<Rightarrow> ui_request" where
  "asks_session Ui_listPhones = To_phones"
| "asks_session (Ui_listTeams w) = To_api (A_workspace (Workspace_teams w))"
| "asks_session (Ui_listWorkspaceSessions w) = To_workspace_sessions w"
| "asks_session (Ui_listSessions w t) = To_team_sessions w t"
| "asks_session (Ui_getSession w t i) = To_session w t i"
| "asks_session (Ui_getEventsHistory w t i) = To_events w t i False"
| "asks_session (Ui_getMessages w t i) = To_messages w t i"
| "asks_session (Ui_streamSessionEvents w t i) = To_events w t i True"

fun asks :: "int \<Rightarrow> web_call \<Rightarrow> ui_request" where
  "asks now (Ui_workspace c) = To_api (A_workspace (asks_workspace now c))"
| "asks now (Ui_team c) = To_api (A_team (asks_team c))"
| "asks now (Ui_session c) = asks_session c"
| "asks now (Ui_startRun b) = To_run (Some b)"
| "asks now (Ui_resolveEscalation t b) = To_resolve t (Some b)"

text \<open>The arguments it takes: ids that can be put into a path, bodies without a key twice, session ids as the server makes them.\<close>

fun workspace_call_ok :: "workspace_call \<Rightarrow> bool" where
  "workspace_call_ok Ui_listWorkspaces = True"
| "workspace_call_ok (Ui_getWorkspace i) = arg_ok i"
| "workspace_call_ok (Ui_createWorkspace b) = json_ok b"
| "workspace_call_ok (Ui_patchWorkspace i b) = (arg_ok i \<and> json_ok b)"
| "workspace_call_ok (Ui_deleteWorkspace i force) = arg_ok i"
| "workspace_call_ok (Ui_listEnvFiles i) = arg_ok i"
| "workspace_call_ok (Ui_getEnvFile i f) = (arg_ok i \<and> arg_ok f)"
| "workspace_call_ok (Ui_putEnvFile i f c) = (arg_ok i \<and> arg_ok f)"
| "workspace_call_ok (Ui_deleteEnvFile i f) = (arg_ok i \<and> arg_ok f)"
| "workspace_call_ok (Ui_resetEnvFile i f) = (arg_ok i \<and> arg_ok f)"
| "workspace_call_ok (Ui_getCredentialsStatus i) = arg_ok i"
| "workspace_call_ok (Ui_putCredentials i b) = (arg_ok i \<and> json_ok b)"
| "workspace_call_ok (Ui_deleteCredentials i) = arg_ok i"

fun team_call_ok :: "team_call \<Rightarrow> bool" where
  "team_call_ok (Ui_listAllTeams kind) = (kind = None \<or> (list_all (\<lambda>c. c < 65536) (the kind) \<and> encodeURIComponent (the kind) \<noteq> None))"
| "team_call_ok (Ui_getTeam n) = arg_ok n"
| "team_call_ok (Ui_createTeam b) = json_ok b"
| "team_call_ok (Ui_patchTeam n b) = (arg_ok n \<and> json_ok b)"
| "team_call_ok (Ui_deleteTeam n force) = arg_ok n"
| "team_call_ok (Ui_getTeamPrompt n r) = (arg_ok n \<and> arg_ok r)"
| "team_call_ok (Ui_putTeamPrompt n r c) = (arg_ok n \<and> arg_ok r)"
| "team_call_ok (Ui_resetTeam n) = arg_ok n"
| "team_call_ok (Ui_resetTeamPrompt n r) = (arg_ok n \<and> arg_ok r)"

definition sid_ok :: "jstr \<Rightarrow> bool" where
  "sid_ok i = (list_all uri_plain i \<and> i \<noteq> [] \<and> i \<noteq> js ''.'' \<and> i \<noteq> js ''..'')"

fun session_call_ok :: "session_call \<Rightarrow> bool" where
  "session_call_ok Ui_listPhones = True"
| "session_call_ok (Ui_listTeams w) = arg_ok w"
| "session_call_ok (Ui_listWorkspaceSessions w) = arg_ok w"
| "session_call_ok (Ui_listSessions w t) = (arg_ok w \<and> arg_ok t)"
| "session_call_ok (Ui_getSession w t i) = (arg_ok w \<and> arg_ok t \<and> sid_ok i)"
| "session_call_ok (Ui_getEventsHistory w t i) = (arg_ok w \<and> arg_ok t \<and> sid_ok i)"
| "session_call_ok (Ui_getMessages w t i) = (arg_ok w \<and> arg_ok t \<and> sid_ok i)"
| "session_call_ok (Ui_streamSessionEvents w t i) = (arg_ok w \<and> arg_ok t \<and> sid_ok i)"

fun call_ok :: "web_call \<Rightarrow> bool" where
  "call_ok (Ui_workspace c) = workspace_call_ok c"
| "call_ok (Ui_team c) = team_call_ok c"
| "call_ok (Ui_session c) = session_call_ok c"
| "call_ok (Ui_startRun b) = json_ok b"
| "call_ok (Ui_resolveEscalation t b) = (arg_ok t \<and> json_ok b)"

definition arrives :: "hono \<Rightarrow> int \<Rightarrow> web_request option \<Rightarrow> ui_request \<Rightarrow> bool" where
  "arrives h now rq u = (case rq of None \<Rightarrow> False | Some r \<Rightarrow> app_dispatch h now r = Some (Reaches u))"

definition enc :: "jstr \<Rightarrow> jstr" where
  "enc a = the (encodeURIComponent a)"

lemma arg_arrives:
  assumes "arg_ok a"
  shows "encodeURIComponent a = Some (enc a)" "hono_documented h \<Longrightarrow> decodeURIComponent (hn_param h (enc a)) = Some a"
    "enc a \<noteq> []" "js ''.'' \<noteq> enc a" "js ''..'' \<noteq> enc a" "47 \<notin> set (enc a)" "63 \<notin> set (enc a)"
proof -
  show e: "encodeURIComponent a = Some (enc a)" using assms by (auto simp: arg_ok_def enc_def)
  show "decodeURIComponent (hn_param h (enc a)) = Some a" if "hono_documented h" by (rule param_decoded [OF that assms e])
  show "enc a \<noteq> []" "js ''.'' \<noteq> enc a" "js ''..'' \<noteq> enc a" "47 \<notin> set (enc a)" "63 \<notin> set (enc a)"
    by (rule encoded_segment [OF assms e])+
qed

lemma sid_arrives:
  assumes "sid_ok i" "hono_documented h"
  shows "encodeURIComponent i = Some i" "hn_param h i = i" "i \<noteq> []" "js ''.'' \<noteq> i" "js ''..'' \<noteq> i" "47 \<notin> set i" "63 \<notin> set i"
proof -
  show "encodeURIComponent i = Some i" "hn_param h i = i" "i \<noteq> []" "js ''.'' \<noteq> i" "js ''..'' \<noteq> i"
    using assms by (auto simp: sid_ok_def encode_plain_text param_plain)
  show "47 \<notin> set i" "63 \<notin> set i"
    using assms(1) by (auto simp: sid_ok_def list_all_iff uri_plain_def is_digit_def is_lower_def is_upper_def)
qed

lemma queries:
  assumes "hono_documented h"
  shows "hn_match h = pattern_fits" "hn_query h [] k = None" "hn_query h (js ''force'' @ 61 # js ''true'') (js ''force'') = Some (js ''true'')"
    "encodeURIComponent v = Some e \<Longrightarrow> list_all (\<lambda>c. c < 65536) v \<Longrightarrow> hn_query h (js ''workspaceKind'' @ 61 # e) (js ''workspaceKind'') = Some v"
proof -
  have p: "list_all uri_plain (js ''force'')" "list_all uri_plain (js ''true'')" "list_all uri_plain (js ''workspaceKind'')" "list_all (\<lambda>c. c < 65536) (js ''true'')"
    by (simp_all add: js_def uri_plain_def is_digit_def is_lower_def is_upper_def)
  show "hn_match h = pattern_fits" "hn_query h [] k = None" "hn_query h (js ''force'' @ 61 # js ''true'') (js ''force'') = Some (js ''true'')"
    "encodeURIComponent v = Some e \<Longrightarrow> list_all (\<lambda>c. c < 65536) v \<Longrightarrow> hn_query h (js ''workspaceKind'' @ 61 # e) (js ''workspaceKind'') = Some v"
    using assms p encode_plain_text [OF p(2)] by (auto simp: hono_documented_def)
qed

lemmas arrival = arrives_def getJson_request_def jsonRequest_request_def textRequest_request_def accepting_def session_path_def startRun_request_def
  resolveEscalation_request_def force_query_def app_dispatch_def path_simps first_route_def api_routes_def workspaces_routes_def teams_routes_def
  sessions_routes_def with_param_def forced_def ri_json_def json_parse_stringify or_empty_def

lemma accepts [simp]:
  "\<not> contains_text (js ''text/event-stream'') (js ''application/x-ndjson'')" "contains_text (js ''text/event-stream'') (js ''text/event-stream'')"
  by (simp_all add: js_def starts_with_def)

lemma workspace_call_arrives:
  assumes "hono_documented h" "workspace_call_ok c"
  shows "arrives h now (workspace_call_request c) (To_api (A_workspace (asks_workspace now c)))"
  using assms by (cases c) (simp_all add: arrival queries arg_arrives)

lemma team_call_arrives:
  assumes "hono_documented h" "team_call_ok c"
  shows "arrives h now (team_call_request c) (To_api (A_team (asks_team c)))"
proof (cases c)
  case (Ui_listAllTeams kind)
  show ?thesis
  proof (cases "kind = None \<or> kind = Some []")
    case True
    then show ?thesis using assms(1) Ui_listAllTeams by (elim disjE) (simp_all add: arrival queries)
  next
    case False
    then obtain k where k: "kind = Some k" "k \<noteq> []" by auto
    then obtain e where "encodeURIComponent k = Some e" "list_all (\<lambda>c. c < 65536) k" using assms(2) Ui_listAllTeams by auto
    then show ?thesis using assms(1) k Ui_listAllTeams by (simp add: arrival queries)
  qed
qed (use assms in \<open>simp_all add: arrival queries arg_arrives\<close>)

lemma session_call_arrives:
  assumes "hono_documented h" "session_call_ok c"
  shows "arrives h now (session_call_request c) (asks_session c)"
  using assms by (cases c) (simp_all add: arrival queries arg_arrives sid_arrives)

text \<open>
  C4: the web UI's calls arrive. With ids that a path can carry, every function of the API's client sends a request that the
  server, whether or not its router decodes parameters itself, hands to the route the function means, with the arguments it was
  called with: ids, query, text, and the body as the JSON value it was.
\<close>

theorem calls_arrive:
  assumes "hono_documented h" "call_ok c"
  shows "\<exists>r. web_request_of c = Some r \<and> app_dispatch h now r = Some (Reaches (asks now c))"
proof -
  have "arrives h now (web_request_of c) (asks now c)"
    using assms workspace_call_arrives team_call_arrives session_call_arrives
    by (cases c) (simp_all add: arrival queries arg_arrives)
  then show ?thesis by (auto simp: arrives_def split: option.splits)
qed

text \<open>A router as documented, which decodes parameters.\<close>

definition plain_hono :: hono where
  "plain_hono = \<lparr>hn_match = pattern_fits, hn_param = (\<lambda>e. case decodeURIComponent e of None \<Rightarrow> e | Some v \<Rightarrow> v),
     hn_query = (\<lambda>q k. if takeWhile (\<lambda>c. c \<noteq> 61) q = k \<and> q \<noteq> k then decodeURIComponent (drop (Suc (length k)) q) else None)\<rparr>"

lemma plain_hono_documented: "hono_documented plain_hono"
proof -
  have "hn_query plain_hono (k @ 61 # e) k = Some v"
    if "list_all uri_plain k" "list_all (\<lambda>c. c < 65536) v" "encodeURIComponent v = Some e" for k v e
  proof -
    have "61 \<notin> set k" using that(1) by (auto simp: list_all_iff uri_plain_def is_digit_def is_lower_def is_upper_def)
    then have "takeWhile (\<lambda>c. c \<noteq> 61) (k @ 61 # e) = k" by (auto simp: takeWhile_append)
    then show ?thesis using decode_encode [OF that(3,2)] by (simp add: plain_hono_def)
  qed
  moreover have "hn_query plain_hono [] k = None" for k by (cases k) (simp_all add: plain_hono_def)
  moreover have "hn_param plain_hono e = e \<or> Some (hn_param plain_hono e) = decodeURIComponent e" for e
    by (auto simp: plain_hono_def split: option.splits)
  ultimately show ?thesis by (simp add: hono_documented_def) (simp add: plain_hono_def)
qed

lemma args_w: "arg_ok (js ''xhs:test'')" "arg_ok (js ''TOOLS.md'')"
  by (simp_all add: arg_ok_def js_def uri_plain_def is_digit_def is_lower_def is_upper_def)

theorem calls_arrive_witness:
  "app_dispatch plain_hono 0 \<lparr>wq_method = js ''GET'', wq_path = js ''/api/v1/workspaces/xhs%3Atest/env/TOOLS.md'', wq_accept = None, wq_type = None, wq_body = None\<rparr>
     = Some (Reaches (To_api (A_workspace (Env_get (js ''xhs:test'') (js ''TOOLS.md'')))))"
proof -
  have "web_request_of (Ui_workspace (Ui_getEnvFile (js ''xhs:test'') (js ''TOOLS.md'')))
      = Some \<lparr>wq_method = js ''GET'', wq_path = js ''/api/v1/workspaces/xhs%3Atest/env/TOOLS.md'', wq_accept = None, wq_type = None, wq_body = None\<rparr>"
    by (simp add: textRequest_request_def js_def uri_plain_def is_digit_def is_lower_def is_upper_def percent_def utf8_point_def Let_def)
  then show ?thesis
    using calls_arrive [OF plain_hono_documented, of "Ui_workspace (Ui_getEnvFile (js ''xhs:test'') (js ''TOOLS.md''))" 0] args_w by simp
qed

section \<open>Errors reach the caller\<close>



section \<open>Screenshots\<close>

lemma trace_literals: "js ''/api/v1/'' = 47 # js ''api'' @ 47 # js ''v1'' @ [47]" "js ''/workspaces/'' = 47 # js ''workspaces'' @ [47]"
  "js ''workspaces/'' = js ''workspaces'' @ [47]" "js ''/traces/'' = 47 # js ''traces'' @ [47]" "js ''/'' = [47]"
  by (simp_all add: js_def)

lemma encode_words: "encodeURIComponent (js ''workspaces'') = Some (js ''workspaces'')" "encodeURIComponent (js ''teams'') = Some (js ''teams'')"
  "encodeURIComponent (js ''sessions'') = Some (js ''sessions'')" "encodeURIComponent (js ''traces'') = Some (js ''traces'')"
  by (rule encode_plain_text, simp add: js_def uri_plain_def is_digit_def is_lower_def is_upper_def)+

text \<open>
  Screenshots are served. For a trace file of a session below a data directory whose own path doesn't hold
  \<open>workspaces/\<close>, the URL the page makes of the file's path is dispatched to the traces route with the workspace, team,
  session, call and file of the path.
\<close>

lemma screenshots_are_served:
  assumes "hono_documented h" "arg_ok w" "47 \<notin> set w" "arg_ok t" "47 \<notin> set t" "sid_ok i" "sid_ok tc" "sid_ok f"
    and "p = js ''workspaces/'' @ w @ js ''/teams/'' @ t @ js ''/sessions/'' @ i @ js ''/traces/'' @ tc @ js ''/'' @ f"
    and "from_word (js ''workspaces/'') (d @ p) = Some p"
  shows "\<exists>u. traceUrl [] (Some (d @ p)) = Inr (Some u)
    \<and> app_dispatch h now \<lparr>wq_method = js ''GET'', wq_path = u, wq_accept = None, wq_type = None, wq_body = None\<rparr> = Some (Reaches (To_trace w t i tc f))"
proof -
  note sid = sid_arrives [OF assms(6,1)] sid_arrives [OF assms(7,1)] sid_arrives [OF assms(8,1)]
  have p: "split_on 47 p = [js ''workspaces'', w, js ''teams'', t, js ''sessions'', i, js ''traces'', tc, f]"
    using assms sid by (simp add: trace_literals literal_paths in_js cut_segment)
  have "d @ p \<noteq> []" unfolding assms(9) by (simp add: trace_literals)
  then have u: "traceUrl [] (Some (d @ p)) = Inr (Some (js ''/api/v1/'' @ join [47] [js ''workspaces'', enc w, js ''teams'', enc t, js ''sessions'', i, js ''traces'', tc, f]))"
    using assms(1-8,10) sid by (simp add: traceUrl_def p encode_words arg_arrives)
  show ?thesis
    unfolding u using assms(1-8) by (simp add: arrival queries arg_arrives sid_arrives trace_literals)
qed

lemma screenshots_are_served_witness:
  "\<exists>u. traceUrl [] (Some (js ''/d/workspaces/a:b/teams/t/sessions/s1/traces/c1/after.png'')) = Inr (Some u)
    \<and> app_dispatch plain_hono 0 \<lparr>wq_method = js ''GET'', wq_path = u, wq_accept = None, wq_type = None, wq_body = None\<rparr>
      = Some (Reaches (To_trace (js ''a:b'') (js ''t'') (js ''s1'') (js ''c1'') (js ''after.png'')))"
proof -
  let ?p = "js ''workspaces/'' @ js ''a:b'' @ js ''/teams/'' @ js ''t'' @ js ''/sessions/'' @ js ''s1'' @ js ''/traces/'' @ js ''c1'' @ js ''/'' @ js ''after.png''"
  have a: "arg_ok (js ''a:b'')" "47 \<notin> set (js ''a:b'')" "arg_ok (js ''t'')" "47 \<notin> set (js ''t'')" "sid_ok (js ''s1'')" "sid_ok (js ''c1'')" "sid_ok (js ''after.png'')"
    by (simp_all add: arg_ok_def sid_ok_def js_def uri_plain_def is_digit_def is_lower_def is_upper_def)
  have f: "from_word (js ''workspaces/'') (js ''/d/'' @ ?p) = Some ?p" by (simp add: js_def starts_with_def)
  have "js ''/d/workspaces/a:b/teams/t/sessions/s1/traces/c1/after.png'' = js ''/d/'' @ ?p" by (simp add: js_def)
  then show ?thesis using screenshots_are_served [OF plain_hono_documented a refl f, of 0] by simp
qed

end
