(* ===== verification/Tables.thy ===== *)
theory Tables
  imports Commands
begin

text \<open>
  What the CLI prints: tables and records (\<open>cli/src/format.ts\<close>), and the sections of \<open>otacon info\<close>
  (\<open>cli/src/index.ts\<close>). A printed text is the argument of one \<open>console.log\<close>. Values are those of JSON answers, \<open>None\<close> for
  \<open>undefined\<close>; numbers are integers. \<open>tty\<close>: standard output is a terminal.
\<close>

section \<open>Colours and widths\<close>

definition RED :: jstr where "RED = [27, 91, 51, 49, 109]"

definition GREEN :: jstr where "GREEN = [27, 91, 51, 50, 109]"

definition YELLOW :: jstr where "YELLOW = [27, 91, 51, 51, 109]"

definition DIM :: jstr where "DIM = [27, 91, 50, 109]"

definition RESET :: jstr where "RESET = [27, 91, 48, 109]"

definition BOLD :: jstr where "BOLD = [27, 91, 49, 109]"

definition color :: "bool \<Rightarrow> jstr \<Rightarrow> jstr \<Rightarrow> jstr" where
  "color tty s code = (if tty then code @ s @ RESET else s)"

definition colorStatus :: "bool \<Rightarrow> jstr \<Rightarrow> jstr" where
  "colorStatus tty s = (let lower = to_lower s in
     if lower = js ''connected'' \<or> lower = js ''online'' then color tty s GREEN
     else if lower = js ''unreachable'' \<or> lower = js ''offline'' \<or> lower = js ''lost'' then color tty s RED
     else if lower = js ''disconnected'' \<or> lower = js ''pending'' then color tty s YELLOW
     else s)"

definition blank_value :: "json option \<Rightarrow> bool" where
  "blank_value v = (v = None \<or> v = Some JNull \<or> v = Some (JStr []))"

definition fmt :: "bool \<Rightarrow> json option \<Rightarrow> jstr" where
  "fmt tty v = (if blank_value v then color tty (js ''-'') DIM else js_string_opt v)"

text \<open>\<open>/\x1b\[[0-9;]*m/\<close>, from after the escape character: the text that follows the match.\<close>

definition escape_rest :: "jstr \<Rightarrow> jstr option" where
  "escape_rest s = (case s of [] \<Rightarrow> None
     | c # r \<Rightarrow> if c \<noteq> 91 then None
         else (case dropWhile (\<lambda>x. is_digit x \<or> x = 59) r of [] \<Rightarrow> None | m # t \<Rightarrow> if m = 109 then Some t else None))"

lemma escape_rest_shorter: "escape_rest s = Some t \<Longrightarrow> length t < length s"
  by (auto simp: escape_rest_def split: list.splits if_splits dest!: arg_cong [of "dropWhile _ _" _ length])
     (metis Suc_le_lessD length_Cons length_dropWhile_le less_SucI)

function strip_escapes :: "jstr \<Rightarrow> jstr" where
  "strip_escapes s = (case s of [] \<Rightarrow> []
     | c # cs \<Rightarrow> (case (if c = 27 then escape_rest cs else None) of
           Some t \<Rightarrow> strip_escapes t
         | None \<Rightarrow> c # strip_escapes cs))"
  by pat_completeness auto
termination
  by (relation "measure length") (auto split: if_splits dest: escape_rest_shorter)

declare strip_escapes.simps [simp del]

definition visibleLength :: "jstr \<Rightarrow> nat" where
  "visibleLength s = length (strip_escapes s)"

definition pad :: "jstr \<Rightarrow> nat \<Rightarrow> jstr" where
  "pad s width = s @ spaces (width - visibleLength s)"

definition cut_cell :: "jstr \<Rightarrow> nat \<Rightarrow> jstr" where
  "cut_cell s n = (if visibleLength s \<le> n then s else take (n - 1) s @ [8230])"

section \<open>printList\<close>

record column =
  col_header :: jstr
  col_get :: "json \<Rightarrow> json option"
  col_maxWidth :: "nat option"

definition column_of :: "string \<Rightarrow> (json \<Rightarrow> json option) \<Rightarrow> column" where
  "column_of h g = \<lparr>col_header = js h, col_get = g, col_maxWidth = None\<rparr>"

definition at_most :: "nat \<Rightarrow> column \<Rightarrow> column" where
  "at_most n c = c\<lparr>col_maxWidth := Some n\<rparr>"

definition cell_of :: "bool \<Rightarrow> column \<Rightarrow> json \<Rightarrow> jstr" where
  "cell_of tty c item = (let s = fmt tty (col_get c item)
     in (case col_maxWidth c of Some n \<Rightarrow> if n = 0 then s else cut_cell s n | None \<Rightarrow> s))"

definition column_width :: "jstr list list \<Rightarrow> nat \<Rightarrow> column \<Rightarrow> nat" where
  "column_width rows i c = foldl max (visibleLength (col_header c)) (map (\<lambda>r. visibleLength (r ! i)) rows)"

definition table_lines :: "bool \<Rightarrow> column list \<Rightarrow> json list \<Rightarrow> jstr list" where
  "table_lines tty columns items =
     (let rows = map (\<lambda>item. map (\<lambda>c. cell_of tty c item) columns) items;
          widths = map2 (column_width rows) [0..<length columns] columns
      in join (js ''  '') (map2 (\<lambda>c w. color tty (pad (col_header c) w) BOLD) columns widths)
         # map (\<lambda>row. join (js ''  '') (map2 pad row widths)) rows)"

definition printList :: "bool \<Rightarrow> bool \<Rightarrow> column list \<Rightarrow> json list \<Rightarrow> jstr list" where
  "printList tty as_json columns items =
     (if as_json then [json_pretty 0 (JArr items)]
      else if items = [] then [color tty (js ''(no items)'') DIM]
      else table_lines tty columns items)"

section \<open>printDetail\<close>

text \<open>A record with its \<open>undefined\<close> entries, which \<open>JSON.stringify\<close> leaves out.\<close>

type_synonym fields = "(jstr \<times> json option) list"

definition defined_fields :: "fields \<Rightarrow> (jstr \<times> json) list" where
  "defined_fields r = concat (map (\<lambda>(k, v). case v of None \<Rightarrow> [] | Some j \<Rightarrow> [(k, j)]) r)"

definition detail_value :: "bool \<Rightarrow> json option \<Rightarrow> jstr" where
  "detail_value tty v = (if blank_value v then color tty (js ''-'') DIM
     else (case v of Some (JArr vs) \<Rightarrow> json_stringify (JArr vs) | Some (JObj kvs) \<Rightarrow> json_stringify (JObj kvs) | _ \<Rightarrow> js_string_opt v))"

definition detail_lines :: "bool \<Rightarrow> fields \<Rightarrow> jstr list" where
  "detail_lines tty r = (let keyWidth = foldl max 0 (map (\<lambda>kv. length (fst kv)) r)
     in map (\<lambda>(k, v). color tty (pad k keyWidth) BOLD @ js ''  '' @ detail_value tty v) r)"

definition printDetail :: "bool \<Rightarrow> bool \<Rightarrow> fields \<Rightarrow> jstr list" where
  "printDetail tty as_json r = (if as_json then [json_pretty 0 (JObj (defined_fields r))] else detail_lines tty r)"

text \<open>An answer printed as a record: \<open>Object.entries\<close> of a value; \<open>None\<close>: it throws.\<close>

definition entries_of :: "json \<Rightarrow> fields option" where
  "entries_of j = (case j of
      JObj kvs \<Rightarrow> Some (map (\<lambda>(k, v). (k, Some v)) kvs)
    | JArr vs \<Rightarrow> Some (map2 (\<lambda>i v. (dec_nat i, Some v)) [0..<length vs] vs)
    | JStr s \<Rightarrow> Some (map2 (\<lambda>i c. (dec_nat i, Some (JStr [c]))) [0..<length s] s)
    | JNull \<Rightarrow> None
    | _ \<Rightarrow> Some [])"

definition print_answer :: "bool \<Rightarrow> bool \<Rightarrow> json \<Rightarrow> jstr list option" where
  "print_answer tty as_json j = (if as_json then Some [json_pretty 0 j] else map_option (detail_lines tty) (entries_of j))"

section \<open>otacon info\<close>

definition asRecord :: "json option \<Rightarrow> json" where
  "asRecord v = (case v of Some (JObj kvs) \<Rightarrow> JObj kvs | _ \<Rightarrow> JObj [])"

definition cell_text :: "json option \<Rightarrow> jstr" where
  "cell_text v = (if blank_value v then js ''-''
     else (case v of Some (JBool b) \<Rightarrow> if b then js ''yes'' else js ''no'' | _ \<Rightarrow> js_string_opt v))"

definition status_text :: "json option \<Rightarrow> string \<Rightarrow> string \<Rightarrow> json option" where
  "status_text v yes no = Some (JStr (js (if truthy v then yes else no)))"

definition two_digits :: "int \<Rightarrow> jstr" where
  "two_digits n = (let s = dec_int n in replicate (2 - length s) 48 @ s)"

definition seconds :: "json option \<Rightarrow> jstr" where
  "seconds v = (case v of Some (JNum n) \<Rightarrow> two_digits (n div 60) @ js '':'' @ two_digits (if n \<ge> 0 then n mod 60 else - ((- n) mod 60)) | _ \<Rightarrow> js ''-'')"

definition printSection :: "string \<Rightarrow> (jstr \<times> json option) list \<Rightarrow> bool \<Rightarrow> jstr list" where
  "printSection title rows is_first = (if is_first then [] else [[]]) @ [js title]
     @ (if rows = [] then [js ''-'']
        else (let width = foldl max 0 (map (\<lambda>kv. length (fst kv)) rows)
              in map (\<lambda>(k, v). pad_end width k @ js ''  '' @ cell_text v) rows))"

text \<open>\<open>flattenRecord\<close>; \<open>d\<close> is how much deeper it goes, \<open>2 - depth\<close>.\<close>

definition label_of :: "jstr \<Rightarrow> jstr \<Rightarrow> jstr" where
  "label_of prefix key = (if prefix \<noteq> [] then prefix @ js ''.'' @ key else key)"

definition items_text :: "json list \<Rightarrow> jstr" where
  "items_text vs = (if vs = [] then js ''-'' else dec_nat (length vs) @ js '' item'' @ (if length vs = 1 then [] else js ''s''))"

fun flattenRecord :: "nat \<Rightarrow> jstr \<Rightarrow> (jstr \<times> json) list \<Rightarrow> (jstr \<times> json option) list" where
  "flattenRecord d prefix [] = []"
| "flattenRecord d prefix ((key, v) # rest) =
     (case (d, v) of
        (Suc e, JObj kvs) \<Rightarrow> flattenRecord e (label_of prefix key) kvs
      | (_, JArr vs) \<Rightarrow> [(label_of prefix key, Some (JStr (items_text vs)))]
      | _ \<Rightarrow> [(label_of prefix key, Some v)]) @ flattenRecord d prefix rest"

definition fixed_one :: "int \<Rightarrow> jstr" where
  "fixed_one n = dec_int n @ js ''.0''"

definition num_text :: "json option \<Rightarrow> (int \<Rightarrow> jstr) \<Rightarrow> json option" where
  "num_text v f = Some (JStr (case v of Some (JNum n) \<Rightarrow> f n | _ \<Rightarrow> js ''-''))"

definition memory_text :: "json \<Rightarrow> json option" where
  "memory_text stats = Some (JStr (case (json_get stats (js ''mem_used_mb''), json_get stats (js ''mem_total_mb'')) of
      (Some (JNum a), Some (JNum b)) \<Rightarrow> dec_int a @ js '' / '' @ dec_int b @ js '' MB'' | _ \<Rightarrow> js ''-''))"

definition wifi_text :: "json \<Rightarrow> json option" where
  "wifi_text wifi = (if truthy (json_get wifi (js ''connected''))
     then Some (JStr (js ''connected''
       @ (if truthy (json_get wifi (js ''ssid'')) then js ''  '' @ js_string_opt (json_get wifi (js ''ssid'')) else [])
       @ (if truthy (json_get wifi (js ''rssi'')) then js ''  '' @ js_string_opt (json_get wifi (js ''rssi'')) @ js '' dBm'' else [])))
     else status_text (json_get wifi (js ''enabled'')) ''enabled'' ''disabled'')"

definition field_row :: "json \<Rightarrow> string \<Rightarrow> jstr \<times> json option" where
  "field_row info k = (js k, json_get info (js k))"

definition printDeviceInfo :: "json \<Rightarrow> jstr list" where
  "printDeviceInfo info = (let stats = asRecord (json_get info (js ''stats'')) in
     printSection ''DEVICE'' (map (field_row info) [''model'', ''adb_serial'', ''screen_state'', ''resolution'', ''vnc_port'']) True
     @ printSection ''CONNECTIONS''
        [(js ''device_owner'', status_text (json_get info (js ''bridge'')) ''online'' ''offline''),
         (js ''snapshot_server'', status_text (json_get info (js ''snapshot_server'')) ''online'' ''offline''),
         (js ''bluetooth'', status_text (json_get info (js ''bt_connected'')) ''connected'' ''disconnected''),
         field_row info ''adapter_mac'', field_row info ''phone_bt_mac'',
         (js ''wifi'', wifi_text (asRecord (json_get info (js ''wifi''))))] False
     @ printSection ''IDENTITY'' (map (field_row info) [''phone_number'', ''imei'', ''imei2'', ''eid'']) False
     @ printSection ''CURRENT APP'' (map (field_row info) [''activity'', ''window'']) False
     @ printSection ''STATS''
        [(js ''battery'', num_text (json_get stats (js ''battery_pct'')) (\<lambda>n. dec_int n @ js ''%'')),
         (js ''memory'', memory_text stats),
         (js ''cpu'', num_text (json_get stats (js ''cpu_pct'')) (\<lambda>n. fixed_one n @ js ''%'')),
         (js ''temperature'', num_text (json_get stats (js ''temp_c'')) (\<lambda>n. fixed_one n @ js '' C''))] False
     @ (if truthy (json_get info (js ''monitor''))
        then printSection ''MONITOR'' (case asRecord (json_get info (js ''monitor'')) of JObj kvs \<Rightarrow> flattenRecord 2 [] kvs | _ \<Rightarrow> []) False
        else []))"

section \<open>Tables line up\<close>

text \<open>A text that can't finish an escape sequence that another one left open.\<close>

definition plain_start :: "jstr \<Rightarrow> bool" where
  "plain_start t = (case t of [] \<Rightarrow> True | c # _ \<Rightarrow> \<not> is_digit c \<and> c \<noteq> 59 \<and> c \<noteq> 109 \<and> c \<noteq> 91)"

lemma plain_start_simps [simp]:
  "plain_start []" "plain_start (27 # t)" "plain_start (spaces n)" "plain_start RESET" "plain_start [8230]"
  by (cases n; simp add: plain_start_def spaces_def is_digit_def RESET_def)+

lemma dropWhile_app: "dropWhile P (r @ t) = (case dropWhile P r of [] \<Rightarrow> dropWhile P t | m # u \<Rightarrow> m # u @ t)"
  by (induction r) auto

lemma dropWhile_plain_start: "plain_start t \<Longrightarrow> dropWhile (\<lambda>x. is_digit x \<or> x = 59) t = t"
  by (cases t) (simp_all add: plain_start_def)

lemma escape_rest_append: "plain_start t \<Longrightarrow> escape_rest (s @ t) = map_option (\<lambda>u. u @ t) (escape_rest s)"
  using dropWhile_plain_start [of t]
  by (cases s) (auto simp: escape_rest_def dropWhile_app plain_start_def simp del: dropWhile_eq_Nil_conv split: list.splits)

lemma strip_escapes_append:
  assumes "plain_start t"
  shows "strip_escapes (s @ t) = strip_escapes s @ strip_escapes t"
proof (induction s rule: strip_escapes.induct)
  case (1 s)
  show ?case
  proof (cases s)
    case Nil
    then show ?thesis by (simp add: strip_escapes.simps [of "[]"])
  next
    case (Cons c cs)
    show ?thesis
    proof (cases "if c = 27 then escape_rest cs else None")
      case None
      then have "(if c = 27 then escape_rest (cs @ t) else None) = None"
        using escape_rest_append [OF assms, of cs] by (simp split: if_splits)
      then show ?thesis
        using None Cons 1(1) [OF Cons None] by (simp add: strip_escapes.simps [of "c # _"])
    next
      case (Some u)
      then have "(if c = 27 then escape_rest (cs @ t) else None) = Some (u @ t)"
        using escape_rest_append [OF assms, of cs] by (simp split: if_splits)
      then show ?thesis
        using Some Cons 1(2) [OF Cons Some] by (simp add: strip_escapes.simps [of "c # _"])
    qed
  qed
qed

lemma strip_escapes_spaces [simp]: "strip_escapes (spaces n) = spaces n"
  by (induction n) (simp_all add: spaces_def strip_escapes.simps [of "[]"] strip_escapes.simps [of "32 # _"])

lemma strip_escapes_color [simp]: "strip_escapes (color tty s code) = strip_escapes s" if "code \<in> {RED, GREEN, YELLOW, DIM, BOLD}"
proof -
  have "strip_escapes RESET = []"
    by (simp add: RESET_def strip_escapes.simps escape_rest_def is_digit_def)
  moreover have "strip_escapes (code @ t) = strip_escapes t" for t
    using that by (auto simp: RED_def GREEN_def YELLOW_def DIM_def BOLD_def strip_escapes.simps [of "27 # _"] escape_rest_def is_digit_def)
  ultimately show ?thesis
    by (simp add: color_def strip_escapes_append)
qed

lemma length_strip_escapes: "length (strip_escapes s) \<le> length s"
proof (induction s rule: strip_escapes.induct)
  case (1 s)
  show ?case
    by (subst strip_escapes.simps) (use 1 in \<open>force split: list.splits option.splits if_splits dest: escape_rest_shorter\<close>)
qed

lemma visible_pad: "visibleLength (pad s n) = max (visibleLength s) n"
  by (simp add: visibleLength_def pad_def strip_escapes_append) (simp add: spaces_def)

lemma visible_cut_cell: "0 < n \<Longrightarrow> visibleLength (cut_cell s n) \<le> n"
  using length_strip_escapes [of "take (n - 1) s"]
  by (auto simp: cut_cell_def visibleLength_def strip_escapes_append strip_escapes.simps [of "[8230]"] strip_escapes.simps [of "[]"])

lemma foldl_max: "x \<in> set (a # xs) \<Longrightarrow> x \<le> foldl max (a :: nat) xs"
proof (induction xs arbitrary: a x)
  case (Cons y ys)
  have "max a y \<le> foldl max (max a y) ys" by (rule Cons.IH) simp
  then show ?case using Cons by auto
qed simp

lemma column_width_bounds:
  "visibleLength (col_header c) \<le> column_width rows i c" "r \<in> set rows \<Longrightarrow> visibleLength (r ! i) \<le> column_width rows i c"
  by (simp_all add: column_width_def foldl_max)

text \<open>The cells of a table: a row of padded texts for the header and for each item.\<close>

definition header_cells :: "bool \<Rightarrow> column list \<Rightarrow> nat list \<Rightarrow> jstr list" where
  "header_cells tty columns widths = map2 (\<lambda>c w. color tty (pad (col_header c) w) BOLD) columns widths"

definition item_cells :: "bool \<Rightarrow> column list \<Rightarrow> nat list \<Rightarrow> json \<Rightarrow> jstr list" where
  "item_cells tty columns widths item = map2 pad (map (\<lambda>c. cell_of tty c item) columns) widths"

lemma tables_line_up:
  assumes "items \<noteq> []"
  obtains widths where
    "printList tty False columns items = map (join (js ''  '')) (header_cells tty columns widths # map (item_cells tty columns widths) items)"
    "\<forall>cells \<in> set (header_cells tty columns widths # map (item_cells tty columns widths) items). map visibleLength cells = widths"
proof
  let ?rows = "map (\<lambda>item. map (\<lambda>c. cell_of tty c item) columns) items"
  let ?ws = "map2 (column_width ?rows) [0..<length columns] columns"
  show "printList tty False columns items = map (join (js ''  '')) (header_cells tty columns ?ws # map (item_cells tty columns ?ws) items)"
    using assms by (simp add: printList_def table_lines_def header_cells_def item_cells_def Let_def comp_def)
  have n: "length ?ws = length columns" by simp
  have h: "map visibleLength (header_cells tty columns ?ws) = ?ws"
  proof (rule nth_equalityI)
    fix i assume "i < length (map visibleLength (header_cells tty columns ?ws))"
    then have i: "i < length columns" by (simp add: header_cells_def)
    have "visibleLength (color tty s BOLD) = visibleLength s" for s by (simp add: visibleLength_def)
    then show "map visibleLength (header_cells tty columns ?ws) ! i = ?ws ! i"
      using i column_width_bounds(1) [of "columns ! i" ?rows i] by (simp add: header_cells_def visible_pad)
  qed (simp add: header_cells_def)
  moreover have "map visibleLength (item_cells tty columns ?ws item) = ?ws" if "item \<in> set items" for item
  proof (rule nth_equalityI)
    fix i assume "i < length (map visibleLength (item_cells tty columns ?ws item))"
    then have i: "i < length columns" by (simp add: item_cells_def)
    have "visibleLength (map (\<lambda>c. cell_of tty c item) columns ! i) \<le> column_width ?rows i (columns ! i)"
      using that by (intro column_width_bounds(2)) auto
    then show "map visibleLength (item_cells tty columns ?ws item) ! i = ?ws ! i"
      using i by (simp add: item_cells_def visible_pad)
  qed (simp add: item_cells_def)
  ultimately show "\<forall>cells \<in> set (header_cells tty columns ?ws # map (item_cells tty columns ?ws) items). map visibleLength cells = ?ws"
    by simp
qed

end
