(* ===== verification/Terminal.thy ===== *)
theory Terminal
  imports Phones Tables Client
begin

text \<open>
  A command of the CLI as what it does one thing after the other (\<open>act\<close>): it prints, notes on standard error, saves its
  configuration, writes a file, sends requests and goes on with their answers, and ends. \<open>play\<close> runs one against any
  network: the answer to a request may depend on all the requests before it. And the registry's client
  (\<open>cli/src/registry-client.ts\<close>) with the command's sign-in, which the registry's commands share.
\<close>

section \<open>Commands\<close>

record cli_request =
  cq_verb :: request_verb
  cq_url :: jstr
  cq_bearer :: "jstr option"
  cq_body :: request_body

text \<open>
  \<open>Fetches_both\<close> is \<open>Promise.all\<close> of two requests; its flag says that the second one's failure came first. \<open>Quits\<close> is
  \<open>process.exit\<close>. \<open>Dies\<close> is an exception: \<open>index.ts\<close> prints its message and exits with 1.
\<close>

datatype act =
    Finished
  | Prints jstr act
  | Notes jstr act
  | Keeps cli_config act
  | Writes_file jstr "nat list" act
  | Fetches cli_request "fetched \<Rightarrow> act"
  | Fetches_both cli_request cli_request "bool \<Rightarrow> fetched \<Rightarrow> fetched \<Rightarrow> act"
  | Quits nat
  | Dies jstr

datatype seen = Printed jstr | Noted jstr | Kept cli_config | Wrote jstr "nat list" | Asked cli_request | Exited nat

type_synonym world = "cli_request list \<Rightarrow> fetched"

primrec play :: "world \<Rightarrow> bool \<Rightarrow> act \<Rightarrow> cli_request list \<Rightarrow> seen list" where
  "play w late Finished h = [Exited 0]"
| "play w late (Prints t a) h = Printed t # play w late a h"
| "play w late (Notes t a) h = Noted t # play w late a h"
| "play w late (Keeps c a) h = Kept c # play w late a h"
| "play w late (Writes_file p b a) h = Wrote p b # play w late a h"
| "play w late (Fetches r k) h = Asked r # play w late (k (w (h @ [r]))) (h @ [r])"
| "play w late (Fetches_both r q k) h = Asked r # Asked q # play w late (k late (w (h @ [r])) (w (h @ [r, q]))) (h @ [r, q])"
| "play w late (Quits n) h = [Exited n]"
| "play w late (Dies m) h = [Noted m, Exited 1]"

definition prints :: "jstr list \<Rightarrow> act \<Rightarrow> act" where
  "prints ls a = foldr Prints ls a"

definition or_die :: "jstr + 'a \<Rightarrow> ('a \<Rightarrow> act) \<Rightarrow> act" where
  "or_die r k = (case r of Inl m \<Rightarrow> Dies m | Inr x \<Rightarrow> k x)"

text \<open>\<open>x.m(...)\<close> of a value without such a method.\<close>

definition no_function :: "string \<Rightarrow> jstr" where
  "no_function f = js f @ js '' is not a function''"

text \<open>\<open>xs.filter(x => ...)\<close> of a test that reads \<open>key\<close>.\<close>

definition filter_items :: "string \<Rightarrow> string \<Rightarrow> (json \<Rightarrow> bool) \<Rightarrow> json \<Rightarrow> jstr + json list" where
  "filter_items name key P j = (case j of
      JArr vs \<Rightarrow> if JNull \<in> set vs then Inl (null_read (js key)) else Inr (filter P vs)
    | JNull \<Rightarrow> Inl (null_read (js ''filter''))
    | _ \<Rightarrow> Inl (no_function (name @ ''.filter'')))"

text \<open>
  \<open>printList\<close> of an answer whose first column reads \<open>key\<close>, \<open>printDetail\<close> of an answer, and of a record.
\<close>

definition shows_list :: "bool \<Rightarrow> bool \<Rightarrow> string \<Rightarrow> column list \<Rightarrow> json \<Rightarrow> act \<Rightarrow> act" where
  "shows_list tty as_json key columns j a =
     (if as_json then Prints (json_pretty 0 j) a
      else (case j of
          JArr vs \<Rightarrow> if JNull \<in> set vs then Dies (null_read (js key)) else prints (printList tty False columns vs) a
        | JNull \<Rightarrow> Dies (null_read (js ''length''))
        | _ \<Rightarrow> if j = JStr [] \<or> json_get j (js ''length'') = Some (JNum 0) then prints (printList tty False columns []) a
            else Dies (no_function ''items.map'')))"

definition shows_answer :: "bool \<Rightarrow> bool \<Rightarrow> json \<Rightarrow> act \<Rightarrow> act" where
  "shows_answer tty as_json j a = (case print_answer tty as_json j of
      None \<Rightarrow> Dies (js ''Cannot convert undefined or null to object'') | Some ls \<Rightarrow> prints ls a)"

definition shows_record :: "bool \<Rightarrow> bool \<Rightarrow> fields \<Rightarrow> act \<Rightarrow> act" where
  "shows_record tty as_json r a = prints (printDetail tty as_json r) a"

section \<open>The registry's client\<close>

datatype registry_call =
    Reg_listPhones | Reg_getPhone jstr | Reg_getPhoneConfig jstr | Reg_setPhoneConfig jstr json | Reg_deletePhone jstr
  | Reg_listHosts | Reg_getHost jstr | Reg_deleteHost jstr | Reg_listDongles | Reg_deleteDongle jstr
  | Reg_listPendingHosts | Reg_listPendingClients | Reg_approveHost jstr | Reg_rejectHost jstr | Reg_approveClient jstr | Reg_rejectClient jstr
  | Reg_listTokens | Reg_revokeToken jstr

fun registry_path :: "registry_call \<Rightarrow> (string + jstr) list" where
  "registry_path Reg_listPhones = [Inl ''phones'']"
| "registry_path (Reg_getPhone i) = [Inl ''phones/'', Inr i]"
| "registry_path (Reg_getPhoneConfig i) = [Inl ''phones/'', Inr i, Inl ''/config'']"
| "registry_path (Reg_setPhoneConfig i c) = [Inl ''phones/'', Inr i, Inl ''/config'']"
| "registry_path (Reg_deletePhone i) = [Inl ''phones/'', Inr i]"
| "registry_path Reg_listHosts = [Inl ''hosts'']"
| "registry_path (Reg_getHost i) = [Inl ''hosts/'', Inr i]"
| "registry_path (Reg_deleteHost i) = [Inl ''hosts/'', Inr i]"
| "registry_path Reg_listDongles = [Inl ''dongles'']"
| "registry_path (Reg_deleteDongle i) = [Inl ''dongles/'', Inr i]"
| "registry_path Reg_listPendingHosts = [Inl ''hosts/pending'']"
| "registry_path Reg_listPendingClients = [Inl ''clients/pending'']"
| "registry_path (Reg_approveHost i) = [Inl ''hosts/'', Inr i, Inl ''/approve'']"
| "registry_path (Reg_rejectHost i) = [Inl ''hosts/'', Inr i, Inl ''/reject'']"
| "registry_path (Reg_approveClient i) = [Inl ''clients/'', Inr i, Inl ''/approve'']"
| "registry_path (Reg_rejectClient i) = [Inl ''clients/'', Inr i, Inl ''/reject'']"
| "registry_path Reg_listTokens = [Inl ''tokens'']"
| "registry_path (Reg_revokeToken i) = [Inl ''tokens/'', Inr i, Inl ''/revoke'']"

fun registry_verb :: "registry_call \<Rightarrow> request_verb" where
  "registry_verb (Reg_setPhoneConfig i c) = PUT"
| "registry_verb (Reg_deletePhone i) = DELETE"
| "registry_verb (Reg_deleteHost i) = DELETE"
| "registry_verb (Reg_deleteDongle i) = DELETE"
| "registry_verb (Reg_approveHost i) = POST"
| "registry_verb (Reg_rejectHost i) = POST"
| "registry_verb (Reg_approveClient i) = POST"
| "registry_verb (Reg_rejectClient i) = POST"
| "registry_verb (Reg_revokeToken i) = POST"
| "registry_verb _ = GET"

fun registry_body :: "registry_call \<Rightarrow> request_body" where
  "registry_body (Reg_setPhoneConfig i c) = Json_body c"
| "registry_body _ = No_body"

definition registry_request :: "jstr \<Rightarrow> jstr \<Rightarrow> registry_call \<Rightarrow> cli_request option" where
  "registry_request url token c = map_option (\<lambda>p. \<lparr>cq_verb = registry_verb c, cq_url = url @ js ''/api/v1/admin/'' @ p,
     cq_bearer = Some token, cq_body = registry_body c\<rparr>) (url_path (registry_path c))"

text \<open>The answer of a call that reads one, and of one that doesn't.\<close>

definition registry_json :: "fetched \<Rightarrow> jstr + json" where
  "registry_json f = (case f of Unreachable m \<Rightarrow> Inl m
     | Answer a \<Rightarrow> (case registry_error a of Some m \<Rightarrow> Inl m | None \<Rightarrow> ha_json a))"

definition registry_done :: "fetched \<Rightarrow> jstr + unit" where
  "registry_done f = (case f of Unreachable m \<Rightarrow> Inl m
     | Answer a \<Rightarrow> (case registry_error a of Some m \<Rightarrow> Inl m | None \<Rightarrow> Inr ()))"

text \<open>A call, then what to do with what it throws, or with its result.\<close>

definition calls :: "(fetched \<Rightarrow> jstr + 'a) \<Rightarrow> jstr \<Rightarrow> jstr \<Rightarrow> registry_call \<Rightarrow> (jstr \<Rightarrow> act) \<Rightarrow> ('a \<Rightarrow> act) \<Rightarrow> act" where
  "calls rd url token c fails k = (case registry_request url token c of None \<Rightarrow> fails (js ''URI malformed'')
     | Some r \<Rightarrow> Fetches r (\<lambda>f. case rd f of Inl m \<Rightarrow> fails m | Inr x \<Rightarrow> k x))"

abbreviation asks :: "jstr \<Rightarrow> jstr \<Rightarrow> registry_call \<Rightarrow> (json \<Rightarrow> act) \<Rightarrow> act" where
  "asks url token c \<equiv> calls registry_json url token c Dies"

abbreviation tells :: "jstr \<Rightarrow> jstr \<Rightarrow> registry_call \<Rightarrow> act \<Rightarrow> act" where
  "tells url token c a \<equiv> calls registry_done url token c Dies (\<lambda>_. a)"

section \<open>Sign-in and the active phone\<close>

text \<open>What a command is started with: the environment, the options before the command, the configuration, and the terminal.\<close>

record cli_start =
  sa_env :: "(jstr \<times> jstr) list"
  sa_opts :: cli_opts
  sa_config :: cli_config
  sa_tty :: bool

definition getRegistryClient :: "cli_start \<Rightarrow> (jstr \<Rightarrow> jstr \<Rightarrow> act) \<Rightarrow> act" where
  "getRegistryClient st k = (let rc = resolveConfig (sa_env st) (co_registry (sa_opts st)) None (sa_config st) in
     if \<not> truthy (rc_registryUrl rc) \<or> \<not> truthy (rc_token rc)
     then Notes (js ''Not registered. Run `otacon auth register` first.'') (Quits 1)
     else k (js_string_opt (rc_registryUrl rc)) (js_string_opt (rc_token rc)))"

definition resolvePhoneId :: "string \<Rightarrow> cli_start \<Rightarrow> jstr option \<Rightarrow> (jstr \<Rightarrow> act) \<Rightarrow> act" where
  "resolvePhoneId hint st explicit k =
     (if or_empty explicit \<noteq> [] then k (or_empty explicit)
      else (let rc = resolveConfig (sa_env st) (co_registry (sa_opts st)) (co_phone (sa_opts st)) (sa_config st) in
        if \<not> truthy (rc_activePhone rc) then Notes (js ''No phone specified. '' @ js hint @ js '' or run `otacon phones use <id>`'') (Quits 1)
        else k (js_string_opt (rc_activePhone rc))))"

end
