(* ===== verification/Fleet.thy ===== *)
theory Fleet
  imports Terminal
begin

text \<open>
  The CLI's commands on the registry and on its own configuration (\<open>cli/src/commands\<close>): pending registrations (\<open>reg.ts\<close>),
  hosts, dongles, clients and phones, a phone's configuration (\<open>config.ts\<close>), the link to one phone (\<open>link.ts\<close>) and the
  sign-in (\<open>auth.ts\<close>). Each is what it does (\<open>act\<close>) given its parsed arguments and options. Statuses are texts.
\<close>

section \<open>Registrations\<close>

datatype reg_kind = Host_kind | Client_kind

definition kind_text :: "reg_kind \<Rightarrow> jstr" where
  "kind_text k = (case k of Host_kind \<Rightarrow> js ''host'' | Client_kind \<Rightarrow> js ''client'')"

text \<open>The two lists, both requested at once.\<close>

definition both_pending :: "jstr \<Rightarrow> jstr \<Rightarrow> (json \<Rightarrow> json \<Rightarrow> act) \<Rightarrow> act" where
  "both_pending url token k = (case (registry_request url token Reg_listPendingHosts, registry_request url token Reg_listPendingClients) of
      (Some r, Some q) \<Rightarrow> Fetches_both r q (\<lambda>late a b. (case (registry_json a, registry_json b) of
           (Inr hosts, Inr clients) \<Rightarrow> k hosts clients
         | (Inl m, Inl n) \<Rightarrow> Dies (if late then n else m)
         | (Inl m, Inr _) \<Rightarrow> Dies m
         | (Inr _, Inl n) \<Rightarrow> Dies n))
    | _ \<Rightarrow> Dies (js ''URI malformed''))"

text \<open>\<open>xs.some(r => r.id === id)\<close>\<close>

definition some_id :: "string \<Rightarrow> jstr \<Rightarrow> json \<Rightarrow> jstr + bool" where
  "some_id name i j = (case j of
      JArr vs \<Rightarrow> (case find_with (\<lambda>r. json_get r (js ''id'') = Some (JStr i)) vs of
          None \<Rightarrow> Inl (null_read (js ''id'')) | Some r \<Rightarrow> Inr (r \<noteq> None))
    | JNull \<Rightarrow> Inl (null_read (js ''some''))
    | _ \<Rightarrow> Inl (no_function (name @ ''.some'')))"

definition findRegistrationKind :: "jstr \<Rightarrow> jstr \<Rightarrow> jstr \<Rightarrow> (reg_kind option \<Rightarrow> act) \<Rightarrow> act" where
  "findRegistrationKind url token i k = both_pending url token (\<lambda>hosts clients.
     or_die (some_id ''hosts'' i hosts) (\<lambda>h. if h then k (Some Host_kind)
       else or_die (some_id ''clients'' i clients) (\<lambda>c. k (if c then Some Client_kind else None))))"

definition items_of :: "string \<Rightarrow> string \<Rightarrow> json \<Rightarrow> jstr + json list" where
  "items_of name f j = (case j of JArr vs \<Rightarrow> Inr vs | JNull \<Rightarrow> Inl (null_read (js f)) | _ \<Rightarrow> Inl (no_function (name @ ''.'' @ f)))"

text \<open>\<open>{...r, kind}\<close>; what isn't an object has no status and is left out later.\<close>

definition with_kind :: "reg_kind \<Rightarrow> json \<Rightarrow> json" where
  "with_kind k r = JObj (jm_set (js ''kind'') (JStr (kind_text k)) (case r of JObj kvs \<Rightarrow> kvs | _ \<Rightarrow> []))"

definition is_pending :: "json \<Rightarrow> bool" where
  "is_pending r = (json_get r (js ''status'') = Some (JStr (js ''pending'')))"

definition get_field :: "string \<Rightarrow> json \<Rightarrow> json option" where
  "get_field k j = json_get j (js k)"

definition reg_columns :: "column list" where
  "reg_columns = [at_most 12 (column_of ''ID'' (get_field ''id'')), column_of ''KIND'' (get_field ''kind''), column_of ''WHO'' (get_field ''host_id''),
     column_of ''HOSTNAME'' (get_field ''hostname''), column_of ''REQUESTED'' (get_field ''requested_at'')]"

definition reg_list :: "cli_start \<Rightarrow> bool \<Rightarrow> act" where
  "reg_list st as_json = getRegistryClient st (\<lambda>url token. both_pending url token (\<lambda>hosts clients.
     or_die (items_of ''hosts'' ''map'' hosts) (\<lambda>hs. or_die (items_of ''clients'' ''map'' clients) (\<lambda>cs.
       shows_list (sa_tty st) as_json ''id'' reg_columns
         (JArr (filter is_pending (map (with_kind Host_kind) hs @ map (with_kind Client_kind) cs))) Finished))))"

datatype verdict = Approve | Reject

fun verdict_call :: "verdict \<Rightarrow> reg_kind \<Rightarrow> jstr \<Rightarrow> registry_call" where
  "verdict_call Approve Host_kind i = Reg_approveHost i"
| "verdict_call Approve Client_kind i = Reg_approveClient i"
| "verdict_call Reject Host_kind i = Reg_rejectHost i"
| "verdict_call Reject Client_kind i = Reg_rejectClient i"

definition verdict_word :: "verdict \<Rightarrow> jstr" where
  "verdict_word v = (case v of Approve \<Rightarrow> js ''approve'' | Reject \<Rightarrow> js ''reject'')"

definition verdict_done :: "verdict \<Rightarrow> jstr" where
  "verdict_done v = (case v of Approve \<Rightarrow> js ''Approved '' | Reject \<Rightarrow> js ''Rejected '')"

definition verdict_count :: "verdict \<Rightarrow> jstr" where
  "verdict_count v = (case v of Approve \<Rightarrow> js '' approved, '' | Reject \<Rightarrow> js '' rejected, '')"

text \<open>\<open>reg approve\<close> and \<open>reg reject\<close>\<close>

definition reg_settle :: "verdict \<Rightarrow> cli_start \<Rightarrow> jstr \<Rightarrow> act" where
  "reg_settle v st i = getRegistryClient st (\<lambda>url token. findRegistrationKind url token i (\<lambda>kind. (case kind of
      None \<Rightarrow> Notes (js ''No pending registration found with id '' @ i) (Quits 1)
    | Some k \<Rightarrow> calls registry_done url token (verdict_call v k i)
        (\<lambda>m. Notes (js ''Failed to '' @ verdict_word v @ js '' '' @ i @ js '': '' @ m) (Quits 1))
        (\<lambda>_. Notes (verdict_done v @ kind_text k @ js '' registration '' @ i) Finished))))"

text \<open>\<open>reg approve-all\<close> and \<open>reg reject-all\<close>: the registrations they are for, then one after the other.\<close>

definition targets_of :: "string \<Rightarrow> reg_kind \<Rightarrow> json \<Rightarrow> jstr + (reg_kind \<times> jstr) list" where
  "targets_of name k j = (case filter_items name ''status'' is_pending j of Inl m \<Rightarrow> Inl m
     | Inr rs \<Rightarrow> Inr (map (\<lambda>r. (k, js_string_opt (json_get r (js ''id'')))) rs))"

primrec settle_each :: "verdict \<Rightarrow> jstr \<Rightarrow> jstr \<Rightarrow> (reg_kind \<times> jstr) list \<Rightarrow> nat \<Rightarrow> nat \<Rightarrow> act" where
  "settle_each v url token [] ok failed =
     Notes ([10] @ js ''Done: '' @ dec_nat ok @ verdict_count v @ dec_nat failed @ js '' failed'')
       (if failed > 0 then Quits 1 else Finished)"
| "settle_each v url token (t # ts) ok failed =
     calls registry_done url token (verdict_call v (fst t) (snd t))
       (\<lambda>m. Notes (js ''Failed to '' @ verdict_word v @ js '' '' @ kind_text (fst t) @ js '' '' @ snd t @ js '': '' @ m) (settle_each v url token ts ok (Suc failed)))
       (\<lambda>_. Notes (verdict_done v @ kind_text (fst t) @ js '' '' @ snd t) (settle_each v url token ts (Suc ok) failed))"

definition reg_settle_all :: "verdict \<Rightarrow> cli_start \<Rightarrow> bool \<Rightarrow> bool \<Rightarrow> act" where
  "reg_settle_all v st hostsOnly clientsOnly = getRegistryClient st (\<lambda>url token. both_pending url token (\<lambda>hosts clients.
     or_die (if clientsOnly then Inr [] else targets_of ''hosts'' Host_kind hosts) (\<lambda>hs.
     or_die (if hostsOnly then Inr [] else targets_of ''clients'' Client_kind clients) (\<lambda>cs.
       if hs @ cs = [] then Notes (js ''No pending registrations to '' @ verdict_word v) Finished
       else settle_each v url token (hs @ cs) 0 0))))"

section \<open>Hosts, dongles and clients\<close>

definition colored :: "bool \<Rightarrow> json \<Rightarrow> json option" where
  "colored tty j = (case json_get j (js ''status'') of Some (JStr s) \<Rightarrow> Some (JStr (colorStatus tty s)) | v \<Rightarrow> v)"

definition hosts_list :: "cli_start \<Rightarrow> bool \<Rightarrow> act" where
  "hosts_list st as_json = getRegistryClient st (\<lambda>url token. asks url token Reg_listHosts (\<lambda>hosts.
     shows_list (sa_tty st) as_json ''id''
       [column_of ''ID'' (get_field ''id''), column_of ''STATUS'' (colored (sa_tty st)), column_of ''ADDRESS'' (get_field ''address''),
        column_of ''PORT'' (get_field ''api_port''), column_of ''LAST HEARTBEAT'' (get_field ''last_heartbeat'')] hosts Finished))"

definition hosts_status :: "cli_start \<Rightarrow> jstr \<Rightarrow> bool \<Rightarrow> act" where
  "hosts_status st i as_json = getRegistryClient st (\<lambda>url token. asks url token (Reg_getHost i) (\<lambda>host.
     shows_answer (sa_tty st) as_json host Finished))"

definition hosts_delete :: "cli_start \<Rightarrow> jstr \<Rightarrow> act" where
  "hosts_delete st i = getRegistryClient st (\<lambda>url token. tells url token (Reg_deleteHost i) (Prints (js ''Deleted host '' @ i) Finished))"

definition dongles_list :: "cli_start \<Rightarrow> bool \<Rightarrow> act" where
  "dongles_list st as_json = getRegistryClient st (\<lambda>url token. asks url token Reg_listDongles (\<lambda>dongles.
     shows_list (sa_tty st) as_json ''id''
       [column_of ''ID'' (get_field ''id''), column_of ''BT MAC'' (get_field ''bt_mac''), column_of ''HCI'' (get_field ''hci_device''),
        column_of ''HOST'' (get_field ''host_id''), column_of ''PHONE'' (\<lambda>d. nullish_or (json_get d (js ''phone_id'')) (Some (JStr (js ''spare'')))),
        column_of ''STATUS'' (colored (sa_tty st))] dongles Finished))"

definition dongles_delete :: "cli_start \<Rightarrow> jstr \<Rightarrow> act" where
  "dongles_delete st i = getRegistryClient st (\<lambda>url token. tells url token (Reg_deleteDongle i) (Prints (js ''Deleted dongle '' @ i) Finished))"

definition client_shown :: "bool \<Rightarrow> json \<Rightarrow> bool" where
  "client_shown all t = (json_get t (js ''scope'') = Some (JStr (js ''admin'')) \<and> (all \<or> \<not> truthy (json_get t (js ''revoked_at''))))"

definition clients_list :: "cli_start \<Rightarrow> bool \<Rightarrow> bool \<Rightarrow> act" where
  "clients_list st all as_json = getRegistryClient st (\<lambda>url token. asks url token Reg_listTokens (\<lambda>tokens.
     or_die (filter_items ''tokens'' ''scope'' (client_shown all) tokens) (\<lambda>ts.
       shows_list (sa_tty st) as_json ''token_prefix''
         [column_of ''PREFIX'' (get_field ''token_prefix''), at_most 40 (column_of ''NOTE'' (get_field ''note'')),
          column_of ''LAST SEEN'' (get_field ''last_seen_at''), column_of ''REVOKED'' (get_field ''revoked_at'')] (JArr ts) Finished)))"

definition clients_revoke :: "cli_start \<Rightarrow> jstr \<Rightarrow> act" where
  "clients_revoke st i = getRegistryClient st (\<lambda>url token. tells url token (Reg_revokeToken i) (Prints (js ''Revoked client '' @ i) Finished))"

section \<open>Phones\<close>

definition desired :: "json option \<Rightarrow> jstr" where
  "desired v = (if v = None \<or> v = Some JNull then js ''-'' else if truthy v then js ''on'' else js ''off'')"

definition phones_columns :: "bool \<Rightarrow> json option \<Rightarrow> column list" where
  "phones_columns tty active = [column_of '' '' (\<lambda>p. Some (JStr (if js_same (json_get p (js ''id'')) active then js ''*'' else js '' ''))),
     column_of ''ID'' (get_field ''id''), column_of ''MODEL'' (get_field ''model''), column_of ''SERIAL'' (get_field ''adb_serial''),
     column_of ''STATUS'' (colored tty), column_of ''BT'' (\<lambda>p. Some (JStr (desired (get_opt (json_get p (js ''config'')) ''bluetooth_enabled'')))),
     column_of ''HOST'' (get_field ''host_id''), column_of ''ADAPTER'' (get_field ''adapter_mac'')]"

definition phones_list :: "cli_start \<Rightarrow> bool \<Rightarrow> jstr option \<Rightarrow> bool \<Rightarrow> act" where
  "phones_list st only_connected host as_json = getRegistryClient st (\<lambda>url token.
     let active = rc_activePhone (resolveConfig (sa_env st) (co_registry (sa_opts st)) None (sa_config st)) in
     asks url token Reg_listPhones (\<lambda>phones.
       or_die (if only_connected then map_sum id JArr (filter_items ''phones'' ''status'' (\<lambda>p. json_get p (js ''status'') = Some (JStr (js ''connected''))) phones) else Inr phones) (\<lambda>ps.
       or_die (if or_empty host \<noteq> [] then map_sum id JArr (filter_items ''phones'' ''host_id'' (\<lambda>p. json_get p (js ''host_id'') = Some (JStr (or_empty host))) ps) else Inr ps) (\<lambda>qs.
         shows_list (sa_tty st) as_json ''id'' (phones_columns (sa_tty st) active) qs Finished))))"

definition phones_use :: "cli_start \<Rightarrow> jstr \<Rightarrow> act" where
  "phones_use st i = Keeps ((sa_config st)\<lparr>cf_active_phone := Some (JStr i)\<rparr>) (Notes (js ''Active phone set to '' @ i) Finished)"

definition phones_delete :: "cli_start \<Rightarrow> jstr \<Rightarrow> act" where
  "phones_delete st i = getRegistryClient st (\<lambda>url token. tells url token (Reg_deletePhone i) (Notes (js ''Deleted phone '' @ i) Finished))"

definition pass_hint :: string where
  "pass_hint = ''Pass an ID''"

definition status_fields :: "json \<Rightarrow> fields" where
  "status_fields d = (let host = json_get d (js ''host''); sims = (case json_get d (js ''sims'') of Some (JArr vs) \<Rightarrow> vs | _ \<Rightarrow> []) in
     [(js ''id'', json_get d (js ''id'')), (js ''status'', json_get d (js ''status'')), (js ''host'', get_opt host ''id''),
      (js ''address'', get_opt host ''address''), (js ''api_port'', get_opt host ''api_port''), (js ''model'', json_get d (js ''model'')),
      (js ''adb_serial'', json_get d (js ''adb_serial'')),
      (js ''bluetooth_pairing'', Some (JStr (desired (get_opt (json_get d (js ''config'')) ''bluetooth_enabled'')))),
      (js ''adapter_mac'', json_get d (js ''adapter_mac'')), (js ''phone_number'', json_get d (js ''phone_number'')),
      (js ''sims'', Some (JNum (int (length sims)))), (js ''updated_at'', json_get d (js ''updated_at''))])"

definition phones_status :: "cli_start \<Rightarrow> jstr option \<Rightarrow> bool \<Rightarrow> act" where
  "phones_status st i as_json = resolvePhoneId pass_hint st i (\<lambda>phoneId. getRegistryClient st (\<lambda>url token.
     asks url token (Reg_getPhone phoneId) (\<lambda>d.
       if as_json then shows_answer (sa_tty st) True d Finished
       else if d = JNull then Dies (null_read (js ''config''))
       else shows_record (sa_tty st) False (status_fields d) Finished)))"

definition phones_location :: "cli_start \<Rightarrow> jstr option \<Rightarrow> bool \<Rightarrow> act" where
  "phones_location st i as_json = resolvePhoneId pass_hint st i (\<lambda>phoneId. getRegistryClient st (\<lambda>url token.
     asks url token (Reg_getPhone phoneId) (\<lambda>d.
       let host = json_get d (js ''host'') in
       if d = JNull then Dies (null_read (js ''host''))
       else if truthy (get_opt host ''address'')
         then shows_record (sa_tty st) as_json [(js ''address'', get_opt host ''address''), (js ''api_port'', get_opt host ''api_port'')] Finished
       else Notes (js ''Phone '' @ phoneId @ js '' has no connected host'') (Quits 1))))"

section \<open>A phone's configuration\<close>

text \<open>\<open>indexOf("=")\<close>; \<open>toLowerCase\<close> of ASCII.\<close>

fun index_of :: "nat \<Rightarrow> jstr \<Rightarrow> nat option" where
  "index_of x [] = None"
| "index_of x (c # cs) = (if c = x then Some 0 else map_option Suc (index_of x cs))"

definition parseBool :: "jstr \<Rightarrow> jstr + bool" where
  "parseBool s = (let n = to_lower (trim s) in
     if n \<in> {js ''1'', js ''true'', js ''yes'', js ''on'', js ''enabled'', js ''enable''} then Inr True
     else if n \<in> {js ''0'', js ''false'', js ''no'', js ''off'', js ''disabled'', js ''disable''} then Inr False
     else Inl (js ''Invalid boolean value '' @ [39] @ s @ [39] @ js '' (use on/off or true/false)''))"

definition config_key :: "jstr \<Rightarrow> jstr" where
  "config_key s = map (\<lambda>c. if c = 45 then 95 else c) (to_lower (trim s))"

definition applyConfigPair :: "jstr \<Rightarrow> (jstr \<times> json) list \<Rightarrow> jstr + (jstr \<times> json) list" where
  "applyConfigPair pair current = (case index_of 61 pair of
      Some (Suc n) \<Rightarrow> (let key = config_key (take (Suc n) pair); val = trim (drop (Suc (Suc n)) pair) in
         if key \<in> {js ''bt'', js ''bluetooth'', js ''bluetooth_enabled''}
         then (case parseBool val of Inl m \<Rightarrow> Inl m | Inr b \<Rightarrow> Inr (jm_set (js ''bluetooth_enabled'') (JBool b) current))
         else Inl (js ''Unsupported registry config key '' @ [39] @ key @ [39] @ js '' (use bluetooth_enabled)''))
    | _ \<Rightarrow> Inl (js ''Invalid config '' @ [39] @ pair @ [39] @ js '' (expected key=value)''))"

fun applyConfigPairs :: "(jstr \<times> json) list \<Rightarrow> jstr list \<Rightarrow> jstr + (jstr \<times> json) list" where
  "applyConfigPairs current [] = Inr current"
| "applyConfigPairs current (p # ps) = (case applyConfigPair p current of Inl m \<Rightarrow> Inl m | Inr c \<Rightarrow> applyConfigPairs c ps)"

definition config_hint :: string where
  "config_hint = ''Pass --phone''"

definition config_get :: "cli_start \<Rightarrow> jstr option \<Rightarrow> bool \<Rightarrow> act" where
  "config_get st i as_json = resolvePhoneId config_hint st i (\<lambda>phoneId. getRegistryClient st (\<lambda>url token.
     asks url token (Reg_getPhoneConfig phoneId) (\<lambda>c. shows_answer (sa_tty st) as_json c Finished)))"

text \<open>The registry sends a phone's configuration as an object; \<open>{...null}\<close> is \<open>{}\<close>.\<close>

definition config_set :: "cli_start \<Rightarrow> jstr list \<Rightarrow> bool \<Rightarrow> act" where
  "config_set st kv as_json = resolvePhoneId config_hint st None (\<lambda>phoneId. getRegistryClient st (\<lambda>url token.
     asks url token (Reg_getPhoneConfig phoneId) (\<lambda>current.
     or_die (applyConfigPairs (case current of JObj kvs \<Rightarrow> kvs | _ \<Rightarrow> []) kv) (\<lambda>next_config.
     asks url token (Reg_setPhoneConfig phoneId (JObj next_config)) (\<lambda>result.
       if result = JNull then Dies (null_read (js ''pushed''))
       else shows_record (sa_tty st) as_json
         (AList.update (js ''pushed'') (json_get result (js ''pushed'')) (map (\<lambda>(k, v). (k, Some v)) next_config)) Finished)))))"

section \<open>The link to one phone\<close>

text \<open>
  \<open>/^(https?:\/\/[^\/]+)\/phones\/([^\/?#]+)\/?$/\<close>: the host and the phone's part. The host has no slash, so the match is the one
  with the host up to the third slash.
\<close>

definition link_scheme :: "jstr \<Rightarrow> jstr option" where
  "link_scheme s = (if starts_with (js ''http://'') s then Some (js ''http://'') else if starts_with (js ''https://'') s then Some (js ''https://'') else None)"

definition phone_link :: "jstr \<Rightarrow> (jstr \<times> jstr) option" where
  "phone_link s = (case link_scheme s of None \<Rightarrow> None
     | Some scheme \<Rightarrow> (let r = drop (length scheme) s; name = takeWhile (\<lambda>c. c \<noteq> 47) r in
         case after (js ''/phones/'') (drop (length name) r) of
           None \<Rightarrow> None
         | Some t \<Rightarrow> (let phone = takeWhile (\<lambda>c. c \<notin> {47, 63, 35}) t; tail = drop (length phone) t in
             if name \<noteq> [] \<and> phone \<noteq> [] \<and> (tail = [] \<or> tail = js ''/'') then Some (scheme @ name, phone) else None)))"

text \<open>\<open>None\<close>: decoding throws.\<close>

definition parseTarget :: "jstr \<Rightarrow> jstr option \<Rightarrow> (jstr \<times> jstr option) option" where
  "parseTarget host phone = (case (phone_link host, or_empty phone) of
      (Some (h, p), []) \<Rightarrow> map_option (\<lambda>d. (h, Some d)) (decodeURIComponent p)
    | _ \<Rightarrow> Some (host_of_link host, phone))"

definition describe_link :: "jstr \<times> jstr \<Rightarrow> jstr" where
  "describe_link l = js ''linked to phone '' @ snd l @ js '' on '' @ fst l"

definition link_json :: "jstr \<times> jstr \<Rightarrow> json" where
  "link_json l = JObj [(js ''mode'', JStr (js ''phone'')), (js ''host'', JStr (fst l)), (js ''phone'', JStr (snd l))]"

definition link_show :: "cli_config \<Rightarrow> act" where
  "link_show config = (case cf_link config of
      None \<Rightarrow> Notes (js ''Not linked. Run `otacon link <host> <phone>`.'') (Quits 1)
    | Some l \<Rightarrow> Prints (json_pretty 0 (link_json l)) Finished)"

definition link_checked :: "cli_config \<Rightarrow> jstr \<Rightarrow> jstr \<Rightarrow> fetched \<Rightarrow> act" where
  "link_checked config host phone f = (case f of
      Unreachable m \<Rightarrow> Notes (js ''Can'' @ [39] @ js ''t reach '' @ host @ js '': '' @ m) (Quits 1)
    | Answer a \<Rightarrow>
        if ha_status a = 404 then Notes (host @ js '' has no phone '' @ phone @ js ''. Its phones: '' @ host @ js ''/phones'') (Quits 1)
        else if \<not> ha_ok a then Notes (host @ js '' answered '' @ http_status a) (Quits 1)
        else (let info = (case ha_json a of Inr j \<Rightarrow> j | Inl _ \<Rightarrow> JObj []) in
          Keeps (config\<lparr>cf_link := Some (host, phone)\<rparr>)
            (if info = JNull then Dies (null_read (js ''adb_serial''))
             else Notes (describe_link (host, phone) @ (if truthy (json_get info (js ''adb_serial''))
               then js '' (serial '' @ js_string_opt (json_get info (js ''adb_serial'')) @ js '')'' else [])) Finished)))"

definition link_command :: "cli_start \<Rightarrow> jstr option \<Rightarrow> jstr option \<Rightarrow> act" where
  "link_command st hostArg phoneArg =
     (if or_empty hostArg = [] then link_show (sa_config st)
      else (case parseTarget (or_empty hostArg) phoneArg of
          None \<Rightarrow> Dies (js ''URI malformed'')
        | Some (host, phone) \<Rightarrow>
            if or_empty phone = [] then Notes (js ''Which phone? `otacon link <host> <phone>` (the host'' @ [39] @ js ''s id, e.g. phone-r5ct60sd)'') (Quits 1)
            else (case phone_url host (or_empty phone) of
                Inl m \<Rightarrow> link_checked (sa_config st) host (or_empty phone) (Unreachable m)
              | Inr u \<Rightarrow> Fetches \<lparr>cq_verb = GET, cq_url = u, cq_bearer = None, cq_body = No_body\<rparr> (link_checked (sa_config st) host (or_empty phone)))))"

definition unlink_command :: "cli_start \<Rightarrow> act" where
  "unlink_command st = (case cf_link (sa_config st) of
      None \<Rightarrow> Notes (js ''Not linked.'') Finished
    | Some l \<Rightarrow> Keeps ((sa_config st)\<lparr>cf_link := None\<rparr>) (Notes (js ''Removed: '' @ describe_link l) Finished))"

section \<open>Sign-in\<close>

text \<open>\<open>auth register\<close>; \<open>given_url\<close> is the option of the command or of the program. Not returning is \<open>None\<close>.\<close>

definition auth_register :: "cli_start \<Rightarrow> jstr option \<Rightarrow> fetched \<Rightarrow> (nat \<Rightarrow> fetched) \<Rightarrow> act option" where
  "auth_register st given_url submit polls =
     (let rc = resolveConfig (sa_env st) given_url None (sa_config st) in
      if \<not> truthy (rc_registryUrl rc)
      then Some (Notes (js ''No registry URL. Set OTACON_REGISTRY_URL, pass --registry, or add registry_url to ~/.otacon/config.toml'') (Quits 1))
      else map_option (\<lambda>r. case r of
          Inl m \<Rightarrow> Notes (js ''Registration failed: '' @ m) (Quits 1)
        | Inr token \<Rightarrow> Keeps ((sa_config st)\<lparr>cf_registry_url := rc_registryUrl rc, cf_token := Some token\<rparr>)
            (Notes (js ''Registered successfully. Token saved to ~/.otacon/config.toml'') Finished)) (registerClient submit polls))"

definition auth_unregister :: "cli_start \<Rightarrow> act" where
  "auth_unregister st = Keeps ((sa_config st)\<lparr>cf_token := None\<rparr>) (Notes (js ''Token removed from config'') Finished)"

text \<open>\<open>auth whoami\<close>: the file's registry, token and phone with the environment's before them.\<close>

definition or_null :: "json option \<Rightarrow> json" where
  "or_null v = (case v of None \<Rightarrow> JNull | Some j \<Rightarrow> j)"

definition auth_whoami :: "cli_start \<Rightarrow> act" where
  "auth_whoami st = (let rc = resolveConfig (sa_env st) None None (sa_config st); link = cf_link (sa_config st) in
     case token_prefix (rc_token rc) of
       None \<Rightarrow> Dies (no_function ''token.slice'')
     | Some shown_token \<Rightarrow>
         if \<not> truthy (rc_registryUrl rc) \<and> shown_token = None \<and> link = None
         then Notes (js ''Not registered or linked. Run `otacon auth register`, or `otacon link <host> <phone>` for one phone.'') (Quits 1)
         else Prints (json_pretty 0 (JObj [(js ''registry_url'', or_null (rc_registryUrl rc)),
             (js ''token'', case shown_token of None \<Rightarrow> JNull | Some s \<Rightarrow> JStr s), (js ''active_phone'', or_null (rc_activePhone rc)),
             (js ''link'', case link of None \<Rightarrow> JNull | Some l \<Rightarrow> link_json l)])) Finished)"

end
