(* ===== verification/FleetRun.thy ===== *)
theory FleetRun
  imports Fleet
begin

text \<open>
  Properties of the CLI's registry commands: which commands only look, that settling all registrations settles each pending one
  once, and that a linked phone is the one later commands reach.
\<close>

section \<open>What a command asks for\<close>

definition asked :: "seen list \<Rightarrow> cli_request list" where
  "asked es = concat (map (\<lambda>e. case e of Asked r \<Rightarrow> [r] | _ \<Rightarrow> []) es)"

lemma asked_simps [simp]:
  "asked [] = []" "asked (Asked r # es) = r # asked es" "asked (Noted t # es) = asked es" "asked (Printed t # es) = asked es"
  "asked (Kept c # es) = asked es" "asked (Wrote p b # es) = asked es" "asked (Exited n # es) = asked es"
  by (simp_all add: asked_def)

lemma play_not_Nil [simp]: "play w late a h \<noteq> []"
  by (cases a) simp_all

text \<open>A command that only looks: its requests are all GET, and it saves and writes nothing.\<close>

primrec reads_only :: "act \<Rightarrow> bool" where
  "reads_only Finished = True"
| "reads_only (Prints t a) = reads_only a"
| "reads_only (Notes t a) = reads_only a"
| "reads_only (Keeps c a) = False"
| "reads_only (Writes_file p b a) = False"
| "reads_only (Fetches r k) = (cq_verb r = GET \<and> (\<forall>f. reads_only (k f)))"
| "reads_only (Fetches_both r q k) = (cq_verb r = GET \<and> cq_verb q = GET \<and> (\<forall>late f g. reads_only (k late f g)))"
| "reads_only (Quits n) = True"
| "reads_only (Dies m) = True"

definition looks :: "seen \<Rightarrow> bool" where
  "looks e = (case e of Asked r \<Rightarrow> cq_verb r = GET | Kept c \<Rightarrow> False | Wrote p b \<Rightarrow> False | _ \<Rightarrow> True)"

lemma reads_only_looks: "reads_only a \<Longrightarrow> list_all looks (play w late a h)"
proof (induction a arbitrary: h)
  case (Fetches_both r q k)
  then show ?case
    using Fetches_both.IH [OF rangeI [of k late] rangeI rangeI] by (simp add: looks_def)
qed (auto simp: looks_def)

lemma reads_prints [simp]: "reads_only (prints ls a) = reads_only a"
  by (induction ls) (simp_all add: prints_def)

lemma reads_or_die [simp]: "(\<And>x. reads_only (k x)) \<Longrightarrow> reads_only (or_die r k)"
  by (cases r) (simp_all add: or_die_def)

lemma reads_shows [simp]:
  "reads_only a \<Longrightarrow> reads_only (shows_list tty j key cols v a)"
  "reads_only a \<Longrightarrow> reads_only (shows_answer tty j v a)"
  "reads_only a \<Longrightarrow> reads_only (shows_record tty j r a)"
  by (simp_all add: shows_list_def shows_answer_def shows_record_def split: json.splits option.splits)

lemma reads_signed_in [simp]: "(\<And>url token. reads_only (k url token)) \<Longrightarrow> reads_only (getRegistryClient st k)"
  by (simp add: getRegistryClient_def Let_def)

lemma reads_phone_id [simp]: "(\<And>i. reads_only (k i)) \<Longrightarrow> reads_only (resolvePhoneId hint st i k)"
  by (simp add: resolvePhoneId_def Let_def)

lemma reads_calls [simp]:
  "registry_verb c = GET \<Longrightarrow> (\<And>m. reads_only (fails m)) \<Longrightarrow> (\<And>x. reads_only (k x)) \<Longrightarrow> reads_only (calls rd url token c fails k)"
  by (auto simp: calls_def registry_request_def split: option.splits sum.splits)

lemma reads_both [simp]: "(\<And>h c. reads_only (k h c)) \<Longrightarrow> reads_only (both_pending url token k)"
  by (auto simp: both_pending_def registry_request_def split: option.splits sum.splits)

lemma fleet_reads:
  "reads_only (reg_list st j)" "reads_only (hosts_list st j)" "reads_only (hosts_status st i j)" "reads_only (dongles_list st j)"
  "reads_only (clients_list st all j)" "reads_only (phones_list st c host j)" "reads_only (phones_status st p j)"
  "reads_only (phones_location st p j)" "reads_only (config_get st p j)" "reads_only (auth_whoami st)"
  by (simp_all add: reg_list_def hosts_list_def hosts_status_def dongles_list_def clients_list_def phones_list_def phones_status_def
      phones_location_def config_get_def auth_whoami_def Let_def split: option.splits)

section \<open>Settling every registration\<close>

definition verdict_request :: "verdict \<Rightarrow> jstr \<Rightarrow> jstr \<Rightarrow> reg_kind \<times> jstr \<Rightarrow> cli_request option" where
  "verdict_request v url token t = registry_request url token (verdict_call v (fst t) (snd t))"

definition verdict_requests :: "verdict \<Rightarrow> jstr \<Rightarrow> jstr \<Rightarrow> (reg_kind \<times> jstr) list \<Rightarrow> cli_request list" where
  "verdict_requests v url token ts = List.map_filter (verdict_request v url token) ts"

lemma verdict_requests_simps [simp]:
  "verdict_requests v url token [] = []"
  "verdict_requests v url token (t # ts) = (case verdict_request v url token t of None \<Rightarrow> [] | Some r \<Rightarrow> [r]) @ verdict_requests v url token ts"
  by (simp_all add: verdict_requests_def List.map_filter_simps split: option.splits)

text \<open>All of them could be sent and were answered without an error.\<close>

fun all_settled :: "world \<Rightarrow> verdict \<Rightarrow> jstr \<Rightarrow> jstr \<Rightarrow> (reg_kind \<times> jstr) list \<Rightarrow> cli_request list \<Rightarrow> bool" where
  "all_settled w v url token [] h = True"
| "all_settled w v url token (t # ts) h = (case verdict_request v url token t of None \<Rightarrow> False
     | Some r \<Rightarrow> registry_done (w (h @ [r])) = Inr () \<and> all_settled w v url token ts (h @ [r]))"

lemma settle_each_play:
  "asked (play w late (settle_each v url token ts ok failed) h) = verdict_requests v url token ts
   \<and> last (play w late (settle_each v url token ts ok failed) h) = Exited (if failed = 0 \<and> all_settled w v url token ts h then 0 else 1)"
proof (induction ts arbitrary: ok failed h)
  case (Cons t ts)
  show ?case
  proof (cases "verdict_request v url token t")
    case None
    then show ?thesis using Cons [of ok "Suc failed" h] by (simp add: calls_def verdict_request_def)
  next
    case (Some r)
    then show ?thesis
      using Cons [of ok "Suc failed" "h @ [r]"] Cons [of "Suc ok" failed "h @ [r]"]
      by (cases "registry_done (w (h @ [r]))") (simp_all add: calls_def verdict_request_def)
  qed
qed simp

definition pending_of :: "reg_kind \<Rightarrow> json list \<Rightarrow> (reg_kind \<times> jstr) list" where
  "pending_of k rs = map (\<lambda>r. (k, js_string_opt (json_get r (js ''id'')))) (filter is_pending rs)"

definition list_requests :: "jstr \<Rightarrow> jstr \<Rightarrow> cli_request list" where
  "list_requests url token = map (\<lambda>p. \<lparr>cq_verb = GET, cq_url = url @ js ''/api/v1/admin/'' @ js p, cq_bearer = Some token, cq_body = No_body\<rparr>)
     [''hosts/pending'', ''clients/pending'']"


text \<open>A registry that has one pending host, one that was approved, and one pending client, and answers everything.\<close>

definition settle_w :: world where
  "settle_w rs = Answer \<lparr>ha_status = 200,
     ha_json = Inr (if length rs = 1
       then JArr [JObj [(js ''id'', JStr (js ''h1'')), (js ''status'', JStr (js ''pending''))], JObj [(js ''id'', JStr (js ''h2'')), (js ''status'', JStr (js ''approved''))]]
       else JArr [JObj [(js ''id'', JStr (js ''c1'')), (js ''status'', JStr (js ''pending''))]]),
     ha_text = [], ha_bytes = []\<rparr>"

definition settle_start_w :: cli_start where
  "settle_start_w = \<lparr>sa_env = [], sa_opts = \<lparr>co_host = None, co_phone = None, co_registry = None\<rparr>,
     sa_config = \<lparr>cf_registry_url = Some (JStr (js ''u'')), cf_token = Some (JStr (js ''t'')), cf_active_phone = None, cf_link = None\<rparr>, sa_tty = False\<rparr>"


section \<open>A link is followed\<close>

lemma after_app [simp]: "after p (p @ s) = Some s"
  by (simp add: after_def starts_with_def)

lemma takeWhile_not: "x \<notin> set a \<Longrightarrow> takeWhile (\<lambda>c. c \<noteq> x) (a @ x # b) = a"
  by (induction a) auto

lemma takeWhile_segment: "set e \<inter> {47, 63, 35} = {} \<Longrightarrow> takeWhile (\<lambda>c. c \<noteq> 47 \<and> c \<noteq> 63 \<and> c \<noteq> (35::nat)) e = e"
  by (induction e) auto

lemma phone_link_read:
  assumes "scheme = js ''http://'' \<or> scheme = js ''https://''" "name \<noteq> []" "47 \<notin> set name" "e \<noteq> []" "set e \<inter> {47, 63, 35} = {}"
  shows "phone_link (scheme @ name @ js ''/phones/'' @ e) = Some (scheme @ name, e)"
proof -
  have s: "link_scheme (scheme @ r) = Some scheme" for r
    using assms(1) by (auto simp: link_scheme_def starts_with_def js_def)
  have p: "js ''/phones/'' = 47 # js ''phones/''" by (simp add: js_def)
  have t: "takeWhile (\<lambda>c. c \<noteq> 47) (name @ js ''/phones/'' @ e) = name"
    unfolding p using takeWhile_not [OF assms(3)] by simp
  show ?thesis
    using assms(2,4) by (simp add: phone_link_def s t Let_def takeWhile_segment [OF assms(5)])
qed

lemma host_of_link_name: "name \<noteq> [] \<Longrightarrow> 47 \<notin> set name \<Longrightarrow> host_of_link (scheme @ name) = scheme @ name"
  by (cases name rule: rev_cases) (simp_all add: host_of_link_def)

text \<open>
  C7: a link is followed. Linking with a phone's URL asks that URL, and if the host knows the phone it saves a configuration with
  which every later command of the CLI, without options or variables that say otherwise, reaches that same URL; the rest of the
  configuration stays.
\<close>

theorem link_reaches_the_phone:
  assumes "scheme \<in> {js ''http://'', js ''https://''}" "name \<noteq> []" "47 \<notin> set name"
    and "i \<noteq> []" "list_all (\<lambda>c. c < 65536) i" "encodeURIComponent i = Some e"
    and "link_url = scheme @ name @ js ''/phones/'' @ e"
    and "asks_it = \<lparr>cq_verb = GET, cq_url = link_url, cq_bearer = None, cq_body = No_body\<rparr>"
    and "w [asks_it] = Answer a" "ha_ok a" "ha_json a \<noteq> Inr JNull"
    and "opts = \<lparr>co_host = None, co_phone = None, co_registry = registry\<rparr>" "jm_get env (js ''OTACON_HOST'') = None" "jm_get env (js ''OTACON_PHONE'') = None"
  shows "(\<exists>t. play w late (link_command st (Some link_url) None) []
      = [Asked asks_it, Kept ((sa_config st)\<lparr>cf_link := Some (scheme @ name, i)\<rparr>), Noted t, Exited 0])
    \<and> getHostClient net ts env now later opts ((sa_config st)\<lparr>cf_link := Some (scheme @ name, i)\<rparr>) cache = (Inr link_url, cache)"
proof
  let ?c = "(sa_config st)\<lparr>cf_link := Some (scheme @ name, i)\<rparr>"
  have e: "e \<noteq> []" "set e \<inter> {47, 63, 35} = {}"
    using encode_Nil [OF assms(6,4)] path_char_not [OF encode_chars [OF assms(6)]] by auto
  have "phone_link link_url = Some (scheme @ name, e)"
    unfolding assms(7) using assms(1-3) e by (intro phone_link_read) auto
  then have t: "parseTarget link_url None = Some (scheme @ name, Some i)"
    using decode_encode [OF assms(6,5)] by (simp add: parseTarget_def or_empty_def)
  have n: "link_url \<noteq> []" using e assms(7) by simp
  have u: "phone_url (scheme @ name) i = Inr link_url"
    using assms(6,7) by (simp add: phone_url_def)
  have ok: "ha_status a \<noteq> 404" using assms(10) by (simp add: ha_ok_def)
  let ?info = "case ha_json a of Inr j \<Rightarrow> j | Inl _ \<Rightarrow> JObj []"
  have "?info \<noteq> JNull" using assms(11) by (auto split: sum.splits)
  then have "play w late (link_command st (Some link_url) None) []
      = [Asked asks_it, Kept ?c, Noted (describe_link (scheme @ name, i) @ (if truthy (json_get ?info (js ''adb_serial''))
          then js '' (serial '' @ js_string_opt (json_get ?info (js ''adb_serial'')) @ js '')'' else [])), Exited 0]"
    using n t u assms(4,9,10) ok by (simp add: link_command_def link_checked_def or_empty_def assms(8) Let_def)
  then show "\<exists>t. play w late (link_command st (Some link_url) None) [] = [Asked asks_it, Kept ?c, Noted t, Exited 0]" by blast
  show "getHostClient net ts env now later opts ?c cache = (Inr link_url, cache)"
    using assms(12-14) u host_of_link_name [OF assms(2,3)] assms(4)
    by (simp add: getHostClient_def Let_def env_str_def js_or_def js_string_opt_def)
qed

text \<open>A host that knows the phone \<open>a/b\<close>, linked by its URL.\<close>

theorem link_reaches_the_phone_witness:
  "(\<exists>t. play (\<lambda>_. Answer \<lparr>ha_status = 200, ha_json = Inr (JObj []), ha_text = [], ha_bytes = []\<rparr>) False
        (link_command settle_start_w (Some (js ''http://'' @ js ''pi'' @ js ''/phones/'' @ js ''a%2Fb'')) None) []
      = [Asked \<lparr>cq_verb = GET, cq_url = js ''http://'' @ js ''pi'' @ js ''/phones/'' @ js ''a%2Fb'', cq_bearer = None, cq_body = No_body\<rparr>,
         Kept ((sa_config settle_start_w)\<lparr>cf_link := Some (js ''http://'' @ js ''pi'', js ''a/b'')\<rparr>), Noted t, Exited 0])
    \<and> getHostClient (\<lambda>_ _. Unreachable []) None [] 1 2 \<lparr>co_host = None, co_phone = None, co_registry = None\<rparr>
        ((sa_config settle_start_w)\<lparr>cf_link := Some (js ''http://'' @ js ''pi'', js ''a/b'')\<rparr>) []
      = (Inr (js ''http://'' @ js ''pi'' @ js ''/phones/'' @ js ''a%2Fb''), [])"
  by (rule link_reaches_the_phone [of "js ''http://''" "js ''pi''" "js ''a/b''" "js ''a%2Fb''" _ _ _ "\<lparr>ha_status = 200, ha_json = Inr (JObj []), ha_text = [], ha_bytes = []\<rparr>"])
    (simp_all add: js_def ha_ok_def jm_get_def uri_plain_def is_digit_def is_lower_def is_upper_def utf8_point_def percent_def)

end
