(* ===== verification/Radio.thy ===== *)
theory Radio
  imports Fleet
begin

text \<open>
  The CLI's commands on a phone's radios: APN overrides (\<open>cli/src/commands/phone-apns.ts\<close>), SIM profiles (\<open>phone-esim.ts\<close>) and
  Wi-Fi (\<open>wifi.ts\<close>). Each is what it does (\<open>act\<close>), given its parsed arguments and options and the base URL of the phone
  (or what finding it threw).
\<close>

section \<open>Requests\<close>

text \<open>\<open>apnsFetch\<close>, \<open>simsFetch\<close> and \<open>wifiFetch\<close>, and what becomes of the answer.\<close>

definition phone_error :: "phone_answer \<Rightarrow> jstr option" where
  "phone_error a = (if ha_ok a then None else Some (if ha_text a \<noteq> [] then ha_text a else http_status a))"

definition radio_json :: "fetched \<Rightarrow> jstr + json" where
  "radio_json f = (case f of Unreachable m \<Rightarrow> Inl m
     | Answer a \<Rightarrow> (case phone_error a of Some m \<Rightarrow> Inl m | None \<Rightarrow> ha_json a))"

definition radio :: "string \<Rightarrow> jstr + jstr \<Rightarrow> request_verb \<Rightarrow> jstr \<Rightarrow> json option \<Rightarrow> (json \<Rightarrow> act) \<Rightarrow> act" where
  "radio area base verb path body k = or_die base (\<lambda>url.
     Fetches \<lparr>cq_verb = verb, cq_url = url @ js ''/api/'' @ js area @ path, cq_bearer = None,
         cq_body = (case body of None \<Rightarrow> No_body | Some j \<Rightarrow> Json_body j)\<rparr>
       (\<lambda>f. or_die (radio_json f) k))"

definition display :: "bool \<Rightarrow> bool \<Rightarrow> json \<Rightarrow> act" where
  "display tty as_json j = shows_answer tty as_json j Finished"

section \<open>APN overrides\<close>

record apn_options =
  ao_operator :: "jstr option"
  ao_apn :: "jstr option"
  ao_types :: "jstr option"
  ao_protocol :: "jstr option"
  ao_roamingProtocol :: "jstr option"
  ao_authType :: "jstr option"
  ao_user :: "jstr option"
  ao_password :: "jstr option"
  ao_mmsc :: "jstr option"
  ao_mmsProxy :: "jstr option"
  ao_mmsPort :: "jstr option"
  ao_id :: "jstr option"
  ao_json :: bool

text \<open>\<open>types.split(/[,|\s]+/).filter(Boolean)\<close>\<close>

definition type_sep :: "nat \<Rightarrow> bool" where
  "type_sep c = (c = 44 \<or> c = 124 \<or> js_space c)"

fun type_parts :: "jstr \<Rightarrow> jstr list" where
  "type_parts [] = []"
| "type_parts (c # cs) = (if type_sep c then type_parts cs
     else (case cs of [] \<Rightarrow> [[c]]
       | d # _ \<Rightarrow> if type_sep d then [c] # type_parts cs
           else (case type_parts cs of [] \<Rightarrow> [[c]] | p # ps \<Rightarrow> (c # p) # ps)))"

definition withMmsTypeIfNeeded :: "jstr \<Rightarrow> apn_options \<Rightarrow> jstr" where
  "withMmsTypeIfNeeded types o1 =
     (if ao_mmsc o1 = None \<and> ao_mmsProxy o1 = None \<and> ao_mmsPort o1 = None then types
      else (let parts = type_parts types in
        if list_ex (\<lambda>p. to_lower p = js ''mms'') parts then types else join (js '','') (parts @ [js ''mms''])))"

definition normalizeOperator :: "jstr \<Rightarrow> jstr" where
  "normalizeOperator s = filter is_digit s"

definition parseId :: "jstr \<Rightarrow> jstr + int" where
  "parseId s = (case parse_int False s of None \<Rightarrow> Inl (js ''invalid APN id: '' @ s) | Some n \<Rightarrow> Inr n)"

definition parsePort :: "jstr \<Rightarrow> jstr + int" where
  "parsePort s = (case parse_int False s of
      Some n \<Rightarrow> if 0 \<le> n \<and> n \<le> 65535 then Inr n else Inl (js ''invalid MMS port: '' @ s)
    | None \<Rightarrow> Inl (js ''invalid MMS port: '' @ s))"

definition opt_field :: "string \<Rightarrow> jstr option \<Rightarrow> (jstr \<times> json) list" where
  "opt_field k v = (case v of None \<Rightarrow> [] | Some s \<Rightarrow> [(js k, JStr s)])"

definition apnBody :: "jstr option \<Rightarrow> apn_options \<Rightarrow> jstr + json" where
  "apnBody name o1 =
     (let fields = opt_field ''entryName'' name @ opt_field ''apn'' (ao_apn o1) @ opt_field ''operatorNumeric'' (ao_operator o1)
          @ opt_field ''types'' (map_option (\<lambda>t. withMmsTypeIfNeeded t o1) (ao_types o1)) @ opt_field ''protocol'' (ao_protocol o1)
          @ opt_field ''roamingProtocol'' (ao_roamingProtocol o1) @ opt_field ''authType'' (ao_authType o1) @ opt_field ''user'' (ao_user o1)
          @ opt_field ''password'' (ao_password o1) @ opt_field ''mmsc'' (ao_mmsc o1) @ opt_field ''mmsProxy'' (ao_mmsProxy o1)
      in case ao_mmsPort o1 of
          None \<Rightarrow> Inr (JObj fields)
        | Some p \<Rightarrow> (case parsePort p of Inl m \<Rightarrow> Inl m | Inr n \<Rightarrow> Inr (JObj (fields @ [(js ''mmsPort'', JNum n)]))))"

text \<open>The options that \<open>create\<close> and \<open>upsert\<close> have when they are not given.\<close>

definition with_default :: "string \<Rightarrow> jstr option \<Rightarrow> jstr option" where
  "with_default d v = (case v of None \<Rightarrow> Some (js d) | Some s \<Rightarrow> Some s)"

definition addApnOptions :: "bool \<Rightarrow> apn_options \<Rightarrow> apn_options" where
  "addApnOptions includeDefaults o1 = (if \<not> includeDefaults then o1
     else o1\<lparr>ao_types := with_default ''default,supl'' (ao_types o1), ao_protocol := with_default ''ipv4v6'' (ao_protocol o1),
       ao_roamingProtocol := with_default ''ipv4v6'' (ao_roamingProtocol o1), ao_authType := with_default ''none'' (ao_authType o1)\<rparr>)"

definition apn_columns :: "column list" where
  "apn_columns = [column_of ''ID'' (get_field ''id''), column_of ''NAME'' (get_field ''entryName''), column_of ''APN'' (get_field ''apnName''),
     column_of ''OPERATOR'' (get_field ''operatorNumeric''), column_of ''TYPES'' (get_field ''types''),
     column_of ''ENABLED'' (\<lambda>a. status_text (json_get a (js ''enabled'')) ''yes'' ''no''), column_of ''PROTOCOL'' (get_field ''protocol''),
     column_of ''ROAMING'' (get_field ''roamingProtocol''), column_of ''AUTH'' (get_field ''authType''), column_of ''MMSC'' (get_field ''mmsc''),
     column_of ''MMS_PROXY'' (get_field ''mmsProxy''), column_of ''MMS_PORT'' (get_field ''mmsPort'')]"

definition apns_list :: "bool \<Rightarrow> jstr + jstr \<Rightarrow> bool \<Rightarrow> act" where
  "apns_list tty base as_json = radio ''apns'' base GET [] None (\<lambda>rows. shows_list tty as_json ''id'' apn_columns rows Finished)"

text \<open>The body is made before the phone is looked for.\<close>

definition apns_create :: "bool \<Rightarrow> jstr + jstr \<Rightarrow> jstr \<Rightarrow> apn_options \<Rightarrow> act" where
  "apns_create tty base name given_opts = (let o1 = addApnOptions True given_opts in
     or_die (apnBody (Some name) o1) (\<lambda>body. radio ''apns'' base POST [] (Some body) (display tty (ao_json o1))))"

definition apns_update :: "bool \<Rightarrow> jstr + jstr \<Rightarrow> jstr \<Rightarrow> jstr option \<Rightarrow> apn_options \<Rightarrow> act" where
  "apns_update tty base i name o1 = or_die (parseId i) (\<lambda>n. or_die (apnBody name o1) (\<lambda>body.
     radio ''apns'' base PUT (js ''/'' @ dec_int n) (Some body) (display tty (ao_json o1))))"

text \<open>
  \<open>upsert\<close>: the override that has the same digits of the operator and the same APN, if any. The host's rows are objects whose
  operator is a text, and what it answers is an object.
\<close>

definition same_apn :: "apn_options \<Rightarrow> json \<Rightarrow> bool" where
  "same_apn o1 row = (normalizeOperator (js_string_opt (json_get row (js ''operatorNumeric''))) = normalizeOperator (or_empty (ao_operator o1))
     \<and> json_get row (js ''apnName'') = map_option JStr (ao_apn o1))"

definition row_id :: "apn_options \<Rightarrow> json list \<Rightarrow> jstr + json option" where
  "row_id o1 rows = (case find_with (same_apn o1) rows of
      None \<Rightarrow> Inl (null_read (js ''operatorNumeric'')) | Some None \<Rightarrow> Inr None | Some (Some row) \<Rightarrow> Inr (json_get row (js ''id'')))"

definition action_field :: "json option \<Rightarrow> jstr \<times> json option" where
  "action_field i = (js ''action'', Some (JStr (if i = None then js ''created'' else js ''updated'')))"

text \<open>\<open>{action, ...payload}\<close>: a field of that name in the answer counts.\<close>

definition apns_put :: "bool \<Rightarrow> jstr + jstr \<Rightarrow> jstr \<Rightarrow> apn_options \<Rightarrow> json option \<Rightarrow> act" where
  "apns_put tty base name o1 i = or_die (apnBody (Some name) o1) (\<lambda>body.
     radio ''apns'' base (if i = None then POST else PUT) (case i of None \<Rightarrow> [] | Some v \<Rightarrow> js ''/'' @ js_string v) (Some body) (\<lambda>payload.
       if ao_json o1 then display tty True payload
       else shows_record tty False (AList.updates (map fst (case payload of JObj kvs \<Rightarrow> kvs | _ \<Rightarrow> []))
          (map (\<lambda>kv. Some (snd kv)) (case payload of JObj kvs \<Rightarrow> kvs | _ \<Rightarrow> [])) [action_field i]) Finished))"

definition apns_upsert :: "bool \<Rightarrow> jstr + jstr \<Rightarrow> jstr \<Rightarrow> apn_options \<Rightarrow> act" where
  "apns_upsert tty base name given_opts = (let o1 = addApnOptions True given_opts in
     if or_empty (ao_id o1) \<noteq> []
     then or_die (parseId (or_empty (ao_id o1))) (\<lambda>n. apns_put tty base name o1 (Some (JNum n)))
     else radio ''apns'' base GET [] None (\<lambda>rows. or_die (items_of ''rows'' ''find'' rows) (\<lambda>rs.
       or_die (row_id o1 rs) (apns_put tty base name o1))))"

definition apns_delete :: "bool \<Rightarrow> jstr + jstr \<Rightarrow> jstr \<Rightarrow> bool \<Rightarrow> act" where
  "apns_delete tty base i as_json = or_die (parseId i) (\<lambda>n. radio ''apns'' base DELETE (js ''/'' @ dec_int n) None (display tty as_json))"

definition apns_status :: "bool \<Rightarrow> jstr + jstr \<Rightarrow> bool \<Rightarrow> act" where
  "apns_status tty base as_json = radio ''apns'' base GET (js ''/enabled'') None (display tty as_json)"

text \<open>\<open>apns enable\<close> and \<open>apns disable\<close>\<close>

definition apns_switch :: "bool \<Rightarrow> bool \<Rightarrow> jstr + jstr \<Rightarrow> bool \<Rightarrow> act" where
  "apns_switch on tty base as_json = radio ''apns'' base PUT (js ''/enabled'') (Some (JObj [(js ''enabled'', JBool on)])) (display tty as_json)"

section \<open>SIM profiles\<close>

definition sim_columns :: "bool \<Rightarrow> column list" where
  "sim_columns tty = [column_of ''SUBID'' (\<lambda>p. Some (JStr (js_string_opt (json_get p (js ''subId''))))),
     column_of ''CARRIER'' (\<lambda>p. js_or (json_get p (js ''carrier'')) (Some (JStr (js ''(unknown)'')))),
     column_of ''ICCID'' (get_field ''iccid''), column_of ''TYPE'' (\<lambda>p. status_text (json_get p (js ''embedded'')) ''eSIM'' ''physical''),
     column_of ''SLOT'' (\<lambda>p. Some (JStr (case json_get p (js ''slot'') of Some (JNum n) \<Rightarrow> if n < 0 then js ''-'' else dec_int n | v \<Rightarrow> js_string_opt v))),
     column_of ''STATUS'' (colored tty), column_of ''DEFAULT'' (\<lambda>p. status_text (json_get p (js ''isDefault'')) ''*'' '' '')]"

definition sims_list :: "bool \<Rightarrow> jstr + jstr \<Rightarrow> bool \<Rightarrow> bool \<Rightarrow> act" where
  "sims_list tty base all as_json = radio ''sims'' base GET (if all then js ''?all=true'' else []) None
     (\<lambda>profiles. shows_list tty as_json ''subId'' (sim_columns tty) profiles Finished)"

definition sims_install :: "bool \<Rightarrow> jstr + jstr \<Rightarrow> jstr \<Rightarrow> bool \<Rightarrow> act" where
  "sims_install tty base code as_json = radio ''sims'' base POST (js ''/install'') (Some (JObj [(js ''activationCode'', JStr code)])) (display tty as_json)"

text \<open>\<open>sims delete\<close>, \<open>switch\<close>, \<open>enable\<close> and \<open>disable\<close>; a subscription that isn't a number becomes \<open>null\<close>.\<close>

definition sub_id :: "jstr \<Rightarrow> jstr \<times> json" where
  "sub_id s = (js ''subId'', json_int (parse_int True s))"

definition sims_post :: "string \<Rightarrow> (jstr \<times> json) list \<Rightarrow> bool \<Rightarrow> jstr + jstr \<Rightarrow> jstr \<Rightarrow> bool \<Rightarrow> act" where
  "sims_post op rest tty base s as_json = radio ''sims'' base POST (js ''/'' @ js op) (Some (JObj (sub_id s # rest))) (display tty as_json)"

definition sims_delete :: "bool \<Rightarrow> jstr + jstr \<Rightarrow> jstr \<Rightarrow> bool \<Rightarrow> act" where
  "sims_delete = sims_post ''delete'' []"

definition sims_switch :: "bool \<Rightarrow> jstr + jstr \<Rightarrow> jstr \<Rightarrow> bool \<Rightarrow> act" where
  "sims_switch = sims_post ''switch'' []"

definition sims_enable :: "bool \<Rightarrow> bool \<Rightarrow> jstr + jstr \<Rightarrow> jstr \<Rightarrow> bool \<Rightarrow> act" where
  "sims_enable on = sims_post ''enable'' [(js ''enabled'', JBool on)]"

text \<open>\<open>sims defaults set k=v ...\<close>: integers and booleans are sent as such. Integers beyond \<open>2 ^ 53\<close> lose digits in JavaScript; here they don't.\<close>

definition whole_number :: "jstr \<Rightarrow> bool" where
  "whole_number s = (let ds = (case s of c # cs \<Rightarrow> if c = 45 then cs else s | [] \<Rightarrow> []) in ds \<noteq> [] \<and> list_all is_digit ds)"

definition default_value :: "jstr \<Rightarrow> json" where
  "default_value raw = (if whole_number raw then json_int (parse_int False raw)
     else if raw = js ''true'' then JBool True else if raw = js ''false'' then JBool False else JStr raw)"

definition default_pair :: "jstr \<Rightarrow> jstr \<times> json" where
  "default_pair pair = (case split_on 61 pair of [] \<Rightarrow> ([], JStr []) | k # v \<Rightarrow> (k, default_value (join (js ''='') v)))"

definition default_table :: "jstr list \<Rightarrow> (jstr \<times> json) list" where
  "default_table kv = fold (\<lambda>p. case default_pair p of (k, v) \<Rightarrow> jm_set k v) kv []"

definition sims_defaults :: "bool \<Rightarrow> jstr + jstr \<Rightarrow> jstr \<Rightarrow> jstr list \<Rightarrow> bool \<Rightarrow> act" where
  "sims_defaults tty base action kv as_json =
     (if action = js ''get'' then radio ''sims'' base GET (js ''/defaults'') None (display tty as_json)
      else if action = js ''set'' \<and> kv \<noteq> []
        then radio ''sims'' base PUT (js ''/defaults'') (Some (JObj (default_table kv))) (display tty as_json)
      else Notes (js ''Usage: otacon sims defaults [get|set <k=v>]'') (Quits 1))"

section \<open>Wi-Fi\<close>

text \<open>The host sends an object.\<close>

definition printWifiStatus :: "bool \<Rightarrow> bool \<Rightarrow> json \<Rightarrow> act" where
  "printWifiStatus tty as_json st = (if st = JNull then Dies (null_read (js ''connected''))
     else shows_record tty as_json
       [(js ''desired'', status_text (json_get st (js ''desired_enabled'')) ''on'' ''off''), (js ''observed'', wifi_text st),
        (js ''enabled'', json_get st (js ''enabled'')), (js ''connected'', json_get st (js ''connected'')),
        (js ''ssid'', json_get st (js ''ssid'')), (js ''rssi'', json_get st (js ''rssi''))] Finished)"

definition wifi_status :: "bool \<Rightarrow> jstr + jstr \<Rightarrow> bool \<Rightarrow> act" where
  "wifi_status tty base as_json = radio ''wifi'' base GET [] None (printWifiStatus tty as_json)"

text \<open>\<open>wifi on\<close> and \<open>wifi off\<close>\<close>

definition setWifiEnabled :: "bool \<Rightarrow> bool \<Rightarrow> jstr + jstr \<Rightarrow> bool \<Rightarrow> act" where
  "setWifiEnabled on tty base as_json = radio ''wifi'' base PUT [] (Some (JObj [(js ''enabled'', JBool on)])) (printWifiStatus tty as_json)"

section \<open>APN types\<close>

definition apn_type :: "jstr \<Rightarrow> bool" where
  "apn_type p = (p \<noteq> [] \<and> list_all (\<lambda>c. \<not> type_sep c) p)"

lemma type_parts_types: "list_all apn_type (type_parts s)"
  by (induction s rule: type_parts.induct) (auto simp: apn_type_def split: list.splits)

lemma type_parts_word: "apn_type p \<Longrightarrow> type_parts (p @ 44 # s) = p # type_parts s" "apn_type p \<Longrightarrow> type_parts p = [p]"
proof (induction p)
  case (Cons c p)
  {
    case 1
    then show ?case using Cons by (cases p) (auto simp: apn_type_def type_sep_def)
  next
    case 2
    then show ?case using Cons by (cases p) (auto simp: apn_type_def)
  }
qed (simp_all add: apn_type_def)

lemma type_parts_join: "list_all apn_type ps \<Longrightarrow> type_parts (join (js '','') ps) = ps"
proof (induction "js '',''" ps rule: join.induct)
  case (3 p q ps)
  have "js '','' = [44]" by (simp add: js_def)
  then show ?case using 3 by (simp add: type_parts_word)
qed (simp_all add: type_parts_word)

lemma mms_is_a_type: "apn_type (js ''mms'')" "to_lower (js ''mms'') = js ''mms''"
  by (simp_all add: apn_type_def js_def type_sep_def js_space_def to_lower_def is_upper_def)

text \<open>With an MMS option, MMS is among the types sent, after the types asked for, and once.\<close>

lemma mms_type_is_sent:
  assumes "ao_mmsc o1 \<noteq> None \<or> ao_mmsProxy o1 \<noteq> None \<or> ao_mmsPort o1 \<noteq> None"
  shows "type_parts (withMmsTypeIfNeeded types o1)
    = type_parts types @ (if list_ex (\<lambda>p. to_lower p = js ''mms'') (type_parts types) then [] else [js ''mms''])"
  using assms type_parts_types [of types]
  by (auto simp: withMmsTypeIfNeeded_def type_parts_join mms_is_a_type)

lemma mms_type_idempotent: "withMmsTypeIfNeeded (withMmsTypeIfNeeded types o1) o1 = withMmsTypeIfNeeded types o1"
  using type_parts_types [of types]
  by (auto simp: withMmsTypeIfNeeded_def type_parts_join mms_is_a_type Let_def)

section \<open>Defaults\<close>

lemma split_on_key: "x \<notin> set k \<Longrightarrow> split_on x (k @ x # v) = k # split_on x v"
  by (induction k) simp_all

lemma default_pair_read: "61 \<notin> set k \<Longrightarrow> default_pair (k @ js ''='' @ v) = (k, default_value v)"
proof -
  assume "61 \<notin> set k"
  moreover have "js ''='' = [61]" by (simp add: js_def)
  ultimately show ?thesis by (simp add: default_pair_def split_on_key join_split_on [OF refl, symmetric])
qed

end
