(* ===== verification/Binary.thy ===== *)
theory Binary
  imports Radio
begin

text \<open>
  The CLI's program (\<open>cli/src/index.ts\<close>): what each of its commands on a phone does with the arguments and options that commander has
  parsed, and the commands of the other files by name. \<open>base\<close> is the base URL of the phone, or what finding it threw;
  \<open>host\<close> reads a file of the machine. What is written to standard error is a text without its line end.
\<close>

section \<open>Forwarding to the shared commands\<close>

text \<open>What a command's plan does on a phone.\<close>

definition phone_fetch :: "jstr \<Rightarrow> phone_request \<Rightarrow> (fetched \<Rightarrow> act) \<Rightarrow> act" where
  "phone_fetch url r k = Fetches \<lparr>cq_verb = hq_verb r, cq_url = url @ hq_url r, cq_bearer = None, cq_body = hq_body r\<rparr> k"

definition say_out :: "jstr \<Rightarrow> act" where
  "say_out out = (if out = [] then Finished else Prints out Finished)"

definition plan_act :: "jstr \<Rightarrow> plan \<Rightarrow> act" where
  "plan_act url p = (case p of Throws m \<Rightarrow> Dies m
     | Asks r g \<Rightarrow> phone_fetch url r (\<lambda>f. case g f of Inl m \<Rightarrow> Dies m | Inr (Says t) \<Rightarrow> say_out t
         | Inr (Saves path bytes t) \<Rightarrow> Writes_file path bytes (say_out t)))"

type_synonym file_reader = "jstr \<Rightarrow> jstr + nat list"

definition runRegistry :: "file_reader \<Rightarrow> jstr + jstr \<Rightarrow> string \<Rightarrow> jstr list \<Rightarrow> act" where
  "runRegistry host base verb args = (case jm_get (command_table host) (js verb) of
      None \<Rightarrow> Dies (js ''unknown otacon verb: '' @ js verb)
    | Some run \<Rightarrow> or_die base (\<lambda>url. plan_act url (run args)))"

datatype phone_command =
    P_tap "jstr list" | P_long_tap "jstr list" | P_swipe jstr jstr jstr jstr jstr jstr | P_key jstr | P_type jstr | P_set_text jstr jstr
  | P_pinch jstr jstr jstr jstr jstr | P_scroll jstr bool | P_screenshot "jstr option" | P_snapshot bool
  | P_sms_list bool | P_sms_read jstr bool | P_sms_send jstr jstr
  | P_call_status bool | P_call_dial jstr | P_call_answer "jstr option" | P_call_reject "jstr option" | P_call_hangup "jstr option"
  | P_call_hold | P_call_resume | P_call_swap | P_call_merge | P_call_dtmf jstr
  | P_notifications_list bool | P_notifications_dismiss jstr | P_notifications_action jstr jstr
  | P_clipboard_get | P_clipboard_set jstr
  | P_apps_list bool | P_apps_running bool | P_apps_launch jstr | P_apps_stop jstr | P_apps_install jstr
  | P_contacts_search jstr bool | P_info bool bool | P_open jstr
  | P_record jstr "jstr option" | P_record_start jstr | P_record_stop "jstr option" | P_record_status bool | P_events

definition call_option :: "jstr option \<Rightarrow> jstr list" where
  "call_option c = (if or_empty c \<noteq> [] then [js ''--call'', or_empty c] else [])"

definition path_or :: "jstr option \<Rightarrow> string \<Rightarrow> jstr" where
  "path_or p d = (if or_empty p \<noteq> [] then or_empty p else js d)"

text \<open>The commands that forward to the shared ones: the verb and its arguments.\<close>

fun forwarded_screen :: "phone_command \<Rightarrow> (string \<times> jstr list) option" where
  "forwarded_screen (P_tap target) = Some (''tap'', target)"
| "forwarded_screen (P_long_tap target) = Some (''long-tap'', target)"
| "forwarded_screen (P_swipe x1 y1 x2 y2 dur pause) = Some (''swipe'', [x1, y1, x2, y2] @ (if dur \<noteq> [] then [js ''--duration'', dur] else [])
     @ (if pause \<noteq> [] \<and> pause \<noteq> js ''0'' then [js ''--pause'', pause] else []))"
| "forwarded_screen (P_key name) = Some (''key'', [name])"
| "forwarded_screen (P_type text) = Some (''type'', [text])"
| "forwarded_screen (P_set_text ref text) = Some (''set-text'', [ref, text])"
| "forwarded_screen (P_scroll ref up) = Some (''scroll'', [ref] @ (if up then [js ''--direction'', js ''up''] else []))"
| "forwarded_screen (P_screenshot out) = Some (''screenshot'', [js ''-o'', path_or out ''screenshot.png''])"
| "forwarded_screen (P_snapshot as_json) = Some (''snapshot'', if as_json then [js ''--json''] else [])"
| "forwarded_screen _ = None"

fun forwarded_call :: "phone_command \<Rightarrow> (string \<times> jstr list) option" where
  "forwarded_call (P_sms_send to body) = Some (''sms'', [js ''send'', to, body])"
| "forwarded_call (P_call_dial number) = Some (''call'', [js ''dial'', number])"
| "forwarded_call (P_call_answer c) = Some (''call'', js ''answer'' # call_option c)"
| "forwarded_call (P_call_reject c) = Some (''call'', js ''reject'' # call_option c)"
| "forwarded_call (P_call_hangup c) = Some (''call'', js ''hangup'' # call_option c)"
| "forwarded_call P_call_hold = Some (''call'', [js ''hold''])"
| "forwarded_call P_call_resume = Some (''call'', [js ''resume''])"
| "forwarded_call P_call_swap = Some (''call'', [js ''swap''])"
| "forwarded_call P_call_merge = Some (''call'', [js ''merge''])"
| "forwarded_call (P_call_dtmf digits) = Some (''call'', [js ''dtmf'', digits])"
| "forwarded_call _ = None"

fun forwarded_notifications :: "phone_command \<Rightarrow> (string \<times> jstr list) option" where
  "forwarded_notifications (P_notifications_dismiss key) = Some (''notifications'', [js ''dismiss'', key])"
| "forwarded_notifications (P_notifications_action key i) = Some (''notifications'', [js ''action'', key, i])"
| "forwarded_notifications P_clipboard_get = Some (''clipboard'', [js ''get''])"
| "forwarded_notifications (P_clipboard_set text) = Some (''clipboard'', [js ''set'', text])"
| "forwarded_notifications _ = None"

fun forwarded_apps :: "phone_command \<Rightarrow> (string \<times> jstr list) option" where
  "forwarded_apps (P_apps_launch p) = Some (''apps'', [js ''launch'', p])"
| "forwarded_apps (P_apps_stop p) = Some (''apps'', [js ''stop'', p])"
| "forwarded_apps (P_apps_install apk) = Some (''apps'', [js ''install'', apk])"
| "forwarded_apps _ = None"

fun forwarded_open :: "phone_command \<Rightarrow> (string \<times> jstr list) option" where
  "forwarded_open (P_open uri) = Some (''open'', [uri])"
| "forwarded_open _ = None"

fun forwarded_record :: "phone_command \<Rightarrow> (string \<times> jstr list) option" where
  "forwarded_record (P_record_start dur) = Some (''record'', [js ''start'', js ''-d'', dur])"
| "forwarded_record (P_record_stop out) = Some (''record'', [js ''stop'', js ''-o'', path_or out ''recording.mp4''])"
| "forwarded_record _ = None"

definition first_of :: "'a option list \<Rightarrow> 'a option" where
  "first_of xs = (case dropWhile (\<lambda>x. x = None) xs of [] \<Rightarrow> None | x # _ \<Rightarrow> x)"

definition forwarded :: "phone_command \<Rightarrow> (string \<times> jstr list) option" where
  "forwarded c = first_of [forwarded_screen c, forwarded_call c, forwarded_notifications c, forwarded_apps c, forwarded_open c, forwarded_record c]"

lemma forwarded_simps [simp]:
  "forwarded (P_tap target) = forwarded_screen (P_tap target)" "forwarded (P_long_tap target) = forwarded_screen (P_long_tap target)"
  "forwarded (P_swipe x1 y1 x2 y2 dur pause) = forwarded_screen (P_swipe x1 y1 x2 y2 dur pause)" "forwarded (P_key name) = forwarded_screen (P_key name)"
  "forwarded (P_type text) = forwarded_screen (P_type text)" "forwarded (P_set_text ref text) = forwarded_screen (P_set_text ref text)"
  "forwarded (P_scroll ref up) = forwarded_screen (P_scroll ref up)" "forwarded (P_screenshot out) = forwarded_screen (P_screenshot out)"
  "forwarded (P_snapshot as_json) = forwarded_screen (P_snapshot as_json)" "forwarded (P_sms_send to body) = forwarded_call (P_sms_send to body)"
  "forwarded (P_call_dial number) = forwarded_call (P_call_dial number)" "forwarded (P_call_answer c) = forwarded_call (P_call_answer c)"
  "forwarded (P_call_reject c) = forwarded_call (P_call_reject c)" "forwarded (P_call_hangup c) = forwarded_call (P_call_hangup c)"
  "forwarded P_call_hold = forwarded_call P_call_hold" "forwarded P_call_resume = forwarded_call P_call_resume"
  "forwarded P_call_swap = forwarded_call P_call_swap" "forwarded P_call_merge = forwarded_call P_call_merge"
  "forwarded (P_call_dtmf digits) = forwarded_call (P_call_dtmf digits)" "forwarded (P_notifications_dismiss key) = forwarded_notifications (P_notifications_dismiss key)"
  "forwarded (P_notifications_action key i) = forwarded_notifications (P_notifications_action key i)" "forwarded P_clipboard_get = forwarded_notifications P_clipboard_get"
  "forwarded (P_clipboard_set text) = forwarded_notifications (P_clipboard_set text)" "forwarded (P_apps_launch p) = forwarded_apps (P_apps_launch p)"
  "forwarded (P_apps_stop p) = forwarded_apps (P_apps_stop p)" "forwarded (P_apps_install apk) = forwarded_apps (P_apps_install apk)"
  "forwarded (P_open uri) = forwarded_open (P_open uri)" "forwarded (P_record_start dur) = forwarded_record (P_record_start dur)"
  "forwarded (P_record_stop out) = forwarded_record (P_record_stop out)" "forwarded (P_pinch x y a b d) = None"
  "forwarded (P_sms_list j) = None" "forwarded (P_sms_read i j) = None"
  "forwarded (P_call_status j) = None" "forwarded (P_notifications_list j) = None"
  "forwarded (P_apps_list j) = None" "forwarded (P_apps_running j) = None"
  "forwarded (P_contacts_search q j) = None" "forwarded (P_info m j) = None"
  "forwarded (P_record i out) = None" "forwarded (P_record_status j) = None"
  "forwarded P_events = None"
  by (simp_all add: forwarded_def first_of_def)

section \<open>Commands of their own\<close>

definition reads_phone :: "jstr + jstr \<Rightarrow> (fetched \<Rightarrow> jstr + 'a) \<Rightarrow> phone_request \<Rightarrow> ('a \<Rightarrow> act) \<Rightarrow> act" where
  "reads_phone base rd r k = or_die base (\<lambda>url. phone_fetch url r (\<lambda>f. or_die (rd f) k))"

definition lists_phone :: "bool \<Rightarrow> jstr + jstr \<Rightarrow> string \<Rightarrow> string \<Rightarrow> column list \<Rightarrow> bool \<Rightarrow> act" where
  "lists_phone tty base path key columns as_json = reads_phone base (want ha_json) (get_request (js path))
     (\<lambda>items. shows_list tty as_json key columns items Finished)"

definition pinch :: "jstr + jstr \<Rightarrow> jstr \<Rightarrow> jstr \<Rightarrow> jstr \<Rightarrow> jstr \<Rightarrow> jstr \<Rightarrow> act" where
  "pinch base x y sr er dur = reads_phone base (\<lambda>f. case want_done f of Some m \<Rightarrow> Inl m | None \<Rightarrow> Inr ())
     (action_request [(js ''action'', JStr (js ''pinch'')), (js ''x'', json_int (parse_int True x)), (js ''y'', json_int (parse_int True y)),
        (js ''start_radius'', json_int (parse_int True sr)), (js ''end_radius'', json_int (parse_int True er)),
        (js ''duration_ms'', json_int (parse_int True dur))]) (\<lambda>_. Finished)"

definition sms_columns :: "column list" where
  "sms_columns = [column_of ''THREAD'' (get_field ''thread_id''), column_of ''ADDRESS'' (get_field ''address''), column_of ''DATE'' (get_field ''date''),
     at_most 64 (column_of ''SNIPPET'' (get_field ''snippet''))]"

definition message_columns :: "column list" where
  "message_columns = [column_of ''ID'' (get_field ''id''), column_of ''DATE'' (get_field ''date''), column_of ''TYPE'' (get_field ''type''),
     column_of ''ADDRESS'' (get_field ''address''), at_most 80 (column_of ''BODY'' (get_field ''body''))]"

definition sms_read :: "bool \<Rightarrow> jstr + jstr \<Rightarrow> jstr \<Rightarrow> bool \<Rightarrow> act" where
  "sms_read tty base threadId as_json = reads_phone base (want ha_json)
     (get_request (js ''/api/sms/threads/'' @ int_text (parse_int True threadId) @ js ''/messages''))
     (\<lambda>items. shows_list tty as_json ''id'' message_columns items Finished)"

definition call_columns :: "column list" where
  "call_columns = [column_of ''ID'' (get_field ''id''), column_of ''NUMBER'' (get_field ''number''), column_of ''DIRECTION'' (get_field ''direction''),
     column_of ''STATE'' (get_field ''state''), column_of ''CONFERENCE'' (\<lambda>c. status_text (json_get c (js ''conference'')) ''yes'' ''no'')]"

definition hfp_note :: jstr where
  "hfp_note = js ''note: HFP (the phone'' @ [39] @ js ''s Bluetooth control link) is disconnected; these are the last ''
     @ js ''known calls from the kiosk. dial/answer/hangup fall back to ADB, other call commands '' @ js ''fail with hfp_unavailable.''"

text \<open>The host sends an object with a list \<open>calls\<close> and an object \<open>hfp\<close>.\<close>

definition call_status :: "bool \<Rightarrow> jstr + jstr \<Rightarrow> bool \<Rightarrow> act" where
  "call_status tty base as_json = reads_phone base callStatus (get_request (js ''/api/calls/status'')) (\<lambda>st.
     if as_json then Prints (json_pretty 0 st) Finished
     else or_die (case json_get st (js ''calls'') of Some (JArr cs) \<Rightarrow> Inr cs | _ \<Rightarrow> Inl (null_read (js ''length''))) (\<lambda>cs.
       let note = (if truthy (get_opt (json_get st (js ''hfp'')) ''connected'') then Finished else Notes hfp_note Finished) in
       if cs = [] then Prints (js ''(no calls)'') note else shows_list tty False ''id'' call_columns (JArr cs) note))"

definition action_text :: "json \<Rightarrow> jstr" where
  "action_text a = js ''['' @ js_string_opt (json_get a (js ''index'')) @ js ''] '' @ js_string_opt (json_get a (js ''title''))"

definition notification_columns :: "column list" where
  "notification_columns = [column_of ''PACKAGE'' (get_field ''package''), at_most 32 (column_of ''TITLE'' (get_field ''title'')),
     at_most 56 (column_of ''TEXT'' (get_field ''text'')),
     at_most 56 (column_of ''ACTIONS'' (\<lambda>n. Some (JStr (case json_get n (js ''actions'') of Some (JArr as) \<Rightarrow> join (js '' '') (map action_text as) | _ \<Rightarrow> [])))),
     at_most 36 (column_of ''KEY'' (get_field ''key''))]"

definition app_columns :: "column list" where
  "app_columns = [column_of ''PACKAGE'' (get_field ''package''), column_of ''VERSION'' (get_field ''version_code''), column_of ''LABEL'' (get_field ''label'')]"

text \<open>The host sends an object with a list \<open>apps\<close>.\<close>

definition apps_running :: "bool \<Rightarrow> jstr + jstr \<Rightarrow> bool \<Rightarrow> act" where
  "apps_running tty base as_json = reads_phone base (want ha_json) (get_request (js ''/api/apps/running'')) (\<lambda>result.
     if as_json then Prints (json_pretty 0 result) Finished
     else or_die (case json_get result (js ''apps'') of Some (JArr as) \<Rightarrow> Inr as | _ \<Rightarrow> Inl (null_read (js ''length''))) (\<lambda>apps.
       if apps = [] \<and> json_get result (js ''screen_state'') \<noteq> Some (JStr (js ''unlocked''))
       then Notes (js ''(no running apps '' @ [8212] @ js '' phone is '' @ js_string_opt (json_get result (js ''screen_state'')) @ js ''. Wake with: otacon key wake)'') Finished
       else shows_list tty False ''package'' [column_of ''PACKAGE'' (get_field ''package''), column_of ''LABEL'' (get_field ''label'')] (JArr apps) Finished))"

definition contact_columns :: "column list" where
  "contact_columns = [column_of ''NAME'' (get_field ''name''),
     at_most 80 (column_of ''PHONES'' (\<lambda>c. Some (JStr (case json_get c (js ''phones'') of
        Some (JArr ps) \<Rightarrow> join (js '', '') (map (\<lambda>p. if p = JNull then [] else js_string p) ps) | _ \<Rightarrow> []))))]"

definition contacts_search :: "bool \<Rightarrow> jstr + jstr \<Rightarrow> jstr \<Rightarrow> bool \<Rightarrow> act" where
  "contacts_search tty base q as_json = or_die base (\<lambda>url.
     or_die (if q = [] then Inr [] else (case encodeURIComponent q of None \<Rightarrow> Inl (js ''URI malformed'') | Some e \<Rightarrow> Inr (js ''?q='' @ e))) (\<lambda>params.
       phone_fetch url (get_request (js ''/api/contacts'' @ params)) (\<lambda>f. or_die (want ha_json f) (\<lambda>items.
         shows_list tty as_json ''name'' contact_columns items Finished))))"

text \<open>The host sends an object.\<close>

definition info :: "jstr + jstr \<Rightarrow> bool \<Rightarrow> bool \<Rightarrow> act" where
  "info base monitor as_json = reads_phone base (want ha_json) (get_request (js ''/api/info'')) (\<lambda>d. case d of
      JObj kvs \<Rightarrow> (let shown = JObj (if monitor then kvs else jm_delete (js ''monitor'') kvs) in
        if as_json then Prints (json_pretty 0 shown) Finished else prints (printDeviceInfo shown) Finished)
    | _ \<Rightarrow> Dies (js ''info is no object''))"

definition record_status_fields :: "json \<Rightarrow> fields" where
  "record_status_fields st = (let elapsed = json_get st (js ''elapsed''); longest = json_get st (js ''max_duration'') in
     [(js ''recording'', status_text (json_get st (js ''recording'')) ''yes'' ''no''), (js ''elapsed'', Some (JStr (seconds elapsed))),
      (js ''max_duration'', Some (JStr (seconds longest))),
      (js ''remaining'', Some (JStr (case (elapsed, longest) of (Some (JNum e), Some (JNum m)) \<Rightarrow> seconds (Some (JNum (max (m - e) 0))) | _ \<Rightarrow> js ''-'')))])"

definition record_status :: "bool \<Rightarrow> jstr + jstr \<Rightarrow> bool \<Rightarrow> act" where
  "record_status tty base as_json = reads_phone base (want ha_json) (get_request (js ''/api/record/status'')) (\<lambda>st.
     if as_json then Prints (json_pretty 0 st) Finished
     else if st = JNull then Dies (null_read (js ''recording'')) else shows_record tty False (record_status_fields st) Finished)"

text \<open>
  \<open>otacon record\<close>: it asks for the state once a second until the time is over or the recording is, and then saves it. Ctrl-C in the
  wait of second \<open>n\<close> (\<open>interrupt = Some n\<close>) saves it at once. \<open>i\<close> is the second that begins, \<open>left\<close> how many are left.
\<close>

definition stop_request :: phone_request where
  "stop_request = \<lparr>hq_verb = POST, hq_url = js ''/api/record/stop'', hq_body = No_body\<rparr>"

definition save_recording :: "jstr \<Rightarrow> jstr \<Rightarrow> (jstr \<Rightarrow> act) \<Rightarrow> act \<Rightarrow> act" where
  "save_recording url out fails next_act = phone_fetch url stop_request (\<lambda>f. case want_checked (\<lambda>a. Inr (ha_bytes a)) f of
      Inl m \<Rightarrow> fails m
    | Inr mp4 \<Rightarrow> Writes_file out mp4 (Notes (js ''Saved to '' @ out) next_act))"

definition record_end :: "jstr \<Rightarrow> jstr \<Rightarrow> act" where
  "record_end url out = Notes ([10] @ js ''Auto-stopped. Saving...'' @ [10]) (save_recording url out Dies Finished)"

definition record_interrupted :: "jstr \<Rightarrow> jstr \<Rightarrow> act" where
  "record_interrupted url out = Notes ([10] @ js ''Stopping...'' @ [10])
     (save_recording url out (\<lambda>m. Notes (js ''Failed to save: '' @ m) (Quits 0)) (Quits 0))"

primrec record_wait :: "jstr \<Rightarrow> jstr \<Rightarrow> nat option \<Rightarrow> int \<Rightarrow> nat \<Rightarrow> nat \<Rightarrow> act" where
  "record_wait url out interrupt longest 0 i = record_end url out"
| "record_wait url out interrupt longest (Suc left) i =
     (if interrupt = Some i then record_interrupted url out
      else phone_fetch url (get_request (js ''/api/record/status'')) (\<lambda>f. case want ha_json f of
          Inl m \<Rightarrow> record_end url out
        | Inr st \<Rightarrow> if \<not> truthy (json_get st (js ''recording'')) then record_end url out
            else Notes ([13] @ js ''Recording... '' @ js_string_opt (json_get st (js ''elapsed'')) @ js ''s / '' @ dec_int longest @ js ''s  [Ctrl+C to stop]'')
              (record_wait url out interrupt longest left (Suc i))))"

definition record_command :: "nat option \<Rightarrow> jstr + jstr \<Rightarrow> jstr \<Rightarrow> jstr option \<Rightarrow> act" where
  "record_command interrupt base dur out = or_die base (\<lambda>url. let longest = parse_int True dur; path = path_or out ''recording.mp4'' in
     phone_fetch url (json_request POST (js ''/api/record/start'') (JObj [(js ''max_duration'', json_int longest)])) (\<lambda>f. case want_done f of
        Some m \<Rightarrow> Dies m
      | None \<Rightarrow> (case longest of None \<Rightarrow> record_end url path | Some n \<Rightarrow> record_wait url path interrupt n (nat n) 1)))"

section \<open>The program\<close>

definition phone_act :: "file_reader \<Rightarrow> bool \<Rightarrow> nat option \<Rightarrow> jstr + jstr \<Rightarrow> phone_command \<Rightarrow> act" where
  "phone_act host tty interrupt base c = (case forwarded c of
      Some (verb, args) \<Rightarrow> runRegistry host base verb args
    | None \<Rightarrow> (case c of
        P_pinch x y sr er dur \<Rightarrow> pinch base x y sr er dur
      | P_sms_list j \<Rightarrow> lists_phone tty base ''/api/sms/threads'' ''thread_id'' sms_columns j
      | P_sms_read i j \<Rightarrow> sms_read tty base i j
      | P_call_status j \<Rightarrow> call_status tty base j
      | P_notifications_list j \<Rightarrow> lists_phone tty base ''/api/notifications'' ''package'' notification_columns j
      | P_apps_list j \<Rightarrow> lists_phone tty base ''/api/apps'' ''package'' app_columns j
      | P_apps_running j \<Rightarrow> apps_running tty base j
      | P_contacts_search q j \<Rightarrow> contacts_search tty base q j
      | P_info m j \<Rightarrow> info base m j
      | P_record dur out \<Rightarrow> record_command interrupt base dur out
      | P_record_status j \<Rightarrow> record_status tty base j
      | _ \<Rightarrow> Notes (js ''Events streaming not yet implemented in CLI'') (Quits 1)))"

end
