(* ===== verification/BinaryRun.thy ===== *)
theory BinaryRun
  imports Binary FleetRun
begin

text \<open>
  Properties of the CLI's program: every command that acts on a phone sends the one request that is meant, with the values of its
  arguments, and tells by its exit code whether the phone accepted it; the commands that only look change nothing.
\<close>

section \<open>Numbers as arguments\<close>

lemma parse_digits_dec: "parse_digits hex (dec_nat n) = Some (int n)"
proof -
  have d: "list_all is_digit (dec_nat n)" by (rule dec_nat_digits)
  then have "takeWhile is_digit (dec_nat n) = dec_nat n" by (simp add: list_all_iff)
  moreover have "\<not> starts_with (js ''0x'') (dec_nat n)" "\<not> starts_with (js ''0X'') (dec_nat n)"
    using d by (cases "dec_nat n" rule: list.exhaust; cases "tl (dec_nat n)"; auto simp: starts_with_def js_def is_digit_def)+
  ultimately show ?thesis unfolding parse_digits_def Let_def by (simp only: dec_nat_value) simp
qed

lemma parse_int_dec: "parse_int hex (dec_int n) = Some n"
proof (cases "n < 0")
  case True
  then have t: "trim_start (dec_int n) = 45 # dec_nat (nat (- n))" by (simp add: dec_int_def trim_start_def js_space_def)
  show ?thesis unfolding parse_int_def t using True by (simp add: parse_digits_dec)
next
  case False
  obtain c cs where c: "dec_nat (nat n) = c # cs" by (cases "dec_nat (nat n)") auto
  then have d: "is_digit c" using dec_nat_digits [of "nat n"] by simp
  then have "\<not> js_space c" "c \<noteq> 45" "c \<noteq> 43" by (auto simp: is_digit_def js_space_def)
  then have "trim_start (dec_int n) = c # cs" "c \<noteq> 45" "c \<noteq> 43" using False c by (simp_all add: dec_int_def trim_start_def)
  then show ?thesis using False parse_digits_dec [of hex "nat n"] c by (simp add: parse_int_def)
qed

lemma dec_int_not_Nil [simp]: "dec_int n \<noteq> []"
  by (simp add: dec_int_def)

section \<open>What is meant\<close>

datatype wish =
    W_tap int int | W_tap_ref jstr | W_long_tap int int | W_long_tap_ref jstr | W_swipe int int int int int int | W_pinch int int int int int
  | W_key jstr | W_type jstr | W_set_text jstr jstr | W_scroll jstr bool
  | W_sms jstr jstr | W_dial jstr | W_answer "jstr option" | W_reject "jstr option" | W_hangup "jstr option" | W_hold | W_resume | W_swap | W_merge | W_dtmf jstr
  | W_dismiss jstr | W_press jstr int | W_clipboard jstr | W_launch jstr | W_stop jstr | W_open jstr | W_record int

text \<open>The command for it, as commander parses it from the arguments.\<close>

fun wish_words :: "wish \<Rightarrow> phone_command" where
  "wish_words (W_tap x y) = P_tap [dec_int x, dec_int y]"
| "wish_words (W_tap_ref r) = P_tap [r]"
| "wish_words (W_long_tap x y) = P_long_tap [dec_int x, dec_int y]"
| "wish_words (W_long_tap_ref r) = P_long_tap [r]"
| "wish_words (W_swipe a b c d dur pause) = P_swipe (dec_int a) (dec_int b) (dec_int c) (dec_int d) (dec_int dur) (dec_int pause)"
| "wish_words (W_pinch x y a b dur) = P_pinch (dec_int x) (dec_int y) (dec_int a) (dec_int b) (dec_int dur)"
| "wish_words (W_key k) = P_key k"
| "wish_words (W_type t) = P_type t"
| "wish_words (W_set_text r t) = P_set_text r t"
| "wish_words (W_scroll r up) = P_scroll r up"
| "wish_words (W_sms to body) = P_sms_send to body"
| "wish_words (W_dial n) = P_call_dial n"
| "wish_words (W_answer c) = P_call_answer c"
| "wish_words (W_reject c) = P_call_reject c"
| "wish_words (W_hangup c) = P_call_hangup c"
| "wish_words W_hold = P_call_hold"
| "wish_words W_resume = P_call_resume"
| "wish_words W_swap = P_call_swap"
| "wish_words W_merge = P_call_merge"
| "wish_words (W_dtmf ds) = P_call_dtmf ds"
| "wish_words (W_dismiss k) = P_notifications_dismiss k"
| "wish_words (W_press k i) = P_notifications_action k (dec_int i)"
| "wish_words (W_clipboard t) = P_clipboard_set t"
| "wish_words (W_launch p) = P_apps_launch p"
| "wish_words (W_stop p) = P_apps_stop p"
| "wish_words (W_open u) = P_open u"
| "wish_words (W_record n) = P_record_start (dec_int n)"

text \<open>The request it stands for; \<open>None\<close>: its text can't be put into a URL.\<close>

definition for_call :: "jstr option \<Rightarrow> request_body" where
  "for_call c = (case c of None \<Rightarrow> No_body | Some i \<Rightarrow> Json_body (JObj [(js ''call'', JStr i)]))"

definition gesture :: "string \<Rightarrow> (string \<times> json) list \<Rightarrow> (request_verb \<times> jstr \<times> request_body) option" where
  "gesture a params = Some (POST, js ''/api/action'', Json_body (JObj ((js ''action'', JStr (js a)) # map (\<lambda>(k, v). (js k, v)) params)))"

definition about :: "request_verb \<Rightarrow> string \<Rightarrow> jstr \<Rightarrow> jstr \<Rightarrow> (request_verb \<times> jstr \<times> request_body) option" where
  "about v before_key k after_key = map_option (\<lambda>e. (v, js before_key @ e @ after_key, No_body)) (encodeURIComponent k)"

fun wish_request :: "wish \<Rightarrow> (request_verb \<times> jstr \<times> request_body) option" where
  "wish_request (W_tap x y) = gesture ''tap'' [(''x'', JNum x), (''y'', JNum y)]"
| "wish_request (W_tap_ref r) = gesture ''tap'' [(''ref'', JStr r)]"
| "wish_request (W_long_tap x y) = gesture ''long_tap'' [(''x'', JNum x), (''y'', JNum y)]"
| "wish_request (W_long_tap_ref r) = gesture ''long_tap'' [(''ref'', JStr r)]"
| "wish_request (W_swipe a b c d dur pause) = gesture ''swipe'' [(''x1'', JNum a), (''y1'', JNum b), (''x2'', JNum c), (''y2'', JNum d),
     (''duration_ms'', JNum dur), (''pause_ms'', JNum pause)]"
| "wish_request (W_pinch x y a b dur) = gesture ''pinch'' [(''x'', JNum x), (''y'', JNum y), (''start_radius'', JNum a), (''end_radius'', JNum b), (''duration_ms'', JNum dur)]"
| "wish_request (W_key k) = gesture ''key'' [(''key'', JStr k)]"
| "wish_request (W_type t) = gesture ''type'' [(''text'', JStr t)]"
| "wish_request (W_set_text r t) = gesture ''set_text'' [(''ref'', JStr r), (''text'', JStr t)]"
| "wish_request (W_scroll r up) = gesture (if up then ''scroll_backward'' else ''scroll_forward'') [(''ref'', JStr r)]"
| "wish_request (W_sms to body) = Some (POST, js ''/api/sms/messages'', Json_body (JObj [(js ''to'', JStr to), (js ''body'', JStr body)]))"
| "wish_request (W_dial n) = Some (POST, js ''/api/calls/dial'', Json_body (JObj [(js ''to'', JStr n)]))"
| "wish_request (W_answer c) = Some (POST, js ''/api/calls/answer'', for_call c)"
| "wish_request (W_reject c) = Some (POST, js ''/api/calls/reject'', for_call c)"
| "wish_request (W_hangup c) = Some (POST, js ''/api/calls/hangup'', for_call c)"
| "wish_request W_hold = Some (POST, js ''/api/calls/hold'', No_body)"
| "wish_request W_resume = Some (POST, js ''/api/calls/resume'', No_body)"
| "wish_request W_swap = Some (POST, js ''/api/calls/swap'', No_body)"
| "wish_request W_merge = Some (POST, js ''/api/calls/merge'', No_body)"
| "wish_request (W_dtmf ds) = Some (POST, js ''/api/calls/dtmf'', Json_body (JObj [(js ''digits'', JStr ds)]))"
| "wish_request (W_dismiss k) = about DELETE ''/api/notifications/'' k []"
| "wish_request (W_press k i) = about POST ''/api/notifications/'' k (js ''/action/'' @ dec_int i)"
| "wish_request (W_clipboard t) = Some (PUT, js ''/api/clipboard'', Json_body (JObj [(js ''text'', JStr t)]))"
| "wish_request (W_launch p) = Some (POST, js ''/api/apps/running'', Json_body (JObj [(js ''package'', JStr p)]))"
| "wish_request (W_stop p) = about DELETE ''/api/apps/running/'' p []"
| "wish_request (W_open u) = Some (POST, js ''/api/open'', Json_body (JObj [(js ''uri'', JStr u)]))"
| "wish_request (W_record n) = Some (POST, js ''/api/record/start'', Json_body (JObj [(js ''max_duration'', JNum n)]))"

text \<open>Arguments are there; a reference looks like one.\<close>

fun wish_ok :: "wish \<Rightarrow> bool" where
  "wish_ok (W_tap_ref r) = is_ref r"
| "wish_ok (W_long_tap_ref r) = is_ref r"
| "wish_ok (W_key k) = (k \<noteq> [])"
| "wish_ok (W_type t) = (t \<noteq> [])"
| "wish_ok (W_set_text r t) = (r \<noteq> [])"
| "wish_ok (W_scroll r up) = is_ref r"
| "wish_ok (W_sms to body) = (to \<noteq> [] \<and> body \<noteq> [])"
| "wish_ok (W_dial n) = (n \<noteq> [])"
| "wish_ok (W_answer c) = (c \<noteq> Some [])"
| "wish_ok (W_reject c) = (c \<noteq> Some [])"
| "wish_ok (W_hangup c) = (c \<noteq> Some [])"
| "wish_ok (W_dtmf ds) = (ds \<noteq> [])"
| "wish_ok (W_dismiss k) = (k \<noteq> [])"
| "wish_ok (W_press k i) = (k \<noteq> [])"
| "wish_ok (W_launch p) = (p \<noteq> [])"
| "wish_ok (W_stop p) = (p \<noteq> [])"
| "wish_ok (W_open u) = (u \<noteq> [])"
| "wish_ok _ = True"

section \<open>It arrives\<close>

lemma ref_start: "is_ref r \<Longrightarrow> \<exists>ds. r = 101 # ds"
  by (auto simp: is_ref_def split: list.splits)

lemma ref_no_option: "is_ref r \<Longrightarrow> r \<noteq> [] \<and> r \<noteq> js ''--direction'' \<and> r \<noteq> js ''--up''"
  by (auto simp: js_def dest: ref_start)

definition accepted :: "fetched \<Rightarrow> bool" where
  "accepted f = (case f of Answer a \<Rightarrow> ha_ok a | Unreachable m \<Rightarrow> False)"

text \<open>An answer makes the command say something exactly if it was accepted.\<close>

definition says_when :: "(fetched \<Rightarrow> jstr + said) \<Rightarrow> bool" where
  "says_when g = (\<forall>f. case g f of Inl m \<Rightarrow> \<not> accepted f | Inr (Says t) \<Rightarrow> accepted f | Inr (Saves p b t) \<Rightarrow> False)"

lemma says_when_done [simp]: "says_when (then_say want_done t)"
  by (auto simp: says_when_def then_say_def want_done_def throwOnError_def accepted_def split: fetched.splits)

lemma says_when_call [simp]: "says_when (say_of callCommand (\<lambda>r. Inr (Says (t r))))"
  by (auto simp: says_when_def say_of_def callCommand_def accepted_def split: fetched.splits)

definition plan_for :: "request_verb \<times> jstr \<times> request_body \<Rightarrow> plan \<Rightarrow> bool" where
  "plan_for q p = (case p of Throws m \<Rightarrow> False
     | Asks r g \<Rightarrow> hq_verb r = fst q \<and> hq_url r = fst (snd q) \<and> hq_body r = snd (snd q) \<and> says_when g)"

lemmas request_defs = action_request_def json_request_def call_op_request_def get_request_def gesture_def about_def for_call_def

lemma taps_planned:
  "wish_request (W_tap x y) = Some q \<Longrightarrow> plan_for q (run_press spec_tap (js ''tap'') (js ''tapped'') [dec_int x, dec_int y])"
  "is_ref r \<Longrightarrow> wish_request (W_tap_ref r) = Some q \<Longrightarrow> plan_for q (run_press spec_tap (js ''tap'') (js ''tapped'') [r])"
  "wish_request (W_long_tap x y) = Some q \<Longrightarrow> plan_for q (run_press spec_long_tap (js ''long_tap'') (js ''long-tapped'') [dec_int x, dec_int y])"
  "is_ref r \<Longrightarrow> wish_request (W_long_tap_ref r) = Some q \<Longrightarrow> plan_for q (run_press spec_long_tap (js ''long_tap'') (js ''long-tapped'') [r])"
  by (auto simp: run_press_def plan_for_def request_defs arg_int_def arg_at_def parse_int_dec)

lemma swipe_planned:
  assumes "wish_request (W_swipe a b c d dur pause) = Some q"
  shows "plan_for q
     (run_swipe ([dec_int a, dec_int b, dec_int c, dec_int d] @ [js ''--duration'', dec_int dur] @ (if dec_int pause \<noteq> js ''0'' then [js ''--pause'', dec_int pause] else [])))"
proof -
  have "parse_int True (js ''0'') = Some 0" using parse_int_dec [of True 0] by (simp add: dec_int_def dec_nat.simps js_def)
  then have "dec_int pause = js ''0'' \<Longrightarrow> pause = 0" using parse_int_dec [of True pause] by simp
  then show ?thesis
    using assms by (auto simp: run_swipe_def plan_for_def request_defs arg_int_def arg_at_def parse_int_dec json_int_def numeral_2_eq_2 numeral_3_eq_3)
qed

lemma texts_planned:
  "k \<noteq> [] \<Longrightarrow> wish_request (W_key k) = Some q \<Longrightarrow> plan_for q (run_key [k])"
  "t \<noteq> [] \<Longrightarrow> wish_request (W_type t) = Some q \<Longrightarrow> plan_for q (run_type [t])"
  "r \<noteq> [] \<Longrightarrow> wish_request (W_set_text r u) = Some q \<Longrightarrow> plan_for q (run_set_text [r, u])"
  "k \<noteq> [] \<Longrightarrow> wish_request (W_open k) = Some q \<Longrightarrow> plan_for q (run_open [k])"
  "wish_request (W_clipboard u) = Some q \<Longrightarrow> plan_for q (run_clipboard [js ''set'', u])"
  "wish_request (W_record n) = Some q \<Longrightarrow> plan_for q (run_record [js ''start'', js ''-d'', dec_int n])"
  by (auto simp: run_key_def run_type_def run_set_text_def run_open_def run_clipboard_def run_record_def plan_for_def request_defs given_def arg_at_def
      join_args_def sub_or_def parse_int_dec json_int_def)

lemma scroll_planned:
  "is_ref r \<Longrightarrow> wish_request (W_scroll r up) = Some q \<Longrightarrow> plan_for q (run_scroll ([r] @ (if up then [js ''--direction'', js ''up''] else [])))"
  by (auto simp: run_scroll_def plan_for_def request_defs dest: ref_no_option)

lemma calls_planned:
  "n \<noteq> [] \<Longrightarrow> wish_request (W_dial n) = Some q \<Longrightarrow> plan_for q (run_call [js ''dial'', n])"
  "c \<noteq> Some [] \<Longrightarrow> wish_request (W_answer c) = Some q \<Longrightarrow> plan_for q (run_call (js ''answer'' # call_option c))"
  "c \<noteq> Some [] \<Longrightarrow> wish_request (W_reject c) = Some q \<Longrightarrow> plan_for q (run_call (js ''reject'' # call_option c))"
  "c \<noteq> Some [] \<Longrightarrow> wish_request (W_hangup c) = Some q \<Longrightarrow> plan_for q (run_call (js ''hangup'' # call_option c))"
  "wish_request W_hold = Some q \<Longrightarrow> plan_for q (run_call [js ''hold''])" "wish_request W_resume = Some q \<Longrightarrow> plan_for q (run_call [js ''resume''])"
  "wish_request W_swap = Some q \<Longrightarrow> plan_for q (run_call [js ''swap''])" "wish_request W_merge = Some q \<Longrightarrow> plan_for q (run_call [js ''merge''])"
  "n \<noteq> [] \<Longrightarrow> wish_request (W_dtmf n) = Some q \<Longrightarrow> plan_for q (run_call [js ''dtmf'', n])"
  by (auto simp: run_call_def one_call_def all_calls_def plan_for_def request_defs given_def arg_at_def call_option_def or_empty_def js_def split: option.splits)

lemma others_planned:
  "to \<noteq> [] \<Longrightarrow> u \<noteq> [] \<Longrightarrow> wish_request (W_sms to u) = Some q \<Longrightarrow> plan_for q (run_sms [js ''send'', to, u])"
  "k \<noteq> [] \<Longrightarrow> wish_request (W_dismiss k) = Some q \<Longrightarrow> plan_for q (run_notifications [js ''dismiss'', k])"
  "k \<noteq> [] \<Longrightarrow> wish_request (W_press k i) = Some q \<Longrightarrow> plan_for q (run_notifications [js ''action'', k, dec_int i])"
  "k \<noteq> [] \<Longrightarrow> wish_request (W_launch k) = Some q \<Longrightarrow> plan_for q (run_apps host [js ''launch'', k])"
  "k \<noteq> [] \<Longrightarrow> wish_request (W_stop k) = Some q \<Longrightarrow> plan_for q (run_apps host [js ''stop'', k])"
  by (auto simp: run_sms_def run_notifications_def run_apps_def plan_for_def request_defs given_def arg_at_def arg_int_def parse_int_dec
      sub_or_def join_args_def numeral_2_eq_2)

definition wish_asked :: "jstr \<Rightarrow> request_verb \<times> jstr \<times> request_body \<Rightarrow> cli_request" where
  "wish_asked url q = \<lparr>cq_verb = fst q, cq_url = url @ fst (snd q), cq_bearer = None, cq_body = snd (snd q)\<rparr>"

lemma plan_arrives:
  assumes "plan_for q p"
  shows "asked (play w late (plan_act url p) h) = [wish_asked url q]
    \<and> last (play w late (plan_act url p) h) = Exited (if accepted (w (h @ [wish_asked url q])) then 0 else 1)"
proof (cases p)
  case (Asks r g)
  then have r: "\<lparr>cq_verb = hq_verb r, cq_url = url @ hq_url r, cq_bearer = None, cq_body = hq_body r\<rparr> = wish_asked url q"
    and g: "says_when g" using assms by (simp_all add: plan_for_def wish_asked_def)
  have "case g f of Inl m \<Rightarrow> \<not> accepted f | Inr (Says t) \<Rightarrow> accepted f | Inr (Saves a b t) \<Rightarrow> False" for f
    using g by (simp add: says_when_def)
  from this [of "w (h @ [wish_asked url q])"] show ?thesis
    using Asks by (auto simp: plan_act_def phone_fetch_def r say_out_def split: sum.splits said.splits)
qed (use assms in \<open>simp add: plan_for_def\<close>)

lemma pinch_arrives:
  "wish_request (W_pinch x y a b dur) = Some q \<Longrightarrow>
   asked (play w late (pinch (Inr url) (dec_int x) (dec_int y) (dec_int a) (dec_int b) (dec_int dur)) h) = [wish_asked url q]
   \<and> last (play w late (pinch (Inr url) (dec_int x) (dec_int y) (dec_int a) (dec_int b) (dec_int dur)) h) = Exited (if accepted (w (h @ [wish_asked url q])) then 0 else 1)"
  by (auto simp: pinch_def reads_phone_def or_die_def phone_fetch_def parse_int_dec json_int_def wish_asked_def request_defs want_done_def throwOnError_def
      accepted_def split: fetched.splits)

lemma forwards_arrive:
  assumes "forwarded c = Some (verb, args)" "jm_get (command_table host) (js verb) = Some run" "plan_for q (run args)"
  shows "asked (play w late (phone_act host tty interrupt (Inr url) c) h) = [wish_asked url q]
    \<and> last (play w late (phone_act host tty interrupt (Inr url) c) h) = Exited (if accepted (w (h @ [wish_asked url q])) then 0 else 1)"
  using plan_arrives [OF assms(3)] assms(1,2) by (simp add: phone_act_def runRegistry_def or_die_def)

lemma table_verbs:
  "jm_get (command_table host) (js ''tap'') = Some (run_press spec_tap (js ''tap'') (js ''tapped''))"
  "jm_get (command_table host) (js ''long-tap'') = Some (run_press spec_long_tap (js ''long_tap'') (js ''long-tapped''))"
  "jm_get (command_table host) (js ''swipe'') = Some run_swipe" "jm_get (command_table host) (js ''key'') = Some run_key"
  "jm_get (command_table host) (js ''type'') = Some run_type" "jm_get (command_table host) (js ''set-text'') = Some run_set_text"
  "jm_get (command_table host) (js ''scroll'') = Some run_scroll" "jm_get (command_table host) (js ''sms'') = Some run_sms"
  "jm_get (command_table host) (js ''call'') = Some run_call" "jm_get (command_table host) (js ''notifications'') = Some run_notifications"
  "jm_get (command_table host) (js ''clipboard'') = Some run_clipboard" "jm_get (command_table host) (js ''apps'') = Some (run_apps host)"
  "jm_get (command_table host) (js ''open'') = Some run_open" "jm_get (command_table host) (js ''record'') = Some run_record"
  "jm_get (command_table host) (js ''snapshot'') = Some run_snapshot"
  by (simp_all add: command_table_def jm_get_def)

lemmas wishes_planned = taps_planned texts_planned calls_planned others_planned

lemma wish_planned:
  assumes "wish_ok c" "wish_request c = Some q" "\<And>x y a b d. c \<noteq> W_pinch x y a b d"
  shows "\<exists>verb args run. forwarded (wish_words c) = Some (verb, args) \<and> jm_get (command_table host) (js verb) = Some run \<and> plan_for q (run args)"
proof (cases c)
  case (W_swipe a b d e dur pause)
  then show ?thesis using swipe_planned [of a b d e dur pause q] assms(2) by (simp add: table_verbs)
next
  case (W_scroll r up)
  then show ?thesis using scroll_planned [of r up q] assms(1,2) by (simp add: table_verbs)
qed (use assms in \<open>auto simp: table_verbs simp del: wish_request.simps intro: wishes_planned\<close>)



section \<open>Looking\<close>

fun only_looks :: "phone_command \<Rightarrow> bool" where
  "only_looks (P_snapshot j) = True"
| "only_looks (P_sms_list j) = True"
| "only_looks (P_sms_read i j) = True"
| "only_looks (P_call_status j) = True"
| "only_looks (P_notifications_list j) = True"
| "only_looks P_clipboard_get = True"
| "only_looks (P_apps_list j) = True"
| "only_looks (P_apps_running j) = True"
| "only_looks (P_contacts_search q j) = True"
| "only_looks (P_info m j) = True"
| "only_looks (P_record_status j) = True"
| "only_looks c = False"

lemma reads_phone_fetch [simp]: "hq_verb r = GET \<Longrightarrow> (\<And>f. reads_only (k f)) \<Longrightarrow> reads_only (phone_fetch url r k)"
  by (simp add: phone_fetch_def)

lemma reads_say_out [simp]: "reads_only (say_out t)"
  by (simp add: say_out_def)

lemma reads_reads_phone [simp]: "hq_verb r = GET \<Longrightarrow> (\<And>x. reads_only (k x)) \<Longrightarrow> reads_only (reads_phone base rd r k)"
  by (simp add: reads_phone_def)

lemma get_verb [simp]: "hq_verb (get_request u) = GET"
  by (simp add: get_request_def)

definition quiet_plan :: "plan \<Rightarrow> bool" where
  "quiet_plan p = (case p of Throws m \<Rightarrow> True | Asks r g \<Rightarrow> hq_verb r = GET \<and> (\<forall>f p b t. g f \<noteq> Inr (Saves p b t)))"

lemma reads_plan: "quiet_plan p \<Longrightarrow> reads_only (plan_act url p)"
  by (auto simp: plan_act_def quiet_plan_def split: plan.splits sum.splits said.splits)

lemma quiet_plans: "quiet_plan (run_snapshot args)" "quiet_plan (run_clipboard [js ''get''])"
  by (auto simp: quiet_plan_def run_snapshot_def run_clipboard_def say_of_def says_json_def sub_or_def arg_at_def split: sum.splits)

lemma looking_reads:
  assumes "only_looks c"
  shows "reads_only (phone_act host tty interrupt base c)"
proof (cases c)
  case (P_snapshot j)
  then show ?thesis by (auto simp: phone_act_def runRegistry_def table_verbs intro!: reads_or_die reads_plan quiet_plans)
next
  case P_clipboard_get
  then show ?thesis by (auto simp: phone_act_def runRegistry_def table_verbs intro!: reads_or_die reads_plan quiet_plans)
qed (use assms in \<open>simp_all add: phone_act_def lists_phone_def sms_read_def call_status_def apps_running_def contacts_search_def info_def record_status_def Let_def split: json.splits\<close>)

text \<open>Commands that look don't change the phone, the machine or the configuration, whatever is answered.\<close>

lemma looking_changes_nothing:
  "only_looks c \<Longrightarrow> list_all looks (play w late (phone_act host tty interrupt base c) h)"
  by (rule reads_only_looks) (rule looking_reads)

lemma radio_reads:
  "reads_only (apns_list tty base j)" "reads_only (apns_status tty base j)" "reads_only (sims_list tty base all j)" "reads_only (wifi_status tty base j)"
  "reads_only (sims_defaults tty base (js ''get'') kv j)"
  by (simp_all add: apns_list_def apns_status_def sims_list_def wifi_status_def sims_defaults_def radio_def display_def printWifiStatus_def)

section \<open>Upsert\<close>

definition apns_request :: "jstr \<Rightarrow> request_verb \<Rightarrow> jstr \<Rightarrow> request_body \<Rightarrow> cli_request" where
  "apns_request url v path body = \<lparr>cq_verb = v, cq_url = url @ js ''/api/'' @ js ''apns'' @ path, cq_bearer = None, cq_body = body\<rparr>"

lemma asked_prints [simp]: "asked (play w late (prints ls a) h) = asked (play w late a h)"
  by (induction ls) (simp_all add: prints_def)

lemma asked_display [simp]: "asked (play w late (display tty j v) h) = []" "asked (play w late (shows_record tty j r Finished) h) = []"
  by (simp_all add: display_def shows_answer_def shows_record_def split: option.splits)

text \<open>
  Without an id, \<open>upsert\<close> lists the overrides and sends one more request: it replaces the first override with the same operator's digits
  and the same APN, and creates one only if there is none.
\<close>

lemma upsert_asks:
  assumes "or_empty (ao_id given_opts) = []" "o1 = addApnOptions True given_opts" "apnBody (Some name) o1 = Inr body"
    and "radio_json (w [apns_request url GET [] No_body]) = Inr (JArr rows)" "JNull \<notin> set rows"
  shows "asked (play w late (apns_upsert tty (Inr url) name given_opts) [])
    = [apns_request url GET [] No_body,
       (case find (same_apn o1) rows of
          Some row \<Rightarrow> (case json_get row (js ''id'') of Some i \<Rightarrow> apns_request url PUT (js ''/'' @ js_string i) (Json_body body)
             | None \<Rightarrow> apns_request url POST [] (Json_body body))
        | None \<Rightarrow> apns_request url POST [] (Json_body body))]"
proof -
  have f: "find_with P rs = Some (find P rs)" if "JNull \<notin> set rs" for P rs
    using that by (induction rs) auto
  have i: "ao_id o1 = ao_id given_opts" by (simp add: assms(2) addApnOptions_def)
  have put: "asked (play w late (apns_put tty (Inr url) name o1 x) h) = [case x of
      Some v \<Rightarrow> apns_request url PUT (js ''/'' @ js_string v) (Json_body body) | None \<Rightarrow> apns_request url POST [] (Json_body body)]" for x h
    by (auto simp: apns_put_def assms(3) or_die_def radio_def apns_request_def split: option.splits sum.splits)
  have "asked (play w late (apns_upsert tty (Inr url) name given_opts) [])
      = apns_request url GET [] No_body # asked (play w late (or_die (row_id o1 rows) (apns_put tty (Inr url) name o1)) [apns_request url GET [] No_body])"
    using assms(1,4) i by (simp add: apns_upsert_def Let_def assms(2) [symmetric] radio_def or_die_def items_of_def apns_request_def)
  then show ?thesis
    by (simp add: row_id_def f [OF assms(5)] or_die_def put split: option.splits)
qed

end
