(* ===== verification/Trace.thy ===== *)
theory Trace
  imports Sandbox
begin

text \<open>
  The trace of a developer's run (\<open>cli/src/commands/otacon/_trace.ts\<close>): with \<open>OTACON_TRACE_DIR\<close> set, a command that acts
  on the phone first saves a screenshot with the action drawn on it and a sidecar, and \<open>screenshot\<close> and \<open>snapshot\<close> save
  what they got. The directory is the files in it, by name; its other errors are left out. \<open>sharp\<close>, which draws, is
  the parameter \<open>draw\<close> (\<open>None\<close>: it throws). The time of a capture is an input.
\<close>

section \<open>What is drawn\<close>

datatype drawing = D_tap "int option" "int option" | D_swipe "int option" "int option" "int option" "int option" | D_text jstr

text \<open>\<open>`${verb}: ${args.join(" ")}`\<close>\<close>

definition verb_label :: "jstr \<Rightarrow> jstr list \<Rightarrow> drawing" where
  "verb_label verb args = D_text (verb @ js '': '' @ join_args args)"

definition labelled_verbs :: "jstr list" where
  "labelled_verbs = [js ''key'', js ''type'', js ''set-text'', js ''scroll'', js ''open'', js ''apps'', js ''call'', js ''clipboard'',
     js ''notifications'', js ''record'', js ''sms'']"

definition trace_inferAnnotation :: "jstr \<Rightarrow> jstr list \<Rightarrow> drawing option" where
  "trace_inferAnnotation verb args =
     (if verb = js ''tap'' \<or> verb = js ''long-tap''
      then (case (if length args \<ge> 2 then (arg_int args 0, arg_int args 1) else (None, None)) of
          (Some x, Some y) \<Rightarrow> Some (D_tap (Some x) (Some y)) | _ \<Rightarrow> Some (verb_label verb args))
      else if verb = js ''swipe'' \<and> length args \<ge> 4 then Some (D_swipe (arg_int args 0) (arg_int args 1) (arg_int args 2) (arg_int args 3))
      else if verb \<in> set labelled_verbs then Some (verb_label verb args)
      else None)"

text \<open>The search for an element; the top of the stack is the head of the list.\<close>

function trace_search :: "jstr \<Rightarrow> json list \<Rightarrow> json option" where
  "trace_search ref [] = None"
| "trace_search ref (n # st) =
     (if \<not> truthy (Some n) then trace_search ref st
      else if json_get n (js ''ref'') = Some (JStr ref) then Some n
      else trace_search ref (rev (children_of n) @ st))"
  by pat_completeness auto
termination
proof (relation "measure (\<lambda>(ref, st). weight st)")
  fix ref n st
  show "((ref, rev (children_of n) @ st), ref, n # st) \<in> measure (\<lambda>(ref, st). weight st)"
    using weight_children [of n] weight_rev_append [of "children_of n" st] by (simp add: weight_def)
qed (simp_all add: weight_def)

definition trace_findRef :: "json \<Rightarrow> jstr \<Rightarrow> json option" where
  "trace_findRef tree ref = trace_search ref (case tree of JArr vs \<Rightarrow> rev vs | _ \<Rightarrow> [tree])"

text \<open>\<open>a ?? b ?? 0\<close> and \<open>a ?? ((b ?? 0) + (c ?? 0))\<close>, and the middle of the two. The host sends numbers; \<open>None\<close> is \<open>NaN\<close>.\<close>

definition middle :: "json \<Rightarrow> string \<Rightarrow> string \<Rightarrow> string \<Rightarrow> string \<Rightarrow> int option" where
  "middle b near far pos extent = (let g = (\<lambda>k. json_get b (js k)) in
     case (finite_num (nullish_or (g near) (nullish_or (g pos) (Some (JNum 0)))), or_sum (g far) (g pos) (g extent)) of
       (Some l, Some r) \<Rightarrow> Some ((l + r) div 2) | _ \<Rightarrow> None)"

definition js_object :: "json \<Rightarrow> bool" where
  "js_object v = (case v of JObj _ \<Rightarrow> True | JArr _ \<Rightarrow> True | _ \<Rightarrow> False)"

text \<open>The tree is what \<open>client.snapshot("json")\<close> gives; \<open>None\<close>: it throws.\<close>

definition resolveRefToCoords :: "json option \<Rightarrow> jstr \<Rightarrow> (int option \<times> int option) option" where
  "resolveRefToCoords tree ref =
     (if \<not> is_ref ref then None
      else (case tree of None \<Rightarrow> None
        | Some t \<Rightarrow> (case trace_findRef t ref of None \<Rightarrow> None
          | Some n \<Rightarrow> (case json_get n (js ''bounds'') of
              Some b \<Rightarrow> if js_object b then Some (middle b ''left'' ''right'' ''x'' ''width'', middle b ''top'' ''bottom'' ''y'' ''height'') else None
            | None \<Rightarrow> None))))"

section \<open>The captures\<close>

datatype trace_entry = Picture "nat list" | Sidecar jstr

type_synonym traces = "(jstr \<times> trace_entry) list"

text \<open>\<open>/^(\d{3})-/\<close> and \<open>nextSeq\<close>; \<open>None\<close>: the directory can't be read.\<close>

definition file_seq :: "jstr \<Rightarrow> nat option" where
  "file_seq name = (if length name \<ge> 4 \<and> list_all is_digit (take 3 name) \<and> name ! 3 = 45 then Some (digits_value (take 3 name)) else None)"

definition max_seq :: "nat \<Rightarrow> jstr \<Rightarrow> nat" where
  "max_seq m name = (case file_seq name of None \<Rightarrow> m | Some n \<Rightarrow> if n > m then n else m)"

definition nextSeq :: "jstr list option \<Rightarrow> nat" where
  "nextSeq found = (case found of None \<Rightarrow> 1 | Some names \<Rightarrow> foldl max_seq 0 names + 1)"

definition seqStr :: "nat \<Rightarrow> jstr" where
  "seqStr n = replicate (3 - length (dec_nat n)) 48 @ dec_nat n"

definition baseName :: "nat \<Rightarrow> jstr \<Rightarrow> jstr" where
  "baseName n verb = seqStr n @ js ''-'' @ verb"

definition sidecar :: "nat \<Rightarrow> jstr \<Rightarrow> jstr list \<Rightarrow> jstr \<Rightarrow> (jstr \<times> json) list \<Rightarrow> trace_entry" where
  "sidecar n verb args ts extra = Sidecar (json_pretty 0 (JObj ([(js ''seq'', JNum (int n)), (js ''verb'', JStr verb),
     (js ''args'', JArr (map JStr args)), (js ''ts'', JStr ts)] @ extra)))"

record capture_action =
  ca_verb :: jstr
  ca_args :: "jstr list"
  ca_annotation :: "drawing option"
  ca_png :: "nat list option"

type_synonym drawer = "drawing \<Rightarrow> nat list \<Rightarrow> nat list option"

text \<open>The files of a capture under its number. \<open>taken\<close> is what \<open>client.screenshot()\<close> gives.\<close>

definition captured_files :: "drawer \<Rightarrow> capture_action \<Rightarrow> jstr + nat list \<Rightarrow> jstr \<Rightarrow> nat \<Rightarrow> traces option" where
  "captured_files draw a taken ts n = (let base = baseName n (ca_verb a); side = sidecar n (ca_verb a) (ca_args a) ts in
     case (case ca_png a of Some png \<Rightarrow> Inr png | None \<Rightarrow> taken) of
       Inl m \<Rightarrow> Some [(base @ js ''.json'', side [(js ''screenshot_error'', JStr m)])]
     | Inr png \<Rightarrow>
         (case (case ca_annotation a of Some d \<Rightarrow> Some d | None \<Rightarrow> trace_inferAnnotation (ca_verb a) (ca_args a)) of
            None \<Rightarrow> Some [(base @ js ''.png'', Picture png), (base @ js ''.json'', side [])]
          | Some d \<Rightarrow> map_option (\<lambda>out. [(base @ js ''.png'', Picture out), (base @ js ''.json'', side [])]) (draw d png)))"

definition screenshot_files :: "jstr list \<Rightarrow> nat list \<Rightarrow> jstr \<Rightarrow> nat \<Rightarrow> traces" where
  "screenshot_files args png ts n = [(seqStr n @ js ''-screenshot.png'', Picture png),
     (seqStr n @ js ''-screenshot.json'', sidecar n (js ''screenshot'') args ts [])]"

definition snapshot_files :: "jstr list \<Rightarrow> jstr \<Rightarrow> jstr \<Rightarrow> nat \<Rightarrow> traces" where
  "snapshot_files args out ts n = [(seqStr n @ js ''-snapshot.json'', sidecar n (js ''snapshot'') args ts [(js ''output'', JStr out)])]"

datatype trace_event =
    T_action capture_action "jstr + nat list" jstr
  | T_screenshot "jstr list" "nat list" jstr
  | T_snapshot "jstr list" jstr jstr

fun event_files :: "drawer \<Rightarrow> trace_event \<Rightarrow> nat \<Rightarrow> traces option" where
  "event_files draw (T_action a taken ts) n = captured_files draw a taken ts n"
| "event_files draw (T_screenshot args png ts) n = Some (screenshot_files args png ts n)"
| "event_files draw (T_snapshot args out ts) n = Some (snapshot_files args out ts n)"

text \<open>A capture into the directory; \<open>None\<close>: \<open>sharp\<close> threw, and the command ends there. Then a run of commands.\<close>

definition record_trace :: "drawer \<Rightarrow> trace_event \<Rightarrow> traces \<Rightarrow> traces option" where
  "record_trace draw e fs = map_option (foldl (\<lambda>fs f. jm_set (fst f) (snd f) fs) fs) (event_files draw e (nextSeq (Some (map fst fs))))"

definition captureAnnotated :: "drawer \<Rightarrow> jstr option \<Rightarrow> capture_action \<Rightarrow> jstr + nat list \<Rightarrow> jstr \<Rightarrow> traces \<Rightarrow> traces option" where
  "captureAnnotated draw dir a taken ts fs = (if or_empty dir = [] then Some fs else record_trace draw (T_action a taken ts) fs)"

fun trace_run :: "drawer \<Rightarrow> trace_event list \<Rightarrow> traces \<Rightarrow> traces" where
  "trace_run draw [] fs = fs"
| "trace_run draw (e # es) fs = trace_run draw es (case record_trace draw e fs of None \<Rightarrow> fs | Some gs \<Rightarrow> gs)"

section \<open>The captures of the commands\<close>

definition capturing :: "string \<Rightarrow> jstr list \<Rightarrow> drawing option \<Rightarrow> capture_action option" where
  "capturing verb args d = Some \<lparr>ca_verb = js verb, ca_args = args, ca_annotation = d, ca_png = None\<rparr>"

definition capture_if :: "bool \<Rightarrow> string \<Rightarrow> jstr list \<Rightarrow> capture_action option" where
  "capture_if b verb args = (if b then capturing verb args None else None)"

definition press_capture :: "string \<Rightarrow> json option \<Rightarrow> jstr list \<Rightarrow> capture_action option" where
  "press_capture verb tree args =
     (if length args = 1 \<and> is_ref (hd args)
      then capturing verb args (map_option (\<lambda>(x, y). D_tap x y) (resolveRefToCoords tree (hd args)))
      else if length args \<ge> 2 then (case (arg_int args 0, arg_int args 1) of
          (Some x, Some y) \<Rightarrow> capturing verb args (Some (D_tap (Some x) (Some y))) | _ \<Rightarrow> None)
      else None)"

definition swipe_capture :: "jstr list \<Rightarrow> capture_action option" where
  "swipe_capture args = (if length args < 4 then None
     else (case (arg_int args 0, arg_int args 1, arg_int args 2, arg_int args 3) of
         (Some a, Some b, Some c, Some d) \<Rightarrow> capturing ''swipe'' args (Some (D_swipe (Some a) (Some b) (Some c) (Some d)))
       | _ \<Rightarrow> None))"

definition key_capture :: "jstr list \<Rightarrow> capture_action option" where
  "key_capture args = (case given args 0 of None \<Rightarrow> None | Some k \<Rightarrow> capturing ''key'' args (Some (D_text (js ''key: '' @ k))))"

definition type_capture :: "jstr list \<Rightarrow> capture_action option" where
  "type_capture args = (let text = join_args args in
     if text = [] then None else capturing ''type'' args (Some (D_text (js ''type: '' @ take 60 text))))"

definition set_text_capture :: "jstr list \<Rightarrow> capture_action option" where
  "set_text_capture args = (case given args 0 of None \<Rightarrow> None
     | Some ref \<Rightarrow> if tl args = [] then None
         else capturing ''set-text'' args (Some (D_text (js ''set-text '' @ ref @ js '': '' @ take 50 (join_args (tl args))))))"

definition scroll_capture :: "jstr list \<Rightarrow> capture_action option" where
  "scroll_capture args = (case scroll_opts args [] (js ''down'') of (ref, dir) \<Rightarrow>
     if ref = [] then None else capturing ''scroll'' args (Some (D_text (js ''scroll '' @ ref @ js '' '' @ dir))))"

definition open_capture :: "jstr list \<Rightarrow> capture_action option" where
  "open_capture args = (case given args 0 of None \<Rightarrow> None | Some u \<Rightarrow> capturing ''open'' args (Some (D_text (js ''open '' @ u))))"

definition apps_capture :: "jstr list \<Rightarrow> capture_action option" where
  "apps_capture args = capture_if (sub_or args (js ''list'') \<in> {js ''launch'', js ''stop'', js ''install''}) ''apps'' args"

definition MUTATING_SUBS :: "jstr list" where
  "MUTATING_SUBS = map js [''dial'', ''answer'', ''reject'', ''hangup'', ''hold'', ''resume'', ''swap'', ''merge'', ''dtmf'']"

definition call_capture :: "jstr list \<Rightarrow> capture_action option" where
  "call_capture args = capture_if (sub_or args [] \<noteq> [] \<and> sub_or args [] \<in> set MUTATING_SUBS) ''call'' args"

definition sms_capture :: "jstr list \<Rightarrow> capture_action option" where
  "sms_capture args = capture_if (sub_or args (js ''list'') = js ''send'') ''sms'' args"

definition clipboard_capture :: "jstr list \<Rightarrow> capture_action option" where
  "clipboard_capture args = capture_if (sub_or args (js ''get'') = js ''set'') ''clipboard'' args"

definition notifications_capture :: "jstr list \<Rightarrow> capture_action option" where
  "notifications_capture args = capture_if (sub_or args (js ''list'') \<in> {js ''dismiss'', js ''action''}) ''notifications'' args"

definition record_capture :: "jstr list \<Rightarrow> capture_action option" where
  "record_capture args = capture_if (sub_or args [] \<in> {js ''start'', js ''stop''}) ''record'' args"

text \<open>The commands that capture before they act, by name.\<close>

definition capture_table :: "json option \<Rightarrow> (jstr \<times> (jstr list \<Rightarrow> capture_action option)) list" where
  "capture_table tree =
     [(js ''tap'', press_capture ''tap'' tree), (js ''long-tap'', press_capture ''long-tap'' tree), (js ''swipe'', swipe_capture),
      (js ''key'', key_capture), (js ''type'', type_capture), (js ''set-text'', set_text_capture), (js ''scroll'', scroll_capture),
      (js ''apps'', apps_capture), (js ''sms'', sms_capture), (js ''call'', call_capture), (js ''clipboard'', clipboard_capture),
      (js ''notifications'', notifications_capture), (js ''open'', open_capture), (js ''record'', record_capture)]"

definition command_capture :: "json option \<Rightarrow> jstr \<Rightarrow> jstr list \<Rightarrow> capture_action option" where
  "command_capture tree name args = (case map_of (capture_table tree) name of None \<Rightarrow> None | Some f \<Rightarrow> f args)"

text \<open>A command with tracing on: what is in the directory when it sends its request, and the request.\<close>

definition traced_command :: "(jstr \<Rightarrow> jstr + nat list) \<Rightarrow> drawer \<Rightarrow> json option \<Rightarrow> jstr + nat list \<Rightarrow> jstr \<Rightarrow> jstr \<Rightarrow> jstr list \<Rightarrow> traces \<Rightarrow> (traces \<times> plan) option" where
  "traced_command host draw tree taken ts name args fs =
     (case map_of (command_table host) name of None \<Rightarrow> None
      | Some run \<Rightarrow> (case command_capture tree name args of None \<Rightarrow> Some (fs, run args)
         | Some a \<Rightarrow> map_option (\<lambda>gs. (gs, run args)) (record_trace draw (T_action a taken ts) fs)))"

end
