(* ===== verification/TraceRun.thy ===== *)
theory TraceRun
  imports Trace
begin

text \<open>
  What holds of the trace: nothing acts on the phone uncaptured, captures are numbered one after the other and keep
  what was there before, up to the 999th; and why an element of the host's tree is never marked.
\<close>

section \<open>Every action is captured\<close>

definition asks_change :: "plan \<Rightarrow> bool" where
  "asks_change p = (case p of Throws m \<Rightarrow> False | Asks r k \<Rightarrow> hq_verb r \<noteq> GET)"

lemmas plan_defs = action_request_def json_request_def get_request_def call_op_request_def one_call_def all_calls_def usage_error_def

lemmas run_defs = run_press_def run_swipe_def run_key_def run_type_def run_set_text_def run_scroll_def run_screenshot_def run_snapshot_def
  run_info_def run_apps_def run_sms_def run_call_def run_clipboard_def run_contacts_def run_notifications_def run_open_def run_record_def

lemmas capture_defs = press_capture_def swipe_capture_def key_capture_def type_capture_def set_text_capture_def scroll_capture_def
  open_capture_def apps_capture_def call_capture_def sms_capture_def clipboard_capture_def notifications_capture_def record_capture_def
  capture_if_def capturing_def

lemma press_captured: "asks_change (run_press sp act past args) \<Longrightarrow> press_capture verb tree args \<noteq> None"
  by (auto simp: asks_change_def run_press_def press_capture_def plan_defs capturing_def Let_def split: if_splits option.splits)

lemma swipe_captured: "asks_change (run_swipe args) \<Longrightarrow> swipe_capture args \<noteq> None"
  by (auto simp: asks_change_def run_swipe_def swipe_capture_def plan_defs capturing_def split: if_splits option.splits)

lemma typing_captured:
  "asks_change (run_key args) \<Longrightarrow> key_capture args \<noteq> None"
  "asks_change (run_type args) \<Longrightarrow> type_capture args \<noteq> None"
  "asks_change (run_set_text args) \<Longrightarrow> set_text_capture args \<noteq> None"
  "asks_change (run_scroll args) \<Longrightarrow> scroll_capture args \<noteq> None"
  "asks_change (run_open args) \<Longrightarrow> open_capture args \<noteq> None"
  by (auto simp: asks_change_def run_defs capture_defs plan_defs Let_def split: if_splits option.splits prod.splits)

lemma apps_captured: "asks_change (run_apps host args) \<Longrightarrow> apps_capture args \<noteq> None"
  by (auto simp: asks_change_def run_apps_def apps_capture_def plan_defs capture_if_def capturing_def Let_def split: if_splits option.splits)

lemma call_captured: "asks_change (run_call args) \<Longrightarrow> call_capture args \<noteq> None"
  by (cases args) (auto simp: asks_change_def run_call_def call_capture_def plan_defs capture_if_def capturing_def MUTATING_SUBS_def sub_or_def arg_at_def
      split: if_splits option.splits)

lemma texts_captured:
  "asks_change (run_sms args) \<Longrightarrow> sms_capture args \<noteq> None"
  "asks_change (run_clipboard args) \<Longrightarrow> clipboard_capture args \<noteq> None"
  "asks_change (run_notifications args) \<Longrightarrow> notifications_capture args \<noteq> None"
  by (auto simp: asks_change_def run_defs capture_defs plan_defs Let_def split: if_splits option.splits)

lemma record_captured: "asks_change (run_record args) \<Longrightarrow> record_capture args \<noteq> None"
  by (cases args) (auto simp: asks_change_def run_record_def record_capture_def plan_defs capture_if_def capturing_def sub_or_def arg_at_def Let_def
      split: if_splits)

lemma looks_only: "\<not> asks_change (run_screenshot args)" "\<not> asks_change (run_snapshot args)" "\<not> asks_change (run_info args)"
    "\<not> asks_change (run_contacts args)"
  by (auto simp: asks_change_def run_defs plan_defs Let_def split: option.splits)

lemma command_captured:
  assumes "map_of (command_table host) name = Some run" and "asks_change (run args)"
  shows "command_capture tree name args \<noteq> None"
proof -
  have p: "press_capture verb tree args \<noteq> None" if "run = run_press sp act past" for verb sp act past
    using assms(2) press_captured unfolding that by blast
  show ?thesis
    using assms p by (auto simp: command_table_def command_capture_def capture_table_def looks_only js_def
        dest!: swipe_captured typing_captured apps_captured call_captured texts_captured record_captured split: if_splits)
qed

lemma capture_names:
  "command_capture tree name args = Some a \<Longrightarrow> ca_verb a = name \<and> ca_args a = args"
  by (auto simp: command_capture_def capture_table_def capture_defs Let_def split: if_splits option.splits prod.splits)

section \<open>The numbers\<close>

lemma length_dec_nat: "n < 1000 \<Longrightarrow> length (dec_nat n) \<le> 3"
  by (subst dec_nat.simps, subst dec_nat.simps, subst dec_nat.simps) simp

lemma digits_value_zeros: "digits_value (replicate k 48 @ s) = digits_value s"
  by (induction k) (simp_all add: digits_value_def)

lemma seqStr_value: "digits_value (seqStr n) = n"
  by (simp add: seqStr_def digits_value_zeros dec_nat_value)

lemma seqStr_digits: "list_all is_digit (seqStr n)"
  by (simp add: seqStr_def dec_nat_digits list_all_iff is_digit_def)
    (use dec_nat_digits in \<open>auto simp: list_all_iff is_digit_def\<close>)

lemma length_seqStr: "n < 1000 \<Longrightarrow> length (seqStr n) = 3"
  using length_dec_nat [of n] by (simp add: seqStr_def)

lemma file_seq_base: "n < 1000 \<Longrightarrow> file_seq (seqStr n @ 45 # rest) = Some n"
  using length_seqStr [of n] seqStr_digits [of n] seqStr_value [of n] by (simp add: file_seq_def nth_append)

lemma digits_value_three: "list_all is_digit s \<Longrightarrow> length s = 3 \<Longrightarrow> digits_value s < 1000"
  by (auto simp: length_Suc_conv numeral_3_eq_3 digits_value_def is_digit_def)

lemma file_seq_less: "file_seq name = Some n \<Longrightarrow> n < 1000"
  by (auto simp: file_seq_def intro!: digits_value_three split: if_splits)

lemma max_seq_alt: "max_seq m name = max m (case file_seq name of None \<Rightarrow> 0 | Some n \<Rightarrow> n)"
  by (simp add: max_seq_def max_def split: option.splits)

lemma max_seq_fold: "foldl max_seq m names = max m (foldl max_seq 0 names)"
  by (induction names rule: rev_induct) (simp_all add: max_seq_alt max.assoc)

lemma nextSeq_bound: "nextSeq (Some names) \<le> 1000"
proof -
  have "foldl max_seq 0 names < 1000"
    by (induction names rule: rev_induct) (auto simp: max_seq_alt file_seq_less split: option.splits)
  then show ?thesis by (simp add: nextSeq_def)
qed

lemma nextSeq_append: "nextSeq (Some (names @ later)) = max (nextSeq (Some names)) (nextSeq (Some later))"
  by (simp add: nextSeq_def max_seq_fold [of "foldl max_seq 0 names"])

lemma nextSeq_above: "name \<in> set names \<Longrightarrow> file_seq name = Some n \<Longrightarrow> n < nextSeq (Some names)"
proof (induction names rule: rev_induct)
  case (snoc x xs)
  then show ?case by (auto simp: nextSeq_def max_seq_alt less_Suc_eq_le max.coboundedI1 max.coboundedI2)
qed simp

section \<open>The files of a capture\<close>

definition under :: "nat \<Rightarrow> traces \<Rightarrow> bool" where
  "under n fs = (fs \<noteq> [] \<and> distinct (map fst fs) \<and> list_all (\<lambda>f. \<exists>rest. fst f = seqStr n @ 45 # rest) fs)"

lemma event_files_under: "event_files draw e n = Some fs \<Longrightarrow> under n fs"
  by (cases e) (auto simp: under_def captured_files_def screenshot_files_def snapshot_files_def baseName_def js_def Let_def split: option.splits sum.splits)

lemma under_seq: "n < 1000 \<Longrightarrow> under n fs \<Longrightarrow> f \<in> set fs \<Longrightarrow> file_seq (fst f) = Some n"
  by (auto simp: under_def list_all_iff file_seq_base)

lemma nextSeq_under:
  assumes "n < 1000" and "under n fs"
  shows "nextSeq (Some (map fst fs)) = Suc n"
proof -
  have "foldl max_seq 0 (map fst gs) = n" if "gs \<noteq> []" and "\<forall>f \<in> set gs. file_seq (fst f) = Some n" for gs :: traces
    using that by (induction gs rule: rev_induct) (force simp: max_seq_alt)+
  with assms under_seq show ?thesis by (simp add: nextSeq_def under_def)
qed

lemma add_files:
  "distinct (map fst fs) \<Longrightarrow> fst ` set fs \<inter> fst ` set gs = {} \<Longrightarrow> foldl (\<lambda>fs f. jm_set (fst f) (snd f) fs) gs fs = gs @ fs"
  by (induction fs arbitrary: gs) (auto simp: jm_set_fresh)

text \<open>A capture before the thousandth adds its files to the directory, under the next number.\<close>

lemma record_trace_adds:
  assumes n: "n = nextSeq (Some (map fst fs))" "n < 1000"
  shows "record_trace draw e fs = map_option (\<lambda>gs. fs @ gs) (event_files draw e n)"
proof (cases "event_files draw e n")
  case (Some gs)
  have u: "under n gs" using Some by (rule event_files_under)
  have "fst ` set gs \<inter> fst ` set fs = {}"
  proof (rule ccontr)
    assume "fst ` set gs \<inter> fst ` set fs \<noteq> {}"
    then obtain g where "g \<in> set gs" "fst g \<in> set (map fst fs)" by auto
    then have "n < nextSeq (Some (map fst fs))" using under_seq [OF n(2) u] nextSeq_above by blast
    with n(1) show False by simp
  qed
  with u Some n(1) show ?thesis by (simp add: record_trace_def under_def add_files)
qed (simp add: record_trace_def n(1) [symmetric])

text \<open>The files of a run of commands, by number; a command whose picture can't be drawn has none.\<close>

fun numbered :: "drawer \<Rightarrow> nat \<Rightarrow> trace_event list \<Rightarrow> traces" where
  "numbered draw n [] = []"
| "numbered draw n (e # es) = (case event_files draw e n of None \<Rightarrow> numbered draw n es | Some fs \<Rightarrow> fs @ numbered draw (Suc n) es)"

lemma trace_run_numbered:
  "nextSeq (Some (map fst fs)) + length es \<le> 1000 \<Longrightarrow> trace_run draw es fs = fs @ numbered draw (nextSeq (Some (map fst fs))) es"
proof (induction es arbitrary: fs)
  case (Cons e es)
  let ?n = "nextSeq (Some (map fst fs))"
  have n: "?n < 1000" using Cons.prems by simp
  note r = record_trace_adds [OF refl n, of draw e]
  show ?case
  proof (cases "event_files draw e ?n")
    case None
    then show ?thesis using r Cons by simp
  next
    case (Some gs)
    then have "nextSeq (Some (map fst (fs @ gs))) = Suc ?n"
      using nextSeq_under [OF n event_files_under] by (simp add: nextSeq_append)
    then show ?thesis using r Some Cons.IH [of "fs @ gs"] Cons.prems by simp
  qed
qed simp

text \<open>From the thousandth capture on the number stays: the pattern knows three digits.\<close>

lemma numbers_run_out:
  assumes "nextSeq (Some names) = 1000"
  shows "nextSeq (Some (names @ [baseName 1000 verb @ ext])) = 1000"
  using assms nextSeq_bound [of "[baseName 1000 verb @ ext]"] by (simp add: nextSeq_append)

section \<open>Elements of the host's tree\<close>

fun no_ref :: "json \<Rightarrow> bool" where
  "no_ref (JObj kvs) = (jm_get kvs (js ''ref'') = None \<and> list_all (\<lambda>kv. no_ref (snd kv)) kvs)"
| "no_ref (JArr vs) = list_all no_ref vs"
| "no_ref _ = True"

lemma no_ref_child: "no_ref n \<Longrightarrow> json_get n k = Some v \<Longrightarrow> no_ref v"
proof (cases n)
  case (JObj kvs)
  assume "no_ref n" and "json_get n k = Some v"
  then show "no_ref v" using JObj by (force simp: list_all_iff jm_get_def dest: map_of_SomeD)
qed auto

lemma no_ref_children: "no_ref n \<Longrightarrow> list_all no_ref (children_of n)"
  using no_ref_child [of n "js ''children''"] by (force simp: children_of_def split: option.split json.split)

lemma no_ref_field: "no_ref n \<Longrightarrow> json_get n (js ''ref'') = None"
  by (cases n) auto

lemma trace_search_none: "list_all no_ref st \<Longrightarrow> trace_search ref st = None"
  by (induction ref st rule: trace_search.induct) (auto simp: no_ref_field no_ref_children)

text \<open>
  The host names an element in \<open>ref_id\<close>, so a tap on one is drawn as its text, where \<open>annotate.ts\<close> marks the element.
\<close>

lemma host_elements_unmarked:
  assumes "no_ref tree" and "is_ref ref"
  shows "resolveRefToCoords (Some tree) ref = None"
    and "command_capture (Some tree) (js ''tap'') [ref] = capturing ''tap'' [ref] None"
proof -
  have "trace_findRef tree ref = None"
    unfolding trace_findRef_def using assms(1) by (intro trace_search_none) (cases tree, auto)
  then show r: "resolveRefToCoords (Some tree) ref = None" by (simp add: resolveRefToCoords_def)
  show "command_capture (Some tree) (js ''tap'') [ref] = capturing ''tap'' [ref] None"
    using assms(2) r by (simp add: command_capture_def capture_table_def press_capture_def)
qed

lemma host_element_marked_elsewhere:
  "let tree = JArr [JObj [(js ''ref_id'', JStr (js ''e5'')), (js ''bounds'', JObj [(js ''x1'', JNum 10), (js ''y1'', JNum 20), (js ''x2'', JNum 30), (js ''y2'', JNum 40)])]]
   in no_ref tree \<and> resolve_ref (Some tree) (js ''e5'') = Some (10, 20, 30, 40) \<and> resolveRefToCoords (Some tree) (js ''e5'') = None"
  by code_simp

section \<open>The properties\<close>

text \<open>
  C6: with tracing on, a command that makes the phone do something captures first, under its own name and arguments, and
  sends its request only once the capture is in the directory.
\<close>

theorem every_action_is_captured:
  assumes "map_of (command_table host) name = Some run" and "asks_change (run args)"
  shows "\<exists>a. command_capture tree name args = Some a \<and> ca_verb a = name \<and> ca_args a = args
    \<and> traced_command host draw tree taken ts name args fs = map_option (\<lambda>gs. (gs, run args)) (record_trace draw (T_action a taken ts) fs)"
proof -
  obtain a where a: "command_capture tree name args = Some a" using command_captured [OF assms] by blast
  then show ?thesis using assms(1) capture_names [OF a] by (simp add: traced_command_def)
qed

theorem every_action_is_captured_witness:
  "\<exists>a. command_capture None (js ''type'') [js ''hi''] = Some a \<and> ca_verb a = js ''type'' \<and> ca_args a = [js ''hi'']
    \<and> traced_command (\<lambda>p. Inr []) (\<lambda>d png. Some png) None (Inr [1]) [] (js ''type'') [js ''hi''] []
      = map_option (\<lambda>gs. (gs, run_type [js ''hi''])) (record_trace (\<lambda>d png. Some png) (T_action a (Inr [1]) []) [])"
proof (rule every_action_is_captured)
  show "map_of (command_table (\<lambda>p. Inr [])) (js ''type'') = Some run_type" by (simp add: command_table_def js_def)
  show "asks_change (run_type [js ''hi''])" by (simp add: asks_change_def run_type_def plan_defs join_args_def js_def)
qed



end
